(* ===== verification/Core_Prelude.thy ===== *)
theory Core_Prelude
  imports
    Main
    "HOL-Library.Char_ord"
    "HOL-Library.List_Lexorder"
    "HOL-Library.Product_Lexorder"
    "HOL-Library.Sublist"
    "HOL-Library.AList"
    "HOL-Library.Multiset"
begin

text \<open>
  Shared vocabulary of the development: what the Go sources use of the language and of its
  standard library (package \<open>strings\<close>, 64-bit integers, instants of \<open>time.Time\<close>, maps that are
  iterated, \<open>sort.Slice\<close> with a key), and the generic lemmas about them.

  A Go \<open>string\<close> is a sequence of bytes, here a \<open>char list\<close>. \<open>TrimSpace\<close> follows the Unicode
  white space of \<open>unicode.IsSpace\<close> at the level of the UTF-8 bytes. The case functions
  (\<open>ToLower\<close>, \<open>ToUpper\<close>, \<open>EqualFold\<close>) act on ASCII letters: strings with letters outside ASCII
  are not covered by what is proved about them. \<open>time.Time\<close> is the instant in nanoseconds since
  the Unix epoch, \<open>time.Duration\<close> is an \<open>int\<close> of nanoseconds kept in the range of \<open>int64\<close> where the
  code computes with it; the wall clock is an argument of every operation that reads it.

  The theory ends with the contracts that several components meet, as locales: a limiter with a budget, a cache whose
  entries expire, and a step relation with an invariant.
\<close>

named_theorems go_simps \<open>rewrite rules of the Go string library\<close>
named_theorems go_defs \<open>definitions to unfold when a concrete input is evaluated\<close>

type_synonym go_time = int
type_synonym go_duration = int

section \<open>Results\<close>

abbreviation Ok :: "'a \<Rightarrow> 'e + 'a" where
  "Ok x \<equiv> Inr x"

abbreviation Err :: "'e \<Rightarrow> 'e + 'a" where
  "Err e \<equiv> Inl e"

definition is_ok :: "'e + 'a \<Rightarrow> bool" where
  "is_ok r = (case r of Inl _ \<Rightarrow> False | Inr _ \<Rightarrow> True)"

lemma is_ok_simps [simp]:
  "is_ok (Inr x) = True"
  "is_ok (Inl e) = False"
  by (simp_all add: is_ok_def)

section \<open>Package strings\<close>

subsection \<open>Trimming\<close>

text \<open>The UTF-8 encodings of the code points for which \<open>unicode.IsSpace\<close> holds.\<close>

definition space_runes :: "string list" where
  "space_runes =
     [[CHR 0x20], [CHR 0x09], [CHR 0x0A], [CHR 0x0B], [CHR 0x0C], [CHR 0x0D],
      [CHR 0xC2, CHR 0x85], [CHR 0xC2, CHR 0xA0], [CHR 0xE1, CHR 0x9A, CHR 0x80],
      [CHR 0xE2, CHR 0x80, CHR 0x80], [CHR 0xE2, CHR 0x80, CHR 0x81],
      [CHR 0xE2, CHR 0x80, CHR 0x82], [CHR 0xE2, CHR 0x80, CHR 0x83],
      [CHR 0xE2, CHR 0x80, CHR 0x84], [CHR 0xE2, CHR 0x80, CHR 0x85],
      [CHR 0xE2, CHR 0x80, CHR 0x86], [CHR 0xE2, CHR 0x80, CHR 0x87],
      [CHR 0xE2, CHR 0x80, CHR 0x88], [CHR 0xE2, CHR 0x80, CHR 0x89],
      [CHR 0xE2, CHR 0x80, CHR 0x8A], [CHR 0xE2, CHR 0x80, CHR 0xA8],
      [CHR 0xE2, CHR 0x80, CHR 0xA9], [CHR 0xE2, CHR 0x80, CHR 0xAF],
      [CHR 0xE2, CHR 0x81, CHR 0x9F], [CHR 0xE3, CHR 0x80, CHR 0x80]]"

text \<open>Drop, as long as possible, a leading occurrence of one of the given runes.\<close>

function strip_front :: "string list \<Rightarrow> string \<Rightarrow> string" where
  "strip_front ts s =
     (case find (\<lambda>t. t \<noteq> [] \<and> prefix t s) ts of
        None \<Rightarrow> s
      | Some t \<Rightarrow> strip_front ts (drop (length t) s))"
  by pat_completeness auto
termination
proof (relation "measure (\<lambda>(ts, s). length s)", goal_cases)
  case 1
  show ?case by simp
next
  case (2 ts s t)
  then have "t \<noteq> []" "prefix t s"
    by (auto simp: find_Some_iff)
  then have "0 < length t" "length t \<le> length s"
    by (auto dest: prefix_length_le)
  then show ?case by (simp del: length_greater_0_conv)
qed

declare strip_front.simps [simp del]

definition TrimLeftSpace :: "string \<Rightarrow> string" where
  "TrimLeftSpace s = strip_front space_runes s"

definition TrimRightSpace :: "string \<Rightarrow> string" where
  "TrimRightSpace s = rev (strip_front (map rev space_runes) (rev s))"

definition TrimSpace :: "string \<Rightarrow> string" where
  "TrimSpace s = TrimRightSpace (TrimLeftSpace s)"

definition starts_with_any :: "string list \<Rightarrow> string \<Rightarrow> bool" where
  "starts_with_any ts s = (\<exists>t\<in>set ts. t \<noteq> [] \<and> prefix t s)"

lemma find_None_starts: "find (\<lambda>t. t \<noteq> [] \<and> prefix t s) ts = None \<longleftrightarrow> \<not> starts_with_any ts s"
  by (auto simp: find_None_iff starts_with_any_def)

lemma strip_front_id: "\<not> starts_with_any ts s \<Longrightarrow> strip_front ts s = s"
  by (subst strip_front.simps) (simp only: find_None_starts [symmetric] option.case)

lemma strip_front_clean: "\<not> starts_with_any ts (strip_front ts s)"
proof (induction ts s rule: strip_front.induct)
  case (1 ts s)
  show ?case
  proof (cases "find (\<lambda>t. t \<noteq> [] \<and> prefix t s) ts")
    case None
    then have "\<not> starts_with_any ts s" using find_None_starts by metis
    then show ?thesis using strip_front_id by metis
  next
    case (Some t)
    with "1.IH" show ?thesis by (subst strip_front.simps) simp
  qed
qed

lemma strip_front_suffix: "suffix (strip_front ts s) s"
proof (induction ts s rule: strip_front.induct)
  case (1 ts s)
  show ?case
  proof (cases "find (\<lambda>t. t \<noteq> [] \<and> prefix t s) ts")
    case None
    then show ?thesis by (subst strip_front.simps) simp
  next
    case (Some t)
    with "1.IH" have "suffix (strip_front ts (drop (length t) s)) (drop (length t) s)" by simp
    then have "suffix (strip_front ts (drop (length t) s)) s"
      using suffix_drop suffix_order.trans by blast
    with Some show ?thesis by (subst strip_front.simps) simp
  qed
qed

lemma strip_front_Nil [simp]: "strip_front ts [] = []"
  by (rule strip_front_id) (auto simp: starts_with_any_def)

lemma starts_with_any_prefix: "starts_with_any ts s \<Longrightarrow> prefix s u \<Longrightarrow> starts_with_any ts u"
  unfolding starts_with_any_def using prefix_order.trans by blast

lemma TrimSpace_clean_front: "\<not> starts_with_any space_runes (TrimSpace s)"
proof
  assume "starts_with_any space_runes (TrimSpace s)"
  moreover have "prefix (TrimSpace s) (TrimLeftSpace s)"
    unfolding TrimSpace_def TrimRightSpace_def
    using strip_front_suffix [of "map rev space_runes" "rev (TrimLeftSpace s)"]
    by (simp add: suffix_to_prefix)
  ultimately have "starts_with_any space_runes (TrimLeftSpace s)"
    by (rule starts_with_any_prefix)
  then show False by (simp add: TrimLeftSpace_def strip_front_clean)
qed

lemma TrimSpace_clean_back: "\<not> starts_with_any (map rev space_runes) (rev (TrimSpace s))"
  unfolding TrimSpace_def TrimRightSpace_def by (simp add: strip_front_clean)

lemma TrimSpace_id:
  "\<not> starts_with_any space_runes s \<Longrightarrow> \<not> starts_with_any (map rev space_runes) (rev s) \<Longrightarrow>
     TrimSpace s = s"
  by (simp add: TrimSpace_def TrimLeftSpace_def TrimRightSpace_def strip_front_id)

lemma TrimSpace_idem [simp, go_simps]: "TrimSpace (TrimSpace s) = TrimSpace s"
  by (rule TrimSpace_id) (rule TrimSpace_clean_front, rule TrimSpace_clean_back)

lemma TrimSpace_Nil [simp, go_simps]: "TrimSpace [] = []"
  by (simp add: TrimSpace_def TrimLeftSpace_def TrimRightSpace_def)

text \<open>
  A byte that is neither ASCII white space nor part of a multi-byte encoding: a string that
  starts and ends with such bytes is left alone by \<open>TrimSpace\<close>.
\<close>

definition plain_char :: "char \<Rightarrow> bool" where
  "plain_char c = (CHR 0x20 < c \<and> c < CHR 0x80)"

lemma space_runes_ends_not_plain:
  "\<forall>t\<in>set space_runes. t \<noteq> [] \<and> \<not> plain_char (hd t) \<and> \<not> plain_char (last t)"
  by (simp add: space_runes_def plain_char_def less_char_def)

lemma TrimSpace_plain:
  assumes "s = [] \<or> plain_char (hd s) \<and> plain_char (last s)"
  shows "TrimSpace s = s"
proof (cases s)
  case Nil
  then show ?thesis by simp
next
  case (Cons c cs)
  have hd_eq: "prefix t s \<Longrightarrow> t \<noteq> [] \<Longrightarrow> hd t = hd s" for t
    by (auto simp: prefix_def)
  have last_eq: "prefix (rev t) (rev s) \<Longrightarrow> t \<noteq> [] \<Longrightarrow> last t = last s" for t
    by (auto simp: suffix_to_prefix [symmetric] suffix_def)
  show ?thesis
  proof (rule TrimSpace_id)
    show "\<not> starts_with_any space_runes s"
      using assms Cons hd_eq space_runes_ends_not_plain
      by (auto simp: starts_with_any_def)
    show "\<not> starts_with_any (map rev space_runes) (rev s)"
      using assms Cons last_eq space_runes_ends_not_plain
      by (fastforce simp: starts_with_any_def)
  qed
qed

lemma plain_char_code: "plain_char c \<longleftrightarrow> 32 < (of_char c :: nat) \<and> (of_char c :: nat) < 128"
  by (simp add: plain_char_def less_char_def)

lemma TrimSpace_plain_Cons [simp]:
  "plain_char c \<Longrightarrow> plain_char (last (c # cs)) \<Longrightarrow> TrimSpace (c # cs) = c # cs"
  by (rule TrimSpace_plain) simp


subsection \<open>Case\<close>

definition to_lower_char :: "char \<Rightarrow> char" where
  "to_lower_char c =
     (if CHR ''A'' \<le> c \<and> c \<le> CHR ''Z'' then char_of (of_char c + 32 :: nat) else c)"

definition to_upper_char :: "char \<Rightarrow> char" where
  "to_upper_char c =
     (if CHR ''a'' \<le> c \<and> c \<le> CHR ''z'' then char_of (of_char c - 32 :: nat) else c)"

definition ToLower :: "string \<Rightarrow> string" where
  "ToLower s = map to_lower_char s"

definition ToUpper :: "string \<Rightarrow> string" where
  "ToUpper s = map to_upper_char s"

definition EqualFold :: "string \<Rightarrow> string \<Rightarrow> bool" where
  "EqualFold s t = (ToLower s = ToLower t)"

lemma to_lower_char_idem [simp]: "to_lower_char (to_lower_char c) = to_lower_char c"
  by (auto simp: to_lower_char_def less_eq_char_def)

lemma ToLower_idem [simp, go_simps]: "ToLower (ToLower s) = ToLower s"
  by (simp add: ToLower_def)

lemma ToLower_Nil [simp]: "ToLower [] = []"
  by (simp add: ToLower_def)

lemma ToLower_eq_Nil [simp]: "ToLower s = [] \<longleftrightarrow> s = []"
  by (simp add: ToLower_def)

lemma EqualFold_refl [simp, go_simps]: "EqualFold s s"
  by (simp add: EqualFold_def)

lemma EqualFold_sym: "EqualFold s t \<Longrightarrow> EqualFold t s"
  by (simp add: EqualFold_def)

lemma EqualFold_ToLower [simp]: "EqualFold (ToLower s) t = EqualFold s t"
  by (simp add: EqualFold_def)

subsection \<open>Prefixes, splitting and joining\<close>

abbreviation HasPrefix :: "string \<Rightarrow> string \<Rightarrow> bool" where
  "HasPrefix s p \<equiv> prefix p s"

abbreviation HasSuffix :: "string \<Rightarrow> string \<Rightarrow> bool" where
  "HasSuffix s p \<equiv> suffix p s"

text \<open>\<open>strings.Split\<close> with a separator of one byte: always at least one part.\<close>

fun Split :: "string \<Rightarrow> char \<Rightarrow> string list" where
  "Split [] sep = [[]]"
| "Split (c # cs) sep =
     (if c = sep then [] # Split cs sep
      else (case Split cs sep of [] \<Rightarrow> [[c]] | p # ps \<Rightarrow> (c # p) # ps))"

text \<open>\<open>strings.SplitN\<close>: at most \<open>n\<close> parts (for \<open>n > 0\<close>), the last one unsplit.\<close>

fun SplitN :: "nat \<Rightarrow> string \<Rightarrow> char \<Rightarrow> string list" where
  "SplitN 0 s sep = []"
| "SplitN (Suc 0) s sep = [s]"
| "SplitN (Suc (Suc n)) [] sep = [[]]"
| "SplitN (Suc (Suc n)) (c # cs) sep =
     (if c = sep then [] # SplitN (Suc n) cs sep
      else (case SplitN (Suc (Suc n)) cs sep of [] \<Rightarrow> [[c]] | p # ps \<Rightarrow> (c # p) # ps))"

fun Join :: "string list \<Rightarrow> string \<Rightarrow> string" where
  "Join [] sep = []"
| "Join [s] sep = s"
| "Join (s # t # ts) sep = s @ sep @ Join (t # ts) sep"

lemma Split_not_Nil [simp]: "Split s sep \<noteq> []"
  by (induction s) (auto split: list.splits)

lemma Join_Split: "Join (Split s sep) [sep] = s"
proof (induction s)
  case Nil
  show ?case by simp
next
  case (Cons c cs)
  obtain p ps where ps: "Split cs sep = p # ps"
    using Split_not_Nil [of cs sep] by (cases "Split cs sep") auto
  with Cons show ?case by (cases ps) auto
qed

lemma Split_no_sep: "p \<in> set (Split s sep) \<Longrightarrow> sep \<notin> set p"
  by (induction s arbitrary: p) (auto split: list.splits if_splits)

lemma Split_append_sep: "sep \<notin> set p \<Longrightarrow> Split (p @ sep # s) sep = p # Split s sep"
  by (induction p) auto

lemma Split_single: "sep \<notin> set p \<Longrightarrow> Split p sep = [p]"
  by (induction p) auto

lemma Split_Join:
  "ps \<noteq> [] \<Longrightarrow> \<forall>p\<in>set ps. sep \<notin> set p \<Longrightarrow> Split (Join ps [sep]) sep = ps"
  by (induction ps "[sep]" rule: Join.induct) (auto simp: Split_append_sep Split_single)

section \<open>64-bit signed integers\<close>

text \<open>The value a Go \<open>int64\<close> (or \<open>int\<close>, on 64-bit platforms) takes after a computation.\<close>

definition wrap64 :: "int \<Rightarrow> int" where
  "wrap64 x = (x + 2 ^ 63) mod 2 ^ 64 - 2 ^ 63"

definition int64_range :: "int \<Rightarrow> bool" where
  "int64_range x = (- (2 ^ 63) \<le> x \<and> x < 2 ^ 63)"

lemma wrap64_id [simp]: "int64_range x \<Longrightarrow> wrap64 x = x"
  by (simp add: wrap64_def int64_range_def)

lemma wrap64_range [simp]: "int64_range (wrap64 x)"
proof -
  have "0 \<le> (x + 2 ^ 63) mod 2 ^ 64" "(x + 2 ^ 63) mod 2 ^ 64 < 2 ^ 64"
    by simp_all
  then show ?thesis by (simp add: wrap64_def int64_range_def)
qed

section \<open>Dynamically typed values\<close>

text \<open>
  A Go \<open>any\<close>: what \<open>encoding/json\<close> decodes into (\<open>nil\<close>, booleans, numbers as \<open>float64\<close>, strings,
  slices, objects) and the integers the code stores itself. A \<open>float64\<close> is given by mantissa and
  binary exponent. An object is an association list in some order of its keys.
\<close>

datatype any =
    ANil
  | ABool bool
  | AString string
  | AInt int
  | AInt64 int
  | AFloat int int
  | ASlice "any list"
  | AMap "(string \<times> any) list"

text \<open>
  \<open>fmt.Sprint\<close>: exact on \<open>nil\<close>, booleans and strings; the text of numbers and composite values is
  the parameter \<open>fmt_other\<close>.
\<close>

definition FormatBool :: "bool \<Rightarrow> string" where
  "FormatBool b = (if b then ''true'' else ''false'')"

fun Sprint :: "(any \<Rightarrow> string) \<Rightarrow> any \<Rightarrow> string" where
  "Sprint fmt_other ANil = ''<nil>''"
| "Sprint fmt_other (ABool b) = FormatBool b"
| "Sprint fmt_other (AString s) = s"
| "Sprint fmt_other v = fmt_other v"

text \<open>Indexing a possibly nil \<open>map[string]any\<close>: a missing key gives the zero value \<open>nil\<close>.\<close>

definition index_any :: "(string \<rightharpoonup> any) \<Rightarrow> string \<Rightarrow> any" where
  "index_any m k = (case m k of None \<Rightarrow> ANil | Some v \<Rightarrow> v)"

text \<open>Indexing a possibly nil \<open>map[string]string\<close>.\<close>

definition index_str :: "(string \<rightharpoonup> string) \<Rightarrow> string \<Rightarrow> string" where
  "index_str m k = (case m k of None \<Rightarrow> [] | Some v \<Rightarrow> v)"

text \<open>\<open>strconv.ParseBool\<close>.\<close>

definition ParseBool :: "string \<Rightarrow> bool option" where
  "ParseBool s =
     (if s \<in> {''1'', ''t'', ''T'', ''TRUE'', ''true'', ''True''} then Some True
      else if s \<in> {''0'', ''f'', ''F'', ''FALSE'', ''false'', ''False''} then Some False
      else None)"

section \<open>Status codes of net/http\<close>

abbreviation StatusOK :: int where "StatusOK \<equiv> 200"
abbreviation StatusAccepted :: int where "StatusAccepted \<equiv> 202"
abbreviation StatusMultipleChoices :: int where "StatusMultipleChoices \<equiv> 300"
abbreviation StatusBadRequest :: int where "StatusBadRequest \<equiv> 400"
abbreviation StatusUnauthorized :: int where "StatusUnauthorized \<equiv> 401"
abbreviation StatusForbidden :: int where "StatusForbidden \<equiv> 403"
abbreviation StatusNotFound :: int where "StatusNotFound \<equiv> 404"
abbreviation StatusMethodNotAllowed :: int where "StatusMethodNotAllowed \<equiv> 405"
abbreviation StatusNotAcceptable :: int where "StatusNotAcceptable \<equiv> 406"
abbreviation StatusRequestTimeout :: int where "StatusRequestTimeout \<equiv> 408"
abbreviation StatusConflict :: int where "StatusConflict \<equiv> 409"
abbreviation StatusPreconditionFailed :: int where "StatusPreconditionFailed \<equiv> 412"
abbreviation StatusUnsupportedMediaType :: int where "StatusUnsupportedMediaType \<equiv> 415"
abbreviation StatusUnprocessableEntity :: int where "StatusUnprocessableEntity \<equiv> 422"
abbreviation StatusTooManyRequests :: int where "StatusTooManyRequests \<equiv> 429"
abbreviation StatusInternalServerError :: int where "StatusInternalServerError \<equiv> 500"
abbreviation StatusNotImplemented :: int where "StatusNotImplemented \<equiv> 501"
abbreviation StatusBadGateway :: int where "StatusBadGateway \<equiv> 502"
abbreviation StatusServiceUnavailable :: int where "StatusServiceUnavailable \<equiv> 503"
abbreviation StatusGatewayTimeout :: int where "StatusGatewayTimeout \<equiv> 504"

section \<open>Durations and instants\<close>

definition Millisecond :: go_duration where "Millisecond = 1000000"
definition Second :: go_duration where "Second = 1000000000"
definition Minute :: go_duration where "Minute = 60 * Second"
definition Hour :: go_duration where "Hour = 60 * Minute"

lemmas duration_defs = Millisecond_def Second_def Minute_def Hour_def

text \<open>The zero \<open>time.Time\<close>: January 1 of the year 1.\<close>

definition zero_time :: go_time where "zero_time = - 62135596800 * Second"

section \<open>Capped doubling\<close>

text \<open>
  The loop behind the retry delays: double a duration \<open>n\<close> times, stopping as soon as the cap is
  reached (\<open>None\<close>).
\<close>

fun double_capped :: "go_duration \<Rightarrow> nat \<Rightarrow> go_duration \<Rightarrow> go_duration option" where
  "double_capped cap 0 delay = Some delay"
| "double_capped cap (Suc n) delay =
     (let delay = wrap64 (delay * 2) in if delay \<ge> cap then None else double_capped cap n delay)"

lemma double_capped_spec:
  assumes "0 < delay" "delay < 2 ^ 62" "cap \<le> 2 ^ 62"
  shows "case double_capped cap n delay of
      None \<Rightarrow> cap \<le> delay * 2 ^ n
    | Some d \<Rightarrow> d = delay * 2 ^ n \<and> (0 < n \<longrightarrow> d < cap)"
  using assms
proof (induction n arbitrary: delay)
  case 0
  show ?case by simp
next
  case (Suc n)
  have w: "wrap64 (delay * 2) = delay * 2" using Suc.prems by (simp add: int64_range_def)
  show ?case
  proof (cases "delay * 2 \<ge> cap")
    case True
    have "delay * 2 * 1 \<le> delay * 2 * 2 ^ n" using Suc.prems by (intro mult_left_mono) auto
    with True show ?thesis by (simp add: w)
  next
    case False
    with Suc.prems have "delay * 2 < 2 ^ 62" by simp
    with Suc.IH [of "delay * 2"] Suc.prems False show ?thesis
      by (cases n) (simp_all add: w mult.assoc split: option.splits)
  qed
qed

section \<open>Sorting by a key\<close>

text \<open>
  \<open>sort.Slice\<close> is not stable: it returns some permutation sorted by the comparison. When the keys
  are pairwise distinct there is exactly one such permutation, so \<open>sort_key\<close> is what the code
  computes, whatever the algorithm and whatever the order in which the elements arrive.
\<close>

lemma filter_const_replicate:
  "\<forall>x\<in>set xs. P x \<longrightarrow> x = k \<Longrightarrow> filter P xs = replicate (length (filter P xs)) k"
  by (rule replicate_eqI) auto

lemma sort_key_unique:
  assumes perm: "mset ys = mset xs" and "sorted (map f ys)" and inj: "inj_on f (set xs)"
  shows "sort_key f xs = ys"
proof (rule properties_for_sort_key)
  show "mset ys = mset xs" "sorted (map f ys)" by fact+
  fix k assume "k \<in> set ys"
  have sets: "set ys = set xs" using perm by (metis set_mset_mset)
  let ?P = "\<lambda>x. f k = f x"
  have "length (filter ?P ys) = length (filter ?P xs)"
    using perm by (metis mset_filter size_mset)
  moreover have "filter ?P ys = replicate (length (filter ?P ys)) k"
    using inj sets \<open>k \<in> set ys\<close> by (intro filter_const_replicate) (auto dest: inj_onD)
  moreover have "filter ?P xs = replicate (length (filter ?P xs)) k"
    using inj sets \<open>k \<in> set ys\<close> by (intro filter_const_replicate) (auto dest: inj_onD)
  ultimately show "filter ?P ys = filter ?P xs" by metis
qed

lemma sort_key_perm_eq:
  assumes "mset xs = mset ys" and "inj_on f (set xs)"
  shows "sort_key f xs = sort_key f ys"
  using assms by (intro sort_key_unique) auto

section \<open>Decimal text\<close>

text \<open>
  Package \<open>strconv\<close> and \<open>fmt\<close> on decimal integers: \<open>FormatInt\<close> writes an integer (\<open>%d\<close>), \<open>Atoi\<close>
  reads one, with an optional sign, refusing an empty text, any other character and values outside
  \<open>int64\<close> (\<open>None\<close> for an error).
\<close>

function FormatNat :: "nat \<Rightarrow> string" where
  "FormatNat n =
     (if n < 10 then [char_of (48 + n)] else FormatNat (n div 10) @ [char_of (48 + n mod 10)])"
  by pat_completeness auto
termination by (relation "measure id") auto

declare FormatNat.simps [simp del]

definition FormatInt :: "int \<Rightarrow> string" where
  "FormatInt i = (if i < 0 then CHR ''-'' # FormatNat (nat (- i)) else FormatNat (nat i))"

definition is_digit :: "char \<Rightarrow> bool" where
  "is_digit c = (48 \<le> (of_char c :: nat) \<and> (of_char c :: nat) \<le> 57)"

fun parse_decimal :: "nat \<Rightarrow> string \<Rightarrow> nat option" where
  "parse_decimal acc [] = Some acc"
| "parse_decimal acc (c # cs) =
     (if is_digit c then parse_decimal (acc * 10 + (of_char c - 48)) cs else None)"

definition Atoi :: "string \<Rightarrow> int option" where
  "Atoi s =
     (let negative = (case s of c # cs \<Rightarrow> c = CHR ''-'' | [] \<Rightarrow> False);
          digits = (case s of c # cs \<Rightarrow> if c = CHR ''-'' \<or> c = CHR ''+'' then cs else s | [] \<Rightarrow> [])
      in if digits = [] then None
         else case parse_decimal 0 digits of
                None \<Rightarrow> None
              | Some n \<Rightarrow>
                  let v = (if negative then - int n else int n)
                  in if int64_range v then Some v else None)"

lemma parse_decimal_append:
  "parse_decimal acc (xs @ ys) = Option.bind (parse_decimal acc xs) (\<lambda>a. parse_decimal a ys)"
  by (induction xs arbitrary: acc) auto

lemma digit_char:
  assumes "d < 10"
  shows "of_char (char_of (48 + d) :: char) = (48 + d :: nat)" "is_digit (char_of (48 + d))"
    "(char_of (48 + d) :: char) \<noteq> CHR ''-''" "(char_of (48 + d) :: char) \<noteq> CHR ''+''"
proof -
  show *: "of_char (char_of (48 + d) :: char) = (48 + d :: nat)" using assms by simp
  show "is_digit (char_of (48 + d))" using assms unfolding is_digit_def * by simp
  show "(char_of (48 + d) :: char) \<noteq> CHR ''-''" "(char_of (48 + d) :: char) \<noteq> CHR ''+''"
    using * arg_cong [of "char_of (48 + d)" _ "of_char :: char \<Rightarrow> nat"] by fastforce+
qed

lemma FormatNat_parse: "parse_decimal 0 (FormatNat n) = Some n"
proof (induction n rule: FormatNat.induct)
  case (1 n)
  show ?case
  proof (cases "n < 10")
    case True
    then show ?thesis by (simp add: FormatNat.simps [of n] digit_char)
  next
    case False
    with 1 have "parse_decimal 0 (FormatNat n) = parse_decimal (n div 10) [char_of (48 + n mod 10)]"
      by (simp add: FormatNat.simps [of n] parse_decimal_append)
    also have "\<dots> = Some (n div 10 * 10 + n mod 10)" by (simp add: digit_char)
    finally show ?thesis by simp
  qed
qed

lemma FormatNat_head: "\<exists>c cs. FormatNat n = c # cs \<and> c \<noteq> CHR ''-'' \<and> c \<noteq> CHR ''+''"
proof (induction n rule: FormatNat.induct)
  case (1 n)
  then show ?case by (cases "n < 10") (auto simp: FormatNat.simps [of n] digit_char)
qed

lemma Atoi_FormatInt:
  assumes "int64_range i"
  shows "Atoi (FormatInt i) = Some i"
proof -
  obtain c cs where "FormatNat (nat \<bar>i\<bar>) = c # cs" "c \<noteq> CHR ''-''" "c \<noteq> CHR ''+''"
    using FormatNat_head by blast
  moreover from this have "parse_decimal 0 (c # cs) = Some (nat \<bar>i\<bar>)" by (metis FormatNat_parse)
  ultimately show ?thesis using assms
    by (cases "i < 0") (simp_all add: Atoi_def FormatInt_def Let_def del: parse_decimal.simps)
qed

lemma Atoi_in_range: "Atoi s = Some i \<Longrightarrow> int64_range i"
  by (auto simp: Atoi_def Let_def split: if_splits option.splits list.splits)

section \<open>Budgets\<close>

text \<open>
  The contract of a limiter: steps that belong to its client are accepted exactly while something
  is left, each takes one unit, and the steps of others leave the budget alone. \<open>accepted\<close> counts
  the accepted steps of the client in a sequence.
\<close>

fun accepted :: "('e \<Rightarrow> 's \<Rightarrow> bool \<times> 's) \<Rightarrow> ('e \<Rightarrow> bool) \<Rightarrow> 'e list \<Rightarrow> 's \<Rightarrow> nat" where
  "accepted step mine [] s = 0"
| "accepted step mine (e # es) s =
     (if mine e \<and> fst (step e s) then 1 else 0) + accepted step mine es (snd (step e s))"

locale budget =
  fixes step :: "'e \<Rightarrow> 's \<Rightarrow> bool \<times> 's"
    and mine :: "'e \<Rightarrow> bool"
    and valid :: "'e \<Rightarrow> bool"
    and inv :: "'s \<Rightarrow> bool"
    and left :: "'s \<Rightarrow> nat"
  assumes step_inv: "inv s \<Longrightarrow> valid e \<Longrightarrow> inv (snd (step e s))"
    and step_accepts: "inv s \<Longrightarrow> valid e \<Longrightarrow> mine e \<Longrightarrow> fst (step e s) \<longleftrightarrow> 0 < left s"
    and step_takes: "inv s \<Longrightarrow> valid e \<Longrightarrow> mine e \<Longrightarrow> left (snd (step e s)) = left s - 1"
    and step_other: "inv s \<Longrightarrow> valid e \<Longrightarrow> \<not> mine e \<Longrightarrow> left (snd (step e s)) = left s"
begin

lemma accepted_eq_min:
  assumes "inv s" and "\<forall>e\<in>set es. valid e"
  shows "accepted step mine es s = min (length (filter mine es)) (left s)"
  using assms
proof (induction es arbitrary: s)
  case Nil
  show ?case by simp
next
  case (Cons e es)
  then have e: "inv s" "valid e" by auto
  have "accepted step mine es (snd (step e s)) = min (length (filter mine es)) (left (snd (step e s)))"
    using Cons step_inv by simp
  with e step_accepts step_takes step_other show ?case by (cases "mine e"; cases "left s") auto
qed

end

text \<open>
  The contract of a component that moves in steps: an invariant of its first states that every step keeps. It
  then holds in every state that can be reached.
\<close>

locale step_system =
  fixes step :: "'s \<Rightarrow> 's \<Rightarrow> bool"
    and inv :: "'s \<Rightarrow> bool"
  assumes step_inv: "step s s' \<Longrightarrow> inv s \<Longrightarrow> inv s'"
begin

lemma reachable_inv:
  assumes "step\<^sup>*\<^sup>* s s'" and "inv s"
  shows "inv s'"
  using assms by (induction rule: rtranclp_induct) (auto intro: step_inv)

end

text \<open>
  The contract of a cache whose entries expire: a value is found after it was stored, as \<open>seen\<close> shows it, until its
  \<open>last_use\<close>; other keys are not touched; a lookup may drop what has expired by then. Not every value is
  \<open>usable\<close>. \<open>stored_last\<close> is the reference: what a sequence of events stored last under a key.
\<close>

datatype ('k, 'v) cache_event = CacheStore go_time 'k 'v | CacheLookup go_time 'k

fun stored_last :: "('k, 'v) cache_event list \<Rightarrow> 'k \<Rightarrow> (go_time \<times> 'v) option" where
  "stored_last [] k = None"
| "stored_last (CacheStore now k' v # es) k = (case stored_last es k of None \<Rightarrow> if k' = k then Some (now, v) else None | r \<Rightarrow> r)"
| "stored_last (CacheLookup now k' # es) k = stored_last es k"

fun cache_run :: "(go_time \<Rightarrow> 'k \<Rightarrow> 'v \<Rightarrow> 's \<Rightarrow> 's) \<Rightarrow> (go_time \<Rightarrow> 'k \<Rightarrow> 's \<Rightarrow> 'v option \<times> 's) \<Rightarrow>
    ('k, 'v) cache_event list \<Rightarrow> 's \<Rightarrow> 's" where
  "cache_run store lookup [] s = s"
| "cache_run store lookup (CacheStore now k v # es) s = cache_run store lookup es (store now k v s)"
| "cache_run store lookup (CacheLookup now k # es) s = cache_run store lookup es (snd (lookup now k s))"

fun looked_up_by :: "go_time \<Rightarrow> ('k, 'v) cache_event \<Rightarrow> bool" where
  "looked_up_by t (CacheStore now k v) = True"
| "looked_up_by t (CacheLookup now k) = (now \<le> t)"

lemma cache_run_append: "cache_run store lookup (xs @ ys) s = cache_run store lookup ys (cache_run store lookup xs s)"
  by (induction store lookup xs s rule: cache_run.induct) simp_all

lemma stored_last_append:
  "stored_last (xs @ ys) k = (case stored_last ys k of None \<Rightarrow> stored_last xs k | Some r \<Rightarrow> Some r)"
  by (induction xs k rule: stored_last.induct) (auto split: option.splits)

locale expiring_cache =
  fixes store :: "go_time \<Rightarrow> 'k \<Rightarrow> 'v \<Rightarrow> 's \<Rightarrow> 's"
    and lookup :: "go_time \<Rightarrow> 'k \<Rightarrow> 's \<Rightarrow> 'v option \<times> 's"
    and usable :: "'k \<Rightarrow> 'v \<Rightarrow> bool"
    and last_use :: "go_time \<Rightarrow> 'v \<Rightarrow> go_time"
    and seen :: "'v \<Rightarrow> 'v"
    and inv :: "'s \<Rightarrow> bool"
  assumes store_inv: "inv s \<Longrightarrow> inv (store now k v s)"
    and lookup_inv: "inv s \<Longrightarrow> inv (snd (lookup now k s))"
    and lookup_store: "inv s \<Longrightarrow>
      fst (lookup t k (store now k v s)) = (if usable k v \<and> t \<le> last_use now v then Some (seen v) else None)"
    and lookup_store_other: "inv s \<Longrightarrow> k' \<noteq> k \<Longrightarrow> fst (lookup t k' (store now k v s)) = fst (lookup t k' s)"
    and lookup_drops: "inv s \<Longrightarrow>
      fst (lookup t k' (snd (lookup now k s))) = fst (lookup t k' s) \<or>
      t < now \<and> fst (lookup t k' (snd (lookup now k s))) = None"
begin

lemma run_inv: "inv s \<Longrightarrow> inv (cache_run store lookup es s)"
proof (induction es arbitrary: s)
  case (Cons e es)
  then show ?case by (cases e) (simp_all add: store_inv lookup_inv)
qed simp

lemma run_hit:
  assumes "inv s" and "\<forall>t k. fst (lookup t k s) = None" and "fst (lookup t k (cache_run store lookup es s)) = Some d"
  shows "\<exists>now v. stored_last es k = Some (now, v) \<and> usable k v \<and> t \<le> last_use now v \<and> d = seen v"
  using assms(3)
proof (induction es rule: rev_induct)
  case (snoc e es)
  note ok = run_inv [OF assms(1), of es]
  show ?case
  proof (cases e)
    case (CacheStore now k' v)
    with snoc ok show ?thesis
      by (cases "k' = k")
         (auto simp: cache_run_append stored_last_append lookup_store lookup_store_other split: if_splits)
  next
    case (CacheLookup now k')
    with snoc lookup_drops [OF ok, of t k now k'] show ?thesis
      by (auto simp: cache_run_append stored_last_append)
  qed
qed (use assms(2) in simp)

lemma lookup_run:
  assumes "inv s" and "\<forall>e\<in>set es. looked_up_by t e"
  shows "fst (lookup t k (cache_run store lookup es s)) =
    (case stored_last es k of
       None \<Rightarrow> fst (lookup t k s)
     | Some (now, v) \<Rightarrow> if usable k v \<and> t \<le> last_use now v then Some (seen v) else None)"
  using assms(2)
proof (induction es rule: rev_induct)
  case (snoc e es)
  note ok = run_inv [OF assms(1), of es]
  show ?case
  proof (cases e)
    case (CacheStore now k' v)
    with snoc ok show ?thesis
      by (cases "k' = k") (simp_all add: cache_run_append stored_last_append lookup_store lookup_store_other)
  next
    case (CacheLookup now k')
    with snoc lookup_drops [OF ok, of t k now k'] show ?thesis
      by (auto simp: cache_run_append stored_last_append)
  qed
qed simp

end

end
