(* ===== verification/Apperr.thy ===== *)
theory Apperr
  imports Core_Prelude
begin

text \<open>
  The error model shared by every package: \<open>pkg/apperr\<close> (canonical codes and the fluent
  \<open>AppError\<close>), \<open>pkg/errors\<close> (the stack-trace wrapper and \<open>ServiceError\<close>) and \<open>pkg/response\<close> (the
  JSON envelope written to clients). A Go \<open>error\<close> is a value of \<open>go_error\<close>; a nil pointer or nil
  error is \<open>None\<close>. What \<open>gin.Context.JSON\<close> writes is the pair of status and envelope returned.
\<close>

section \<open>Data\<close>

record error_code =
  ec_code :: string
  ec_message :: string
  ec_value :: int
  ec_httpStatus :: int

record suggestion =
  sg_Field :: string
  sg_Message :: string

text \<open>
  \<open>EPlain\<close> is \<open>errors.New\<close> or \<open>fmt.Errorf\<close> without a wrapped error, \<open>EFmt\<close> is \<open>fmt.Errorf\<close> with
  \<open>%w\<close> (its text and the wrapped error), \<open>EStack\<close> is the \<open>Error\<close> of \<open>pkg/errors/errors.go\<close>.
\<close>

datatype go_error =
    EPlain string
  | EFmt string go_error
  | EStack string "go_error option" string
  | EApp app_error
  | ESvc service_error
and app_error =
    AppError (ae_Code: string) (ae_Message: string) (ae_Suggestions: "suggestion list")
      (ae_HTTPStatus: int) (ae_cause: "go_error option") (ae_ec: error_code)
and service_error =
    ServiceError (se_Code: string) (se_Message: string) (se_HTTPStatus: int) (se_ID: string)
      (se_CorrelationID: string) (se_Details: "string \<rightharpoonup> any") (se_Suggestions: "suggestion list")
      (se_Retryable: bool) (se_Timestamp: go_time) (se_cause: "go_error option")

section \<open>pkg/apperr\<close>

definition NewErrorCode :: "string \<Rightarrow> string \<Rightarrow> int \<Rightarrow> int \<Rightarrow> error_code" where
  "NewErrorCode code message val status =
     \<lparr>ec_code = code, ec_message = message, ec_value = val, ec_httpStatus = status\<rparr>"

definition ErrorCodeSuccess :: error_code where
  "ErrorCodeSuccess = NewErrorCode ''success'' ''OK'' 0 StatusOK"
definition ErrorCodeInvalidRequest :: error_code where
  "ErrorCodeInvalidRequest = NewErrorCode ''invalid_request'' ''Invalid request body'' 10 StatusBadRequest"
definition ErrorCodeInvalidInput :: error_code where
  "ErrorCodeInvalidInput = NewErrorCode ''invalid_input'' ''Invalid input'' 20 StatusUnprocessableEntity"
definition ErrorCodeValidationFail :: error_code where
  "ErrorCodeValidationFail =
     NewErrorCode ''validation_failed'' ''Validation failed'' 30 StatusUnprocessableEntity"
definition ErrorCodeUnauthorized :: error_code where
  "ErrorCodeUnauthorized = NewErrorCode ''unauthorized'' ''Unauthorized'' 40 StatusUnauthorized"
definition ErrorCodeForbidden :: error_code where
  "ErrorCodeForbidden = NewErrorCode ''forbidden'' ''Forbidden'' 50 StatusForbidden"
definition ErrorCodeNotFound :: error_code where
  "ErrorCodeNotFound = NewErrorCode ''not_found'' ''Not found'' 60 StatusNotFound"
definition ErrorCodeInternal :: error_code where
  "ErrorCodeInternal =
     NewErrorCode ''internal_error'' ''Internal server error'' 100 StatusInternalServerError"

lemmas error_code_defs =
  NewErrorCode_def ErrorCodeSuccess_def ErrorCodeInvalidRequest_def ErrorCodeInvalidInput_def
  ErrorCodeValidationFail_def ErrorCodeUnauthorized_def ErrorCodeForbidden_def
  ErrorCodeNotFound_def ErrorCodeInternal_def

definition apperr_New :: "error_code option \<Rightarrow> app_error" where
  "apperr_New ec =
     (let ec = (case ec of None \<Rightarrow> ErrorCodeInternal | Some e \<Rightarrow> e)
      in AppError (ec_code ec) (ec_message ec) [] (ec_httpStatus ec) None ec)"

text \<open>\<open>Newf\<close>, with the text that \<open>fmt.Sprintf\<close> produced.\<close>

definition apperr_Newf :: "error_code option \<Rightarrow> string \<Rightarrow> app_error" where
  "apperr_Newf ec msg =
     (case apperr_New ec of AppError c m sg st cause k \<Rightarrow> AppError c msg sg st cause k)"

definition apperr_FromError :: "go_error option \<Rightarrow> app_error option" where
  "apperr_FromError err =
     (case err of
        None \<Rightarrow> None
      | Some (EApp ae) \<Rightarrow> Some ae
      | Some e \<Rightarrow>
          (case apperr_New (Some ErrorCodeInternal) of
             AppError c m sg st cause k \<Rightarrow>
               Some (AppError c (ec_message ErrorCodeInternal) sg st (Some e) k)))"

definition AddSuggestion :: "string \<Rightarrow> string \<Rightarrow> app_error option \<Rightarrow> app_error" where
  "AddSuggestion field message a =
     (case (case a of None \<Rightarrow> apperr_New (Some ErrorCodeInternal) | Some x \<Rightarrow> x) of
        AppError c m sg st cause k \<Rightarrow>
          AppError c m (sg @ [\<lparr>sg_Field = field, sg_Message = message\<rparr>]) st cause k)"

definition apperr_WithStatus :: "int \<Rightarrow> app_error option \<Rightarrow> app_error" where
  "apperr_WithStatus status a =
     (case (case a of None \<Rightarrow> apperr_New (Some ErrorCodeInternal) | Some x \<Rightarrow> x) of
        AppError c m sg st cause k \<Rightarrow> AppError c m sg status cause k)"

definition apperr_WithMessage :: "string \<Rightarrow> app_error option \<Rightarrow> app_error" where
  "apperr_WithMessage msg a =
     (case (case a of None \<Rightarrow> apperr_New (Some ErrorCodeInternal) | Some x \<Rightarrow> x) of
        AppError c m sg st cause k \<Rightarrow> AppError c msg sg st cause k)"

definition apperr_WithCode :: "error_code option \<Rightarrow> app_error option \<Rightarrow> app_error" where
  "apperr_WithCode ec a =
     (let ec = (case ec of None \<Rightarrow> ErrorCodeInternal | Some e \<Rightarrow> e)
      in case a of
           None \<Rightarrow> apperr_New (Some ec)
         | Some (AppError c m sg st cause k) \<Rightarrow>
             AppError (ec_code ec) (ec_message ec) sg (ec_httpStatus ec) cause ec)"

definition apperr_Wrap :: "go_error option \<Rightarrow> app_error option \<Rightarrow> app_error" where
  "apperr_Wrap err a =
     (case (case a of None \<Rightarrow> apperr_New (Some ErrorCodeInternal) | Some x \<Rightarrow> x) of
        AppError c m sg st cause k \<Rightarrow> AppError c m sg st err k)"

definition HasError :: "go_error option \<Rightarrow> bool" where
  "HasError err =
     (case err of
        None \<Rightarrow> False
      | Some (EApp ae) \<Rightarrow> ae_Code ae \<noteq> [] \<or> ae_Message ae \<noteq> []
      | Some _ \<Rightarrow> True)"

definition HasErrors :: "app_error option \<Rightarrow> bool" where
  "HasErrors a =
     (case a of
        None \<Rightarrow> False
      | Some x \<Rightarrow> ae_Code x \<noteq> [] \<or> ae_Message x \<noteq> [] \<or> ae_Suggestions x \<noteq> [])"

section \<open>pkg/errors\<close>

text \<open>The \<open>Error() string\<close> methods of the four error types.\<close>

fun Error :: "go_error \<Rightarrow> string"
and Error_app :: "app_error \<Rightarrow> string"
and Error_svc :: "service_error \<Rightarrow> string" where
  "Error (EPlain msg) = msg"
| "Error (EFmt msg e) = msg"
| "Error (EStack msg None st) = msg"
| "Error (EStack msg (Some e) st) = msg @ '': '' @ Error e"
| "Error (EApp a) = Error_app a"
| "Error (ESvc s) = Error_svc s"
| "Error_app (AppError c m sg st (Some e) k) = Error e"
| "Error_app (AppError c m sg st None k) = m"
| "Error_svc (ServiceError c m st i corr d sg r t (Some e)) = c @ '': '' @ m @ '': '' @ Error e"
| "Error_svc (ServiceError c m st i corr d sg r t None) = c @ '': '' @ m"

text \<open>\<open>errors.Unwrap\<close> by type, as \<open>errors.As\<close> follows it.\<close>

fun Unwrap :: "go_error \<Rightarrow> go_error option" where
  "Unwrap (EPlain msg) = None"
| "Unwrap (EFmt msg e) = Some e"
| "Unwrap (EStack msg e st) = e"
| "Unwrap (EApp a) = ae_cause a"
| "Unwrap (ESvc s) = se_cause s"

text \<open>\<open>errors.As\<close> with a \<open>*ServiceError\<close> target: the first one on the chain.\<close>

fun As_ServiceError :: "go_error \<Rightarrow> service_error option" where
  "As_ServiceError (ESvc s) = Some s"
| "As_ServiceError (EPlain msg) = None"
| "As_ServiceError (EFmt msg e) = As_ServiceError e"
| "As_ServiceError (EStack msg None st) = None"
| "As_ServiceError (EStack msg (Some e) st) = As_ServiceError e"
| "As_ServiceError (EApp (AppError c m sg st None k)) = None"
| "As_ServiceError (EApp (AppError c m sg st (Some e) k)) = As_ServiceError e"

text \<open>
  The stack trace: \<open>stack\<close> are the frames above the caller of \<open>New\<close> or \<open>Wrap\<close>, of which the buffer takes 16. Without a frame the loop
  writes one empty frame all the same.
\<close>

record stack_frame =
  fr_Function :: string
  fr_File :: string
  fr_Line :: int

definition frame_text :: "stack_frame \<Rightarrow> string" where
  "frame_text fr = fr_Function fr @ [CHR 0x0A, CHR 0x09] @ fr_File fr @ '':'' @ FormatInt (fr_Line fr) @ [CHR 0x0A]"

definition callers :: "stack_frame list \<Rightarrow> string" where
  "callers stack =
     (let frames = take 16 stack
      in if frames = [] then frame_text \<lparr>fr_Function = [], fr_File = [], fr_Line = 0\<rparr>
         else concat (map frame_text frames))"

definition errors_Wrap :: "stack_frame list \<Rightarrow> go_error option \<Rightarrow> string \<Rightarrow> go_error option" where
  "errors_Wrap stack err msg =
     (case err of None \<Rightarrow> None | Some e \<Rightarrow> Some (EStack msg (Some e) (callers stack)))"

definition errors_New :: "stack_frame list \<Rightarrow> string \<Rightarrow> go_error" where
  "errors_New stack msg = EStack msg None (callers stack)"

subsection \<open>Functional options\<close>

type_synonym se_option = "service_error \<Rightarrow> service_error"

fun WithID :: "string \<Rightarrow> se_option" where
  "WithID x (ServiceError c m st i corr d sg r t e) = ServiceError c m st x corr d sg r t e"
fun WithCorrelation :: "string \<Rightarrow> se_option" where
  "WithCorrelation x (ServiceError c m st i corr d sg r t e) = ServiceError c m st i x d sg r t e"
fun WithDetail :: "string \<Rightarrow> any \<Rightarrow> se_option" where
  "WithDetail k v (ServiceError c m st i corr d sg r t e) =
     ServiceError c m st i corr (d(k \<mapsto> v)) sg r t e"
fun WithDetails :: "(string \<rightharpoonup> any) \<Rightarrow> se_option" where
  "WithDetails n (ServiceError c m st i corr d sg r t e) =
     ServiceError c m st i corr (d ++ n) sg r t e"
fun WithSuggestion :: "string \<Rightarrow> string \<Rightarrow> se_option" where
  "WithSuggestion f msg (ServiceError c m st i corr d sg r t e) =
     ServiceError c m st i corr d (sg @ [\<lparr>sg_Field = f, sg_Message = msg\<rparr>]) r t e"
fun WithRetryable :: "bool \<Rightarrow> se_option" where
  "WithRetryable x (ServiceError c m st i corr d sg r t e) = ServiceError c m st i corr d sg x t e"
fun WithCause :: "go_error option \<Rightarrow> se_option" where
  "WithCause x (ServiceError c m st i corr d sg r t e) = ServiceError c m st i corr d sg r t x"
fun WithStatus :: "int \<Rightarrow> se_option" where
  "WithStatus x (ServiceError c m st i corr d sg r t e) = ServiceError c m x i corr d sg r t e"
fun WithMessage :: "string \<Rightarrow> se_option" where
  "WithMessage x (ServiceError c m st i corr d sg r t e) = ServiceError c x st i corr d sg r t e"

text \<open>The accessors, which a nil pointer answers too.\<close>

definition GetCode :: "service_error option \<Rightarrow> string" where
  "GetCode se = (case se of None \<Rightarrow> [] | Some e \<Rightarrow> se_Code e)"

definition GetMessage :: "service_error option \<Rightarrow> string" where
  "GetMessage se = (case se of None \<Rightarrow> [] | Some e \<Rightarrow> se_Message e)"

definition GetHTTPStatus :: "service_error option \<Rightarrow> int" where
  "GetHTTPStatus se = (case se of None \<Rightarrow> 0 | Some e \<Rightarrow> se_HTTPStatus e)"

definition NewServiceError ::
  "go_time \<Rightarrow> string \<Rightarrow> string \<Rightarrow> int \<Rightarrow> se_option list \<Rightarrow> service_error" where
  "NewServiceError now code message status opts =
     fold (\<lambda>opt se. opt se) opts
       (ServiceError code message status [] [] Map.empty [] False now None)"

definition FromCode :: "go_time \<Rightarrow> error_code option \<Rightarrow> se_option list \<Rightarrow> service_error" where
  "FromCode now ec opts =
     (let ec = (case ec of None \<Rightarrow> ErrorCodeInternal | Some e \<Rightarrow> e)
      in NewServiceError now (ec_code ec) (ec_message ec) (ec_httpStatus ec) opts)"

subsection \<open>Common helpers\<close>

definition Internal :: "go_time \<Rightarrow> string \<Rightarrow> se_option list \<Rightarrow> service_error" where
  "Internal now msg opts = FromCode now (Some ErrorCodeInternal) ([WithMessage msg] @ opts)"
definition NotFound :: "go_time \<Rightarrow> string \<Rightarrow> se_option list \<Rightarrow> service_error" where
  "NotFound now msg opts = FromCode now (Some ErrorCodeNotFound) ([WithMessage msg] @ opts)"
definition Forbidden :: "go_time \<Rightarrow> string \<Rightarrow> se_option list \<Rightarrow> service_error" where
  "Forbidden now msg opts = FromCode now (Some ErrorCodeForbidden) ([WithMessage msg] @ opts)"
definition Unauthorized :: "go_time \<Rightarrow> string \<Rightarrow> se_option list \<Rightarrow> service_error" where
  "Unauthorized now msg opts = FromCode now (Some ErrorCodeUnauthorized) ([WithMessage msg] @ opts)"
definition BadRequest :: "go_time \<Rightarrow> string \<Rightarrow> se_option list \<Rightarrow> service_error" where
  "BadRequest now msg opts = FromCode now (Some ErrorCodeInvalidRequest) ([WithMessage msg] @ opts)"
definition InvalidInput :: "go_time \<Rightarrow> string \<Rightarrow> se_option list \<Rightarrow> service_error" where
  "InvalidInput now msg opts = FromCode now (Some ErrorCodeInvalidInput) ([WithMessage msg] @ opts)"
definition ValidationFailed :: "go_time \<Rightarrow> string \<Rightarrow> se_option list \<Rightarrow> service_error" where
  "ValidationFailed now msg opts =
     FromCode now (Some ErrorCodeValidationFail) ([WithMessage msg] @ opts)"
definition Conflict :: "go_time \<Rightarrow> string \<Rightarrow> se_option list \<Rightarrow> service_error" where
  "Conflict now msg opts = NewServiceError now ''conflict'' msg StatusConflict opts"
definition AlreadyExists :: "go_time \<Rightarrow> string \<Rightarrow> se_option list \<Rightarrow> service_error" where
  "AlreadyExists now msg opts = NewServiceError now ''already_exists'' msg StatusConflict opts"
definition TooManyRequests :: "go_time \<Rightarrow> string \<Rightarrow> se_option list \<Rightarrow> service_error" where
  "TooManyRequests now msg opts =
     NewServiceError now ''too_many_requests'' msg StatusTooManyRequests opts"
definition ServiceUnavailable :: "go_time \<Rightarrow> string \<Rightarrow> se_option list \<Rightarrow> service_error" where
  "ServiceUnavailable now msg opts =
     NewServiceError now ''service_unavailable'' msg StatusServiceUnavailable opts"
definition BadGateway :: "go_time \<Rightarrow> string \<Rightarrow> se_option list \<Rightarrow> service_error" where
  "BadGateway now msg opts = NewServiceError now ''bad_gateway'' msg StatusBadGateway opts"
definition GatewayTimeout :: "go_time \<Rightarrow> string \<Rightarrow> se_option list \<Rightarrow> service_error" where
  "GatewayTimeout now msg opts =
     NewServiceError now ''gateway_timeout'' msg StatusGatewayTimeout opts"
definition RequestTimeout :: "go_time \<Rightarrow> string \<Rightarrow> se_option list \<Rightarrow> service_error" where
  "RequestTimeout now msg opts =
     NewServiceError now ''request_timeout'' msg StatusRequestTimeout opts"
definition MethodNotAllowed :: "go_time \<Rightarrow> string \<Rightarrow> se_option list \<Rightarrow> service_error" where
  "MethodNotAllowed now msg opts =
     NewServiceError now ''method_not_allowed'' msg StatusMethodNotAllowed opts"
definition NotAcceptable :: "go_time \<Rightarrow> string \<Rightarrow> se_option list \<Rightarrow> service_error" where
  "NotAcceptable now msg opts = NewServiceError now ''not_acceptable'' msg StatusNotAcceptable opts"
definition UnsupportedMediaType :: "go_time \<Rightarrow> string \<Rightarrow> se_option list \<Rightarrow> service_error" where
  "UnsupportedMediaType now msg opts =
     NewServiceError now ''unsupported_media_type'' msg StatusUnsupportedMediaType opts"
definition UnprocessableEntity :: "go_time \<Rightarrow> string \<Rightarrow> se_option list \<Rightarrow> service_error" where
  "UnprocessableEntity now msg opts =
     NewServiceError now ''unprocessable_entity'' msg StatusUnprocessableEntity opts"
definition PreconditionFailed :: "go_time \<Rightarrow> string \<Rightarrow> se_option list \<Rightarrow> service_error" where
  "PreconditionFailed now msg opts =
     NewServiceError now ''precondition_failed'' msg StatusPreconditionFailed opts"
definition NotImplemented :: "go_time \<Rightarrow> string \<Rightarrow> se_option list \<Rightarrow> service_error" where
  "NotImplemented now msg opts =
     NewServiceError now ''not_implemented'' msg StatusNotImplemented opts"

subsection \<open>Conversions\<close>

definition ParseServiceError :: "go_time \<Rightarrow> go_error option \<Rightarrow> service_error option" where
  "ParseServiceError now err =
     (case err of
        None \<Rightarrow> None
      | Some e \<Rightarrow>
          (case As_ServiceError e of
             Some se \<Rightarrow> Some se
           | None \<Rightarrow>
               (case e of
                  EApp ae \<Rightarrow>
                    (case NewServiceError now (ae_Code ae) (ae_Message ae) (ae_HTTPStatus ae) [] of
                       ServiceError c m st i corr d sg r t k \<Rightarrow>
                         Some (ServiceError c m st i corr d (ae_Suggestions ae) r t k))
                | _ \<Rightarrow> Some (Internal now (Error e) [WithCause (Some e)]))))"

definition IsCode :: "service_error option \<Rightarrow> string \<Rightarrow> bool" where
  "IsCode se code = (case se of None \<Rightarrow> False | Some s \<Rightarrow> se_Code s = code)"

definition ToAppError :: "service_error option \<Rightarrow> app_error option" where
  "ToAppError se =
     (case se of
        None \<Rightarrow> None
      | Some s \<Rightarrow>
          (case apperr_New (Some (NewErrorCode (se_Code s) (se_Message s) 0 (se_HTTPStatus s))) of
             AppError c m sg st cause k \<Rightarrow>
               Some (AppError c (se_Message s)
                 (if se_Suggestions s \<noteq> [] then se_Suggestions s else sg) st cause k)))"

section \<open>pkg/response\<close>

record 'd api_response =
  ar_Success :: bool
  ar_Code :: string
  ar_Message :: string
  ar_Data :: "'d option"
  ar_Errors :: "suggestion list"
  ar_Meta :: "string \<rightharpoonup> any"

definition JSONSuccess :: "int \<Rightarrow> 'd option \<Rightarrow> (string \<rightharpoonup> any) \<Rightarrow> int \<times> 'd api_response" where
  "JSONSuccess status data meta =
     ((if status = 0 then StatusOK else status),
      \<lparr>ar_Success = True, ar_Code = ec_code ErrorCodeSuccess,
       ar_Message = ec_message ErrorCodeSuccess, ar_Data = data, ar_Errors = [], ar_Meta = meta\<rparr>)"

definition JSONError :: "app_error option \<Rightarrow> int \<times> 'd api_response" where
  "JSONError appErr =
     (let a = (case appErr of None \<Rightarrow> apperr_New (Some ErrorCodeInternal) | Some x \<Rightarrow> x);
          status = (if ae_HTTPStatus a = 0 then StatusInternalServerError else ae_HTTPStatus a)
      in (status,
          \<lparr>ar_Success = False, ar_Code = ae_Code a, ar_Message = ae_Message a, ar_Data = None,
           ar_Errors = ae_Suggestions a, ar_Meta = Map.empty\<rparr>))"

text \<open>\<open>HandleError\<close> writes nothing for a nil error: \<open>None\<close>.\<close>

definition HandleError :: "go_error option \<Rightarrow> (int \<times> 'd api_response) option" where
  "HandleError err =
     (case err of
        None \<Rightarrow> None
      | Some (EApp ae) \<Rightarrow> Some (JSONError (Some ae))
      | Some e \<Rightarrow> Some (JSONError (apperr_FromError (Some e))))"

definition response_Success :: "'d option \<Rightarrow> int \<times> 'd api_response" where
  "response_Success data = JSONSuccess StatusOK data Map.empty"

definition response_Error :: "go_error option \<Rightarrow> int \<times> 'd api_response" where
  "response_Error err =
     (case err of
        None \<Rightarrow> JSONError None
      | Some (EApp ae) \<Rightarrow> JSONError (Some ae)
      | Some e \<Rightarrow> JSONError (apperr_FromError (Some e)))"

section \<open>Lemmas\<close>

lemma apperr_New_simps [simp]:
  "ae_Code (apperr_New (Some ec)) = ec_code ec"
  "ae_Message (apperr_New (Some ec)) = ec_message ec"
  "ae_HTTPStatus (apperr_New (Some ec)) = ec_httpStatus ec"
  "ae_Suggestions (apperr_New (Some ec)) = []"
  "ae_cause (apperr_New (Some ec)) = None"
  by (simp_all add: apperr_New_def)

lemma apperr_WithMessage_simps [simp]:
  "ae_Code (apperr_WithMessage m (Some a)) = ae_Code a"
  "ae_Message (apperr_WithMessage m (Some a)) = m"
  "ae_HTTPStatus (apperr_WithMessage m (Some a)) = ae_HTTPStatus a"
  by (cases a; simp add: apperr_WithMessage_def)+

lemma AddSuggestion_simps [simp]:
  "ae_Code (AddSuggestion f m (Some a)) = ae_Code a"
  "ae_Message (AddSuggestion f m (Some a)) = ae_Message a"
  "ae_HTTPStatus (AddSuggestion f m (Some a)) = ae_HTTPStatus a"
  by (cases a; simp add: AddSuggestion_def)+

lemma JSONError_status_nonzero: "fst (JSONError a) \<noteq> 0"
  by (simp add: JSONError_def Let_def)

lemma apperr_FromError_opaque:
  "\<forall>a. e \<noteq> EApp a \<Longrightarrow>
     apperr_FromError (Some e) =
       Some (AppError ''internal_error'' ''Internal server error'' [] 500 (Some e) ErrorCodeInternal)"
  by (cases e) (simp_all add: apperr_FromError_def apperr_New_def error_code_defs)

lemma fold_options_append:
  "NewServiceError now c m st (xs @ ys) = fold (\<lambda>opt se. opt se) ys (NewServiceError now c m st xs)"
  by (simp add: NewServiceError_def)

section \<open>Properties\<close>

text \<open>
  Error responses never leak and never succeed: for every non-nil error \<open>HandleError\<close> writes
  exactly one envelope with a non-zero status and \<open>success = false\<close>; if the error is not an
  \<open>AppError\<close> the envelope is the fixed internal-error envelope with status 500, whatever the text
  or the cause of the error.
\<close>

lemma handle_error_opaque:
  "\<exists>status env. HandleError (Some e) = Some (status, env) \<and> status \<noteq> 0 \<and> \<not> ar_Success env \<and>
     ((\<exists>a. e = EApp a \<and> ar_Code env = ae_Code a \<and> ar_Message env = ae_Message a) \<or>
      (status, env) =
        (500, \<lparr>ar_Success = False, ar_Code = ''internal_error'',
               ar_Message = ''Internal server error'', ar_Data = None, ar_Errors = [],
               ar_Meta = Map.empty\<rparr>))"
proof (cases "\<exists>a. e = EApp a")
  case True
  then show ?thesis by (auto simp: HandleError_def JSONError_def Let_def)
next
  case False
  then have "HandleError (Some e) = Some (JSONError (apperr_FromError (Some e)))"
    by (cases e) (simp_all add: HandleError_def)
  with False show ?thesis
    by (simp add: apperr_FromError_opaque JSONError_def Let_def)
qed

text \<open>
  Converting a \<open>ServiceError\<close> to an \<open>AppError\<close> and parsing it back keeps code, message, HTTP
  status and suggestions.
\<close>

lemma service_error_round_trip:
  "\<exists>a s'. ToAppError (Some s) = Some a \<and> ParseServiceError now (Some (EApp a)) = Some s' \<and>
     se_Code s' = se_Code s \<and> se_Message s' = se_Message s \<and>
     se_HTTPStatus s' = se_HTTPStatus s \<and> se_Suggestions s' = se_Suggestions s"
  by (cases s)
     (simp add: ToAppError_def ParseServiceError_def apperr_New_def NewErrorCode_def
        NewServiceError_def)

end
