(* ===== verification/Tenant_Context.thy ===== *)
theory Tenant_Context
  imports Core_Prelude
begin

text \<open>
  \<open>pkg/tenant\<close>: the life cycle events of a tenant (\<open>lifecycle.go\<close>) and, in \<open>context.go\<close>, the tenant-aware request context that requests, jobs, events and audit
  records share. A Go \<open>context.Context\<close> is a record with one optional field per key under which
  the code stores values; \<open>context.WithValue\<close> is an update of that field. The field of this
  package is \<open>cx_request_context\<close>; package \<open>auth\<close> extends the record with its own keys. A nil
  context, which the code replaces by \<open>context.Background()\<close>, is not modelled.
\<close>

record request_context =
  rc_TenantID :: string
  rc_ActorUserID :: string
  rc_ServiceID :: string
  rc_CorrelationID :: string
  rc_IsSuperAdmin :: bool

definition empty_rc :: request_context where
  "empty_rc = \<lparr>rc_TenantID = [], rc_ActorUserID = [], rc_ServiceID = [], rc_CorrelationID = [],
     rc_IsSuperAdmin = False\<rparr>"

record rc_holder =
  cx_request_context :: "request_context option"

definition Normalize :: "request_context \<Rightarrow> request_context" where
  "Normalize rc = rc\<lparr>rc_TenantID := TrimSpace (rc_TenantID rc),
     rc_ActorUserID := TrimSpace (rc_ActorUserID rc),
     rc_ServiceID := TrimSpace (rc_ServiceID rc),
     rc_CorrelationID := TrimSpace (rc_CorrelationID rc)\<rparr>"

definition IsEmpty :: "request_context \<Rightarrow> bool" where
  "IsEmpty rc =
     (let n = Normalize rc in
      rc_TenantID n = [] \<and> rc_ActorUserID n = [] \<and> rc_ServiceID n = [] \<and>
      rc_CorrelationID n = [] \<and> \<not> rc_IsSuperAdmin n)"

definition WithFallbacks :: "request_context \<Rightarrow> request_context \<Rightarrow> request_context" where
  "WithFallbacks rc other =
     (let rc = Normalize rc; other = Normalize other;
          rc = (if rc_TenantID rc = [] then rc\<lparr>rc_TenantID := rc_TenantID other\<rparr> else rc);
          rc = (if rc_ActorUserID rc = [] then rc\<lparr>rc_ActorUserID := rc_ActorUserID other\<rparr> else rc);
          rc = (if rc_ServiceID rc = [] then rc\<lparr>rc_ServiceID := rc_ServiceID other\<rparr> else rc);
          rc = (if rc_CorrelationID rc = [] then rc\<lparr>rc_CorrelationID := rc_CorrelationID other\<rparr>
                else rc);
          rc = (if \<not> rc_IsSuperAdmin rc then rc\<lparr>rc_IsSuperAdmin := rc_IsSuperAdmin other\<rparr> else rc)
      in rc)"

definition ContextWithRequestContext ::
  "'a rc_holder_scheme \<Rightarrow> request_context \<Rightarrow> 'a rc_holder_scheme" where
  "ContextWithRequestContext ctx rc =
     (let rc = Normalize rc in
      if IsEmpty rc then ctx else ctx\<lparr>cx_request_context := Some rc\<rparr>)"

definition RequestContextFromContext :: "'a rc_holder_scheme \<Rightarrow> request_context option" where
  "RequestContextFromContext ctx =
     (case cx_request_context ctx of
        None \<Rightarrow> None
      | Some rc \<Rightarrow> (let rc = Normalize rc in if IsEmpty rc then None else Some rc))"

section \<open>Metadata\<close>

definition MetadataTenantID :: string where "MetadataTenantID = ''tenant_id''"
definition MetadataActorUserID :: string where "MetadataActorUserID = ''actor_user_id''"
definition MetadataServiceID :: string where "MetadataServiceID = ''service_id''"
definition MetadataCorrelationID :: string where "MetadataCorrelationID = ''correlation_id''"
definition MetadataIsSuperAdmin :: string where "MetadataIsSuperAdmin = ''is_super_admin''"
definition MetadataInitiator :: string where "MetadataInitiator = ''initiator''"
definition MetadataSource :: string where "MetadataSource = ''source''"

lemmas metadata_key_defs =
  MetadataTenantID_def MetadataActorUserID_def MetadataServiceID_def MetadataCorrelationID_def
  MetadataIsSuperAdmin_def MetadataInitiator_def MetadataSource_def

text \<open>The closure \<open>setIfEmpty\<close> of \<open>MergeMetadata\<close>.\<close>

definition setIfEmpty ::
  "string \<Rightarrow> string \<Rightarrow> (string \<rightharpoonup> string) \<Rightarrow> (string \<rightharpoonup> string)" where
  "setIfEmpty key val metadata =
     (if TrimSpace (index_str metadata key) \<noteq> [] then metadata
      else let val = TrimSpace val in if val = [] then metadata else metadata(key \<mapsto> val))"

text \<open>The last two steps of \<open>MergeMetadata\<close>.\<close>

definition set_source :: "request_context \<Rightarrow> (string \<rightharpoonup> string) \<Rightarrow> (string \<rightharpoonup> string)" where
  "set_source rc m =
     (if TrimSpace (index_str m MetadataSource) = [] \<and> rc_ServiceID rc \<noteq> []
      then m(MetadataSource \<mapsto> rc_ServiceID rc) else m)"

definition set_initiator :: "request_context \<Rightarrow> (string \<rightharpoonup> string) \<Rightarrow> (string \<rightharpoonup> string)" where
  "set_initiator rc m =
     (if TrimSpace (index_str m MetadataInitiator) = [] then
        (if rc_ActorUserID rc \<noteq> [] then m(MetadataInitiator \<mapsto> ''user:'' @ rc_ActorUserID rc)
         else if rc_ServiceID rc \<noteq> [] then m(MetadataInitiator \<mapsto> ''service:'' @ rc_ServiceID rc)
         else if rc_IsSuperAdmin rc then m(MetadataInitiator \<mapsto> ''super-admin'')
         else m)
      else m)"

definition set_super_admin :: "request_context \<Rightarrow> (string \<rightharpoonup> string) \<Rightarrow> (string \<rightharpoonup> string)" where
  "set_super_admin rc m =
     (if m MetadataIsSuperAdmin = None \<and> rc_IsSuperAdmin rc
      then m(MetadataIsSuperAdmin \<mapsto> FormatBool True) else m)"

text \<open>\<open>MergeMetadata\<close>; a nil map is the empty one.\<close>

definition MergeMetadata ::
  "(string \<rightharpoonup> string) \<Rightarrow> request_context \<Rightarrow> (string \<rightharpoonup> string)" where
  "MergeMetadata metadata rc =
     (let rc = Normalize rc;
          m = setIfEmpty MetadataTenantID (rc_TenantID rc) metadata;
          m = setIfEmpty MetadataActorUserID (rc_ActorUserID rc) m;
          m = setIfEmpty MetadataServiceID (rc_ServiceID rc) m;
          m = setIfEmpty MetadataCorrelationID (rc_CorrelationID rc) m;
          m = set_super_admin rc m;
          m = set_source rc m
      in set_initiator rc m)"

section \<open>lifecycle.go\<close>

text \<open>The events of the life of a tenant; \<open>Marshal\<close> and \<open>Unmarshal\<close> are those of the JSON library.\<close>

definition TopicTenantLifecycle :: string where "TopicTenantLifecycle = ''platform.tenant.lifecycle''"

datatype tenant_event_type =
  EventTenantSuspended | EventTenantReactivated | EventTenantDeleted | EventTenantExportReq | EventTenantExportDone

fun event_type_text :: "tenant_event_type \<Rightarrow> string" where
  "event_type_text EventTenantSuspended = ''tenant.suspended''"
| "event_type_text EventTenantReactivated = ''tenant.reactivated''"
| "event_type_text EventTenantDeleted = ''tenant.deleted''"
| "event_type_text EventTenantExportReq = ''tenant.export_requested''"
| "event_type_text EventTenantExportDone = ''tenant.export_completed''"

record lifecycle_event =
  lv_EventID :: string
  lv_EventType :: string
  lv_TenantID :: string
  lv_Timestamp :: go_time
  lv_Actor :: string
  lv_RequestID :: string
  lv_Payload :: "(string \<times> any) list"

definition lifecycle_JSON :: "(lifecycle_event \<Rightarrow> 'e + string) \<Rightarrow> lifecycle_event \<Rightarrow> 'e + string" where
  "lifecycle_JSON Marshal e = Marshal e"

definition ParseLifecycleEvent ::
    "(string \<Rightarrow> lifecycle_event \<Rightarrow> 'e option \<times> lifecycle_event) \<Rightarrow> string \<Rightarrow> lifecycle_event \<times> 'e option" where
  "ParseLifecycleEvent Unmarshal data =
     (case Unmarshal data \<lparr>lv_EventID = [], lv_EventType = [], lv_TenantID = [], lv_Timestamp = zero_time, lv_Actor = [],
             lv_RequestID = [], lv_Payload = []\<rparr> of (err, e) \<Rightarrow> (e, err))"

section \<open>Lemmas\<close>

lemma metadata_keys_distinct:
  "distinct [MetadataTenantID, MetadataActorUserID, MetadataServiceID, MetadataCorrelationID,
     MetadataIsSuperAdmin, MetadataInitiator, MetadataSource]"
  by (simp add: metadata_key_defs)

lemmas metadata_key_neq [simp] = metadata_keys_distinct [simplified]

lemma Normalize_simps [simp]:
  "rc_TenantID (Normalize rc) = TrimSpace (rc_TenantID rc)"
  "rc_ActorUserID (Normalize rc) = TrimSpace (rc_ActorUserID rc)"
  "rc_ServiceID (Normalize rc) = TrimSpace (rc_ServiceID rc)"
  "rc_CorrelationID (Normalize rc) = TrimSpace (rc_CorrelationID rc)"
  "rc_IsSuperAdmin (Normalize rc) = rc_IsSuperAdmin rc"
  by (simp_all add: Normalize_def)

lemma Normalize_idem [simp]: "Normalize (Normalize rc) = Normalize rc"
  by (simp add: Normalize_def)

lemma IsEmpty_Normalize [simp]: "IsEmpty (Normalize rc) = IsEmpty rc"
  by (simp add: IsEmpty_def)

text \<open>The fallback of one field: the first of the two trimmed strings that is not empty.\<close>

definition first_nonblank :: "string \<Rightarrow> string \<Rightarrow> string" where
  "first_nonblank a b = (if TrimSpace a = [] then TrimSpace b else TrimSpace a)"

lemma WithFallbacks_simps [simp]:
  "rc_TenantID (WithFallbacks a b) = first_nonblank (rc_TenantID a) (rc_TenantID b)"
  "rc_ActorUserID (WithFallbacks a b) = first_nonblank (rc_ActorUserID a) (rc_ActorUserID b)"
  "rc_ServiceID (WithFallbacks a b) = first_nonblank (rc_ServiceID a) (rc_ServiceID b)"
  "rc_CorrelationID (WithFallbacks a b) = first_nonblank (rc_CorrelationID a) (rc_CorrelationID b)"
  "rc_IsSuperAdmin (WithFallbacks a b) = (rc_IsSuperAdmin a \<or> rc_IsSuperAdmin b)"
  by (simp_all add: WithFallbacks_def first_nonblank_def Let_def)

lemma first_nonblank_assoc:
  "first_nonblank (first_nonblank a b) c = first_nonblank a (first_nonblank b c)"
  by (simp add: first_nonblank_def)

lemma first_nonblank_trim [simp]: "TrimSpace (first_nonblank a b) = first_nonblank a b"
  by (simp add: first_nonblank_def)

lemma WithFallbacks_assoc:
  "WithFallbacks (WithFallbacks a b) c = WithFallbacks a (WithFallbacks b c)"
  by (rule request_context.equality) (simp_all add: first_nonblank_assoc)

lemma Normalize_WithFallbacks [simp]: "Normalize (WithFallbacks a b) = WithFallbacks a b"
  by (rule request_context.equality) simp_all

lemma RequestContextFromContext_With [simp]:
  "RequestContextFromContext (ContextWithRequestContext ctx rc) =
     (if IsEmpty rc then RequestContextFromContext ctx else Some (Normalize rc))"
  by (simp add: RequestContextFromContext_def ContextWithRequestContext_def Let_def)

lemma RequestContextFromContext_normal:
  "RequestContextFromContext ctx = Some rc \<Longrightarrow> Normalize rc = rc \<and> \<not> IsEmpty rc"
  by (auto simp: RequestContextFromContext_def Let_def split: option.splits if_splits)

definition nonblank_entry :: "(string \<rightharpoonup> string) \<Rightarrow> string \<Rightarrow> string \<Rightarrow> bool" where
  "nonblank_entry m k v = (m k = Some v \<and> TrimSpace v \<noteq> [])"

lemma keep_entry:
  "nonblank_entry m k v \<Longrightarrow> nonblank_entry (setIfEmpty key val m) k v"
  "nonblank_entry m k v \<Longrightarrow> nonblank_entry (set_super_admin rc m) k v"
  "nonblank_entry m k v \<Longrightarrow> nonblank_entry (set_source rc m) k v"
  "nonblank_entry m k v \<Longrightarrow> nonblank_entry (set_initiator rc m) k v"
  by (auto simp: nonblank_entry_def setIfEmpty_def set_super_admin_def set_source_def
        set_initiator_def index_str_def Let_def split: if_splits)

lemma MergeMetadata_keeps: "nonblank_entry m k v \<Longrightarrow> nonblank_entry (MergeMetadata m rc) k v"
  by (simp add: MergeMetadata_def Let_def keep_entry)

lemma step_other_key [simp]:
  "k \<noteq> key \<Longrightarrow> setIfEmpty key val m k = m k"
  "k \<noteq> MetadataIsSuperAdmin \<Longrightarrow> set_super_admin rc m k = m k"
  "k \<noteq> MetadataSource \<Longrightarrow> set_source rc m k = m k"
  "k \<noteq> MetadataInitiator \<Longrightarrow> set_initiator rc m k = m k"
  by (simp_all add: setIfEmpty_def set_super_admin_def set_source_def set_initiator_def Let_def)

lemma MergeMetadata_other_keys:
  assumes "k \<notin> {MetadataTenantID, MetadataActorUserID, MetadataServiceID, MetadataCorrelationID,
    MetadataIsSuperAdmin, MetadataInitiator, MetadataSource}"
  shows "MergeMetadata m rc k = m k"
  using assms by (simp add: MergeMetadata_def Let_def)

lemma MergeMetadata_tenant:
  "MergeMetadata m rc MetadataTenantID =
     (if TrimSpace (index_str m MetadataTenantID) = [] \<and> TrimSpace (rc_TenantID rc) \<noteq> []
      then Some (TrimSpace (rc_TenantID rc)) else m MetadataTenantID)"
  by (simp add: MergeMetadata_def Let_def) (simp add: setIfEmpty_def Let_def)

section \<open>Properties\<close>

text \<open>
  The request context that a context returns is normalised and not empty, and the fallback
  merge of request contexts is associative, so the order in which layers are combined pairwise
  does not matter.
\<close>

lemma request_context_fallback_assoc:
  "WithFallbacks (WithFallbacks a b) c = WithFallbacks a (WithFallbacks b c) \<and>
   (\<not> IsEmpty (WithFallbacks a b) \<longrightarrow>
     RequestContextFromContext (ContextWithRequestContext ctx (WithFallbacks a b)) =
       Some (WithFallbacks a b))"
  by (simp add: WithFallbacks_assoc)

lemma request_context_fallback_assoc_witness:
  "\<not> IsEmpty (WithFallbacks (empty_rc\<lparr>rc_TenantID := ''t1''\<rparr>) empty_rc) \<and>
   RequestContextFromContext
     (ContextWithRequestContext \<lparr>cx_request_context = None\<rparr>
       (WithFallbacks (empty_rc\<lparr>rc_TenantID := ''t1''\<rparr>) empty_rc)) =
     Some (WithFallbacks (empty_rc\<lparr>rc_TenantID := ''t1''\<rparr>) empty_rc)"
proof -
  have h: "\<not> IsEmpty (WithFallbacks (empty_rc\<lparr>rc_TenantID := ''t1''\<rparr>) empty_rc)"
    by (simp add: IsEmpty_def first_nonblank_def empty_rc_def plain_char_code)
  with request_context_fallback_assoc [of "empty_rc\<lparr>rc_TenantID := ''t1''\<rparr>" empty_rc empty_rc
      "\<lparr>cx_request_context = None\<rparr>"]
  show ?thesis by blast
qed

text \<open>
  Merging the request context into metadata never overwrites an entry that is not blank, and
  writes no key outside the seven canonical ones.
\<close>

lemma merge_metadata_preserves:
  assumes "m k = Some v" and
    "TrimSpace v \<noteq> [] \<or> k \<notin> {MetadataTenantID, MetadataActorUserID, MetadataServiceID,
       MetadataCorrelationID, MetadataIsSuperAdmin, MetadataInitiator, MetadataSource}"
  shows "MergeMetadata m rc k = Some v"
  using assms MergeMetadata_keeps [of m k v rc] MergeMetadata_other_keys [of k m rc]
  by (auto simp: nonblank_entry_def)

lemma merge_metadata_preserves_witness:
  "MergeMetadata [''tenant_id'' \<mapsto> ''t1''] (empty_rc\<lparr>rc_TenantID := ''t2''\<rparr>) ''tenant_id'' =
     Some ''t1''"
  by (rule merge_metadata_preserves) (simp_all add: plain_char_code)

end
