(* ===== verification/Auth_Claims.thy ===== *)
theory Auth_Claims
  imports Tenant_Context "HOL-Library.Word"
begin

unbundle bit_operations_syntax

text \<open>
  Verified claims and the context they travel in: \<open>pkg/auth/claims.go\<close>, \<open>pkg/auth/context.go\<close> and
  the pure helpers of \<open>pkg/auth/authorizer.go\<close> (bearer extraction, issuer and audience checks,
  mapping of JWT claims, decoding of the \<open>svc_perm\<close> claim). Permission ranges are 64-bit words.
  A nil \<open>map\<close> is the empty one.
\<close>

section \<open>pkg/auth/claims.go\<close>

record claims =
  Subject :: string
  IdentityID :: string
  RoleID :: string
  TokenUse :: string
  ServicePermissions :: "string \<rightharpoonup> 64 word list"
  Raw :: "string \<rightharpoonup> any"

definition IsServiceToken :: "claims \<Rightarrow> bool" where
  "IsServiceToken c = EqualFold (TrimSpace (TokenUse c)) ''service''"

definition ClaimString :: "claims \<Rightarrow> string \<Rightarrow> string" where
  "ClaimString c key =
     (case Raw c key of
        None \<Rightarrow> []
      | Some (AString s) \<Rightarrow> TrimSpace s
      | Some _ \<Rightarrow> [])"

definition TenantID :: "claims \<Rightarrow> string" where
  "TenantID c = ClaimString c ''tenant_id''"

definition TenantStatus :: "claims \<Rightarrow> string" where
  "TenantStatus c = ClaimString c ''tenant_status''"

definition TenantMembershipStatus :: "claims \<Rightarrow> string" where
  "TenantMembershipStatus c = ClaimString c ''tenant_membership_status''"

definition ServiceID :: "claims \<Rightarrow> string" where
  "ServiceID c = ClaimString c ''service_id''"

definition IsSuperAdmin :: "claims \<Rightarrow> bool" where
  "IsSuperAdmin c =
     (case Raw c ''is_super_admin'' of
        None \<Rightarrow> False
      | Some (ABool b) \<Rightarrow> b
      | Some (AString s) \<Rightarrow> ParseBool (TrimSpace s) = Some True
      | Some _ \<Rightarrow> False)"

definition UserID :: "claims \<Rightarrow> string" where
  "UserID c =
     (let userID = TrimSpace (IdentityID c)
      in if userID \<noteq> [] then userID else TrimSpace (Subject c))"

definition HasPermission :: "claims \<Rightarrow> string \<Rightarrow> int \<Rightarrow> bool" where
  "HasPermission c service bitValue =
     (if bitValue < 0 then False
      else
        let ranges = (case ServicePermissions c (ToLower (TrimSpace service)) of
                        None \<Rightarrow> [] | Some rs \<Rightarrow> rs)
        in if length ranges = 0 then False
           else
             let rangeIndex = bitValue div 63;
                 positionInRange = bitValue mod 63;
                 bitMask = push_bit (nat positionInRange) (1 :: 64 word)
             in if rangeIndex < int (length ranges)
                then (ranges ! nat rangeIndex AND bitMask) = bitMask
                else False)"

text \<open>
  What the \<open>ServicePermissions\<close> map means: permission \<open>n\<close> of a service is bit \<open>n mod 63\<close> of range
  \<open>n div 63\<close>.
\<close>

definition granted :: "(string \<rightharpoonup> 64 word list) \<Rightarrow> string \<Rightarrow> nat set" where
  "granted perms svc =
     {n. \<exists>rs. perms svc = Some rs \<and> n div 63 < length rs \<and> bit (rs ! (n div 63)) (n mod 63)}"

section \<open>Helpers of pkg/auth/authorizer.go\<close>

definition bearer_prefix :: string where
  "bearer_prefix = ''Bearer ''"

definition ExtractBearerToken :: "string \<Rightarrow> string + string" where
  "ExtractBearerToken header =
     (let trimmed = TrimSpace header
      in if trimmed = [] then Inl ''authorization header missing''
         else if length trimmed \<le> length bearer_prefix \<or>
                 \<not> EqualFold (take (length bearer_prefix) trimmed) bearer_prefix
         then Inl ''authorization header must be a bearer token''
         else
           let token = TrimSpace (drop (length bearer_prefix) trimmed)
           in if token = [] then Inl ''authorization header must be a bearer token'' else Inr token)"

text \<open>The value of a base-36 digit, and \<open>strconv.ParseInt(s, 36, 64)\<close> (\<open>None\<close> for an error).\<close>

definition digit36 :: "char \<Rightarrow> nat option" where
  "digit36 c =
     (let n = (of_char c :: nat) in
      if 48 \<le> n \<and> n \<le> 57 then Some (n - 48)
      else if 97 \<le> n \<and> n \<le> 122 then Some (n - 87)
      else if 65 \<le> n \<and> n \<le> 90 then Some (n - 55)
      else None)"

fun parse_digits36 :: "nat \<Rightarrow> string \<Rightarrow> nat option" where
  "parse_digits36 acc [] = Some acc"
| "parse_digits36 acc (c # cs) =
     (case digit36 c of None \<Rightarrow> None | Some d \<Rightarrow> parse_digits36 (36 * acc + d) cs)"

definition ParseInt36 :: "string \<Rightarrow> int option" where
  "ParseInt36 s =
     (case s of
        [] \<Rightarrow> None
      | c # cs \<Rightarrow>
          let neg = (c = CHR ''-'');
              ds = (if c = CHR ''-'' \<or> c = CHR ''+'' then cs else s)
          in if ds = [] then None
             else case parse_digits36 0 ds of
                    None \<Rightarrow> None
                  | Some n \<Rightarrow>
                      if \<not> neg \<and> 2 ^ 63 \<le> n then None
                      else if neg \<and> 2 ^ 63 < n then None
                      else Some (if neg then - int n else int n))"

text \<open>The loop over the comma-separated ranges of one entry.\<close>

fun parse_ranges :: "string list \<Rightarrow> 64 word list" where
  "parse_ranges [] = []"
| "parse_ranges (r # rs) =
     (let rangeStr = TrimSpace r in
      if rangeStr = [] then parse_ranges rs
      else case ParseInt36 rangeStr of
             None \<Rightarrow> parse_ranges rs
           | Some m \<Rightarrow> word_of_int m # parse_ranges rs)"

text \<open>One iteration of the loop over the entries.\<close>

definition decode_entry ::
  "string \<Rightarrow> (string \<rightharpoonup> 64 word list) \<Rightarrow> (string \<rightharpoonup> 64 word list)" where
  "decode_entry e perms =
     (let e = TrimSpace e in
      if e = [] then perms
      else case SplitN 2 e (CHR '':'') of
             [svc, rest] \<Rightarrow>
               (let serviceKey = ToLower (TrimSpace svc) in
                if serviceKey = [] then perms
                else
                  let rangesStr = TrimSpace rest in
                  if rangesStr = [] then perms
                  else
                    let ranges = parse_ranges (Split rangesStr (CHR '',''))
                    in if ranges \<noteq> [] then perms(serviceKey \<mapsto> ranges) else perms)
           | _ \<Rightarrow> perms)"

definition decodeServicePermissionsMultiRange :: "string \<Rightarrow> (string \<rightharpoonup> 64 word list)" where
  "decodeServicePermissionsMultiRange raw =
     (if TrimSpace raw = [] then Map.empty
      else fold decode_entry (Split raw (CHR '';'')) Map.empty)"

definition validateIssuerClaim :: "(string \<rightharpoonup> any) \<Rightarrow> string \<Rightarrow> string option" where
  "validateIssuerClaim cs issuer =
     (if issuer = [] then None
      else case cs ''iss'' of
             Some (AString iss) \<Rightarrow> if iss \<noteq> issuer then Some ''invalid issuer'' else None
           | _ \<Rightarrow> Some ''invalid issuer'')"

definition validateAudienceClaim :: "(string \<rightharpoonup> any) \<Rightarrow> string list \<Rightarrow> string option" where
  "validateAudienceClaim cs audiences =
     (if audiences = [] then None
      else case cs ''aud'' of
             None \<Rightarrow> Some ''missing audience claim''
           | Some aud \<Rightarrow>
               let audValid =
                 (case aud of
                    AString typed \<Rightarrow> list_ex (\<lambda>expected. typed = expected) audiences
                  | ASlice typed \<Rightarrow>
                      list_ex (\<lambda>expected. list_ex (\<lambda>v. v = AString expected) typed) audiences
                  | _ \<Rightarrow> False)
               in if audValid then None else Some ''invalid audience'')"

text \<open>\<open>fmt_other\<close> is the text \<open>fmt.Sprint\<close> gives for numbers and composite values.\<close>

definition mapClaimsToAuthClaims :: "(any \<Rightarrow> string) \<Rightarrow> (string \<rightharpoonup> any) \<Rightarrow> claims" where
  "mapClaimsToAuthClaims fmt_other cs =
     (let raw = cs;
          tokenUse = TrimSpace (Sprint fmt_other (index_any raw ''token_use''));
          tokenUse = (if tokenUse = [] then ''access'' else tokenUse);
          svcPermRaw = (case raw ''svc_perm'' of None \<Rightarrow> [] | Some v \<Rightarrow> Sprint fmt_other v)
      in \<lparr>Subject = TrimSpace (Sprint fmt_other (index_any raw ''sub'')),
          IdentityID = TrimSpace (Sprint fmt_other (index_any raw ''identity_id'')),
          RoleID = TrimSpace (Sprint fmt_other (index_any raw ''role_id'')),
          TokenUse = tokenUse,
          ServicePermissions = decodeServicePermissionsMultiRange svcPermRaw,
          Raw = raw\<rparr>)"

section \<open>pkg/auth/context.go\<close>

record go_context = rc_holder +
  cx_claims :: "claims option"
  cx_resolved_tenant :: "string option"
  cx_tenant :: "string option"
  cx_user :: "string option"
  cx_request_id :: "string option"

definition Background :: go_context where
  "Background = \<lparr>cx_request_context = None, cx_claims = None, cx_resolved_tenant = None,
     cx_tenant = None, cx_user = None, cx_request_id = None\<rparr>"

definition ClaimsFromContext :: "go_context \<Rightarrow> claims option" where
  "ClaimsFromContext ctx = cx_claims ctx"

definition ContextWithClaims :: "go_context \<Rightarrow> claims \<Rightarrow> go_context" where
  "ContextWithClaims ctx c =
     (let ctx = ctx\<lparr>cx_claims := Some c\<rparr>
      in ContextWithRequestContext ctx
           \<lparr>rc_TenantID = TenantID c, rc_ActorUserID = UserID c, rc_ServiceID = ServiceID c,
            rc_CorrelationID = [], rc_IsSuperAdmin = IsSuperAdmin c\<rparr>)"

text \<open>The step the setters share: merge the new request context over the existing one.\<close>

definition overlay_rc :: "go_context \<Rightarrow> request_context \<Rightarrow> go_context" where
  "overlay_rc ctx rc =
     (case RequestContextFromContext ctx of
        Some existing \<Rightarrow> ContextWithRequestContext ctx (WithFallbacks rc existing)
      | None \<Rightarrow> ContextWithRequestContext ctx rc)"

definition ContextWithTenantID :: "go_context \<Rightarrow> string \<Rightarrow> go_context" where
  "ContextWithTenantID ctx tenantID =
     (let scopedTenantID = TrimSpace tenantID
      in if scopedTenantID = [] then ctx
         else
           let ctx = overlay_rc ctx (empty_rc\<lparr>rc_TenantID := scopedTenantID\<rparr>)
           in ctx\<lparr>cx_resolved_tenant := Some scopedTenantID, cx_tenant := Some scopedTenantID\<rparr>)"

definition ContextWithUserID :: "go_context \<Rightarrow> string \<Rightarrow> go_context" where
  "ContextWithUserID ctx userID =
     (let scopedUserID = TrimSpace userID
      in if scopedUserID = [] then ctx
         else
           let ctx = overlay_rc ctx (empty_rc\<lparr>rc_ActorUserID := scopedUserID\<rparr>)
           in ctx\<lparr>cx_user := Some scopedUserID\<rparr>)"

definition ContextWithServiceID :: "go_context \<Rightarrow> string \<Rightarrow> go_context" where
  "ContextWithServiceID ctx serviceID =
     (let scopedServiceID = TrimSpace serviceID
      in if scopedServiceID = [] then ctx
         else overlay_rc ctx (empty_rc\<lparr>rc_ServiceID := scopedServiceID\<rparr>))"

definition ContextWithCorrelationID :: "go_context \<Rightarrow> string \<Rightarrow> go_context" where
  "ContextWithCorrelationID ctx correlationID =
     (let scopedCorrelationID = TrimSpace correlationID
      in if scopedCorrelationID = [] then ctx
         else overlay_rc ctx (empty_rc\<lparr>rc_CorrelationID := scopedCorrelationID\<rparr>))"

definition ContextWithSuperAdmin :: "go_context \<Rightarrow> bool \<Rightarrow> go_context" where
  "ContextWithSuperAdmin ctx isSuperAdmin =
     (case RequestContextFromContext ctx of
        Some existing \<Rightarrow>
          ContextWithRequestContext ctx
            (existing\<lparr>rc_IsSuperAdmin := rc_IsSuperAdmin existing \<or> isSuperAdmin\<rparr>)
      | None \<Rightarrow>
          if \<not> isSuperAdmin then ctx
          else ContextWithRequestContext ctx (empty_rc\<lparr>rc_IsSuperAdmin := True\<rparr>))"

text \<open>The first value of the list that is a non-blank string, trimmed.\<close>

fun first_string_value :: "string option list \<Rightarrow> string option" where
  "first_string_value [] = None"
| "first_string_value (None # vs) = first_string_value vs"
| "first_string_value (Some v # vs) =
     (if TrimSpace v \<noteq> [] then Some (TrimSpace v) else first_string_value vs)"

definition TenantIDFromContext :: "go_context \<Rightarrow> string option" where
  "TenantIDFromContext ctx =
     (case RequestContextFromContext ctx of
        Some rc \<Rightarrow> if TrimSpace (rc_TenantID rc) \<noteq> [] then Some (rc_TenantID rc)
                  else first_string_value [cx_resolved_tenant ctx, cx_tenant ctx]
      | None \<Rightarrow> first_string_value [cx_resolved_tenant ctx, cx_tenant ctx])"

definition UserIDFromContext :: "go_context \<Rightarrow> string option" where
  "UserIDFromContext ctx =
     (case RequestContextFromContext ctx of
        Some rc \<Rightarrow> if TrimSpace (rc_ActorUserID rc) \<noteq> [] then Some (rc_ActorUserID rc)
                  else first_string_value [cx_user ctx]
      | None \<Rightarrow> first_string_value [cx_user ctx])"

definition ServiceIDFromContext :: "go_context \<Rightarrow> string option" where
  "ServiceIDFromContext ctx =
     (case RequestContextFromContext ctx of
        Some rc \<Rightarrow> if TrimSpace (rc_ServiceID rc) = [] then None else Some (rc_ServiceID rc)
      | None \<Rightarrow> None)"

definition CorrelationIDFromContext :: "go_context \<Rightarrow> string option" where
  "CorrelationIDFromContext ctx =
     (case RequestContextFromContext ctx of
        Some rc \<Rightarrow> if TrimSpace (rc_CorrelationID rc) = [] then None else Some (rc_CorrelationID rc)
      | None \<Rightarrow> None)"

definition IsSuperAdminFromContext :: "go_context \<Rightarrow> bool" where
  "IsSuperAdminFromContext ctx =
     (case RequestContextFromContext ctx of Some rc \<Rightarrow> rc_IsSuperAdmin rc | None \<Rightarrow> False)"

section \<open>Lemmas\<close>

subsection \<open>Permission bits\<close>

lemma and_push_bit_eq:
  assumes "n < 64"
  shows "(w AND push_bit n (1 :: 64 word)) = push_bit n 1 \<longleftrightarrow> bit w n"
proof
  assume "w AND push_bit n (1 :: 64 word) = push_bit n 1"
  with assms have "bit (w AND push_bit n (1 :: 64 word)) n" by (simp add: bit_simps)
  then show "bit w n" by (simp add: bit_simps)
next
  assume "bit w n"
  with assms show "w AND push_bit n (1 :: 64 word) = push_bit n 1"
    by (intro bit_word_eqI) (auto simp: bit_simps)
qed

lemma HasPermission_granted:
  "HasPermission c svc b \<longleftrightarrow>
     0 \<le> b \<and> nat b \<in> granted (ServicePermissions c) (ToLower (TrimSpace svc))"
proof (cases "0 \<le> b")
  case True
  then obtain n where b: "b = int n" by (auto elim: nonneg_int_cases)
  have "nat (int n mod 63) = n mod 63" "nat (int n div 63) = n div 63"
    by (simp_all add: nat_mod_distrib nat_div_distrib)
  then show ?thesis
    using and_push_bit_eq [of "n mod 63"]
    by (cases "ServicePermissions c (ToLower (TrimSpace svc))")
       (auto simp: HasPermission_def granted_def b Let_def)
next
  case False
  then show ?thesis by (simp add: HasPermission_def)
qed

subsection \<open>Bearer tokens\<close>

lemma space_rune_blank: "t \<in> set space_runes \<Longrightarrow> CHR '' '' \<in> set t \<Longrightarrow> t = '' ''"
  by (auto simp: space_runes_def)

lemma bearer_header_trim:
  assumes tok: "TrimSpace tok = tok" and "tok \<noteq> []"
  shows "TrimSpace (bearer_prefix @ tok) = bearer_prefix @ tok"
proof (rule TrimSpace_id)
  have "\<not> starts_with_any space_runes (CHR ''B'' # s)" for s
    by (simp add: starts_with_any_def space_runes_def)
  then show "\<not> starts_with_any space_runes (bearer_prefix @ tok)"
    by (simp add: bearer_prefix_def)
  have clean: "\<not> starts_with_any (map rev space_runes) (rev tok)"
    using TrimSpace_clean_back [of tok] tok by simp
  show "\<not> starts_with_any (map rev space_runes) (rev (bearer_prefix @ tok))"
  proof
    assume "starts_with_any (map rev space_runes) (rev (bearer_prefix @ tok))"
    then obtain t where t: "t \<in> set space_runes" "t \<noteq> []"
      and pre: "prefix (rev t) (rev tok @ rev bearer_prefix)"
      by (auto simp: starts_with_any_def)
    show False
    proof (cases "length t \<le> length tok")
      case True
      with pre have "prefix (rev t) (rev tok)"
        using prefix_length_prefix [of "rev t" "rev tok @ rev bearer_prefix" "rev tok"] by simp
      with t clean show False by (auto simp: starts_with_any_def)
    next
      case False
      with pre obtain u where u: "rev t = rev tok @ u" "prefix u (rev bearer_prefix)"
        by (auto simp: prefix_append dest: prefix_length_le)
      have "u \<noteq> []" using False arg_cong [OF u(1), of length] by auto
      with u have "CHR '' '' \<in> set (rev t)"
        by (cases u) (auto simp: bearer_prefix_def)
      then have "t = '' ''" using space_rune_blank t by auto
      with u \<open>u \<noteq> []\<close> \<open>tok \<noteq> []\<close> show False by (cases tok rule: rev_cases) auto
    qed
  qed
qed

lemma ExtractBearerToken_trimmed:
  "ExtractBearerToken h = Inr tok \<Longrightarrow> TrimSpace tok = tok \<and> tok \<noteq> []"
  by (auto simp: ExtractBearerToken_def Let_def split: if_splits)

subsection \<open>Context accessors\<close>

lemma TenantID_trimmed: "TrimSpace (TenantID cl) = TenantID cl"
  by (simp add: TenantID_def ClaimString_def Let_def split: option.splits any.splits)

lemma IsEmpty_overlay:
  "TrimSpace t \<noteq> [] \<Longrightarrow> \<not> IsEmpty (WithFallbacks (empty_rc\<lparr>rc_TenantID := TrimSpace t\<rparr>) rc)"
  "TrimSpace t \<noteq> [] \<Longrightarrow> \<not> IsEmpty (empty_rc\<lparr>rc_TenantID := TrimSpace t\<rparr>)"
  "TrimSpace t \<noteq> [] \<Longrightarrow> \<not> IsEmpty (WithFallbacks (empty_rc\<lparr>rc_CorrelationID := TrimSpace t\<rparr>) rc)"
  "TrimSpace t \<noteq> [] \<Longrightarrow> \<not> IsEmpty (empty_rc\<lparr>rc_CorrelationID := TrimSpace t\<rparr>)"
  by (simp_all add: IsEmpty_def first_nonblank_def)

lemma RequestContextFromContext_cong [simp]:
  "RequestContextFromContext (ctx\<lparr>cx_resolved_tenant := a\<rparr>) = RequestContextFromContext ctx"
  "RequestContextFromContext (ctx\<lparr>cx_tenant := a\<rparr>) = RequestContextFromContext ctx"
  "RequestContextFromContext (ctx\<lparr>cx_user := a\<rparr>) = RequestContextFromContext ctx"
  "RequestContextFromContext (ctx\<lparr>cx_claims := b\<rparr>) = RequestContextFromContext ctx"
  by (simp_all add: RequestContextFromContext_def)

lemma ContextWithTenantID_rc:
  assumes "TrimSpace t \<noteq> []"
  shows "\<exists>rc. RequestContextFromContext (ContextWithTenantID ctx t) = Some rc \<and>
    rc_TenantID rc = TrimSpace t \<and>
    (\<forall>old. RequestContextFromContext ctx = Some old \<longrightarrow>
       rc_ActorUserID rc = rc_ActorUserID old \<and> rc_ServiceID rc = rc_ServiceID old \<and>
       rc_CorrelationID rc = rc_CorrelationID old \<and> rc_IsSuperAdmin rc = rc_IsSuperAdmin old)"
proof (cases "RequestContextFromContext ctx")
  case None
  with assms show ?thesis
    by (simp add: ContextWithTenantID_def overlay_rc_def Let_def IsEmpty_overlay)
next
  case (Some old)
  then have "Normalize old = old" by (simp add: RequestContextFromContext_normal)
  then have "TrimSpace (rc_ActorUserID old) = rc_ActorUserID old"
    "TrimSpace (rc_ServiceID old) = rc_ServiceID old"
    "TrimSpace (rc_CorrelationID old) = rc_CorrelationID old"
    by (metis Normalize_simps)+
  moreover have "rc_ActorUserID empty_rc = []" "rc_ServiceID empty_rc = []"
    "rc_CorrelationID empty_rc = []" "rc_IsSuperAdmin empty_rc = False"
    by (simp_all add: empty_rc_def)
  ultimately show ?thesis
    using Some assms
    by (simp add: ContextWithTenantID_def overlay_rc_def Let_def IsEmpty_overlay
          first_nonblank_def)
qed

section \<open>Properties\<close>

text \<open>
  C18. \<open>HasPermission\<close> computes exactly membership of the permission number in the set the ranges
  denote: bit \<open>n mod 63\<close> of range \<open>n div 63\<close> of the lower-cased service. Negative numbers and
  numbers beyond the last range are refused.
\<close>

theorem has_permission_iff_granted:
  "HasPermission c service bitValue \<longleftrightarrow>
     0 \<le> bitValue \<and>
     (\<exists>ranges. ServicePermissions c (ToLower (TrimSpace service)) = Some ranges \<and>
        nat bitValue div 63 < length ranges \<and>
        bit (ranges ! (nat bitValue div 63)) (nat bitValue mod 63))"
  by (auto simp: HasPermission_granted granted_def)

text \<open>
  A bearer header built from a trimmed, non-empty token gives back exactly that token, and
  every accepted header yields a trimmed, non-empty token.
\<close>

lemma bearer_round_trip:
  assumes "TrimSpace tok = tok" and "tok \<noteq> []"
  shows "ExtractBearerToken (''Bearer '' @ tok) = Inr tok \<and>
    (\<forall>header tok'. ExtractBearerToken header = Inr tok' \<longrightarrow> TrimSpace tok' = tok' \<and> tok' \<noteq> [])"
proof -
  have "ExtractBearerToken (''Bearer '' @ tok) = Inr tok"
    using assms bearer_header_trim [OF assms]
    by (simp add: ExtractBearerToken_def bearer_prefix_def Let_def)
  then show ?thesis using ExtractBearerToken_trimmed by blast
qed

lemma bearer_round_trip_witness:
  "ExtractBearerToken (''Bearer '' @ ''abc.def.ghi'') = Inr ''abc.def.ghi''"
  using bearer_round_trip [of "''abc.def.ghi''"] by (simp add: plain_char_code)

text \<open>
  A token without an \<open>identity_id\<close> claim is mapped to claims whose \<open>UserID\<close> is the text
  \<open><nil>\<close> and not the subject, and a token without \<open>token_use\<close> gets the token use \<open><nil>\<close> and not
  the default \<open>access\<close>: \<open>fmt.Sprint\<close> of an absent claim is never blank.
\<close>

lemma missing_claims_become_nil_text:
  shows "cs ''identity_id'' = None \<Longrightarrow>
      UserID (mapClaimsToAuthClaims fmt_other cs) = ''<nil>'' \<and>
      (cs ''token_use'' = None \<longrightarrow> TokenUse (mapClaimsToAuthClaims fmt_other cs) = ''<nil>'')"
  by (simp add: mapClaimsToAuthClaims_def UserID_def index_any_def Let_def plain_char_code)

lemma missing_claims_become_nil_text_witness:
  "UserID (mapClaimsToAuthClaims (\<lambda>_. []) [''sub'' \<mapsto> AString ''alice'']) = ''<nil>'' \<and>
   TokenUse (mapClaimsToAuthClaims (\<lambda>_. []) [''sub'' \<mapsto> AString ''alice'']) = ''<nil>''"
  using missing_claims_become_nil_text [of "[''sub'' \<mapsto> AString ''alice'']" "\<lambda>_. []"] by simp

text \<open>
  A range that does not parse is dropped rather than kept as an empty one, so every later
  range of the service moves down by 63 permissions: the claim with an unreadable first range and
  the value 1 as second range grants permission 0 and not permission 63, while the well-formed
  claim with first range 0 grants permission 63 and not permission 0.
\<close>

lemma unreadable_range_shifts_permissions:
  "granted (decodeServicePermissionsMultiRange ''svc:?,1'') ''svc'' = {0} \<and>
   granted (decodeServicePermissionsMultiRange ''svc:0,1'') ''svc'' = {63}"
proof -
  have split: "SplitN 2 ''svc:?,1'' (CHR '':'') = [''svc'', ''?,1'']"
    "SplitN 2 ''svc:0,1'' (CHR '':'') = [''svc'', ''0,1'']"
    by (simp_all add: numeral_2_eq_2)
  have one: "bit (1 :: 64 word) k \<longleftrightarrow> k = 0" for k by (simp add: bit_1_iff)
  have a: "decodeServicePermissionsMultiRange ''svc:?,1'' = [''svc'' \<mapsto> [1]]"
    by (simp add: decodeServicePermissionsMultiRange_def decode_entry_def Let_def plain_char_code
          split ParseInt36_def digit36_def ToLower_def to_lower_char_def less_eq_char_def)
  have b: "decodeServicePermissionsMultiRange ''svc:0,1'' = [''svc'' \<mapsto> [0, 1]]"
    by (simp add: decodeServicePermissionsMultiRange_def decode_entry_def Let_def plain_char_code
          split ParseInt36_def digit36_def ToLower_def to_lower_char_def less_eq_char_def)
  have ga: "n div 63 < 1 \<and> bit ([1 :: 64 word] ! (n div 63)) (n mod 63) \<longleftrightarrow> n = 0" for n :: nat
    by (auto simp: one div_eq_0_iff)
  have gb: "n div 63 < 2 \<and> bit ([0, 1 :: 64 word] ! (n div 63)) (n mod 63) \<longleftrightarrow> n = 63" for n :: nat
  proof
    assume h: "n div 63 < 2 \<and> bit ([0, 1 :: 64 word] ! (n div 63)) (n mod 63)"
    then have "n div 63 = 0 \<or> n div 63 = 1" by arith
    with h have "n div 63 = 1" "n mod 63 = 0" by (auto simp: one)
    then show "n = 63" by (metis div_mult_mod_eq add_0_right mult_1)
  qed (simp add: one)
  show ?thesis using ga gb by (simp add: a b granted_def numeral_2_eq_2)
qed

text \<open>
  Storing a tenant in a context makes it the tenant every reader of that context sees, and
  keeps the user, service, correlation and super-admin parts of the request context.
\<close>

lemma context_tenant_round_trip:
  assumes "TrimSpace t \<noteq> []"
  shows "TenantIDFromContext (ContextWithTenantID ctx t) = Some (TrimSpace t) \<and>
    (\<forall>old. RequestContextFromContext ctx = Some old \<longrightarrow>
       UserIDFromContext (ContextWithTenantID ctx t) = UserIDFromContext ctx \<and>
       ServiceIDFromContext (ContextWithTenantID ctx t) = ServiceIDFromContext ctx \<and>
       CorrelationIDFromContext (ContextWithTenantID ctx t) = CorrelationIDFromContext ctx \<and>
       IsSuperAdminFromContext (ContextWithTenantID ctx t) = IsSuperAdminFromContext ctx)"
proof -
  have "cx_user (ContextWithTenantID ctx t) = cx_user ctx"
    by (simp add: ContextWithTenantID_def overlay_rc_def ContextWithRequestContext_def Let_def
        split: option.splits)
  then show ?thesis
    using ContextWithTenantID_rc [OF assms, of ctx] assms
    by (auto simp: TenantIDFromContext_def UserIDFromContext_def ServiceIDFromContext_def
        CorrelationIDFromContext_def IsSuperAdminFromContext_def)
qed

lemma context_tenant_round_trip_witness:
  "TenantIDFromContext (ContextWithTenantID Background ''t1'') = Some ''t1''"
  using context_tenant_round_trip [of "''t1''" Background] by (simp add: plain_char_code)

end
