(* ===== verification/Jobs_Store.thy ===== *)
theory Jobs_Store
  imports Apperr Auth_Claims
begin

text \<open>
  The data of the background job runtime (\<open>pkg/jobs/types.go\<close>) and the \<open>Store\<close> interface of
  \<open>pkg/jobs/store.go\<close>. A Go value of type \<open>Store\<close> is a record of operations over a state of type
  \<open>'s\<close>; the contract the manager relies on is the locale \<open>job_store\<close>, stated on the abstraction of a
  store to the partial map from job ids to jobs.

  Go values are immutable here, so the deep copies of \<open>Job.clone\<close> leave no trace: a job handed to
  a caller never aliases the stored one. A nil \<open>map\<close> is the empty one, nil bytes are the empty ones.
\<close>

section \<open>pkg/jobs/types.go\<close>

datatype job_status =
    StatusScheduled
  | StatusQueued
  | StatusRunning
  | StatusSucceeded
  | StatusFailed
  | StatusCanceled
  | StatusOther string

fun status_text :: "job_status \<Rightarrow> string" where
  "status_text StatusScheduled = ''scheduled''"
| "status_text StatusQueued = ''queued''"
| "status_text StatusRunning = ''running''"
| "status_text StatusSucceeded = ''succeeded''"
| "status_text StatusFailed = ''failed''"
| "status_text StatusCanceled = ''canceled''"
| "status_text (StatusOther s) = s"

text \<open>The conversion \<open>Status(s)\<close> of a string.\<close>

definition status_of :: "string \<Rightarrow> job_status" where
  "status_of s =
     (if s = ''scheduled'' then StatusScheduled
      else if s = ''queued'' then StatusQueued
      else if s = ''running'' then StatusRunning
      else if s = ''succeeded'' then StatusSucceeded
      else if s = ''failed'' then StatusFailed
      else if s = ''canceled'' then StatusCanceled
      else StatusOther s)"

fun IsTerminal :: "job_status \<Rightarrow> bool" where
  "IsTerminal StatusSucceeded = True"
| "IsTerminal StatusFailed = True"
| "IsTerminal StatusCanceled = True"
| "IsTerminal _ = False"

text \<open>
  \<open>Duration.UnmarshalJSON\<close>: \<open>json_string\<close> and \<open>json_int64\<close> are \<open>json.Unmarshal\<close> into a string and
  into an \<open>int64\<close>, \<open>ParseDuration\<close> is \<open>time.ParseDuration\<close>; errors are \<open>Inl\<close>.
\<close>

definition Duration_UnmarshalJSON ::
  "(string \<Rightarrow> go_error + string) \<Rightarrow> (string \<Rightarrow> go_error + int) \<Rightarrow> (string \<Rightarrow> go_error + go_duration)
     \<Rightarrow> string \<Rightarrow> go_error + go_duration" where
  "Duration_UnmarshalJSON json_string json_int64 ParseDuration data =
     (if data = ''null'' then Ok 0
      else case json_string data of
             Inr asString \<Rightarrow>
               if asString = [] then Ok 0
               else (case ParseDuration asString of Inl e \<Rightarrow> Err e | Inr v \<Rightarrow> Ok v)
           | Inl _ \<Rightarrow> (case json_int64 data of Inl e \<Rightarrow> Err e | Inr n \<Rightarrow> Ok n))"

record job =
  job_ID :: string
  job_Type :: string
  job_Queue :: string
  job_Status :: job_status
  job_Payload :: string
  job_Result :: string
  job_Metadata :: "string \<rightharpoonup> string"
  job_Attempt :: int
  job_MaxAttempts :: int
  job_Timeout :: go_duration
  job_LastError :: string
  job_CreatedAt :: go_time
  job_UpdatedAt :: go_time
  job_AvailableAt :: go_time
  job_StartedAt :: "go_time option"
  job_CompletedAt :: "go_time option"

record enqueue_request =
  rq_ID :: string
  rq_Type :: string
  rq_Queue :: string
  rq_Payload :: string
  rq_Metadata :: "string \<rightharpoonup> string"
  rq_MaxAttempts :: int
  rq_Timeout :: go_duration
  rq_RunAfter :: "go_time option"

record handler_info =
  hi_Type :: string
  hi_Description :: string
  hi_Queue :: string
  hi_MaxAttempts :: int
  hi_Timeout :: go_duration

record job_filter =
  jf_Queue :: string
  jf_Type :: string
  jf_Statuses :: "job_status list"
  jf_Limit :: int
  jf_Offset :: int

record claim_filter =
  cf_Queues :: "string list"
  cf_Types :: "string list"

record queue_stats =
  qs_Name :: string
  qs_Totals :: "job_status \<rightharpoonup> int"
  qs_JobsTotal :: int

record store_stats =
  ss_JobsStored :: int
  ss_Totals :: "job_status \<rightharpoonup> int"
  ss_Queues :: "string \<rightharpoonup> queue_stats"

text \<open>\<open>normalizeJobID\<close>; the argument \<open>uuid\<close> is what \<open>uuid.NewString()\<close> returns.\<close>

definition normalizeJobID :: "string \<Rightarrow> string \<Rightarrow> string" where
  "normalizeJobID uuid i = (if i \<noteq> [] then i else uuid)"

section \<open>Errors and loop bodies the stores share\<close>

abbreviation app_msg :: "error_code \<Rightarrow> string \<Rightarrow> app_error" where
  "app_msg ec msg \<equiv> apperr_WithMessage msg (Some (apperr_New (Some ec)))"

definition notFoundJob :: "string \<Rightarrow> go_error" where
  "notFoundJob i = EApp (AddSuggestion ''job_id'' i (Some (app_msg ErrorCodeNotFound ''job not found'')))"

definition duplicateJob :: go_error where
  "duplicateJob =
     EApp (AddSuggestion ''id'' ''provide a unique job id''
       (Some (app_msg ErrorCodeInvalidInput ''job id already exists'')))"

definition invalidJob :: "string \<Rightarrow> go_error" where
  "invalidJob msg = EApp (app_msg ErrorCodeInvalidInput msg)"

text \<open>The filter of both \<open>List\<close> loops.\<close>

definition job_matches :: "job_filter \<Rightarrow> job \<Rightarrow> bool" where
  "job_matches f j =
     (\<not> (jf_Queue f \<noteq> [] \<and> job_Queue j \<noteq> jf_Queue f) \<and>
      \<not> (jf_Type f \<noteq> [] \<and> job_Type j \<noteq> jf_Type f) \<and>
      \<not> (jf_Statuses f \<noteq> [] \<and> job_Status j \<notin> set (jf_Statuses f)))"

text \<open>What the setters write, in both stores (times are already instants).\<close>

definition job_claimed :: "go_time \<Rightarrow> job \<Rightarrow> job" where
  "job_claimed now j =
     j\<lparr>job_Status := StatusRunning, job_Attempt := wrap64 (job_Attempt j + 1),
       job_StartedAt := Some now, job_UpdatedAt := now\<rparr>"

definition job_succeeded :: "string \<Rightarrow> go_time \<Rightarrow> job \<Rightarrow> job" where
  "job_succeeded result now j =
     j\<lparr>job_Status := StatusSucceeded, job_Result := result, job_LastError := [],
       job_CompletedAt := Some now, job_UpdatedAt := now\<rparr>"

definition job_retrying :: "string \<Rightarrow> go_time \<Rightarrow> go_time \<Rightarrow> job \<Rightarrow> job" where
  "job_retrying reason runAt now j =
     j\<lparr>job_Status := StatusScheduled, job_LastError := reason, job_AvailableAt := runAt,
       job_CompletedAt := None, job_UpdatedAt := now\<rparr>"

definition job_failed :: "string \<Rightarrow> go_time \<Rightarrow> job \<Rightarrow> job" where
  "job_failed reason now j =
     j\<lparr>job_Status := StatusFailed, job_LastError := reason, job_CompletedAt := Some now,
       job_UpdatedAt := now\<rparr>"

definition job_canceled :: "go_time \<Rightarrow> job \<Rightarrow> go_error + job" where
  "job_canceled now j =
     (if job_Status j = StatusRunning then Err (invalidJob ''running jobs cannot be canceled'')
      else if IsTerminal (job_Status j) then Err (invalidJob ''job is already in a terminal state'')
      else Ok (j\<lparr>job_Status := StatusCanceled, job_CompletedAt := Some now, job_UpdatedAt := now\<rparr>))"

definition job_requeued :: "go_time \<Rightarrow> job \<Rightarrow> go_error + job" where
  "job_requeued now j =
     (if \<not> (job_Status j = StatusFailed \<or> job_Status j = StatusCanceled)
      then Err (invalidJob ''only failed or canceled jobs can be retried'')
      else Ok (j\<lparr>job_Status := StatusQueued, job_Attempt := 0, job_LastError := [], job_Result := [],
                 job_AvailableAt := now, job_StartedAt := None, job_CompletedAt := None,
                 job_UpdatedAt := now\<rparr>))"

text \<open>The body of both \<open>Stats\<close> loops.\<close>

definition bump :: "job_status \<Rightarrow> (job_status \<rightharpoonup> int) \<Rightarrow> (job_status \<rightharpoonup> int)" where
  "bump st m = m(st \<mapsto> (case m st of None \<Rightarrow> 0 | Some n \<Rightarrow> n) + 1)"

definition add_queue_stats :: "job \<Rightarrow> (string \<rightharpoonup> queue_stats) \<Rightarrow> (string \<rightharpoonup> queue_stats)" where
  "add_queue_stats j qs =
     (let q = (case qs (job_Queue j) of
                 None \<Rightarrow> \<lparr>qs_Name = [], qs_Totals = Map.empty, qs_JobsTotal = 0\<rparr>
               | Some q \<Rightarrow> q)
      in qs(job_Queue j \<mapsto>
             \<lparr>qs_Name = job_Queue j, qs_Totals = bump (job_Status j) (qs_Totals q),
              qs_JobsTotal = qs_JobsTotal q + 1\<rparr>))"

section \<open>The Store interface\<close>

record 's store_ops =
  st_Create :: "'s \<Rightarrow> job \<Rightarrow> (go_error + job) \<times> 's"
  st_Get :: "'s \<Rightarrow> string \<Rightarrow> go_error + job option"
  st_List :: "'s \<Rightarrow> job_filter \<Rightarrow> go_error + job list"
  st_ClaimReady :: "'s \<Rightarrow> go_time \<Rightarrow> int \<Rightarrow> claim_filter \<Rightarrow> (go_error + job list) \<times> 's"
  st_MarkSucceeded :: "'s \<Rightarrow> string \<Rightarrow> string \<Rightarrow> go_time \<Rightarrow> (go_error + job) \<times> 's"
  st_MarkRetry :: "'s \<Rightarrow> string \<Rightarrow> string \<Rightarrow> go_time \<Rightarrow> go_time \<Rightarrow> (go_error + job) \<times> 's"
  st_MarkFailed :: "'s \<Rightarrow> string \<Rightarrow> string \<Rightarrow> go_time \<Rightarrow> (go_error + job) \<times> 's"
  st_Cancel :: "'s \<Rightarrow> string \<Rightarrow> go_time \<Rightarrow> (go_error + job) \<times> 's"
  st_Retry :: "'s \<Rightarrow> string \<Rightarrow> go_time \<Rightarrow> (go_error + job) \<times> 's"
  st_PruneTerminalBefore :: "'s \<Rightarrow> go_time \<Rightarrow> (go_error + int) \<times> 's"
  st_Stats :: "'s \<Rightarrow> go_error + store_stats"

section \<open>The contract of a store\<close>

type_synonym job_map = "string \<rightharpoonup> job"

text \<open>A job that may be handed out: waiting, due and within the filter.\<close>

definition filter_allows :: "claim_filter \<Rightarrow> job \<Rightarrow> bool" where
  "filter_allows f j =
     ((filter (\<lambda>q. q \<noteq> []) (cf_Queues f) = [] \<or> job_Queue j \<in> set (filter (\<lambda>q. q \<noteq> []) (cf_Queues f))) \<and>
      (filter (\<lambda>t. t \<noteq> []) (cf_Types f) = [] \<or> job_Type j \<in> set (filter (\<lambda>t. t \<noteq> []) (cf_Types f))))"

definition no_blanks :: "claim_filter \<Rightarrow> bool" where
  "no_blanks f = ([] \<notin> set (cf_Queues f) \<and> [] \<notin> set (cf_Types f))"

definition waiting :: "job \<Rightarrow> bool" where
  "waiting j = (job_Status j = StatusScheduled \<or> job_Status j = StatusQueued)"

text \<open>What a claim may do to a job it does not hand out: a due scheduled job becomes queued.\<close>

definition promote :: "go_time \<Rightarrow> job \<Rightarrow> job" where
  "promote now j =
     (if job_Status j = StatusScheduled \<and> job_AvailableAt j \<le> now
      then j\<lparr>job_Status := StatusQueued, job_UpdatedAt := now\<rparr> else j)"

text \<open>One update of a stored job: an unknown id is an error, and so is a refused transition.\<close>

definition updates ::
  "(job \<Rightarrow> go_error + job) \<Rightarrow> string \<Rightarrow> job_map \<Rightarrow> (go_error + job) \<Rightarrow> job_map \<Rightarrow> bool" where
  "updates f i m r m' =
     (case m i of
        None \<Rightarrow> r = Err (notFoundJob i) \<and> m' = m
      | Some j \<Rightarrow> (case f j of
                    Inl e \<Rightarrow> r = Err e \<and> m' = m
                  | Inr j' \<Rightarrow> r = Ok j' \<and> m' = m(i \<mapsto> j')))"

definition claims_ready ::
  "go_time \<Rightarrow> int \<Rightarrow> claim_filter \<Rightarrow> job_map \<Rightarrow> job list \<Rightarrow> job_map \<Rightarrow> bool" where
  "claims_ready now limit f m js m' =
     (distinct (map job_ID js) \<and> int (length js) \<le> max 0 limit \<and>
      (\<forall>j\<in>set js. \<exists>old. m (job_ID j) = Some old \<and> waiting old \<and> (no_blanks f \<longrightarrow> filter_allows f old) \<and>
         j = job_claimed now old \<and> m' (job_ID j) = Some j) \<and>
      (\<forall>i. i \<notin> job_ID ` set js \<longrightarrow> m' i = m i \<or> m' i = map_option (promote now) (m i)))"

text \<open>
  The laws a store promises to the manager. \<open>abs\<close> reads the stored jobs, \<open>inv\<close> is the store's own
  invariant. A failing operation leaves the jobs as they are.
\<close>

locale job_store =
  fixes ops :: "'s store_ops"
    and abs :: "'s \<Rightarrow> job_map"
    and inv :: "'s \<Rightarrow> bool"
  assumes id_key: "inv s \<Longrightarrow> abs s i = Some j \<Longrightarrow> job_ID j = i"
    and create_law: "inv s \<Longrightarrow> st_Create ops s j = (r, s') \<Longrightarrow>
          inv s' \<and>
          (case r of
             Inl e \<Rightarrow> abs s' = abs s
           | Inr j' \<Rightarrow> j' = j \<and> abs s (job_ID j) = None \<and> abs s' = (abs s)(job_ID j \<mapsto> j))"
    and get_law: "inv s \<Longrightarrow> st_Get ops s i = Inr found \<Longrightarrow> found = abs s i"
    and claim_law: "inv s \<Longrightarrow> st_ClaimReady ops s now limit f = (claimed, s') \<Longrightarrow>
          inv s' \<and>
          (case claimed of Inl e \<Rightarrow> abs s' = abs s | Inr js \<Rightarrow> claims_ready now limit f (abs s) js (abs s'))"
    and succeeded_law: "inv s \<Longrightarrow> st_MarkSucceeded ops s i res now = (r, s') \<Longrightarrow>
          inv s' \<and> (updates (\<lambda>j. Inr (job_succeeded res now j)) i (abs s) r (abs s') \<or>
                    \<not> is_ok r \<and> abs s' = abs s)"
    and retry_law: "inv s \<Longrightarrow> st_MarkRetry ops s i reason runAt now = (r, s') \<Longrightarrow>
          inv s' \<and> (updates (\<lambda>j. Inr (job_retrying reason runAt now j)) i (abs s) r (abs s') \<or>
                    \<not> is_ok r \<and> abs s' = abs s)"
    and failed_law: "inv s \<Longrightarrow> st_MarkFailed ops s i reason now = (r, s') \<Longrightarrow>
          inv s' \<and> (updates (\<lambda>j. Inr (job_failed reason now j)) i (abs s) r (abs s') \<or>
                    \<not> is_ok r \<and> abs s' = abs s)"
    and cancel_law: "inv s \<Longrightarrow> st_Cancel ops s i now = (r, s') \<Longrightarrow>
          inv s' \<and> (updates (job_canceled now) i (abs s) r (abs s') \<or> \<not> is_ok r \<and> abs s' = abs s)"
    and requeue_law: "inv s \<Longrightarrow> st_Retry ops s i now = (r, s') \<Longrightarrow>
          inv s' \<and> (updates (job_requeued now) i (abs s) r (abs s') \<or> \<not> is_ok r \<and> abs s' = abs s)"
    and prune_law: "inv s \<Longrightarrow> st_PruneTerminalBefore ops s cutoff = (removed, s') \<Longrightarrow>
          inv s' \<and> (\<forall>i. abs s' i = abs s i \<or>
                       abs s' i = None \<and> (\<exists>j. abs s i = Some j \<and> IsTerminal (job_Status j)))"

lemmas job_update_defs =
  job_claimed_def job_succeeded_def job_retrying_def job_failed_def promote_def

lemma status_of_text [simp]: "status_text (status_of s) = s"
  by (simp add: status_of_def)

lemma job_updates_ID [simp]:
  "job_ID (job_claimed now j) = job_ID j"
  "job_ID (job_succeeded res now j) = job_ID j"
  "job_ID (job_retrying reason runAt now j) = job_ID j"
  "job_ID (job_failed reason now j) = job_ID j"
  "job_ID (promote now j) = job_ID j"
  by (simp_all add: job_update_defs)

lemma job_canceled_Ok:
  "job_canceled now j = Inr j' \<longleftrightarrow>
     job_Status j \<noteq> StatusRunning \<and> \<not> IsTerminal (job_Status j) \<and>
     j' = j\<lparr>job_Status := StatusCanceled, job_CompletedAt := Some now, job_UpdatedAt := now\<rparr>"
  by (auto simp: job_canceled_def)

lemma job_requeued_Ok:
  "job_requeued now j = Inr j' \<longleftrightarrow>
     (job_Status j = StatusFailed \<or> job_Status j = StatusCanceled) \<and>
     j' = j\<lparr>job_Status := StatusQueued, job_Attempt := 0, job_LastError := [], job_Result := [],
            job_AvailableAt := now, job_StartedAt := None, job_CompletedAt := None,
            job_UpdatedAt := now\<rparr>"
  by (auto simp: job_requeued_def)

lemma promote_Status:
  "job_Status (promote now j) = job_Status j \<or>
   job_Status j = StatusScheduled \<and> job_Status (promote now j) = StatusQueued"
  by (simp add: promote_def)

lemma promote_not_scheduled [simp]: "job_Status j \<noteq> StatusScheduled \<Longrightarrow> promote now j = j"
  by (simp add: promote_def)

lemma updates_Ok: "updates f i m (Inr j') m' \<longleftrightarrow> (\<exists>j. m i = Some j \<and> f j = Inr j' \<and> m' = m(i \<mapsto> j'))"
  by (auto simp: updates_def split: option.splits sum.splits)

lemma updates_Err: "updates f i m (Inl e) m' \<Longrightarrow> m' = m"
  by (auto simp: updates_def split: option.splits sum.splits)

end
