(* ===== verification/Jobs_Memory.thy ===== *)
theory Jobs_Memory
  imports Jobs_Store
begin

text \<open>
  \<open>MemoryStore\<close> of \<open>pkg/jobs/store.go\<close>. The Go map of jobs is an association list with distinct
  keys: its order is the iteration order of one run of a loop over the map, which Go leaves open,
  and what is proved does not depend on it. Every operation runs under the store's mutex, so it is
  one atomic function on the state.
\<close>

section \<open>State and operations\<close>

record mem_store =
  ms_jobs :: "(string \<times> job) list"

definition NewMemoryStore :: mem_store where
  "NewMemoryStore = \<lparr>ms_jobs = []\<rparr>"

definition mem_put :: "string \<Rightarrow> job \<Rightarrow> mem_store \<Rightarrow> mem_store" where
  "mem_put i j s = s\<lparr>ms_jobs := AList.update i j (ms_jobs s)\<rparr>"

definition mem_Create :: "mem_store \<Rightarrow> job \<Rightarrow> (go_error + job) \<times> mem_store" where
  "mem_Create s j =
     (case map_of (ms_jobs s) (job_ID j) of
        Some _ \<Rightarrow> (Err duplicateJob, s)
      | None \<Rightarrow> (Ok j, mem_put (job_ID j) j s))"

definition mem_Get :: "mem_store \<Rightarrow> string \<Rightarrow> go_error + job option" where
  "mem_Get s i = Ok (map_of (ms_jobs s) i)"

definition list_key :: "job \<Rightarrow> int \<times> string" where
  "list_key j = (- job_CreatedAt j, job_ID j)"

definition mem_List :: "mem_store \<Rightarrow> job_filter \<Rightarrow> go_error + job list" where
  "mem_List s f =
     (let result = sort_key list_key (filter (job_matches f) (map snd (ms_jobs s)));
          offset = (if jf_Offset f < 0 then 0 else jf_Offset f)
      in if offset \<ge> int (length result) then Ok []
         else
           let result = drop (nat offset) result;
               limit = jf_Limit f
           in if limit \<le> 0 \<or> limit > int (length result) then Ok result
              else Ok (take (nat limit) result))"

text \<open>The last loop of \<open>ClaimReady\<close>: start every candidate that is still queued.\<close>

fun claim_loop ::
  "go_time \<Rightarrow> (go_time \<times> string) list \<Rightarrow> (string \<times> job) list \<Rightarrow> job list \<times> (string \<times> job) list" where
  "claim_loop now [] jobs = ([], jobs)"
| "claim_loop now ((at, i) # cs) jobs =
     (case map_of jobs i of
        None \<Rightarrow> claim_loop now cs jobs
      | Some j \<Rightarrow>
          if job_Status j \<noteq> StatusQueued then claim_loop now cs jobs
          else
            let j' = job_claimed now j;
                (claimed, jobs') = claim_loop now cs (AList.update i j' jobs)
            in (j' # claimed, jobs'))"

text \<open>The first loop of \<open>ClaimReady\<close>: promote due jobs, collect the candidates.\<close>

definition candidates :: "go_time \<Rightarrow> claim_filter \<Rightarrow> (string \<times> job) list \<Rightarrow> (go_time \<times> string) list" where
  "candidates now f jobs =
     map (\<lambda>(i, j). (job_AvailableAt j, job_ID j))
       (filter (\<lambda>(i, j). job_Status j = StatusQueued \<and> job_AvailableAt j \<le> now \<and> filter_allows f j) jobs)"

definition mem_ClaimReady ::
  "mem_store \<Rightarrow> go_time \<Rightarrow> int \<Rightarrow> claim_filter \<Rightarrow> (go_error + job list) \<times> mem_store" where
  "mem_ClaimReady s now limit f =
     (if limit \<le> 0 then (Ok [], s)
      else
        let jobs = map (\<lambda>(i, j). (i, promote now j)) (ms_jobs s);
            cands = sort (candidates now f jobs);
            cands = (if int (length cands) > limit then take (nat limit) cands else cands);
            (claimed, jobs') = claim_loop now cands jobs
        in (Ok claimed, s\<lparr>ms_jobs := jobs'\<rparr>))"

text \<open>The step \<open>MarkSucceeded\<close>, \<open>MarkRetry\<close>, \<open>MarkFailed\<close>, \<open>Cancel\<close> and \<open>Retry\<close> share.\<close>

definition mem_update ::
  "mem_store \<Rightarrow> string \<Rightarrow> (job \<Rightarrow> go_error + job) \<Rightarrow> (go_error + job) \<times> mem_store" where
  "mem_update s i f =
     (case map_of (ms_jobs s) i of
        None \<Rightarrow> (Err (notFoundJob i), s)
      | Some j \<Rightarrow>
          (case f j of
             Inl e \<Rightarrow> (Err e, s)
           | Inr j' \<Rightarrow> (Ok j', mem_put i j' s)))"

definition mem_MarkSucceeded ::
  "mem_store \<Rightarrow> string \<Rightarrow> string \<Rightarrow> go_time \<Rightarrow> (go_error + job) \<times> mem_store" where
  "mem_MarkSucceeded s i result now = mem_update s i (\<lambda>j. Ok (job_succeeded result now j))"

definition mem_MarkRetry ::
  "mem_store \<Rightarrow> string \<Rightarrow> string \<Rightarrow> go_time \<Rightarrow> go_time \<Rightarrow> (go_error + job) \<times> mem_store" where
  "mem_MarkRetry s i reason runAt now = mem_update s i (\<lambda>j. Ok (job_retrying reason runAt now j))"

definition mem_MarkFailed ::
  "mem_store \<Rightarrow> string \<Rightarrow> string \<Rightarrow> go_time \<Rightarrow> (go_error + job) \<times> mem_store" where
  "mem_MarkFailed s i reason now = mem_update s i (\<lambda>j. Ok (job_failed reason now j))"

definition mem_Cancel :: "mem_store \<Rightarrow> string \<Rightarrow> go_time \<Rightarrow> (go_error + job) \<times> mem_store" where
  "mem_Cancel s i now = mem_update s i (job_canceled now)"

definition mem_Retry :: "mem_store \<Rightarrow> string \<Rightarrow> go_time \<Rightarrow> (go_error + job) \<times> mem_store" where
  "mem_Retry s i now = mem_update s i (job_requeued now)"

definition prunable :: "go_time \<Rightarrow> job \<Rightarrow> bool" where
  "prunable cutoff j =
     (IsTerminal (job_Status j) \<and> (case job_CompletedAt j of None \<Rightarrow> False | Some t \<Rightarrow> t < cutoff))"

definition mem_PruneTerminalBefore :: "mem_store \<Rightarrow> go_time \<Rightarrow> (go_error + int) \<times> mem_store" where
  "mem_PruneTerminalBefore s cutoff =
     (let (gone, kept) = partition (\<lambda>(i, j). prunable cutoff j) (ms_jobs s)
      in (Ok (int (length gone)), s\<lparr>ms_jobs := kept\<rparr>))"

definition mem_Stats :: "mem_store \<Rightarrow> go_error + store_stats" where
  "mem_Stats s =
     Ok (fold (\<lambda>(i, j) st. st\<lparr>ss_Totals := bump (job_Status j) (ss_Totals st),
                             ss_Queues := add_queue_stats j (ss_Queues st)\<rparr>)
          (ms_jobs s)
          \<lparr>ss_JobsStored = int (length (ms_jobs s)), ss_Totals = Map.empty, ss_Queues = Map.empty\<rparr>)"

definition memory_ops :: "mem_store store_ops" where
  "memory_ops =
     \<lparr>st_Create = mem_Create, st_Get = mem_Get, st_List = mem_List, st_ClaimReady = mem_ClaimReady,
      st_MarkSucceeded = mem_MarkSucceeded, st_MarkRetry = mem_MarkRetry,
      st_MarkFailed = mem_MarkFailed, st_Cancel = mem_Cancel, st_Retry = mem_Retry,
      st_PruneTerminalBefore = mem_PruneTerminalBefore, st_Stats = mem_Stats\<rparr>"

text \<open>The jobs a memory store holds, and its invariant: each job is stored once, under its id.\<close>

definition mem_abs :: "mem_store \<Rightarrow> job_map" where
  "mem_abs s = map_of (ms_jobs s)"

definition mem_inv :: "mem_store \<Rightarrow> bool" where
  "mem_inv s = (distinct (map fst (ms_jobs s)) \<and> (\<forall>(i, j)\<in>set (ms_jobs s). job_ID j = i))"

text \<open>A count, absent when there is nothing to count.\<close>

definition tally :: "'a list \<Rightarrow> int option" where
  "tally xs = (if xs = [] then None else Some (int (length xs)))"

text \<open>The jobs that are ready, in claim order.\<close>

definition claim_key :: "job \<Rightarrow> go_time \<times> string" where
  "claim_key j = (job_AvailableAt j, job_ID j)"

definition ready_jobs :: "mem_store \<Rightarrow> go_time \<Rightarrow> claim_filter \<Rightarrow> job list" where
  "ready_jobs s now f =
     sort_key claim_key
       (filter (\<lambda>j. waiting j \<and> job_AvailableAt j \<le> now \<and> filter_allows f j) (map snd (ms_jobs s)))"

section \<open>Lemmas\<close>

subsection \<open>The invariant\<close>

lemma mem_inv_key: "mem_inv s \<Longrightarrow> mem_abs s i = Some j \<Longrightarrow> job_ID j = i"
  by (auto simp: mem_inv_def mem_abs_def dest!: map_of_SomeD)

lemma mem_put_abs [simp]: "mem_abs (mem_put i j s) = (mem_abs s)(i \<mapsto> j)"
  by (simp add: mem_abs_def mem_put_def update_conv')

lemma mem_inv_alist:
  "mem_inv s \<longleftrightarrow> distinct (map fst (ms_jobs s)) \<and> (\<forall>i j. mem_abs s i = Some j \<longrightarrow> job_ID j = i)"
  by (auto simp: mem_inv_def mem_abs_def)

lemma mem_inv_put: "mem_inv s \<Longrightarrow> job_ID j = i \<Longrightarrow> mem_inv (mem_put i j s)"
  by (auto simp: mem_inv_alist) (auto simp: mem_put_def distinct_update)

lemma mem_inv_new [simp]: "mem_inv NewMemoryStore"
  by (simp add: mem_inv_def NewMemoryStore_def)

text \<open>An update refines the abstract one.\<close>

lemma mem_update_spec:
  assumes "mem_inv s" and "mem_update s i f = (r, s')"
    and "\<And>j j'. f j = Inr j' \<Longrightarrow> job_ID j' = job_ID j"
  shows "mem_inv s' \<and> updates f i (mem_abs s) r (mem_abs s')"
  using assms mem_inv_key [of s i]
  by (auto simp: mem_update_def updates_def mem_abs_def [symmetric] mem_inv_put
        split: option.splits sum.splits)

lemma mem_update_law:
  assumes "mem_update s i f = (r, s')" and "mem_inv s"
    and "\<And>j j'. f j = Inr j' \<Longrightarrow> job_ID j' = job_ID j"
  shows "mem_inv s' \<and> (updates f i (mem_abs s) r (mem_abs s') \<or> \<not> is_ok r \<and> mem_abs s' = mem_abs s)"
  using mem_update_spec [OF assms(2,1)] assms(3) by blast

lemma set_alist_map_of:
  assumes "distinct (map fst xs)"
  shows "set xs = {(k, v). map_of xs k = Some v}"
  using assms by (auto simp: map_of_eq_Some_iff)

lemma mset_alist_cong:
  assumes "distinct (map fst xs)" "distinct (map fst ys)" "map_of xs = map_of ys"
  shows "mset xs = mset ys"
proof -
  have "set xs = set ys"
    unfolding set_alist_map_of [OF assms(1)] set_alist_map_of [OF assms(2)] assms(3) ..
  moreover have "distinct xs" "distinct ys" using assms by (auto simp: distinct_map)
  ultimately show ?thesis by (simp add: set_eq_iff_mset_eq_distinct)
qed

lemma mem_mset_cong:
  "mem_inv s \<Longrightarrow> mem_inv s' \<Longrightarrow> mem_abs s = mem_abs s' \<Longrightarrow> mset (ms_jobs s) = mset (ms_jobs s')"
  by (rule mset_alist_cong) (auto simp: mem_inv_def mem_abs_def)

lemma mem_ids: "mem_inv s \<Longrightarrow> map job_ID (map snd (ms_jobs s)) = map fst (ms_jobs s)"
  by (auto simp: mem_inv_def)

lemma mem_distinct_ids: "mem_inv s \<Longrightarrow> distinct (map job_ID (map snd (ms_jobs s)))"
  unfolding mem_ids by (simp add: mem_inv_def)

lemma mem_inj_ID: "mem_inv s \<Longrightarrow> inj_on job_ID (snd ` set (ms_jobs s))"
  using mem_distinct_ids [of s] by (simp only: distinct_map set_map)

lemma mem_stored_iff: "mem_inv s \<Longrightarrow> j \<in> snd ` set (ms_jobs s) \<longleftrightarrow> (\<exists>i. mem_abs s i = Some j)"
  by (force simp: mem_abs_def mem_inv_def)

subsection \<open>Listing\<close>

lemma mem_sort_cong:
  fixes key :: "job \<Rightarrow> 'k::linorder"
  assumes "mem_inv s" "mem_inv s'" "mem_abs s = mem_abs s'"
    and key: "\<And>j j'. key j = key j' \<Longrightarrow> job_ID j = job_ID j'"
  shows "sort_key key (filter P (map snd (ms_jobs s))) = sort_key key (filter P (map snd (ms_jobs s')))"
proof (rule sort_key_perm_eq)
  show "mset (filter P (map snd (ms_jobs s))) = mset (filter P (map snd (ms_jobs s')))"
    using arg_cong [OF mem_mset_cong [OF assms(1-3)], of "\<lambda>M. filter_mset P (image_mset snd M)"]
    by (simp only: mset_filter mset_map)
  have "inj_on job_ID (set (filter P (map snd (ms_jobs s))))"
    by (rule inj_on_subset [OF mem_inj_ID [OF assms(1)]]) auto
  then show "inj_on key (set (filter P (map snd (ms_jobs s))))"
    unfolding inj_on_def using key by blast
qed

subsection \<open>Claiming\<close>

lemma claim_loop_spec:
  assumes "distinct (map snd cs)"
    and "\<forall>c\<in>set cs. \<exists>j. map_of jobs (snd c) = Some j \<and> job_Status j = StatusQueued"
  shows "fst (claim_loop now cs jobs) = map (\<lambda>c. job_claimed now (the (map_of jobs (snd c)))) cs \<and>
    map_of (snd (claim_loop now cs jobs)) =
      (\<lambda>i. if i \<in> snd ` set cs then Some (job_claimed now (the (map_of jobs i))) else map_of jobs i) \<and>
    (distinct (map fst jobs) \<longrightarrow> distinct (map fst (snd (claim_loop now cs jobs))))"
  using assms
proof (induction now cs jobs rule: claim_loop.induct)
  case (1 now jobs)
  show ?case by simp
next
  case (2 now at i cs jobs)
  from "2.prems" obtain j where j: "map_of jobs i = Some j" "job_Status j = StatusQueued" by auto
  let ?jobs = "AList.update i (job_claimed now j) jobs"
  have m: "map_of ?jobs = (map_of jobs)(i \<mapsto> job_claimed now j)" by (simp add: update_conv')
  have other: "map_of ?jobs (snd c) = map_of jobs (snd c)" if "c \<in> set cs" for c
    using that "2.prems"(1) by (auto simp: m)
  have "\<forall>c\<in>set cs. \<exists>j. map_of ?jobs (snd c) = Some j \<and> job_Status j = StatusQueued"
    using "2.prems"(2) other by auto
  with "2.IH"(3) [OF j(1)] "2.prems"(1) j
  have IH: "fst (claim_loop now cs ?jobs) = map (\<lambda>c. job_claimed now (the (map_of ?jobs (snd c)))) cs"
    "map_of (snd (claim_loop now cs ?jobs)) =
      (\<lambda>i. if i \<in> snd ` set cs then Some (job_claimed now (the (map_of ?jobs i))) else map_of ?jobs i)"
    "distinct (map fst ?jobs) \<longrightarrow> distinct (map fst (snd (claim_loop now cs ?jobs)))"
    by auto
  have step: "claim_loop now ((at, i) # cs) jobs =
      (job_claimed now j # fst (claim_loop now cs ?jobs), snd (claim_loop now cs ?jobs))"
    by (simp add: j split_beta Let_def)
  have fst_eq: "fst (claim_loop now cs ?jobs) = map (\<lambda>c. job_claimed now (the (map_of jobs (snd c)))) cs"
    unfolding IH(1) using other by (simp cong: map_cong)
  have snd_eq: "map_of (snd (claim_loop now cs ?jobs)) =
      (\<lambda>k. if k \<in> snd ` set ((at, i) # cs) then Some (job_claimed now (the (map_of jobs k)))
           else map_of jobs k)"
    unfolding IH(2) m using "2.prems"(1) j by (intro ext) auto
  have "distinct (map fst jobs) \<longrightarrow> distinct (map fst (snd (claim_loop now cs ?jobs)))"
    using IH(3) by (simp add: distinct_update)
  with fst_eq snd_eq j show ?case unfolding step by simp
qed

lemma promote_queued:
  "job_Status (promote now j) = StatusQueued \<and> job_AvailableAt (promote now j) \<le> now \<and>
     filter_allows f (promote now j) \<longleftrightarrow>
   waiting j \<and> job_AvailableAt j \<le> now \<and> filter_allows f j"
  by (auto simp: promote_def waiting_def filter_allows_def)

lemma claim_key_promote [simp]: "claim_key (promote now j) = claim_key j"
  by (simp add: claim_key_def promote_def)

lemma job_claimed_promote [simp]: "job_claimed now (promote now j) = job_claimed now j"
  by (simp add: job_claimed_def promote_def)

lemma candidates_promoted:
  "candidates now f (map (\<lambda>(i, j). (i, promote now j)) xs) =
     map claim_key (filter (\<lambda>j. waiting j \<and> job_AvailableAt j \<le> now \<and> filter_allows f j) (map snd xs))"
proof (induction xs)
  case Nil
  show ?case by (simp add: candidates_def)
next
  case (Cons x xs)
  obtain i j where x: "x = (i, j)" by force
  have "(job_AvailableAt (promote now j), job_ID j) = claim_key j"
    by (simp add: claim_key_def promote_def)
  then show ?case using Cons promote_queued [of now j f]
    by (simp add: candidates_def x)
qed

lemma sort_map_key: "sort (map f xs) = map f (sort_key f xs)"
  by (rule properties_for_sort) (simp_all add: mset_map)

lemma map_of_map_snd: "map_of (map (\<lambda>(i, j). (i, f j)) xs) k = map_option f (map_of xs k)"
  by (induction xs) auto

lemma ready_jobs_stored:
  assumes "mem_inv s" and "j \<in> set (ready_jobs s now f)"
  shows "mem_abs s (job_ID j) = Some j \<and> waiting j \<and> job_AvailableAt j \<le> now \<and> filter_allows f j"
  using assms by (auto simp: ready_jobs_def mem_inv_def mem_abs_def)

lemma distinct_ready_jobs:
  assumes "mem_inv s"
  shows "distinct (map job_ID (ready_jobs s now f))"
proof -
  let ?P = "\<lambda>j. waiting j \<and> job_AvailableAt j \<le> now \<and> filter_allows f j"
  have "distinct (map job_ID (filter ?P (map snd (ms_jobs s))))"
    by (rule distinct_map_filter [OF mem_distinct_ids [OF assms]])
  moreover have "mset (map job_ID (ready_jobs s now f)) =
      mset (map job_ID (filter ?P (map snd (ms_jobs s))))"
    by (simp add: ready_jobs_def)
  ultimately show ?thesis by (metis mset_eq_imp_distinct_iff)
qed

lemma claimable_queued:
  assumes inv: "mem_inv s" and js: "\<And>j. j \<in> set js \<Longrightarrow> j \<in> set (ready_jobs s now f)"
  shows "\<forall>c\<in>set (map claim_key js). \<exists>j. map_of (map (\<lambda>(i, j). (i, promote now j)) (ms_jobs s)) (snd c) = Some j \<and>
    job_Status j = StatusQueued"
proof
  fix c assume "c \<in> set (map claim_key js)"
  then obtain j where j: "j \<in> set js" "snd c = job_ID j" by (auto simp: claim_key_def)
  note stored = ready_jobs_stored [OF inv js [OF j(1)]]
  then have "job_Status (promote now j) = StatusQueued" by (auto simp: waiting_def promote_def)
  with stored show "\<exists>j. map_of (map (\<lambda>(i, j). (i, promote now j)) (ms_jobs s)) (snd c) = Some j \<and> job_Status j = StatusQueued"
    by (simp add: map_of_map_snd mem_abs_def j(2))
qed

lemma mem_ClaimReady_exact:
  fixes now :: go_time and f :: claim_filter
  assumes inv: "mem_inv s" and "0 < limit"
  defines "js \<equiv> take (nat limit) (ready_jobs s now f)"
  shows "fst (mem_ClaimReady s now limit f) = Inr (map (job_claimed now) js) \<and>
    mem_inv (snd (mem_ClaimReady s now limit f)) \<and>
    mem_abs (snd (mem_ClaimReady s now limit f)) =
      (\<lambda>i. if i \<in> job_ID ` set js then map_option (job_claimed now) (mem_abs s i)
           else map_option (promote now) (mem_abs s i))"
proof -
  let ?jobs = "map (\<lambda>(i, j). (i, promote now j)) (ms_jobs s)"
  let ?cs = "map claim_key js"
  have cands: "sort (candidates now f ?jobs) = map claim_key (ready_jobs s now f)"
    by (simp add: candidates_promoted sort_map_key ready_jobs_def)
  have cs: "(if int (length (sort (candidates now f ?jobs))) > limit
             then take (nat limit) (sort (candidates now f ?jobs))
             else sort (candidates now f ?jobs)) = ?cs"
    using \<open>0 < limit\<close> by (auto simp: cands js_def take_map)
  have mo: "map_of ?jobs i = map_option (promote now) (mem_abs s i)" for i
    by (simp add: map_of_map_snd mem_abs_def)
  have snd_cs: "map snd ?cs = map job_ID js" by (simp add: claim_key_def)
  have sub: "j \<in> set js \<Longrightarrow> j \<in> set (ready_jobs s now f)" for j
    unfolding js_def by (rule in_set_takeD)
  have stored: "mem_abs s (job_ID j) = Some j \<and> waiting j \<and> job_AvailableAt j \<le> now" if "j \<in> set js" for j
    using ready_jobs_stored [OF inv sub [OF that]] by simp
  have dist: "distinct (map job_ID js)"
    using distinct_ready_jobs [OF inv] by (simp add: js_def distinct_take take_map [symmetric])
  note q = claimable_queued [OF inv, of js now f, OF sub]
  note loop = claim_loop_spec [OF dist [folded snd_cs] q, of now]
  have res: "mem_ClaimReady s now limit f =
      (Inr (fst (claim_loop now ?cs ?jobs)), s\<lparr>ms_jobs := snd (claim_loop now ?cs ?jobs)\<rparr>)"
    using \<open>0 < limit\<close> unfolding mem_ClaimReady_def Let_def cs by (simp add: split_beta)
  have claimed: "fst (claim_loop now ?cs ?jobs) = map (job_claimed now) js"
    using loop stored by (auto simp: mo claim_key_def)
  have ids: "snd ` set ?cs = job_ID ` set js" by (auto simp: claim_key_def image_image)
  have abs: "map_of (snd (claim_loop now ?cs ?jobs)) =
      (\<lambda>i. if i \<in> job_ID ` set js then map_option (job_claimed now) (mem_abs s i)
           else map_option (promote now) (mem_abs s i))"
    using loop stored unfolding ids by (auto simp: mo intro!: ext)
  have "distinct (map fst ?jobs)" using inv by (simp add: mem_inv_def comp_def split_beta)
  then have "distinct (map fst (snd (claim_loop now ?cs ?jobs)))" using loop by blast
  moreover have "job_ID j = i" if "map_of (snd (claim_loop now ?cs ?jobs)) i = Some j" for i j
    using that mem_inv_key [OF inv] by (auto simp: abs split: if_splits)
  ultimately have "mem_inv (s\<lparr>ms_jobs := snd (claim_loop now ?cs ?jobs)\<rparr>)"
    by (simp add: mem_inv_alist mem_abs_def)
  then show ?thesis using claimed abs by (simp add: res mem_abs_def)
qed

lemma mem_ClaimReady_claims:
  assumes inv: "mem_inv s" and eq: "mem_ClaimReady s now limit f = (r, s')"
  shows "mem_inv s' \<and> (\<exists>js. r = Inr js \<and> claims_ready now limit f (mem_abs s) js (mem_abs s'))"
proof (cases "0 < limit")
  case True
  let ?js = "take (nat limit) (ready_jobs s now f)"
  have ex: "r = Inr (map (job_claimed now) ?js)" "mem_inv s'"
    "mem_abs s' = (\<lambda>i. if i \<in> job_ID ` set ?js then map_option (job_claimed now) (mem_abs s i)
                      else map_option (promote now) (mem_abs s i))"
    using mem_ClaimReady_exact [OF inv True, of now f] eq by auto
  have dist: "distinct (map job_ID ?js)"
    using distinct_ready_jobs [OF inv] by (simp add: distinct_take take_map [symmetric])
  have st: "mem_abs s (job_ID j) = Some j \<and> waiting j \<and> filter_allows f j" if "j \<in> set ?js" for j
    using ready_jobs_stored [OF inv in_set_takeD [OF that]] by simp
  have "claims_ready now limit f (mem_abs s) (map (job_claimed now) ?js) (mem_abs s')"
    unfolding claims_ready_def using dist True st
    by (auto simp: ex(3) comp_def image_image)
  with ex show ?thesis by auto
next
  case False
  with eq inv show ?thesis by (auto simp: mem_ClaimReady_def claims_ready_def)
qed

lemma mem_prune_spec:
  assumes inv: "mem_inv s"
  shows "mem_inv (snd (mem_PruneTerminalBefore s cutoff)) \<and>
    mem_abs (snd (mem_PruneTerminalBefore s cutoff)) =
      (\<lambda>i. case mem_abs s i of None \<Rightarrow> None | Some j \<Rightarrow> if prunable cutoff j then None else Some j)"
proof -
  let ?kept = "filter (\<lambda>(i, j). \<not> prunable cutoff j) (ms_jobs s)"
  have eq: "snd (mem_PruneTerminalBefore s cutoff) = s\<lparr>ms_jobs := ?kept\<rparr>"
    by (simp add: mem_PruneTerminalBefore_def Let_def split_def comp_def)
  have d: "distinct (map fst ?kept)" using inv by (simp add: mem_inv_def distinct_map_filter)
  have "map_of ?kept i = (case mem_abs s i of None \<Rightarrow> None
          | Some j \<Rightarrow> if prunable cutoff j then None else Some j)" for i
  proof (cases "map_of ?kept i")
    case None
    then have "\<forall>j. (i, j) \<notin> set ?kept" by (auto simp: map_of_eq_None_iff image_iff)
    with None inv show ?thesis
      by (auto simp: mem_abs_def mem_inv_def split: option.splits dest!: map_of_SomeD)
  next
    case (Some j)
    then have "(i, j) \<in> set ?kept" by (rule map_of_SomeD)
    with Some inv show ?thesis by (auto simp: mem_abs_def mem_inv_def)
  qed
  with d inv show ?thesis by (auto simp: eq mem_inv_def mem_abs_def)
qed


subsection \<open>Statistics\<close>

lemma bump_tally:
  "fold (\<lambda>j. bump (job_Status j)) js Map.empty st = tally (filter (\<lambda>j. job_Status j = st) js)"
proof (induction js rule: rev_induct)
  case Nil
  show ?case by (simp add: tally_def)
next
  case (snoc j js)
  then show ?case by (auto simp: bump_def tally_def)
qed

lemma queue_stats_fold:
  "fold add_queue_stats js Map.empty q =
     (let mine = filter (\<lambda>j. job_Queue j = q) js
      in if mine = [] then None
         else Some \<lparr>qs_Name = q, qs_Totals = fold (\<lambda>j. bump (job_Status j)) mine Map.empty,
                    qs_JobsTotal = int (length mine)\<rparr>)"
proof (induction js rule: rev_induct)
  case Nil
  show ?case by simp
next
  case (snoc j js)
  then show ?case
    by (cases "job_Queue j = q"; cases "filter (\<lambda>j. job_Queue j = q) js = []")
       (auto simp: add_queue_stats_def Let_def)
qed

lemma mem_Stats_fold:
  "mem_Stats s = Inr \<lparr>ss_JobsStored = int (length (ms_jobs s)),
     ss_Totals = fold (\<lambda>j. bump (job_Status j)) (map snd (ms_jobs s)) Map.empty,
     ss_Queues = fold add_queue_stats (map snd (ms_jobs s)) Map.empty\<rparr>"
proof -
  have "fold (\<lambda>(i, j) st. st\<lparr>ss_Totals := bump (job_Status j) (ss_Totals st),
            ss_Queues := add_queue_stats j (ss_Queues st)\<rparr>) xs \<lparr>ss_JobsStored = n, ss_Totals = t, ss_Queues = q\<rparr> =
      \<lparr>ss_JobsStored = n, ss_Totals = fold (\<lambda>j. bump (job_Status j)) (map snd xs) t,
       ss_Queues = fold add_queue_stats (map snd xs) q\<rparr>" for xs :: "(string \<times> job) list" and n t q
    by (induction xs arbitrary: t q) auto
  then show ?thesis by (simp add: mem_Stats_def)
qed

section \<open>The memory store keeps the contract of a store\<close>

interpretation memory: job_store memory_ops mem_abs mem_inv
proof
  fix s s' :: mem_store and i j r res now reason runAt cutoff
    and found :: "job option" and limit f claimed and removed :: "go_error + int"
  assume inv: "mem_inv s"
  show "mem_abs s i = Some j \<Longrightarrow> job_ID j = i" using inv by (rule mem_inv_key)
  show "st_Create memory_ops s j = (r, s') \<Longrightarrow> mem_inv s' \<and>
      (case r of Inl e \<Rightarrow> mem_abs s' = mem_abs s
       | Inr j' \<Rightarrow> j' = j \<and> mem_abs s (job_ID j) = None \<and> mem_abs s' = (mem_abs s)(job_ID j \<mapsto> j))"
    using inv mem_inv_put [OF inv]
    by (auto simp: memory_ops_def mem_Create_def mem_abs_def [symmetric] split: option.splits)
  show "st_Get memory_ops s i = Inr found \<Longrightarrow> found = mem_abs s i"
    by (simp add: memory_ops_def mem_Get_def mem_abs_def)
  show "st_ClaimReady memory_ops s now limit f = (claimed, s') \<Longrightarrow> mem_inv s' \<and>
      (case claimed of Inl e \<Rightarrow> mem_abs s' = mem_abs s
       | Inr js \<Rightarrow> claims_ready now limit f (mem_abs s) js (mem_abs s'))"
    using mem_ClaimReady_claims [OF inv] by (fastforce simp: memory_ops_def)
  show "st_MarkSucceeded memory_ops s i res now = (r, s') \<Longrightarrow> mem_inv s' \<and>
      (updates (\<lambda>j. Inr (job_succeeded res now j)) i (mem_abs s) r (mem_abs s') \<or>
       \<not> is_ok r \<and> mem_abs s' = mem_abs s)"
    unfolding memory_ops_def mem_MarkSucceeded_def store_ops.simps
    by (erule mem_update_law [OF _ inv]) (auto simp: job_updates_ID)
  show "st_MarkRetry memory_ops s i reason runAt now = (r, s') \<Longrightarrow> mem_inv s' \<and>
      (updates (\<lambda>j. Inr (job_retrying reason runAt now j)) i (mem_abs s) r (mem_abs s') \<or>
       \<not> is_ok r \<and> mem_abs s' = mem_abs s)"
    unfolding memory_ops_def mem_MarkRetry_def store_ops.simps
    by (erule mem_update_law [OF _ inv]) (auto simp: job_updates_ID)
  show "st_MarkFailed memory_ops s i reason now = (r, s') \<Longrightarrow> mem_inv s' \<and>
      (updates (\<lambda>j. Inr (job_failed reason now j)) i (mem_abs s) r (mem_abs s') \<or>
       \<not> is_ok r \<and> mem_abs s' = mem_abs s)"
    unfolding memory_ops_def mem_MarkFailed_def store_ops.simps
    by (erule mem_update_law [OF _ inv]) (auto simp: job_updates_ID)
  show "st_Cancel memory_ops s i now = (r, s') \<Longrightarrow> mem_inv s' \<and>
      (updates (job_canceled now) i (mem_abs s) r (mem_abs s') \<or> \<not> is_ok r \<and> mem_abs s' = mem_abs s)"
    unfolding memory_ops_def mem_Cancel_def store_ops.simps
    by (erule mem_update_law [OF _ inv]) (auto simp: job_canceled_Ok)
  show "st_Retry memory_ops s i now = (r, s') \<Longrightarrow> mem_inv s' \<and>
      (updates (job_requeued now) i (mem_abs s) r (mem_abs s') \<or> \<not> is_ok r \<and> mem_abs s' = mem_abs s)"
    unfolding memory_ops_def mem_Retry_def store_ops.simps
    by (erule mem_update_law [OF _ inv]) (auto simp: job_requeued_Ok)
  show "st_PruneTerminalBefore memory_ops s cutoff = (removed, s') \<Longrightarrow> mem_inv s' \<and>
      (\<forall>i. mem_abs s' i = mem_abs s i \<or>
         mem_abs s' i = None \<and> (\<exists>j. mem_abs s i = Some j \<and> IsTerminal (job_Status j)))"
    using mem_prune_spec [OF inv, of cutoff]
    by (auto simp: memory_ops_def prunable_def split: option.splits)
qed

section \<open>Properties\<close>

text \<open>
  C13. \<open>ClaimReady\<close> hands out exactly the ready jobs (waiting, due, within the filter) that come
  first by available time and then by id, at most \<open>limit\<close> of them: each is running with one attempt
  more, and a job that is not handed out is at most promoted from scheduled to queued.
\<close>

theorem memory_claim_earliest_first:
  assumes "mem_inv s" and "0 < limit"
  shows "fst (mem_ClaimReady s now limit f) =
      Inr (map (job_claimed now) (take (nat limit) (ready_jobs s now f))) \<and>
    mem_abs (snd (mem_ClaimReady s now limit f)) =
      (\<lambda>i. if i \<in> job_ID ` set (take (nat limit) (ready_jobs s now f))
           then map_option (job_claimed now) (mem_abs s i)
           else map_option (promote now) (mem_abs s i)) \<and>
    (\<forall>j. j \<in> set (ready_jobs s now f) \<longleftrightarrow>
       (\<exists>i. mem_abs s i = Some j \<and> waiting j \<and> job_AvailableAt j \<le> now \<and> filter_allows f j)) \<and>
    sorted (map claim_key (ready_jobs s now f))"
proof -
  have "j \<in> set (ready_jobs s now f) \<longleftrightarrow>
       (\<exists>i. mem_abs s i = Some j \<and> waiting j \<and> job_AvailableAt j \<le> now \<and> filter_allows f j)" for j
    using mem_stored_iff [OF assms(1), of j] by (simp add: ready_jobs_def)
  moreover have "sorted (map claim_key (ready_jobs s now f))" by (simp add: ready_jobs_def)
  ultimately show ?thesis using mem_ClaimReady_exact [OF assms] by simp
qed

definition demo_job :: job where
  "demo_job = \<lparr>job_ID = ''a'', job_Type = ''mail'', job_Queue = ''default'', job_Status = StatusQueued,
     job_Payload = [], job_Result = [], job_Metadata = Map.empty, job_Attempt = 0,
     job_MaxAttempts = 3, job_Timeout = 0, job_LastError = [], job_CreatedAt = 1, job_UpdatedAt = 1,
     job_AvailableAt = 1, job_StartedAt = None, job_CompletedAt = None\<rparr>"

definition demo_store :: mem_store where
  "demo_store = \<lparr>ms_jobs = [(''b'', demo_job\<lparr>job_ID := ''b'', job_AvailableAt := 5\<rparr>), (''a'', demo_job)]\<rparr>"

lemma demo_store_inv: "mem_inv demo_store"
  by (simp add: mem_inv_def demo_store_def demo_job_def)

lemma demo_ready:
  "ready_jobs demo_store 7 \<lparr>cf_Queues = [], cf_Types = [''mail'']\<rparr> =
     [demo_job, demo_job\<lparr>job_ID := ''b'', job_AvailableAt := 5\<rparr>]"
  by (simp add: ready_jobs_def demo_store_def demo_job_def waiting_def filter_allows_def claim_key_def)

theorem memory_claim_earliest_first_witness:
  "fst (mem_ClaimReady demo_store 7 1 \<lparr>cf_Queues = [], cf_Types = [''mail'']\<rparr>) =
     Inr [job_claimed 7 demo_job]"
  using memory_claim_earliest_first [OF demo_store_inv, of 1 7 "\<lparr>cf_Queues = [], cf_Types = [''mail'']\<rparr>"]
  by (simp add: demo_ready)

text \<open>
  What \<open>List\<close>, \<open>ClaimReady\<close> and \<open>PruneTerminalBefore\<close> return and leave behind depends on the
  stored jobs only, never on the order in which Go happens to iterate over the map.
\<close>

lemma memory_iteration_order_irrelevant:
  assumes "mem_inv s" and "mem_inv s'" and "mem_abs s = mem_abs s'"
  shows "mem_List s jf = mem_List s' jf \<and>
    fst (mem_ClaimReady s now limit f) = fst (mem_ClaimReady s' now limit f) \<and>
    mem_abs (snd (mem_ClaimReady s now limit f)) = mem_abs (snd (mem_ClaimReady s' now limit f)) \<and>
    mem_abs (snd (mem_PruneTerminalBefore s cutoff)) = mem_abs (snd (mem_PruneTerminalBefore s' cutoff))"
proof -
  have "ready_jobs s now f = ready_jobs s' now f"
    unfolding ready_jobs_def by (rule mem_sort_cong [OF assms]) (simp add: claim_key_def)
  note ready = this
  have "fst (mem_ClaimReady s now limit f) = fst (mem_ClaimReady s' now limit f) \<and>
    mem_abs (snd (mem_ClaimReady s now limit f)) = mem_abs (snd (mem_ClaimReady s' now limit f))"
  proof (cases "0 < limit")
    case True
    show ?thesis
      using mem_ClaimReady_exact [OF assms(1) True, of now f]
        mem_ClaimReady_exact [OF assms(2) True, of now f]
      unfolding ready assms(3) by (elim conjE) (simp only: simp_thms)
  next
    case False
    then show ?thesis by (simp add: mem_ClaimReady_def assms(3))
  qed
  moreover have "mem_List s jf = mem_List s' jf"
  proof -
    have "sort_key list_key (filter P (map snd (ms_jobs s))) =
        sort_key list_key (filter P (map snd (ms_jobs s')))" for P
      by (rule mem_sort_cong [OF assms]) (simp add: list_key_def)
    then show ?thesis by (simp only: mem_List_def)
  qed
  ultimately show ?thesis
    using mem_prune_spec [OF assms(1)] mem_prune_spec [OF assms(2)] assms(3) by simp
qed

lemma memory_iteration_order_irrelevant_witness:
  "mem_List demo_store \<lparr>jf_Queue = [], jf_Type = [], jf_Statuses = [], jf_Limit = 0, jf_Offset = 0\<rparr> =
   mem_List \<lparr>ms_jobs = rev (ms_jobs demo_store)\<rparr>
     \<lparr>jf_Queue = [], jf_Type = [], jf_Statuses = [], jf_Limit = 0, jf_Offset = 0\<rparr>"
proof -
  have "mem_inv \<lparr>ms_jobs = rev (ms_jobs demo_store)\<rparr>"
    "mem_abs demo_store = mem_abs \<lparr>ms_jobs = rev (ms_jobs demo_store)\<rparr>"
    by (auto simp: mem_inv_def mem_abs_def demo_store_def demo_job_def)
  then show ?thesis using memory_iteration_order_irrelevant [OF demo_store_inv] by blast
qed

text \<open>
  \<open>PruneTerminalBefore\<close> deletes exactly the finished jobs whose completion lies strictly before
  the cutoff, keeps every other job unchanged, and returns the number of jobs it deleted.
\<close>

lemma memory_prune_exact:
  assumes "mem_inv s"
  shows "mem_abs (snd (mem_PruneTerminalBefore s cutoff)) =
      (\<lambda>i. case mem_abs s i of
             None \<Rightarrow> None
           | Some j \<Rightarrow> if IsTerminal (job_Status j) \<and> (\<exists>t < cutoff. job_CompletedAt j = Some t)
                       then None else Some j) \<and>
    fst (mem_PruneTerminalBefore s cutoff) =
      Inr (int (length (ms_jobs s)) - int (length (ms_jobs (snd (mem_PruneTerminalBefore s cutoff)))))"
proof -
  have "prunable cutoff j \<longleftrightarrow>
      IsTerminal (job_Status j) \<and> (\<exists>t < cutoff. job_CompletedAt j = Some t)" for j
    by (auto simp: prunable_def split: option.splits)
  moreover have "int (length (filter P xs)) = int (length xs) - int (length (filter (Not \<circ> P) xs))"
    for P :: "string \<times> job \<Rightarrow> bool" and xs
    using sum_length_filter_compl [of P xs] by (simp add: comp_def)
  note count = this [of "\<lambda>(i, j). prunable cutoff j" "ms_jobs s"]
  have "fst (mem_PruneTerminalBefore s cutoff) =
      Inr (int (length (ms_jobs s)) - int (length (ms_jobs (snd (mem_PruneTerminalBefore s cutoff)))))"
    by (simp add: mem_PruneTerminalBefore_def Let_def count)
  ultimately show ?thesis
    using mem_prune_spec [OF assms, of cutoff] by (simp cong: option.case_cong)
qed

lemma memory_prune_exact_witness:
  "mem_abs (snd (mem_PruneTerminalBefore demo_store 9)) ''a'' = Some demo_job"
  using memory_prune_exact [OF demo_store_inv, of 9]
  by (simp add: mem_abs_def demo_store_def demo_job_def)

text \<open>
  \<open>Stats\<close> counts: the totals per status, the totals per queue and per status within a queue are
  the numbers of stored jobs of that kind (absent when there is none).
\<close>

lemma memory_stats_counts:
  "\<exists>st. mem_Stats s = Inr st \<and> ss_JobsStored st = int (length (ms_jobs s)) \<and>
     (\<forall>x. ss_Totals st x = tally (filter (\<lambda>j. job_Status j = x) (map snd (ms_jobs s)))) \<and>
     (\<forall>q. map_option qs_JobsTotal (ss_Queues st q) =
            tally (filter (\<lambda>j. job_Queue j = q) (map snd (ms_jobs s)))) \<and>
     (\<forall>q qs x. ss_Queues st q = Some qs \<longrightarrow> qs_Name qs = q \<and>
            qs_Totals qs x =
              tally (filter (\<lambda>j. job_Queue j = q \<and> job_Status j = x) (map snd (ms_jobs s))))"
proof -
  let ?js = "map snd (ms_jobs s)"
  let ?st = "\<lparr>ss_JobsStored = int (length (ms_jobs s)),
     ss_Totals = fold (\<lambda>j. bump (job_Status j)) ?js Map.empty,
     ss_Queues = fold add_queue_stats ?js Map.empty\<rparr>"
  have totals: "ss_Totals ?st x = tally (filter (\<lambda>j. job_Status j = x) ?js)" for x
    by (simp only: bump_tally store_stats.simps)
  have queues: "map_option qs_JobsTotal (ss_Queues ?st q) = tally (filter (\<lambda>j. job_Queue j = q) ?js)" for q
    by (simp only: queue_stats_fold store_stats.simps) (simp add: Let_def tally_def)
  have each: "qs_Name qs = q \<and>
      qs_Totals qs x = tally (filter (\<lambda>j. job_Queue j = q \<and> job_Status j = x) ?js)"
    if "ss_Queues ?st q = Some qs" for q qs x
  proof -
    let ?mine = "filter (\<lambda>j. job_Queue j = q) ?js"
    have "qs = \<lparr>qs_Name = q, qs_Totals = fold (\<lambda>j. bump (job_Status j)) ?mine Map.empty,
        qs_JobsTotal = int (length ?mine)\<rparr>"
      using that unfolding queue_stats_fold store_stats.simps Let_def
      by (metis option.distinct(1) option.inject)
    then show ?thesis by (simp only: bump_tally queue_stats.simps filter_filter)
  qed
  have "mem_Stats s = Inr ?st" by (rule mem_Stats_fold)
  moreover have "ss_JobsStored ?st = int (length (ms_jobs s))" by simp
  ultimately show ?thesis using totals queues each by blast
qed

lemma memory_stats_counts_witness:
  "\<exists>st. mem_Stats demo_store = Inr st \<and> ss_JobsStored st = 2"
  using memory_stats_counts [of demo_store] by (auto simp: demo_store_def)

end
