(* ===== verification/Jobs_Manager.thy ===== *)
theory Jobs_Manager
  imports Jobs_Memory
begin

text \<open>
  \<open>pkg/jobs/manager.go\<close> and \<open>pkg/jobs/metrics.go\<close>: configuration, handler registration, enqueueing,
  the dispatcher, the workers with their retry policy and the janitor.

  The manager works on any store: its operations take the record \<open>ops\<close> of a store's operations, as
  the Go code holds a \<open>Store\<close> interface value. The goroutines are the rules of the step relation
  \<open>runtime_step\<close>, one rule per atomic action, interleaved freely. The handlers are user code: a
  handler is a function of the environment it runs in (of any type \<open>'env\<close>), the timeout of its
  context and the job. \<open>Marshal\<close> is \<open>json.Marshal\<close>. Logging is left out.
\<close>

section \<open>Configuration\<close>

record job_config =
  jc_Name :: string
  jc_DefaultQueue :: string
  jc_Workers :: int
  jc_QueueBuffer :: int
  jc_ClaimInterval :: go_duration
  jc_CleanupInterval :: go_duration
  jc_Retention :: go_duration
  jc_DefaultMaxAttempts :: int
  jc_DefaultTimeout :: go_duration
  jc_RetryBaseDelay :: go_duration
  jc_RetryMaxDelay :: go_duration
  jc_AllowEnqueueWithoutHandler :: bool

definition DefaultConfig :: job_config where
  "DefaultConfig =
     \<lparr>jc_Name = ''jobs'', jc_DefaultQueue = ''default'', jc_Workers = 4, jc_QueueBuffer = 256,
      jc_ClaimInterval = 250 * Millisecond, jc_CleanupInterval = 5 * Minute, jc_Retention = 24 * Hour,
      jc_DefaultMaxAttempts = 3, jc_DefaultTimeout = 30 * Second, jc_RetryBaseDelay = 1 * Second,
      jc_RetryMaxDelay = 30 * Second, jc_AllowEnqueueWithoutHandler = False\<rparr>"

text \<open>\<open>normalizeConfig\<close>: an empty string or a number that is not positive becomes the default.\<close>

definition or_default :: "int \<Rightarrow> int \<Rightarrow> int" where
  "or_default x d = (if x \<le> 0 then d else x)"

definition or_default_str :: "string \<Rightarrow> string \<Rightarrow> string" where
  "or_default_str x d = (if x = [] then d else x)"

definition normalizeConfig :: "job_config \<Rightarrow> job_config" where
  "normalizeConfig cfg =
     (let defaults = DefaultConfig
      in cfg\<lparr>jc_Name := or_default_str (jc_Name cfg) (jc_Name defaults),
             jc_DefaultQueue := or_default_str (jc_DefaultQueue cfg) (jc_DefaultQueue defaults),
             jc_Workers := or_default (jc_Workers cfg) (jc_Workers defaults),
             jc_QueueBuffer := or_default (jc_QueueBuffer cfg) (jc_QueueBuffer defaults),
             jc_ClaimInterval := or_default (jc_ClaimInterval cfg) (jc_ClaimInterval defaults),
             jc_CleanupInterval := or_default (jc_CleanupInterval cfg) (jc_CleanupInterval defaults),
             jc_Retention := or_default (jc_Retention cfg) (jc_Retention defaults),
             jc_DefaultMaxAttempts := or_default (jc_DefaultMaxAttempts cfg) (jc_DefaultMaxAttempts defaults),
             jc_DefaultTimeout := or_default (jc_DefaultTimeout cfg) (jc_DefaultTimeout defaults),
             jc_RetryBaseDelay := or_default (jc_RetryBaseDelay cfg) (jc_RetryBaseDelay defaults),
             jc_RetryMaxDelay := or_default (jc_RetryMaxDelay cfg) (jc_RetryMaxDelay defaults)\<rparr>)"

definition retryDelayFor :: "job_config \<Rightarrow> int \<Rightarrow> go_duration" where
  "retryDelayFor cfg attempt =
     (if attempt \<le> 0 then jc_RetryBaseDelay cfg
      else case double_capped (jc_RetryMaxDelay cfg) (nat (attempt - 1)) (jc_RetryBaseDelay cfg) of
             None \<Rightarrow> jc_RetryMaxDelay cfg
           | Some delay \<Rightarrow> if delay > jc_RetryMaxDelay cfg then jc_RetryMaxDelay cfg else delay)"

section \<open>The manager\<close>

text \<open>Counters and gauges, by label values.\<close>

record job_metrics =
  jm_enqueued :: "string \<times> string \<Rightarrow> nat"
  jm_processed :: "string \<times> string \<times> string \<Rightarrow> nat"
  jm_stored :: int
  jm_runningWorkers :: int

text \<open>\<open>newMetrics\<close>; a registerer answers for each collector, by name, with an error or none.\<close>

definition newMetrics :: "(string \<Rightarrow> go_error option) option \<Rightarrow> go_error + job_metrics option" where
  "newMetrics reg =
     (case reg of
        None \<Rightarrow> Ok None
      | Some register \<Rightarrow>
          (case register ''enqueued_total'' of
             Some e \<Rightarrow> Err e
           | None \<Rightarrow>
          (case register ''processed_total'' of
             Some e \<Rightarrow> Err e
           | None \<Rightarrow>
          (case register ''jobs_stored'' of
             Some e \<Rightarrow> Err e
           | None \<Rightarrow>
          (case register ''running_workers'' of
             Some e \<Rightarrow> Err e
           | None \<Rightarrow>
               Ok (Some \<lparr>jm_enqueued = (\<lambda>_. 0), jm_processed = (\<lambda>_. 0), jm_stored = 0,
                         jm_runningWorkers = 0\<rparr>))))))"

type_synonym 'env handler_func = "'env \<Rightarrow> go_duration option \<Rightarrow> job \<Rightarrow> go_error + any"

record 'env handler_registration =
  hr_info :: handler_info
  hr_handler :: "'env handler_func"

definition WithHandlerDescription ::
  "string \<Rightarrow> 'env handler_registration \<Rightarrow> 'env handler_registration" where
  "WithHandlerDescription description reg = reg\<lparr>hr_info := (hr_info reg)\<lparr>hi_Description := description\<rparr>\<rparr>"

definition WithHandlerQueue ::
  "string \<Rightarrow> 'env handler_registration \<Rightarrow> 'env handler_registration" where
  "WithHandlerQueue queue reg = reg\<lparr>hr_info := (hr_info reg)\<lparr>hi_Queue := queue\<rparr>\<rparr>"

definition WithHandlerMaxAttempts ::
  "int \<Rightarrow> 'env handler_registration \<Rightarrow> 'env handler_registration" where
  "WithHandlerMaxAttempts maxAttempts reg = reg\<lparr>hr_info := (hr_info reg)\<lparr>hi_MaxAttempts := maxAttempts\<rparr>\<rparr>"

definition WithHandlerTimeout ::
  "go_duration \<Rightarrow> 'env handler_registration \<Rightarrow> 'env handler_registration" where
  "WithHandlerTimeout timeout reg = reg\<lparr>hr_info := (hr_info reg)\<lparr>hi_Timeout := timeout\<rparr>\<rparr>"

record ('s, 'env) manager =
  mg_cfg :: job_config
  mg_store :: 's
  mg_metrics :: "job_metrics option"
  mg_handlers :: "(string \<times> 'env handler_registration) list"
  mg_workCh :: "job list"
  mg_startedAt :: go_time
  mg_running :: bool
  mg_activeWorkers :: int

definition NewManager ::
  "job_config \<Rightarrow> 's \<Rightarrow> (string \<Rightarrow> go_error option) option \<Rightarrow> go_error + ('s, 'env) manager" where
  "NewManager cfg store reg =
     (let cfg = normalizeConfig cfg
      in case newMetrics reg of
           Inl e \<Rightarrow> Err e
         | Inr metrics \<Rightarrow>
             Ok \<lparr>mg_cfg = cfg, mg_store = store, mg_metrics = metrics, mg_handlers = [], mg_workCh = [],
                 mg_startedAt = zero_time, mg_running = False, mg_activeWorkers = 0\<rparr>)"

definition RegisterHandler ::
  "('s, 'env) manager \<Rightarrow> string \<Rightarrow> 'env handler_func option
     \<Rightarrow> ('env handler_registration \<Rightarrow> 'env handler_registration) list
     \<Rightarrow> go_error + ('s, 'env) manager" where
  "RegisterHandler m jobType handler opts =
     (if jobType = [] then Err (invalidJob ''job type is required'')
      else case handler of
             None \<Rightarrow> Err (invalidJob ''job handler is required'')
           | Some h \<Rightarrow>
               let reg = \<lparr>hr_info = \<lparr>hi_Type = jobType, hi_Description = [],
                            hi_Queue = jc_DefaultQueue (mg_cfg m),
                            hi_MaxAttempts = jc_DefaultMaxAttempts (mg_cfg m),
                            hi_Timeout = jc_DefaultTimeout (mg_cfg m)\<rparr>,
                          hr_handler = h\<rparr>;
                   reg = fold (\<lambda>opt r. opt r) opts reg;
                   reg = (if hi_Queue (hr_info reg) = []
                          then reg\<lparr>hr_info := (hr_info reg)\<lparr>hi_Queue := jc_DefaultQueue (mg_cfg m)\<rparr>\<rparr>
                          else reg);
                   reg = (if hi_MaxAttempts (hr_info reg) \<le> 0
                          then reg\<lparr>hr_info := (hr_info reg)
                                     \<lparr>hi_MaxAttempts := jc_DefaultMaxAttempts (mg_cfg m)\<rparr>\<rparr>
                          else reg)
               in Ok (m\<lparr>mg_handlers := AList.update jobType reg (mg_handlers m)\<rparr>))"

definition getHandler :: "('s, 'env) manager \<Rightarrow> string \<Rightarrow> 'env handler_registration option" where
  "getHandler m jobType = map_of (mg_handlers m) jobType"

definition handlerTypes :: "('s, 'env) manager \<Rightarrow> string list" where
  "handlerTypes m = sort (map fst (mg_handlers m))"

definition Handlers :: "('s, 'env) manager \<Rightarrow> handler_info list" where
  "Handlers m = sort_key hi_Type (map (\<lambda>(t, reg). hr_info reg) (mg_handlers m))"

definition syncStoredGauge :: "'s store_ops \<Rightarrow> ('s, 'env) manager \<Rightarrow> ('s, 'env) manager" where
  "syncStoredGauge ops m =
     (case mg_metrics m of
        None \<Rightarrow> m
      | Some jm \<Rightarrow>
          (case st_Stats ops (mg_store m) of
             Inl _ \<Rightarrow> m
           | Inr stats \<Rightarrow> m\<lparr>mg_metrics := Some (jm\<lparr>jm_stored := ss_JobsStored stats\<rparr>)\<rparr>))"

definition count_enqueued :: "job \<Rightarrow> ('s, 'env) manager \<Rightarrow> ('s, 'env) manager" where
  "count_enqueued j m =
     m\<lparr>mg_metrics := map_option (\<lambda>jm. jm\<lparr>jm_enqueued := (jm_enqueued jm)
        ((job_Queue j, job_Type j) := jm_enqueued jm (job_Queue j, job_Type j) + 1)\<rparr>) (mg_metrics m)\<rparr>"

definition count_processed :: "job \<Rightarrow> job_status \<Rightarrow> ('s, 'env) manager \<Rightarrow> ('s, 'env) manager" where
  "count_processed j st m =
     (let labels = (job_Queue j, job_Type j, status_text st)
      in m\<lparr>mg_metrics := map_option (\<lambda>jm. jm\<lparr>jm_processed := (jm_processed jm)
             (labels := jm_processed jm labels + 1)\<rparr>) (mg_metrics m)\<rparr>)"

section \<open>Enqueueing and administration\<close>

text \<open>The job that \<open>Enqueue\<close> builds from the request, the handler's defaults and the configuration.\<close>

definition new_job ::
  "string \<Rightarrow> go_time \<Rightarrow> job_config \<Rightarrow> 'env handler_registration option \<Rightarrow> enqueue_request \<Rightarrow> job" where
  "new_job uuid now cfg handler req =
     (let queue = rq_Queue req;
          queue = (case handler of Some h \<Rightarrow> if queue = [] then hi_Queue (hr_info h) else queue
                                 | None \<Rightarrow> queue);
          queue = (if queue = [] then jc_DefaultQueue cfg else queue);
          maxAttempts = rq_MaxAttempts req;
          maxAttempts = (case handler of
                           Some h \<Rightarrow> if maxAttempts \<le> 0 then hi_MaxAttempts (hr_info h) else maxAttempts
                         | None \<Rightarrow> maxAttempts);
          maxAttempts = (if maxAttempts \<le> 0 then jc_DefaultMaxAttempts cfg else maxAttempts);
          timeout = rq_Timeout req;
          timeout = (case handler of Some h \<Rightarrow> if timeout \<le> 0 then hi_Timeout (hr_info h) else timeout
                                   | None \<Rightarrow> timeout);
          timeout = (if timeout \<le> 0 then jc_DefaultTimeout cfg else timeout);
          (availableAt, status) =
            (case rq_RunAfter req of
               Some t \<Rightarrow> if t > now then (t, StatusScheduled) else (now, StatusQueued)
             | None \<Rightarrow> (now, StatusQueued))
      in \<lparr>job_ID = normalizeJobID uuid (rq_ID req), job_Type = rq_Type req, job_Queue = queue,
          job_Status = status, job_Payload = rq_Payload req, job_Result = [],
          job_Metadata = rq_Metadata req, job_Attempt = 0, job_MaxAttempts = maxAttempts,
          job_Timeout = timeout, job_LastError = [], job_CreatedAt = now, job_UpdatedAt = now,
          job_AvailableAt = availableAt, job_StartedAt = None, job_CompletedAt = None\<rparr>)"

text \<open>The context from which the metadata are taken, and the metadata.\<close>

definition enqueue_context :: "go_context \<Rightarrow> go_context" where
  "enqueue_context ctx =
     (let ctx = (case ClaimsFromContext ctx of Some c \<Rightarrow> ContextWithClaims ctx c | None \<Rightarrow> ctx)
      in case cx_request_id ctx of
           Some requestID \<Rightarrow>
             if TrimSpace requestID \<noteq> [] then ContextWithCorrelationID ctx requestID else ctx
         | None \<Rightarrow> ctx)"

definition enqueue_metadata ::
  "string \<Rightarrow> go_context \<Rightarrow> (string \<rightharpoonup> string) \<Rightarrow> (string \<rightharpoonup> string)" where
  "enqueue_metadata name ctx metadata =
     (let metadata = (case RequestContextFromContext (enqueue_context ctx) of
                        Some rc \<Rightarrow> MergeMetadata metadata rc
                      | None \<Rightarrow> metadata)
      in if metadata ''job_manager'' = None \<and> name \<noteq> [] then metadata(''job_manager'' \<mapsto> name)
         else metadata)"

definition Enqueue ::
  "'s store_ops \<Rightarrow> string \<Rightarrow> go_time \<Rightarrow> go_context \<Rightarrow> enqueue_request \<Rightarrow> ('s, 'env) manager
     \<Rightarrow> (go_error + job) \<times> ('s, 'env) manager" where
  "Enqueue ops uuid now ctx req m =
     (if rq_Type req = []
      then (Err (EApp (AddSuggestion ''type'' ''provide a registered job type''
                   (Some (app_msg ErrorCodeInvalidInput ''job type is required'')))), m)
      else
        let handler = getHandler m (rq_Type req)
        in if handler = None \<and> \<not> jc_AllowEnqueueWithoutHandler (mg_cfg m)
           then (Err (EApp (AddSuggestion ''type'' (rq_Type req)
                        (Some (app_msg ErrorCodeInvalidInput ''job type is not registered'')))), m)
           else
             let job = new_job uuid now (mg_cfg m) handler req;
                 job = job\<lparr>job_Metadata := enqueue_metadata (jc_Name (mg_cfg m)) ctx (job_Metadata job)\<rparr>
             in case st_Create ops (mg_store m) job of
                  (Inl e, store) \<Rightarrow> (Err e, m\<lparr>mg_store := store\<rparr>)
                | (Inr created, store) \<Rightarrow>
                    (Ok created, count_enqueued created (syncStoredGauge ops (m\<lparr>mg_store := store\<rparr>))))"

definition GetJob :: "'s store_ops \<Rightarrow> ('s, 'env) manager \<Rightarrow> string \<Rightarrow> go_error + job" where
  "GetJob ops m i =
     (case st_Get ops (mg_store m) i of
        Inl e \<Rightarrow> Err e
      | Inr None \<Rightarrow> Err (notFoundJob i)
      | Inr (Some j) \<Rightarrow> Ok j)"

definition ListJobs :: "'s store_ops \<Rightarrow> ('s, 'env) manager \<Rightarrow> job_filter \<Rightarrow> go_error + job list" where
  "ListJobs ops m f = st_List ops (mg_store m) f"

definition CancelJob ::
  "'s store_ops \<Rightarrow> go_time \<Rightarrow> string \<Rightarrow> ('s, 'env) manager \<Rightarrow> (go_error + job) \<times> ('s, 'env) manager" where
  "CancelJob ops now i m =
     (let (r, store) = st_Cancel ops (mg_store m) i now in (r, m\<lparr>mg_store := store\<rparr>))"

definition RetryJob ::
  "'s store_ops \<Rightarrow> go_time \<Rightarrow> string \<Rightarrow> ('s, 'env) manager \<Rightarrow> (go_error + job) \<times> ('s, 'env) manager" where
  "RetryJob ops now i m =
     (let (r, store) = st_Retry ops (mg_store m) i now in (r, m\<lparr>mg_store := store\<rparr>))"

record health_snapshot =
  hs_Manager :: string
  hs_Running :: bool
  hs_StartedAt :: go_time
  hs_ConfiguredWorkers :: int
  hs_ActiveWorkers :: int

definition Health :: "('s, 'env) manager \<Rightarrow> health_snapshot" where
  "Health m =
     \<lparr>hs_Manager = jc_Name (mg_cfg m), hs_Running = mg_running m, hs_StartedAt = mg_startedAt m,
      hs_ConfiguredWorkers = jc_Workers (mg_cfg m), hs_ActiveWorkers = mg_activeWorkers m\<rparr>"

record stats_snapshot =
  sn_Manager :: string
  sn_StartedAt :: go_time
  sn_UptimeSeconds :: int
  sn_JobsStored :: int
  sn_Totals :: "job_status \<rightharpoonup> int"
  sn_Queues :: "string \<rightharpoonup> queue_stats"
  sn_ConfiguredWorkers :: int
  sn_ActiveWorkers :: int
  sn_RegisteredHandlers :: "handler_info list"

definition Stats :: "'s store_ops \<Rightarrow> go_time \<Rightarrow> ('s, 'env) manager \<Rightarrow> go_error + stats_snapshot" where
  "Stats ops now m =
     (case st_Stats ops (mg_store m) of
        Inl e \<Rightarrow> Err e
      | Inr st \<Rightarrow>
          let uptime = (if mg_running m \<and> mg_startedAt m \<noteq> zero_time
                        then (now - mg_startedAt m) div Second else 0)
          in Ok \<lparr>sn_Manager = jc_Name (mg_cfg m), sn_StartedAt = mg_startedAt m,
                 sn_UptimeSeconds = uptime, sn_JobsStored = ss_JobsStored st, sn_Totals = ss_Totals st,
                 sn_Queues = ss_Queues st, sn_ConfiguredWorkers = jc_Workers (mg_cfg m),
                 sn_ActiveWorkers = mg_activeWorkers m, sn_RegisteredHandlers = Handlers m\<rparr>)"

section \<open>Dispatching and processing\<close>

text \<open>\<open>dispatch\<close> up to the loop that sends the claimed jobs into the work channel.\<close>

definition dispatch_claim ::
  "'s store_ops \<Rightarrow> go_time \<Rightarrow> ('s, 'env) manager \<Rightarrow> (go_error + job list) \<times> ('s, 'env) manager" where
  "dispatch_claim ops now m =
     (let availableSlots = jc_QueueBuffer (mg_cfg m) - int (length (mg_workCh m))
      in if availableSlots \<le> 0 then (Ok [], m)
         else
           let claimFilter = \<lparr>cf_Queues = [], cf_Types = handlerTypes m\<rparr>
           in if length (cf_Types claimFilter) = 0 then (Ok [], m)
              else
                let (r, store) = st_ClaimReady ops (mg_store m) now availableSlots claimFilter
                in (r, m\<lparr>mg_store := store\<rparr>))"

definition finalizeFailure ::
  "'s store_ops \<Rightarrow> go_time \<Rightarrow> job \<Rightarrow> go_error \<Rightarrow> ('s, 'env) manager
     \<Rightarrow> go_error option \<times> ('s, 'env) manager" where
  "finalizeFailure ops now job err m =
     (let reason = Error err
      in if job_Attempt job < job_MaxAttempts job
         then
           let delay = retryDelayFor (mg_cfg m) (job_Attempt job)
           in case st_MarkRetry ops (mg_store m) (job_ID job) reason (now + delay) now of
                (Inl storeErr, store) \<Rightarrow> (Some storeErr, m\<lparr>mg_store := store\<rparr>)
              | (Inr _, store) \<Rightarrow> (None, m\<lparr>mg_store := store\<rparr>)
         else
           case st_MarkFailed ops (mg_store m) (job_ID job) reason now of
             (Inl storeErr, store) \<Rightarrow> (Some storeErr, m\<lparr>mg_store := store\<rparr>)
           | (Inr _, store) \<Rightarrow>
               (None, syncStoredGauge ops (count_processed job StatusFailed (m\<lparr>mg_store := store\<rparr>))))"

definition marshalResult :: "(any \<Rightarrow> go_error + string) \<Rightarrow> any \<Rightarrow> go_error + string" where
  "marshalResult Marshal result = (if result = ANil then Ok [] else Marshal result)"

text \<open>\<open>processJob\<close>, with the handler that \<open>getHandler\<close> returned when the worker picked up the job.\<close>

definition run_job ::
  "'s store_ops \<Rightarrow> (any \<Rightarrow> go_error + string) \<Rightarrow> 'env \<Rightarrow> go_time \<Rightarrow> 'env handler_registration option
     \<Rightarrow> job \<Rightarrow> ('s, 'env) manager \<Rightarrow> go_error option \<times> ('s, 'env) manager" where
  "run_job ops Marshal env now handler job m =
     (case handler of
        None \<Rightarrow>
          finalizeFailure ops now job
            (EPlain (''no handler registered for job type '' @ job_Type job)) m
      | Some h \<Rightarrow>
          let timeout = (if job_Timeout job > 0 then Some (job_Timeout job) else None)
          in case hr_handler h env timeout job of
               Inl err \<Rightarrow> finalizeFailure ops now job err m
             | Inr result \<Rightarrow>
                 (case marshalResult Marshal result of
                    Inl err \<Rightarrow> finalizeFailure ops now job err m
                  | Inr rawResult \<Rightarrow>
                      (case st_MarkSucceeded ops (mg_store m) (job_ID job) rawResult now of
                         (Inl err, store) \<Rightarrow> (Some err, m\<lparr>mg_store := store\<rparr>)
                       | (Inr _, store) \<Rightarrow>
                           (None, syncStoredGauge ops
                                    (count_processed job StatusSucceeded (m\<lparr>mg_store := store\<rparr>))))))"

definition processJob ::
  "'s store_ops \<Rightarrow> (any \<Rightarrow> go_error + string) \<Rightarrow> 'env \<Rightarrow> go_time \<Rightarrow> job \<Rightarrow> ('s, 'env) manager
     \<Rightarrow> go_error option \<times> ('s, 'env) manager" where
  "processJob ops Marshal env now job m = run_job ops Marshal env now (getHandler m (job_Type job)) job m"

text \<open>What \<open>runWorker\<close> does around a job.\<close>

definition worker_begin :: "('s, 'env) manager \<Rightarrow> ('s, 'env) manager" where
  "worker_begin m =
     m\<lparr>mg_activeWorkers := mg_activeWorkers m + 1,
       mg_metrics := map_option (\<lambda>jm. jm\<lparr>jm_runningWorkers := jm_runningWorkers jm + 1\<rparr>) (mg_metrics m)\<rparr>"

definition worker_end :: "('s, 'env) manager \<Rightarrow> ('s, 'env) manager" where
  "worker_end m =
     m\<lparr>mg_activeWorkers := mg_activeWorkers m - 1,
       mg_metrics := map_option (\<lambda>jm. jm\<lparr>jm_runningWorkers := jm_runningWorkers jm - 1\<rparr>) (mg_metrics m)\<rparr>"

text \<open>One tick of \<open>runJanitor\<close>.\<close>

definition janitor_tick :: "'s store_ops \<Rightarrow> go_time \<Rightarrow> ('s, 'env) manager \<Rightarrow> ('s, 'env) manager" where
  "janitor_tick ops now m =
     (let cutoff = now - jc_Retention (mg_cfg m)
      in case st_PruneTerminalBefore ops (mg_store m) cutoff of
           (Inl _, store) \<Rightarrow> m\<lparr>mg_store := store\<rparr>
         | (Inr removed, store) \<Rightarrow>
             if removed > 0 then syncStoredGauge ops (m\<lparr>mg_store := store\<rparr>) else m\<lparr>mg_store := store\<rparr>)"

section \<open>The running system\<close>

text \<open>
  The state of the manager with its goroutines: the claimed jobs the dispatcher has still to send,
  the jobs the busy workers hold with the handler they looked up, whether the goroutines are alive
  and whether their context is done.
\<close>

record ('s, 'env) runtime =
  rt_mgr :: "('s, 'env) manager"
  rt_pending :: "job list"
  rt_busy :: "(job \<times> 'env handler_registration option) list"
  rt_live :: bool
  rt_done :: bool

definition Start :: "go_time \<Rightarrow> ('s, 'env) runtime \<Rightarrow> ('s, 'env) runtime" where
  "Start now rt =
     (if mg_running (rt_mgr rt) then rt
      else rt\<lparr>rt_mgr := (rt_mgr rt)\<lparr>mg_running := True, mg_startedAt := now\<rparr>, rt_live := True,
              rt_done := False\<rparr>)"

text \<open>\<open>Stop\<close> up to waiting for the goroutines.\<close>

definition Stop :: "('s, 'env) runtime \<Rightarrow> ('s, 'env) runtime" where
  "Stop rt =
     (if \<not> mg_running (rt_mgr rt) then rt
      else rt\<lparr>rt_mgr := (rt_mgr rt)\<lparr>mg_running := False\<rparr>, rt_done := True\<rparr>)"

definition initial_runtime :: "('s, 'env) manager \<Rightarrow> ('s, 'env) runtime" where
  "initial_runtime m =
     \<lparr>rt_mgr = m, rt_pending = [], rt_busy = [], rt_live = False, rt_done = False\<rparr>"

text \<open>
  One atomic action. Calls of the API (\<open>enqueue\<close> to \<open>stop\<close>) may happen at any time; \<open>Start\<close> is
  assumed not to be called while the goroutines of an earlier start are still winding down. The
  side conditions on \<open>int64_range\<close> say that the arguments are Go integers.
\<close>

inductive runtime_step ::
  "'s store_ops \<Rightarrow> (any \<Rightarrow> go_error + string) \<Rightarrow> ('s, 'env) runtime \<Rightarrow> ('s, 'env) runtime \<Rightarrow> bool"
  for ops Marshal where
  enqueue: "int64_range (rq_MaxAttempts req) \<Longrightarrow> Enqueue ops uuid now ctx req (rt_mgr rt) = (r, m') \<Longrightarrow>
    runtime_step ops Marshal rt (rt\<lparr>rt_mgr := m'\<rparr>)"
| register: "RegisterHandler (rt_mgr rt) jobType h opts = Inr m' \<Longrightarrow>
    \<forall>reg\<in>snd ` set (mg_handlers m'). int64_range (hi_MaxAttempts (hr_info reg)) \<Longrightarrow>
    runtime_step ops Marshal rt (rt\<lparr>rt_mgr := m'\<rparr>)"
| cancel: "CancelJob ops now i (rt_mgr rt) = (r, m') \<Longrightarrow> runtime_step ops Marshal rt (rt\<lparr>rt_mgr := m'\<rparr>)"
| retry: "RetryJob ops now i (rt_mgr rt) = (r, m') \<Longrightarrow> runtime_step ops Marshal rt (rt\<lparr>rt_mgr := m'\<rparr>)"
| start: "\<not> rt_live rt \<Longrightarrow> runtime_step ops Marshal rt (Start now rt)"
| stop: "runtime_step ops Marshal rt (Stop rt)"
| parent_cancel: "rt_live rt \<Longrightarrow> runtime_step ops Marshal rt (rt\<lparr>rt_done := True\<rparr>)"
| claim: "rt_live rt \<Longrightarrow> rt_pending rt = [] \<Longrightarrow> dispatch_claim ops now (rt_mgr rt) = (Inr js, m') \<Longrightarrow>
    runtime_step ops Marshal rt (rt\<lparr>rt_mgr := m', rt_pending := js\<rparr>)"
| claim_error: "rt_live rt \<Longrightarrow> rt_pending rt = [] \<Longrightarrow> dispatch_claim ops now (rt_mgr rt) = (Inl e, m') \<Longrightarrow>
    runtime_step ops Marshal rt (rt\<lparr>rt_mgr := m'\<rparr>)"
| send: "rt_live rt \<Longrightarrow> rt_pending rt = j # js \<Longrightarrow>
    int (length (mg_workCh (rt_mgr rt))) < jc_QueueBuffer (mg_cfg (rt_mgr rt)) \<Longrightarrow>
    runtime_step ops Marshal rt
      (rt\<lparr>rt_pending := js, rt_mgr := (rt_mgr rt)\<lparr>mg_workCh := mg_workCh (rt_mgr rt) @ [j]\<rparr>\<rparr>)"
| send_canceled: "rt_live rt \<Longrightarrow> rt_done rt \<Longrightarrow> runtime_step ops Marshal rt (rt\<lparr>rt_pending := []\<rparr>)"
| take_job: "rt_live rt \<Longrightarrow> mg_workCh (rt_mgr rt) = j # js \<Longrightarrow>
    int (length (rt_busy rt)) < jc_Workers (mg_cfg (rt_mgr rt)) \<Longrightarrow>
    runtime_step ops Marshal rt
      (rt\<lparr>rt_mgr := worker_begin ((rt_mgr rt)\<lparr>mg_workCh := js\<rparr>),
          rt_busy := (j, getHandler (rt_mgr rt) (job_Type j)) # rt_busy rt\<rparr>)"
| finish: "rt_live rt \<Longrightarrow> rt_busy rt = xs @ (j, h) # ys \<Longrightarrow>
    run_job ops Marshal env now h j (rt_mgr rt) = (e, m') \<Longrightarrow>
    runtime_step ops Marshal rt (rt\<lparr>rt_mgr := worker_end m', rt_busy := xs @ ys\<rparr>)"
| janitor: "rt_live rt \<Longrightarrow> runtime_step ops Marshal rt (rt\<lparr>rt_mgr := janitor_tick ops now (rt_mgr rt)\<rparr>)"
| exit: "rt_live rt \<Longrightarrow> rt_done rt \<Longrightarrow> rt_pending rt = [] \<Longrightarrow> rt_busy rt = [] \<Longrightarrow>
    runtime_step ops Marshal rt (rt\<lparr>rt_live := False\<rparr>)"

inductive_cases runtime_stepE: "runtime_step ops Marshal rt rt'"

text \<open>The jobs that are on their way through this process.\<close>

definition in_flight :: "('s, 'env) runtime \<Rightarrow> job list" where
  "in_flight rt = rt_pending rt @ mg_workCh (rt_mgr rt) @ map fst (rt_busy rt)"

text \<open>What holds of every stored job.\<close>

definition job_ok :: "job \<Rightarrow> bool" where
  "job_ok j =
     (0 \<le> job_Attempt j \<and> job_Attempt j \<le> job_MaxAttempts j \<and> 1 \<le> job_MaxAttempts j \<and>
      job_MaxAttempts j < 2 ^ 63 \<and>
      (waiting j \<longrightarrow> job_Attempt j < job_MaxAttempts j) \<and>
      (job_Status j = StatusRunning \<longrightarrow> 1 \<le> job_Attempt j \<and> job_StartedAt j \<noteq> None) \<and>
      (IsTerminal (job_Status j) \<longleftrightarrow> job_CompletedAt j \<noteq> None))"

definition jobs_ok :: "job_map \<Rightarrow> bool" where
  "jobs_ok m = (\<forall>i j. m i = Some j \<longrightarrow> job_ID j = i \<and> job_ok j)"

definition flight_ok :: "job_map \<Rightarrow> job list \<Rightarrow> bool" where
  "flight_ok m fl =
     (distinct (map job_ID fl) \<and> (\<forall>j\<in>set fl. m (job_ID j) = Some j \<and> job_Status j = StatusRunning))"

text \<open>What the configuration and the registered handlers satisfy.\<close>

definition manager_ok :: "('s, 'env) manager \<Rightarrow> bool" where
  "manager_ok m =
     (0 < jc_DefaultMaxAttempts (mg_cfg m) \<and> int64_range (jc_DefaultMaxAttempts (mg_cfg m)) \<and>
      (\<forall>(t, reg)\<in>set (mg_handlers m). t \<noteq> [] \<and> 0 < hi_MaxAttempts (hr_info reg) \<and>
         int64_range (hi_MaxAttempts (hr_info reg))))"

text \<open>
  The invariant of the running system, over the jobs a store holds (\<open>jobs_of\<close>) and the store's own
  invariant (\<open>sinv\<close>). The jobs \<open>lost\<close> are running in the store but no longer in this process.
\<close>

definition store_ok :: "('s \<Rightarrow> job_map) \<Rightarrow> ('s \<Rightarrow> bool) \<Rightarrow> 's \<Rightarrow> job list \<Rightarrow> bool" where
  "store_ok jobs_of sinv s fl = (sinv s \<and> jobs_ok (jobs_of s) \<and> flight_ok (jobs_of s) fl)"

definition runtime_ok ::
  "('s \<Rightarrow> job_map) \<Rightarrow> ('s \<Rightarrow> bool) \<Rightarrow> job list \<Rightarrow> ('s, 'env) runtime \<Rightarrow> bool" where
  "runtime_ok jobs_of sinv lost rt =
     (manager_ok (rt_mgr rt) \<and> store_ok jobs_of sinv (mg_store (rt_mgr rt)) (in_flight rt @ lost) \<and>
      int (length (rt_pending rt) + length (mg_workCh (rt_mgr rt)))
        \<le> max 0 (jc_QueueBuffer (mg_cfg (rt_mgr rt))) \<and>
      int (length (rt_busy rt)) \<le> max 0 (jc_Workers (mg_cfg (rt_mgr rt))) \<and>
      mg_activeWorkers (rt_mgr rt) = int (length (rt_busy rt)) \<and>
      (\<forall>j\<in>set (in_flight rt). getHandler (rt_mgr rt) (job_Type j) \<noteq> None) \<and>
      (\<forall>(j, h)\<in>set (rt_busy rt). h \<noteq> None))"

text \<open>Two managers that agree on everything but store and metrics.\<close>

definition same_frame :: "('s, 'env) manager \<Rightarrow> ('s, 'env) manager \<Rightarrow> bool" where
  "same_frame m m' =
     (mg_cfg m' = mg_cfg m \<and> mg_handlers m' = mg_handlers m \<and> mg_workCh m' = mg_workCh m \<and>
      mg_activeWorkers m' = mg_activeWorkers m)"

section \<open>Lemmas\<close>

subsection \<open>Configuration\<close>

lemma normalizeConfig_positive:
  "jc_Name (normalizeConfig cfg) \<noteq> []" "jc_DefaultQueue (normalizeConfig cfg) \<noteq> []"
  "0 < jc_Workers (normalizeConfig cfg)" "0 < jc_QueueBuffer (normalizeConfig cfg)"
  "0 < jc_ClaimInterval (normalizeConfig cfg)" "0 < jc_CleanupInterval (normalizeConfig cfg)"
  "0 < jc_Retention (normalizeConfig cfg)" "0 < jc_DefaultMaxAttempts (normalizeConfig cfg)"
  "0 < jc_DefaultTimeout (normalizeConfig cfg)" "0 < jc_RetryBaseDelay (normalizeConfig cfg)"
  "0 < jc_RetryMaxDelay (normalizeConfig cfg)"
  by (simp_all add: normalizeConfig_def DefaultConfig_def duration_defs Let_def or_default_def
        or_default_str_def)

lemma normalizeConfig_MaxAttempts:
  "jc_DefaultMaxAttempts (normalizeConfig cfg) =
     (if jc_DefaultMaxAttempts cfg \<le> 0 then 3 else jc_DefaultMaxAttempts cfg)"
  by (simp add: normalizeConfig_def DefaultConfig_def Let_def or_default_def)

subsection \<open>Parts of the manager the metrics do not touch\<close>

lemma metrics_frame [simp]:
  "mg_store (syncStoredGauge ops m) = mg_store m" "mg_cfg (syncStoredGauge ops m) = mg_cfg m"
  "mg_handlers (syncStoredGauge ops m) = mg_handlers m" "mg_workCh (syncStoredGauge ops m) = mg_workCh m"
  "mg_activeWorkers (syncStoredGauge ops m) = mg_activeWorkers m"
  "mg_store (count_enqueued j m) = mg_store m" "mg_cfg (count_enqueued j m) = mg_cfg m"
  "mg_handlers (count_enqueued j m) = mg_handlers m" "mg_workCh (count_enqueued j m) = mg_workCh m"
  "mg_activeWorkers (count_enqueued j m) = mg_activeWorkers m"
  "mg_store (count_processed j st m) = mg_store m" "mg_cfg (count_processed j st m) = mg_cfg m"
  "mg_handlers (count_processed j st m) = mg_handlers m" "mg_workCh (count_processed j st m) = mg_workCh m"
  "mg_activeWorkers (count_processed j st m) = mg_activeWorkers m"
  by (simp_all add: syncStoredGauge_def count_enqueued_def count_processed_def Let_def
        split: option.splits sum.splits)

lemma worker_frame [simp]:
  "mg_store (worker_begin m) = mg_store m" "mg_cfg (worker_begin m) = mg_cfg m"
  "mg_handlers (worker_begin m) = mg_handlers m" "mg_workCh (worker_begin m) = mg_workCh m"
  "mg_activeWorkers (worker_begin m) = mg_activeWorkers m + 1"
  "mg_store (worker_end m) = mg_store m" "mg_cfg (worker_end m) = mg_cfg m"
  "mg_handlers (worker_end m) = mg_handlers m" "mg_workCh (worker_end m) = mg_workCh m"
  "mg_activeWorkers (worker_end m) = mg_activeWorkers m - 1"
  by (simp_all add: worker_begin_def worker_end_def)

lemma Enqueue_frame: "Enqueue ops uuid now ctx req m = (r, m') \<Longrightarrow> same_frame m m'"
  by (auto simp: Enqueue_def same_frame_def Let_def split: if_splits prod.splits sum.splits)

lemma finalizeFailure_frame: "finalizeFailure ops now j err m = (e, m') \<Longrightarrow> same_frame m m'"
  by (auto simp: finalizeFailure_def same_frame_def Let_def split: if_splits prod.splits sum.splits)

lemma run_job_frame: "run_job ops Marshal env now h j m = (e, m') \<Longrightarrow> same_frame m m'"
  by (auto simp: run_job_def Let_def dest: finalizeFailure_frame
        split: option.splits prod.splits sum.splits)
     (auto simp: same_frame_def)

lemma janitor_frame: "same_frame m (janitor_tick ops now m)"
  by (auto simp: janitor_tick_def same_frame_def Let_def split: prod.splits sum.splits)

lemma dispatch_frame: "dispatch_claim ops now m = (r, m') \<Longrightarrow> same_frame m m'"
  by (auto simp: dispatch_claim_def same_frame_def Let_def split: if_splits prod.splits)

subsection \<open>Stored jobs\<close>

lemma job_ok_claimed: "job_ok j \<Longrightarrow> waiting j \<Longrightarrow> job_ok (job_claimed now j)"
  by (auto simp: job_ok_def job_claimed_def waiting_def int64_range_def)

lemma job_ok_promote: "job_ok j \<Longrightarrow> job_ok (promote now j)"
  by (auto simp: job_ok_def promote_def waiting_def)

lemma job_ok_succeeded: "job_ok j \<Longrightarrow> job_ok (job_succeeded res now j)"
  by (auto simp: job_ok_def job_succeeded_def waiting_def)

lemma job_ok_failed: "job_ok j \<Longrightarrow> job_ok (job_failed reason now j)"
  by (auto simp: job_ok_def job_failed_def waiting_def)

lemma job_ok_retrying:
  "job_ok j \<Longrightarrow> job_Attempt j < job_MaxAttempts j \<Longrightarrow> job_ok (job_retrying reason runAt now j)"
  by (auto simp: job_ok_def job_retrying_def waiting_def)

lemma job_ok_canceled: "job_ok j \<Longrightarrow> job_canceled now j = Inr j' \<Longrightarrow> job_ok j'"
  by (auto simp: job_ok_def job_canceled_Ok waiting_def)

lemma job_ok_requeued: "job_ok j \<Longrightarrow> job_requeued now j = Inr j' \<Longrightarrow> job_ok j'"
  by (auto simp: job_ok_def job_requeued_Ok waiting_def)

lemma job_ok_new:
  assumes "0 < jc_DefaultMaxAttempts cfg" "int64_range (jc_DefaultMaxAttempts cfg)"
    and "int64_range (rq_MaxAttempts req)"
    and "\<forall>reg. h = Some reg \<longrightarrow> 0 < hi_MaxAttempts (hr_info reg) \<and> int64_range (hi_MaxAttempts (hr_info reg))"
  shows "job_ok (new_job uuid now cfg h req)"
  using assms
  by (cases "rq_RunAfter req"; cases h)
     (auto simp: new_job_def Let_def job_ok_def waiting_def int64_range_def)

lemma job_ok_metadata [simp]: "job_ok (j\<lparr>job_Metadata := md\<rparr>) = job_ok j"
  by (simp add: job_ok_def waiting_def)

lemma jobs_ok_update: "jobs_ok m \<Longrightarrow> job_ID j = i \<Longrightarrow> job_ok j \<Longrightarrow> jobs_ok (m(i \<mapsto> j))"
  by (auto simp: jobs_ok_def)

lemma jobs_ok_Some: "jobs_ok m \<Longrightarrow> m i = Some j \<Longrightarrow> job_ID j = i \<and> job_ok j"
  by (simp add: jobs_ok_def)

subsection \<open>Jobs in flight\<close>

lemma flight_ok_mset: "mset fl = mset fl' \<Longrightarrow> flight_ok m fl = flight_ok m fl'"
proof -
  assume eq: "mset fl = mset fl'"
  then have "distinct (map job_ID fl) = distinct (map job_ID fl')"
    by (intro mset_eq_imp_distinct_iff) simp
  with mset_eq_setD [OF eq] show ?thesis by (simp add: flight_ok_def)
qed

lemma flight_ok_drop: "flight_ok m (xs @ ys @ zs) \<Longrightarrow> flight_ok m (xs @ zs)"
  by (auto simp: flight_ok_def)

lemma flight_ok_create: "flight_ok m fl \<Longrightarrow> m (job_ID j) = None \<Longrightarrow> flight_ok (m(job_ID j \<mapsto> j)) fl"
  by (auto simp: flight_ok_def)

lemma flight_ok_other:
  "flight_ok m fl \<Longrightarrow> m i = Some j \<Longrightarrow> job_Status j \<noteq> StatusRunning \<Longrightarrow> flight_ok (m(i \<mapsto> j')) fl"
  by (auto simp: flight_ok_def)

lemma flight_ok_own:
  assumes "flight_ok m (j # fl)"
  shows "flight_ok (m(job_ID j \<mapsto> j')) fl"
proof -
  have "job_ID k \<noteq> job_ID j" if "k \<in> set fl" for k
    using assms that by (auto simp: flight_ok_def image_iff dest: sym)
  with assms show ?thesis by (simp add: flight_ok_def)
qed

lemma flight_ok_prune:
  assumes "flight_ok m fl"
    and "\<forall>i. m' i = m i \<or> m' i = None \<and> (\<exists>j. m i = Some j \<and> IsTerminal (job_Status j))"
  shows "flight_ok m' fl"
  unfolding flight_ok_def
proof (intro conjI ballI)
  show "distinct (map job_ID fl)" using assms(1) by (simp add: flight_ok_def)
  fix j assume "j \<in> set fl"
  then have "m (job_ID j) = Some j" "job_Status j = StatusRunning"
    using assms(1) by (auto simp: flight_ok_def)
  then show "m' (job_ID j) = Some j" "job_Status j = StatusRunning"
    using assms(2) [THEN spec, of "job_ID j"] by auto
qed

lemma jobs_ok_prune:
  assumes "jobs_ok m" and "\<forall>i. m' i = m i \<or> m' i = None \<and> P i"
  shows "jobs_ok m'"
  unfolding jobs_ok_def
proof (intro allI impI)
  fix i j assume "m' i = Some j"
  then have "m i = Some j" using assms(2) [THEN spec, of i] by auto
  then show "job_ID j = i \<and> job_ok j" by (rule jobs_ok_Some [OF assms(1)])
qed

lemma claims_ready_flight:
  assumes c: "claims_ready now limit f m js m'" and ok: "jobs_ok m" and fl: "flight_ok m fl"
  shows "jobs_ok m' \<and> flight_ok m' (js @ fl)"
proof -
  have claimed: "\<exists>old. m (job_ID j) = Some old \<and> waiting old \<and> j = job_claimed now old \<and> m' (job_ID j) = Some j"
    if "j \<in> set js" for j
    using c that unfolding claims_ready_def by blast
  have rest: "m' i = m i \<or> m' i = map_option (promote now) (m i)" if "i \<notin> job_ID ` set js" for i
    using c that unfolding claims_ready_def by blast
  have "job_ID j = i \<and> job_ok j" if "m' i = Some j" for i j
  proof (cases "i \<in> job_ID ` set js")
    case True
    then obtain k where k: "k \<in> set js" "i = job_ID k" by auto
    with claimed [OF k(1)] that ok show ?thesis
      by (auto simp: jobs_ok_def intro: job_ok_claimed)
  next
    case False
    from rest [OF False] that ok show ?thesis
      by (cases "m i") (auto simp: jobs_ok_def intro: job_ok_promote)
  qed
  then have jobs: "jobs_ok m'" by (simp add: jobs_ok_def)
  have notin: "job_ID j \<notin> job_ID ` set js" if "j \<in> set fl" for j
  proof
    assume "job_ID j \<in> job_ID ` set js"
    then obtain k where "k \<in> set js" "job_ID j = job_ID k" by auto
    with claimed [of k] fl that show False by (auto simp: flight_ok_def waiting_def)
  qed
  have keep: "m' (job_ID j) = Some j \<and> job_Status j = StatusRunning" if "j \<in> set fl" for j
    using rest [OF notin [OF that]] fl that by (auto simp: flight_ok_def)
  have run: "job_Status j = StatusRunning \<and> m' (job_ID j) = Some j" if "j \<in> set js" for j
    using claimed [OF that] by (auto simp: job_claimed_def)
  have "distinct (map job_ID js)" "distinct (map job_ID fl)"
    using c fl by (auto simp: claims_ready_def flight_ok_def)
  moreover have "set (map job_ID js) \<inter> set (map job_ID fl) = {}"
  proof (rule ccontr)
    assume "set (map job_ID js) \<inter> set (map job_ID fl) \<noteq> {}"
    then obtain i k where "i \<in> set js" "k \<in> set fl" "job_ID i = job_ID k" by auto
    then show False using notin [of k] imageI [of i "set js" job_ID] by simp
  qed
  ultimately have "distinct (map job_ID (js @ fl))" by (simp only: map_append distinct_append simp_thms)
  then show ?thesis using jobs keep run unfolding flight_ok_def by auto
qed

text \<open>The outcome of an update that a store promises: done, or refused with the jobs unchanged.\<close>

lemma update_own_job:
  assumes "updates (\<lambda>j. Inr (g j)) (job_ID j) m r m' \<or> \<not> is_ok r \<and> m' = m"
    and "jobs_ok m" "flight_ok m (j # fl)" "\<And>j. job_ID (g j) = job_ID j" "job_ok (g j)"
  shows "jobs_ok m' \<and> flight_ok m' fl"
proof -
  have "m (job_ID j) = Some j" using assms(3) by (simp add: flight_ok_def)
  with assms(1) have "m' = m(job_ID j \<mapsto> g j) \<or> m' = m" by (auto simp: updates_def)
  moreover have "flight_ok m fl" using flight_ok_drop [of m "[]" "[j]" fl] assms(3) by simp
  ultimately show ?thesis
    using assms(2,4,5) flight_ok_own [OF assms(3)] by (auto intro: jobs_ok_update)
qed

lemma update_idle_job:
  assumes "updates g i m r m' \<or> \<not> is_ok r \<and> m' = m"
    and "jobs_ok m" "flight_ok m fl"
    and g: "\<And>j j'. job_ok j \<Longrightarrow> g j = Inr j' \<Longrightarrow> job_Status j \<noteq> StatusRunning \<and> job_ID j' = job_ID j \<and> job_ok j'"
  shows "jobs_ok m' \<and> flight_ok m' fl"
proof -
  consider "m' = m" | j j' where "m i = Some j" "g j = Inr j'" "m' = m(i \<mapsto> j')"
    using assms(1) by (auto simp: updates_def split: option.splits sum.splits)
  then show ?thesis
  proof cases
    case 1
    with assms show ?thesis by simp
  next
    case 2
    with g [of j j'] jobs_ok_Some [OF assms(2)] assms(2,3) show ?thesis
      by (auto intro: jobs_ok_update flight_ok_other)
  qed
qed

subsection \<open>The running system\<close>

lemma runtime_ok_frame:
  assumes "runtime_ok jobs_of sinv lost rt" "same_frame (rt_mgr rt) m'"
    and "store_ok jobs_of sinv (mg_store m') (in_flight rt @ lost)"
  shows "runtime_ok jobs_of sinv lost (rt\<lparr>rt_mgr := m'\<rparr>)"
  using assms
  by (simp add: runtime_ok_def same_frame_def manager_ok_def in_flight_def getHandler_def)

lemma set_AList_update: "x \<in> set (AList.update k v xs) \<Longrightarrow> x = (k, v) \<or> x \<in> set xs"
  by (induction xs) (auto split: if_splits)

lemma RegisterHandler_ok:
  assumes "manager_ok m" "RegisterHandler m t h opts = Inr m'"
    and "\<forall>reg\<in>snd ` set (mg_handlers m'). int64_range (hi_MaxAttempts (hr_info reg))"
  shows "manager_ok m' \<and> mg_store m' = mg_store m \<and> mg_cfg m' = mg_cfg m \<and> mg_workCh m' = mg_workCh m \<and>
    mg_activeWorkers m' = mg_activeWorkers m \<and>
    (\<forall>t. getHandler m t \<noteq> None \<longrightarrow> getHandler m' t \<noteq> None)"
proof -
  obtain reg where reg: "m' = m\<lparr>mg_handlers := AList.update t reg (mg_handlers m)\<rparr>" "t \<noteq> []"
    "0 < hi_MaxAttempts (hr_info reg)"
    using assms(1,2)
    by (auto simp: RegisterHandler_def Let_def manager_ok_def split: if_splits option.splits)
  have "manager_ok m'"
    unfolding manager_ok_def
  proof (intro conjI ballI)
    show "0 < jc_DefaultMaxAttempts (mg_cfg m')" "int64_range (jc_DefaultMaxAttempts (mg_cfg m'))"
      using assms(1) reg(1) by (auto simp: manager_ok_def)
    fix x assume x: "x \<in> set (mg_handlers m')"
    obtain t' r where tr: "x = (t', r)" by force
    have "(t', r) = (t, reg) \<or> (t', r) \<in> set (mg_handlers m)"
      using x tr reg(1) set_AList_update by fastforce
    then have "t' \<noteq> [] \<and> 0 < hi_MaxAttempts (hr_info r)"
      using assms(1) reg(2,3) by (auto simp: manager_ok_def)
    moreover have "int64_range (hi_MaxAttempts (hr_info r))" using assms(3) x tr by force
    ultimately show "case x of (t, reg) \<Rightarrow> t \<noteq> [] \<and> 0 < hi_MaxAttempts (hr_info reg) \<and>
        int64_range (hi_MaxAttempts (hr_info reg))" using tr by simp
  qed
  with reg show ?thesis by (simp add: getHandler_def update_conv')
qed

lemma in_flight_perm:
  "mset (in_flight rt) = mset (rt_pending rt) + mset (mg_workCh (rt_mgr rt)) + mset (map fst (rt_busy rt))"
  by (simp add: in_flight_def)

lemma store_ok_mset:
  "store_ok jobs_of sinv s fl \<Longrightarrow> mset fl = mset fl' \<Longrightarrow> store_ok jobs_of sinv s fl'"
  using flight_ok_mset [of fl fl'] by (simp add: store_ok_def)

lemma store_ok_drop: "store_ok jobs_of sinv s (xs @ ys @ zs) \<Longrightarrow> store_ok jobs_of sinv s (xs @ zs)"
  using flight_ok_drop by (auto simp: store_ok_def)

lemma runtime_ok_store: "runtime_ok jobs_of sinv lost rt \<Longrightarrow> store_ok jobs_of sinv (mg_store (rt_mgr rt)) (in_flight rt @ lost)"
  by (simp add: runtime_ok_def)

lemma runtime_ok_manager: "runtime_ok jobs_of sinv lost rt \<Longrightarrow> manager_ok (rt_mgr rt)"
  by (simp add: runtime_ok_def)

lemma runtime_ok_send:
  assumes "runtime_ok jobs_of sinv lost rt" "rt_pending rt = j # js"
  shows "runtime_ok jobs_of sinv lost
    (rt\<lparr>rt_pending := js, rt_mgr := (rt_mgr rt)\<lparr>mg_workCh := mg_workCh (rt_mgr rt) @ [j]\<rparr>\<rparr>)"
proof -
  let ?rt = "rt\<lparr>rt_pending := js, rt_mgr := (rt_mgr rt)\<lparr>mg_workCh := mg_workCh (rt_mgr rt) @ [j]\<rparr>\<rparr>"
  have perm: "mset (in_flight rt @ lost) = mset (in_flight ?rt @ lost)"
    using assms(2) by (simp add: in_flight_def)
  have "set (in_flight ?rt) = set (in_flight rt)" using assms(2) by (auto simp: in_flight_def)
  with assms store_ok_mset [OF runtime_ok_store [OF assms(1)] perm] show ?thesis
    by (simp add: runtime_ok_def manager_ok_def getHandler_def)
qed

lemma runtime_ok_take:
  assumes "runtime_ok jobs_of sinv lost rt" "mg_workCh (rt_mgr rt) = j # js"
    and "int (length (rt_busy rt)) < jc_Workers (mg_cfg (rt_mgr rt))"
  shows "runtime_ok jobs_of sinv lost
    (rt\<lparr>rt_mgr := worker_begin ((rt_mgr rt)\<lparr>mg_workCh := js\<rparr>),
        rt_busy := (j, getHandler (rt_mgr rt) (job_Type j)) # rt_busy rt\<rparr>)"
proof -
  let ?rt = "rt\<lparr>rt_mgr := worker_begin ((rt_mgr rt)\<lparr>mg_workCh := js\<rparr>),
        rt_busy := (j, getHandler (rt_mgr rt) (job_Type j)) # rt_busy rt\<rparr>"
  have perm: "mset (in_flight rt @ lost) = mset (in_flight ?rt @ lost)"
    using assms(2) by (simp add: in_flight_def)
  have sets: "set (in_flight ?rt) = set (in_flight rt)" using assms(2) by (auto simp: in_flight_def)
  have "getHandler (rt_mgr rt) (job_Type j) \<noteq> None"
    using assms(1,2) by (auto simp: runtime_ok_def in_flight_def)
  with sets assms store_ok_mset [OF runtime_ok_store [OF assms(1)] perm] show ?thesis
    by (simp add: runtime_ok_def manager_ok_def getHandler_def)
qed

lemma runtime_ok_finish:
  assumes "runtime_ok jobs_of sinv lost rt" "rt_busy rt = xs @ (j, h) # ys" "same_frame (rt_mgr rt) m'"
    and "store_ok jobs_of sinv (mg_store m') (rt_pending rt @ mg_workCh (rt_mgr rt) @ map fst (xs @ ys) @ lost)"
  shows "runtime_ok jobs_of sinv lost (rt\<lparr>rt_mgr := worker_end m', rt_busy := xs @ ys\<rparr>)"
  using assms
  by (simp add: runtime_ok_def same_frame_def manager_ok_def in_flight_def getHandler_def)

subsection \<open>The manager on any store that keeps the contract\<close>

context job_store
begin

lemma create_store:
  assumes "store_ok abs inv s fl" "job_ok j" "st_Create ops s j = (c, s')"
  shows "store_ok abs inv s' fl"
  using create_law [OF _ assms(3)] assms(1,2)
  by (cases c) (auto simp: store_ok_def intro!: jobs_ok_update flight_ok_create)

lemma enqueue_store:
  assumes "store_ok abs inv (mg_store m) fl" "manager_ok m" "int64_range (rq_MaxAttempts req)"
    and "Enqueue ops uuid now ctx req m = (r, m')"
  shows "store_ok abs inv (mg_store m') fl"
proof -
  let ?job = "(new_job uuid now (mg_cfg m) (getHandler m (rq_Type req)) req)
    \<lparr>job_Metadata := enqueue_metadata (jc_Name (mg_cfg m)) ctx
       (job_Metadata (new_job uuid now (mg_cfg m) (getHandler m (rq_Type req)) req))\<rparr>"
  obtain c s where cs: "st_Create ops (mg_store m) ?job = (c, s)" by force
  have ok: "job_ok ?job"
    using assms(2,3)
    by (auto simp: manager_ok_def getHandler_def intro!: job_ok_new dest!: map_of_SomeD)
  have s: "store_ok abs inv s fl"
    by (rule create_store [OF assms(1) ok cs])
  have "mg_store m' = mg_store m \<or> mg_store m' = s"
    using assms(4) cs by (auto simp: Enqueue_def Let_def split: if_splits sum.splits)
  with s assms(1) show ?thesis by auto
qed

lemma cancel_store:
  assumes "store_ok abs inv (mg_store m) fl" "CancelJob ops now i m = (r, m')"
  shows "store_ok abs inv (mg_store m') fl"
proof -
  obtain s where s: "st_Cancel ops (mg_store m) i now = (r, s)" "mg_store m' = s"
    using assms(2) by (auto simp: CancelJob_def split: prod.splits)
  have "jobs_ok (abs s) \<and> flight_ok (abs s) fl"
    using cancel_law [OF _ s(1)] assms(1)
    by (intro update_idle_job [where g = "job_canceled now" and m = "abs (mg_store m)"])
       (auto simp: store_ok_def job_canceled_Ok intro: job_ok_canceled)
  with cancel_law [OF _ s(1)] assms(1) s(2) show ?thesis by (simp add: store_ok_def)
qed

lemma retry_store:
  assumes "store_ok abs inv (mg_store m) fl" "RetryJob ops now i m = (r, m')"
  shows "store_ok abs inv (mg_store m') fl"
proof -
  obtain s where s: "st_Retry ops (mg_store m) i now = (r, s)" "mg_store m' = s"
    using assms(2) by (auto simp: RetryJob_def split: prod.splits)
  have "jobs_ok (abs s) \<and> flight_ok (abs s) fl"
    using requeue_law [OF _ s(1)] assms(1)
    by (intro update_idle_job [where g = "job_requeued now" and m = "abs (mg_store m)"])
       (auto simp: store_ok_def job_requeued_Ok intro: job_ok_requeued)
  with requeue_law [OF _ s(1)] assms(1) s(2) show ?thesis by (simp add: store_ok_def)
qed

lemma janitor_store:
  assumes "store_ok abs inv (mg_store m) fl"
  shows "store_ok abs inv (mg_store (janitor_tick ops now m)) fl"
proof -
  obtain r s where rs: "st_PruneTerminalBefore ops (mg_store m) (now - jc_Retention (mg_cfg m)) = (r, s)"
    by force
  have "mg_store (janitor_tick ops now m) = s"
    by (simp add: janitor_tick_def Let_def rs split: sum.splits)
  with prune_law [OF _ rs] assms show ?thesis
    by (auto simp: store_ok_def elim: jobs_ok_prune flight_ok_prune)
qed

lemma dispatch_store:
  assumes "store_ok abs inv (mg_store m) fl" "dispatch_claim ops now m = (r, m')"
  shows "store_ok abs inv (mg_store m') (case r of Inl e \<Rightarrow> fl | Inr js \<Rightarrow> js @ fl)"
proof -
  let ?slots = "jc_QueueBuffer (mg_cfg m) - int (length (mg_workCh m))"
  let ?f = "\<lparr>cf_Queues = [], cf_Types = handlerTypes m\<rparr>"
  consider "r = Inr []" "m' = m"
    | s where "st_ClaimReady ops (mg_store m) now ?slots ?f = (r, s)" "mg_store m' = s"
    using assms(2) by (auto simp: dispatch_claim_def Let_def split: if_splits prod.splits)
  then show ?thesis
  proof cases
    case 1
    with assms show ?thesis by simp
  next
    case 2
    with claim_law [OF _ 2(1)] assms(1) claims_ready_flight show ?thesis
      by (cases r) (auto simp: store_ok_def)
  qed
qed

lemma own_job_store:
  assumes "store_ok abs inv s (j # fl)" "inv s'"
    and "updates (\<lambda>j. Inr (g j)) (job_ID j) (abs s) r (abs s') \<or> \<not> is_ok r \<and> abs s' = abs s"
    and "\<And>j. job_ID (g j) = job_ID j" "job_ok (g j)"
  shows "store_ok abs inv s' fl"
  using update_own_job [OF assms(3), of fl] assms by (simp add: store_ok_def)

lemma finalizeFailure_store:
  assumes s: "store_ok abs inv (mg_store m) (j # fl)"
    and "finalizeFailure ops now j err m = (e, m')"
  shows "store_ok abs inv (mg_store m') fl"
proof -
  have inv: "inv (mg_store m)" and ok: "job_ok j"
    using s jobs_ok_Some by (auto simp: store_ok_def flight_ok_def)
  show ?thesis
  proof (cases "job_Attempt j < job_MaxAttempts j")
    case True
    let ?at = "now + retryDelayFor (mg_cfg m) (job_Attempt j)"
    obtain r st where rs: "st_MarkRetry ops (mg_store m) (job_ID j) (Error err) ?at now = (r, st)" by force
    have "mg_store m' = st"
      using assms(2) rs True by (auto simp: finalizeFailure_def Let_def split: sum.splits)
    with retry_law [OF inv rs] own_job_store [OF s, of st "job_retrying (Error err) ?at now" r]
    show ?thesis using job_ok_retrying [OF ok True] by simp
  next
    case False
    obtain r st where rs: "st_MarkFailed ops (mg_store m) (job_ID j) (Error err) now = (r, st)" by force
    have "mg_store m' = st"
      using assms(2) rs False by (auto simp: finalizeFailure_def Let_def split: sum.splits)
    with failed_law [OF inv rs] own_job_store [OF s, of st "job_failed (Error err) now" r]
    show ?thesis using job_ok_failed [OF ok] by simp
  qed
qed

lemma run_job_store:
  assumes s: "store_ok abs inv (mg_store m) (j # fl)"
    and "run_job ops Marshal env now h j m = (e, m')"
  shows "store_ok abs inv (mg_store m') fl"
proof -
  have inv: "inv (mg_store m)" and ok: "job_ok j"
    using s jobs_ok_Some by (auto simp: store_ok_def flight_ok_def)
  consider err where "finalizeFailure ops now j err m = (e, m')"
    | raw r st where "st_MarkSucceeded ops (mg_store m) (job_ID j) raw now = (r, st)" "mg_store m' = st"
    using assms(2)
    by (auto simp: run_job_def Let_def split: option.splits sum.splits prod.splits)
  then show ?thesis
  proof cases
    case 1
    then show ?thesis by (rule finalizeFailure_store [OF s])
  next
    case 2
    with succeeded_law [OF inv 2(1)] own_job_store [OF s, of st "job_succeeded raw now" r]
    show ?thesis using job_ok_succeeded [OF ok] by simp
  qed
qed

lemma dispatch_bounds:
  assumes "manager_ok m" "inv (mg_store m)" "dispatch_claim ops now m = (Inr js, m')"
  shows "int (length js) + int (length (mg_workCh m)) \<le> max (int (length (mg_workCh m))) (jc_QueueBuffer (mg_cfg m)) \<and>
    (\<forall>j\<in>set js. getHandler m (job_Type j) \<noteq> None)"
proof -
  let ?slots = "jc_QueueBuffer (mg_cfg m) - int (length (mg_workCh m))"
  let ?f = "\<lparr>cf_Queues = [], cf_Types = handlerTypes m\<rparr>"
  consider "js = []"
    | s where "st_ClaimReady ops (mg_store m) now ?slots ?f = (Inr js, s)" "0 < ?slots" "handlerTypes m \<noteq> []"
    using assms(3) by (auto simp: dispatch_claim_def Let_def split: if_splits prod.splits)
  then show ?thesis
  proof cases
    case 1
    then show ?thesis by simp
  next
    case 2
    have c: "claims_ready now ?slots ?f (abs (mg_store m)) js (abs s)"
      using claim_law [OF assms(2) 2(1)] by simp
    have types: "filter (\<lambda>t. t \<noteq> []) (handlerTypes m) = handlerTypes m"
      using assms(1) by (fastforce simp: manager_ok_def handlerTypes_def intro!: filter_True)
    have "getHandler m (job_Type j) \<noteq> None" if "j \<in> set js" for j
    proof -
      have "no_blanks ?f" using types by (auto simp: no_blanks_def filter_id_conv)
      then obtain old where "filter_allows ?f old" "j = job_claimed now old"
        using c \<open>j \<in> set js\<close> unfolding claims_ready_def by blast
      then have "job_Type j \<in> set (handlerTypes m)"
        using 2(3) types by (simp add: filter_allows_def job_claimed_def)
      then show ?thesis
        by (auto simp: handlerTypes_def getHandler_def map_of_eq_None_iff)
    qed
    moreover have "int (length js) \<le> ?slots" using c 2(2) by (simp add: claims_ready_def)
    ultimately show ?thesis by auto
  qed
qed

lemma runtime_ok_claim:
  assumes ok: "runtime_ok abs inv lost rt" and "rt_pending rt = []"
    and d: "dispatch_claim ops now (rt_mgr rt) = (Inr js, m')"
  shows "runtime_ok abs inv lost (rt\<lparr>rt_mgr := m', rt_pending := js\<rparr>)"
proof -
  let ?m = "rt_mgr rt"
  have fr: "same_frame ?m m'" by (rule dispatch_frame [OF d])
  have st: "store_ok abs inv (mg_store m') (js @ in_flight rt @ lost)"
    using dispatch_store [OF runtime_ok_store [OF ok] d] by simp
  have inv: "inv (mg_store ?m)" using ok by (simp add: runtime_ok_def store_ok_def)
  have "int (length js) + int (length (mg_workCh ?m)) \<le> max (int (length (mg_workCh ?m))) (jc_QueueBuffer (mg_cfg ?m))"
    "\<forall>j\<in>set js. getHandler ?m (job_Type j) \<noteq> None"
    using dispatch_bounds [OF runtime_ok_manager [OF ok] inv d] by auto
  with fr st ok assms(2) show ?thesis
    by (auto simp: runtime_ok_def same_frame_def manager_ok_def in_flight_def getHandler_def)
qed

lemma runtime_ok_enqueue:
  assumes ok: "runtime_ok abs inv lost rt" and "int64_range (rq_MaxAttempts req)"
    and e: "Enqueue ops uuid now ctx req (rt_mgr rt) = (r, m')"
  shows "runtime_ok abs inv lost (rt\<lparr>rt_mgr := m'\<rparr>)"
  by (rule runtime_ok_frame [OF ok Enqueue_frame [OF e]])
     (rule enqueue_store [OF runtime_ok_store [OF ok] runtime_ok_manager [OF ok] assms(2) e])

lemma runtime_ok_admin:
  assumes ok: "runtime_ok abs inv lost rt"
    and "CancelJob ops now i (rt_mgr rt) = (r, m') \<or> RetryJob ops now i (rt_mgr rt) = (r, m')"
  shows "runtime_ok abs inv lost (rt\<lparr>rt_mgr := m'\<rparr>)"
proof -
  have "same_frame (rt_mgr rt) m'"
    using assms(2) by (auto simp: CancelJob_def RetryJob_def same_frame_def split: prod.splits)
  then show ?thesis
    using assms(2) runtime_ok_frame [OF ok] cancel_store [OF runtime_ok_store [OF ok]] retry_store [OF runtime_ok_store [OF ok]]
    by blast
qed

lemma runtime_ok_drop_pending:
  assumes ok: "runtime_ok abs inv lost rt"
  shows "runtime_ok abs inv lost (rt\<lparr>rt_pending := []\<rparr>)"
proof -
  have "store_ok abs inv (mg_store (rt_mgr rt)) (mg_workCh (rt_mgr rt) @ map fst (rt_busy rt) @ lost)"
    using store_ok_drop [of abs inv "mg_store (rt_mgr rt)" "[]" "rt_pending rt"] runtime_ok_store [OF ok]
    by (simp add: in_flight_def)
  with ok show ?thesis by (auto simp: runtime_ok_def in_flight_def)
qed

lemma runtime_ok_finish_job:
  assumes ok: "runtime_ok abs inv lost rt" and busy: "rt_busy rt = xs @ (j, h) # ys"
    and run: "run_job ops Marshal env now h j (rt_mgr rt) = (e, m')"
  shows "runtime_ok abs inv lost (rt\<lparr>rt_mgr := worker_end m', rt_busy := xs @ ys\<rparr>)"
proof -
  have "store_ok abs inv (mg_store (rt_mgr rt)) (j # rt_pending rt @ mg_workCh (rt_mgr rt) @ map fst (xs @ ys) @ lost)"
    by (rule store_ok_mset [OF runtime_ok_store [OF ok]]) (simp add: in_flight_def busy)
  from run_job_store [OF this run] runtime_ok_finish [OF ok busy run_job_frame [OF run]] show ?thesis by blast
qed

lemma runtime_step_ok:
  assumes ok: "runtime_ok abs inv lost rt" and "runtime_step ops Marshal rt rt'"
  shows "runtime_ok abs inv lost rt'"
  using assms(2)
proof cases
  case (enqueue req uuid now ctx r m')
  then show ?thesis using runtime_ok_enqueue [OF ok] by simp
next
  case (register jobType h opts m')
  from RegisterHandler_ok [OF runtime_ok_manager [OF ok] register(2,3)] ok show ?thesis
    unfolding register(1) by (auto simp: runtime_ok_def in_flight_def)
next
  case (cancel now i r m')
  then show ?thesis using runtime_ok_admin [OF ok] by blast
next
  case (retry now i r m')
  then show ?thesis using runtime_ok_admin [OF ok] by blast
next
  case (claim now js m')
  then show ?thesis using runtime_ok_claim [OF ok] by simp
next
  case (claim_error now e m')
  then show ?thesis
    using runtime_ok_frame [OF ok dispatch_frame [OF claim_error(4)]]
      dispatch_store [OF runtime_ok_store [OF ok] claim_error(4)] by simp
next
  case (send j js)
  then show ?thesis using runtime_ok_send [OF ok] by simp
next
  case send_canceled
  then show ?thesis using runtime_ok_drop_pending [OF ok] by simp
next
  case (take_job j js)
  then show ?thesis using runtime_ok_take [OF ok] by simp
next
  case (finish xs j h ys env now e m')
  then show ?thesis using runtime_ok_finish_job [OF ok] by simp
next
  case (janitor now)
  then show ?thesis
    using runtime_ok_frame [OF ok janitor_frame] janitor_store [OF runtime_ok_store [OF ok]] by simp
qed (use ok in \<open>simp_all add: Start_def Stop_def runtime_ok_def manager_ok_def in_flight_def getHandler_def\<close>)

lemma initial_runtime_ok:
  assumes "NewManager cfg s reg = Inr m" "inv s" "jobs_ok (abs s)" "int64_range (jc_DefaultMaxAttempts cfg)"
    and "\<forall>j\<in>set lost. abs s (job_ID j) = Some j \<and> job_Status j = StatusRunning" "distinct (map job_ID lost)"
  shows "runtime_ok abs inv lost (initial_runtime m)"
proof -
  have "mg_cfg m = normalizeConfig cfg" "mg_store m = s" "mg_handlers m = []" "mg_workCh m = []"
    "mg_activeWorkers m = 0"
    using assms(1) by (auto simp: NewManager_def Let_def split: sum.splits)
  then show ?thesis
    using assms normalizeConfig_positive(8) [of cfg]
    by (simp add: runtime_ok_def manager_ok_def store_ok_def flight_ok_def in_flight_def initial_runtime_def
          normalizeConfig_MaxAttempts int64_range_def)
qed

end

text \<open>Over every store of the contract the manager is a system of steps that keep its invariant.\<close>

sublocale job_store \<subseteq> runs: step_system "runtime_step ops Marshal" "runtime_ok abs inv lost" for Marshal lost
  by unfold_locales (rule runtime_step_ok)

section \<open>Properties\<close>

text \<open>A manager over a store with two waiting jobs, used as a concrete instance.\<close>

definition demo_manager :: "(mem_store, unit) manager" where
  "demo_manager =
     \<lparr>mg_cfg = normalizeConfig DefaultConfig, mg_store = demo_store, mg_metrics = None, mg_handlers = [],
      mg_workCh = [], mg_startedAt = zero_time, mg_running = False, mg_activeWorkers = 0\<rparr>"

definition demo_handler :: "unit handler_registration" where
  "demo_handler =
     \<lparr>hr_info = \<lparr>hi_Type = ''mail'', hi_Description = [], hi_Queue = ''default'', hi_MaxAttempts = 3,
        hi_Timeout = 30 * Second\<rparr>, hr_handler = (\<lambda>_ _ _. Inr ANil)\<rparr>"

definition demo_started :: "(mem_store, unit) runtime" where
  "demo_started =
     Start 5 ((initial_runtime demo_manager)\<lparr>rt_mgr := demo_manager\<lparr>mg_handlers := [(''mail'', demo_handler)]\<rparr>\<rparr>)"

definition demo_claimed :: "(mem_store, unit) runtime" where
  "demo_claimed =
     demo_started
       \<lparr>rt_mgr := (rt_mgr demo_started)\<lparr>mg_store :=
          snd (mem_ClaimReady demo_store 7 256 \<lparr>cf_Queues = [], cf_Types = [''mail'']\<rparr>)\<rparr>,
        rt_pending := [job_claimed 7 demo_job,
          job_claimed 7 (demo_job\<lparr>job_ID := ''b'', job_AvailableAt := 5\<rparr>)]\<rparr>"

lemma demo_new: "NewManager DefaultConfig demo_store None = Inr demo_manager"
  by (simp add: NewManager_def newMetrics_def demo_manager_def)

lemma demo_config:
  "jc_QueueBuffer (normalizeConfig DefaultConfig) = 256" "jc_DefaultMaxAttempts (normalizeConfig DefaultConfig) = 3"
  "jc_DefaultQueue (normalizeConfig DefaultConfig) = ''default''"
  "jc_DefaultTimeout (normalizeConfig DefaultConfig) = 30 * Second"
  "int64_range (jc_DefaultMaxAttempts DefaultConfig)"
  by (simp_all add: normalizeConfig_def DefaultConfig_def or_default_def or_default_str_def
        duration_defs int64_range_def)

lemma demo_jobs_ok: "jobs_ok (mem_abs demo_store)"
  by (simp add: jobs_ok_def mem_abs_def demo_store_def demo_job_def job_ok_def waiting_def)

lemma demo_start: "(runtime_step memory_ops Marshal)\<^sup>*\<^sup>* (initial_runtime demo_manager) demo_started"
proof -
  let ?m = "demo_manager\<lparr>mg_handlers := [(''mail'', demo_handler)]\<rparr>"
  have "RegisterHandler demo_manager ''mail'' (Some (\<lambda>_ _ _. Inr ANil)) [] = Inr ?m"
    by (simp add: RegisterHandler_def demo_manager_def demo_handler_def demo_config)
  then have "runtime_step memory_ops Marshal (initial_runtime demo_manager)
      ((initial_runtime demo_manager)\<lparr>rt_mgr := ?m\<rparr>)"
    by (intro runtime_step.register) (auto simp: initial_runtime_def demo_handler_def int64_range_def)
  moreover have "runtime_step memory_ops Marshal ((initial_runtime demo_manager)\<lparr>rt_mgr := ?m\<rparr>) demo_started"
    unfolding demo_started_def by (intro runtime_step.start) (simp add: initial_runtime_def)
  ultimately show ?thesis by (meson converse_rtranclp_into_rtranclp rtranclp.rtrancl_refl)
qed

lemma demo_claim: "(runtime_step memory_ops Marshal)\<^sup>*\<^sup>* (initial_runtime demo_manager) demo_claimed"
proof -
  let ?f = "\<lparr>cf_Queues = [], cf_Types = [''mail'']\<rparr>"
  have "fst (mem_ClaimReady demo_store 7 256 ?f) = Inr (rt_pending demo_claimed)"
    using mem_ClaimReady_exact [OF demo_store_inv, of 256 7 ?f]
    by (simp add: demo_ready demo_claimed_def)
  then have "dispatch_claim memory_ops 7 (rt_mgr demo_started) = (Inr (rt_pending demo_claimed), rt_mgr demo_claimed)"
    by (simp add: dispatch_claim_def demo_started_def Start_def demo_manager_def initial_runtime_def demo_config
          handlerTypes_def memory_ops_def demo_claimed_def split_beta)
  then have "runtime_step memory_ops Marshal demo_started
      (demo_started\<lparr>rt_mgr := rt_mgr demo_claimed, rt_pending := rt_pending demo_claimed\<rparr>)"
    by (intro runtime_step.claim) (simp_all add: demo_started_def Start_def demo_manager_def initial_runtime_def)
  then have "runtime_step memory_ops Marshal demo_started demo_claimed" by (simp add: demo_claimed_def)
  with demo_start [of Marshal] show ?thesis by (rule rtranclp.rtrancl_into_rtrancl)
qed

lemma memory_runtime_ok:
  assumes "NewManager cfg s reg = Inr m" "mem_inv s" "jobs_ok (mem_abs s)"
    and "int64_range (jc_DefaultMaxAttempts cfg)"
    and "(runtime_step memory_ops Marshal)\<^sup>*\<^sup>* (initial_runtime m) rt"
  shows "runtime_ok mem_abs mem_inv [] rt"
  by (rule memory.runs.reachable_inv [OF assms(5)])
     (rule memory.initial_runtime_ok [OF assms(1-4)], simp_all)

text \<open>
  C2. No job is executed twice at a time: in every reachable state of dispatcher, workers, janitor
  and administration calls, the jobs waiting to be sent, in the channel and in the hands of workers
  have distinct ids, and each of them is stored as running, unchanged since it was claimed, with a
  handler registered for its type.
\<close>

theorem in_flight_jobs_unique:
  assumes "NewManager cfg s reg = Inr m" "mem_inv s" "jobs_ok (mem_abs s)"
    and "int64_range (jc_DefaultMaxAttempts cfg)"
    and "(runtime_step memory_ops Marshal)\<^sup>*\<^sup>* (initial_runtime m) rt"
  shows "distinct (map job_ID (in_flight rt)) \<and>
    (\<forall>j\<in>set (in_flight rt). mem_abs (mg_store (rt_mgr rt)) (job_ID j) = Some j \<and>
       job_Status j = StatusRunning \<and> getHandler (rt_mgr rt) (job_Type j) \<noteq> None)"
  using memory_runtime_ok [OF assms] by (auto simp: runtime_ok_def store_ok_def flight_ok_def)

theorem in_flight_jobs_unique_witness:
  "map job_ID (in_flight demo_claimed) = [''a'', ''b''] \<and>
   mem_abs (mg_store (rt_mgr demo_claimed)) ''a'' = Some (job_claimed 7 demo_job)"
proof -
  have fl: "in_flight demo_claimed =
      [job_claimed 7 demo_job, job_claimed 7 (demo_job\<lparr>job_ID := ''b'', job_AvailableAt := 5\<rparr>)]"
    by (simp add: in_flight_def demo_claimed_def demo_started_def Start_def demo_manager_def initial_runtime_def)
  show ?thesis
    using in_flight_jobs_unique [OF demo_new demo_store_inv demo_jobs_ok demo_config(5) demo_claim [of "\<lambda>_. Inr []"]]
    by (simp add: fl demo_job_def)
qed

text \<open>
  C12. The retry budget is respected and the life cycle is consistent: every stored job of every
  reachable state has made between 0 and \<open>MaxAttempts\<close> attempts, strictly fewer while it waits and at
  least one while it runs, and has a completion time exactly when its status is terminal.
\<close>

theorem attempts_within_budget:
  assumes "NewManager cfg s reg = Inr m" "mem_inv s" "jobs_ok (mem_abs s)"
    and "int64_range (jc_DefaultMaxAttempts cfg)"
    and "(runtime_step memory_ops Marshal)\<^sup>*\<^sup>* (initial_runtime m) rt"
    and "mem_abs (mg_store (rt_mgr rt)) i = Some j"
  shows "job_ID j = i \<and> 0 \<le> job_Attempt j \<and> job_Attempt j \<le> job_MaxAttempts j \<and>
    (waiting j \<longrightarrow> job_Attempt j < job_MaxAttempts j) \<and>
    (job_Status j = StatusRunning \<longrightarrow> 1 \<le> job_Attempt j \<and> job_StartedAt j \<noteq> None) \<and>
    (IsTerminal (job_Status j) \<longleftrightarrow> job_CompletedAt j \<noteq> None)"
  using memory_runtime_ok [OF assms(1-5)] assms(6)
  by (auto simp: runtime_ok_def store_ok_def jobs_ok_def job_ok_def)

theorem attempts_within_budget_witness:
  "job_Attempt demo_job < job_MaxAttempts demo_job"
  using attempts_within_budget [OF demo_new demo_store_inv demo_jobs_ok demo_config(5) rtranclp.rtrancl_refl,
      of "''a''" demo_job]
  by (simp add: initial_runtime_def demo_manager_def mem_abs_def demo_store_def demo_job_def waiting_def)

text \<open>
  C17. The dispatcher never blocks on the work channel: whenever it has a claimed job to send, the
  channel has room, so the only other way out of the send is cancellation. The worker pool never
  exceeds its configured size and the active-worker gauge counts exactly the busy workers.
\<close>

theorem dispatcher_never_blocks:
  assumes "NewManager cfg s reg = Inr m" "mem_inv s" "jobs_ok (mem_abs s)"
    and "int64_range (jc_DefaultMaxAttempts cfg)"
    and "(runtime_step memory_ops Marshal)\<^sup>*\<^sup>* (initial_runtime m) rt"
  shows "(rt_pending rt \<noteq> [] \<longrightarrow>
      int (length (mg_workCh (rt_mgr rt))) < jc_QueueBuffer (mg_cfg (rt_mgr rt))) \<and>
    int (length (rt_busy rt)) \<le> max 0 (jc_Workers (mg_cfg (rt_mgr rt))) \<and>
    hs_ActiveWorkers (Health (rt_mgr rt)) = int (length (rt_busy rt))"
proof -
  have ok: "runtime_ok mem_abs mem_inv [] rt" by (rule memory_runtime_ok [OF assms])
  then have "int (length (rt_pending rt) + length (mg_workCh (rt_mgr rt)))
      \<le> max 0 (jc_QueueBuffer (mg_cfg (rt_mgr rt)))" by (simp add: runtime_ok_def)
  moreover have "rt_pending rt \<noteq> [] \<Longrightarrow> 0 < length (rt_pending rt)" by simp
  ultimately have "rt_pending rt \<noteq> [] \<longrightarrow>
      int (length (mg_workCh (rt_mgr rt))) < jc_QueueBuffer (mg_cfg (rt_mgr rt))"
    by linarith
  with ok show ?thesis by (simp add: runtime_ok_def Health_def)
qed

theorem dispatcher_never_blocks_witness:
  "int (length (mg_workCh (rt_mgr demo_claimed))) < jc_QueueBuffer (mg_cfg (rt_mgr demo_claimed))"
  using dispatcher_never_blocks
    [OF demo_new demo_store_inv demo_jobs_ok demo_config(5) demo_claim [of "\<lambda>_. Inr []"]]
  by (simp add: demo_claimed_def)

text \<open>
  A running job that no goroutine of this manager holds (claimed but dropped when the context
  was cancelled, left by a crashed process, or left when a store call failed) stays exactly as it
  is for ever: no claim, worker, janitor, \<open>CancelJob\<close> or \<open>RetryJob\<close> ever touches it again.
\<close>

lemma abandoned_job_stuck:
  assumes "NewManager cfg s reg = Inr m" "mem_inv s" "jobs_ok (mem_abs s)"
    and "int64_range (jc_DefaultMaxAttempts cfg)"
    and "(runtime_step memory_ops Marshal)\<^sup>*\<^sup>* (initial_runtime m) rt"
    and "mem_abs (mg_store (rt_mgr rt)) i = Some j" "job_Status j = StatusRunning"
    and "i \<notin> job_ID ` set (in_flight rt)"
    and "(runtime_step memory_ops Marshal)\<^sup>*\<^sup>* rt rt'"
  shows "mem_abs (mg_store (rt_mgr rt')) i = Some j"
proof -
  have ok: "runtime_ok mem_abs mem_inv [] rt" by (rule memory_runtime_ok [OF assms(1-5)])
  have "job_ID j = i" using ok assms(6) by (auto simp: runtime_ok_def store_ok_def jobs_ok_def)
  with ok assms(6-8) have "runtime_ok mem_abs mem_inv [j] rt"
    by (simp add: runtime_ok_def store_ok_def flight_ok_def)
  from memory.runs.reachable_inv [OF assms(9) this] show ?thesis
    using \<open>job_ID j = i\<close> by (simp add: runtime_ok_def store_ok_def flight_ok_def)
qed

lemma abandoned_job_stuck_witness:
  "\<exists>m :: (mem_store, unit) manager.
     mem_abs (mg_store (rt_mgr (Start 9 (initial_runtime m)))) ''a'' = Some (job_claimed 1 demo_job)"
proof -
  let ?s = "\<lparr>ms_jobs = [(''a'', job_claimed 1 demo_job)]\<rparr>"
  let ?m = "demo_manager\<lparr>mg_store := ?s\<rparr>"
  have new: "NewManager DefaultConfig ?s None = Inr ?m"
    by (simp add: NewManager_def newMetrics_def demo_manager_def)
  have inv: "mem_inv ?s" by (simp add: mem_inv_def demo_job_def job_claimed_def)
  have ok: "jobs_ok (mem_abs ?s)"
    by (simp add: jobs_ok_def mem_abs_def demo_job_def job_claimed_def job_ok_def waiting_def int64_range_def)
  have step: "(runtime_step memory_ops (\<lambda>_. Inr []))\<^sup>*\<^sup>* (initial_runtime ?m) (Start 9 (initial_runtime ?m))"
    by (intro r_into_rtranclp runtime_step.start) (simp add: initial_runtime_def)
  have "mem_abs (mg_store (rt_mgr (Start 9 (initial_runtime ?m)))) ''a'' = Some (job_claimed 1 demo_job)"
    by (rule abandoned_job_stuck [OF new inv ok demo_config(5) rtranclp.rtrancl_refl _ _ _ step])
       (simp_all add: initial_runtime_def in_flight_def demo_manager_def mem_abs_def job_claimed_def)
  then show ?thesis by blast
qed

text \<open>
  Retry delays double from the base delay and are capped: the \<open>n\<close>-th failed attempt waits
  \<open>min RetryMaxDelay (RetryBaseDelay * 2 ^ (n - 1))\<close>, without overflow as long as base and cap are
  at most \<open>2 ^ 62\<close> nanoseconds (146 years).
\<close>

lemma retry_delay_exponential:
  assumes "0 < jc_RetryBaseDelay cfg" "jc_RetryBaseDelay cfg < 2 ^ 62"
    and "0 < jc_RetryMaxDelay cfg" "jc_RetryMaxDelay cfg \<le> 2 ^ 62" and "1 \<le> attempt"
  shows "retryDelayFor cfg attempt =
    min (jc_RetryMaxDelay cfg) (jc_RetryBaseDelay cfg * 2 ^ nat (attempt - 1))"
  using double_capped_spec [OF assms(1,2,4), of "nat (attempt - 1)"] assms
  by (auto simp: retryDelayFor_def split: option.splits)

lemma retry_delay_exponential_witness:
  "retryDelayFor (normalizeConfig DefaultConfig) 3 = 4 * Second"
  using retry_delay_exponential [of "normalizeConfig DefaultConfig" 3]
  by (simp add: normalizeConfig_def DefaultConfig_def or_default_def duration_defs)

text \<open>
  C11. What a worker does with a job it holds, on every branch: a handler that succeeds with a
  result that can be encoded leaves the job succeeded with that result; a failed handler, a result
  that cannot be encoded or a missing handler leaves it scheduled after the retry delay while
  attempts remain, and failed with the error's text when the last attempt is used up. No other job
  changes.
\<close>

theorem process_job_outcome:
  assumes "mem_abs (mg_store m) (job_ID job) = Some job"
    and "processJob memory_ops Marshal env now job m = (e, m')"
  defines "outcome \<equiv>
    (case getHandler m (job_Type job) of
       None \<Rightarrow> Inl (EPlain (''no handler registered for job type '' @ job_Type job))
     | Some h \<Rightarrow>
         (case hr_handler h env (if job_Timeout job > 0 then Some (job_Timeout job) else None) job of
            Inl err \<Rightarrow> Inl err
          | Inr result \<Rightarrow> if result = ANil then Inr [] else Marshal result))"
  shows "e = None \<and> mem_abs (mg_store m') = (mem_abs (mg_store m))(job_ID job \<mapsto>
    (case outcome of
       Inr raw \<Rightarrow> job\<lparr>job_Status := StatusSucceeded, job_Result := raw, job_LastError := [],
                      job_CompletedAt := Some now, job_UpdatedAt := now\<rparr>
     | Inl err \<Rightarrow>
         if job_Attempt job < job_MaxAttempts job
         then job\<lparr>job_Status := StatusScheduled, job_LastError := Error err,
                  job_AvailableAt := now + retryDelayFor (mg_cfg m) (job_Attempt job),
                  job_CompletedAt := None, job_UpdatedAt := now\<rparr>
         else job\<lparr>job_Status := StatusFailed, job_LastError := Error err, job_CompletedAt := Some now,
                  job_UpdatedAt := now\<rparr>))"
proof -
  have upd: "mem_update (mg_store m) (job_ID job) (\<lambda>j. Inr (g j)) =
      (Inr (g job), mem_put (job_ID job) (g job) (mg_store m))" for g
    using assms(1) by (simp add: mem_update_def mem_abs_def)
  note ops = memory_ops_def mem_MarkSucceeded_def mem_MarkRetry_def mem_MarkFailed_def upd
  have fail: "fst (finalizeFailure memory_ops now job err m) = None \<and>
      mem_abs (mg_store (snd (finalizeFailure memory_ops now job err m))) = (mem_abs (mg_store m))(job_ID job \<mapsto>
        (if job_Attempt job < job_MaxAttempts job
         then job_retrying (Error err) (now + retryDelayFor (mg_cfg m) (job_Attempt job)) now job
         else job_failed (Error err) now job))" for err
    by (simp add: finalizeFailure_def Let_def ops)
  show ?thesis
  proof (cases outcome)
    case (Inl err)
    then have "processJob memory_ops Marshal env now job m = finalizeFailure memory_ops now job err m"
      unfolding outcome_def
      by (auto simp: processJob_def run_job_def marshalResult_def Let_def split: option.splits sum.splits if_splits)
    with fail [of err] assms(2) Inl show ?thesis by (simp add: job_update_defs)
  next
    case (Inr raw)
    then have "e = None \<and> mem_abs (mg_store m') = (mem_abs (mg_store m))(job_ID job \<mapsto> job_succeeded raw now job)"
      using assms(2) unfolding outcome_def
      by (auto simp: processJob_def run_job_def marshalResult_def Let_def ops
            split: option.splits sum.splits if_splits)
    with Inr show ?thesis by (simp add: job_update_defs)
  qed
qed

definition demo_busy :: "(mem_store, unit) manager" where
  "demo_busy = demo_manager\<lparr>mg_store := \<lparr>ms_jobs = [(''a'', job_claimed 7 demo_job)]\<rparr>,
     mg_handlers := [(''mail'', demo_handler)]\<rparr>"

theorem process_job_outcome_witness:
  "\<exists>m'. processJob memory_ops (\<lambda>_. Inr []) () 8 (job_claimed 7 demo_job) demo_busy = (None, m') \<and>
     map_option job_Status (mem_abs (mg_store m') ''a'') = Some StatusSucceeded"
proof -
  obtain e m' where em: "processJob memory_ops (\<lambda>_. Inr []) () 8 (job_claimed 7 demo_job) demo_busy = (e, m')"
    by force
  have "mem_abs (mg_store demo_busy) (job_ID (job_claimed 7 demo_job)) = Some (job_claimed 7 demo_job)"
    by (simp add: mem_abs_def demo_busy_def demo_job_def job_claimed_def)
  from process_job_outcome [OF this em] em show ?thesis
    by (simp add: demo_busy_def getHandler_def demo_handler_def demo_job_def job_claimed_def demo_manager_def)
qed

text \<open>
  \<open>Enqueue\<close> accepts a request exactly when it names a type that is registered (or the
  configuration does without handlers) and its id is free. The accepted job can be read back at
  once, starts with no attempt made, is scheduled exactly when the requested time lies in the
  future, and has a positive retry budget when the manager is well-formed; a refused request
  leaves the stored jobs as they are.
\<close>

lemma enqueue_accepts:
  assumes "mem_inv (mg_store m)" and "Enqueue memory_ops uuid now ctx req m = (r, m')"
  shows "(is_ok r \<longleftrightarrow> rq_Type req \<noteq> [] \<and>
       (getHandler m (rq_Type req) \<noteq> None \<or> jc_AllowEnqueueWithoutHandler (mg_cfg m)) \<and>
       mem_abs (mg_store m) (normalizeJobID uuid (rq_ID req)) = None) \<and>
    (\<forall>j. r = Inr j \<longrightarrow> job_ID j = normalizeJobID uuid (rq_ID req) \<and>
       mem_abs (mg_store m') = (mem_abs (mg_store m))(job_ID j \<mapsto> j) \<and>
       GetJob memory_ops m' (job_ID j) = Inr j \<and> job_Attempt j = 0 \<and>
       (job_Status j = StatusScheduled \<longleftrightarrow> now < job_AvailableAt j) \<and> waiting j \<and>
       (manager_ok m \<longrightarrow> 0 < job_MaxAttempts j)) \<and>
    (\<forall>e. r = Inl e \<longrightarrow> mg_store m' = mg_store m)"
proof -
  let ?h = "getHandler m (rq_Type req)"
  let ?new = "new_job uuid now (mg_cfg m) ?h req"
  let ?job = "?new\<lparr>job_Metadata := enqueue_metadata (jc_Name (mg_cfg m)) ctx (job_Metadata ?new)\<rparr>"
  have new: "job_ID ?job = normalizeJobID uuid (rq_ID req)" "job_Attempt ?job = 0"
    "job_Status ?job = StatusScheduled \<longleftrightarrow> now < job_AvailableAt ?job" "waiting ?job"
    by (auto simp: new_job_def Let_def waiting_def split: option.splits)
  have budget: "manager_ok m \<Longrightarrow> 0 < job_MaxAttempts ?job"
    by (auto simp: new_job_def Let_def manager_ok_def getHandler_def split: option.splits dest!: map_of_SomeD)
  have get: "mem_abs (mg_store m') (job_ID j) = Some j \<Longrightarrow> GetJob memory_ops m' (job_ID j) = Inr j" for j
    by (simp add: GetJob_def memory_ops_def mem_Get_def mem_abs_def)
  consider (bad) e where "r = Inl e" "m' = m"
      "rq_Type req = [] \<or> ?h = None \<and> \<not> jc_AllowEnqueueWithoutHandler (mg_cfg m)"
    | (dup) "r = Inl duplicateJob" "mg_store m' = mg_store m" "mem_abs (mg_store m) (job_ID ?job) \<noteq> None"
    | (ok) "r = Inr ?job" "mg_store m' = mem_put (job_ID ?job) ?job (mg_store m)"
      "mem_abs (mg_store m) (job_ID ?job) = None" "rq_Type req \<noteq> []"
      "?h \<noteq> None \<or> jc_AllowEnqueueWithoutHandler (mg_cfg m)"
    using assms(2)
    by (auto simp: Enqueue_def Let_def memory_ops_def mem_Create_def mem_abs_def
          split: if_splits option.splits)
  then show ?thesis
  proof cases
    case bad
    then show ?thesis by auto
  next
    case dup
    then show ?thesis using new(1) by auto
  next
    case ok
    have m': "mem_abs (mg_store m') = (mem_abs (mg_store m))(job_ID ?job \<mapsto> ?job)"
      unfolding ok(2) by (rule mem_put_abs)
    then have "GetJob memory_ops m' (job_ID ?job) = Inr ?job" by (intro get) simp
    with ok m' new budget show ?thesis by simp
  qed
qed

lemma enqueue_accepts_witness:
  "\<exists>j. fst (Enqueue memory_ops ''u-1'' 5 Background
      \<lparr>rq_ID = [], rq_Type = ''mail'', rq_Queue = [], rq_Payload = [], rq_Metadata = Map.empty,
       rq_MaxAttempts = 0, rq_Timeout = 0, rq_RunAfter = Some 9\<rparr> demo_busy) = Inr j \<and> job_ID j = ''u-1''"
proof -
  let ?req = "\<lparr>rq_ID = [], rq_Type = ''mail'', rq_Queue = [], rq_Payload = [], rq_Metadata = Map.empty,
       rq_MaxAttempts = 0, rq_Timeout = 0, rq_RunAfter = Some 9\<rparr>"
  obtain r m' where rm: "Enqueue memory_ops ''u-1'' 5 Background ?req demo_busy = (r, m')" by force
  have inv: "mem_inv (mg_store demo_busy)"
    by (simp add: mem_inv_def demo_busy_def demo_job_def job_claimed_def)
  have "is_ok r"
    using enqueue_accepts [OF inv rm]
    by (simp add: demo_busy_def getHandler_def normalizeJobID_def mem_abs_def)
  then obtain j where "r = Inr j" by (cases r) auto
  with enqueue_accepts [OF inv rm] rm show ?thesis by (simp add: normalizeJobID_def)
qed

lemma enqueue_metadata_no_tenant:
  assumes "cx_claims ctx = Some c" and "TenantID c = []" and "UserID c \<noteq> []"
    and "metadata MetadataTenantID = None"
  shows "enqueue_metadata name (ContextWithTenantID ctx tenant) metadata MetadataTenantID = None"
proof -
  let ?ctx = "ContextWithTenantID ctx tenant"
  let ?rc = "\<lparr>rc_TenantID = TenantID c, rc_ActorUserID = UserID c, rc_ServiceID = ServiceID c,
      rc_CorrelationID = [], rc_IsSuperAdmin = IsSuperAdmin c\<rparr>"
  have claims: "cx_claims ?ctx = Some c"
    using assms(1)
    by (simp add: ContextWithTenantID_def overlay_rc_def ContextWithRequestContext_def Let_def
          split: option.splits)
  have "TrimSpace (UserID c) = UserID c" by (simp add: UserID_def Let_def)
  then have ne: "\<not> IsEmpty ?rc" using assms(3) by (simp add: IsEmpty_def)
  have with_claims: "RequestContextFromContext (ContextWithClaims ?ctx c) = Some (Normalize ?rc)"
    using ne by (simp add: ContextWithClaims_def Let_def)
  have "\<exists>rc. RequestContextFromContext (enqueue_context ?ctx) = Some rc \<and> TrimSpace (rc_TenantID rc) = []"
    using claims with_claims assms(2)
    by (auto simp: enqueue_context_def ClaimsFromContext_def Let_def ContextWithCorrelationID_def
          overlay_rc_def first_nonblank_def empty_rc_def IsEmpty_def split: option.splits)
  moreover have "MetadataTenantID \<noteq> ''job_manager''" by (simp add: MetadataTenantID_def)
  ultimately show ?thesis
    using assms(4) by (auto simp: enqueue_metadata_def Let_def MergeMetadata_tenant)
qed

lemma enqueue_tenant_of_claims:
  assumes "ClaimsFromContext ctx = Some cl" "TenantID cl \<noteq> []" "metadata MetadataTenantID = None"
  shows "enqueue_metadata name ctx metadata MetadataTenantID = Some (TenantID cl)"
proof -
  let ?rc = "\<lparr>rc_TenantID = TenantID cl, rc_ActorUserID = UserID cl, rc_ServiceID = ServiceID cl,
      rc_CorrelationID = [], rc_IsSuperAdmin = IsSuperAdmin cl\<rparr>"
  have "RequestContextFromContext (ContextWithClaims ctx cl) = Some (Normalize ?rc)"
    using assms(2) by (simp add: ContextWithClaims_def IsEmpty_def TenantID_trimmed Let_def)
  then have "\<exists>rc. RequestContextFromContext (enqueue_context ctx) = Some rc \<and> TrimSpace (rc_TenantID rc) = TenantID cl"
    using assms(1,2)
    by (auto simp: enqueue_context_def Let_def ContextWithCorrelationID_def TenantID_trimmed
          overlay_rc_def first_nonblank_def empty_rc_def IsEmpty_def split: option.splits)
  moreover have "MetadataTenantID \<noteq> ''job_manager''" by (simp add: MetadataTenantID_def)
  ultimately show ?thesis
    using assms(2,3) by (auto simp: enqueue_metadata_def Let_def MergeMetadata_tenant index_str_def)
qed

lemma Enqueue_metadata:
  assumes "Enqueue memory_ops uuid now ctx req m = (Inr j, m')"
  shows "job_Metadata j = enqueue_metadata (jc_Name (mg_cfg m)) ctx (rq_Metadata req)"
proof -
  have "job_Metadata (new_job uuid now (mg_cfg m) h req) = rq_Metadata req" for h :: "'a handler_registration option"
    by (simp add: new_job_def Let_def split_beta)
  with assms show ?thesis
    by (auto simp: Enqueue_def memory_ops_def mem_Create_def Let_def split: if_splits option.splits prod.splits)
qed

text \<open>
  A job enqueued by an authenticated caller whose token carries no tenant is stored without a
  tenant, even if the tenant of the request was resolved and stored in the context, because
  \<open>Enqueue\<close> rebuilds the request context from the claims alone.
\<close>

lemma enqueue_forgets_resolved_tenant:
  assumes "cx_claims ctx = Some c" and "TenantID c = []" and "UserID c \<noteq> []"
    and "rq_Metadata req MetadataTenantID = None"
    and "Enqueue memory_ops uuid now (ContextWithTenantID ctx tenant) req m = (Inr j, m')"
  shows "job_Metadata j MetadataTenantID = None"
  using enqueue_metadata_no_tenant [OF assms(1,2,3), where tenant = tenant] assms(4) Enqueue_metadata [OF assms(5)]
  by simp

lemma enqueue_forgets_resolved_tenant_witness:
  "\<exists>j m'. Enqueue memory_ops ''u-1'' 5
      (ContextWithTenantID (Background\<lparr>cx_claims := Some \<lparr>Subject = ''svc'', IdentityID = [], RoleID = [],
         TokenUse = ''service'', ServicePermissions = Map.empty, Raw = Map.empty\<rparr>\<rparr>) ''t1'')
      \<lparr>rq_ID = [], rq_Type = ''mail'', rq_Queue = [], rq_Payload = [], rq_Metadata = Map.empty,
       rq_MaxAttempts = 0, rq_Timeout = 0, rq_RunAfter = Some 9\<rparr> demo_busy = (Inr j, m') \<and>
    job_Metadata j MetadataTenantID = None"
proof -
  let ?cl = "\<lparr>Subject = ''svc'', IdentityID = [], RoleID = [], TokenUse = ''service'',
    ServicePermissions = Map.empty, Raw = Map.empty\<rparr>"
  let ?ctx = "Background\<lparr>cx_claims := Some ?cl\<rparr>"
  let ?req = "\<lparr>rq_ID = [], rq_Type = ''mail'', rq_Queue = [], rq_Payload = [], rq_Metadata = Map.empty,
       rq_MaxAttempts = 0, rq_Timeout = 0, rq_RunAfter = Some 9\<rparr>"
  have "job_ID (new_job ''u-1'' 5 (mg_cfg demo_busy) h ?req) = ''u-1''" for h :: "unit handler_registration option"
    by (simp add: new_job_def normalizeJobID_def Let_def split_beta)
  then obtain j m' where enq: "Enqueue memory_ops ''u-1'' 5 (ContextWithTenantID ?ctx ''t1'') ?req demo_busy = (Inr j, m')"
    by (simp add: Enqueue_def memory_ops_def mem_Create_def getHandler_def demo_busy_def Let_def)
  have "job_Metadata j MetadataTenantID = None"
    by (rule enqueue_forgets_resolved_tenant [OF _ _ _ _ enq, where c = ?cl])
       (simp_all add: TenantID_def ClaimString_def UserID_def plain_char_code)
  with enq show ?thesis by blast
qed

end
