(* ===== verification/Jobs_Liveness.thy ===== *)
theory Jobs_Liveness
  imports Jobs_Manager
begin

text \<open>
  Progress of the job runtime of \<open>pkg/jobs/manager.go\<close>: what the goroutines can always achieve from a
  reachable state. Handlers are total functions here (a handler that never returns keeps its worker),
  so these are the runs in which every started handler returns.
\<close>

section \<open>A finished job is settled\<close>

definition settled :: "job \<Rightarrow> bool" where
  "settled j = (waiting j \<or> IsTerminal (job_Status j))"

lemma settled_updates:
  "settled (job_succeeded res now j)" "settled (job_failed reason now j)" "settled (job_retrying reason at now j)"
  by (simp_all add: settled_def waiting_def job_update_defs)

lemma settled_not_running: "settled j \<Longrightarrow> job_Status j \<noteq> StatusRunning"
  by (auto simp: settled_def waiting_def)

lemma mem_update_own:
  "mem_abs s i = Some j \<Longrightarrow> mem_update s i (\<lambda>j. Inr (g j)) = (Inr (g j), mem_put i (g j) s)"
  by (simp add: mem_update_def mem_abs_def)

lemma memory_ops_marks:
  "st_MarkSucceeded memory_ops = mem_MarkSucceeded" "st_MarkRetry memory_ops = mem_MarkRetry"
  "st_MarkFailed memory_ops = mem_MarkFailed"
  by (simp_all add: memory_ops_def)

lemmas memory_marks = memory_ops_marks mem_MarkSucceeded_def mem_MarkRetry_def mem_MarkFailed_def

text \<open>The manager after a job was settled: one stored job replaced, with the attempts it had.\<close>

definition settles :: "job \<Rightarrow> (mem_store, 'env) manager \<Rightarrow> (mem_store, 'env) manager \<Rightarrow> bool" where
  "settles j m m' =
     (\<exists>j'. mem_abs (mg_store m') = (mem_abs (mg_store m))(job_ID j \<mapsto> j') \<and> settled j' \<and>
           job_Attempt j' = job_Attempt j)"

lemma settlesI:
  "mem_abs (mg_store m') = (mem_abs (mg_store m))(job_ID j \<mapsto> j') \<Longrightarrow> settled j' \<Longrightarrow>
   job_Attempt j' = job_Attempt j \<Longrightarrow> settles j m m'"
  by (auto simp: settles_def)

lemma finalizeFailure_settles:
  assumes "mem_abs (mg_store m) (job_ID j) = Some j"
  shows "settles j m (snd (finalizeFailure memory_ops now j err m))"
proof (cases "job_Attempt j < job_MaxAttempts j")
  case True
  with assms show ?thesis
    by (intro settlesI [of _ _ _ "job_retrying (Error err) (now + retryDelayFor (mg_cfg m) (job_Attempt j)) now j"])
       (simp_all add: finalizeFailure_def memory_marks mem_update_own settled_updates job_retrying_def
          settled_def waiting_def Let_def)
next
  case False
  with assms show ?thesis
    by (intro settlesI [of _ _ _ "job_failed (Error err) now j"])
       (simp_all add: finalizeFailure_def memory_marks mem_update_own settled_def job_failed_def Let_def)
qed

lemma run_job_settles:
  assumes "mem_abs (mg_store m) (job_ID j) = Some j"
  shows "settles j m (snd (run_job memory_ops Marshal env now h j m))"
proof (cases "\<exists>err. run_job memory_ops Marshal env now h j m = finalizeFailure memory_ops now j err m")
  case True
  then show ?thesis using finalizeFailure_settles [OF assms] by metis
next
  case False
  then obtain raw where "run_job memory_ops Marshal env now h j m =
      (case mem_MarkSucceeded (mg_store m) (job_ID j) raw now of
        (Inl err, store) \<Rightarrow> (Some err, m\<lparr>mg_store := store\<rparr>)
      | (Inr _, store) \<Rightarrow> (None, syncStoredGauge memory_ops
           (count_processed j StatusSucceeded (m\<lparr>mg_store := store\<rparr>))))"
    by (auto simp: run_job_def memory_ops_marks Let_def split: option.splits sum.splits if_splits)
  with assms show ?thesis
    by (intro settlesI [of _ _ _ "job_succeeded raw now j"])
       (simp_all add: memory_marks mem_update_own settled_def job_succeeded_def)
qed

section \<open>Draining the workers\<close>

lemma run_job_succeeds:
  assumes "mem_abs (mg_store m) (job_ID j) = Some j" and "hr_handler h env (if job_Timeout j > 0 then Some (job_Timeout j) else None) j = Inr result"
    and "marshalResult Marshal result = Inr raw"
  shows "mem_abs (mg_store (snd (run_job memory_ops Marshal env now (Some h) j m))) (job_ID j) = Some (job_succeeded raw now j)"
  using assms by (simp add: run_job_def memory_marks mem_update_own Let_def)

lemma step_into: "r x y \<Longrightarrow> r\<^sup>*\<^sup>* y z \<Longrightarrow> r\<^sup>*\<^sup>* x z"
  by (rule converse_rtranclp_into_rtranclp)

lemma drain_workers:
  assumes "rt_live rt" "distinct (map (job_ID \<circ> fst) (rt_busy rt))"
    and "\<forall>(j, h)\<in>set (rt_busy rt). mem_abs (mg_store (rt_mgr rt)) (job_ID j) = Some j"
  shows "\<exists>rt'. (runtime_step memory_ops Marshal)\<^sup>*\<^sup>* rt rt' \<and> rt_live rt' \<and> rt_done rt' = rt_done rt \<and>
    rt_pending rt' = rt_pending rt \<and> rt_busy rt' = [] \<and>
    (\<forall>(j, h)\<in>set (rt_busy rt). \<exists>j'. mem_abs (mg_store (rt_mgr rt')) (job_ID j) = Some j' \<and> settled j') \<and>
    (\<forall>i. i \<notin> (job_ID \<circ> fst) ` set (rt_busy rt) \<longrightarrow>
       mem_abs (mg_store (rt_mgr rt')) i = mem_abs (mg_store (rt_mgr rt)) i)"
  using assms
proof (induction "rt_busy rt" arbitrary: rt)
  case Nil
  then show ?case by (auto intro!: exI [of _ rt])
next
  case (Cons b bs)
  obtain j h where b: "b = (j, h)" by (cases b)
  let ?m = "snd (run_job memory_ops Marshal undefined 0 h j (rt_mgr rt))"
  let ?rt = "rt\<lparr>rt_mgr := worker_end ?m, rt_busy := [] @ bs\<rparr>"
  have busy: "rt_busy rt = [] @ (j, h) # bs" using Cons.hyps(2) b by simp
  have step: "runtime_step memory_ops Marshal rt ?rt"
    by (rule runtime_step.finish [OF Cons.prems(1) busy, of memory_ops Marshal undefined 0]) (rule prod.collapse [symmetric])
  have own: "mem_abs (mg_store (rt_mgr rt)) (job_ID j) = Some j" using Cons.prems(3) busy by auto
  obtain j' where j': "mem_abs (mg_store ?m) = (mem_abs (mg_store (rt_mgr rt)))(job_ID j \<mapsto> j')" "settled j'"
    using run_job_settles [OF own] unfolding settles_def by blast
  have fresh: "job_ID j \<notin> (job_ID \<circ> fst) ` set bs" "distinct (map (job_ID \<circ> fst) bs)"
    using Cons.prems(2) busy by auto
  have "\<forall>(k, h)\<in>set (rt_busy ?rt). mem_abs (mg_store (rt_mgr ?rt)) (job_ID k) = Some k"
    using Cons.prems(3) busy j'(1) fresh by (force simp: image_iff)
  then obtain rt' where rt': "(runtime_step memory_ops Marshal)\<^sup>*\<^sup>* ?rt rt'" "rt_live rt'" "rt_done rt' = rt_done rt"
    "rt_pending rt' = rt_pending rt" "rt_busy rt' = []"
    "\<forall>(k, h)\<in>set bs. \<exists>k'. mem_abs (mg_store (rt_mgr rt')) (job_ID k) = Some k' \<and> settled k'"
    "\<forall>i. i \<notin> (job_ID \<circ> fst) ` set bs \<longrightarrow> mem_abs (mg_store (rt_mgr rt')) i = mem_abs (mg_store ?m) i"
    using Cons.hyps(1) [of ?rt] Cons.prems(1) fresh by auto
  show ?case
  proof (intro exI [of _ rt'] conjI)
    show "(runtime_step memory_ops Marshal)\<^sup>*\<^sup>* rt rt'" using step rt'(1) by (rule step_into)
    show "\<forall>(k, h)\<in>set (rt_busy rt). \<exists>k'. mem_abs (mg_store (rt_mgr rt')) (job_ID k) = Some k' \<and> settled k'"
      using rt'(6,7) j' fresh busy by auto
    show "\<forall>i. i \<notin> (job_ID \<circ> fst) ` set (rt_busy rt) \<longrightarrow>
        mem_abs (mg_store (rt_mgr rt')) i = mem_abs (mg_store (rt_mgr rt)) i"
      using rt'(7) j'(1) busy by auto
  qed (use rt' in auto)
qed

lemma busy_owned:
  assumes "runtime_ok mem_abs mem_inv lost rt"
  shows "distinct (map (job_ID \<circ> fst) (rt_busy rt))"
    "\<forall>(j, h)\<in>set (rt_busy rt). mem_abs (mg_store (rt_mgr rt)) (job_ID j) = Some j"
proof -
  have flight: "flight_ok (mem_abs (mg_store (rt_mgr rt))) (in_flight rt @ lost)"
    using assms by (simp add: runtime_ok_def store_ok_def)
  then show "distinct (map (job_ID \<circ> fst) (rt_busy rt))" by (simp add: flight_ok_def in_flight_def)
  show "\<forall>(j, h)\<in>set (rt_busy rt). mem_abs (mg_store (rt_mgr rt)) (job_ID j) = Some j"
  proof safe
    fix j h assume "(j, h) \<in> set (rt_busy rt)"
    then have "j \<in> set (in_flight rt)" unfolding in_flight_def by (simp add: rev_image_eqI)
    with flight show "mem_abs (mg_store (rt_mgr rt)) (job_ID j) = Some j" by (simp add: flight_ok_def)
  qed
qed

section \<open>Properties\<close>



lemma dispatch_hands_out:
  fixes m :: "(mem_store, 'env) manager"
  defines "n \<equiv> jc_QueueBuffer (mg_cfg m)"
    and "f \<equiv> \<lparr>cf_Queues = [], cf_Types = handlerTypes m\<rparr>"
  assumes "mem_inv (mg_store m)" and "mem_abs (mg_store m) (job_ID j) = Some j"
    and "mg_workCh m = []" and "0 < jc_QueueBuffer (mg_cfg m)" and "mg_handlers m \<noteq> []"
    and "ready_jobs (mg_store m) now \<lparr>cf_Queues = [], cf_Types = handlerTypes m\<rparr> = j # js"
  obtains rest where
    "dispatch_claim memory_ops now m =
       (Inr (job_claimed now j # rest), m\<lparr>mg_store := snd (mem_ClaimReady (mg_store m) now n f)\<rparr>)"
    "mem_abs (mg_store (m\<lparr>mg_store := snd (mem_ClaimReady (mg_store m) now n f)\<rparr>)) (job_ID j) =
       Some (job_claimed now j)"
proof -
  have "handlerTypes m \<noteq> []" using assms(7)
    by (metis handlerTypes_def Nil_is_map_conv length_0_conv length_sort)
  moreover obtain rest where "take (nat n) (j # js) = j # rest"
    using assms(6) unfolding n_def by (cases "nat (jc_QueueBuffer (mg_cfg m))") auto
  ultimately show thesis
    using mem_ClaimReady_exact [OF assms(3,6), of now f] assms(4,5,6,8)
    by (intro that [of "map (job_claimed now) rest"])
       (simp_all add: dispatch_claim_def memory_ops_def n_def f_def split_beta)
qed

text \<open>
  The four actions that execute the ready job which is due first: the dispatcher claims and sends it, a worker takes it and
  processes it. The job was stored as claimed when its handler ran.
\<close>

lemma ready_job_run:
  fixes rt :: "(mem_store, 'env) runtime"
  defines "m \<equiv> rt_mgr rt"
  assumes ok: "runtime_ok mem_abs mem_inv [] rt" and live: "rt_live rt" "rt_pending rt = []" "mg_workCh m = []"
    and room: "0 < jc_QueueBuffer (mg_cfg m)" "int (length (rt_busy rt)) < jc_Workers (mg_cfg m)"
    and handlers: "mg_handlers m \<noteq> []"
    and ready: "ready_jobs (mg_store m) now \<lparr>cf_Queues = [], cf_Types = handlerTypes m\<rparr> = j # js"
  shows "\<exists>rt' m3. (runtime_step memory_ops Marshal)\<^sup>*\<^sup>* rt rt' \<and>
    mem_abs (mg_store m3) (job_ID j) = Some (job_claimed now j) \<and> mg_cfg m3 = mg_cfg m \<and>
    rt_mgr rt' = worker_end (snd (run_job memory_ops Marshal env now (getHandler m (job_Type j)) (job_claimed now j) m3)) \<and>
    job_Attempt (job_claimed now j) = job_Attempt j + 1"
proof -
  let ?f = "\<lparr>cf_Queues = [], cf_Types = handlerTypes m\<rparr>" and ?n = "jc_QueueBuffer (mg_cfg m)"
  have inv: "mem_inv (mg_store m)" "jobs_ok (mem_abs (mg_store m))" using ok by (auto simp: runtime_ok_def store_ok_def m_def)
  have j: "mem_abs (mg_store m) (job_ID j) = Some j" "waiting j" "job_ok j"
    using ready_jobs_stored [OF inv(1), of j now ?f] jobs_ok_Some [OF inv(2), of "job_ID j" j] ready by (simp_all add: ready)
  let ?m1 = "m\<lparr>mg_store := snd (mem_ClaimReady (mg_store m) now ?n ?f)\<rparr>"
  obtain rest where claim: "dispatch_claim memory_ops now m = (Inr (job_claimed now j # rest), ?m1)"
    and stored: "mem_abs (mg_store ?m1) (job_ID j) = Some (job_claimed now j)"
    using dispatch_hands_out [OF inv(1) j(1) live(3) room(1) handlers ready] .
  let ?h = "getHandler m (job_Type j)"
  let ?rt1 = "rt\<lparr>rt_mgr := ?m1, rt_pending := job_claimed now j # rest\<rparr>"
  let ?rt2 = "?rt1\<lparr>rt_pending := rest, rt_mgr := ?m1\<lparr>mg_workCh := [job_claimed now j]\<rparr>\<rparr>"
  let ?m3 = "worker_begin (?m1\<lparr>mg_workCh := []\<rparr>)"
  let ?rt3 = "?rt2\<lparr>rt_mgr := ?m3, rt_busy := (job_claimed now j, ?h) # rt_busy rt\<rparr>"
  let ?run = "run_job memory_ops Marshal env now ?h (job_claimed now j) ?m3"
  let ?rt4 = "?rt3\<lparr>rt_mgr := worker_end (snd ?run), rt_busy := [] @ rt_busy rt\<rparr>"
  have "runtime_step memory_ops Marshal rt ?rt1"
    using live(1,2) claim unfolding m_def by (rule runtime_step.claim)
  moreover have "runtime_step memory_ops Marshal ?rt1 ?rt2"
    using runtime_step.send [of ?rt1 "job_claimed now j" rest memory_ops Marshal] live room by simp
  moreover have "runtime_step memory_ops Marshal ?rt2 ?rt3"
    using runtime_step.take_job [of ?rt2 "job_claimed now j" "[]" memory_ops Marshal] live room
    by (simp add: getHandler_def job_claimed_def)
  moreover have "runtime_step memory_ops Marshal ?rt3 ?rt4"
    by (rule runtime_step.finish [where xs = "[]" and e = "fst ?run"]) (use live in simp_all)
  ultimately have "(runtime_step memory_ops Marshal)\<^sup>*\<^sup>* rt ?rt4"
    by (elim step_into) (rule rtranclp.rtrancl_refl)
  moreover have "job_Attempt (job_claimed now j) = job_Attempt j + 1"
    using j(2,3) by (auto simp: job_claimed_def job_ok_def int64_range_def)
  ultimately show ?thesis
    using stored by (intro exI [of _ ?rt4] exI [of _ ?m3]) simp
qed



end
