(* ===== verification/Jobs_Redis.thy ===== *)
theory Jobs_Redis
  imports Jobs_Memory
begin

text \<open>
  The Redis store of \<open>pkg/jobs/redis_store.go\<close>, the second implementation of \<open>Store\<close>.

  The Redis server, its client and the two JSON libraries are not part of the repository. They are
  the record \<open>redis_client\<close> of the commands the code sends and the record \<open>redis_env\<close> of the store's
  surroundings; what the theorems rely on is stated by \<open>redis_laws\<close> (what the commands do to strings
  and sorted sets, when \<open>EXEC\<close> fails) and \<open>json_laws\<close> and \<open>cjson_laws\<close> (what is decoded was encoded). The two Lua
  scripts are part of the source and are modelled command by command; a script runs atomically.
  Scores are milliseconds, exact in a \<open>float64\<close>.
\<close>

section \<open>The server as the code sees it\<close>

datatype redis_cmd =
    CmdSet string string
  | CmdDel string
  | CmdZAdd string int string
  | CmdZRem string string

datatype tx_reply = TxDone | TxFailed | TxError go_error

text \<open>Values of the Lua scripts: \<open>nil\<close>, strings, numbers, and anything else a JSON text may hold.\<close>

datatype lua_value = LNil | LStr string | LNum int | LOther nat

record 'r redis_client =
  rd_Get :: "'r \<Rightarrow> string \<Rightarrow> go_error + string option"
  rd_Exists :: "'r \<Rightarrow> string \<Rightarrow> go_error + int"
  rd_MGet :: "'r \<Rightarrow> string list \<Rightarrow> go_error + string option list"
  rd_ZRange :: "'r \<Rightarrow> string \<Rightarrow> int \<Rightarrow> int \<Rightarrow> go_error + string list"
  rd_ZRevRange :: "'r \<Rightarrow> string \<Rightarrow> int \<Rightarrow> int \<Rightarrow> go_error + string list"
  rd_Exec :: "string \<Rightarrow> 'r \<Rightarrow> 'r \<Rightarrow> redis_cmd list \<Rightarrow> tx_reply \<times> 'r"
  rd_eval :: "'r \<Rightarrow> go_error option"
  rd_get :: "'r \<Rightarrow> string \<Rightarrow> string option"
  rd_zrangebyscore :: "'r \<Rightarrow> string \<Rightarrow> int \<Rightarrow> nat option \<Rightarrow> string list"
  rd_call :: "redis_cmd \<Rightarrow> 'r \<Rightarrow> 'r"

text \<open>
  \<open>rd_Exec key r0 r cmds\<close> executes a transaction in state \<open>r\<close> that has watched \<open>key\<close> since \<open>r0\<close>.
  \<open>rd_eval\<close> is the error of a script call that did not run; \<open>rd_get\<close>, \<open>rd_zrangebyscore\<close> and \<open>rd_call\<close>
  are \<open>redis.call\<close> inside a script. \<open>re_others n\<close> is what other clients do between the read and the
  \<open>EXEC\<close> of attempt \<open>n\<close>; \<open>re_FormatTime\<close> is \<open>RFC3339Nano\<close>.
\<close>

record 'r redis_env =
  re_client :: "'r redis_client"
  re_namespace :: string
  re_Marshal :: "job \<Rightarrow> go_error + string"
  re_Unmarshal :: "string \<Rightarrow> go_error + job"
  re_cjson_decode :: "string \<Rightarrow> (string \<Rightarrow> lua_value)"
  re_cjson_encode :: "(string \<Rightarrow> lua_value) \<Rightarrow> string"
  re_FormatTime :: "go_time \<Rightarrow> string"
  re_others :: "nat \<Rightarrow> 'r \<Rightarrow> 'r"

section \<open>Keys and scores\<close>

definition redisListBatchSize :: nat where
  "redisListBatchSize = 250"

definition normalizeRedisNamespace :: "string \<Rightarrow> string" where
  "normalizeRedisNamespace namespace =
     (let namespace = TrimSpace namespace
      in if namespace = [] then ''platform-background-jobs'' else namespace)"

definition normalizeRedisTimeout :: "go_duration \<Rightarrow> go_duration \<Rightarrow> go_duration" where
  "normalizeRedisTimeout v fallback = (if v \<le> 0 then fallback else v)"

definition timeScore :: "go_time \<Rightarrow> int" where
  "timeScore t = t div Millisecond"

definition jobPrefix :: "'r redis_env \<Rightarrow> string" where
  "jobPrefix e = re_namespace e @ '':job:''"

definition jobKey :: "'r redis_env \<Rightarrow> string \<Rightarrow> string" where
  "jobKey e i = jobPrefix e @ i"

definition createdIndexKey :: "'r redis_env \<Rightarrow> string" where
  "createdIndexKey e = re_namespace e @ '':index:created''"

definition availableIndexKey :: "'r redis_env \<Rightarrow> string" where
  "availableIndexKey e = re_namespace e @ '':index:available''"

definition terminalIndexKey :: "'r redis_env \<Rightarrow> string" where
  "terminalIndexKey e = re_namespace e @ '':index:terminal''"

section \<open>Construction\<close>

record redis_store_config =
  rc_Address :: string
  rc_Password :: string
  rc_DB :: int
  rc_Namespace :: string
  rc_DialTimeout :: go_duration
  rc_ReadTimeout :: go_duration
  rc_WriteTimeout :: go_duration

record redis_options =
  ro_Addr :: string
  ro_Password :: string
  ro_DB :: int
  ro_DialTimeout :: go_duration
  ro_ReadTimeout :: go_duration
  ro_WriteTimeout :: go_duration

text \<open>A store: the client it was given (or \<open>None\<close>), its namespace, and whether it closes the client.\<close>

record 'c redis_store =
  rs_client :: 'c
  rs_namespace :: string
  rs_ownsClient :: bool

definition NewRedisStore :: "'c option \<Rightarrow> string \<Rightarrow> go_error + 'c redis_store" where
  "NewRedisStore client namespace =
     (case client of
        None \<Rightarrow> Err (invalidJob ''redis client is required'')
      | Some c \<Rightarrow> Ok \<lparr>rs_client = c, rs_namespace = normalizeRedisNamespace namespace, rs_ownsClient = False\<rparr>)"

text \<open>\<open>newClient\<close> is \<open>redis.NewClient\<close>, \<open>ping\<close> the answer to \<open>Ping\<close> within the given time.\<close>

definition NewRedisStoreFromConfig ::
    "(redis_options \<Rightarrow> 'c) \<Rightarrow> ('c \<Rightarrow> go_duration \<Rightarrow> go_error option) \<Rightarrow> redis_store_config \<Rightarrow>
     go_error + 'c redis_store" where
  "NewRedisStoreFromConfig newClient ping cfg =
     (let address = TrimSpace (rc_Address cfg)
      in if address = [] then Err (invalidJob ''redis address is required'')
         else
           let client = newClient
                 \<lparr>ro_Addr = address, ro_Password = rc_Password cfg, ro_DB = rc_DB cfg,
                  ro_DialTimeout = normalizeRedisTimeout (rc_DialTimeout cfg) (3 * Second),
                  ro_ReadTimeout = normalizeRedisTimeout (rc_ReadTimeout cfg) (3 * Second),
                  ro_WriteTimeout = normalizeRedisTimeout (rc_WriteTimeout cfg) (3 * Second)\<rparr>
           in case ping client (normalizeRedisTimeout (rc_DialTimeout cfg) (3 * Second)) of
                Some err \<Rightarrow> Err err
              | None \<Rightarrow> Ok \<lparr>rs_client = client, rs_namespace = normalizeRedisNamespace (rc_Namespace cfg),
                           rs_ownsClient = True\<rparr>)"

definition redis_Close :: "('c \<Rightarrow> go_error option) \<Rightarrow> 'c redis_store option \<Rightarrow> go_error option" where
  "redis_Close close s =
     (case s of None \<Rightarrow> None | Some st \<Rightarrow> if \<not> rs_ownsClient st then None else close (rs_client st))"

section \<open>Writing jobs\<close>

definition syncIndexes :: "'r redis_env \<Rightarrow> job \<Rightarrow> redis_cmd list" where
  "syncIndexes e j =
     [CmdZRem (availableIndexKey e) (job_ID j)] @
     (if job_Status j = StatusQueued \<or> job_Status j = StatusScheduled
      then [CmdZAdd (availableIndexKey e) (timeScore (job_AvailableAt j)) (job_ID j)] else []) @
     [CmdZRem (terminalIndexKey e) (job_ID j)] @
     (case job_CompletedAt j of
        Some t \<Rightarrow> if IsTerminal (job_Status j)
                  then [CmdZAdd (terminalIndexKey e) (timeScore t) (job_ID j)] else []
      | None \<Rightarrow> [])"

text \<open>The result of one optimistic attempt: done, to be repeated, or failed.\<close>

datatype 'a attempt = Done 'a | Again | Failed go_error

definition tx_attempt :: "tx_reply \<Rightarrow> 'a \<Rightarrow> 'a attempt" where
  "tx_attempt t x = (case t of TxDone \<Rightarrow> Done x | TxFailed \<Rightarrow> Again | TxError err \<Rightarrow> Failed err)"

text \<open>The loop \<open>for attempt := 0; attempt < 5; attempt++\<close>; \<open>n\<close> attempts are left.\<close>

fun retry_attempts ::
    "(nat \<Rightarrow> 'r \<Rightarrow> 'a attempt \<times> 'r) \<Rightarrow> go_error \<Rightarrow> nat \<Rightarrow> 'r \<Rightarrow> (go_error + 'a) \<times> 'r" where
  "retry_attempts body exhausted 0 r = (Err exhausted, r)"
| "retry_attempts body exhausted (Suc n) r =
     (case body (4 - n) r of
        (Done x, r') \<Rightarrow> (Ok x, r')
      | (Failed err, r') \<Rightarrow> (Err err, r')
      | (Again, r') \<Rightarrow> retry_attempts body exhausted n r')"

definition create_attempt :: "'r redis_env \<Rightarrow> job \<Rightarrow> string \<Rightarrow> nat \<Rightarrow> 'r \<Rightarrow> job attempt \<times> 'r" where
  "create_attempt e j payload n r =
     (case rd_Exists (re_client e) r (jobKey e (job_ID j)) of
        Inl err \<Rightarrow> (Failed err, r)
      | Inr exists \<Rightarrow>
          if exists > 0 then (Failed duplicateJob, r)
          else
            let (t, r') = rd_Exec (re_client e) (jobKey e (job_ID j)) r (re_others e n r)
                  ([CmdSet (jobKey e (job_ID j)) payload,
                    CmdZAdd (createdIndexKey e) (timeScore (job_CreatedAt j)) (job_ID j)] @ syncIndexes e j)
            in (tx_attempt t j, r'))"

definition redis_Create :: "'r redis_env \<Rightarrow> 'r \<Rightarrow> job \<Rightarrow> (go_error + job) \<times> 'r" where
  "redis_Create e r j =
     (case re_Marshal e j of
        Inl err \<Rightarrow> (Err err, r)
      | Inr payload \<Rightarrow>
          retry_attempts (create_attempt e j payload)
            (EApp (app_msg ErrorCodeInternal ''failed to create job due to concurrent updates'')) 5 r)"

definition update_attempt ::
    "'r redis_env \<Rightarrow> string \<Rightarrow> (job \<Rightarrow> go_error + job) \<Rightarrow> nat \<Rightarrow> 'r \<Rightarrow> job attempt \<times> 'r" where
  "update_attempt e i mutate n r =
     (case rd_Get (re_client e) r (jobKey e i) of
        Inl err \<Rightarrow> (Failed err, r)
      | Inr None \<Rightarrow> (Failed (notFoundJob i), r)
      | Inr (Some raw) \<Rightarrow>
          (case re_Unmarshal e raw of
             Inl err \<Rightarrow> (Failed err, r)
           | Inr j \<Rightarrow>
             (case mutate j of
                Inl err \<Rightarrow> (Failed err, r)
              | Inr j' \<Rightarrow>
                (case re_Marshal e j' of
                   Inl err \<Rightarrow> (Failed err, r)
                 | Inr encoded \<Rightarrow>
                     let (t, r') = rd_Exec (re_client e) (jobKey e i) r (re_others e n r)
                           (CmdSet (jobKey e i) encoded # syncIndexes e j')
                     in (tx_attempt t j', r')))))"

definition updateJob ::
    "'r redis_env \<Rightarrow> 'r \<Rightarrow> string \<Rightarrow> (job \<Rightarrow> go_error + job) \<Rightarrow> (go_error + job) \<times> 'r" where
  "updateJob e r i mutate =
     retry_attempts (update_attempt e i mutate)
       (EApp (app_msg ErrorCodeInternal ''failed to update job due to concurrent updates'')) 5 r"

definition redis_MarkSucceeded :: "'r redis_env \<Rightarrow> 'r \<Rightarrow> string \<Rightarrow> string \<Rightarrow> go_time \<Rightarrow> (go_error + job) \<times> 'r" where
  "redis_MarkSucceeded e r i result now = updateJob e r i (\<lambda>j. Ok (job_succeeded result now j))"

definition redis_MarkRetry ::
    "'r redis_env \<Rightarrow> 'r \<Rightarrow> string \<Rightarrow> string \<Rightarrow> go_time \<Rightarrow> go_time \<Rightarrow> (go_error + job) \<times> 'r" where
  "redis_MarkRetry e r i reason runAt now = updateJob e r i (\<lambda>j. Ok (job_retrying reason runAt now j))"

definition redis_MarkFailed :: "'r redis_env \<Rightarrow> 'r \<Rightarrow> string \<Rightarrow> string \<Rightarrow> go_time \<Rightarrow> (go_error + job) \<times> 'r" where
  "redis_MarkFailed e r i reason now = updateJob e r i (\<lambda>j. Ok (job_failed reason now j))"

definition redis_Cancel :: "'r redis_env \<Rightarrow> 'r \<Rightarrow> string \<Rightarrow> go_time \<Rightarrow> (go_error + job) \<times> 'r" where
  "redis_Cancel e r i now = updateJob e r i (job_canceled now)"

definition redis_Retry :: "'r redis_env \<Rightarrow> 'r \<Rightarrow> string \<Rightarrow> go_time \<Rightarrow> (go_error + job) \<times> 'r" where
  "redis_Retry e r i now = updateJob e r i (job_requeued now)"

section \<open>Reading jobs\<close>

definition redis_Get :: "'r redis_env \<Rightarrow> 'r \<Rightarrow> string \<Rightarrow> go_error + job option" where
  "redis_Get e r i =
     (case rd_Get (re_client e) r (jobKey e i) of
        Inl err \<Rightarrow> Err err
      | Inr None \<Rightarrow> Ok None
      | Inr (Some raw) \<Rightarrow> (case re_Unmarshal e raw of Inl err \<Rightarrow> Err err | Inr j \<Rightarrow> Ok (Some j)))"

fun decode_all :: "(string \<Rightarrow> go_error + job) \<Rightarrow> string option list \<Rightarrow> go_error + job list" where
  "decode_all dec [] = Ok []"
| "decode_all dec (None # raws) = decode_all dec raws"
| "decode_all dec (Some raw # raws) =
     (case dec raw of
        Inl err \<Rightarrow> Err err
      | Inr j \<Rightarrow> (case decode_all dec raws of Inl err \<Rightarrow> Err err | Inr js \<Rightarrow> Ok (j # js)))"

definition loadJobsByIDs :: "'r redis_env \<Rightarrow> 'r \<Rightarrow> string list \<Rightarrow> go_error + job list" where
  "loadJobsByIDs e r ids =
     (if length ids = 0 then Ok []
      else case rd_MGet (re_client e) r (map (jobKey e) ids) of
             Inl err \<Rightarrow> Err err
           | Inr raws \<Rightarrow> decode_all (re_Unmarshal e) raws)"

text \<open>
  The inner loop of \<open>List\<close>: skip up to the offset, collect, and stop (\<open>True\<close>) at the limit. The
  accumulator is the result so far and the number of skipped jobs.
\<close>

fun list_jobs :: "job_filter \<Rightarrow> int \<Rightarrow> job list \<Rightarrow> job list \<times> int \<Rightarrow> bool \<times> job list \<times> int" where
  "list_jobs f limit [] acc = (False, acc)"
| "list_jobs f limit (j # js) (result, skipped) =
     (if \<not> job_matches f j then list_jobs f limit js (result, skipped)
      else if skipped < jf_Offset f then list_jobs f limit js (result, skipped + 1)
      else
        let result = result @ [j]
        in if int (length result) \<ge> limit then (True, result, skipped)
           else list_jobs f limit js (result, skipped))"

text \<open>The outer loop, one batch per step; \<open>None\<close> when \<open>fuel\<close> batches were not enough.\<close>

fun list_batches ::
    "'r redis_env \<Rightarrow> 'r \<Rightarrow> job_filter \<Rightarrow> int \<Rightarrow> nat \<Rightarrow> nat \<Rightarrow> job list \<times> int \<Rightarrow> (go_error + job list) option" where
  "list_batches e r f limit 0 start acc = None"
| "list_batches e r f limit (Suc fuel) start acc =
     (case rd_ZRevRange (re_client e) r (createdIndexKey e) (int start) (int (start + redisListBatchSize) - 1) of
        Inl err \<Rightarrow> Some (Err err)
      | Inr ids \<Rightarrow>
          if length ids = 0 then Some (Ok (fst acc))
          else case loadJobsByIDs e r ids of
            Inl err \<Rightarrow> Some (Err err)
          | Inr jobs \<Rightarrow>
              (case list_jobs f limit jobs acc of
                 (True, acc') \<Rightarrow> Some (Ok (fst acc'))
               | (False, acc') \<Rightarrow>
                   if length ids < redisListBatchSize then Some (Ok (fst acc'))
                   else list_batches e r f limit fuel (start + redisListBatchSize) acc'))"

definition redis_List :: "nat \<Rightarrow> 'r redis_env \<Rightarrow> 'r \<Rightarrow> job_filter \<Rightarrow> (go_error + job list) option" where
  "redis_List fuel e r f =
     (let limit = (if jf_Limit f \<le> 0 then 100 else jf_Limit f)
      in list_batches e r f limit fuel 0 ([], 0))"

definition add_job_stats :: "job \<Rightarrow> store_stats \<Rightarrow> store_stats" where
  "add_job_stats j st =
     st\<lparr>ss_JobsStored := ss_JobsStored st + 1, ss_Totals := bump (job_Status j) (ss_Totals st),
        ss_Queues := add_queue_stats j (ss_Queues st)\<rparr>"

fun stats_batches ::
    "'r redis_env \<Rightarrow> 'r \<Rightarrow> nat \<Rightarrow> nat \<Rightarrow> store_stats \<Rightarrow> (go_error + store_stats) option" where
  "stats_batches e r 0 start st = None"
| "stats_batches e r (Suc fuel) start st =
     (case rd_ZRange (re_client e) r (createdIndexKey e) (int start) (int (start + redisListBatchSize) - 1) of
        Inl err \<Rightarrow> Some (Err err)
      | Inr ids \<Rightarrow>
          if length ids = 0 then Some (Ok st)
          else case loadJobsByIDs e r ids of
            Inl err \<Rightarrow> Some (Err err)
          | Inr jobs \<Rightarrow>
              let st = fold add_job_stats jobs st
              in if length ids < redisListBatchSize then Some (Ok st)
                 else stats_batches e r fuel (start + redisListBatchSize) st)"

definition redis_Stats :: "nat \<Rightarrow> 'r redis_env \<Rightarrow> 'r \<Rightarrow> (go_error + store_stats) option" where
  "redis_Stats fuel e r =
     stats_batches e r fuel 0 \<lparr>ss_JobsStored = 0, ss_Totals = Map.empty, ss_Queues = Map.empty\<rparr>"

section \<open>The scripts\<close>

text \<open>One id of the claim script: the text that was claimed, if any, and the server after it.\<close>

definition claim_id ::
    "'r redis_env \<Rightarrow> string \<Rightarrow> (string list) option \<Rightarrow> (string list) option \<Rightarrow> string \<Rightarrow> 'r \<Rightarrow> string option \<times> 'r" where
  "claim_id e nowText queueFilter typeFilter i r =
     (case rd_get (re_client e) r (jobPrefix e @ i) of
        None \<Rightarrow> (None, rd_call (re_client e) (CmdZRem (availableIndexKey e) i) r)
      | Some raw \<Rightarrow>
          let job = re_cjson_decode e raw
          in if job ''status'' = LStr ''queued'' \<or> job ''status'' = LStr ''scheduled''
             then
               let allowed = (case queueFilter of None \<Rightarrow> True | Some qs \<Rightarrow> job ''queue'' \<in> LStr ` set qs) \<and>
                             (case typeFilter of None \<Rightarrow> True | Some ts \<Rightarrow> job ''type'' \<in> LStr ` set ts)
               in if allowed
                  then
                    let attempts = (case job ''attempt'' of LNum n \<Rightarrow> n | _ \<Rightarrow> 0);
                        job = job(''status'' := LStr ''running'', ''attempt'' := LNum (attempts + 1),
                                  ''started_at'' := LStr nowText, ''updated_at'' := LStr nowText);
                        updated = re_cjson_encode e job;
                        r = rd_call (re_client e) (CmdSet (jobPrefix e @ i) updated) r;
                        r = rd_call (re_client e) (CmdZRem (availableIndexKey e) i) r
                    in (Some updated, r)
                  else (None, r)
             else (None, rd_call (re_client e) (CmdZRem (availableIndexKey e) i) r))"

fun claim_ids ::
    "'r redis_env \<Rightarrow> string \<Rightarrow> (string list) option \<Rightarrow> (string list) option \<Rightarrow> string list \<Rightarrow> 'r \<Rightarrow> string list \<times> 'r" where
  "claim_ids e nowText qf tf [] r = ([], r)"
| "claim_ids e nowText qf tf (i # is) r =
     (let (c, r) = claim_id e nowText qf tf i r;
          (cs, r) = claim_ids e nowText qf tf is r
      in ((case c of None \<Rightarrow> cs | Some x \<Rightarrow> x # cs), r))"

definition claimReadyScript ::
    "'r redis_env \<Rightarrow> int \<Rightarrow> int \<Rightarrow> string \<Rightarrow> (string list) option \<Rightarrow> (string list) option \<Rightarrow> 'r \<Rightarrow> string list \<times> 'r" where
  "claimReadyScript e score limit nowText qf tf r =
     claim_ids e nowText qf tf
       (rd_zrangebyscore (re_client e) r (availableIndexKey e) score (Some (nat limit))) r"

definition filter_arg :: "string list \<Rightarrow> (string list) option" where
  "filter_arg xs = (if length xs > 0 then Some xs else None)"

definition redis_ClaimReady ::
    "'r redis_env \<Rightarrow> 'r \<Rightarrow> go_time \<Rightarrow> int \<Rightarrow> claim_filter \<Rightarrow> (go_error + job list) \<times> 'r" where
  "redis_ClaimReady e r now limit f =
     (if limit \<le> 0 then (Ok [], r)
      else case rd_eval (re_client e) r of
        Some err \<Rightarrow> (Err err, r)
      | None \<Rightarrow>
          let (entries, r) = claimReadyScript e (timeScore now) limit (re_FormatTime e now)
                (filter_arg (cf_Queues f)) (filter_arg (cf_Types f)) r
          in (decode_all (re_Unmarshal e) (map Some entries), r))"

fun prune_ids :: "'r redis_env \<Rightarrow> string list \<Rightarrow> int \<Rightarrow> 'r \<Rightarrow> int \<times> 'r" where
  "prune_ids e [] removed r = (removed, r)"
| "prune_ids e (i # is) removed r =
     (let r = rd_call (re_client e) (CmdDel (jobPrefix e @ i)) r;
          r = rd_call (re_client e) (CmdZRem (createdIndexKey e) i) r;
          r = rd_call (re_client e) (CmdZRem (availableIndexKey e) i) r;
          r = rd_call (re_client e) (CmdZRem (terminalIndexKey e) i) r
      in prune_ids e is (removed + 1) r)"

definition pruneTerminalScript :: "'r redis_env \<Rightarrow> int \<Rightarrow> 'r \<Rightarrow> int \<times> 'r" where
  "pruneTerminalScript e score r =
     prune_ids e (rd_zrangebyscore (re_client e) r (terminalIndexKey e) score None) 0 r"

definition redis_PruneTerminalBefore :: "'r redis_env \<Rightarrow> 'r \<Rightarrow> go_time \<Rightarrow> (go_error + int) \<times> 'r" where
  "redis_PruneTerminalBefore e r cutoff =
     (case rd_eval (re_client e) r of
        Some err \<Rightarrow> (Err err, r)
      | None \<Rightarrow> let (removed, r) = pruneTerminalScript e (timeScore cutoff) r in (Ok removed, r))"

section \<open>What the code relies on\<close>

text \<open>
  The keyspace of a Redis server as its documentation describes it: strings, and sorted sets as
  lists of members with their scores. A sorted set is enumerated by score and then by member.
\<close>

record keyspace =
  ks_str :: "string \<rightharpoonup> string"
  ks_zset :: "string \<Rightarrow> (string \<times> int) list"

fun run_cmd :: "redis_cmd \<Rightarrow> keyspace \<Rightarrow> keyspace" where
  "run_cmd (CmdSet k v) s = s\<lparr>ks_str := (ks_str s)(k \<mapsto> v)\<rparr>"
| "run_cmd (CmdDel k) s = s\<lparr>ks_str := (ks_str s)(k := None)\<rparr>"
| "run_cmd (CmdZAdd k score m) s = s\<lparr>ks_zset := (ks_zset s)(k := AList.update m score (ks_zset s k))\<rparr>"
| "run_cmd (CmdZRem k m) s = s\<lparr>ks_zset := (ks_zset s)(k := AList.delete m (ks_zset s k))\<rparr>"

definition run_cmds :: "redis_cmd list \<Rightarrow> keyspace \<Rightarrow> keyspace" where
  "run_cmds cmds s = fold run_cmd cmds s"

definition zsorted :: "(string \<times> int) list \<Rightarrow> (string \<times> int) list" where
  "zsorted zs = sort_key (\<lambda>(m, score). (score, m)) zs"

definition zslice :: "string list \<Rightarrow> int \<Rightarrow> int \<Rightarrow> string list" where
  "zslice ms start stop = take (nat (stop - start + 1)) (drop (nat start) ms)"

definition zbyscore :: "(string \<times> int) list \<Rightarrow> int \<Rightarrow> nat option \<Rightarrow> string list" where
  "zbyscore zs upper most =
     (let ms = map fst (filter (\<lambda>(m, score). score \<le> upper) (zsorted zs))
      in case most of None \<Rightarrow> ms | Some n \<Rightarrow> take n ms)"

text \<open>
  The documented behaviour of a server that answers: queries read the keyspace, commands change it,
  and \<open>EXEC\<close> runs the queued commands unless the watched key was touched, in which case it does nothing.
\<close>

definition redis_laws :: "'r redis_client \<Rightarrow> ('r \<Rightarrow> keyspace) \<Rightarrow> bool" where
  "redis_laws c view \<longleftrightarrow>
     (\<forall>r k. rd_Get c r k = Inr (ks_str (view r) k)) \<and>
     (\<forall>r k. rd_Exists c r k = Inr (if ks_str (view r) k = None then 0 else 1)) \<and>
     (\<forall>r ks. rd_MGet c r ks = Inr (map (ks_str (view r)) ks)) \<and>
     (\<forall>r k a b. rd_ZRange c r k a b = Inr (zslice (map fst (zsorted (ks_zset (view r) k))) a b)) \<and>
     (\<forall>r k a b. rd_ZRevRange c r k a b = Inr (zslice (rev (map fst (zsorted (ks_zset (view r) k)))) a b)) \<and>
     (\<forall>r. rd_eval c r = None) \<and>
     (\<forall>r k. rd_get c r k = ks_str (view r) k) \<and>
     (\<forall>r k x n. rd_zrangebyscore c r k x n = zbyscore (ks_zset (view r) k) x n) \<and>
     (\<forall>r cmd. view (rd_call c cmd r) = run_cmd cmd (view r)) \<and>
     (\<forall>k r0 r cmds t r'. rd_Exec c k r0 r cmds = (t, r') \<longrightarrow>
        t = TxDone \<and> ks_str (view r0) k = ks_str (view r) k \<and> view r' = run_cmds cmds (view r) \<or>
        t = TxFailed \<and> r' = r \<and> r0 \<noteq> r)"

text \<open>
  The texts of a set \<open>good\<close> are those both JSON libraries treat alike. \<open>encoding/json\<close> writes only such
  texts and decodes them to what it encoded. A script reads in them the fields of the job, and what
  it writes back is again such a text and decodes to the job with the fields it set. This leaves out
  payloads and results with empty arrays, which \<open>cjson\<close> writes back as objects, and numbers of more
  than 14 digits, which it rounds.
\<close>

definition json_laws :: "'r redis_env \<Rightarrow> (string \<Rightarrow> bool) \<Rightarrow> bool" where
  "json_laws e good \<longleftrightarrow> (\<forall>j raw. re_Marshal e j = Inr raw \<longrightarrow> re_Unmarshal e raw = Inr j \<and> good raw)"

definition started :: "'r redis_env \<Rightarrow> go_time \<Rightarrow> int \<Rightarrow> string \<Rightarrow> string" where
  "started e now attempts raw =
     re_cjson_encode e ((re_cjson_decode e raw)(''status'' := LStr ''running'',
       ''attempt'' := LNum (attempts + 1), ''started_at'' := LStr (re_FormatTime e now),
       ''updated_at'' := LStr (re_FormatTime e now)))"

definition cjson_laws :: "'r redis_env \<Rightarrow> (string \<Rightarrow> bool) \<Rightarrow> bool" where
  "cjson_laws e good \<longleftrightarrow>
     (\<forall>raw j now. good raw \<and> re_Unmarshal e raw = Inr j \<longrightarrow>
        re_cjson_decode e raw ''status'' = LStr (status_text (job_Status j)) \<and>
        re_cjson_decode e raw ''queue'' = LStr (job_Queue j) \<and>
        re_cjson_decode e raw ''type'' = LStr (job_Type j) \<and>
        re_cjson_decode e raw ''attempt'' = LNum (job_Attempt j) \<and>
        (waiting j \<longrightarrow> good (started e now (job_Attempt j) raw) \<and>
           re_Unmarshal e (started e now (job_Attempt j) raw) = Inr (job_claimed now j)))"

section \<open>The jobs a server holds\<close>

definition ks_abs :: "'r redis_env \<Rightarrow> keyspace \<Rightarrow> job_map" where
  "ks_abs e s i =
     (case ks_str s (jobKey e i) of
        None \<Rightarrow> None
      | Some raw \<Rightarrow> (case re_Unmarshal e raw of Inl _ \<Rightarrow> None | Inr j \<Rightarrow> Some j))"

text \<open>
  The invariant: every job is stored under its id; the available index lists exactly the waiting
  jobs, the terminal index exactly the finished ones, the created index all of them, each with the
  score of its time.
\<close>

definition index_ok :: "(job \<Rightarrow> int option) \<Rightarrow> job_map \<Rightarrow> (string \<times> int) list \<Rightarrow> bool" where
  "index_ok score m zs \<longleftrightarrow>
     distinct (map fst zs) \<and> (\<forall>i. map_of zs i = (case m i of None \<Rightarrow> None | Some j \<Rightarrow> score j))"

definition available_score :: "job \<Rightarrow> int option" where
  "available_score j = (if waiting j then Some (timeScore (job_AvailableAt j)) else None)"

definition terminal_score :: "job \<Rightarrow> int option" where
  "terminal_score j = (if IsTerminal (job_Status j) then map_option timeScore (job_CompletedAt j) else None)"

definition created_score :: "job \<Rightarrow> int option" where
  "created_score j = Some (timeScore (job_CreatedAt j))"

definition ks_inv :: "'r redis_env \<Rightarrow> (string \<Rightarrow> bool) \<Rightarrow> keyspace \<Rightarrow> bool" where
  "ks_inv e good s \<longleftrightarrow>
     (\<forall>i raw. ks_str s (jobKey e i) = Some raw \<longrightarrow> good raw \<and> (\<exists>j. re_Unmarshal e raw = Inr j \<and> job_ID j = i)) \<and>
     index_ok available_score (ks_abs e s) (ks_zset s (availableIndexKey e)) \<and>
     index_ok terminal_score (ks_abs e s) (ks_zset s (terminalIndexKey e)) \<and>
     index_ok created_score (ks_abs e s) (ks_zset s (createdIndexKey e))"

section \<open>Lemmas\<close>

lemma jobKey_inj [simp]: "jobKey e i = jobKey e i' \<longleftrightarrow> i = i'"
  by (simp add: jobKey_def)

lemma index_keys_distinct [simp]:
  "availableIndexKey e \<noteq> terminalIndexKey e" "availableIndexKey e \<noteq> createdIndexKey e"
  "terminalIndexKey e \<noteq> availableIndexKey e" "terminalIndexKey e \<noteq> createdIndexKey e"
  "createdIndexKey e \<noteq> availableIndexKey e" "createdIndexKey e \<noteq> terminalIndexKey e"
  by (simp_all add: availableIndexKey_def terminalIndexKey_def createdIndexKey_def)

lemma ks_abs_set [simp]:
  "re_Unmarshal e raw = Inr j \<Longrightarrow>
   ks_abs e (s\<lparr>ks_str := (ks_str s)(jobKey e i \<mapsto> raw)\<rparr>) = (ks_abs e s)(i \<mapsto> j)"
  by (simp add: ks_abs_def fun_eq_iff)

lemma ks_abs_del [simp]:
  "ks_abs e (s\<lparr>ks_str := (ks_str s)(jobKey e i := None)\<rparr>) = (ks_abs e s)(i := None)"
  by (simp add: ks_abs_def fun_eq_iff)

lemma ks_abs_zset [simp]: "ks_abs e (s\<lparr>ks_zset := z\<rparr>) = ks_abs e s"
  by (simp add: ks_abs_def fun_eq_iff)

lemma ks_inv_abs: "ks_inv e good s \<Longrightarrow> ks_abs e s i = Some j \<Longrightarrow> job_ID j = i"
  by (fastforce simp: ks_inv_def ks_abs_def split: option.splits sum.splits)

lemma ks_inv_raw:
  assumes "ks_inv e good s"
  shows "ks_str s (jobKey e i) = None \<longleftrightarrow> ks_abs e s i = None"
    and "ks_str s (jobKey e i) = Some raw \<Longrightarrow> \<exists>j. re_Unmarshal e raw = Inr j \<and> ks_abs e s i = Some j"
proof -
  have *: "\<forall>raw. ks_str s (jobKey e i) = Some raw \<longrightarrow> (\<exists>j. re_Unmarshal e raw = Inr j \<and> job_ID j = i)"
    using assms by (simp add: ks_inv_def)
  then show "ks_str s (jobKey e i) = None \<longleftrightarrow> ks_abs e s i = None"
    by (auto simp: ks_abs_def split: option.splits sum.splits)
  show "ks_str s (jobKey e i) = Some raw \<Longrightarrow> \<exists>j. re_Unmarshal e raw = Inr j \<and> ks_abs e s i = Some j"
    using * by (auto simp: ks_abs_def)
qed

subsection \<open>Indexes\<close>

lemma distinct_delete: "distinct (map fst zs) \<Longrightarrow> distinct (map fst (AList.delete k zs))"
  by (rule AList.distinct_delete)

text \<open>Removing a member and adding it again with the score of its new job.\<close>

lemma index_ok_sync:
  assumes "index_ok score m zs"
  shows "index_ok score (m(i \<mapsto> j)) (case score j of None \<Rightarrow> AList.delete i zs
    | Some n \<Rightarrow> AList.update i n (AList.delete i zs))"
  using assms
  by (auto simp: index_ok_def distinct_update distinct_delete update_conv' delete_conv' split: option.splits)

definition resync :: "(job \<Rightarrow> int option) \<Rightarrow> job \<Rightarrow> (string \<times> int) list \<Rightarrow> (string \<times> int) list" where
  "resync score j zs =
     (case score j of
        None \<Rightarrow> AList.delete (job_ID j) zs
      | Some n \<Rightarrow> AList.update (job_ID j) n (AList.delete (job_ID j) zs))"

lemma index_ok_resync:
  "index_ok score m zs \<Longrightarrow> job_ID j = i \<Longrightarrow> index_ok score (m(i \<mapsto> j)) (resync score j zs)"
  using index_ok_sync [of score m zs i j] by (auto simp: resync_def)

lemma index_ok_add:
  assumes "index_ok score m zs" and "score j = Some n"
  shows "index_ok score (m(i \<mapsto> j)) (AList.update i n zs)"
  using assms by (auto simp: index_ok_def distinct_update update_conv')

lemma index_ok_remove:
  "index_ok score m zs \<Longrightarrow> index_ok score (m(i := None)) (AList.delete i zs)"
  by (auto simp: index_ok_def distinct_delete delete_conv')

lemma index_ok_same:
  assumes "index_ok score m zs" and "m i = Some old" and "score j = score old"
  shows "index_ok score (m(i \<mapsto> j)) zs"
  using assms by (auto simp: index_ok_def)

lemma index_ok_lookup:
  assumes "index_ok score m zs" and "(i, n) \<in> set zs"
  shows "\<exists>j. m i = Some j \<and> score j = Some n"
proof -
  have "map_of zs i = Some n" by (rule map_of_is_SomeI) (use assms in \<open>simp_all add: index_ok_def\<close>)
  moreover have "map_of zs i = (case m i of None \<Rightarrow> None | Some j \<Rightarrow> score j)"
    using assms(1) by (simp only: index_ok_def)
  ultimately show ?thesis by (auto split: option.splits)
qed

text \<open>What the commands of a write do to the keyspace.\<close>

lemma run_syncIndexes:
  "run_cmds (syncIndexes e j) s =
     s\<lparr>ks_zset := (ks_zset s)
        (availableIndexKey e := resync available_score j (ks_zset s (availableIndexKey e)),
         terminalIndexKey e := resync terminal_score j (ks_zset s (terminalIndexKey e)))\<rparr>"
  by (auto simp: run_cmds_def syncIndexes_def available_score_def terminal_score_def waiting_def
      resync_def fun_upd_twist split: option.splits)

lemma run_cmds_Cons: "run_cmds (c # cs) s = run_cmds cs (run_cmd c s)"
  by (simp add: run_cmds_def)

lemma run_cmds_append: "run_cmds (cs @ ds) s = run_cmds ds (run_cmds cs s)"
  by (simp add: run_cmds_def)

lemma ks_inv_strings:
  assumes "ks_inv e good s" and "re_Unmarshal e raw = Inr j" and "job_ID j = i" and "good raw"
  shows "\<forall>k r. ((ks_str s)(jobKey e i \<mapsto> raw)) (jobKey e k) = Some r \<longrightarrow> good r \<and> (\<exists>j. re_Unmarshal e r = Inr j \<and> job_ID j = k)"
  using assms by (auto simp: ks_inv_def)

text \<open>The commands of an update, and of a creation, keep the invariant and store the job.\<close>

lemma ks_update:
  assumes "ks_inv e good s" and "re_Unmarshal e raw = Inr j" and "job_ID j = i" and "good raw"
    and "ks_abs e s i = Some old" and "job_CreatedAt j = job_CreatedAt old"
  defines "s' \<equiv> run_cmds (CmdSet (jobKey e i) raw # syncIndexes e j) s"
  shows "ks_inv e good s'" and "ks_abs e s' = (ks_abs e s)(i \<mapsto> j)"
proof -
  have abs: "ks_abs e s' = (ks_abs e s)(i \<mapsto> j)"
    using assms(2) by (simp add: s'_def run_cmds_Cons run_syncIndexes)
  show "ks_abs e s' = (ks_abs e s)(i \<mapsto> j)" by (rule abs)
  have created: "index_ok created_score ((ks_abs e s)(i \<mapsto> j)) (ks_zset s (createdIndexKey e))"
    by (rule index_ok_same [of _ _ _ _ old]) (use assms in \<open>simp_all add: ks_inv_def created_score_def\<close>)
  have "index_ok available_score ((ks_abs e s)(i \<mapsto> j)) (ks_zset s' (availableIndexKey e))"
    "index_ok terminal_score ((ks_abs e s)(i \<mapsto> j)) (ks_zset s' (terminalIndexKey e))"
    using assms(1,3) by (auto simp: s'_def run_cmds_Cons run_syncIndexes ks_inv_def intro: index_ok_resync)
  moreover have "ks_zset s' (createdIndexKey e) = ks_zset s (createdIndexKey e)"
    "ks_str s' = (ks_str s)(jobKey e i \<mapsto> raw)"
    by (simp_all add: s'_def run_cmds_Cons run_syncIndexes)
  ultimately show "ks_inv e good s'"
    using created ks_inv_strings [OF assms(1-4)] unfolding ks_inv_def abs by simp
qed

lemma ks_create:
  assumes "ks_inv e good s" and "re_Unmarshal e raw = Inr j" and "good raw"
  defines "s' \<equiv> run_cmds ([CmdSet (jobKey e (job_ID j)) raw,
      CmdZAdd (createdIndexKey e) (timeScore (job_CreatedAt j)) (job_ID j)] @ syncIndexes e j) s"
  shows "ks_inv e good s'" and "ks_abs e s' = (ks_abs e s)(job_ID j \<mapsto> j)"
proof -
  let ?i = "job_ID j"
  have abs: "ks_abs e s' = (ks_abs e s)(?i \<mapsto> j)"
    using assms(2) by (simp add: s'_def run_cmds_Cons run_syncIndexes)
  show "ks_abs e s' = (ks_abs e s)(?i \<mapsto> j)" by (rule abs)
  have "index_ok available_score ((ks_abs e s)(?i \<mapsto> j)) (ks_zset s' (availableIndexKey e))"
    "index_ok terminal_score ((ks_abs e s)(?i \<mapsto> j)) (ks_zset s' (terminalIndexKey e))"
    "index_ok created_score ((ks_abs e s)(?i \<mapsto> j)) (ks_zset s' (createdIndexKey e))"
    using assms(1) by (auto simp: s'_def run_cmds_Cons run_syncIndexes ks_inv_def created_score_def
        intro: index_ok_resync index_ok_add)
  moreover have "ks_str s' = (ks_str s)(jobKey e ?i \<mapsto> raw)"
    by (simp add: s'_def run_cmds_Cons run_syncIndexes)
  ultimately show "ks_inv e good s'"
    using ks_inv_strings [OF assms(1,2) refl assms(3)] unfolding ks_inv_def abs by simp
qed

subsection \<open>Optimistic updates\<close>

text \<open>The states other clients can bring the server to.\<close>

definition others_step :: "'r redis_env \<Rightarrow> 'r \<Rightarrow> 'r \<Rightarrow> bool" where
  "others_step e r r' = (\<exists>n. r' = re_others e n r)"

text \<open>The result of an optimistic write: it happened at once on a state that others left, or not at all.\<close>

definition atomic ::
    "'r redis_env \<Rightarrow> (string \<Rightarrow> bool) \<Rightarrow> ('r \<Rightarrow> keyspace) \<Rightarrow> (job_map \<Rightarrow> job \<Rightarrow> job_map \<Rightarrow> bool) \<Rightarrow> 'r \<Rightarrow> (go_error + job) \<Rightarrow> 'r \<Rightarrow> bool" where
  "atomic e good view change r res r' =
     (ks_inv e good (view r') \<and>
      (case res of
         Inl err \<Rightarrow> (others_step e)\<^sup>*\<^sup>* r r'
       | Inr j \<Rightarrow> \<exists>r1. (others_step e)\<^sup>*\<^sup>* r r1 \<and> change (ks_abs e (view r1)) j (ks_abs e (view r'))))"

lemma atomic_after: "others_step e r r1 \<Longrightarrow> atomic e good view change r1 res r' \<Longrightarrow> atomic e good view change r res r'"
  by (auto simp: atomic_def split: sum.splits intro: converse_rtranclp_into_rtranclp)

lemma retry_attempts_atomic:
  assumes inv: "\<And>n r. ks_inv e good (view r) \<Longrightarrow> ks_inv e good (view (re_others e n r))"
    and body: "\<And>n r. ks_inv e good (view r) \<Longrightarrow>
      (case body n r of
         (Done j, r') \<Rightarrow> ks_inv e good (view r') \<and> change (ks_abs e (view (re_others e n r))) j (ks_abs e (view r'))
       | (Again, r') \<Rightarrow> r' = re_others e n r
       | (Failed err, r') \<Rightarrow> r' = r)"
    and "ks_inv e good (view r)" and "retry_attempts body exhausted k r = (res, r')"
  shows "atomic e good view change r res r'"
  using assms(3,4)
proof (induction k arbitrary: r)
  case 0
  then show ?case by (auto simp: atomic_def)
next
  case (Suc k)
  obtain a r1 where b: "body (4 - k) r = (a, r1)" by force
  have step: "others_step e r (re_others e (4 - k) r)" by (auto simp: others_step_def)
  show ?case
  proof (cases a)
    case (Done j)
    with b body [OF Suc.prems(1), of "4 - k"] Suc.prems(2) step show ?thesis
      by (auto simp: atomic_def intro!: exI [of _ "re_others e (4 - k) r"])
  next
    case Again
    with b body [OF Suc.prems(1), of "4 - k"] Suc.prems(2) have r1: "r1 = re_others e (4 - k) r"
      "retry_attempts body exhausted k r1 = (res, r')" by auto
    then show ?thesis
      using Suc.IH [of r1] inv [OF Suc.prems(1)] step by (auto intro: atomic_after)
  next
    case (Failed err)
    with b body [OF Suc.prems(1), of "4 - k"] Suc.prems show ?thesis by (auto simp: atomic_def)
  qed
qed

lemma exec_cases:
  assumes "redis_laws c view" and "rd_Exec c k r0 r cmds = (t, r')"
  obtains "t = TxDone" "ks_str (view r0) k = ks_str (view r) k" "view r' = run_cmds cmds (view r)"
  | "t = TxFailed" "r' = r" "r0 \<noteq> r"
  using assms unfolding redis_laws_def by blast

lemma redis_queries:
  assumes "redis_laws c view"
  shows "rd_Get c r k = Inr (ks_str (view r) k)"
    "rd_Exists c r k = Inr (if ks_str (view r) k = None then 0 else 1)"
    "rd_MGet c r ks = Inr (map (ks_str (view r)) ks)"
    "rd_ZRange c r k a b = Inr (zslice (map fst (zsorted (ks_zset (view r) k))) a b)"
    "rd_ZRevRange c r k a b = Inr (zslice (rev (map fst (zsorted (ks_zset (view r) k)))) a b)"
    "rd_eval c r = None" "rd_get c r k = ks_str (view r) k"
    "rd_zrangebyscore c r k x n = zbyscore (ks_zset (view r) k) x n"
    "view (rd_call c cmd r) = run_cmd cmd (view r)"
  using assms by (simp_all add: redis_laws_def)

text \<open>What a mutation of a stored job keeps.\<close>

definition keeps_identity :: "(job \<Rightarrow> go_error + job) \<Rightarrow> bool" where
  "keeps_identity mutate \<longleftrightarrow>
     (\<forall>j j'. mutate j = Inr j' \<longrightarrow> job_ID j' = job_ID j \<and> job_CreatedAt j' = job_CreatedAt j)"

lemma setters_keep_identity:
  "keeps_identity (\<lambda>j. Inr (job_succeeded res now j))" "keeps_identity (\<lambda>j. Inr (job_retrying reason at now j))"
  "keeps_identity (\<lambda>j. Inr (job_failed reason now j))" "keeps_identity (job_canceled now)"
  "keeps_identity (job_requeued now)"
  by (auto simp: keeps_identity_def job_update_defs job_canceled_Ok job_requeued_Ok)

lemma update_attempt_atomic:
  assumes laws: "redis_laws (re_client e) view" "json_laws e good" and mutate: "keeps_identity mutate"
    and others: "\<And>n r. ks_inv e good (view r) \<Longrightarrow> ks_inv e good (view (re_others e n r))"
    and inv: "ks_inv e good (view r)"
  shows "case update_attempt e i mutate n r of
         (Done j, r') \<Rightarrow> ks_inv e good (view r') \<and>
            updates mutate i (ks_abs e (view (re_others e n r))) (Inr j) (ks_abs e (view r'))
       | (Again, r') \<Rightarrow> r' = re_others e n r
       | (Failed err, r') \<Rightarrow> r' = r"
proof (cases "ks_str (view r) (jobKey e i)")
  case None
  then show ?thesis by (simp add: update_attempt_def redis_queries [OF laws(1)])
next
  case (Some raw)
  obtain j where j: "re_Unmarshal e raw = Inr j" "ks_abs e (view r) i = Some j"
    using ks_inv_raw(2) [OF inv Some] by blast
  show ?thesis
  proof (cases "\<exists>j' enc. mutate j = Inr j' \<and> re_Marshal e j' = Inr enc")
    case False
    with Some j show ?thesis
      by (auto simp: update_attempt_def redis_queries [OF laws(1)] split: sum.splits)
  next
    case True
    then obtain j' enc where j': "mutate j = Inr j'" "re_Marshal e j' = Inr enc" by blast
    let ?cmds = "CmdSet (jobKey e i) enc # syncIndexes e j'" and ?r1 = "re_others e n r"
    obtain t r' where ex: "rd_Exec (re_client e) (jobKey e i) r ?r1 ?cmds = (t, r')" by force
    have eq: "update_attempt e i mutate n r = (tx_attempt t j', r')"
      using Some j j' ex by (simp add: update_attempt_def redis_queries [OF laws(1)])
    show ?thesis using laws(1) ex
    proof (cases rule: exec_cases)
      case 1
      have old: "ks_abs e (view ?r1) i = Some j" using 1(2) Some j by (simp add: ks_abs_def)
      have "re_Unmarshal e enc = Inr j'" "job_ID j' = i" "good enc" "job_CreatedAt j' = job_CreatedAt j"
        using laws(2) j' mutate ks_inv_abs [OF inv j(2)] by (auto simp: json_laws_def keeps_identity_def)
      note upd = ks_update [OF others [OF inv] this(1-3) old this(4)]
      show ?thesis
        using upd eq 1 j' old by (simp add: tx_attempt_def updates_Ok)
    next
      case 2
      then show ?thesis using eq by (simp add: tx_attempt_def)
    qed
  qed
qed

lemma updateJob_atomic:
  assumes "redis_laws (re_client e) view" "json_laws e good" "keeps_identity mutate"
    and others: "\<And>n r. ks_inv e good (view r) \<Longrightarrow> ks_inv e good (view (re_others e n r))"
    and "ks_inv e good (view r)" and "updateJob e r i mutate = (res, r')"
  shows "atomic e good view (\<lambda>m j m'. updates mutate i m (Inr j) m') r res r'"
proof (rule retry_attempts_atomic [where body = "update_attempt e i mutate" and k = 5])
  show "retry_attempts (update_attempt e i mutate)
      (EApp (app_msg ErrorCodeInternal ''failed to update job due to concurrent updates'')) 5 r = (res, r')"
    using assms(6) by (simp add: updateJob_def)
qed (use assms(5) others update_attempt_atomic [OF assms(1-4)] in \<open>auto\<close>)


text \<open>Creation: the job was absent from the state the transaction ran on.\<close>

lemma create_attempt_atomic:
  assumes laws: "redis_laws (re_client e) view" "json_laws e good" and enc: "re_Marshal e j = Inr raw"
    and others: "\<And>n r. ks_inv e good (view r) \<Longrightarrow> ks_inv e good (view (re_others e n r))"
    and inv: "ks_inv e good (view r)"
  shows "case create_attempt e j raw n r of
         (Done j', r') \<Rightarrow> ks_inv e good (view r') \<and>
            (j' = j \<and> ks_abs e (view (re_others e n r)) (job_ID j) = None \<and>
             ks_abs e (view r') = (ks_abs e (view (re_others e n r)))(job_ID j \<mapsto> j))
       | (Again, r') \<Rightarrow> r' = re_others e n r
       | (Failed err, r') \<Rightarrow> r' = r"
proof (cases "ks_str (view r) (jobKey e (job_ID j))")
  case (Some raw)
  then show ?thesis by (simp add: create_attempt_def redis_queries [OF laws(1)])
next
  case None
  let ?cmds = "[CmdSet (jobKey e (job_ID j)) raw,
      CmdZAdd (createdIndexKey e) (timeScore (job_CreatedAt j)) (job_ID j)] @ syncIndexes e j"
  let ?r1 = "re_others e n r"
  obtain t r' where ex: "rd_Exec (re_client e) (jobKey e (job_ID j)) r ?r1 ?cmds = (t, r')" by force
  have eq: "create_attempt e j raw n r = (tx_attempt t j, r')"
    using None ex by (simp add: create_attempt_def redis_queries [OF laws(1)])
  show ?thesis using laws(1) ex
  proof (cases rule: exec_cases)
    case 1
    have "ks_abs e (view ?r1) (job_ID j) = None" using 1(2) None by (simp add: ks_abs_def)
    moreover have "re_Unmarshal e raw = Inr j" "good raw" using laws(2) enc by (auto simp: json_laws_def)
    ultimately show ?thesis
      using ks_create [OF others [OF inv]] eq 1 by (simp add: tx_attempt_def)
  next
    case 2
    then show ?thesis using eq by (simp add: tx_attempt_def)
  qed
qed

lemma redis_Create_atomic:
  assumes "redis_laws (re_client e) view" "json_laws e good"
    and others: "\<And>n r. ks_inv e good (view r) \<Longrightarrow> ks_inv e good (view (re_others e n r))"
    and inv: "ks_inv e good (view r)" and eq: "redis_Create e r j = (res, r')"
  shows "atomic e good view
    (\<lambda>m j' m'. j' = j \<and> m (job_ID j) = None \<and> m' = m(job_ID j \<mapsto> j)) r res r'"
proof (cases "re_Marshal e j")
  case (Inl err)
  then show ?thesis using eq inv by (auto simp: redis_Create_def atomic_def)
next
  case (Inr raw)
  show ?thesis
  proof (rule retry_attempts_atomic [where body = "create_attempt e j raw" and k = 5])
    show "retry_attempts (create_attempt e j raw)
        (EApp (app_msg ErrorCodeInternal ''failed to create job due to concurrent updates'')) 5 r = (res, r')"
      using eq Inr by (simp add: redis_Create_def)
  qed (use inv others create_attempt_atomic [OF assms(1,2) Inr others] in \<open>auto\<close>)
qed

subsection \<open>A server of one's own\<close>

text \<open>Without other clients the first attempt decides.\<close>

definition quiet :: "'r redis_env \<Rightarrow> bool" where
  "quiet e \<longleftrightarrow> (\<forall>n r. re_others e n r = r)"

lemma exec_quiet:
  assumes "redis_laws c view" and "rd_Exec c k r r cmds = (t, r')"
  shows "t = TxDone" "view r' = run_cmds cmds (view r)"
  using assms by (auto elim: exec_cases)

lemma retry_attempts_first:
  assumes "body 0 r = (a, r')" and "a \<noteq> Again"
  shows "retry_attempts body exhausted 5 r =
    ((case a of Done x \<Rightarrow> Ok x | Failed err \<Rightarrow> Err err | Again \<Rightarrow> Err exhausted), r')"
  using assms by (cases a) (simp_all add: numeral_eq_Suc)

lemma updateJob_quiet:
  assumes laws: "redis_laws (re_client e) view" "json_laws e good" and "quiet e" and mutate: "keeps_identity mutate"
    and inv: "ks_inv e good (view r)" and eq: "updateJob e r i mutate = (res, r')"
  shows "ks_inv e good (view r') \<and>
    (updates mutate i (ks_abs e (view r)) res (ks_abs e (view r')) \<or>
     \<not> is_ok res \<and> ks_abs e (view r') = ks_abs e (view r))"
proof -
  have q: "re_others e n r = r" for n r using \<open>quiet e\<close> by (simp add: quiet_def)
  obtain a r1 where a: "update_attempt e i mutate 0 r = (a, r1)" by force
  have no_again: "a \<noteq> Again"
    using a by (auto simp: update_attempt_def q tx_attempt_def dest: exec_quiet(1) [OF laws(1)]
        split: sum.splits option.splits prod.splits tx_reply.splits)
  have res: "res = (case a of Done x \<Rightarrow> Ok x | Failed err \<Rightarrow> Err err |
      Again \<Rightarrow> Err (EApp (app_msg ErrorCodeInternal ''failed to update job due to concurrent updates'')))" "r' = r1"
    using eq retry_attempts_first [of "update_attempt e i mutate", OF a no_again]
    by (simp_all add: updateJob_def)
  have *: "case update_attempt e i mutate 0 r of
         (Done j, r') \<Rightarrow> ks_inv e good (view r') \<and>
            updates mutate i (ks_abs e (view r)) (Inr j) (ks_abs e (view r'))
       | (Again, r') \<Rightarrow> r' = r
       | (Failed err, r') \<Rightarrow> r' = r"
    by (rule update_attempt_atomic [OF laws mutate _ inv, of i 0, unfolded q])
  show ?thesis using * no_again inv by (cases a) (auto simp: a res)
qed

lemma redis_Create_quiet:
  assumes laws: "redis_laws (re_client e) view" "json_laws e good" and "quiet e"
    and inv: "ks_inv e good (view r)" and eq: "redis_Create e r j = (res, r')"
  shows "ks_inv e good (view r') \<and>
    (case res of
       Inl err \<Rightarrow> ks_abs e (view r') = ks_abs e (view r)
     | Inr j' \<Rightarrow> j' = j \<and> ks_abs e (view r) (job_ID j) = None \<and>
                 ks_abs e (view r') = (ks_abs e (view r))(job_ID j \<mapsto> j))"
proof -
  have q: "re_others e n r = r" for n r using \<open>quiet e\<close> by (simp add: quiet_def)
  have steps: "(others_step e)\<^sup>*\<^sup>* r r1 \<Longrightarrow> r1 = r" for r r1
    by (induction rule: rtranclp_induct) (auto simp: others_step_def q)
  from redis_Create_atomic [OF laws _ inv eq] q show ?thesis
    by (auto simp: atomic_def split: sum.splits dest: steps)
qed


subsection \<open>The claim script\<close>

text \<open>The jobs a script call with these filters may start.\<close>

definition script_allows :: "(string list) option \<Rightarrow> (string list) option \<Rightarrow> job \<Rightarrow> bool" where
  "script_allows qf tf j =
     ((case qf of None \<Rightarrow> True | Some qs \<Rightarrow> job_Queue j \<in> set qs) \<and>
      (case tf of None \<Rightarrow> True | Some ts \<Rightarrow> job_Type j \<in> set ts))"

lemma LStr_image [simp]: "LStr x \<in> LStr ` A \<longleftrightarrow> x \<in> A"
  by auto

lemma waiting_text:
  "waiting j \<Longrightarrow> status_text (job_Status j) = ''queued'' \<or> status_text (job_Status j) = ''scheduled''"
  by (auto simp: waiting_def)

text \<open>Starting a waiting job keeps the indexes right.\<close>

lemma ks_start:
  assumes inv: "ks_inv e good s" and "re_Unmarshal e raw = Inr (job_claimed now j)" and "good raw"
    and old: "ks_abs e s i = Some j" "waiting j"
  defines "s' \<equiv> run_cmd (CmdZRem (availableIndexKey e) i) (run_cmd (CmdSet (jobKey e i) raw) s)"
  shows "ks_inv e good s'" and "ks_abs e s' = (ks_abs e s)(i \<mapsto> job_claimed now j)"
proof -
  let ?j = "job_claimed now j"
  have id: "job_ID ?j = i" using ks_inv_abs [OF inv old(1)] by simp
  show abs: "ks_abs e s' = (ks_abs e s)(i \<mapsto> ?j)"
    using assms(2) by (simp add: s'_def)
  have none: "available_score ?j = None" "terminal_score ?j = terminal_score j" "created_score ?j = created_score j"
    using old(2) by (auto simp: available_score_def terminal_score_def created_score_def job_claimed_def waiting_def)
  have idx: "index_ok available_score (ks_abs e s) (ks_zset s (availableIndexKey e))"
    "index_ok terminal_score (ks_abs e s) (ks_zset s (terminalIndexKey e))"
    "index_ok created_score (ks_abs e s) (ks_zset s (createdIndexKey e))"
    using inv by (simp_all add: ks_inv_def)
  have "index_ok available_score ((ks_abs e s)(i \<mapsto> ?j)) (AList.delete i (ks_zset s (availableIndexKey e)))"
    using index_ok_sync [OF idx(1), of i ?j] by (simp add: none)
  moreover have "index_ok terminal_score ((ks_abs e s)(i \<mapsto> ?j)) (ks_zset s (terminalIndexKey e))"
    "index_ok created_score ((ks_abs e s)(i \<mapsto> ?j)) (ks_zset s (createdIndexKey e))"
    using index_ok_same [OF idx(2) old(1)] index_ok_same [OF idx(3) old(1)] none by auto
  ultimately show "ks_inv e good s'"
    using ks_inv_strings [OF inv assms(2) id assms(3)] unfolding ks_inv_def abs by (simp add: s'_def)
qed

lemma claim_id_spec:
  assumes laws: "redis_laws (re_client e) view" "cjson_laws e good" and inv: "ks_inv e good (view r)"
    and old: "ks_abs e (view r) i = Some j" "waiting j"
    and eq: "claim_id e (re_FormatTime e now) qf tf i r = (c, r')"
  shows "if script_allows qf tf j
    then (\<exists>raw. c = Some raw \<and> re_Unmarshal e raw = Inr (job_claimed now j)) \<and> ks_inv e good (view r') \<and>
         ks_abs e (view r') = (ks_abs e (view r))(i \<mapsto> job_claimed now j)
    else c = None \<and> r' = r"
proof -
  obtain raw where raw: "ks_str (view r) (jobKey e i) = Some raw" "re_Unmarshal e raw = Inr j"
    using old by (auto simp: ks_abs_def split: option.splits sum.splits)
  have "good raw" using inv raw(1) by (simp add: ks_inv_def)
  with laws(2) raw(2) old(2) have f: "re_cjson_decode e raw ''status'' = LStr (status_text (job_Status j))"
    "re_cjson_decode e raw ''queue'' = LStr (job_Queue j)" "re_cjson_decode e raw ''type'' = LStr (job_Type j)"
    "re_cjson_decode e raw ''attempt'' = LNum (job_Attempt j)" "good (started e now (job_Attempt j) raw)"
    "re_Unmarshal e (started e now (job_Attempt j) raw) = Inr (job_claimed now j)"
    unfolding cjson_laws_def by blast+
  have w: "status_text (job_Status j) = ''queued'' \<or> status_text (job_Status j) = ''scheduled''"
    by (rule waiting_text [OF old(2)])
  have allowed: "(case qf of None \<Rightarrow> True | Some qs \<Rightarrow> LStr (job_Queue j) \<in> LStr ` set qs) \<and>
        (case tf of None \<Rightarrow> True | Some ts \<Rightarrow> LStr (job_Type j) \<in> LStr ` set ts) \<longleftrightarrow> script_allows qf tf j"
    by (auto simp: script_allows_def split: option.splits)
  have run: "(c, r') = (if script_allows qf tf j
      then (Some (started e now (job_Attempt j) raw),
        rd_call (re_client e) (CmdZRem (availableIndexKey e) i)
          (rd_call (re_client e) (CmdSet (jobKey e i) (started e now (job_Attempt j) raw)) r))
      else (None, r))"
    unfolding eq [symmetric] claim_id_def redis_queries(7) [OF laws(1)] jobKey_def [symmetric] raw(1)
      option.case Let_def f(1-4) lua_value.case lua_value.inject if_P [OF w] allowed started_def ..
  show ?thesis
    using run ks_start [OF inv f(6,5) old] f(6) by (auto simp: redis_queries [OF laws(1)])
qed

lemma claim_ids_spec:
  assumes laws: "redis_laws (re_client e) view" "cjson_laws e good"
    and "ks_inv e good (view r)" "distinct is" "\<forall>i\<in>set is. \<exists>j. ks_abs e (view r) i = Some j \<and> waiting j"
    and "claim_ids e (re_FormatTime e now) qf tf is r = (cs, r')"
  defines "chosen \<equiv> filter (\<lambda>i. script_allows qf tf (the (ks_abs e (view r) i))) is"
  shows "ks_inv e good (view r') \<and>
    decode_all (re_Unmarshal e) (map Some cs) = Inr (map (\<lambda>i. job_claimed now (the (ks_abs e (view r) i))) chosen) \<and>
    ks_abs e (view r') =
      (\<lambda>i. if i \<in> set chosen then map_option (job_claimed now) (ks_abs e (view r) i) else ks_abs e (view r) i)"
  using assms(3-6) unfolding chosen_def
proof (induction "is" arbitrary: r cs)
  case Nil
  then show ?case by auto
next
  case (Cons i "is")
  obtain c r1 where c: "claim_id e (re_FormatTime e now) qf tf i r = (c, r1)" by force
  obtain cs1 r2 where rec: "claim_ids e (re_FormatTime e now) qf tf is r1 = (cs1, r2)" by force
  have res: "cs = (case c of None \<Rightarrow> cs1 | Some x \<Rightarrow> x # cs1)" "r' = r2"
    using Cons.prems(4) c rec by simp_all
  obtain j where j: "ks_abs e (view r) i = Some j" "waiting j" using Cons.prems(3) by auto
  note one = claim_id_spec [OF laws Cons.prems(1) j c]
  have same: "ks_abs e (view r1) k = ks_abs e (view r) k" if "k \<in> set is" for k
    using one that Cons.prems(2) by (auto split: if_splits)
  have inv1: "ks_inv e good (view r1)" using one Cons.prems(1) by (auto split: if_splits)
  have wait1: "\<forall>k\<in>set is. \<exists>j. ks_abs e (view r1) k = Some j \<and> waiting j" using Cons.prems(3) same by simp
  let ?P = "\<lambda>i. script_allows qf tf (the (ks_abs e (view r) i))"
  have ch: "filter (\<lambda>i. script_allows qf tf (the (ks_abs e (view r1) i))) is = filter ?P is"
    using same by (simp cong: filter_cong)
  have js: "map (\<lambda>i. job_claimed now (the (ks_abs e (view r1) i))) (filter ?P is) =
      map (\<lambda>i. job_claimed now (the (ks_abs e (view r) i))) (filter ?P is)" using same by simp
  note IH = Cons.IH [OF inv1 _ wait1, of cs1, unfolded ch js]
  have abs: "ks_abs e (view r') = (\<lambda>k. if k \<in> set (filter ?P is) then map_option (job_claimed now) (ks_abs e (view r) k)
      else ks_abs e (view r1) k)"
    using IH Cons.prems(2) rec res same by (auto simp: fun_eq_iff)
  show ?case
    using IH abs Cons.prems(2) rec res one j by (auto simp: fun_eq_iff split: if_splits)
qed


lemma zbyscore_members:
  assumes "index_ok score m zs"
  shows "distinct (zbyscore zs upper most)"
    and "i \<in> set (zbyscore zs upper most) \<Longrightarrow> \<exists>j n. m i = Some j \<and> score j = Some n \<and> n \<le> upper"
    and "most = Some k \<Longrightarrow> length (zbyscore zs upper most) \<le> k"
proof -
  have "mset (map fst (zsorted zs)) = mset (map fst zs)" by (simp add: zsorted_def)
  then have d: "distinct (map fst (zsorted zs))"
    using assms by (metis index_ok_def mset_eq_imp_distinct_iff)
  then show "distinct (zbyscore zs upper most)"
    by (simp add: zbyscore_def Let_def distinct_map_filter split: option.split)
  show "\<exists>j n. m i = Some j \<and> score j = Some n \<and> n \<le> upper" if i: "i \<in> set (zbyscore zs upper most)"
  proof -
    from i have "i \<in> set (map fst (filter (\<lambda>(m, score). score \<le> upper) (zsorted zs)))"
      by (cases most) (auto simp: zbyscore_def Let_def dest: in_set_takeD)
    then obtain n where "(i, n) \<in> set zs" "n \<le> upper" by (auto simp: zsorted_def)
    with index_ok_lookup [OF assms] show ?thesis by blast
  qed
  show "most = Some k \<Longrightarrow> length (zbyscore zs upper most) \<le> k" by (simp add: zbyscore_def)
qed

text \<open>Exactly what a claim does to the stored jobs, and the indexes it leaves.\<close>

lemma redis_ClaimReady_exact:
  assumes laws: "redis_laws (re_client e) view" "cjson_laws e good" and inv: "ks_inv e good (view r)"
    and eq: "redis_ClaimReady e r now limit f = (res, r')" and "0 < limit"
  defines "due \<equiv> zbyscore (ks_zset (view r) (availableIndexKey e)) (timeScore now) (Some (nat limit))"
  defines "chosen \<equiv> filter (\<lambda>i. script_allows (filter_arg (cf_Queues f)) (filter_arg (cf_Types f))
      (the (ks_abs e (view r) i))) due"
  shows "ks_inv e good (view r')"
    and "res = Inr (map (\<lambda>i. job_claimed now (the (ks_abs e (view r) i))) chosen)"
    and "ks_abs e (view r') =
      (\<lambda>i. if i \<in> set chosen then map_option (job_claimed now) (ks_abs e (view r) i) else ks_abs e (view r) i)"
    and "i \<in> set due \<Longrightarrow> \<exists>j. ks_abs e (view r) i = Some j \<and> waiting j \<and> timeScore (job_AvailableAt j) \<le> timeScore now"
    and "distinct due" and "length due \<le> nat limit"
proof -
  have idx: "index_ok available_score (ks_abs e (view r)) (ks_zset (view r) (availableIndexKey e))"
    using inv by (simp add: ks_inv_def)
  show due: "i \<in> set due \<Longrightarrow> \<exists>j. ks_abs e (view r) i = Some j \<and> waiting j \<and>
      timeScore (job_AvailableAt j) \<le> timeScore now" for i
    using zbyscore_members(2) [OF idx, of i] unfolding due_def
    by (fastforce simp: available_score_def split: if_splits)
  show d: "distinct due" unfolding due_def by (rule zbyscore_members(1) [OF idx])
  show "length due \<le> nat limit" unfolding due_def by (rule zbyscore_members(3) [OF idx refl])
  obtain cs r1 where run: "claim_ids e (re_FormatTime e now) (filter_arg (cf_Queues f)) (filter_arg (cf_Types f)) due r = (cs, r1)"
    by force
  have res: "res = decode_all (re_Unmarshal e) (map Some cs)" "r' = r1"
    using eq run \<open>0 < limit\<close> by (auto simp: redis_ClaimReady_def claimReadyScript_def redis_queries [OF laws(1)] due_def)
  have "\<forall>i\<in>set due. \<exists>j. ks_abs e (view r) i = Some j \<and> waiting j" using due by blast
  note spec = claim_ids_spec [OF laws inv d this run, folded chosen_def]
  then show "ks_inv e good (view r')"
    and "res = Inr (map (\<lambda>i. job_claimed now (the (ks_abs e (view r) i))) chosen)"
    and "ks_abs e (view r') =
      (\<lambda>i. if i \<in> set chosen then map_option (job_claimed now) (ks_abs e (view r) i) else ks_abs e (view r) i)"
    using res by auto
qed

lemma script_allows_filter:
  "no_blanks f \<Longrightarrow> script_allows (filter_arg (cf_Queues f)) (filter_arg (cf_Types f)) j \<longleftrightarrow> filter_allows f j"
proof -
  assume "no_blanks f"
  then have "filter (\<lambda>q. q \<noteq> []) (cf_Queues f) = cf_Queues f" "filter (\<lambda>q. q \<noteq> []) (cf_Types f) = cf_Types f"
    by (auto simp: no_blanks_def filter_id_conv)
  then show ?thesis by (auto simp: script_allows_def filter_allows_def filter_arg_def)
qed

lemma redis_claims:
  assumes laws: "redis_laws (re_client e) view" "cjson_laws e good" and inv: "ks_inv e good (view r)"
    and eq: "redis_ClaimReady e r now limit f = (res, r')"
  shows "ks_inv e good (view r') \<and>
    (\<exists>js. res = Inr js \<and> claims_ready now limit f (ks_abs e (view r)) js (ks_abs e (view r')))"
proof (cases "0 < limit")
  case False
  with eq inv show ?thesis by (auto simp: redis_ClaimReady_def claims_ready_def)
next
  case True
  let ?due = "zbyscore (ks_zset (view r) (availableIndexKey e)) (timeScore now) (Some (nat limit))"
  let ?m = "ks_abs e (view r)"
  let ?P = "\<lambda>i. script_allows (filter_arg (cf_Queues f)) (filter_arg (cf_Types f)) (the (?m i))"
  let ?js = "map (\<lambda>i. job_claimed now (the (?m i))) (filter ?P ?due)"
  note ex = redis_ClaimReady_exact [OF laws inv eq True]
  have id: "job_ID (the (?m i)) = i" if "i \<in> set ?due" for i
    using ex(4) [OF that] ks_inv_abs [OF inv] by fastforce
  then have ids: "map job_ID ?js = filter ?P ?due" by (auto intro!: map_idI)
  have "claims_ready now limit f ?m ?js (ks_abs e (view r'))"
    unfolding claims_ready_def
  proof (intro conjI ballI allI impI)
    show "distinct (map job_ID ?js)" unfolding ids using ex(5) by simp
    show "int (length ?js) \<le> max 0 limit"
      using le_trans [OF length_filter_le [of ?P ?due] ex(6)] True by simp
  next
    fix j assume "j \<in> set ?js"
    then obtain i where i: "i \<in> set ?due" "?P i" "j = job_claimed now (the (?m i))" by auto
    obtain old where old: "?m i = Some old" "waiting old" using ex(4) [OF i(1)] by blast
    then show "\<exists>old. ?m (job_ID j) = Some old \<and> waiting old \<and> (no_blanks f \<longrightarrow> filter_allows f old) \<and>
        j = job_claimed now old \<and> ks_abs e (view r') (job_ID j) = Some j"
      using i id [OF i(1)] ex(3) script_allows_filter by auto
  next
    fix i assume "i \<notin> job_ID ` set ?js"
    then have "i \<notin> set (filter ?P ?due)" by (metis ids set_map)
    then have "ks_abs e (view r') i = ?m i" unfolding ex(3) by (rule if_not_P)
    then show "ks_abs e (view r') i = ?m i \<or> ks_abs e (view r') i = map_option (promote now) (?m i)" ..
  qed
  with ex(1,2) show ?thesis by blast
qed

subsection \<open>The prune script\<close>

lemma ks_remove:
  fixes i :: string
  assumes "ks_inv e good s"
  defines "s' \<equiv> run_cmd (CmdZRem (terminalIndexKey e) i) (run_cmd (CmdZRem (availableIndexKey e) i)
      (run_cmd (CmdZRem (createdIndexKey e) i) (run_cmd (CmdDel (jobKey e i)) s)))"
  shows "ks_inv e good s'" and "ks_abs e s' = (ks_abs e s)(i := None)"
proof -
  show abs: "ks_abs e s' = (ks_abs e s)(i := None)" by (simp add: s'_def)
  show "ks_inv e good s'"
    using assms(1) unfolding ks_inv_def abs by (auto simp: s'_def index_ok_remove)
qed

lemma prune_ids_spec:
  assumes "redis_laws (re_client e) view" and "ks_inv e good (view r)"
    and "prune_ids e is removed r = (res, r')"
  shows "ks_inv e good (view r') \<and> res = removed + int (length is) \<and>
    ks_abs e (view r') = (\<lambda>i. if i \<in> set is then None else ks_abs e (view r) i)"
  using assms(2,3)
proof (induction "is" arbitrary: removed r)
  case Nil
  then show ?case by auto
next
  case (Cons i "is")
  let ?c = "rd_call (re_client e)"
  let ?r = "?c (CmdZRem (terminalIndexKey e) i) (?c (CmdZRem (availableIndexKey e) i)
      (?c (CmdZRem (createdIndexKey e) i) (?c (CmdDel (jobKey e i)) r)))"
  have *: "ks_inv e good (view ?r)" "ks_abs e (view ?r) = (ks_abs e (view r))(i := None)"
    using ks_remove [OF Cons.prems(1)] by (simp_all only: redis_queries(9) [OF assms(1)])
  have "prune_ids e is (removed + 1) ?r = (res, r')" using Cons.prems(2) by (simp add: jobKey_def Let_def)
  from Cons.IH [OF *(1) this] show ?case unfolding *(2) by auto
qed

lemma redis_prune_exact:
  assumes laws: "redis_laws (re_client e) view" and inv: "ks_inv e good (view r)"
    and eq: "redis_PruneTerminalBefore e r cutoff = (res, r')"
  defines "old \<equiv> zbyscore (ks_zset (view r) (terminalIndexKey e)) (timeScore cutoff) None"
  shows "ks_inv e good (view r')" and "res = Inr (int (length old))"
    and "ks_abs e (view r') = (\<lambda>i. if i \<in> set old then None else ks_abs e (view r) i)"
    and "i \<in> set old \<Longrightarrow> \<exists>j t. ks_abs e (view r) i = Some j \<and> IsTerminal (job_Status j) \<and>
          job_CompletedAt j = Some t \<and> timeScore t \<le> timeScore cutoff"
proof -
  have idx: "index_ok terminal_score (ks_abs e (view r)) (ks_zset (view r) (terminalIndexKey e))"
    using inv by (simp add: ks_inv_def)
  show "i \<in> set old \<Longrightarrow> \<exists>j t. ks_abs e (view r) i = Some j \<and> IsTerminal (job_Status j) \<and>
          job_CompletedAt j = Some t \<and> timeScore t \<le> timeScore cutoff"
    using zbyscore_members(2) [OF idx, of i] unfolding old_def
    by (fastforce simp: terminal_score_def split: if_splits)
  obtain n r1 where run: "prune_ids e old 0 r = (n, r1)" by force
  have "res = Inr n" "r' = r1"
    using eq run by (auto simp: redis_PruneTerminalBefore_def pruneTerminalScript_def redis_queries [OF laws] old_def)
  with prune_ids_spec [OF laws inv run]
  show "ks_inv e good (view r')" "res = Inr (int (length old))"
    "ks_abs e (view r') = (\<lambda>i. if i \<in> set old then None else ks_abs e (view r) i)" by auto
qed


subsection \<open>Listing in batches\<close>

text \<open>The stored jobs, the latest first.\<close>

definition newest_first :: "'r redis_env \<Rightarrow> keyspace \<Rightarrow> job list" where
  "newest_first e s = map (\<lambda>i. the (ks_abs e s i)) (rev (map fst (zsorted (ks_zset s (createdIndexKey e)))))"

text \<open>What \<open>List\<close> has collected and skipped after the jobs \<open>js\<close>.\<close>

definition page :: "job_filter \<Rightarrow> job list \<Rightarrow> job list \<times> int" where
  "page f js = (drop (nat (jf_Offset f)) (filter (job_matches f) js),
     int (min (nat (jf_Offset f)) (length (filter (job_matches f) js))))"

lemma page_stops:
  assumes "job_matches f j" "nat (jf_Offset f) \<le> length (filter (job_matches f) done_js)"
    and "int (length (fst (page f done_js))) < limit" "limit \<le> int (length (fst (page f (done_js @ [j]))))"
  shows "list_jobs f limit (j # js) (page f done_js) = (True, page f (done_js @ [j])) \<and>
    limit \<le> int (length (fst (page f (done_js @ j # js)))) \<and>
    take (nat limit) (fst (page f (done_js @ j # js))) = fst (page f (done_js @ [j]))"
proof -
  let ?n = "nat (jf_Offset f)" and ?ms = "filter (job_matches f) done_js"
  have p: "page f done_js = (drop ?n ?ms, int ?n)" "page f (done_js @ [j]) = (drop ?n ?ms @ [j], int ?n)"
    "page f (done_js @ j # js) = ((drop ?n ?ms @ [j]) @ filter (job_matches f) js, int ?n)"
    using assms(1,2) by (simp_all add: page_def)
  have "nat limit = length (drop ?n ?ms @ [j])" using assms(3,4) unfolding p by simp
  then have "take (nat limit) (fst (page f (done_js @ j # js))) = drop ?n ?ms @ [j]"
    unfolding p fst_conv by (simp only: take_append) simp
  moreover have "list_jobs f limit (j # js) (page f done_js) = (True, drop ?n ?ms @ [j], int ?n)"
    using assms unfolding p by (simp add: Let_def)
  ultimately show ?thesis using assms(4) unfolding p by simp
qed

lemma list_jobs_page:
  assumes "int (length (fst (page f done_js))) < limit"
  shows "let js' = done_js @ js in
    if limit \<le> int (length (fst (page f js')))
    then fst (list_jobs f limit js (page f done_js)) \<and>
         fst (snd (list_jobs f limit js (page f done_js))) = take (nat limit) (fst (page f js'))
    else list_jobs f limit js (page f done_js) = (False, page f js')"
  using assms
proof (induction js arbitrary: done_js)
  case Nil
  then show ?case by simp
next
  case (Cons j js)
  let ?n = "nat (jf_Offset f)" and ?ms = "filter (job_matches f) done_js"
  note IH = Cons.IH [of "done_js @ [j]", unfolded append.assoc append_Cons append_Nil]
  consider (other) "\<not> job_matches f j" | (skip) "job_matches f j" "length ?ms < ?n"
    | (take) "job_matches f j" "?n \<le> length ?ms" by linarith
  then show ?case
  proof cases
    case other
    then have p: "page f (done_js @ [j]) = page f done_js" by (simp add: page_def)
    have eq: "list_jobs f limit (j # js) (page f done_js) = list_jobs f limit js (page f (done_js @ [j]))"
      unfolding p using other by (cases "page f done_js") simp
    show ?thesis unfolding eq by (rule IH) (use Cons.prems p in simp)
  next
    case skip
    then have p: "page f done_js = ([], int (length ?ms))" "page f (done_js @ [j]) = ([], int (length ?ms) + 1)"
      by (simp_all add: page_def)
    have eq: "list_jobs f limit (j # js) (page f done_js) = list_jobs f limit js (page f (done_js @ [j]))"
      unfolding p using skip by (simp add: zless_nat_eq_int_zless)
    show ?thesis unfolding eq by (rule IH) (use Cons.prems p in simp)
  next
    case take
    show ?thesis
    proof (cases "limit \<le> int (length (fst (page f (done_js @ [j]))))")
      case True
      with page_stops [OF take Cons.prems] show ?thesis by simp
    next
      case False
      then have eq: "list_jobs f limit (j # js) (page f done_js) = list_jobs f limit js (page f (done_js @ [j]))"
        using take by (simp add: page_def)
      show ?thesis unfolding eq by (rule IH) (use False in simp)
    qed
  qed
qed

lemma decode_all_Some:
  assumes "\<forall>raw\<in>set raws. \<exists>j. dec raw = Inr j"
  shows "decode_all dec (map Some raws) = Inr (map (\<lambda>raw. projr (dec raw)) raws)"
  using assms by (induction raws) auto

text \<open>Loading ids of the created index gives their jobs.\<close>

lemma loadJobs_indexed:
  assumes laws: "redis_laws (re_client e) view" and inv: "ks_inv e good (view r)"
    and ids: "set ids \<subseteq> fst ` set (ks_zset (view r) (createdIndexKey e))"
  shows "loadJobsByIDs e r ids = Inr (map (\<lambda>i. the (ks_abs e (view r) i)) ids)"
proof -
  have "\<exists>j raw. ks_str (view r) (jobKey e i) = Some raw \<and> re_Unmarshal e raw = Inr j \<and> ks_abs e (view r) i = Some j"
    if i: "i \<in> set ids" for i
  proof -
    have "index_ok created_score (ks_abs e (view r)) (ks_zset (view r) (createdIndexKey e))"
      using inv by (simp add: ks_inv_def)
    moreover obtain n where "(i, n) \<in> set (ks_zset (view r) (createdIndexKey e))" using ids i by fastforce
    ultimately have "ks_abs e (view r) i \<noteq> None" using index_ok_lookup by fastforce
    then show ?thesis by (auto simp: ks_abs_def split: option.splits sum.splits)
  qed
  then have "decode_all (re_Unmarshal e) (map (ks_str (view r)) (map (jobKey e) ids)) =
      Inr (map (\<lambda>i. the (ks_abs e (view r) i)) ids)"
    by (induction ids) fastforce+
  then show ?thesis by (simp add: loadJobsByIDs_def redis_queries [OF laws])
qed


lemma zslice_batch: "zslice ms (int start) (int (start + redisListBatchSize) - 1) = take 250 (drop start ms)"
  by (simp add: zslice_def redisListBatchSize_def)

lemma page_take:
  assumes "limit \<le> int (length (fst (page f (take n js))))"
  shows "take (nat limit) (fst (page f (take n js))) = take (nat limit) (fst (page f js))"
proof -
  have "fst (page f js) = fst (page f (take n js)) @
      drop (nat (jf_Offset f) - length (filter (job_matches f) (take n js))) (filter (job_matches f) (drop n js))"
    by (simp add: page_def flip: filter_append drop_append)
  with assms show ?thesis by simp
qed

text \<open>One batch of \<open>List\<close>, and the next ones, while there is fuel for the batches left.\<close>

lemma list_batches_step:
  assumes laws: "redis_laws (re_client e) view" and inv: "ks_inv e good (view r)" and js: "js = newest_first e (view r)"
  shows "list_batches e r f limit (Suc fuel) start acc =
      (if length js \<le> start then Some (Ok (fst acc))
       else case list_jobs f limit (take 250 (drop start js)) acc of
              (True, acc') \<Rightarrow> Some (Ok (fst acc'))
            | (False, acc') \<Rightarrow> if length js < start + 250 then Some (Ok (fst acc'))
                else list_batches e r f limit fuel (start + 250) acc')"
proof -
  let ?ids = "rev (map fst (zsorted (ks_zset (view r) (createdIndexKey e))))"
  let ?batch = "take 250 (drop start ?ids)"
  have range: "rd_ZRevRange (re_client e) r (createdIndexKey e) (int start) (int (start + redisListBatchSize) - 1) = Inr ?batch"
    unfolding redis_queries(5) [OF laws] zslice_batch ..
  have sub: "set ?batch \<subseteq> fst ` set (ks_zset (view r) (createdIndexKey e))"
    by (auto simp: zsorted_def dest!: in_set_takeD in_set_dropD)
  have load: "loadJobsByIDs e r ?batch = Inr (take 250 (drop start js))"
    unfolding loadJobs_indexed [OF laws inv sub] by (simp add: js newest_first_def take_map drop_map)
  have "length ?ids = length js" by (simp add: js newest_first_def)
  then have len: "length ?batch = 0 \<longleftrightarrow> length js \<le> start" "length ?batch < 250 \<longleftrightarrow> length js < start + 250"
    by auto
  show ?thesis
    unfolding list_batches.simps(2) range sum.case load unfolding redisListBatchSize_def len ..
qed

lemma list_batches_page:
  assumes laws: "redis_laws (re_client e) view" and inv: "ks_inv e good (view r)"
    and js: "js = newest_first e (view r)"
    and "start \<le> length js" "length js < start + 250 * fuel" "int (length (fst (page f (take start js)))) < limit"
  shows "list_batches e r f limit fuel start (page f (take start js)) = Some (Ok (take (nat limit) (fst (page f js))))"
  using assms(4-6)
proof (induction fuel arbitrary: start)
  case 0
  then show ?case by simp
next
  case (Suc fuel)
  let ?next = "take (start + 250) js" and ?read = "list_jobs f limit (take 250 (drop start js)) (page f (take start js))"
  note step = list_batches_step [OF laws inv js]
  have next_js: "take start js @ take 250 (drop start js) = ?next" by (simp add: take_add)
  note lp = list_jobs_page [OF Suc.prems(3), of "take 250 (drop start js)", unfolded next_js Let_def]
  consider (all) "start = length js" | (full) "start < length js" "limit \<le> int (length (fst (page f ?next)))"
    | (last) "start < length js" "int (length (fst (page f ?next))) < limit" "length js < start + 250"
    | (more) "start < length js" "int (length (fst (page f ?next))) < limit" "start + 250 \<le> length js"
    using Suc.prems(1) by linarith
  then show ?case
  proof cases
    case all
    then show ?thesis unfolding step using Suc.prems(3) by simp
  next
    case full
    with lp obtain acc where "?read = (True, acc)" "fst acc = take (nat limit) (fst (page f ?next))"
      by (cases ?read) auto
    then show ?thesis unfolding step using full page_take [OF full(2)] by simp
  next
    case last
    with lp have "?read = (False, page f ?next)" by simp
    then show ?thesis unfolding step using last by simp
  next
    case more
    with lp have "?read = (False, page f ?next)" by simp
    moreover have "list_batches e r f limit fuel (start + 250) (page f ?next) = Some (Ok (take (nat limit) (fst (page f js))))"
      using Suc.IH [of "start + 250"] Suc.prems(2) more by simp
    ultimately show ?thesis unfolding step using more by simp
  qed
qed

lemma stats_batches_all:
  assumes laws: "redis_laws (re_client e) view" and inv: "ks_inv e good (view r)"
    and js: "js = rev (newest_first e (view r))"
    and "start \<le> length js" "length js < start + 250 * fuel"
  shows "stats_batches e r fuel start (fold add_job_stats (take start js) st) = Some (Ok (fold add_job_stats js st))"
  using assms(4,5)
proof (induction fuel arbitrary: start)
  case 0
  then show ?case by simp
next
  case (Suc fuel)
  let ?ids = "map fst (zsorted (ks_zset (view r) (createdIndexKey e)))"
  let ?batch = "take 250 (drop start ?ids)" and ?st = "\<lambda>n. fold add_job_stats (take n js) st"
  have range: "rd_ZRange (re_client e) r (createdIndexKey e) (int start) (int (start + redisListBatchSize) - 1) = Inr ?batch"
    unfolding redis_queries(4) [OF laws] zslice_batch ..
  have sub: "set ?batch \<subseteq> fst ` set (ks_zset (view r) (createdIndexKey e))"
    by (auto simp: zsorted_def dest!: in_set_takeD in_set_dropD)
  have load: "loadJobsByIDs e r ?batch = Inr (take 250 (drop start js))"
    unfolding loadJobs_indexed [OF laws inv sub] by (simp add: js newest_first_def take_map drop_map rev_map)
  have len: "length ?ids = length js" by (simp add: js newest_first_def)
  have acc: "fold add_job_stats (take 250 (drop start js)) (?st start) = ?st (start + 250)"
    by (simp add: take_add)
  have step: "stats_batches e r (Suc fuel) start (?st start) =
      (if length ?batch = 0 then Some (Ok (?st start))
       else if length ?batch < 250 then Some (Ok (?st (start + 250)))
       else stats_batches e r fuel (start + 250) (?st (start + 250)))"
    unfolding stats_batches.simps(2) range sum.case load Let_def acc unfolding redisListBatchSize_def ..
  consider "start = length js" | "start < length js" "length js < start + 250" | "start + 250 \<le> length js"
    using Suc.prems(1) by linarith
  then show ?case
  proof cases
    case 1
    then show ?thesis unfolding step using len by simp
  next
    case 2
    then have "length js - start < 250" by linarith
    with 2 show ?thesis unfolding step using len by simp
  next
    case 3
    then have "stats_batches e r fuel (start + 250) (?st (start + 250)) = Some (Ok (fold add_job_stats js st))"
      using Suc.IH [of "start + 250"] Suc.prems(2) by simp
    with 3 show ?thesis unfolding step using len by simp
  qed
qed

end
