(* ===== verification/Jobs_Redis_Store.thy ===== *)
theory Jobs_Redis_Store
  imports Jobs_Redis
begin

text \<open>
  What the Redis store of \<open>pkg/jobs/redis_store.go\<close> guarantees: it implements \<open>Store\<close>, its optimistic
  writes are atomic under interference, its claims hand out every job once, and its listings end. The
  small server and codec at the start show that the laws the theorems assume can be met.
\<close>

section \<open>A server that keeps the laws\<close>

definition demo_redis :: "keyspace redis_client" where
  "demo_redis =
     \<lparr>rd_Get = (\<lambda>s k. Inr (ks_str s k)),
      rd_Exists = (\<lambda>s k. Inr (if ks_str s k = None then 0 else 1)),
      rd_MGet = (\<lambda>s ks. Inr (map (ks_str s) ks)),
      rd_ZRange = (\<lambda>s k a b. Inr (zslice (map fst (zsorted (ks_zset s k))) a b)),
      rd_ZRevRange = (\<lambda>s k a b. Inr (zslice (rev (map fst (zsorted (ks_zset s k)))) a b)),
      rd_Exec = (\<lambda>k s0 s cmds. if ks_str s0 k = ks_str s k then (TxDone, run_cmds cmds s) else (TxFailed, s)),
      rd_eval = (\<lambda>s. None),
      rd_get = (\<lambda>s k. ks_str s k),
      rd_zrangebyscore = (\<lambda>s k x n. zbyscore (ks_zset s k) x n),
      rd_call = run_cmd\<rparr>"

lemma demo_redis_laws: "redis_laws demo_redis (\<lambda>s. s)"
  by (auto simp: redis_laws_def demo_redis_def)

text \<open>
  A codec for the jobs of one family: a letter for the id and the type, a status, an attempt counter
  and the time of the last change. Integers are written in unary.
\<close>

definition plain_job :: "job_status \<Rightarrow> char \<Rightarrow> int \<Rightarrow> go_time \<Rightarrow> job" where
  "plain_job st c n t =
     \<lparr>job_ID = [c], job_Type = [c], job_Queue = ''q'', job_Status = st, job_Payload = [], job_Result = [],
      job_Metadata = Map.empty, job_Attempt = n, job_MaxAttempts = 3, job_Timeout = 0, job_LastError = [],
      job_CreatedAt = 0, job_UpdatedAt = t, job_AvailableAt = 0,
      job_StartedAt = (if st = StatusRunning then Some t else None),
      job_CompletedAt = (if st = StatusCanceled then Some t else None)\<rparr>"

definition int_text :: "int \<Rightarrow> string" where
  "int_text x = (if x < 0 then CHR ''-'' # replicate (nat (- x)) CHR ''1'' else replicate (nat x) CHR ''1'')"

definition int_of_text :: "string \<Rightarrow> int" where
  "int_of_text s = (if s \<noteq> [] \<and> hd s = CHR ''-'' then - int (length s - 1) else int (length s))"

definition status_char :: "job_status \<Rightarrow> char" where
  "status_char st = (if st = StatusRunning then CHR ''r'' else if st = StatusCanceled then CHR ''c'' else CHR ''q'')"

definition char_status :: "char \<Rightarrow> job_status" where
  "char_status k = (if k = CHR ''r'' then StatusRunning else if k = CHR ''c'' then StatusCanceled else StatusQueued)"

definition plain_text :: "char \<Rightarrow> char \<Rightarrow> int \<Rightarrow> string \<Rightarrow> string" where
  "plain_text k c n t = k # c # int_text n @ CHR '','' # t"

definition plain_decode :: "string \<Rightarrow> go_error + job" where
  "plain_decode raw =
     (case raw of
        k # c # rest \<Rightarrow>
          Ok (plain_job (char_status k) c (wrap64 (int_of_text (takeWhile (\<lambda>x. x \<noteq> CHR '','') rest)))
               (int_of_text (tl (dropWhile (\<lambda>x. x \<noteq> CHR '','') rest))))
      | _ \<Rightarrow> Err (invalidJob ''unexpected end of JSON input''))"

definition plain_encode :: "job \<Rightarrow> go_error + string" where
  "plain_encode j =
     (let raw = plain_text (status_char (job_Status j)) (hd (job_ID j)) (job_Attempt j) (int_text (job_UpdatedAt j))
      in if plain_decode raw = Ok j then Ok raw else Err (invalidJob ''json: unsupported value''))"

definition plain_fields :: "string \<Rightarrow> string \<Rightarrow> lua_value" where
  "plain_fields raw k =
     (case plain_decode raw of
        Inl _ \<Rightarrow> LNil
      | Inr j \<Rightarrow>
          if k = ''status'' then LStr (status_text (job_Status j)) else if k = ''id'' then LStr (job_ID j)
          else if k = ''queue'' then LStr (job_Queue j) else if k = ''type'' then LStr (job_Type j)
          else if k = ''attempt'' then LNum (job_Attempt j)
          else if k = ''updated_at'' then LStr (int_text (job_UpdatedAt j)) else LNil)"

definition lua_string :: "lua_value \<Rightarrow> string" where
  "lua_string v = (case v of LStr x \<Rightarrow> x | _ \<Rightarrow> [])"

definition lua_number :: "lua_value \<Rightarrow> int" where
  "lua_number v = (case v of LNum n \<Rightarrow> n | _ \<Rightarrow> 0)"

definition plain_unfields :: "(string \<Rightarrow> lua_value) \<Rightarrow> string" where
  "plain_unfields f =
     plain_text (if f ''status'' = LStr ''running'' then CHR ''r'' else CHR ''q'') (hd (lua_string (f ''id'')))
       (lua_number (f ''attempt'')) (lua_string (f ''updated_at''))"

definition demo_redis_env :: "(nat \<Rightarrow> keyspace \<Rightarrow> keyspace) \<Rightarrow> keyspace redis_env" where
  "demo_redis_env others =
     \<lparr>re_client = demo_redis, re_namespace = ''jobs'', re_Marshal = plain_encode, re_Unmarshal = plain_decode,
      re_cjson_decode = plain_fields, re_cjson_encode = plain_unfields, re_FormatTime = int_text,
      re_others = others\<rparr>"

definition good_text :: "string \<Rightarrow> bool" where
  "good_text raw \<longleftrightarrow> is_ok (plain_decode raw)"

lemma int_text_no_comma: "\<forall>x\<in>set (int_text n). x \<noteq> CHR '',''"
  by (auto simp: int_text_def)

lemma int_text_round: "int_of_text (int_text n) = n"
  by (auto simp: int_text_def int_of_text_def hd_replicate)

lemma plain_decode_text:
  "plain_decode (plain_text k c n (int_text t)) = Inr (plain_job (char_status k) c (wrap64 n) t)"
proof -
  have "takeWhile (\<lambda>x. x \<noteq> CHR '','') (int_text n @ CHR '','' # int_text t) = int_text n"
    "dropWhile (\<lambda>x. x \<noteq> CHR '','') (int_text n @ CHR '','' # int_text t) = CHR '','' # int_text t"
    using int_text_no_comma by (simp_all add: takeWhile_append2 dropWhile_append2)
  then show ?thesis by (simp add: plain_decode_def plain_text_def int_text_round)
qed

lemma demo_json_laws: "json_laws (demo_redis_env others) good_text"
  by (auto simp: json_laws_def demo_redis_env_def plain_encode_def good_text_def Let_def split: if_splits)

lemma plain_decode_Ok: "plain_decode raw = Inr j \<Longrightarrow> \<exists>st c n t. j = plain_job st c n t"
  by (auto simp: plain_decode_def split: list.splits)

lemma plain_started:
  assumes "plain_decode raw = Inr (plain_job st c n t)"
  shows "started (demo_redis_env others) now n raw = plain_text CHR ''r'' c (n + 1) (int_text now)"
  using assms
  by (simp add: started_def demo_redis_env_def plain_unfields_def plain_fields_def lua_string_def lua_number_def plain_job_def)

lemma plain_claimed:
  "st \<noteq> StatusCanceled \<Longrightarrow> job_claimed now (plain_job st c n t) = plain_job StatusRunning c (wrap64 (n + 1)) now"
  by (simp add: job_claimed_def plain_job_def)

lemma plain_started_decode:
  assumes "plain_decode raw = Inr j" and "waiting j"
  shows "plain_decode (started (demo_redis_env others) now (job_Attempt j) raw) = Inr (job_claimed now j)"
proof -
  obtain st c n t where j: "j = plain_job st c n t" using plain_decode_Ok [OF assms(1)] by blast
  have "st \<noteq> StatusCanceled" "job_Attempt j = n" using assms(2) by (auto simp: j waiting_def plain_job_def)
  then show ?thesis
    using plain_started [OF assms(1) [unfolded j]] plain_claimed plain_decode_text [of "CHR ''r''"]
    by (simp add: j char_status_def)
qed

lemma demo_cjson_laws: "cjson_laws (demo_redis_env others) good_text"
proof -
  have fields: "re_cjson_decode (demo_redis_env others) = plain_fields" "re_Unmarshal (demo_redis_env others) = plain_decode"
    by (simp_all add: demo_redis_env_def)
  show ?thesis
    unfolding cjson_laws_def fields good_text_def
    by (auto simp: plain_started_decode) (simp_all add: plain_fields_def)
qed

text \<open>A server with two waiting jobs.\<close>

definition demo_server :: keyspace where
  "demo_server =
     \<lparr>ks_str = [''jobs:job:a'' \<mapsto> plain_text CHR ''q'' CHR ''a'' 0 (int_text 0),
               ''jobs:job:b'' \<mapsto> plain_text CHR ''q'' CHR ''b'' 0 (int_text 0)],
      ks_zset = (\<lambda>_. [])
        (''jobs:index:available'' := [(''a'', 0), (''b'', 0)], ''jobs:index:created'' := [(''a'', 0), (''b'', 0)])\<rparr>"

lemma demo_keys:
  "jobKey (demo_redis_env others) i = ''jobs:job:'' @ i" "availableIndexKey (demo_redis_env others) = ''jobs:index:available''"
  "terminalIndexKey (demo_redis_env others) = ''jobs:index:terminal''" "createdIndexKey (demo_redis_env others) = ''jobs:index:created''"
  by (simp_all add: demo_redis_env_def jobKey_def jobPrefix_def availableIndexKey_def terminalIndexKey_def createdIndexKey_def)

lemma demo_parts [simp]:
  "re_Unmarshal (demo_redis_env others) = plain_decode" "re_client (demo_redis_env others) = demo_redis"
  "re_others (demo_redis_env others) = others"
  by (simp_all add: demo_redis_env_def)

lemma demo_abs:
  "ks_abs (demo_redis_env others) demo_server =
     [''a'' \<mapsto> plain_job StatusQueued CHR ''a'' 0 0, ''b'' \<mapsto> plain_job StatusQueued CHR ''b'' 0 0]"
proof -
  have w: "wrap64 0 = 0" by (simp add: wrap64_def)
  show ?thesis
    by (rule ext) (simp add: ks_abs_def demo_keys demo_server_def plain_decode_text char_status_def w)
qed

lemma demo_scores:
  "available_score (plain_job StatusQueued c 0 0) = Some 0" "terminal_score (plain_job StatusQueued c 0 0) = None"
  "created_score (plain_job StatusQueued c 0 0) = Some 0"
  by (simp_all add: available_score_def terminal_score_def created_score_def waiting_def plain_job_def timeScore_def)

lemma demo_server_inv: "ks_inv (demo_redis_env others) good_text demo_server"
proof -
  have strings: "good_text raw \<and> (\<exists>j. plain_decode raw = Inr j \<and> job_ID j = i)"
    if "ks_str demo_server (''jobs:job:'' @ i) = Some raw" for i raw
    using that by (auto simp: demo_server_def good_text_def plain_decode_text plain_job_def split: if_splits)
  show ?thesis
    unfolding ks_inv_def demo_abs demo_keys demo_parts
    using strings by (auto simp: index_ok_def demo_scores demo_server_def)
qed

section \<open>The store as an implementation of the interface\<close>

definition redis_ops :: "nat \<Rightarrow> 'r redis_env \<Rightarrow> 'r store_ops" where
  "redis_ops fuel e =
     \<lparr>st_Create = redis_Create e, st_Get = redis_Get e, st_List = (\<lambda>r f. the (redis_List fuel e r f)),
      st_ClaimReady = redis_ClaimReady e, st_MarkSucceeded = redis_MarkSucceeded e,
      st_MarkRetry = redis_MarkRetry e, st_MarkFailed = redis_MarkFailed e, st_Cancel = redis_Cancel e,
      st_Retry = redis_Retry e, st_PruneTerminalBefore = redis_PruneTerminalBefore e,
      st_Stats = (\<lambda>r. the (redis_Stats fuel e r))\<rparr>"

lemma redis_Get_abs:
  assumes "redis_laws (re_client e) view" "ks_inv e good (view r)" "redis_Get e r i = Inr found"
  shows "found = ks_abs e (view r) i"
  using assms(3) by (auto simp: redis_Get_def redis_queries [OF assms(1)] ks_abs_def split: option.splits sum.splits)

lemma redis_prune_law:
  assumes "redis_laws (re_client e) view" "ks_inv e good (view r)" "redis_PruneTerminalBefore e r cutoff = (removed, r')"
  shows "ks_inv e good (view r') \<and> (\<forall>i. ks_abs e (view r') i = ks_abs e (view r) i \<or>
      ks_abs e (view r') i = None \<and> (\<exists>j. ks_abs e (view r) i = Some j \<and> IsTerminal (job_Status j)))"
proof -
  note p = redis_prune_exact [OF assms]
  have "ks_abs e (view r') i = ks_abs e (view r) i \<or>
      ks_abs e (view r') i = None \<and> (\<exists>j. ks_abs e (view r) i = Some j \<and> IsTerminal (job_Status j))" for i
    using p(4) [of i] by (auto simp: p(3))
  with p(1) show ?thesis by simp
qed



section \<open>Interference\<close>

text \<open>
  C15. A status change (\<open>MarkSucceeded\<close>, \<open>MarkRetry\<close>, \<open>MarkFailed\<close>, \<open>Cancel\<close>, \<open>Retry\<close> are \<open>updateJob\<close>)
  while other clients write to the same server: it either fails and changes nothing itself, or it
  is applied in one step to a state the others left, to the job as it is in that state. No update is
  lost, and the indexes stay in step with the jobs.
\<close>

theorem redis_update_atomic:
  fixes e :: "'r redis_env" and view :: "'r \<Rightarrow> keyspace"
  assumes "redis_laws (re_client e) view" "json_laws e good" and "keeps_identity mutate"
    and "\<forall>n r. ks_inv e good (view r) \<longrightarrow> ks_inv e good (view (re_others e n r))"
    and "ks_inv e good (view r)" and "updateJob e r i mutate = (res, r')"
  shows "ks_inv e good (view r') \<and>
    (case res of
       Inl err \<Rightarrow> (others_step e)\<^sup>*\<^sup>* r r'
     | Inr j' \<Rightarrow> \<exists>r1 j. (others_step e)\<^sup>*\<^sup>* r r1 \<and> ks_abs e (view r1) i = Some j \<and> mutate j = Inr j' \<and>
                 ks_abs e (view r') = (ks_abs e (view r1))(i \<mapsto> j'))"
proof -
  have "atomic e good view (\<lambda>m j m'. updates mutate i m (Inr j) m') r res r'"
    using updateJob_atomic [OF assms(1-3) _ assms(5,6)] assms(4) by blast
  then show ?thesis unfolding atomic_def updates_Ok by (auto split: sum.splits)
qed

text \<open>Another client that starts every waiting job before the first \<open>EXEC\<close>.\<close>

definition busy_others :: "nat \<Rightarrow> keyspace \<Rightarrow> keyspace" where
  "busy_others n s =
     (if n = 0 then snd (redis_ClaimReady (demo_redis_env (\<lambda>n s. s)) s 7 10 \<lparr>cf_Queues = [], cf_Types = []\<rparr>) else s)"

lemma demo_env_inv: "ks_inv (demo_redis_env others) good s = ks_inv (demo_redis_env others') good s"
  unfolding ks_inv_def ks_abs_def [abs_def] demo_keys demo_parts ..

lemma busy_others_inv:
  assumes "ks_inv (demo_redis_env busy_others) good_text s"
  shows "ks_inv (demo_redis_env busy_others) good_text (busy_others n s)"
proof (cases "n = 0")
  case True
  let ?q = "demo_redis_env (\<lambda>n s. s)" and ?f = "\<lparr>cf_Queues = [], cf_Types = []\<rparr>"
  have "redis_laws (re_client ?q) (\<lambda>s. s)" "ks_inv ?q good_text s"
    using demo_redis_laws assms demo_env_inv by auto
  from redis_claims [OF this(1) demo_cjson_laws this(2), of 7 10 ?f] have "ks_inv ?q good_text (busy_others n s)"
    using True by (metis busy_others_def prod.collapse)
  then show ?thesis using demo_env_inv by blast
qed (use assms in \<open>simp add: busy_others_def\<close>)

theorem redis_update_atomic_witness:
  "ks_inv (demo_redis_env busy_others) good_text (snd (updateJob (demo_redis_env busy_others) demo_server ''a'' (job_canceled 9)))"
  using redis_update_atomic [of "demo_redis_env busy_others" "\<lambda>s. s" good_text "job_canceled 9" demo_server "''a''"
      "fst (updateJob (demo_redis_env busy_others) demo_server ''a'' (job_canceled 9))"
      "snd (updateJob (demo_redis_env busy_others) demo_server ''a'' (job_canceled 9))"]
    demo_redis_laws demo_json_laws setters_keep_identity(4) busy_others_inv demo_server_inv
  by simp


section \<open>Claims\<close>


definition demo_filter :: claim_filter where
  "demo_filter = \<lparr>cf_Queues = [], cf_Types = [''b'']\<rparr>"

lemma demo_due:
  "zbyscore (ks_zset demo_server (availableIndexKey (demo_redis_env others))) (timeScore 7) (Some (Suc 0)) = [''a'']"
  by (simp add: demo_keys demo_server_def zbyscore_def zsorted_def timeScore_def Millisecond_def Let_def)

lemma demo_claim_all:
  "zbyscore (ks_zset demo_server (availableIndexKey (demo_redis_env others))) (timeScore 7) (Some 10) = [''a'', ''b'']"
  by (simp add: demo_keys demo_server_def zbyscore_def zsorted_def timeScore_def Millisecond_def Let_def)

lemma demo_claim_b:
  "fst (redis_ClaimReady (demo_redis_env (\<lambda>n s. s)) demo_server 7 10 demo_filter) =
     Inr [plain_job StatusRunning CHR ''b'' 1 7]"
proof -
  let ?e = "demo_redis_env (\<lambda>n s. s)"
  have laws: "redis_laws (re_client ?e) (\<lambda>s. s)" by (simp add: demo_redis_laws)
  have w: "wrap64 1 = 1" by (simp add: wrap64_def)
  show ?thesis
    using redis_ClaimReady_exact(2) [OF laws demo_cjson_laws demo_server_inv [of "\<lambda>n s. s"] prod.collapse [symmetric],
        of 10 7 demo_filter]
    by (simp add: demo_claim_all demo_abs script_allows_def filter_arg_def demo_filter_def plain_job_def)
      (simp add: job_claimed_def w)
qed



text \<open>
  The script takes the first \<open>limit\<close> due ids and only then applies the filter: when none of those
  ids passes it, the claim returns nothing and changes nothing, whatever other due jobs there are.
\<close>

lemma redis_claim_starves:
  assumes "redis_laws (re_client e) view" "cjson_laws e good" and "ks_inv e good (view r)"
    and "0 < limit" and "redis_ClaimReady e r now limit f = (res, r')"
    and "\<forall>i\<in>set (zbyscore (ks_zset (view r) (availableIndexKey e)) (timeScore now) (Some (nat limit))).
      \<not> script_allows (filter_arg (cf_Queues f)) (filter_arg (cf_Types f)) (the (ks_abs e (view r) i))"
  shows "res = Inr [] \<and> ks_abs e (view r') = ks_abs e (view r)"
proof -
  note ex = redis_ClaimReady_exact [OF assms(1-3,5,4)]
  have "filter (\<lambda>i. script_allows (filter_arg (cf_Queues f)) (filter_arg (cf_Types f)) (the (ks_abs e (view r) i)))
      (zbyscore (ks_zset (view r) (availableIndexKey e)) (timeScore now) (Some (nat limit))) = []"
    using assms(6) by (simp add: filter_empty_conv)
  with ex(2,3) show ?thesis by (simp only: list.map(1) list.set(1) empty_iff if_False)
qed

lemma redis_claim_starves_witness:
  "fst (redis_ClaimReady (demo_redis_env (\<lambda>n s. s)) demo_server 7 1 demo_filter) = Inr [] \<and>
   fst (redis_ClaimReady (demo_redis_env (\<lambda>n s. s)) demo_server 7 10 demo_filter) = Inr [plain_job StatusRunning CHR ''b'' 1 7]"
proof -
  let ?e = "demo_redis_env (\<lambda>n s. s)"
  have laws: "redis_laws (re_client ?e) (\<lambda>s. s)" by (simp add: demo_redis_laws)
  have "\<forall>i\<in>set (zbyscore (ks_zset demo_server (availableIndexKey ?e)) (timeScore 7) (Some (nat 1))).
      \<not> script_allows (filter_arg (cf_Queues demo_filter)) (filter_arg (cf_Types demo_filter))
        (the (ks_abs ?e demo_server i))"
    by (simp add: demo_due demo_abs script_allows_def filter_arg_def demo_filter_def plain_job_def)
  from redis_claim_starves [OF laws demo_cjson_laws demo_server_inv _ prod.collapse [symmetric] this]
  show ?thesis using demo_claim_b by simp
qed

section \<open>Listing\<close>

text \<open>
  C31. \<open>List\<close> ends: with one unit of fuel per batch of 250 ids (one more than the created index fills)
  it returns the requested page of the matching jobs, the latest first, whatever batches they fall in.
\<close>

theorem redis_list_terminates:
  assumes laws: "redis_laws (re_client e) view" and inv: "ks_inv e good (view r)"
    and fuel: "length (ks_zset (view r) (createdIndexKey e)) < 250 * fuel"
  shows "redis_List fuel e r f =
    Some (Inr (take (nat (if jf_Limit f \<le> 0 then 100 else jf_Limit f))
      (drop (nat (jf_Offset f)) (filter (job_matches f) (newest_first e (view r))))))"
proof -
  let ?limit = "if jf_Limit f \<le> 0 then 100 else jf_Limit f"
  have "length (newest_first e (view r)) < 0 + 250 * fuel" using fuel by (simp add: newest_first_def zsorted_def)
  then have "list_batches e r f ?limit fuel 0 (page f (take 0 (newest_first e (view r)))) =
      Some (Inr (take (nat ?limit) (fst (page f (newest_first e (view r))))))"
    by (intro list_batches_page [OF laws inv refl]) (simp_all add: page_def)
  then show ?thesis by (simp only: redis_List_def Let_def) (simp add: page_def)
qed

lemma demo_newest_first:
  "newest_first (demo_redis_env others) demo_server =
     [plain_job StatusQueued CHR ''b'' 0 0, plain_job StatusQueued CHR ''a'' 0 0]"
  by (simp add: newest_first_def demo_abs demo_keys) (simp add: demo_server_def zsorted_def)

definition list_one :: job_filter where
  "list_one = \<lparr>jf_Queue = [], jf_Type = [], jf_Statuses = [StatusQueued], jf_Limit = 1, jf_Offset = 1\<rparr>"

theorem redis_list_terminates_witness:
  "redis_List 1 (demo_redis_env (\<lambda>n s. s)) demo_server list_one = Some (Inr [plain_job StatusQueued CHR ''a'' 0 0])"
proof -
  have "redis_laws (re_client (demo_redis_env (\<lambda>n s. s))) (\<lambda>s. s)" by (simp add: demo_redis_laws)
  moreover have "length (ks_zset demo_server (createdIndexKey (demo_redis_env (\<lambda>n s. s)))) < 250 * 1"
    by (simp add: demo_keys) (simp add: demo_server_def)
  ultimately show ?thesis
    using redis_list_terminates [of "demo_redis_env (\<lambda>n s. s)" "\<lambda>s. s" good_text demo_server 1 list_one] demo_server_inv
    by (simp add: demo_newest_first list_one_def job_matches_def plain_job_def)
qed

text \<open>\<open>Stats\<close> ends likewise and counts every stored job once.\<close>

lemma redis_Stats_all:
  assumes laws: "redis_laws (re_client e) view" and inv: "ks_inv e good (view r)"
    and fuel: "length (ks_zset (view r) (createdIndexKey e)) < 250 * fuel"
  shows "redis_Stats fuel e r =
    Some (Inr (fold add_job_stats (rev (newest_first e (view r)))
      \<lparr>ss_JobsStored = 0, ss_Totals = Map.empty, ss_Queues = Map.empty\<rparr>))"
  using stats_batches_all [OF laws inv refl, of 0 fuel] fuel
  by (simp add: redis_Stats_def newest_first_def zsorted_def)

end
