(* ===== verification/Tenant_Access.thy ===== *)
theory Tenant_Access
  imports Auth_Claims
begin

text \<open>
  Tenant and user scoping of requests: \<open>pkg/auth/tenant.go\<close>, \<open>pkg/auth/tenant_access.go\<close>,
  \<open>GetClaims\<close> of \<open>pkg/auth/context.go\<close> and \<open>pkg/server/middleware/tenantstatus.go\<close>.

  A \<open>gin.Context\<close> is a record with one field per key of the gin context and per part of the
  request the code reads; \<open>gc_keys\<close> holds the values applications store under keys of their own,
  \<open>gc_Header\<close> the response headers set so far. A middleware returns \<open>Next\<close> with the context it hands on, or \<open>Abort\<close>
  with status, error code and context (\<open>AbortWithStatusJSON\<close>).
\<close>

section \<open>Requests\<close>

record perm_metadata =
  pm_ID :: string
  pm_Service :: string
  pm_BitValue :: int

text \<open>
  What is stored under \<open>CtxMiddlewareServiceKey\<close>: nothing, a value that is no \<open>PermissionLookup\<close>,
  or a lookup.
\<close>

datatype service_slot = NoService | WrongService | LookupService "string \<rightharpoonup> perm_metadata"

record gin_ctx =
  gc_claims :: "claims option"
  gc_tenant :: "string option"
  gc_user :: "string option"
  gc_service :: service_slot
  gc_req :: go_context
  gc_Authorization :: string
  gc_Params :: "(string \<times> string) list"
  gc_Query :: "(string \<times> string list) list"
  gc_body :: string
  gc_keys :: "string \<rightharpoonup> any"
  gc_Header :: "string \<rightharpoonup> string"

datatype mw_result = Next gin_ctx | Abort int string gin_ctx

definition Param :: "gin_ctx \<Rightarrow> string \<Rightarrow> string" where
  "Param c k = (case map_of (gc_Params c) k of None \<Rightarrow> [] | Some v \<Rightarrow> v)"

definition Query :: "gin_ctx \<Rightarrow> string \<Rightarrow> string" where
  "Query c k = (case map_of (gc_Query c) k of Some (v # vs) \<Rightarrow> v | _ \<Rightarrow> [])"

definition GetClaims :: "gin_ctx \<Rightarrow> claims option" where
  "GetClaims c = gc_claims c"

section \<open>pkg/auth/tenant.go\<close>

definition SetTenantID :: "gin_ctx \<Rightarrow> string \<Rightarrow> gin_ctx" where
  "SetTenantID c tenantID =
     (let scopedTenantID = TrimSpace tenantID
      in if scopedTenantID = [] then c
         else c\<lparr>gc_tenant := Some scopedTenantID, gc_req := ContextWithTenantID (gc_req c) scopedTenantID\<rparr>)"

definition SetUserID :: "gin_ctx \<Rightarrow> string \<Rightarrow> gin_ctx" where
  "SetUserID c userID =
     (let scopedUserID = TrimSpace userID
      in if scopedUserID = [] then c
         else c\<lparr>gc_user := Some scopedUserID, gc_req := ContextWithUserID (gc_req c) scopedUserID\<rparr>)"

definition GetTenantID :: "gin_ctx \<Rightarrow> string option" where
  "GetTenantID c = (case gc_tenant c of None \<Rightarrow> None | Some t \<Rightarrow> if t \<noteq> [] then Some t else None)"

definition GetUserID :: "gin_ctx \<Rightarrow> string option" where
  "GetUserID c = (case gc_user c of None \<Rightarrow> None | Some u \<Rightarrow> if TrimSpace u \<noteq> [] then Some u else None)"

section \<open>pkg/auth/tenant\_access.go\<close>

record tenant_access_config =
  ta_RequireTenant :: bool
  ta_AllowServiceTokens :: bool
  ta_AllowPlatformUsers :: bool
  ta_EnforceTenantStatus :: bool
  ta_EnforceMembershipStatus :: bool
  ta_TenantPathParam :: string
  ta_TenantQueryParam :: string
  ta_UserPathParam :: string
  ta_UserQueryParam :: string
  ta_BlockedTenantStatuses :: "string list"
  ta_BlockedMemberStatuses :: "string list"

definition DefaultTenantAccessConfig :: tenant_access_config where
  "DefaultTenantAccessConfig =
     \<lparr>ta_RequireTenant = False, ta_AllowServiceTokens = True, ta_AllowPlatformUsers = True,
      ta_EnforceTenantStatus = True, ta_EnforceMembershipStatus = True, ta_TenantPathParam = [],
      ta_TenantQueryParam = [], ta_UserPathParam = [], ta_UserQueryParam = [],
      ta_BlockedTenantStatuses = [''suspended'', ''cancelled'', ''inactive''],
      ta_BlockedMemberStatuses = [''suspended'', ''cancelled'', ''inactive'']\<rparr>"

definition DefaultTenantAppConfig :: tenant_access_config where
  "DefaultTenantAppConfig =
     DefaultTenantAccessConfig\<lparr>ta_RequireTenant := True, ta_AllowPlatformUsers := False\<rparr>"

definition WithTenantPathParam :: "string \<Rightarrow> tenant_access_config \<Rightarrow> tenant_access_config" where
  "WithTenantPathParam param cfg = cfg\<lparr>ta_TenantPathParam := TrimSpace param\<rparr>"

definition WithTenantQueryParam :: "string \<Rightarrow> tenant_access_config \<Rightarrow> tenant_access_config" where
  "WithTenantQueryParam param cfg = cfg\<lparr>ta_TenantQueryParam := TrimSpace param\<rparr>"

definition WithUserPathParam :: "string \<Rightarrow> tenant_access_config \<Rightarrow> tenant_access_config" where
  "WithUserPathParam param cfg = cfg\<lparr>ta_UserPathParam := TrimSpace param\<rparr>"

definition WithUserQueryParam :: "string \<Rightarrow> tenant_access_config \<Rightarrow> tenant_access_config" where
  "WithUserQueryParam param cfg = cfg\<lparr>ta_UserQueryParam := TrimSpace param\<rparr>"

definition ptrString :: "string option \<Rightarrow> string" where
  "ptrString v = (case v of None \<Rightarrow> [] | Some s \<Rightarrow> TrimSpace s)"

definition strPtr :: "string \<Rightarrow> string option" where
  "strPtr v = (let trimmed = TrimSpace v in if trimmed = [] then None else Some trimmed)"

definition mergeRequestedScope :: "string option \<Rightarrow> string option \<Rightarrow> string + string" where
  "mergeRequestedScope explicit inferred =
     (let explicitValue = ptrString explicit; inferredValue = ptrString inferred
      in if explicitValue \<noteq> [] \<and> inferredValue \<noteq> [] \<and> explicitValue \<noteq> inferredValue
         then Inl ''scope conflict''
         else if explicitValue \<noteq> [] then Inr explicitValue
         else Inr inferredValue)"

definition requestedScopeValue :: "gin_ctx \<Rightarrow> string \<Rightarrow> string \<Rightarrow> string option" where
  "requestedScopeValue c pathParam queryParam =
     (let pathValue = TrimSpace pathParam; queryValue = TrimSpace queryParam
      in if pathValue \<noteq> [] \<and> TrimSpace (Param c pathValue) \<noteq> []
         then strPtr (TrimSpace (Param c pathValue))
         else if queryValue \<noteq> [] \<and> TrimSpace (Query c queryValue) \<noteq> []
         then strPtr (TrimSpace (Query c queryValue))
         else None)"

definition isBlockedTenantAccessStatus :: "string \<Rightarrow> string list \<Rightarrow> bool" where
  "isBlockedTenantAccessStatus status blockedStatuses =
     (let status = TrimSpace (ToLower status)
      in if status = [] then False
         else list_ex (\<lambda>blocked. status = TrimSpace (ToLower blocked)) blockedStatuses)"

text \<open>
  The result of \<open>ResolveTenantUserScope\<close>: the scope and the updated context, or the response the
  request was aborted with.
\<close>

type_synonym scope_result = "(int \<times> string) + (string option \<times> string option \<times> gin_ctx)"

text \<open>The branch for user tokens: tenant status, tenant scope, user scope.\<close>

definition resolve_user_token_scope ::
  "gin_ctx \<Rightarrow> claims \<Rightarrow> string \<Rightarrow> string \<Rightarrow> tenant_access_config \<Rightarrow> scope_result" where
  "resolve_user_token_scope c cl requestedTenantID requestedUserID cfg =
     (let claimTenantID = TrimSpace (TenantID cl);
          claimUserID = TrimSpace (UserID cl)
      in if claimTenantID \<noteq> [] \<and> ta_EnforceTenantStatus cfg \<and>
            isBlockedTenantAccessStatus (TenantStatus cl) (ta_BlockedTenantStatuses cfg)
         then Inl (StatusForbidden, ''tenant_inactive'')
         else if claimTenantID \<noteq> [] \<and> ta_EnforceMembershipStatus cfg \<and>
            isBlockedTenantAccessStatus (TenantMembershipStatus cl) (ta_BlockedMemberStatuses cfg)
         then Inl (StatusForbidden, ''tenant_membership_inactive'')
         else if claimTenantID \<noteq> [] \<and> requestedTenantID \<noteq> [] \<and> requestedTenantID \<noteq> claimTenantID
         then Inl (StatusForbidden, ''tenant_scope_mismatch'')
         else if claimTenantID = [] \<and> \<not> ta_AllowPlatformUsers cfg \<and>
                 (ta_RequireTenant cfg \<or> requestedTenantID = [])
         then Inl (StatusForbidden, ''tenant_scope_required'')
         else
           let requestedTenantID = (if claimTenantID \<noteq> [] then claimTenantID else requestedTenantID)
           in if ta_RequireTenant cfg \<and> requestedTenantID = []
              then Inl (StatusForbidden, ''tenant_scope_required'')
              else if claimUserID \<noteq> [] \<and> requestedUserID \<noteq> [] \<and> requestedUserID \<noteq> claimUserID
              then Inl (StatusForbidden, ''user_scope_mismatch'')
              else
                let requestedUserID = (if claimUserID \<noteq> [] then claimUserID else requestedUserID);
                    c = (if requestedTenantID \<noteq> [] then SetTenantID c requestedTenantID else c);
                    c = (if requestedUserID \<noteq> [] then SetUserID c requestedUserID else c)
                in Inr (strPtr requestedTenantID, strPtr requestedUserID, c))"

definition ResolveTenantUserScope ::
  "gin_ctx \<Rightarrow> string option \<Rightarrow> string option \<Rightarrow> tenant_access_config \<Rightarrow> scope_result" where
  "ResolveTenantUserScope c tenantID userID cfg =
     (case (case GetClaims c of Some cl \<Rightarrow> Some cl | None \<Rightarrow> ClaimsFromContext (gc_req c)) of
        None \<Rightarrow> Inl (StatusUnauthorized, ''unauthorized'')
      | Some cl \<Rightarrow>
          (case mergeRequestedScope tenantID
                  (requestedScopeValue c (ta_TenantPathParam cfg) (ta_TenantQueryParam cfg)) of
             Inl _ \<Rightarrow> Inl (StatusBadRequest, ''tenant_scope_conflict'')
           | Inr requestedTenantID \<Rightarrow>
          (case mergeRequestedScope userID
                  (requestedScopeValue c (ta_UserPathParam cfg) (ta_UserQueryParam cfg)) of
             Inl _ \<Rightarrow> Inl (StatusBadRequest, ''user_scope_conflict'')
           | Inr requestedUserID \<Rightarrow>
               if IsServiceToken cl then
                 (if \<not> ta_AllowServiceTokens cfg
                  then Inl (StatusForbidden, ''service_token_not_allowed'')
                  else if ta_RequireTenant cfg \<and> TrimSpace requestedTenantID = []
                  then Inl (StatusForbidden, ''tenant_scope_required'')
                  else
                    let c = (if requestedTenantID \<noteq> [] then SetTenantID c requestedTenantID else c)
                    in Inr (strPtr requestedTenantID, strPtr requestedUserID, c))
               else resolve_user_token_scope c cl requestedTenantID requestedUserID cfg)))"

definition ResolveTenantScope ::
  "gin_ctx \<Rightarrow> string \<Rightarrow> tenant_access_config \<Rightarrow> (int \<times> string) + (string \<times> gin_ctx)" where
  "ResolveTenantScope c tenantID cfg =
     (case ResolveTenantUserScope c (strPtr tenantID) None cfg of
        Inl e \<Rightarrow> Inl e
      | Inr (None, _, c') \<Rightarrow> Inr ([], c')
      | Inr (Some t, _, c') \<Rightarrow> Inr (t, c'))"

definition ResolveOptionalTenantScope ::
  "gin_ctx \<Rightarrow> string option \<Rightarrow> tenant_access_config \<Rightarrow> (int \<times> string) + (string option \<times> gin_ctx)" where
  "ResolveOptionalTenantScope c tenantID cfg =
     (case ResolveTenantUserScope c tenantID None cfg of
        Inl e \<Rightarrow> Inl e
      | Inr (t, _, c') \<Rightarrow> Inr (t, c'))"

definition EnforceTenantScope :: "gin_ctx \<Rightarrow> string \<Rightarrow> (int \<times> string) + (string \<times> gin_ctx)" where
  "EnforceTenantScope c requestedTenantID = ResolveTenantScope c requestedTenantID DefaultTenantAccessConfig"

definition TenantAccessMiddleware :: "tenant_access_config \<Rightarrow> gin_ctx \<Rightarrow> mw_result" where
  "TenantAccessMiddleware cfg c =
     (case ResolveTenantUserScope c None None cfg of
        Inl (status, err) \<Rightarrow> Abort status err c
      | Inr (_, _, c') \<Rightarrow> Next c')"

definition TenantScopeFromPath :: "string \<Rightarrow> gin_ctx \<Rightarrow> mw_result" where
  "TenantScopeFromPath param =
     (let cfg = (WithTenantPathParam param DefaultTenantAccessConfig)\<lparr>ta_RequireTenant := True\<rparr>
      in TenantAccessMiddleware cfg)"

section \<open>pkg/server/middleware/tenantstatus.go\<close>

record tenant_status_config =
  tsc_Enabled :: bool
  tsc_BlockedStatuses :: "string list"

definition DefaultTenantStatusConfig :: tenant_status_config where
  "DefaultTenantStatusConfig =
     \<lparr>tsc_Enabled = True, tsc_BlockedStatuses = [''suspended'', ''cancelled'', ''inactive'']\<rparr>"

definition TenantStatusMiddleware :: "tenant_status_config \<Rightarrow> gin_ctx \<Rightarrow> mw_result" where
  "TenantStatusMiddleware cfg c =
     (if \<not> tsc_Enabled cfg then Next c
      else case GetClaims c of
             None \<Rightarrow> Next c
           | Some cl \<Rightarrow>
               if IsServiceToken cl then Next c
               else
                 let status = TenantStatus cl
                 in if status = [] then Next c
                    else if status \<in> set (tsc_BlockedStatuses cfg)
                    then Abort StatusForbidden ''tenant_inactive'' c
                    else Next c)"

section \<open>Lemmas\<close>

lemma ptrString_trim [simp]: "TrimSpace (ptrString v) = ptrString v"
  by (simp add: ptrString_def split: option.splits)

lemma mergeRequestedScope_trim:
  "mergeRequestedScope e i = Inr v \<Longrightarrow> TrimSpace v = v"
  by (auto simp: mergeRequestedScope_def Let_def split: if_splits)

lemma mergeRequestedScope_explicit:
  "mergeRequestedScope e i = Inr v \<Longrightarrow> ptrString e \<noteq> [] \<Longrightarrow> v = ptrString e"
  by (auto simp: mergeRequestedScope_def Let_def split: if_splits)

lemma strPtr_trimmed: "TrimSpace v = v \<Longrightarrow> strPtr v = (if v = [] then None else Some v)"
  by (simp add: strPtr_def)

lemma strPtr_Some: "strPtr v = Some t \<longleftrightarrow> t = TrimSpace v \<and> t \<noteq> []"
  by (auto simp: strPtr_def Let_def)

lemma ClaimString_trim [simp]: "TrimSpace (ClaimString cl k) = ClaimString cl k"
  by (simp add: ClaimString_def split: option.splits any.splits)

lemma TenantID_trim [simp]: "TrimSpace (TenantID cl) = TenantID cl"
  by (simp add: TenantID_def)

lemma UserID_trim [simp]: "TrimSpace (UserID cl) = UserID cl"
  by (simp add: UserID_def Let_def)

lemma SetTenantID_tenant: "TrimSpace t \<noteq> [] \<Longrightarrow> gc_tenant (SetTenantID c t) = Some (TrimSpace t)"
  by (simp add: SetTenantID_def Let_def)

lemma SetUserID_frame [simp]: "gc_tenant (SetUserID c u) = gc_tenant c"
  by (simp add: SetUserID_def Let_def)

text \<open>What a user token gets: its own tenant and its own user, if it has them.\<close>

lemma user_token_scope:
  assumes "resolve_user_token_scope c cl rt ru cfg = Inr (t, u, c')"
    and "TrimSpace rt = rt"
  shows "t = strPtr (if TenantID cl \<noteq> [] then TenantID cl else rt)"
    and "u = strPtr (if UserID cl \<noteq> [] then UserID cl else ru)"
    and "TenantID cl \<noteq> [] \<Longrightarrow> rt \<noteq> [] \<Longrightarrow> rt = TenantID cl"
    and "ta_RequireTenant cfg \<Longrightarrow> t \<noteq> None"
    and "t \<noteq> None \<Longrightarrow> gc_tenant c' = t"
    and "TenantID cl = [] \<Longrightarrow> ta_AllowPlatformUsers cfg \<or> rt \<noteq> []"
    and "TenantID cl \<noteq> [] \<Longrightarrow> ta_EnforceTenantStatus cfg \<Longrightarrow>
      \<not> isBlockedTenantAccessStatus (TenantStatus cl) (ta_BlockedTenantStatuses cfg)"
  using assms
  by (auto simp: resolve_user_token_scope_def Let_def strPtr_Some strPtr_trimmed SetTenantID_tenant
        split: if_splits)

lemma ContextWithUserID_tenant:
  "TenantIDFromContext (ContextWithUserID ctx u) = TenantIDFromContext ctx"
proof (cases "TrimSpace u = []")
  case True
  then show ?thesis by (simp add: ContextWithUserID_def)
next
  case False
  show ?thesis
  proof (cases "RequestContextFromContext ctx")
    case None
    with False show ?thesis
      by (simp add: ContextWithUserID_def overlay_rc_def TenantIDFromContext_def IsEmpty_def Let_def)
         (simp add: empty_rc_def ContextWithRequestContext_def Let_def)
  next
    case (Some old)
    then have "TrimSpace (rc_TenantID old) = rc_TenantID old"
      using RequestContextFromContext_normal Normalize_simps(1) by metis
    with Some False show ?thesis
      by (simp add: ContextWithUserID_def overlay_rc_def TenantIDFromContext_def IsEmpty_def Let_def
            first_nonblank_def)
         (simp add: empty_rc_def ContextWithRequestContext_def Let_def)
  qed
qed

lemma user_token_context_tenant:
  assumes "resolve_user_token_scope c cl rt ru cfg = Inr (t, u, c')" and "TenantID cl \<noteq> []"
  shows "TenantIDFromContext (gc_req c') = Some (TenantID cl)"
proof -
  let ?c = "SetTenantID c (TenantID cl)"
  have "c' = ?c \<or> (\<exists>u. c' = SetUserID ?c u)"
    using assms by (auto simp: resolve_user_token_scope_def Let_def split: if_splits)
  moreover have "TenantIDFromContext (gc_req ?c) = Some (TenantID cl)"
  proof -
    obtain rc where "RequestContextFromContext (ContextWithTenantID (gc_req c) (TenantID cl)) = Some rc"
      "rc_TenantID rc = TenantID cl"
      using ContextWithTenantID_rc [of "TenantID cl" "gc_req c"] assms(2) by auto
    with assms(2) show ?thesis by (simp add: SetTenantID_def Let_def TenantIDFromContext_def)
  qed
  moreover have "TenantIDFromContext (gc_req (SetUserID ?c u)) = TenantIDFromContext (gc_req ?c)" for u
    by (simp add: SetUserID_def Let_def ContextWithUserID_tenant)
  ultimately show ?thesis by metis
qed

lemma context_claims_kept:
  "cx_claims (ContextWithRequestContext ctx rc) = cx_claims ctx"
  "cx_claims (ContextWithTenantID ctx t) = cx_claims ctx"
  "cx_claims (ContextWithUserID ctx u) = cx_claims ctx"
  "cx_claims (gc_req (SetTenantID c t)) = cx_claims (gc_req c)"
  "cx_claims (gc_req (SetUserID c u)) = cx_claims (gc_req c)"
  by (auto simp: ContextWithRequestContext_def ContextWithTenantID_def ContextWithUserID_def SetTenantID_def SetUserID_def overlay_rc_def Let_def
    split: option.splits)

lemma user_token_request_context:
  assumes "resolve_user_token_scope c cl rt ru cfg = Inr (t, u, c')" and "TenantID cl \<noteq> []"
  shows "\<exists>rc. RequestContextFromContext (gc_req c') = Some rc \<and> rc_TenantID rc = TenantID cl"
proof -
  let ?c = "SetTenantID c (TenantID cl)"
  have "c' = ?c \<or> (\<exists>u. c' = SetUserID ?c u)"
    using assms by (auto simp: resolve_user_token_scope_def Let_def split: if_splits)
  moreover obtain rc where rc: "RequestContextFromContext (gc_req ?c) = Some rc" "rc_TenantID rc = TenantID cl"
    using ContextWithTenantID_rc [of "TenantID cl" "gc_req c"] assms(2)
    by (auto simp: SetTenantID_def TenantID_trimmed Let_def)
  moreover have "\<exists>rc. RequestContextFromContext (gc_req (SetUserID ?c u)) = Some rc \<and> rc_TenantID rc = TenantID cl" for u
    using rc assms(2)
    by (auto simp: SetUserID_def ContextWithUserID_def overlay_rc_def first_nonblank_def empty_rc_def IsEmpty_def TenantID_trimmed Let_def)
  ultimately show ?thesis by blast
qed

text \<open>Claims and response of a request whose scope was resolved.\<close>

lemma ResolveTenantUserScope_Ok:
  assumes "ResolveTenantUserScope c tid uid cfg = Inr (t, u, c')"
  obtains cl rt ru where
    "(case GetClaims c of Some cl \<Rightarrow> Some cl | None \<Rightarrow> ClaimsFromContext (gc_req c)) = Some cl"
    "TrimSpace rt = rt" "ptrString tid \<noteq> [] \<Longrightarrow> rt = ptrString tid"
    "IsServiceToken cl \<Longrightarrow> ta_AllowServiceTokens cfg \<and> (ta_RequireTenant cfg \<longrightarrow> rt \<noteq> []) \<and> t = strPtr rt \<and>
       c' = (if rt \<noteq> [] then SetTenantID c rt else c)"
    "\<not> IsServiceToken cl \<Longrightarrow> resolve_user_token_scope c cl rt ru cfg = Inr (t, u, c')"
proof -
  let ?cl = "case GetClaims c of Some cl \<Rightarrow> Some cl | None \<Rightarrow> ClaimsFromContext (gc_req c)"
  obtain cl where cl: "?cl = Some cl"
    using assms by (auto simp: ResolveTenantUserScope_def split: option.splits)
  obtain rt where rt: "mergeRequestedScope tid
      (requestedScopeValue c (ta_TenantPathParam cfg) (ta_TenantQueryParam cfg)) = Inr rt"
    using assms cl by (auto simp: ResolveTenantUserScope_def split: sum.splits)
  obtain ru where ru: "mergeRequestedScope uid
      (requestedScopeValue c (ta_UserPathParam cfg) (ta_UserQueryParam cfg)) = Inr ru"
    using assms cl rt by (auto simp: ResolveTenantUserScope_def split: sum.splits)
  have tr: "TrimSpace rt = rt" by (rule mergeRequestedScope_trim [OF rt])
  show thesis
  proof (rule that [OF cl tr])
    show "ptrString tid \<noteq> [] \<Longrightarrow> rt = ptrString tid" by (rule mergeRequestedScope_explicit [OF rt])
    show "IsServiceToken cl \<Longrightarrow> ta_AllowServiceTokens cfg \<and> (ta_RequireTenant cfg \<longrightarrow> rt \<noteq> []) \<and> t = strPtr rt \<and>
       c' = (if rt \<noteq> [] then SetTenantID c rt else c)"
      using assms cl rt ru tr by (simp add: ResolveTenantUserScope_def Let_def split: if_splits)
    show "\<not> IsServiceToken cl \<Longrightarrow> resolve_user_token_scope c cl rt ru cfg = Inr (t, u, c')"
      using assms cl rt ru by (simp add: ResolveTenantUserScope_def)
  qed
qed

section \<open>Properties\<close>

text \<open>
  C3. Tenant isolation: a user token that carries a tenant can only ever act on that tenant and, if
  it carries a user, as that user. Whatever tenant the handler, the path or the query asks for, the
  resolved scope is the claim's tenant, and the context handed on names it.
\<close>

theorem tenant_isolation:
  assumes "(case GetClaims c of Some cl \<Rightarrow> Some cl | None \<Rightarrow> ClaimsFromContext (gc_req c)) = Some cl"
    and "\<not> IsServiceToken cl" and "TenantID cl \<noteq> []"
    and "ResolveTenantUserScope c tenantID userID cfg = Inr (t, u, c')"
  shows "t = Some (TenantID cl) \<and> gc_tenant c' = Some (TenantID cl) \<and>
    TenantIDFromContext (gc_req c') = Some (TenantID cl) \<and>
    (ptrString tenantID \<noteq> [] \<longrightarrow> ptrString tenantID = TenantID cl) \<and>
    (UserID cl \<noteq> [] \<longrightarrow> u = Some (UserID cl)) \<and>
    (ta_EnforceTenantStatus cfg \<longrightarrow>
       \<not> isBlockedTenantAccessStatus (TenantStatus cl) (ta_BlockedTenantStatuses cfg))"
proof -
  from ResolveTenantUserScope_Ok [OF assms(4)] obtain rt ru where
    r: "TrimSpace rt = rt" "ptrString tenantID \<noteq> [] \<Longrightarrow> rt = ptrString tenantID"
      "resolve_user_token_scope c cl rt ru cfg = Inr (t, u, c')"
    using assms(1,2) by (metis option.inject)
  note us = user_token_scope [OF r(3,1)]
  have "t = Some (TenantID cl)" using us(1) assms(3) by (simp add: strPtr_trimmed)
  then show ?thesis
    using us(2,3,5,7) assms(3) r(2) user_token_context_tenant [OF r(3) assms(3)]
    by (auto simp: strPtr_trimmed)
qed

definition demo_claims :: claims where
  "demo_claims = \<lparr>Subject = ''alice'', IdentityID = ''u1'', RoleID = [], TokenUse = ''access'',
     ServicePermissions = Map.empty,
     Raw = [''tenant_id'' \<mapsto> AString ''t1'', ''tenant_status'' \<mapsto> AString ''Suspended'']\<rparr>"

definition demo_request :: gin_ctx where
  "demo_request = \<lparr>gc_claims = Some demo_claims, gc_tenant = None, gc_user = None, gc_service = NoService,
     gc_req = Background, gc_Authorization = [], gc_Params = [], gc_Query = [], gc_body = [],
     gc_keys = Map.empty, gc_Header = Map.empty\<rparr>"

lemma demo_claims_simps:
  "TenantID demo_claims = ''t1''" "UserID demo_claims = ''u1''" "TenantStatus demo_claims = ''Suspended''"
  "TenantMembershipStatus demo_claims = []" "\<not> IsServiceToken demo_claims"
  by (simp_all add: demo_claims_def TenantID_def UserID_def TenantStatus_def TenantMembershipStatus_def
        ClaimString_def IsServiceToken_def EqualFold_def ToLower_def to_lower_char_def less_eq_char_def
        plain_char_code Let_def)

lemma demo_scope_ok:
  "\<exists>t u c'. ResolveTenantUserScope demo_request None None
     (DefaultTenantAccessConfig\<lparr>ta_EnforceTenantStatus := False\<rparr>) = Inr (t, u, c')"
  by (simp add: ResolveTenantUserScope_def GetClaims_def demo_request_def DefaultTenantAccessConfig_def
        mergeRequestedScope_def ptrString_def requestedScopeValue_def resolve_user_token_scope_def
        demo_claims_simps isBlockedTenantAccessStatus_def Let_def)

theorem tenant_isolation_witness:
  "\<exists>t u c'. ResolveTenantUserScope demo_request None None
     (DefaultTenantAccessConfig\<lparr>ta_EnforceTenantStatus := False\<rparr>) = Inr (t, u, c') \<and> t = Some ''t1'' \<and> u = Some ''u1''"
proof -
  obtain t u c' where r: "ResolveTenantUserScope demo_request None None
     (DefaultTenantAccessConfig\<lparr>ta_EnforceTenantStatus := False\<rparr>) = Inr (t, u, c')"
    using demo_scope_ok by blast
  have "(case GetClaims demo_request of Some cl \<Rightarrow> Some cl | None \<Rightarrow> ClaimsFromContext (gc_req demo_request)) =
      Some demo_claims"
    by (simp add: GetClaims_def demo_request_def)
  from tenant_isolation [OF this _ _ r] r show ?thesis by (simp add: demo_claims_simps)
qed

text \<open>
  Where a tenant is required it is there: with \<open>RequireTenant\<close> every request that is let through,
  of users and of services alike, has a tenant in its scope and in the gin context, and where
  service tokens are not allowed none is let through.
\<close>

lemma required_tenant_present:
  assumes "ResolveTenantUserScope c tenantID userID cfg = Inr (t, u, c')" and "ta_RequireTenant cfg"
  shows "t \<noteq> None \<and> gc_tenant c' = t \<and>
    (\<forall>cl. GetClaims c = Some cl \<and> IsServiceToken cl \<longrightarrow> ta_AllowServiceTokens cfg)"
proof -
  from ResolveTenantUserScope_Ok [OF assms(1)] obtain cl rt ru where
    r: "(case GetClaims c of Some cl \<Rightarrow> Some cl | None \<Rightarrow> ClaimsFromContext (gc_req c)) = Some cl"
      "TrimSpace rt = rt"
      "IsServiceToken cl \<Longrightarrow> ta_AllowServiceTokens cfg \<and> (ta_RequireTenant cfg \<longrightarrow> rt \<noteq> []) \<and> t = strPtr rt \<and>
         c' = (if rt \<noteq> [] then SetTenantID c rt else c)"
      "\<not> IsServiceToken cl \<Longrightarrow> resolve_user_token_scope c cl rt ru cfg = Inr (t, u, c')"
    by metis
  show ?thesis
  proof (cases "IsServiceToken cl")
    case True
    with r(2,3) assms(2) r(1) show ?thesis
      by (auto simp: strPtr_trimmed SetTenantID_tenant split: option.splits)
  next
    case False
    note us = user_token_scope [OF r(4) [OF False] r(2)]
    from us(4,5) assms(2) r(1) False show ?thesis by auto
  qed
qed

lemma required_tenant_present_witness:
  "\<exists>t u c'. ResolveTenantUserScope demo_request None None
     (DefaultTenantAppConfig\<lparr>ta_EnforceTenantStatus := False\<rparr>) = Inr (t, u, c') \<and> t \<noteq> None"
proof -
  let ?cfg = "DefaultTenantAppConfig\<lparr>ta_EnforceTenantStatus := False\<rparr>"
  have "\<exists>t u c'. ResolveTenantUserScope demo_request None None ?cfg = Inr (t, u, c')"
    by (simp add: ResolveTenantUserScope_def GetClaims_def demo_request_def DefaultTenantAppConfig_def
          DefaultTenantAccessConfig_def mergeRequestedScope_def ptrString_def requestedScopeValue_def
          resolve_user_token_scope_def demo_claims_simps isBlockedTenantAccessStatus_def Let_def
          plain_char_code)
  then obtain t u c' where r: "ResolveTenantUserScope demo_request None None ?cfg = Inr (t, u, c')" by blast
  have "ta_RequireTenant ?cfg" by (simp add: DefaultTenantAppConfig_def)
  from required_tenant_present [OF r this] r show ?thesis by blast
qed

text \<open>
  The two guards on the tenant status disagree: with the default settings a token whose tenant
  status is \<open>Suspended\<close> is refused by \<open>TenantAccessMiddleware\<close>, which compares case-insensitively, and
  let through by \<open>TenantStatusMiddleware\<close>, which compares the raw strings.
\<close>

lemma tenant_status_guards_disagree:
  "TenantStatusMiddleware DefaultTenantStatusConfig demo_request = Next demo_request \<and>
   TenantAccessMiddleware DefaultTenantAccessConfig demo_request =
     Abort StatusForbidden ''tenant_inactive'' demo_request"
proof -
  have "isBlockedTenantAccessStatus ''Suspended'' [''suspended'', ''cancelled'', ''inactive'']"
    by (simp add: isBlockedTenantAccessStatus_def ToLower_def to_lower_char_def less_eq_char_def
          plain_char_code Let_def char_of_def bit_0)
  then show ?thesis
    by (simp add: TenantStatusMiddleware_def DefaultTenantStatusConfig_def TenantAccessMiddleware_def
          ResolveTenantUserScope_def GetClaims_def demo_request_def DefaultTenantAccessConfig_def
          mergeRequestedScope_def ptrString_def requestedScopeValue_def resolve_user_token_scope_def
          demo_claims_simps Let_def plain_char_code)
qed

end
