(* ===== verification/Jobs_Http.thy ===== *)
theory Jobs_Http
  imports Jobs_Manager Tenant_Access
begin

text \<open>
  The administration routes of the job runtime, \<open>pkg/jobs/http.go\<close>: the query parameters of the
  listing and one handler per route. \<open>gin\<close>'s routing is the choice of an \<open>admin_route\<close>; binding a
  JSON body is the parameter \<open>bind\<close>. A handler returns status and body, and the manager after it.
\<close>

section \<open>parseJobFilter\<close>

definition invalid_filter :: "string \<Rightarrow> string \<Rightarrow> string \<Rightarrow> go_error" where
  "invalid_filter message field hint =
     EApp (AddSuggestion field hint (Some (app_msg ErrorCodeInvalidInput message)))"

definition known_status :: "job_status \<Rightarrow> bool" where
  "known_status s = (case s of StatusOther _ \<Rightarrow> False | _ \<Rightarrow> True)"

fun parse_statuses :: "string list \<Rightarrow> (job_status list) option" where
  "parse_statuses [] = Some []"
| "parse_statuses (part # parts) =
     (let status = status_of (TrimSpace part)
      in if known_status status then map_option (Cons status) (parse_statuses parts) else None)"

text \<open>A parameter that must be a non-negative integer, with its default.\<close>

definition nonneg_param :: "int \<Rightarrow> string \<Rightarrow> int option" where
  "nonneg_param dflt text =
     (if text = [] then Some dflt
      else case Atoi text of None \<Rightarrow> None | Some v \<Rightarrow> if v < 0 then None else Some v)"

definition parseJobFilter :: "gin_ctx \<Rightarrow> go_error + job_filter" where
  "parseJobFilter c =
     (case nonneg_param 50 (Query c ''limit'') of
        None \<Rightarrow> Err (invalid_filter ''invalid limit'' ''limit'' ''provide a non-negative integer'')
      | Some limit \<Rightarrow>
        (case nonneg_param 0 (Query c ''offset'') of
           None \<Rightarrow> Err (invalid_filter ''invalid offset'' ''offset'' ''provide a non-negative integer'')
         | Some offset \<Rightarrow>
           let statuses = Query c ''status''
           in case (if statuses = [] then Some [] else parse_statuses (Split statuses CHR '','')) of
                None \<Rightarrow> Err (invalid_filter ''invalid status filter'' ''status''
                           ''use scheduled,queued,running,succeeded,failed,canceled'')
              | Some ss \<Rightarrow>
                  Ok \<lparr>jf_Queue = Query c ''queue'', jf_Type = Query c ''type'', jf_Statuses = ss,
                      jf_Limit = limit, jf_Offset = offset\<rparr>))"

section \<open>The routes\<close>

datatype admin_data =
    HealthData health_snapshot
  | HandlersData "handler_info list"
  | StatsData stats_snapshot
  | JobsData "job list"
  | JobData job

datatype admin_route =
    GetHealthz | GetHandlers | GetStats | GetJobs | GetJobByID | PostJobs | PostRetry | PostCancel

type_synonym admin_response = "(int \<times> admin_data api_response) option"

definition respond :: "(go_error + admin_data) \<Rightarrow> admin_response" where
  "respond r =
     (case r of Inl err \<Rightarrow> HandleError (Some err) | Inr d \<Rightarrow> Some (response_Success (Some d)))"

definition get_jobs :: "'s store_ops \<Rightarrow> gin_ctx \<Rightarrow> ('s, 'env) manager \<Rightarrow> admin_response" where
  "get_jobs ops c m =
     (case parseJobFilter c of
        Inl err \<Rightarrow> HandleError (Some err)
      | Inr f \<Rightarrow>
        (case ListJobs ops m f of
           Inl err \<Rightarrow> HandleError (Some err)
         | Inr jobs \<Rightarrow>
             Some (JSONSuccess StatusOK (Some (JobsData jobs))
               [''limit'' \<mapsto> AInt (jf_Limit f), ''offset'' \<mapsto> AInt (jf_Offset f),
                ''count'' \<mapsto> AInt (int (length jobs))])))"

definition post_jobs ::
    "'s store_ops \<Rightarrow> (string \<Rightarrow> go_error + enqueue_request) \<Rightarrow> string \<Rightarrow> go_time \<Rightarrow> gin_ctx \<Rightarrow>
     ('s, 'env) manager \<Rightarrow> admin_response \<times> ('s, 'env) manager" where
  "post_jobs ops bind uuid now c m =
     (case bind (gc_body c) of
        Inl err \<Rightarrow>
          (HandleError (Some (EApp (AddSuggestion ''body'' (Error err)
             (Some (app_msg ErrorCodeInvalidRequest ''invalid enqueue request''))))), m)
      | Inr req \<Rightarrow>
        (case Enqueue ops uuid now (gc_req c) req m of
           (Inl err, m') \<Rightarrow> (HandleError (Some err), m')
         | (Inr job, m') \<Rightarrow> (Some (JSONSuccess StatusAccepted (Some (JobData job)) Map.empty), m')))"

definition map_ok :: "('a \<Rightarrow> 'b) \<Rightarrow> 'e + 'a \<Rightarrow> 'e + 'b" where
  "map_ok f r = (case r of Inl e \<Rightarrow> Inl e | Inr x \<Rightarrow> Inr (f x))"

definition RegisterAdminRoutes ::
    "'s store_ops \<Rightarrow> (string \<Rightarrow> go_error + enqueue_request) \<Rightarrow> string \<Rightarrow> go_time \<Rightarrow> admin_route \<Rightarrow> gin_ctx \<Rightarrow>
     ('s, 'env) manager \<Rightarrow> admin_response \<times> ('s, 'env) manager" where
  "RegisterAdminRoutes ops bind uuid now route c m =
     (case route of
        GetHealthz \<Rightarrow> (Some (response_Success (Some (HealthData (Health m)))), m)
      | GetHandlers \<Rightarrow> (Some (response_Success (Some (HandlersData (Handlers m)))), m)
      | GetStats \<Rightarrow> (respond (map_ok StatsData (Stats ops now m)), m)
      | GetJobs \<Rightarrow> (get_jobs ops c m, m)
      | GetJobByID \<Rightarrow> (respond (map_ok JobData (GetJob ops m (Param c ''id''))), m)
      | PostJobs \<Rightarrow> post_jobs ops bind uuid now c m
      | PostRetry \<Rightarrow> (let (r, m') = RetryJob ops now (Param c ''id'') m in (respond (map_ok JobData r), m'))
      | PostCancel \<Rightarrow> (let (r, m') = CancelJob ops now (Param c ''id'') m in (respond (map_ok JobData r), m')))"

section \<open>Round trip of the filter\<close>

definition query_of :: "job_filter \<Rightarrow> (string \<times> string list) list" where
  "query_of f =
     [(''queue'', [jf_Queue f]), (''type'', [jf_Type f]), (''limit'', [FormatInt (jf_Limit f)]),
      (''offset'', [FormatInt (jf_Offset f)]), (''status'', [Join (map status_text (jf_Statuses f)) '','']) ]"

definition wf_filter :: "job_filter \<Rightarrow> bool" where
  "wf_filter f =
     (list_all known_status (jf_Statuses f) \<and> 0 \<le> jf_Limit f \<and> jf_Limit f < 2 ^ 63 \<and>
      0 \<le> jf_Offset f \<and> jf_Offset f < 2 ^ 63)"

lemma known_status_text:
  assumes "known_status s"
  shows "status_of (TrimSpace (status_text s)) = s" "CHR '','' \<notin> set (status_text s)" "status_text s \<noteq> []"
  using assms by (cases s; simp add: known_status_def plain_char_code status_of_def)+

lemma parse_statuses_texts: "list_all known_status ss \<Longrightarrow> parse_statuses (map status_text ss) = Some ss"
  by (induction ss) (simp_all add: known_status_text)

lemma FormatInt_not_Nil: "FormatInt i \<noteq> []"
  using FormatNat_head [of "nat i"] by (auto simp: FormatInt_def)

lemma nonneg_param_FormatInt: "0 \<le> v \<Longrightarrow> v < 2 ^ 63 \<Longrightarrow> nonneg_param d (FormatInt v) = Some v"
  by (simp add: nonneg_param_def FormatInt_not_Nil Atoi_FormatInt int64_range_def)

lemma Join_eq_Nil: "\<forall>p\<in>set ps. p \<noteq> [] \<Longrightarrow> Join ps sep = [] \<longleftrightarrow> ps = []"
  by (induction ps sep rule: Join.induct) auto

lemma parse_query_of:
  assumes "wf_filter f"
  shows "parseJobFilter (c\<lparr>gc_Query := query_of f\<rparr>) = Inr f"
proof -
  let ?ts = "map status_text (jf_Statuses f)"
  have known: "\<forall>s\<in>set (jf_Statuses f). known_status s"
    using assms by (auto simp: wf_filter_def list_all_iff)
  have "Join ?ts '','' = [] \<longleftrightarrow> ?ts = []"
    using known known_status_text by (intro Join_eq_Nil) auto
  moreover have "Split (Join ?ts '','') CHR '','' = ?ts" if "?ts \<noteq> []"
    using that known known_status_text by (intro Split_Join) auto
  ultimately have "(if Join ?ts '','' = [] then Some [] else parse_statuses (Split (Join ?ts '','') CHR '','')) =
      Some (jf_Statuses f)"
    using known parse_statuses_texts by (auto simp: list_all_iff)
  then show ?thesis
    using assms by (simp add: parseJobFilter_def Query_def query_of_def wf_filter_def nonneg_param_FormatInt Let_def)
qed

section \<open>Properties\<close>

definition listed :: "admin_response \<Rightarrow> job list" where
  "listed r =
     (case r of
        Some (status, body) \<Rightarrow> (case ar_Data body of Some (JobsData jobs) \<Rightarrow> jobs | _ \<Rightarrow> [])
      | None \<Rightarrow> [])"

lemma concat_pages: "concat (map (\<lambda>k. take n (drop (k * n) xs)) [0..<pages]) = take (pages * n) xs"
  by (induction pages) (simp_all add: take_add [symmetric] add.commute)

lemma mem_List_page:
  assumes "0 < n"
  shows "mem_List s (f\<lparr>jf_Limit := int n, jf_Offset := int off\<rparr>) =
    Inr (take n (drop off (sort_key list_key (filter (job_matches f) (map snd (ms_jobs s))))))"
proof -
  have "job_matches (f\<lparr>jf_Limit := int n, jf_Offset := int off\<rparr>) = job_matches f"
    by (simp add: job_matches_def fun_eq_iff)
  with assms show ?thesis by (auto simp: mem_List_def Let_def)
qed

lemma get_jobs_page:
  assumes "list_all known_status (jf_Statuses f)" "0 < n" "int n < 2 ^ 63" "int off < 2 ^ 63"
  shows "listed (get_jobs memory_ops
      (c\<lparr>gc_Query := query_of (f\<lparr>jf_Limit := int n, jf_Offset := int off\<rparr>)\<rparr>) m) =
    take n (drop off (sort_key list_key (filter (job_matches f) (map snd (ms_jobs (mg_store m))))))"
  using assms
  by (simp add: get_jobs_def parse_query_of wf_filter_def ListJobs_def memory_ops_def mem_List_page
      listed_def JSONSuccess_def)

text \<open>
  C36. Paging through \<open>GET /jobs\<close> with a positive limit and successive offsets, written as query
  parameters, returns every job that matches the filter once and in the order of the listing, newest
  first.
\<close>

theorem admin_pages_cover:
  assumes "list_all known_status (jf_Statuses f)" and "0 < n" and "int n < 2 ^ 63"
    and "int (pages * n) < 2 ^ 63" and "length (ms_jobs (mg_store m)) \<le> pages * n"
  shows "concat (map (\<lambda>k. listed (get_jobs memory_ops
        (c\<lparr>gc_Query := query_of (f\<lparr>jf_Limit := int n, jf_Offset := int (k * n)\<rparr>)\<rparr>) m)) [0..<pages]) =
    sort_key list_key (filter (job_matches f) (map snd (ms_jobs (mg_store m))))"
proof -
  let ?all = "sort_key list_key (filter (job_matches f) (map snd (ms_jobs (mg_store m))))"
  have off: "int (k * n) < 2 ^ 63" if "k < pages" for k
  proof -
    have "k * n \<le> pages * n" using that by simp
    then show ?thesis using assms(4) by linarith
  qed
  have "map (\<lambda>k. listed (get_jobs memory_ops
        (c\<lparr>gc_Query := query_of (f\<lparr>jf_Limit := int n, jf_Offset := int (k * n)\<rparr>)\<rparr>) m)) [0..<pages] =
      map (\<lambda>k. take n (drop (k * n) ?all)) [0..<pages]"
    by (intro map_cong refl get_jobs_page [OF assms(1,2,3)] off) simp
  moreover have "length ?all \<le> pages * n"
    using assms(5) by (simp only: length_sort) (metis length_filter_le length_map le_trans)
  ultimately show ?thesis by (simp only: concat_pages take_all)
qed

definition any_filter :: job_filter where
  "any_filter = \<lparr>jf_Queue = [], jf_Type = [], jf_Statuses = [StatusQueued], jf_Limit = 0, jf_Offset = 0\<rparr>"

theorem admin_pages_cover_witness:
  "concat (map (\<lambda>k. listed (get_jobs memory_ops
      (demo_request\<lparr>gc_Query := query_of (any_filter\<lparr>jf_Limit := int 1, jf_Offset := int (k * 1)\<rparr>)\<rparr>)
      (demo_busy\<lparr>mg_store := demo_store\<rparr>))) [0..<2]) =
   sort_key list_key (filter (job_matches any_filter) (map snd (ms_jobs demo_store)))"
  using admin_pages_cover [of any_filter 1 2 "demo_busy\<lparr>mg_store := demo_store\<rparr>" demo_request]
  by (simp add: any_filter_def known_status_def demo_store_def)

lemma manager_same_store [simp]: "m\<lparr>mg_store := mg_store m\<rparr> = m"
  by (cases m) simp

lemma mem_update_error: "mem_update s i f = (Inl e, s') \<Longrightarrow> s' = s"
  by (auto simp: mem_update_def split: option.splits sum.splits prod.splits)

lemma enqueue_error: "Enqueue memory_ops uuid now ctx req m = (Inl e, m') \<Longrightarrow> m' = m"
  by (auto simp: Enqueue_def memory_ops_def mem_Create_def Let_def split: if_splits option.splits prod.splits)

text \<open>
  An administration request that is answered with an error has no effect: every route that
  reports failure leaves the manager and its in-memory store exactly as they were.
\<close>

lemma admin_error_no_effect:
  assumes "RegisterAdminRoutes memory_ops bind uuid now route c m = (Some (status, body), m')"
    and "\<not> ar_Success body"
  shows "m' = m"
proof (cases route)
  case PostJobs
  then show ?thesis using assms
    by (auto simp: RegisterAdminRoutes_def post_jobs_def JSONSuccess_def dest: enqueue_error
        split: sum.splits prod.splits)
next
  case PostRetry
  then show ?thesis using assms
    by (auto simp: RegisterAdminRoutes_def RetryJob_def memory_ops_def mem_Retry_def respond_def map_ok_def
        response_Success_def JSONSuccess_def dest: mem_update_error split: sum.splits prod.splits)
next
  case PostCancel
  then show ?thesis using assms
    by (auto simp: RegisterAdminRoutes_def CancelJob_def memory_ops_def mem_Cancel_def respond_def map_ok_def
        response_Success_def JSONSuccess_def dest: mem_update_error split: sum.splits prod.splits)
qed (use assms in \<open>auto simp: RegisterAdminRoutes_def\<close>)

lemma admin_error_no_effect_witness:
  "\<exists>status body. RegisterAdminRoutes memory_ops (\<lambda>_. Inl (EPlain ''bad'')) ''u'' 0 PostJobs demo_request demo_busy =
     (Some (status, body), demo_busy) \<and> \<not> ar_Success body"
proof -
  obtain status body m' where
    r: "RegisterAdminRoutes memory_ops (\<lambda>_. Inl (EPlain ''bad'')) ''u'' 0 PostJobs demo_request demo_busy =
      (Some (status, body), m')" "\<not> ar_Success body"
    by (auto simp: RegisterAdminRoutes_def post_jobs_def HandleError_def JSONError_def Let_def)
  from admin_error_no_effect [OF this] r show ?thesis by blast
qed

end
