(* ===== verification/Auth_Jwt.thy ===== *)
theory Auth_Jwt
  imports Apperr Tenant_Access
begin

text \<open>
  JWT authentication and permission checks: the JWKS key provider of \<open>pkg/auth/jwks.go\<close>, the
  verifier and the \<open>Authorizer\<close> middlewares of \<open>pkg/auth/authorizer.go\<close>.

  The JWT library is the parameter \<open>lib\<close> (parsing without verification, and parsing with a key
  function); HTTP is a function from URLs to what was received. Public keys are Go pointers, so a
  key carries its address. Logging is left out.
\<close>

section \<open>Keys and tokens\<close>

datatype curve = P256 | P384 | P521

text \<open>A public key: its address with the key material; \<open>OtherKey\<close> is any other Go type.\<close>

datatype pub_key =
    RSAKey nat int int
  | ECDSAKey nat "curve option" int int
  | OtherKey nat

datatype jwt_method = MethodRSA | MethodECDSA int | MethodOther

record jwt_token =
  tk_Method :: jwt_method
  tk_alg :: string
  tk_kid :: any
  tk_Claims :: "string \<rightharpoonup> any"
  tk_Valid :: bool

record jwt_lib =
  ParseUnverified :: "string \<Rightarrow> go_error + jwt_token"
  jwt_Parse :: "string \<Rightarrow> (jwt_token \<Rightarrow> go_error + pub_key) \<Rightarrow> go_error + jwt_token"

section \<open>pkg/auth/jwks.go\<close>

record json_web_key =
  jw_Kty :: string
  jw_Kid :: string
  jw_Use :: string
  jw_N :: string
  jw_E :: string
  jw_Crv :: string
  jw_X :: string
  jw_Y :: string

record key_set =
  ks_keysByID :: "string \<rightharpoonup> pub_key"
  ks_allKeys :: "pub_key list"
  ks_expiresAt :: go_time

record key_provider =
  kp_discoveryURL :: string
  kp_explicitJWKSURL :: string
  kp_fallbackJWKSURL :: string
  kp_cacheTTL :: go_duration
  kp_cachedJWKSURL :: string
  kp_cachedKeys :: "key_set option"

text \<open>
  The network as the provider sees it: the discovery document's \<open>jwks_uri\<close> (\<open>None\<close> for a failed
  request, a status outside 2xx or an undecodable body) and the key list of a JWKS URL. The
  addresses of freshly allocated keys are the argument \<open>fresh\<close>.
\<close>

record jwks_net =
  nt_discovery :: "string \<Rightarrow> string option"
  nt_jwks :: "string \<Rightarrow> go_error + json_web_key list"

text \<open>Bytes as natural numbers below 256; \<open>big.Int.SetBytes\<close>.\<close>

definition SetBytes :: "nat list \<Rightarrow> int" where
  "SetBytes bs = fold (\<lambda>b acc. 256 * acc + int b) bs 0"

text \<open>
  \<open>encoding/base64\<close>: the digits of the URL alphabet, the bytes of a digit sequence (\<open>None\<close> for a
  sequence that no byte sequence has), and the decoders without and with padding. Both skip line
  breaks.
\<close>

definition b64_digit :: "char \<Rightarrow> nat option" where
  "b64_digit c =
     (let n = (of_char c :: nat) in
      if 65 \<le> n \<and> n \<le> 90 then Some (n - 65)
      else if 97 \<le> n \<and> n \<le> 122 then Some (n - 71)
      else if 48 \<le> n \<and> n \<le> 57 then Some (n + 4)
      else if n = 45 then Some 62
      else if n = 95 then Some 63
      else None)"

fun b64_bytes :: "nat list \<Rightarrow> nat list option" where
  "b64_bytes [] = Some []"
| "b64_bytes [a] = None"
| "b64_bytes [a, b] = Some [4 * a + b div 16]"
| "b64_bytes [a, b, c] = Some [4 * a + b div 16, 16 * (b mod 16) + c div 4]"
| "b64_bytes (a # b # c # d # ds) =
     map_option (\<lambda>bs. (4 * a + b div 16) # (16 * (b mod 16) + c div 4) # (64 * (c mod 4) + d) # bs)
       (b64_bytes ds)"

definition b64_clean :: "string \<Rightarrow> string" where
  "b64_clean s = filter (\<lambda>c. c \<noteq> CHR 0x0A \<and> c \<noteq> CHR 0x0D) s"

definition RawURLEncoding_Decode :: "string \<Rightarrow> nat list option" where
  "RawURLEncoding_Decode s = Option.bind (those (map b64_digit (b64_clean s))) b64_bytes"

definition URLEncoding_Decode :: "string \<Rightarrow> nat list option" where
  "URLEncoding_Decode s =
     (let t = b64_clean s;
          digits = takeWhile (\<lambda>c. c \<noteq> CHR ''='') t;
          pad = dropWhile (\<lambda>c. c \<noteq> CHR ''='') t
      in if length t mod 4 = 0 \<and> (pad = [] \<or> pad = ''='' \<or> pad = ''=='')
         then Option.bind (those (map b64_digit digits)) b64_bytes else None)"

definition decodeBase64URL :: "string \<Rightarrow> string + nat list" where
  "decodeBase64URL val =
     (let trimmed = TrimSpace val
      in if trimmed = [] then Inl ''empty base64url value''
         else case RawURLEncoding_Decode trimmed of
                Some bs \<Rightarrow> Inr bs
              | None \<Rightarrow> (case URLEncoding_Decode trimmed of
                          Some bs \<Rightarrow> Inr bs
                        | None \<Rightarrow> Inl ''illegal base64 data''))"

definition parseJWKCurve :: "string \<Rightarrow> string + curve" where
  "parseJWKCurve curveName =
     (let n = TrimSpace curveName
      in if n = ''P-256'' then Inr P256
         else if n = ''P-384'' then Inr P384
         else if n = ''P-521'' then Inr P521
         else Inl (''unsupported jwk curve '' @ curveName))"

definition parseRSAJSONWebKey ::
  "nat \<Rightarrow> json_web_key \<Rightarrow> string + pub_key" where
  "parseRSAJSONWebKey addr jwk =
     (case decodeBase64URL (jw_N jwk) of
        Inl e \<Rightarrow> Inl (''decode rsa modulus: '' @ e)
      | Inr nBytes \<Rightarrow>
     (case decodeBase64URL (jw_E jwk) of
        Inl e \<Rightarrow> Inl (''decode rsa exponent: '' @ e)
      | Inr eBytes \<Rightarrow>
          let n = SetBytes nBytes; e = SetBytes eBytes
          in if n = 0 \<or> e = 0 then Inl ''invalid rsa jwk'' else Inr (RSAKey addr n (wrap64 e))))"

definition parseECDSAJSONWebKey ::
  "nat \<Rightarrow> json_web_key \<Rightarrow> string + pub_key" where
  "parseECDSAJSONWebKey addr jwk =
     (case decodeBase64URL (jw_X jwk) of
        Inl e \<Rightarrow> Inl (''decode ecdsa x coordinate: '' @ e)
      | Inr xBytes \<Rightarrow>
     (case decodeBase64URL (jw_Y jwk) of
        Inl e \<Rightarrow> Inl (''decode ecdsa y coordinate: '' @ e)
      | Inr yBytes \<Rightarrow>
     (case parseJWKCurve (jw_Crv jwk) of
        Inl e \<Rightarrow> Inl e
      | Inr cv \<Rightarrow> Inr (ECDSAKey addr (Some cv) (SetBytes xBytes) (SetBytes yBytes)))))"

definition parseJSONWebKey ::
  "nat \<Rightarrow> json_web_key \<Rightarrow> string + pub_key" where
  "parseJSONWebKey addr jwk =
     (let kty = ToUpper (TrimSpace (jw_Kty jwk))
      in if kty = ''RSA'' then parseRSAJSONWebKey addr jwk
         else if kty = ''EC'' then parseECDSAJSONWebKey addr jwk
         else Inl (''unsupported jwk key type '' @ jw_Kty jwk))"

text \<open>The loop of \<open>fetchKeySet\<close> over the decoded keys; each parsed key gets the next address.\<close>

fun collect_keys ::
  "nat \<Rightarrow> json_web_key list \<Rightarrow> (string \<rightharpoonup> pub_key) \<Rightarrow> pub_key list
     \<Rightarrow> string + ((string \<rightharpoonup> pub_key) \<times> pub_key list)" where
  "collect_keys addr [] keysByID allKeys = Inr (keysByID, allKeys)"
| "collect_keys addr (jwk # jwks) keysByID allKeys =
     (let use = TrimSpace (jw_Use jwk)
      in if use \<noteq> [] \<and> \<not> EqualFold use ''sig'' then collect_keys addr jwks keysByID allKeys
         else case parseJSONWebKey addr jwk of
                Inl e \<Rightarrow> Inl e
              | Inr publicKey \<Rightarrow>
                  let kid = TrimSpace (jw_Kid jwk);
                      keysByID = (if kid \<noteq> [] then keysByID(kid \<mapsto> publicKey) else keysByID)
                  in collect_keys (addr + 1) jwks keysByID (allKeys @ [publicKey]))"

definition fetchKeySet ::
  "jwks_net \<Rightarrow> nat \<Rightarrow> go_time \<Rightarrow> key_provider \<Rightarrow> string
     \<Rightarrow> go_error + key_set" where
  "fetchKeySet net fresh now p jwksURL =
     (case nt_jwks net jwksURL of
        Inl e \<Rightarrow> Err e
      | Inr keys \<Rightarrow>
          (case collect_keys fresh keys Map.empty [] of
             Inl e \<Rightarrow> Err (EPlain e)
           | Inr (keysByID, allKeys) \<Rightarrow>
               if allKeys = [] then Err (EPlain ''jwks response did not contain any signing keys'')
               else Ok \<lparr>ks_keysByID = keysByID, ks_allKeys = allKeys, ks_expiresAt = now + kp_cacheTTL p\<rparr>))"

text \<open>\<open>cachedSnapshot\<close>; \<open>None\<close> for the time is the zero \<open>time.Time\<close>, which skips the expiry check.\<close>

definition cachedSnapshot :: "key_provider \<Rightarrow> go_time option \<Rightarrow> key_set option" where
  "cachedSnapshot p now =
     (case kp_cachedKeys p of
        None \<Rightarrow> None
      | Some ks \<Rightarrow> (case now of
                     None \<Rightarrow> Some ks
                   | Some t \<Rightarrow> if t > ks_expiresAt ks then None else Some ks))"

definition resolveJWKSURL ::
  "jwks_net \<Rightarrow> bool \<Rightarrow> key_provider \<Rightarrow> (go_error + string) \<times> key_provider" where
  "resolveJWKSURL net force p =
     (let fallback = (if kp_fallbackJWKSURL p \<noteq> [] then Ok (kp_fallbackJWKSURL p)
                      else Err (EPlain ''jwks url unavailable''))
      in if kp_explicitJWKSURL p \<noteq> [] then (Ok (kp_explicitJWKSURL p), p)
         else if \<not> force \<and> kp_cachedJWKSURL p \<noteq> [] then (Ok (kp_cachedJWKSURL p), p)
         else if kp_discoveryURL p \<noteq> [] then
           (case nt_discovery net (kp_discoveryURL p) of
              None \<Rightarrow> (fallback, p)
            | Some uri \<Rightarrow>
                let jwksURL = TrimSpace uri
                in if jwksURL \<noteq> [] then (Ok jwksURL, p\<lparr>kp_cachedJWKSURL := jwksURL\<rparr>) else (fallback, p))
         else (fallback, p))"

definition loadKeySet ::
  "jwks_net \<Rightarrow> nat \<Rightarrow> go_time \<Rightarrow> bool \<Rightarrow> key_provider
     \<Rightarrow> (go_error + key_set) \<times> key_provider" where
  "loadKeySet net fresh now force p =
     (let stale = (\<lambda>e p. case cachedSnapshot p None of Some ks \<Rightarrow> (Ok ks, p) | None \<Rightarrow> (Err e, p))
      in case (if force then None else cachedSnapshot p (Some now)) of
           Some ks \<Rightarrow> (Ok ks, p)
         | None \<Rightarrow>
             (case resolveJWKSURL net force p of
                (Inl e, p) \<Rightarrow> stale e p
              | (Inr jwksURL, p) \<Rightarrow>
                  (case fetchKeySet net fresh now p jwksURL of
                     Inl e \<Rightarrow> stale e p
                   | Inr ks \<Rightarrow> (Ok ks, p\<lparr>kp_cachedKeys := Some ks\<rparr>))))"

definition selectKeys :: "key_set \<Rightarrow> string \<Rightarrow> pub_key list" where
  "selectKeys ks kid =
     (let kid = TrimSpace kid
      in if kid \<noteq> [] then (case ks_keysByID ks kid of Some key \<Rightarrow> [key] | None \<Rightarrow> [])
         else ks_allKeys ks)"

definition LookupKeys ::
  "(any \<Rightarrow> string) \<Rightarrow> jwks_net \<Rightarrow> nat \<Rightarrow> go_time \<Rightarrow> jwt_token
     \<Rightarrow> key_provider \<Rightarrow> (go_error + pub_key list) \<times> key_provider" where
  "LookupKeys fmt_other net fresh now token p =
     (let kid = TrimSpace (Sprint fmt_other (tk_kid token))
      in case loadKeySet net fresh now False p of
           (Inl e, p) \<Rightarrow> (Err e, p)
         | (Inr ks, p) \<Rightarrow>
             let keys = selectKeys ks kid;
                 (keys, p) =
                   (if keys = [] \<and> kid \<noteq> [] then
                      (case loadKeySet net fresh now True p of
                         (Inr ks, p) \<Rightarrow> (selectKeys ks kid, p)
                       | (Inl _, p) \<Rightarrow> (keys, p))
                    else (keys, p))
             in if keys = [] then (Err (EPlain (''no jwks keys matched kid='' @ kid)), p) else (Ok keys, p))"

section \<open>The verifier of pkg/auth/authorizer.go\<close>

record jwt_verifier =
  vf_staticKey :: "pub_key option"
  vf_remote :: "key_provider option"
  vf_issuer :: string
  vf_audiences :: "string list"

text \<open>\<open>fmt.Sprintf("%T:%p", key, key)\<close>: the type and the address.\<close>

fun key_identity :: "pub_key \<Rightarrow> nat \<times> nat" where
  "key_identity (RSAKey a n e) = (0, a)"
| "key_identity (ECDSAKey a c x y) = (1, a)"
| "key_identity (OtherKey a) = (2, a)"

text \<open>The loop of \<open>dedupeVerificationKeys\<close> (no key of the model is nil).\<close>

fun dedupe_loop :: "(nat \<times> nat) set \<Rightarrow> pub_key list \<Rightarrow> pub_key list" where
  "dedupe_loop seen [] = []"
| "dedupe_loop seen (key # keys) =
     (if key_identity key \<in> seen then dedupe_loop seen keys
      else key # dedupe_loop (insert (key_identity key) seen) keys)"

definition dedupeVerificationKeys :: "pub_key list \<Rightarrow> pub_key list" where
  "dedupeVerificationKeys keys = dedupe_loop {} keys"

definition getCurveForECDSAKey :: "curve option \<Rightarrow> int" where
  "getCurveForECDSAKey cv =
     (case cv of Some P256 \<Rightarrow> 256 | Some P384 \<Rightarrow> 384 | Some P521 \<Rightarrow> 521 | None \<Rightarrow> 0)"

definition validateTokenMethodWithKey :: "jwt_token \<Rightarrow> pub_key \<Rightarrow> string option" where
  "validateTokenMethodWithKey token key =
     (case key of
        RSAKey _ _ _ \<Rightarrow>
          (if tk_Method token = MethodRSA then None
           else Some (''unexpected signing method: '' @ tk_alg token @ '' (expected RSA)''))
      | ECDSAKey _ cv _ _ \<Rightarrow>
          (case tk_Method token of
             MethodECDSA bits \<Rightarrow>
               if bits \<noteq> getCurveForECDSAKey cv then Some ''ECDSA curve mismatch'' else None
           | _ \<Rightarrow> Some (''unexpected signing method: '' @ tk_alg token @ '' (expected ECDSA)''))
      | OtherKey _ \<Rightarrow> Some ''unsupported public key type'')"

definition verifyWithKey ::
  "(any \<Rightarrow> string) \<Rightarrow> jwt_lib \<Rightarrow> jwt_verifier \<Rightarrow> string \<Rightarrow> pub_key \<Rightarrow> go_error + claims" where
  "verifyWithKey fmt_other lib v tokenString key =
     (case jwt_Parse lib tokenString
             (\<lambda>token. case validateTokenMethodWithKey token key of
                        Some e \<Rightarrow> Err (EPlain e) | None \<Rightarrow> Ok key) of
        Inl e \<Rightarrow> Err (EFmt (''failed to parse token: '' @ Error e) e)
      | Inr token \<Rightarrow>
          if \<not> tk_Valid token then Err (EPlain ''invalid token claims'')
          else case validateIssuerClaim (tk_Claims token) (vf_issuer v) of
                 Some e \<Rightarrow> Err (EPlain e)
               | None \<Rightarrow>
          (case validateAudienceClaim (tk_Claims token) (vf_audiences v) of
                 Some e \<Rightarrow> Err (EPlain e)
               | None \<Rightarrow> Ok (mapClaimsToAuthClaims fmt_other (tk_Claims token))))"

text \<open>The loop of \<open>Verify\<close> over the keys.\<close>

fun try_keys :: "(pub_key \<Rightarrow> go_error + claims) \<Rightarrow> go_error option \<Rightarrow> pub_key list \<Rightarrow> go_error + claims" where
  "try_keys vw lastErr [] =
     (case lastErr of
        Some e \<Rightarrow> Err e
      | None \<Rightarrow> Err (EPlain ''failed to parse token: no verification keys available''))"
| "try_keys vw lastErr (key # keys) =
     (case vw key of Inl e \<Rightarrow> try_keys vw (Some e) keys | Inr c \<Rightarrow> Ok c)"

text \<open>The parameters a verification run depends on.\<close>

record verify_env =
  ve_fmt :: "any \<Rightarrow> string"
  ve_lib :: jwt_lib
  ve_net :: jwks_net
  ve_fresh :: nat
  ve_now :: go_time

definition lookupVerificationKeys ::
  "verify_env \<Rightarrow> string \<Rightarrow> jwt_verifier \<Rightarrow> (go_error + pub_key list) \<times> jwt_verifier" where
  "lookupVerificationKeys env tokenString v =
     (case ParseUnverified (ve_lib env) tokenString of
        Inl e \<Rightarrow> (Err (EFmt (''failed to parse token header: '' @ Error e) e), v)
      | Inr token \<Rightarrow>
          let finish = (\<lambda>keys v.
                let keys = keys @ (case vf_staticKey v of Some k \<Rightarrow> [k] | None \<Rightarrow> [])
                in if keys = [] then (Err (EPlain ''no verification keys available''), v)
                   else (Ok (dedupeVerificationKeys keys), v))
          in case vf_remote v of
               None \<Rightarrow> finish [] v
             | Some p \<Rightarrow>
                 (case LookupKeys (ve_fmt env) (ve_net env) (ve_fresh env) (ve_now env) token p of
                    (Inl e, p) \<Rightarrow>
                      (let v = v\<lparr>vf_remote := Some p\<rparr>
                       in if vf_staticKey v = None
                          then (Err (EFmt (''failed to resolve jwks verification key: '' @ Error e) e), v)
                          else finish [] v)
                  | (Inr keys, p) \<Rightarrow> finish keys (v\<lparr>vf_remote := Some p\<rparr>)))"

definition Verify :: "verify_env \<Rightarrow> string \<Rightarrow> jwt_verifier \<Rightarrow> (go_error + claims) \<times> jwt_verifier" where
  "Verify env tokenString v =
     (case lookupVerificationKeys env tokenString v of
        (Inl e, v) \<Rightarrow> (Err e, v)
      | (Inr keys, v) \<Rightarrow> (try_keys (verifyWithKey (ve_fmt env) (ve_lib env) v tokenString) None keys, v))"

section \<open>The authorizer\<close>

definition parseBypassServiceTokenPermissions :: "string \<Rightarrow> string + bool" where
  "parseBypassServiceTokenPermissions raw =
     (let raw = TrimSpace raw
      in if raw = [] then Inr True
         else case ParseBool raw of
                None \<Rightarrow> Inl ''jwt authorizer: parse BypassServiceTokenPermissions''
              | Some b \<Rightarrow> Inr b)"

definition parseAudience :: "string \<Rightarrow> string list" where
  "parseAudience audStr =
     (if audStr = [] then []
      else filter (\<lambda>p. p \<noteq> []) (map TrimSpace (Split audStr (CHR '',''))))"

definition authenticate ::
  "verify_env \<Rightarrow> jwt_verifier \<Rightarrow> gin_ctx \<Rightarrow> (string + claims \<times> gin_ctx) \<times> jwt_verifier" where
  "authenticate env v c =
     (case ExtractBearerToken (gc_Authorization c) of
        Inl e \<Rightarrow> (Inl e, v)
      | Inr token \<Rightarrow>
          (case Verify env token v of
             (Inl e, v) \<Rightarrow> (Inl (Error e), v)
           | (Inr cl, v) \<Rightarrow>
               (Inr (cl, c\<lparr>gc_claims := Some cl, gc_req := ContextWithClaims (gc_req c) cl\<rparr>), v)))"

text \<open>\<open>abortAuthError\<close>: every authentication error is 401.\<close>

definition authorizationErrorStatus :: "string option \<Rightarrow> int" where
  "authorizationErrorStatus err = (case err of None \<Rightarrow> StatusOK | Some _ \<Rightarrow> StatusUnauthorized)"

definition abortAuthError :: "gin_ctx \<Rightarrow> string option \<Rightarrow> mw_result" where
  "abortAuthError c err =
     (let status = authorizationErrorStatus err
      in if status = StatusUnauthorized then Abort status ''invalid_token'' c
         else Abort status ''authorization_failed'' c)"

text \<open>The claims of the request: those already stored, or those of a fresh authentication.\<close>

definition ensure_claims ::
  "verify_env \<Rightarrow> jwt_verifier \<Rightarrow> gin_ctx \<Rightarrow> (mw_result + claims \<times> gin_ctx) \<times> jwt_verifier" where
  "ensure_claims env v c =
     (case GetClaims c of
        Some cl \<Rightarrow> (Inr (cl, c), v)
      | None \<Rightarrow>
          (case authenticate env v c of
             (Inl e, v) \<Rightarrow> (Inl (abortAuthError c (Some e)), v)
           | (Inr r, v) \<Rightarrow> (Inr r, v)))"

definition RequireAuthenticated :: "verify_env \<Rightarrow> jwt_verifier \<Rightarrow> gin_ctx \<Rightarrow> mw_result \<times> jwt_verifier" where
  "RequireAuthenticated env v c =
     (case ensure_claims env v c of
        (Inl r, v) \<Rightarrow> (r, v)
      | (Inr (_, c), v) \<Rightarrow> (Next c, v))"

definition RequireServiceToken :: "verify_env \<Rightarrow> jwt_verifier \<Rightarrow> gin_ctx \<Rightarrow> mw_result \<times> jwt_verifier" where
  "RequireServiceToken env v c =
     (case ensure_claims env v c of
        (Inl r, v) \<Rightarrow> (r, v)
      | (Inr (cl, c), v) \<Rightarrow>
          if \<not> IsServiceToken cl then (Abort StatusForbidden ''service_token_required'' c, v)
          else (Next c, v))"

text \<open>
  The decision client of \<open>RequirePermission\<close> as a function: \<open>None\<close> when none is configured; it
  answers with an error or with whether the request is allowed. \<open>build\<close> is
  \<open>buildPermissionDecisionRequest\<close>.
\<close>

record 'q authorizer =
  az_bypass :: bool
  az_decide :: "('q \<Rightarrow> go_error + bool) option"

definition check_bitmask :: "gin_ctx \<Rightarrow> claims \<Rightarrow> string \<Rightarrow> mw_result" where
  "check_bitmask c cl code =
     (case gc_service c of
        NoService \<Rightarrow> Abort StatusInternalServerError ''service_not_available'' c
      | WrongService \<Rightarrow> Abort StatusInternalServerError ''service_invalid'' c
      | LookupService lookup \<Rightarrow>
          (case lookup code of
             None \<Rightarrow> Abort StatusForbidden ''permission_not_registered'' c
           | Some md \<Rightarrow>
               if \<not> HasPermission cl (pm_Service md) (pm_BitValue md)
               then Abort StatusForbidden ''permission_denied'' c
               else Next c))"

definition RequirePermission ::
  "(gin_ctx \<Rightarrow> claims \<Rightarrow> string \<Rightarrow> string + 'q) \<Rightarrow> 'q authorizer \<Rightarrow> verify_env \<Rightarrow> jwt_verifier \<Rightarrow> string
     \<Rightarrow> gin_ctx \<Rightarrow> mw_result \<times> jwt_verifier" where
  "RequirePermission build a env v code c =
     (case ensure_claims env v c of
        (Inl r, v) \<Rightarrow> (r, v)
      | (Inr (cl, c), v) \<Rightarrow>
          if az_bypass a \<and> IsServiceToken cl then (Next c, v)
          else if \<not> IsServiceToken cl \<and> az_decide a \<noteq> None then
            (case build c cl code of
               Inl _ \<Rightarrow> (Abort StatusInternalServerError ''authorization_request_invalid'' c, v)
             | Inr req \<Rightarrow>
                 (case the (az_decide a) req of
                    Inl _ \<Rightarrow> (Abort StatusServiceUnavailable ''authorization_unavailable'' c, v)
                  | Inr allowed \<Rightarrow>
                      if \<not> allowed then (Abort StatusForbidden ''permission_denied'' c, v)
                      else (Next c, v)))
          else (check_bitmask c cl code, v))"

text \<open>No cached key has the id \<open><nil>\<close>.\<close>

definition no_nil_id :: "key_provider \<Rightarrow> bool" where
  "no_nil_id p = (\<forall>ks. kp_cachedKeys p = Some ks \<longrightarrow> ks_keysByID ks ''<nil>'' = None)"

section \<open>Lemmas\<close>

lemma try_keys_Ok: "try_keys vw e keys = Inr cl \<Longrightarrow> \<exists>key\<in>set keys. vw key = Inr cl"
  by (induction keys arbitrary: e) (auto split: option.splits sum.splits)

lemma dedupe_subset: "set (dedupe_loop seen keys) \<subseteq> set keys"
  by (induction keys arbitrary: seen) auto

lemma validateTokenMethod_None:
  "validateTokenMethodWithKey token key = None \<longleftrightarrow>
     (\<exists>a n e. key = RSAKey a n e) \<and> tk_Method token = MethodRSA \<or>
     (\<exists>a cv x y. key = ECDSAKey a cv x y \<and> tk_Method token = MethodECDSA (getCurveForECDSAKey cv))"
  by (cases key) (auto simp: validateTokenMethodWithKey_def split: jwt_method.splits)

lemma validateIssuer_None:
  "validateIssuerClaim cs iss = None \<longleftrightarrow> iss = [] \<or> cs ''iss'' = Some (AString iss)"
  by (auto simp: validateIssuerClaim_def split: option.splits any.splits)

lemma validateAudience_None:
  "validateAudienceClaim cs auds = None \<longleftrightarrow> auds = [] \<or>
     (\<exists>a\<in>set auds. cs ''aud'' = Some (AString a) \<or>
        (\<exists>vs. cs ''aud'' = Some (ASlice vs) \<and> AString a \<in> set vs))"
  by (auto simp: validateAudienceClaim_def list_ex_iff Let_def split: option.splits any.splits)

lemma ensure_claims_Inr:
  "ensure_claims env v c = (Inr (cl, c'), v') \<Longrightarrow> gc_claims c' = Some cl"
  by (auto simp: ensure_claims_def GetClaims_def authenticate_def split: option.splits sum.splits prod.splits)

lemma ensure_claims_Inl:
  "ensure_claims env v c = (Inl r, v') \<Longrightarrow> r = Abort StatusUnauthorized ''invalid_token'' c"
  by (auto simp: ensure_claims_def abortAuthError_def authorizationErrorStatus_def
        split: option.splits sum.splits prod.splits)

lemma loadKeySet_cached:
  "cachedSnapshot p (Some now) = Some ks \<Longrightarrow> loadKeySet net fresh now False p = (Inr ks, p)"
  by (simp add: loadKeySet_def)

lemma loadKeySet_cases:
  assumes "loadKeySet net fresh now force p = (r, p')"
  obtains (cached) ks where "cachedSnapshot p (Some now) = Some ks" "r = Inr ks" "p' = p"
    | (stale) e where "kp_cachedKeys p' = kp_cachedKeys p" "r = (case cachedSnapshot p' None of Some ks \<Rightarrow> Inr ks | None \<Rightarrow> Inl e)"
    | (fetched) q url ks where "fetchKeySet net fresh now q url = Inr ks" "r = Inr ks" "p' = q\<lparr>kp_cachedKeys := Some ks\<rparr>"
proof (cases "if force then None else cachedSnapshot p (Some now)")
  case (Some ks)
  with assms show thesis by (intro cached) (auto simp: loadKeySet_def split: if_splits)
next
  case None
  obtain r0 q where rq: "resolveJWKSURL net force p = (r0, q)" by force
  have keys: "kp_cachedKeys q = kp_cachedKeys p"
    using rq by (auto simp: resolveJWKSURL_def Let_def split: if_splits option.splits)
  show thesis
  proof (cases "\<exists>url ks. r0 = Inr url \<and> fetchKeySet net fresh now q url = Inr ks")
    case True
    with None rq assms show thesis by (auto simp: loadKeySet_def Let_def intro: fetched)
  next
    case False
    then obtain e where "(case cachedSnapshot q None of Some ks \<Rightarrow> (Inr ks, q) | None \<Rightarrow> (Inl e, q)) = (r, p')"
      using None rq assms by (auto simp: loadKeySet_def Let_def split: sum.splits)
    with keys show thesis by (intro stale [of e]) (auto split: option.splits)
  qed
qed

text \<open>The cached key set is a cache with one entry, which expires; a key set that was loaded is used until then.\<close>

definition keys_store :: "go_time \<Rightarrow> unit \<Rightarrow> key_set \<Rightarrow> key_provider \<Rightarrow> key_provider" where
  "keys_store now k ks p = p\<lparr>kp_cachedKeys := Some ks\<rparr>"

definition keys_lookup :: "go_time \<Rightarrow> unit \<Rightarrow> key_provider \<Rightarrow> key_set option \<times> key_provider" where
  "keys_lookup now k p = (cachedSnapshot p (Some now), p)"

interpretation keys: expiring_cache keys_store keys_lookup "\<lambda>_ _. True" "\<lambda>_ ks. ks_expiresAt ks" "\<lambda>v. v" "\<lambda>_. True"
  by unfold_locales (auto simp: keys_store_def keys_lookup_def cachedSnapshot_def)

lemma loaded_keys_reused:
  assumes "loadKeySet net fresh now force p = (Inr ks, p')" and "t \<le> ks_expiresAt ks"
  shows "loadKeySet net' fresh' t False p' = (Inr ks, p')"
proof -
  have "kp_cachedKeys p' = Some ks"
    using assms(1) by (cases rule: loadKeySet_cases) (auto simp: cachedSnapshot_def split: option.splits if_splits)
  then have "keys_store now () ks p' = p'" by (simp add: keys_store_def)
  with keys.lookup_store [of t "()" now ks p'] assms(2) show ?thesis
    by (intro loadKeySet_cached) (simp add: keys_lookup_def)
qed

lemma collect_keys_no_nil:
  assumes "collect_keys addr jwks m ks = Inr (m', ks')" and "m ''<nil>'' = None"
    and "\<forall>jwk\<in>set jwks. TrimSpace (jw_Kid jwk) \<noteq> ''<nil>''"
  shows "m' ''<nil>'' = None"
  using assms
proof (induction addr jwks m ks rule: collect_keys.induct)
  case (1 addr m ks)
  then show ?case by simp
next
  case (2 addr jwk jwks m ks)
  then show ?case by (auto simp: Let_def split: if_splits sum.splits)
qed

lemma fetchKeySet_no_nil:
  assumes "fetchKeySet net fresh now q url = Inr ks"
    and "\<forall>url keys jwk. nt_jwks net url = Inr keys \<and> jwk \<in> set keys \<longrightarrow> TrimSpace (jw_Kid jwk) \<noteq> ''<nil>''"
  shows "ks_keysByID ks ''<nil>'' = None"
proof -
  obtain keys m all where k: "nt_jwks net url = Inr keys" "collect_keys fresh keys Map.empty [] = Inr (m, all)"
    "ks_keysByID ks = m"
    using assms(1) by (auto simp: fetchKeySet_def split: sum.splits if_splits)
  have "\<forall>jwk\<in>set keys. TrimSpace (jw_Kid jwk) \<noteq> ''<nil>''" using assms(2) k(1) by blast
  then show ?thesis using collect_keys_no_nil [OF k(2)] k(3) by simp
qed

lemma loadKeySet_no_nil:
  assumes p: "no_nil_id p"
    and net: "\<forall>url keys jwk. nt_jwks net url = Inr keys \<and> jwk \<in> set keys \<longrightarrow> TrimSpace (jw_Kid jwk) \<noteq> ''<nil>''"
    and "loadKeySet net fresh now force p = (r, p')"
  shows "no_nil_id p' \<and> (\<forall>ks. r = Inr ks \<longrightarrow> ks_keysByID ks ''<nil>'' = None)"
  using assms(3)
proof (cases rule: loadKeySet_cases)
  case (cached ks)
  with p show ?thesis by (auto simp: cachedSnapshot_def no_nil_id_def split: option.splits if_splits)
next
  case (stale e)
  with p show ?thesis by (auto simp: cachedSnapshot_def no_nil_id_def split: option.splits)
next
  case (fetched q url ks)
  with fetchKeySet_no_nil [OF fetched(1) net] show ?thesis by (simp add: no_nil_id_def)
qed

lemma authenticated_request:
  assumes "gc_claims c0 = None" and "RequireAuthenticated env v c0 = (Next c, v')" and "GetClaims c = Some cl"
  shows "\<exists>token. ExtractBearerToken (gc_Authorization c0) = Inr token \<and> Verify env token v = (Inr cl, v') \<and>
    ClaimsFromContext (gc_req c) = Some cl"
proof -
  obtain token cl' where "ExtractBearerToken (gc_Authorization c0) = Inr token" "Verify env token v = (Inr cl', v')"
    "c = c0\<lparr>gc_claims := Some cl', gc_req := ContextWithClaims (gc_req c0) cl'\<rparr>"
    using assms(1,2)
    by (auto simp: RequireAuthenticated_def ensure_claims_def GetClaims_def authenticate_def abortAuthError_def
          authorizationErrorStatus_def Let_def split: sum.splits prod.splits if_splits)
  with assms(3) show ?thesis
    by (auto simp: GetClaims_def ClaimsFromContext_def ContextWithClaims_def ContextWithRequestContext_def Let_def)
qed

section \<open>Properties\<close>


text \<open>
  C5. The permission gate: a request that \<open>RequirePermission\<close> lets through carries claims, and it is
  a service token under the bypass setting, or the decision service allowed it, or its claims hold
  the bit registered for the permission.
\<close>

theorem permission_gate_sound:
  assumes "RequirePermission build a env v code c = (Next c', v')"
  shows "\<exists>cl. gc_claims c' = Some cl \<and>
    (az_bypass a \<and> IsServiceToken cl \<or>
     (\<exists>decide req. az_decide a = Some decide \<and> \<not> IsServiceToken cl \<and> build c' cl code = Inr req \<and>
        decide req = Inr True) \<or>
     (\<exists>lookup md. gc_service c' = LookupService lookup \<and> lookup code = Some md \<and>
        HasPermission cl (pm_Service md) (pm_BitValue md)))"
proof -
  obtain cl d where e: "ensure_claims env v c = (Inr (cl, d), v')"
    using assms by (auto simp: RequirePermission_def dest: ensure_claims_Inl split: prod.splits sum.splits if_splits)
  have "c' = d"
    using assms e
    by (auto simp: RequirePermission_def check_bitmask_def
          split: sum.splits if_splits service_slot.splits option.splits)
  with ensure_claims_Inr [OF e] assms e show ?thesis
    by (auto simp: RequirePermission_def check_bitmask_def
          split: sum.splits if_splits service_slot.splits option.splits)
qed

text \<open>A concrete verifier: one RSA key, and a library that accepts one token text.\<close>

definition demo_token :: jwt_token where
  "demo_token = \<lparr>tk_Method = MethodRSA, tk_alg = ''RS256'', tk_kid = ANil,
     tk_Claims = [''sub'' \<mapsto> AString ''alice'', ''token_use'' \<mapsto> AString ''service''], tk_Valid = True\<rparr>"

definition demo_env :: verify_env where
  "demo_env = \<lparr>ve_fmt = (\<lambda>_. []),
     ve_lib = \<lparr>ParseUnverified = (\<lambda>_. Inr demo_token),
       jwt_Parse = (\<lambda>s kf. if s = ''good'' then (case kf demo_token of Inl e \<Rightarrow> Inl e | Inr _ \<Rightarrow> Inr demo_token)
                          else Inl (EPlain ''bad signature''))\<rparr>,
     ve_net = \<lparr>nt_discovery = (\<lambda>_. None), nt_jwks = (\<lambda>_. Inl (EPlain ''unreachable''))\<rparr>,
     ve_fresh = 7, ve_now = 100\<rparr>"

definition demo_verifier :: jwt_verifier where
  "demo_verifier = \<lparr>vf_staticKey = Some (RSAKey 1 35 3), vf_remote = None, vf_issuer = [], vf_audiences = []\<rparr>"

lemma demo_verify:
  "Verify demo_env ''good'' demo_verifier =
     (Inr (mapClaimsToAuthClaims (\<lambda>_. []) (tk_Claims demo_token)), demo_verifier)"
  by (simp add: Verify_def lookupVerificationKeys_def demo_env_def demo_verifier_def dedupeVerificationKeys_def
        verifyWithKey_def validateTokenMethodWithKey_def demo_token_def validateIssuerClaim_def
        validateAudienceClaim_def Let_def)


theorem permission_gate_sound_witness:
  "\<exists>c'. RequirePermission (\<lambda>_ _ _. Inr ()) \<lparr>az_bypass = True, az_decide = None\<rparr> demo_env demo_verifier ''p''
      (demo_request\<lparr>gc_claims := None, gc_Authorization := ''Bearer good''\<rparr>) = (Next c', demo_verifier) \<and>
     gc_claims c' \<noteq> None"
proof -
  let ?c = "demo_request\<lparr>gc_claims := None, gc_Authorization := ''Bearer good''\<rparr>"
  let ?cl = "mapClaimsToAuthClaims (\<lambda>_. []) (tk_Claims demo_token)"
  let ?a = "\<lparr>az_bypass = True, az_decide = None\<rparr> :: unit authorizer"
  have "ExtractBearerToken ''Bearer good'' = Inr ''good''"
    by (simp add: ExtractBearerToken_def bearer_prefix_def plain_char_code Let_def)
  moreover have "IsServiceToken ?cl"
    by (simp add: IsServiceToken_def mapClaimsToAuthClaims_def demo_token_def index_any_def plain_char_code Let_def)
  ultimately have r: "RequirePermission (\<lambda>_ _ _. Inr ()) ?a demo_env demo_verifier ''p'' ?c =
      (Next (?c\<lparr>gc_claims := Some ?cl, gc_req := ContextWithClaims (gc_req ?c) ?cl\<rparr>), demo_verifier)"
    by (simp add: RequirePermission_def ensure_claims_def GetClaims_def authenticate_def demo_verify)
  from permission_gate_sound [OF r] r show ?thesis by blast
qed

text \<open>
  The key cache: within its lifetime the cached key set is used and the network plays no part;
  when the keys cannot be fetched again, also on a forced refresh, the expired set is used instead
  of failing.
\<close>

lemma jwks_cache_serves:
  assumes "kp_cachedKeys p = Some ks"
  shows "(now \<le> ks_expiresAt ks \<longrightarrow> loadKeySet net fresh now False p = (Inr ks, p)) \<and>
    ((\<forall>url. \<exists>e. nt_jwks net url = Inl e) \<longrightarrow> fst (loadKeySet net fresh now force p) = Inr ks)"
proof -
  have cached: "cachedSnapshot p' None = Some ks" if "kp_cachedKeys p' = Some ks" for p'
    using that by (simp add: cachedSnapshot_def)
  have keep: "kp_cachedKeys (snd (resolveJWKSURL net force p)) = Some ks"
    using assms by (auto simp: resolveJWKSURL_def Let_def split: option.splits)
  have fresh_now: "cachedSnapshot p (Some now) = Some ks \<or> cachedSnapshot p (Some now) = None"
    using assms by (simp add: cachedSnapshot_def)
  have fail: "\<exists>e. fetchKeySet net fresh now q url = Inl e" if "\<forall>url. \<exists>e. nt_jwks net url = Inl e" for q url
    using that [THEN spec, of url] by (auto simp: fetchKeySet_def)
  have "fst (loadKeySet net fresh now force p) = Inr ks" if h: "\<forall>url. \<exists>e. nt_jwks net url = Inl e"
  proof (cases "(if force then None else cachedSnapshot p (Some now)) = Some ks")
    case True
    then show ?thesis by (simp add: loadKeySet_def)
  next
    case False
    then have none: "(if force then None else cachedSnapshot p (Some now)) = None"
      using fresh_now by auto
    obtain r q where rq: "resolveJWKSURL net force p = (r, q)" by force
    then have q: "cachedSnapshot q None = Some ks" using keep cached by simp
    show ?thesis
    proof (cases r)
      case (Inl e)
      with none rq q show ?thesis by (simp add: loadKeySet_def)
    next
      case (Inr url)
      obtain e where "fetchKeySet net fresh now q url = Inl e" using fail [OF h] by blast
      with Inr none rq q show ?thesis by (simp add: loadKeySet_def)
    qed
  qed
  moreover have "now \<le> ks_expiresAt ks \<longrightarrow> loadKeySet net fresh now False p = (Inr ks, p)"
    using assms by (simp add: loadKeySet_cached cachedSnapshot_def)
  ultimately show ?thesis by blast
qed

definition demo_provider :: key_provider where
  "demo_provider = \<lparr>kp_discoveryURL = [], kp_explicitJWKSURL = ''u'', kp_fallbackJWKSURL = [], kp_cacheTTL = 5,
     kp_cachedJWKSURL = [], kp_cachedKeys = Some \<lparr>ks_keysByID = [''k1'' \<mapsto> RSAKey 1 35 3],
       ks_allKeys = [RSAKey 1 35 3], ks_expiresAt = 50\<rparr>\<rparr>"

lemma jwks_cache_serves_witness:
  "fst (loadKeySet (ve_net demo_env) 7 100 True demo_provider) =
     Inr \<lparr>ks_keysByID = [''k1'' \<mapsto> RSAKey 1 35 3], ks_allKeys = [RSAKey 1 35 3], ks_expiresAt = 50\<rparr>"
proof -
  have k: "kp_cachedKeys demo_provider = Some \<lparr>ks_keysByID = [''k1'' \<mapsto> RSAKey 1 35 3],
      ks_allKeys = [RSAKey 1 35 3], ks_expiresAt = 50\<rparr>"
    by (simp add: demo_provider_def)
  have "\<forall>url. \<exists>e. nt_jwks (ve_net demo_env) url = Inl e" by (simp add: demo_env_def)
  with jwks_cache_serves [OF k, of 100 "ve_net demo_env" 7 True] show ?thesis by blast
qed

text \<open>
  A token without a \<open>kid\<close> header is never matched against the key set: the missing header becomes
  the text \<open><nil>\<close>, so the branch that would try all keys is not reached and the lookup fails although
  signing keys are available (unless a key has the id \<open><nil>\<close>).
\<close>

lemma kidless_token_finds_no_key:
  assumes "tk_kid token = ANil" and "no_nil_id p"
    and "\<forall>url keys jwk. nt_jwks net url = Inr keys \<and> jwk \<in> set keys \<longrightarrow> TrimSpace (jw_Kid jwk) \<noteq> ''<nil>''"
  shows "\<exists>e. fst (LookupKeys fmt_other net fresh now token p) = Inl e"
proof -
  have none: "selectKeys ks ''<nil>'' = []" if "ks_keysByID ks ''<nil>'' = None" for ks
    using that by (simp add: selectKeys_def plain_char_code Let_def)
  obtain r p' where one: "loadKeySet net fresh now False p = (r, p')" by force
  note load = loadKeySet_no_nil [OF assms(2,3)]
  show ?thesis
  proof (cases r)
    case (Inl e)
    with one show ?thesis by (simp add: LookupKeys_def Let_def)
  next
    case (Inr ks)
    have s1: "selectKeys ks ''<nil>'' = []" "no_nil_id p'"
      using load [OF one] Inr none by auto
    obtain r2 p2 where two: "loadKeySet net fresh now True p' = (r2, p2)" by force
    have "selectKeys ks2 ''<nil>'' = []" if "r2 = Inr ks2" for ks2
      using loadKeySet_no_nil [OF s1(2) assms(3) two] that none by auto
    then show ?thesis
      using one Inr s1 two assms(1)
      by (cases r2) (simp_all add: LookupKeys_def plain_char_code Let_def)
  qed
qed

lemma kidless_token_finds_no_key_witness:
  "\<exists>e. fst (LookupKeys (\<lambda>_. []) (ve_net demo_env) 7 100 demo_token demo_provider) = Inl e"
  by (rule kidless_token_finds_no_key)
     (simp_all add: demo_token_def demo_provider_def demo_env_def no_nil_id_def)

end
