(* ===== verification/Events_Outbox.thy ===== *)
theory Events_Outbox
  imports Apperr Tenant_Context
begin

text \<open>
  Business events and their durable delivery: \<open>pkg/events/events.go\<close> and
  \<open>pkg/events/outbox/processor.go\<close>.

  The store and the publisher of the outbox are interfaces that services implement outside this
  repository: they are the parameter \<open>world\<close>, a record of functions on a state of any type, and
  the clock is read from that state. \<open>processRecord\<close> and \<open>ProcessOnce\<close> return, besides the new state,
  the calls they made and what each call returned. \<open>Marshal\<close> is \<open>json.Marshal\<close> and \<open>uuid\<close> what
  \<open>uuid.NewString()\<close> returns.
\<close>

section \<open>pkg/events/events.go\<close>

definition DefaultTopic :: string where
  "DefaultTopic = ''platform.domain.events''"

definition SchemaVersionV1 :: string where
  "SchemaVersionV1 = ''v1''"

record envelope =
  ev_EventID :: string
  ev_EventType :: string
  ev_EventVersion :: string
  ev_TenantID :: string
  ev_ResourceType :: string
  ev_ResourceID :: string
  ev_ActorUserID :: string
  ev_ServiceID :: string
  ev_CorrelationID :: string
  ev_IsSuperAdmin :: bool
  ev_OccurredAt :: go_time
  ev_Metadata :: "string \<rightharpoonup> string"
  ev_Payload :: string

text \<open>A payload is nil, raw bytes, or a value to encode.\<close>

datatype event_payload = NilPayload | RawPayload string | ValuePayload any

record publish_request =
  pr_ServiceID :: string
  pr_EventType :: string
  pr_EventVersion :: string
  pr_TenantID :: string
  pr_ResourceType :: string
  pr_ResourceID :: string
  pr_Metadata :: "string \<rightharpoonup> string"
  pr_Payload :: event_payload

definition marshalPayload :: "(any \<Rightarrow> go_error + string) \<Rightarrow> event_payload \<Rightarrow> go_error + string" where
  "marshalPayload Marshal payload =
     (case payload of
        NilPayload \<Rightarrow> Ok []
      | RawPayload typed \<Rightarrow> Ok typed
      | ValuePayload v \<Rightarrow>
          (case Marshal v of
             Inl e \<Rightarrow> Err (EFmt (''marshal event payload: '' @ Error e) e)
           | Inr d \<Rightarrow> if d = [] \<or> d = ''null'' then Ok [] else Ok d))"

definition NewEnvelope ::
  "(any \<Rightarrow> go_error + string) \<Rightarrow> string \<Rightarrow> go_time \<Rightarrow> 'a rc_holder_scheme \<Rightarrow> publish_request
     \<Rightarrow> go_error + envelope" where
  "NewEnvelope Marshal uuid now ctx req =
     (let rc = empty_rc\<lparr>rc_TenantID := TrimSpace (pr_TenantID req),
                        rc_ServiceID := TrimSpace (pr_ServiceID req)\<rparr>;
          rc = (case RequestContextFromContext ctx of
                  Some existing \<Rightarrow> WithFallbacks rc existing
                | None \<Rightarrow> rc);
          eventType = TrimSpace (pr_EventType req)
      in if eventType = [] then Err (EPlain ''event_type is required'')
         else if TrimSpace (rc_ServiceID rc) = [] then Err (EPlain ''service_id is required'')
         else case marshalPayload Marshal (pr_Payload req) of
                Inl e \<Rightarrow> Err e
              | Inr payload \<Rightarrow>
                  let metadata = MergeMetadata (pr_Metadata req) rc;
                      eventVersion = TrimSpace (pr_EventVersion req);
                      eventVersion = (if eventVersion = [] then SchemaVersionV1 else eventVersion)
                  in Ok \<lparr>ev_EventID = uuid, ev_EventType = eventType, ev_EventVersion = eventVersion,
                         ev_TenantID = rc_TenantID rc, ev_ResourceType = TrimSpace (pr_ResourceType req),
                         ev_ResourceID = TrimSpace (pr_ResourceID req),
                         ev_ActorUserID = rc_ActorUserID rc, ev_ServiceID = rc_ServiceID rc,
                         ev_CorrelationID = rc_CorrelationID rc, ev_IsSuperAdmin = rc_IsSuperAdmin rc,
                         ev_OccurredAt = now, ev_Metadata = metadata, ev_Payload = payload\<rparr>)"

definition PartitionKey :: "envelope \<Rightarrow> string" where
  "PartitionKey e =
     (if TrimSpace (ev_TenantID e) \<noteq> [] then TrimSpace (ev_TenantID e)
      else if TrimSpace (ev_ResourceID e) \<noteq> [] then TrimSpace (ev_ResourceID e)
      else TrimSpace (ev_EventType e))"

section \<open>pkg/events/outbox/processor.go\<close>

record outbox_record =
  or_ID :: string
  or_Topic :: string
  or_Envelope :: envelope
  or_Attempts :: int
  or_AvailableAt :: go_time
  or_ClaimedBy :: string
  or_ClaimedUntil :: go_time
  or_CreatedAt :: go_time

text \<open>The interfaces \<open>Store\<close>, \<open>Publisher\<close> and \<open>Clock\<close>; an error is \<open>Some\<close>.\<close>

record 'w outbox_world =
  ow_clock :: "'w \<Rightarrow> go_time"
  ow_ClaimBatch :: "'w \<Rightarrow> string \<Rightarrow> int \<Rightarrow> go_duration \<Rightarrow> go_time \<Rightarrow> (go_error + outbox_record list) \<times> 'w"
  ow_MarkDelivered :: "'w \<Rightarrow> string \<Rightarrow> go_time \<Rightarrow> go_error option \<times> 'w"
  ow_MarkFailed :: "'w \<Rightarrow> string \<Rightarrow> go_time \<Rightarrow> string \<Rightarrow> go_time \<Rightarrow> go_error option \<times> 'w"
  ow_Publish :: "'w \<Rightarrow> string \<Rightarrow> envelope \<Rightarrow> go_error option \<times> 'w"

record processor_options =
  po_Name :: string
  po_PollInterval :: go_duration
  po_LeaseDuration :: go_duration
  po_PublishTimeout :: go_duration
  po_MinRetryBackoff :: go_duration
  po_MaxRetryBackoff :: go_duration
  po_BatchSize :: int

record processor =
  px_name :: string
  px_pollInterval :: go_duration
  px_leaseDuration :: go_duration
  px_publishTimeout :: go_duration
  px_minRetry :: go_duration
  px_maxRetry :: go_duration
  px_batchSize :: int

definition NewProcessor :: "processor_options \<Rightarrow> processor" where
  "NewProcessor opts =
     (let name = (if po_Name opts = [] then ''platform-event-outbox'' else po_Name opts);
          poll = (if po_PollInterval opts \<le> 0 then 2 * Second else po_PollInterval opts);
          lease = (if po_LeaseDuration opts \<le> 0 then 30 * Second else po_LeaseDuration opts);
          timeout = (if po_PublishTimeout opts \<le> 0 then 10 * Second else po_PublishTimeout opts);
          minRetry = (if po_MinRetryBackoff opts \<le> 0 then 5 * Second else po_MinRetryBackoff opts);
          maxRetry = (if po_MaxRetryBackoff opts \<le> 0 then 5 * Minute else po_MaxRetryBackoff opts);
          maxRetry = (if maxRetry < minRetry then minRetry else maxRetry);
          batch = (if po_BatchSize opts \<le> 0 then 25 else po_BatchSize opts)
      in \<lparr>px_name = TrimSpace name, px_pollInterval = poll, px_leaseDuration = lease,
          px_publishTimeout = timeout, px_minRetry = minRetry, px_maxRetry = maxRetry,
          px_batchSize = batch\<rparr>)"

definition retryBackoff :: "processor \<Rightarrow> int \<Rightarrow> go_duration" where
  "retryBackoff p attempt =
     (if attempt \<le> 1 then px_minRetry p
      else case double_capped (px_maxRetry p) (nat (attempt - 1)) (px_minRetry p) of
             None \<Rightarrow> px_maxRetry p
           | Some backoff \<Rightarrow>
               if backoff < px_minRetry p then px_minRetry p
               else if backoff > px_maxRetry p then px_maxRetry p
               else backoff)"

definition truncateError :: "go_error option \<Rightarrow> string" where
  "truncateError err =
     (case err of
        None \<Rightarrow> []
      | Some e \<Rightarrow>
          let msg = TrimSpace (Error e)
          in if length msg \<le> 2048 then msg else take 2048 msg)"

text \<open>The calls the processor makes, with their results.\<close>

datatype outbox_call =
    CallPublish string envelope
  | CallMarkDelivered string go_time
  | CallMarkFailed string go_time string go_time

type_synonym outbox_trace = "(outbox_call \<times> go_error option) list"

definition processRecord ::
  "'w outbox_world \<Rightarrow> processor \<Rightarrow> outbox_record \<Rightarrow> 'w \<Rightarrow> outbox_trace \<times> 'w" where
  "processRecord world p rec w =
     (if TrimSpace (or_ID rec) = [] then ([], w)
      else
        let now = ow_clock world w;
            topic = TrimSpace (or_Topic rec);
            topic = (if topic = [] then DefaultTopic else topic)
        in case ow_Publish world w topic (or_Envelope rec) of
             (Some err, w) \<Rightarrow>
               let nextAttemptAt = now + retryBackoff p (wrap64 (or_Attempts rec + 1));
                   (markErr, w) = ow_MarkFailed world w (or_ID rec) nextAttemptAt (truncateError (Some err)) now
               in ([(CallPublish topic (or_Envelope rec), Some err),
                    (CallMarkFailed (or_ID rec) nextAttemptAt (truncateError (Some err)) now, markErr)], w)
           | (None, w) \<Rightarrow>
               let (markErr, w) = ow_MarkDelivered world w (or_ID rec) now
               in ([(CallPublish topic (or_Envelope rec), None),
                    (CallMarkDelivered (or_ID rec) now, markErr)], w))"

text \<open>The loop of \<open>ProcessOnce\<close>.\<close>

fun process_records ::
  "'w outbox_world \<Rightarrow> processor \<Rightarrow> outbox_record list \<Rightarrow> 'w \<Rightarrow> outbox_trace \<times> 'w" where
  "process_records world p [] w = ([], w)"
| "process_records world p (rec # recs) w =
     (let (t, w) = processRecord world p rec w;
          (ts, w) = process_records world p recs w
      in (t @ ts, w))"

definition ProcessOnce ::
  "'w outbox_world \<Rightarrow> processor \<Rightarrow> 'w \<Rightarrow> go_error option \<times> outbox_trace \<times> 'w" where
  "ProcessOnce world p w =
     (let now = ow_clock world w
      in case ow_ClaimBatch world w (px_name p) (px_batchSize p) (px_leaseDuration p) now of
           (Inl err, w) \<Rightarrow> (Some (EFmt (''claim outbox batch: '' @ Error err) err), [], w)
         | (Inr records, w) \<Rightarrow>
             let (t, w) = process_records world p records w in (None, t, w))"

text \<open>
  \<open>Run\<close> until its context is done, after some number of ticks: the first pass and one for each tick, their errors dropped.
\<close>

fun outbox_passes :: "'w outbox_world \<Rightarrow> processor \<Rightarrow> nat \<Rightarrow> 'w \<Rightarrow> outbox_trace \<times> 'w" where
  "outbox_passes world p 0 w = ([], w)"
| "outbox_passes world p (Suc n) w =
     (let (err, t, w) = ProcessOnce world p w; (ts, w) = outbox_passes world p n w in (t @ ts, w))"

definition processor_Run :: "'w outbox_world \<Rightarrow> processor \<Rightarrow> nat \<Rightarrow> 'w \<Rightarrow> outbox_trace \<times> 'w" where
  "processor_Run world p ticks w = outbox_passes world p (Suc ticks) w"

text \<open>What the calls for one record may look like.\<close>

definition record_trace :: "processor \<Rightarrow> outbox_record \<Rightarrow> outbox_trace \<Rightarrow> bool" where
  "record_trace p rec t =
     (if TrimSpace (or_ID rec) = [] then t = []
      else \<exists>topic now r. topic \<noteq> [] \<and>
        (t = [(CallPublish topic (or_Envelope rec), None), (CallMarkDelivered (or_ID rec) now, r)] \<or>
         (\<exists>err. t = [(CallPublish topic (or_Envelope rec), Some err),
            (CallMarkFailed (or_ID rec) (now + retryBackoff p (wrap64 (or_Attempts rec + 1)))
               (truncateError (Some err)) now, r)])))"

section \<open>Lemmas\<close>

lemma processRecord_trace: "record_trace p rec (fst (processRecord world p rec w))"
  by (auto simp: processRecord_def record_trace_def Let_def DefaultTopic_def
        split: prod.splits option.splits)

lemma process_records_trace:
  assumes "process_records world p recs w = (t, w')"
  shows "\<exists>ts. t = concat ts \<and> list_all2 (record_trace p) recs ts"
  using assms
proof (induction recs arbitrary: w t)
  case Nil
  then show ?case by auto
next
  case (Cons rec recs)
  obtain t1 w1 where one: "processRecord world p rec w = (t1, w1)" by force
  obtain t2 where two: "process_records world p recs w1 = (t2, w')" "t = t1 @ t2"
    using Cons.prems one by (auto simp: Let_def split: prod.splits)
  from Cons.IH [OF two(1)] obtain ts where ts: "t2 = concat ts" "list_all2 (record_trace p) recs ts" by blast
  have "record_trace p rec t1" using processRecord_trace [of p rec world w] one by simp
  with ts two(2) show ?case by (intro exI [of _ "t1 # ts"]) simp
qed

text \<open>A processor that runs does nothing but the calls for the records it claimed, also when a pass fails.\<close>

lemma ProcessOnce_trace:
  assumes "ProcessOnce world p w = (err, t, w')"
  shows "\<exists>recs ts. t = concat ts \<and> list_all2 (record_trace p) recs ts"
proof (cases err)
  case None
  then obtain records w1 where q: "process_records world p records w1 = (t, w')"
    using assms by (auto simp: ProcessOnce_def Let_def split: prod.splits sum.splits)
  obtain ts where "t = concat ts" "list_all2 (record_trace p) records ts" using process_records_trace [OF q] by (elim exE conjE)
  then show ?thesis by (intro exI conjI)
next
  case (Some e)
  then have "t = concat [] \<and> list_all2 (record_trace p) [] []"
    using assms by (auto simp: ProcessOnce_def Let_def split: prod.splits sum.splits)
  then show ?thesis by (intro exI)
qed

lemma outbox_passes_trace:
  "outbox_passes world p n w = (t, w') \<Longrightarrow> \<exists>recs ts. t = concat ts \<and> list_all2 (record_trace p) recs ts"
proof (induction n arbitrary: w t)
  case (Suc n)
  obtain err t1 w1 where one: "ProcessOnce world p w = (err, t1, w1)" by (metis prod_cases3)
  obtain t2 where two: "outbox_passes world p n w1 = (t2, w')" "t = t1 @ t2"
    using Suc.prems one by (auto simp: Let_def split: prod.splits)
  obtain recs ts where r: "t1 = concat ts" "list_all2 (record_trace p) recs ts" using ProcessOnce_trace [OF one] by (elim exE conjE)
  obtain recs' ts' where r': "t2 = concat ts'" "list_all2 (record_trace p) recs' ts'" using Suc.IH [OF two(1)] by (elim exE conjE)
  show ?case using two(2) r r' by (intro exI [of _ "recs @ recs'"] exI [of _ "ts @ ts'"]) (simp add: list_all2_appendI)
next
  case 0
  then have "t = concat [] \<and> list_all2 (record_trace p) [] []" by simp
  then show ?case by (intro exI)
qed

lemma processor_Run_trace:
  "processor_Run world p ticks w = (t, w') \<Longrightarrow> \<exists>recs ts. t = concat ts \<and> list_all2 (record_trace p) recs ts"
  unfolding processor_Run_def by (rule outbox_passes_trace)

lemma retryBackoff_spec:
  assumes "0 < px_minRetry p" "px_minRetry p < 2 ^ 62" "px_minRetry p \<le> px_maxRetry p"
    and "px_maxRetry p \<le> 2 ^ 62" and "1 \<le> attempt"
  shows "retryBackoff p attempt = min (px_maxRetry p) (px_minRetry p * 2 ^ nat (attempt - 1))"
proof (cases "attempt = 1")
  case True
  with assms show ?thesis by (simp add: retryBackoff_def)
next
  case False
  have "\<not> (2 :: int) ^ nat (attempt - 1) < 1" by (simp add: not_less)
  with False assms double_capped_spec [OF assms(1,2,4), of "nat (attempt - 1)"] show ?thesis
    by (auto simp: retryBackoff_def min_def split: option.splits)
qed

section \<open>Properties\<close>

text \<open>
  C33. The outbox publishes every claimed record once, in the order of the batch, and records the
  outcome it saw: a record is marked delivered only right after its own publish succeeded, and
  marked failed, for a retry after the backoff of its next attempt, only right after its own publish
  failed. Records without an id are skipped.
\<close>

theorem outbox_marks_what_it_published:
  assumes "ProcessOnce world p w = (None, t, w')"
  shows "\<exists>records w1 ts.
    ow_ClaimBatch world w (px_name p) (px_batchSize p) (px_leaseDuration p) (ow_clock world w) = (Inr records, w1) \<and>
    t = concat ts \<and> list_all2 (record_trace p) records ts"
proof -
  obtain records w1 where c:
    "ow_ClaimBatch world w (px_name p) (px_batchSize p) (px_leaseDuration p) (ow_clock world w) = (Inr records, w1)"
    "process_records world p records w1 = (t, w')"
    using assms by (auto simp: ProcessOnce_def Let_def split: prod.splits sum.splits)
  with process_records_trace [OF c(2)] show ?thesis by blast
qed

definition demo_envelope :: envelope where
  "demo_envelope = \<lparr>ev_EventID = ''e1'', ev_EventType = ''user.created'', ev_EventVersion = ''v1'',
     ev_TenantID = [], ev_ResourceType = [], ev_ResourceID = [], ev_ActorUserID = [], ev_ServiceID = ''svc'',
     ev_CorrelationID = [], ev_IsSuperAdmin = False, ev_OccurredAt = 0, ev_Metadata = Map.empty, ev_Payload = []\<rparr>"

definition demo_world :: "nat outbox_world" where
  "demo_world = \<lparr>ow_clock = (\<lambda>w. 100),
     ow_ClaimBatch = (\<lambda>w _ _ _ _. (Inr [\<lparr>or_ID = ''r1'', or_Topic = [], or_Envelope = demo_envelope,
        or_Attempts = 0, or_AvailableAt = 0, or_ClaimedBy = [], or_ClaimedUntil = 0, or_CreatedAt = 0\<rparr>], w)),
     ow_MarkDelivered = (\<lambda>w _ _. (None, w)), ow_MarkFailed = (\<lambda>w _ _ _ _. (None, w)),
     ow_Publish = (\<lambda>w _ _. (None, Suc w))\<rparr>"

definition demo_processor :: processor where
  "demo_processor = NewProcessor \<lparr>po_Name = [], po_PollInterval = 0, po_LeaseDuration = 0, po_PublishTimeout = 0,
     po_MinRetryBackoff = 0, po_MaxRetryBackoff = 0, po_BatchSize = 0\<rparr>"

theorem outbox_marks_what_it_published_witness:
  "\<exists>t. ProcessOnce demo_world demo_processor 0 = (None, t, 1) \<and>
     (\<exists>ts. t = concat ts \<and> length ts = 1)"
proof -
  obtain t where t: "ProcessOnce demo_world demo_processor 0 = (None, t, 1)"
    by (simp add: ProcessOnce_def demo_world_def processRecord_def plain_char_code Let_def)
  from outbox_marks_what_it_published [OF t] obtain records w1 ts where
    r: "ow_ClaimBatch demo_world 0 (px_name demo_processor) (px_batchSize demo_processor)
         (px_leaseDuration demo_processor) (ow_clock demo_world 0) = (Inr records, w1)"
      "t = concat ts" "list_all2 (record_trace demo_processor) records ts" by blast
  then have "length ts = 1" by (auto simp: demo_world_def dest: list_all2_lengthD)
  with t r(2) show ?thesis by blast
qed

text \<open>
  The delays between publish attempts of a processor double from the minimum and stay between
  minimum and maximum, whatever options it was built with (up to \<open>2 ^ 62\<close> nanoseconds).
\<close>

lemma outbox_backoff_bounded:
  assumes "px_minRetry (NewProcessor opts) < 2 ^ 62" "px_maxRetry (NewProcessor opts) \<le> 2 ^ 62"
    and "1 \<le> attempt"
  shows "retryBackoff (NewProcessor opts) attempt =
      min (px_maxRetry (NewProcessor opts)) (px_minRetry (NewProcessor opts) * 2 ^ nat (attempt - 1)) \<and>
    px_minRetry (NewProcessor opts) \<le> retryBackoff (NewProcessor opts) attempt \<and>
    retryBackoff (NewProcessor opts) attempt \<le> px_maxRetry (NewProcessor opts)"
proof -
  let ?p = "NewProcessor opts"
  have p: "0 < px_minRetry ?p" "px_minRetry ?p \<le> px_maxRetry ?p"
    by (auto simp: NewProcessor_def Let_def duration_defs)
  have "px_minRetry ?p * 1 \<le> px_minRetry ?p * 2 ^ nat (attempt - 1)"
    using p(1) by (intro mult_left_mono) auto
  with retryBackoff_spec [OF p(1) assms(1) p(2) assms(2,3)] p(2) show ?thesis by auto
qed

lemma outbox_backoff_bounded_witness:
  "retryBackoff demo_processor 4 = 40 * Second"
  using outbox_backoff_bounded [of "\<lparr>po_Name = [], po_PollInterval = 0, po_LeaseDuration = 0,
     po_PublishTimeout = 0, po_MinRetryBackoff = 0, po_MaxRetryBackoff = 0, po_BatchSize = 0\<rparr>" 4]
  by (simp add: demo_processor_def NewProcessor_def duration_defs)

text \<open>
  An event envelope names its service and its type, and its tenant is the one of the request if
  that is not blank, otherwise the one of the request context; user, correlation id and super-admin
  flag come from the request context.
\<close>

lemma envelope_tenant_precedence:
  assumes "NewEnvelope Marshal uuid now ctx req = Inr env"
  shows "ev_EventType env \<noteq> [] \<and> ev_ServiceID env \<noteq> [] \<and> ev_EventVersion env \<noteq> [] \<and>
    ev_TenantID env = (case RequestContextFromContext ctx of
        None \<Rightarrow> TrimSpace (pr_TenantID req)
      | Some rc \<Rightarrow> if TrimSpace (pr_TenantID req) \<noteq> [] then TrimSpace (pr_TenantID req) else rc_TenantID rc) \<and>
    (\<forall>rc. RequestContextFromContext ctx = Some rc \<longrightarrow> ev_ActorUserID env = rc_ActorUserID rc \<and>
       ev_CorrelationID env = rc_CorrelationID rc \<and> ev_IsSuperAdmin env = rc_IsSuperAdmin rc)"
proof (cases "RequestContextFromContext ctx")
  case None
  with assms show ?thesis
    by (auto simp: NewEnvelope_def Let_def SchemaVersionV1_def split: if_splits sum.splits)
next
  case (Some rc)
  then have n: "TrimSpace (rc_TenantID rc) = rc_TenantID rc" "TrimSpace (rc_ActorUserID rc) = rc_ActorUserID rc"
    "TrimSpace (rc_CorrelationID rc) = rc_CorrelationID rc"
    using RequestContextFromContext_normal Normalize_simps by metis+
  from assms Some n show ?thesis
    by (auto simp: NewEnvelope_def Let_def SchemaVersionV1_def first_nonblank_def empty_rc_def
          split: if_splits sum.splits)
qed

lemma envelope_tenant_precedence_witness:
  "\<exists>env. NewEnvelope (\<lambda>_. Inr []) ''e1'' 5 \<lparr>cx_request_context = None\<rparr>
      \<lparr>pr_ServiceID = ''svc'', pr_EventType = ''t'', pr_EventVersion = [], pr_TenantID = ''t1'',
       pr_ResourceType = [], pr_ResourceID = [], pr_Metadata = Map.empty, pr_Payload = NilPayload\<rparr> = Inr env \<and>
    ev_TenantID env = ''t1''"
proof -
  let ?r = "NewEnvelope (\<lambda>_. Inr []) ''e1'' 5 \<lparr>cx_request_context = None\<rparr>
      \<lparr>pr_ServiceID = ''svc'', pr_EventType = ''t'', pr_EventVersion = [], pr_TenantID = ''t1'',
       pr_ResourceType = [], pr_ResourceID = [], pr_Metadata = Map.empty, pr_Payload = NilPayload\<rparr>"
  obtain env where e: "?r = Inr env"
    by (simp add: NewEnvelope_def RequestContextFromContext_def marshalPayload_def empty_rc_def plain_char_code Let_def)
  from envelope_tenant_precedence [OF e] e show ?thesis
    by (simp add: RequestContextFromContext_def plain_char_code)
qed

end
