(* ===== verification/Controlplane.thy ===== *)
theory Controlplane
  imports Core_Prelude
begin

text \<open>
  \<open>pkg/controlplane/controlplane.go\<close>: the endpoint, audiences and credentials of the control plane as
  a service resolves them from its configuration, and the URLs of the control plane's operations. The
  configuration (a \<open>viper\<close> instance behind the interfaces \<open>StringGetter\<close> and \<open>ConfigGetter\<close>) is a record of
  its two lookups, \<open>None\<close> when it is nil. \<open>url.PathEscape\<close> is modelled on bytes.
\<close>

section \<open>Keys\<close>

definition DefaultInternalAudience :: string where "DefaultInternalAudience = ''platform-internal''"
definition DefaultConfigAudience :: string where "DefaultConfigAudience = ''platform.config''"
definition DefaultQuotaAudience :: string where "DefaultQuotaAudience = ''platform.quota''"
definition DefaultEntitlementsAudience :: string where "DefaultEntitlementsAudience = ''platform.entitlements''"
definition DefaultServiceRegistrationAudience :: string where "DefaultServiceRegistrationAudience = ''platform.service-clients''"
definition DefaultAuthorizationAudience :: string where "DefaultAuthorizationAudience = ''platform.authorization''"
definition KeyBaseURL :: string where "KeyBaseURL = ''PlatformControlPlaneEndpoint''"
definition LegacyKeyBaseURL :: string where "LegacyKeyBaseURL = ''SentinelServiceEndpoint''"
definition KeyOIDCDiscoveryURL :: string where "KeyOIDCDiscoveryURL = ''PlatformOIDCDiscoveryURL''"
definition LegacyKeyOIDCDiscoveryURL :: string where "LegacyKeyOIDCDiscoveryURL = ''SentinelOIDCDiscoveryURL''"
definition KeyJWKSURL :: string where "KeyJWKSURL = ''PlatformJWKSURL''"
definition LegacyKeyJWKSURL :: string where "LegacyKeyJWKSURL = ''SentinelJWKSURL''"
definition KeyJWKSCacheTTLSeconds :: string where "KeyJWKSCacheTTLSeconds = ''PlatformJWKSCacheTTLSeconds''"
definition LegacyKeyJWKSCacheTTLSeconds :: string where "LegacyKeyJWKSCacheTTLSeconds = ''SentinelJWKSCacheTTLSeconds''"
definition KeyTokenIssuer :: string where "KeyTokenIssuer = ''PlatformTokenIssuer''"
definition LegacyKeyTokenIssuer :: string where "LegacyKeyTokenIssuer = ''SentinelTokenIssuer''"
definition KeyTokenAudience :: string where "KeyTokenAudience = ''PlatformTokenAudience''"
definition LegacyKeyTokenAudience :: string where "LegacyKeyTokenAudience = ''SentinelTokenAudience''"
definition KeyInternalAudience :: string where "KeyInternalAudience = ''PlatformInternalAudience''"
definition LegacyKeyInternalAudience :: string where "LegacyKeyInternalAudience = ''SentinelInternalAudience''"
definition KeyConfigAudience :: string where "KeyConfigAudience = ''PlatformConfigAudience''"
definition LegacyKeyConfigAudience :: string where "LegacyKeyConfigAudience = ''SentinelConfigAudience''"
definition KeyQuotaAudience :: string where "KeyQuotaAudience = ''PlatformQuotaAudience''"
definition LegacyKeyQuotaAudience :: string where "LegacyKeyQuotaAudience = ''SentinelQuotaAudience''"
definition KeyEntitlementsAudience :: string where "KeyEntitlementsAudience = ''PlatformEntitlementsAudience''"
definition LegacyKeyEntitlementsAudience :: string where "LegacyKeyEntitlementsAudience = ''SentinelEntitlementsAudience''"
definition KeyServiceRegistrationAudience :: string where "KeyServiceRegistrationAudience = ''PlatformServiceRegistrationAudience''"
definition LegacyKeyServiceRegistrationAudience :: string where "LegacyKeyServiceRegistrationAudience = ''SentinelServiceRegistrationAudience''"
definition KeyAuthorizationAudience :: string where "KeyAuthorizationAudience = ''PlatformAuthorizationAudience''"
definition LegacyKeyAuthorizationAudience :: string where "LegacyKeyAuthorizationAudience = ''SentinelAuthorizationAudience''"
definition KeyServiceID :: string where "KeyServiceID = ''PlatformServiceID''"
definition KeyServiceAPIKey :: string where "KeyServiceAPIKey = ''PlatformServiceAPIKey''"
definition KeyServiceTokenScope :: string where "KeyServiceTokenScope = ''PlatformServiceTokenScope''"
definition LegacyKeyServiceTokenScope :: string where "LegacyKeyServiceTokenScope = ''SentinelServiceTokenScope''"
definition KeyMTLSCertFile :: string where "KeyMTLSCertFile = ''PlatformMTLSCertFile''"
definition LegacyKeyMTLSCertFile :: string where "LegacyKeyMTLSCertFile = ''SentinelMTLSCertFile''"
definition KeyMTLSKeyFile :: string where "KeyMTLSKeyFile = ''PlatformMTLSKeyFile''"
definition LegacyKeyMTLSKeyFile :: string where "LegacyKeyMTLSKeyFile = ''SentinelMTLSKeyFile''"
definition KeyMTLSCAFile :: string where "KeyMTLSCAFile = ''PlatformMTLSCAFile''"
definition LegacyKeyMTLSCAFile :: string where "LegacyKeyMTLSCAFile = ''SentinelMTLSCAFile''"

section \<open>Configuration\<close>

record cfg_getter =
  cg_GetString :: "string \<Rightarrow> string"
  cg_GetStringSlice :: "string \<Rightarrow> string list"

record mtls_config =
  mt_CertFile :: string
  mt_KeyFile :: string
  mt_CAFile :: string

record service_token_config =
  tc_BaseURL :: string
  tc_ServiceID :: string
  tc_APIKey :: string
  tc_Scope :: string
  tc_Audience :: "string list"
  tc_MTLS :: mtls_config

definition TrimRightSlash :: "string \<Rightarrow> string" where
  "TrimRightSlash s = rev (dropWhile (\<lambda>c. c = CHR ''/'') (rev s))"

definition NormalizeBaseURL :: "string \<Rightarrow> string" where
  "NormalizeBaseURL raw =
     (let base = TrimSpace raw in if base = [] then [] else TrimRightSlash base)"

definition NormalizeLegacySentinelBaseURL :: "string \<Rightarrow> string" where
  "NormalizeLegacySentinelBaseURL raw =
     (let base = NormalizeBaseURL raw
      in if base = [] then []
         else if HasSuffix (ToLower base) ''/sentinel'' then base
         else base @ ''/sentinel'')"

definition NormalizeSentinelBaseURL :: "string \<Rightarrow> string" where
  "NormalizeSentinelBaseURL raw = NormalizeLegacySentinelBaseURL raw"

definition ResolveBaseURL :: "cfg_getter option \<Rightarrow> string" where
  "ResolveBaseURL cfg =
     (case cfg of
        None \<Rightarrow> []
      | Some g \<Rightarrow>
          let base = NormalizeBaseURL (cg_GetString g KeyBaseURL)
          in if base \<noteq> [] then base
             else NormalizeLegacySentinelBaseURL (cg_GetString g LegacyKeyBaseURL))"

fun first_key :: "cfg_getter \<Rightarrow> string list \<Rightarrow> string" where
  "first_key g [] = []"
| "first_key g (key # keys) =
     (let v = TrimSpace (cg_GetString g (TrimSpace key)) in if v \<noteq> [] then v else first_key g keys)"

definition firstString :: "cfg_getter option \<Rightarrow> string list \<Rightarrow> string" where
  "firstString cfg keys = (case cfg of None \<Rightarrow> [] | Some g \<Rightarrow> first_key g keys)"

text \<open>A nil slice and an empty one are not told apart by any caller; both are \<open>[]\<close>.\<close>

definition parseAudienceList :: "string list \<Rightarrow> string list" where
  "parseAudienceList vals = filter (\<lambda>v. v \<noteq> []) (map TrimSpace vals)"

definition cp_parseAudience :: "string \<Rightarrow> string list" where
  "cp_parseAudience raw =
     (if TrimSpace raw = [] then []
      else filter (\<lambda>v. v \<noteq> []) (map TrimSpace (Split raw CHR '','')))"

fun audience_of_keys :: "cfg_getter \<Rightarrow> string list \<Rightarrow> string list \<Rightarrow> string list" where
  "audience_of_keys g fallback [] = fallback"
| "audience_of_keys g fallback (key # keys) =
     (let audience = parseAudienceList (cg_GetStringSlice g key)
      in if length audience > 0 then audience
         else
           let audience = cp_parseAudience (cg_GetString g key)
           in if length audience > 0 then audience else audience_of_keys g fallback keys)"

definition resolveAudienceWithDefault :: "cfg_getter option \<Rightarrow> string list \<Rightarrow> string list \<Rightarrow> string list" where
  "resolveAudienceWithDefault cfg fallback keys =
     (case cfg of None \<Rightarrow> fallback | Some g \<Rightarrow> audience_of_keys g fallback keys)"

definition ResolveOIDCDiscoveryURL :: "cfg_getter option \<Rightarrow> string" where
  "ResolveOIDCDiscoveryURL cfg = firstString cfg [KeyOIDCDiscoveryURL, LegacyKeyOIDCDiscoveryURL]"

definition ResolveJWKSURL :: "cfg_getter option \<Rightarrow> string" where
  "ResolveJWKSURL cfg = firstString cfg [KeyJWKSURL, LegacyKeyJWKSURL]"

definition ResolveJWKSCacheTTL :: "cfg_getter option \<Rightarrow> go_duration \<Rightarrow> go_duration" where
  "ResolveJWKSCacheTTL cfg fallback =
     (let raw = firstString cfg [KeyJWKSCacheTTLSeconds, LegacyKeyJWKSCacheTTLSeconds]
      in if raw = [] then fallback
         else case Atoi raw of
                None \<Rightarrow> fallback
              | Some seconds \<Rightarrow> if seconds \<le> 0 then fallback else wrap64 (seconds * Second))"

definition ResolveTokenIssuer :: "cfg_getter option \<Rightarrow> string" where
  "ResolveTokenIssuer cfg = firstString cfg [KeyTokenIssuer, LegacyKeyTokenIssuer]"

definition ResolveTokenAudienceFromStringGetter :: "cfg_getter option \<Rightarrow> string list" where
  "ResolveTokenAudienceFromStringGetter cfg = cp_parseAudience (firstString cfg [KeyTokenAudience, LegacyKeyTokenAudience])"

definition ResolveTokenAudience :: "cfg_getter option \<Rightarrow> string list" where
  "ResolveTokenAudience cfg =
     (case cfg of
        None \<Rightarrow> []
      | Some g \<Rightarrow>
          let audience = parseAudienceList (cg_GetStringSlice g KeyTokenAudience)
          in if length audience > 0 then audience
             else let audience = cp_parseAudience (cg_GetString g KeyTokenAudience)
             in if length audience > 0 then audience
             else let audience = parseAudienceList (cg_GetStringSlice g LegacyKeyTokenAudience)
             in if length audience > 0 then audience
             else cp_parseAudience (cg_GetString g LegacyKeyTokenAudience))"

definition ResolveInternalAudience :: "cfg_getter option \<Rightarrow> string list" where
  "ResolveInternalAudience cfg =
     (case cfg of
        None \<Rightarrow> [DefaultInternalAudience]
      | Some g \<Rightarrow>
          let audience = parseAudienceList (cg_GetStringSlice g KeyInternalAudience)
          in if length audience > 0 then audience
             else let audience = cp_parseAudience (cg_GetString g KeyInternalAudience)
             in if length audience > 0 then audience
             else let audience = parseAudienceList (cg_GetStringSlice g LegacyKeyInternalAudience)
             in if length audience > 0 then audience
             else let audience = cp_parseAudience (cg_GetString g LegacyKeyInternalAudience)
             in if length audience > 0 then audience
             else [DefaultInternalAudience])"

definition ResolveConfigAudience :: "cfg_getter option \<Rightarrow> string list" where
  "ResolveConfigAudience cfg =
     resolveAudienceWithDefault cfg [DefaultConfigAudience] [KeyConfigAudience, LegacyKeyConfigAudience]"

definition ResolveQuotaAudience :: "cfg_getter option \<Rightarrow> string list" where
  "ResolveQuotaAudience cfg =
     resolveAudienceWithDefault cfg [DefaultQuotaAudience] [KeyQuotaAudience, LegacyKeyQuotaAudience]"

definition ResolveEntitlementsAudience :: "cfg_getter option \<Rightarrow> string list" where
  "ResolveEntitlementsAudience cfg =
     resolveAudienceWithDefault cfg [DefaultEntitlementsAudience]
       [KeyEntitlementsAudience, LegacyKeyEntitlementsAudience]"

definition ResolveServiceRegistrationAudience :: "cfg_getter option \<Rightarrow> string list" where
  "ResolveServiceRegistrationAudience cfg =
     resolveAudienceWithDefault cfg [DefaultServiceRegistrationAudience]
       [KeyServiceRegistrationAudience, LegacyKeyServiceRegistrationAudience]"

definition ResolveAuthorizationAudience :: "cfg_getter option \<Rightarrow> string list" where
  "ResolveAuthorizationAudience cfg =
     resolveAudienceWithDefault cfg [DefaultAuthorizationAudience]
       [KeyAuthorizationAudience, LegacyKeyAuthorizationAudience]"

definition ResolveServiceID :: "cfg_getter option \<Rightarrow> string" where
  "ResolveServiceID cfg = firstString cfg [KeyServiceID]"

definition ResolveServiceAPIKey :: "cfg_getter option \<Rightarrow> string" where
  "ResolveServiceAPIKey cfg = firstString cfg [KeyServiceAPIKey]"

definition ResolveServiceTokenScope :: "cfg_getter option \<Rightarrow> string" where
  "ResolveServiceTokenScope cfg = firstString cfg [KeyServiceTokenScope, LegacyKeyServiceTokenScope]"

definition ResolveMTLSConfig :: "cfg_getter option \<Rightarrow> mtls_config" where
  "ResolveMTLSConfig cfg =
     (case cfg of
        None \<Rightarrow> \<lparr>mt_CertFile = [], mt_KeyFile = [], mt_CAFile = []\<rparr>
      | Some g \<Rightarrow>
          \<lparr>mt_CertFile = firstString cfg [KeyMTLSCertFile, LegacyKeyMTLSCertFile],
           mt_KeyFile = firstString cfg [KeyMTLSKeyFile, LegacyKeyMTLSKeyFile],
           mt_CAFile = firstString cfg [KeyMTLSCAFile, LegacyKeyMTLSCAFile]\<rparr>)"

definition ResolveServiceTokenConfig :: "cfg_getter option \<Rightarrow> service_token_config" where
  "ResolveServiceTokenConfig cfg =
     \<lparr>tc_BaseURL = ResolveBaseURL cfg, tc_ServiceID = ResolveServiceID cfg, tc_APIKey = ResolveServiceAPIKey cfg,
      tc_Scope = ResolveServiceTokenScope cfg, tc_Audience = ResolveTokenAudience cfg,
      tc_MTLS = ResolveMTLSConfig cfg\<rparr>"

definition or_key :: "string \<Rightarrow> string \<Rightarrow> string" where
  "or_key key legacy = key @ '' or '' @ legacy"

definition mtls_MissingRequiredFields :: "mtls_config \<Rightarrow> string list" where
  "mtls_MissingRequiredFields c =
     (if TrimSpace (mt_CertFile c) = [] then [or_key KeyMTLSCertFile LegacyKeyMTLSCertFile] else []) @
     (if TrimSpace (mt_KeyFile c) = [] then [or_key KeyMTLSKeyFile LegacyKeyMTLSKeyFile] else []) @
     (if TrimSpace (mt_CAFile c) = [] then [or_key KeyMTLSCAFile LegacyKeyMTLSCAFile] else [])"

definition MissingRequiredFields :: "service_token_config \<Rightarrow> string list" where
  "MissingRequiredFields c =
     (if TrimSpace (tc_BaseURL c) = [] then [or_key KeyBaseURL LegacyKeyBaseURL] else []) @
     (if TrimSpace (tc_ServiceID c) = [] then [KeyServiceID] else []) @
     (if TrimSpace (tc_APIKey c) = [] then [KeyServiceAPIKey] else []) @
     mtls_MissingRequiredFields (tc_MTLS c)"

section \<open>URLs\<close>

text \<open>\<open>API\<close> is its base URL.\<close>

definition APIFromConfig :: "cfg_getter option \<Rightarrow> string" where
  "APIFromConfig cfg = ResolveBaseURL cfg"

definition ServiceTokenURL :: "string \<Rightarrow> string" where
  "ServiceTokenURL base = base @ ''/internal/api/v1/service-token''"

definition PermissionByCodesURL :: "string \<Rightarrow> string" where
  "PermissionByCodesURL base = base @ ''/api/v1/permissions/by-codes''"

definition RolesBulkURL :: "string \<Rightarrow> string" where
  "RolesBulkURL base = base @ ''/api/v1/roles/bulk''"

definition AuthorizationDecisionURL :: "string \<Rightarrow> string" where
  "AuthorizationDecisionURL base = base @ ''/internal/api/v1/authz/decide''"

definition ConfigPublishURL :: "string \<Rightarrow> string" where
  "ConfigPublishURL base = base @ ''/internal/api/v1/config/publish''"

definition ConfigResolveURL :: "string \<Rightarrow> string" where
  "ConfigResolveURL base = base @ ''/internal/api/v1/config/resolve''"

definition ConfigWatchURL :: "string \<Rightarrow> string" where
  "ConfigWatchURL base = base @ ''/internal/api/v1/config/watch''"

definition OIDCDiscoveryURL :: "string \<Rightarrow> string" where
  "OIDCDiscoveryURL base = base @ ''/.well-known/openid-configuration''"

definition JWKSURL :: "string \<Rightarrow> string" where
  "JWKSURL base = base @ ''/.well-known/jwks.json''"

text \<open>
  \<open>url.PathEscape\<close>: letters, digits and \<open>-_.~$&+:=@\<close> stay, every other byte becomes \<open>%XX\<close>.
\<close>

definition hex_digit :: "nat \<Rightarrow> char" where
  "hex_digit n = char_of (if n < 10 then 48 + n else 55 + n)"

definition path_safe :: "char \<Rightarrow> bool" where
  "path_safe c =
     (let n = of_char c :: nat
      in 48 \<le> n \<and> n \<le> 57 \<or> 65 \<le> n \<and> n \<le> 90 \<or> 97 \<le> n \<and> n \<le> 122 \<or> c \<in> set ''-_.~$&+:=@'')"

definition escape_char :: "char \<Rightarrow> string" where
  "escape_char c =
     (if path_safe c then [c]
      else [CHR ''%'', hex_digit (of_char c div 16), hex_digit (of_char c mod 16)])"

definition PathEscape :: "string \<Rightarrow> string" where
  "PathEscape s = concat (map escape_char s)"

definition RolePermissionsURL :: "string \<Rightarrow> string \<Rightarrow> string" where
  "RolePermissionsURL base roleID = base @ ''/api/v1/roles/'' @ PathEscape (TrimSpace roleID) @ ''/permissions''"

section \<open>Lemmas\<close>

lemma firstString_trimmed: "TrimSpace (firstString cfg keys) = firstString cfg keys"
proof -
  have "TrimSpace (first_key g ks) = first_key g ks" for g ks
    by (induction ks) (auto simp: Let_def)
  then show ?thesis by (cases cfg) (simp_all add: firstString_def)
qed

lemma TrimRightSlash_last: "TrimRightSlash s \<noteq> [] \<Longrightarrow> last (TrimRightSlash s) \<noteq> CHR ''/''"
  using hd_dropWhile [of "\<lambda>c. c = CHR ''/''" "rev s"] by (simp add: TrimRightSlash_def last_rev)

text \<open>The base URL never ends with a slash, so that the URLs built from it have none doubled.\<close>

lemma NormalizeBaseURL_last: "NormalizeBaseURL raw \<noteq> [] \<Longrightarrow> last (NormalizeBaseURL raw) \<noteq> CHR ''/''"
  using TrimRightSlash_last by (simp add: NormalizeBaseURL_def Let_def split: if_splits)

lemma NormalizeLegacy_last:
  "NormalizeLegacySentinelBaseURL raw \<noteq> [] \<Longrightarrow> last (NormalizeLegacySentinelBaseURL raw) \<noteq> CHR ''/''"
  using NormalizeBaseURL_last [of raw]
  by (cases "NormalizeBaseURL raw = []") (simp_all add: NormalizeLegacySentinelBaseURL_def Let_def)

lemma ResolveBaseURL_last: "ResolveBaseURL cfg \<noteq> [] \<Longrightarrow> last (ResolveBaseURL cfg) \<noteq> CHR ''/''"
  using NormalizeBaseURL_last NormalizeLegacy_last
  by (cases cfg) (simp_all add: ResolveBaseURL_def Let_def split: if_splits)

text \<open>The internal audience follows the same rule as the other audiences.\<close>

lemma ResolveInternalAudience_default:
  "ResolveInternalAudience cfg =
     resolveAudienceWithDefault cfg [DefaultInternalAudience] [KeyInternalAudience, LegacyKeyInternalAudience]"
  by (simp add: ResolveInternalAudience_def resolveAudienceWithDefault_def Let_def split: option.split)

lemma audience_entries:
  assumes "\<forall>a\<in>set fallback. TrimSpace a = a \<and> a \<noteq> []" and "fallback \<noteq> []"
  shows "resolveAudienceWithDefault cfg fallback keys \<noteq> [] \<and>
    (\<forall>a\<in>set (resolveAudienceWithDefault cfg fallback keys). TrimSpace a = a \<and> a \<noteq> [])"
proof -
  have lists: "\<forall>a\<in>set (parseAudienceList vs). TrimSpace a = a \<and> a \<noteq> []"
    "\<forall>a\<in>set (cp_parseAudience raw). TrimSpace a = a \<and> a \<noteq> []" for vs raw
    by (auto simp: parseAudienceList_def cp_parseAudience_def)
  have "audience_of_keys g fallback ks \<noteq> [] \<and> (\<forall>a\<in>set (audience_of_keys g fallback ks). TrimSpace a = a \<and> a \<noteq> [])" for g ks
  proof (induction ks)
    case Nil
    show ?case using assms by simp
  next
    case (Cons k ks)
    then show ?case using lists by (simp add: Let_def)
  qed
  then show ?thesis using assms by (cases cfg) (simp_all add: resolveAudienceWithDefault_def)
qed

subsection \<open>Escaping\<close>

definition unhex :: "char \<Rightarrow> nat" where
  "unhex c = (let n = of_char c in if n < 58 then n - 48 else n - 55)"

fun unescape :: "string \<Rightarrow> string" where
  "unescape [] = []"
| "unescape (c # rest) =
     (if c = CHR ''%''
      then (case rest of a # b # rest' \<Rightarrow> char_of (16 * unhex a + unhex b) # unescape rest' | _ \<Rightarrow> c # unescape rest)
      else c # unescape rest)"

lemma unhex_digit: "n < 16 \<Longrightarrow> unhex (hex_digit n) = n"
  by (auto simp: unhex_def hex_digit_def Let_def)

lemma path_safe_percent: "\<not> path_safe CHR ''%''"
  by (simp add: path_safe_def)

lemma unescape_char: "unescape (escape_char c @ rest) = c # unescape rest"
proof (cases "path_safe c")
  case True
  then have "c \<noteq> CHR ''%''" using path_safe_percent by blast
  with True show ?thesis by (simp add: escape_char_def)
next
  case False
  have "of_char c < (256 :: nat)" by (rule nat_of_char_less_256)
  then have "(of_char c :: nat) div 16 < 16" by linarith
  then show ?thesis using False by (simp add: escape_char_def unhex_digit)
qed

lemma unescape_PathEscape: "unescape (PathEscape s) = s"
  by (induction s) (simp_all add: PathEscape_def unescape_char)

lemma hex_digit_safe: "n < 16 \<Longrightarrow> path_safe (hex_digit n)"
  by (auto simp: hex_digit_def path_safe_def Let_def)

lemma PathEscape_chars: "c \<in> set (PathEscape s) \<Longrightarrow> path_safe c \<or> c = CHR ''%''"
proof -
  have "path_safe c \<or> c = CHR ''%''" if "c \<in> set (escape_char d)" for d
  proof -
    have "of_char d < (256 :: nat)" by (rule nat_of_char_less_256)
    then have "(of_char d :: nat) div 16 < 16" by linarith
    then show ?thesis using that hex_digit_safe by (auto simp: escape_char_def split: if_splits)
  qed
  then show "c \<in> set (PathEscape s) \<Longrightarrow> path_safe c \<or> c = CHR ''%''" by (auto simp: PathEscape_def)
qed

text \<open>
  The URL of a role's permissions identifies the role: different role ids (up to surrounding
  space) give different URLs, and no role id can add a path segment, a query or a fragment.
\<close>

lemma role_url_identifies:
  "(RolePermissionsURL base roleID = RolePermissionsURL base roleID' \<longleftrightarrow> TrimSpace roleID = TrimSpace roleID') \<and>
   (\<exists>segment. RolePermissionsURL base roleID = base @ ''/api/v1/roles/'' @ segment @ ''/permissions'' \<and>
      set segment \<inter> set ''/?#'' = {})"
proof
  have "PathEscape s = PathEscape t \<longleftrightarrow> s = t" for s t by (metis unescape_PathEscape)
  then show "RolePermissionsURL base roleID = RolePermissionsURL base roleID' \<longleftrightarrow> TrimSpace roleID = TrimSpace roleID'"
    by (simp add: RolePermissionsURL_def)
  have "\<not> path_safe CHR ''/''" "\<not> path_safe CHR ''?''" "\<not> path_safe CHR ''#''" by (simp_all add: path_safe_def)
  then have "set (PathEscape (TrimSpace roleID)) \<inter> set ''/?#'' = {}"
    by (auto dest: PathEscape_chars)
  then show "\<exists>segment. RolePermissionsURL base roleID = base @ ''/api/v1/roles/'' @ segment @ ''/permissions'' \<and>
      set segment \<inter> set ''/?#'' = {}"
    by (intro exI [of _ "PathEscape (TrimSpace roleID)"]) (simp add: RolePermissionsURL_def)
qed

end
