(* ===== verification/Quota.thy ===== *)
theory Quota
  imports Complex_Main Apperr Tenant_Access Controlplane
begin

text \<open>
  Tenant quotas: the in-process enforcer of \<open>pkg/quota/quota.go\<close> and the client, decision cache and
  middleware of \<open>pkg/quota/sentinel.go\<close>.

  A limit is a finite \<open>float64\<close>, here a rational number. A counter starts at 0 and is only ever
  incremented, so it is an integer; adding 1 to a \<open>float64\<close> is exact below \<open>2 ^ 53\<close> and has no
  effect from there on. The date text of a bucket stands for the number of the UTC day. Mutexes
  make every operation atomic. The transport and the JSON encoding of the control-plane call, the
  hash of the cache key and \<open>time.Parse\<close> are parameters.
\<close>

section \<open>pkg/quota/quota.go\<close>

type_synonym limits = "(string \<times> rat) list"

record quota_config =
  qc_Enabled :: bool
  qc_DefaultLimits :: limits
  qc_LimitsExtractor :: "(gin_ctx \<Rightarrow> limits option) option"
  qc_CleanupInterval :: go_duration

definition DefaultMetricAPICallsPerDay :: string where
  "DefaultMetricAPICallsPerDay = ''api_calls_per_day''"

definition quota_DefaultConfig :: quota_config where
  "quota_DefaultConfig =
     \<lparr>qc_Enabled = True, qc_DefaultLimits = [(''api_calls_per_day'', 10000)], qc_LimitsExtractor = None,
      qc_CleanupInterval = 10 * Minute\<rparr>"

record bucket =
  bk_counters :: "string \<rightharpoonup> int"
  bk_day :: int
  bk_lastSeen :: go_time

record enforcer =
  en_cfg :: quota_config
  en_buckets :: "string \<rightharpoonup> bucket"

definition quota_New :: "quota_config \<Rightarrow> enforcer" where
  "quota_New cfg =
     \<lparr>en_cfg = (if qc_CleanupInterval cfg = 0 then cfg\<lparr>qc_CleanupInterval := 10 * Minute\<rparr> else cfg),
      en_buckets = Map.empty\<rparr>"

text \<open>\<open>now.UTC().Format("2006-01-02")\<close>, up to the bijection of dates and day numbers.\<close>

definition day_of :: "go_time \<Rightarrow> int" where
  "day_of now = now div (24 * Hour)"

definition resolveLimits :: "quota_config \<Rightarrow> gin_ctx \<Rightarrow> limits" where
  "resolveLimits cfg c =
     (case qc_LimitsExtractor cfg of
        Some extractor \<Rightarrow> (case extractor c of Some l \<Rightarrow> l | None \<Rightarrow> qc_DefaultLimits cfg)
      | None \<Rightarrow> qc_DefaultLimits cfg)"

definition getOrCreateBucket :: "enforcer \<Rightarrow> string \<Rightarrow> int \<Rightarrow> bucket" where
  "getOrCreateBucket e tenantID today =
     (case en_buckets e tenantID of
        Some b \<Rightarrow>
          if bk_day b \<noteq> today then \<lparr>bk_counters = Map.empty, bk_day = today, bk_lastSeen = zero_time\<rparr> else b
      | None \<Rightarrow> \<lparr>bk_counters = Map.empty, bk_day = today, bk_lastSeen = zero_time\<rparr>)"

text \<open>The bucket stays in the map, where the caller's changes to it are seen.\<close>

definition put_bucket :: "enforcer \<Rightarrow> string \<Rightarrow> bucket \<Rightarrow> enforcer" where
  "put_bucket e tenantID b = e\<lparr>en_buckets := (en_buckets e)(tenantID \<mapsto> b)\<rparr>"

definition extractTenantID :: "gin_ctx \<Rightarrow> string" where
  "extractTenantID c =
     (case gc_keys c ''tenant_id'' of
        Some (AString (x # xs)) \<Rightarrow> x # xs
      | _ \<Rightarrow>
        (case gc_keys c ''claims_raw'' of
           Some (AMap m) \<Rightarrow> (case map_of m ''tenant_id'' of Some (AString s) \<Rightarrow> s | _ \<Rightarrow> [])
         | _ \<Rightarrow> []))"

text \<open>The value of a counter (missing ones are 0), \<open>counter++\<close> on a \<open>float64\<close>, and \<open>FormatFloat(x, 'f', 0, 64)\<close>.\<close>

definition counter_value :: "bucket \<Rightarrow> string \<Rightarrow> int" where
  "counter_value b name = (case bk_counters b name of None \<Rightarrow> 0 | Some n \<Rightarrow> n)"

definition float_incr :: "int \<Rightarrow> int" where
  "float_incr n = (if n < 2 ^ 53 then n + 1 else n)"

definition round_even :: "rat \<Rightarrow> int" where
  "round_even x =
     (let f = \<lfloor>x\<rfloor>; d = x - of_int f
      in if d < 1 / 2 then f else if d > 1 / 2 then f + 1 else if even f then f else f + 1)"

definition FormatFloat0 :: "rat \<Rightarrow> string" where
  "FormatFloat0 x = (if x < 0 then ''-'' else []) @ FormatInt \<bar>round_even x\<bar>"

definition SetHeader :: "string \<Rightarrow> string \<Rightarrow> gin_ctx \<Rightarrow> gin_ctx" where
  "SetHeader k v c = c\<lparr>gc_Header := (gc_Header c)(k \<mapsto> v)\<rparr>"

text \<open>The two clock readings of the middleware are \<open>now\<close> (the day) and \<open>seen\<close>.\<close>

definition Enforcer_Middleware ::
    "go_time \<Rightarrow> go_time \<Rightarrow> gin_ctx \<Rightarrow> enforcer \<Rightarrow> mw_result \<times> enforcer" where
  "Enforcer_Middleware now seen c e =
     (if \<not> qc_Enabled (en_cfg e) then (Next c, e)
      else
        let tenantID = extractTenantID c
        in if tenantID = [] then (Next c, e)
           else
             let limits = resolveLimits (en_cfg e) c
             in if limits = [] then (Next c, e)
                else
                  let quotaName = DefaultMetricAPICallsPerDay;
                      b = (getOrCreateBucket e tenantID (day_of now))\<lparr>bk_lastSeen := seen\<rparr>
                  in case map_of limits quotaName of
                       None \<Rightarrow> (Next c, put_bucket e tenantID b)
                     | Some limit \<Rightarrow>
                         if of_int (counter_value b quotaName) \<ge> limit
                         then
                           (Abort StatusTooManyRequests ''quota_exceeded''
                              (SetHeader ''X-RateLimit-Remaining'' ''0''
                                (SetHeader ''X-RateLimit-Limit'' (FormatFloat0 limit) c)),
                            put_bucket e tenantID b)
                         else
                           let count = float_incr (counter_value b quotaName);
                               b = b\<lparr>bk_counters := (bk_counters b)(quotaName \<mapsto> count)\<rparr>;
                               remaining = limit - of_int count
                           in (Next
                                (SetHeader ''X-RateLimit-Remaining'' (FormatFloat0 remaining)
                                  (SetHeader ''X-RateLimit-Limit'' (FormatFloat0 limit) c)),
                               put_bucket e tenantID b))"

definition GetUsage :: "enforcer \<Rightarrow> string \<Rightarrow> (string \<rightharpoonup> int) option" where
  "GetUsage e tenantID = map_option bk_counters (en_buckets e tenantID)"

text \<open>One tick of \<open>cleanupLoop\<close>.\<close>

definition cleanup_tick :: "go_time \<Rightarrow> enforcer \<Rightarrow> enforcer" where
  "cleanup_tick now e =
     (let cutoff = now + wrap64 (- 2 * qc_CleanupInterval (en_cfg e))
      in e\<lparr>en_buckets := (\<lambda>k. case en_buckets e k of
             None \<Rightarrow> None
           | Some b \<Rightarrow> if bk_lastSeen b < cutoff then None else Some b)\<rparr>)"

text \<open>
  The goroutine of the cleanup: whether its channel is closed. \<open>Stop\<close> closes it, which panics the second time (\<open>None\<close>); after
  it the goroutine returns, and no tick changes the buckets.
\<close>

record cleanup =
  cl_enforcer :: enforcer
  cl_stopped :: bool

definition enforcer_Stop :: "cleanup \<Rightarrow> cleanup option" where
  "enforcer_Stop cl = (if cl_stopped cl then None else Some (cl\<lparr>cl_stopped := True\<rparr>))"

definition cleanupLoop :: "go_time \<Rightarrow> cleanup \<Rightarrow> cleanup" where
  "cleanupLoop now cl = (if cl_stopped cl then cl else cl\<lparr>cl_enforcer := cleanup_tick now (cl_enforcer cl)\<rparr>)"

section \<open>pkg/quota/sentinel.go\<close>

record check_request =
  cq_Token :: string
  cq_ServiceID :: string
  cq_Metric :: string
  cq_Delta :: int

record check_response =
  cr_Allowed :: bool
  cr_Bypassed :: bool
  cr_Reason :: string
  cr_TenantID :: string
  cr_ServiceID :: string
  cr_Metric :: string
  cr_Limit :: "int option"
  cr_Used :: int
  cr_Remaining :: "int option"
  cr_ResetAt :: "string option"
  cr_StatusCode :: int

definition zero_response :: check_response where
  "zero_response =
     \<lparr>cr_Allowed = False, cr_Bypassed = False, cr_Reason = [], cr_TenantID = [], cr_ServiceID = [],
      cr_Metric = [], cr_Limit = None, cr_Used = 0, cr_Remaining = None, cr_ResetAt = None,
      cr_StatusCode = 0\<rparr>"

definition HTTPDecisionStatus :: "check_response \<Rightarrow> int" where
  "HTTPDecisionStatus r =
     (if cr_StatusCode r \<noteq> 0 then cr_StatusCode r
      else if EqualFold (TrimSpace (cr_Reason r)) ''quota_exceeded'' then StatusTooManyRequests
      else StatusForbidden)"

definition ApplyHeaders :: "gin_ctx \<Rightarrow> check_response \<Rightarrow> gin_ctx" where
  "ApplyHeaders c result =
     (let c = (case cr_Limit result of None \<Rightarrow> c | Some l \<Rightarrow> SetHeader ''X-RateLimit-Limit'' (FormatInt l) c);
          c = (case cr_Remaining result of
                 None \<Rightarrow> c | Some r \<Rightarrow> SetHeader ''X-RateLimit-Remaining'' (FormatInt r) c)
      in case cr_ResetAt result of
           None \<Rightarrow> c
         | Some t \<Rightarrow> if TrimSpace t \<noteq> [] then SetHeader ''X-RateLimit-Reset'' (TrimSpace t) c else c)"

definition DefaultReasonForStatus :: "int \<Rightarrow> string" where
  "DefaultReasonForStatus status =
     (if status = StatusUnauthorized then ''invalid_token''
      else if status = StatusTooManyRequests then ''quota_exceeded''
      else if status = StatusForbidden then ''access_denied''
      else ''quota_denied'')"

definition MessageForReason :: "string \<Rightarrow> string" where
  "MessageForReason reason =
     (let r = TrimSpace reason
      in if r = ''quota_exceeded'' then ''tenant quota exceeded''
         else if r = ''service_not_allowed'' then ''service not enabled for tenant plan''
         else if r = ''tenant_inactive'' then ''tenant subscription is not active''
         else if r = ''invalid_token'' then ''authentication required''
         else ''tenant access denied'')"

text \<open>What decoding the response body gives: a value, \<open>io.EOF\<close> (an empty body), or another error.\<close>

datatype decoded = Decoded check_response | DecodedEOF | DecodeFailed go_error

record quota_net =
  qn_encode :: "check_request \<Rightarrow> go_error + string"
  qn_newRequest :: "string \<Rightarrow> string \<Rightarrow> go_error option"
  qn_do :: "string \<Rightarrow> string \<Rightarrow> go_error + (int \<times> string)"
  qn_decode :: "string \<Rightarrow> decoded"

record sentinel_client =
  sc_baseURL :: string
  sc_initErr :: "go_error option"
  sc_hasClient :: bool

definition QuotaCheckURL :: "string \<Rightarrow> string" where
  "QuotaCheckURL baseURL = baseURL @ ''/internal/api/v1/quota/check''"

text \<open>\<open>newClient\<close> is \<open>NewInternalControlPlaneClient\<close>: its error, if it fails; then there is no client.\<close>

definition NewSentinelClient :: "(cfg_getter option \<Rightarrow> go_error option) \<Rightarrow> cfg_getter option \<Rightarrow> sentinel_client" where
  "NewSentinelClient newClient cfg =
     (let err = newClient cfg
      in \<lparr>sc_baseURL = APIFromConfig cfg, sc_initErr = err, sc_hasClient = (err = None)\<rparr>)"

definition CheckTenantQuota ::
    "quota_net \<Rightarrow> sentinel_client option \<Rightarrow> string \<Rightarrow> string \<Rightarrow> string \<Rightarrow> int \<Rightarrow>
     check_response \<times> go_error option" where
  "CheckTenantQuota net client token serviceID metric delta =
     (case client of
        None \<Rightarrow> (zero_response, Some (EPlain ''quota client is nil''))
      | Some cl \<Rightarrow>
          if TrimSpace (sc_baseURL cl) = []
          then (zero_response, Some (EPlain ''PlatformControlPlaneEndpoint or SentinelServiceEndpoint not configured''))
          else case sc_initErr cl of
            Some err \<Rightarrow>
              (zero_response, Some (EFmt (''control-plane client initialization failed: '' @ Error err) err))
          | None \<Rightarrow>
              if \<not> sc_hasClient cl
              then (zero_response, Some (EPlain ''control-plane client is not configured''))
              else case qn_encode net \<lparr>cq_Token = TrimSpace token, cq_ServiceID = TrimSpace serviceID,
                          cq_Metric = TrimSpace metric, cq_Delta = delta\<rparr> of
                Inl err \<Rightarrow> (zero_response, Some (EFmt (''encode quota request: '' @ Error err) err))
              | Inr body \<Rightarrow>
                (case qn_newRequest net (QuotaCheckURL (sc_baseURL cl)) body of
                   Some err \<Rightarrow> (zero_response, Some (EFmt (''create quota request: '' @ Error err) err))
                 | None \<Rightarrow>
                   (case qn_do net (QuotaCheckURL (sc_baseURL cl)) body of
                      Inl err \<Rightarrow> (zero_response, Some err)
                    | Inr (status, text) \<Rightarrow>
                      (case qn_decode net text of
                         DecodeFailed err \<Rightarrow>
                           (zero_response, Some (EFmt (''decode quota response: '' @ Error err) err))
                       | d \<Rightarrow>
                           let out = (case d of Decoded r \<Rightarrow> r | _ \<Rightarrow> zero_response)\<lparr>cr_StatusCode := status\<rparr>
                           in if status \<ge> StatusInternalServerError
                              then (out, Some (EPlain (''sentinel quota endpoint returned status '' @ FormatInt status)))
                              else (out, None)))))"

record sentinel_config =
  sm_Enabled :: bool
  sm_ServiceID :: string
  sm_Metric :: string
  sm_FailOpen :: bool
  sm_CacheTTL :: go_duration

text \<open>
  The getters of \<open>config.Config\<close> with a default, and the service id \<open>controlplane.ResolveServiceID\<close>
  finds, are arguments.
\<close>

definition NewSentinelMiddlewareConfig ::
    "(string \<Rightarrow> int \<Rightarrow> int) \<Rightarrow> (string \<Rightarrow> bool \<Rightarrow> bool) \<Rightarrow> (string \<Rightarrow> string \<Rightarrow> string) \<Rightarrow> string \<Rightarrow>
     sentinel_config" where
  "NewSentinelMiddlewareConfig GetIntD GetBoolD GetStringD serviceID =
     (let ttl = GetIntD ''QuotaCacheTTLSeconds'' 60;
          ttl = (if ttl < 0 then 0 else ttl)
      in \<lparr>sm_Enabled = GetBoolD ''QuotaEnabled'' True, sm_ServiceID = serviceID,
          sm_Metric = TrimSpace (GetStringD ''QuotaMetricName'' DefaultMetricAPICallsPerDay),
          sm_FailOpen = GetBoolD ''QuotaFailOpen'' False, sm_CacheTTL = wrap64 (ttl * Second)\<rparr>)"

record cached_decision =
  cd_result :: check_response
  cd_expiresAt :: go_time

record decision_cache =
  dc_ttl :: go_duration
  dc_set :: "string \<rightharpoonup> cached_decision"

definition newDecisionCache :: "go_duration \<Rightarrow> decision_cache" where
  "newDecisionCache ttl = \<lparr>dc_ttl = ttl, dc_set = Map.empty\<rparr>"

definition cloneCheckResponse :: "check_response \<Rightarrow> check_response" where
  "cloneCheckResponse r = r\<lparr>cr_ResetAt := map_option TrimSpace (cr_ResetAt r)\<rparr>"

text \<open>\<open>parse\<close> is \<open>time.Parse(time.RFC3339, _)\<close>, \<open>None\<close> for an error.\<close>

definition cache_store ::
    "(string \<Rightarrow> go_time option) \<Rightarrow> go_time \<Rightarrow> string \<Rightarrow> check_response \<Rightarrow> decision_cache \<Rightarrow> decision_cache" where
  "cache_store parse now key result c =
     (if dc_ttl c \<le> 0 \<or> TrimSpace key = [] then c
      else
        let expiresAt = now + dc_ttl c;
            expiresAt =
              (case cr_ResetAt result of
                 None \<Rightarrow> expiresAt
               | Some t \<Rightarrow>
                   (case parse (TrimSpace t) of
                      None \<Rightarrow> expiresAt
                    | Some parsed \<Rightarrow>
                        if parsed \<noteq> zero_time \<and> parsed < expiresAt then parsed else expiresAt))
        in c\<lparr>dc_set := (dc_set c)(key \<mapsto>
              \<lparr>cd_result = cloneCheckResponse result, cd_expiresAt = expiresAt\<rparr>)\<rparr>)"

definition set_result :: "decision_cache \<Rightarrow> string \<Rightarrow> cached_decision \<Rightarrow> check_response \<Rightarrow> decision_cache" where
  "set_result c key entry result =
     c\<lparr>dc_set := (dc_set c)(key \<mapsto> entry\<lparr>cd_result := cloneCheckResponse result\<rparr>)\<rparr>"

definition cache_fallback ::
    "go_time \<Rightarrow> string \<Rightarrow> int \<Rightarrow> decision_cache \<Rightarrow> check_response option \<times> decision_cache" where
  "cache_fallback now key delta c =
     (if dc_ttl c \<le> 0 \<or> TrimSpace key = [] then (None, c)
      else case dc_set c key of
        None \<Rightarrow> (None, c)
      | Some entry \<Rightarrow>
          if now > cd_expiresAt entry then (None, c\<lparr>dc_set := (dc_set c)(key := None)\<rparr>)
          else
            let result = cloneCheckResponse (cd_result entry)
            in if \<not> cr_Allowed result then (Some result, c)
               else case cr_Remaining result of
                 None \<Rightarrow> (Some result, set_result c key entry result)
               | Some remaining \<Rightarrow>
                   if remaining < delta then
                     let result = result\<lparr>cr_Allowed := False, cr_Reason := ''quota_exceeded'',
                                         cr_StatusCode := StatusTooManyRequests, cr_Remaining := Some 0\<rparr>
                     in (Some result, set_result c key entry result)
                   else
                     let result = result\<lparr>cr_Used := wrap64 (cr_Used result + delta),
                                         cr_Remaining := Some (wrap64 (remaining - delta))\<rparr>
                     in (Some result, set_result c key entry result))"

text \<open>\<open>sha256_hex\<close> is the hexadecimal text of the SHA-256 digest.\<close>

definition quotaCacheKey :: "(string \<Rightarrow> string) \<Rightarrow> string \<Rightarrow> string \<Rightarrow> string \<Rightarrow> string" where
  "quotaCacheKey sha256_hex token serviceID metric =
     sha256_hex (TrimSpace token @ ''|'' @ TrimSpace serviceID @ ''|'' @ TrimSpace metric)"

text \<open>
  The token whose quota a request is charged to; \<open>None\<close> when the middleware does not apply to it
  (disabled, no claims, no service id, service or non-access tokens, no tenant, no bearer token).
\<close>

definition charged_token :: "sentinel_config \<Rightarrow> gin_ctx \<Rightarrow> string option" where
  "charged_token cfg c =
     (if \<not> sm_Enabled cfg then None
      else case GetClaims c of
        None \<Rightarrow> None
      | Some cl \<Rightarrow>
          if sm_ServiceID cfg = [] then None
          else if IsServiceToken cl then None
          else if TrimSpace (TokenUse cl) \<noteq> [] \<and> \<not> EqualFold (TrimSpace (TokenUse cl)) ''access'' then None
          else if TrimSpace (TenantID cl) = [] then None
          else case ExtractBearerToken (gc_Authorization c) of Inl _ \<Rightarrow> None | Inr token \<Rightarrow> Some token)"

definition abort_denied :: "gin_ctx \<Rightarrow> check_response \<Rightarrow> mw_result" where
  "abort_denied c result =
     (let status = HTTPDecisionStatus result;
          reason = TrimSpace (cr_Reason result);
          reason = (if reason = [] then DefaultReasonForStatus status else reason)
      in Abort status reason c)"

text \<open>
  The middleware handles one request: \<open>check\<close> is \<open>CheckTenantQuota\<close> with the network as it answers
  this call, \<open>now\<close> the clock when the cache is consulted.
\<close>

definition SentinelMiddleware ::
    "(string \<Rightarrow> string) \<Rightarrow> (string \<Rightarrow> go_time option) \<Rightarrow> sentinel_config \<Rightarrow> sentinel_client option \<Rightarrow>
     quota_net \<Rightarrow> go_time \<Rightarrow> gin_ctx \<Rightarrow> decision_cache \<Rightarrow> mw_result \<times> decision_cache" where
  "SentinelMiddleware sha256_hex parse cfg client net now c cache =
     (case charged_token cfg c of
        None \<Rightarrow> (Next c, cache)
      | Some token \<Rightarrow>
          let key = quotaCacheKey sha256_hex token (sm_ServiceID cfg) (sm_Metric cfg)
          in case CheckTenantQuota net client token (sm_ServiceID cfg) (sm_Metric cfg) 1 of
               (_, Some err) \<Rightarrow>
                 (case cache_fallback now key 1 cache of
                    (Some cached, cache') \<Rightarrow>
                      let c = ApplyHeaders c cached
                      in (if cr_Allowed cached then Next c else abort_denied c cached, cache')
                  | (None, cache') \<Rightarrow>
                      if sm_FailOpen cfg then (Next c, cache')
                      else
                        let se = ServiceUnavailable now ''tenant quota service is unavailable'' []
                        in (Abort (se_HTTPStatus se) (se_Code se) c, cache'))
             | (result, None) \<Rightarrow>
                 let cache' = cache_store parse now key result cache;
                     c = ApplyHeaders c result
                 in (if cr_Allowed result then Next c else abort_denied c result, cache'))"

section \<open>The enforcer keeps the daily limit\<close>

text \<open>A request as the enforcer sees it: the two clock readings and the gin context.\<close>

type_synonym quota_request = "go_time \<times> go_time \<times> gin_ctx"

definition is_next :: "mw_result \<Rightarrow> bool" where
  "is_next r = (case r of Next _ \<Rightarrow> True | Abort _ _ _ \<Rightarrow> False)"

lemma is_next_simps [simp]: "is_next (Next c)" "\<not> is_next (Abort s e c)"
  by (simp_all add: is_next_def)

fun enforcer_step :: "quota_request \<Rightarrow> enforcer \<Rightarrow> bool \<times> enforcer" where
  "enforcer_step (now, seen, c) e = (let (r, e') = Enforcer_Middleware now seen c e in (is_next r, e'))"

fun request_of :: "string \<Rightarrow> quota_request \<Rightarrow> bool" where
  "request_of t (now, seen, c) = (extractTenantID c = t)"

text \<open>The requests of tenant \<open>t\<close> arrive on day \<open>d\<close> and fall under the daily limit \<open>l\<close>.\<close>

fun limited_request :: "quota_config \<Rightarrow> string \<Rightarrow> int \<Rightarrow> rat \<Rightarrow> quota_request \<Rightarrow> bool" where
  "limited_request cfg t d l (now, seen, c) =
     (extractTenantID c = t \<longrightarrow>
        day_of now = d \<and> map_of (resolveLimits cfg c) DefaultMetricAPICallsPerDay = Some l)"

definition quota_left :: "string \<Rightarrow> int \<Rightarrow> rat \<Rightarrow> enforcer \<Rightarrow> nat" where
  "quota_left t d l e =
     nat (\<lceil>l\<rceil> - counter_value (getOrCreateBucket e t d) DefaultMetricAPICallsPerDay)"

definition enforcing :: "quota_config \<Rightarrow> string \<Rightarrow> rat \<Rightarrow> enforcer \<Rightarrow> bool" where
  "enforcing cfg t l e = (en_cfg e = cfg \<and> qc_Enabled cfg \<and> t \<noteq> [] \<and> l \<le> 2 ^ 53)"

lemma bucket_put [simp]:
  "en_cfg (put_bucket e t b) = en_cfg e"
  "bk_day b = d \<Longrightarrow> getOrCreateBucket (put_bucket e t b) t d = b"
  "t' \<noteq> t \<Longrightarrow> getOrCreateBucket (put_bucket e t' b) t d = getOrCreateBucket e t d"
  by (simp_all add: put_bucket_def getOrCreateBucket_def)

lemma bucket_day [simp]: "bk_day (getOrCreateBucket e t d) = d"
  by (simp add: getOrCreateBucket_def split: option.splits)

lemma counter_value_simps [simp]:
  "counter_value (b\<lparr>bk_lastSeen := s\<rparr>) n = counter_value b n"
  "counter_value (b\<lparr>bk_counters := (bk_counters b')(n \<mapsto> v)\<rparr>) n = v"
  by (simp_all add: counter_value_def)

lemma below_limit: "of_int n \<ge> (l :: rat) \<longleftrightarrow> \<lceil>l\<rceil> \<le> n"
  by (simp add: ceiling_le_iff)

lemma enforcer_cfg [simp]: "en_cfg (snd (Enforcer_Middleware now seen c e)) = en_cfg e"
  by (simp add: Enforcer_Middleware_def Let_def split: option.splits)

lemma enforcer_other:
  "extractTenantID c \<noteq> t \<Longrightarrow>
   quota_left t d l (snd (Enforcer_Middleware now seen c e)) = quota_left t d l e"
  by (simp add: Enforcer_Middleware_def quota_left_def Let_def split: option.splits)

lemma enforcer_own:
  assumes "enforcing cfg t l e" and "limited_request cfg t d l (now, seen, c)" and "extractTenantID c = t"
  shows "is_next (fst (Enforcer_Middleware now seen c e)) \<longleftrightarrow> 0 < quota_left t d l e"
    and "quota_left t d l (snd (Enforcer_Middleware now seen c e)) = quota_left t d l e - 1"
proof -
  have l: "day_of now = d" "map_of (resolveLimits cfg c) DefaultMetricAPICallsPerDay = Some l"
    "resolveLimits cfg c \<noteq> []"
    using assms(2,3) by auto
  show "is_next (fst (Enforcer_Middleware now seen c e)) \<longleftrightarrow> 0 < quota_left t d l e"
    using assms(1,3) l
    by (simp add: Enforcer_Middleware_def enforcing_def quota_left_def below_limit Let_def)
  have "n < 2 ^ 53" if "\<not> \<lceil>l\<rceil> \<le> n" for n
  proof -
    have "\<lceil>l\<rceil> \<le> 2 ^ 53" using assms(1) by (simp add: enforcing_def)
    with that show ?thesis by linarith
  qed
  from this [of "counter_value (getOrCreateBucket e t d) DefaultMetricAPICallsPerDay"] show "quota_left t d l (snd (Enforcer_Middleware now seen c e)) = quota_left t d l e - 1"
    using assms(1,3) l
    by (auto simp: Enforcer_Middleware_def enforcing_def quota_left_def below_limit float_incr_def Let_def)
qed

interpretation enforcer_budget: budget enforcer_step "request_of t" "limited_request cfg t d l"
  "enforcing cfg t l" "quota_left t d l" for t cfg d l
proof
  fix s :: enforcer and e :: quota_request
  assume inv: "enforcing cfg t l s" and valid: "limited_request cfg t d l e"
  obtain now seen c where e: "e = (now, seen, c)" by (cases e)
  show "enforcing cfg t l (snd (enforcer_step e s))"
    using inv by (simp add: e enforcing_def split_beta)
  show "request_of t e \<Longrightarrow> fst (enforcer_step e s) \<longleftrightarrow> 0 < quota_left t d l s"
    "request_of t e \<Longrightarrow> quota_left t d l (snd (enforcer_step e s)) = quota_left t d l s - 1"
    using enforcer_own [OF inv, of d now seen c] valid by (simp_all add: e split_beta)
  show "\<not> request_of t e \<Longrightarrow> quota_left t d l (snd (enforcer_step e s)) = quota_left t d l s"
    using enforcer_other [of c t d l now seen s] by (simp add: e split_beta)
qed

section \<open>An outage of the control plane\<close>

type_synonym outage_request = "quota_net \<times> go_time \<times> gin_ctx"

fun sentinel_step ::
    "(string \<Rightarrow> string) \<Rightarrow> (string \<Rightarrow> go_time option) \<Rightarrow> sentinel_config \<Rightarrow> sentinel_client option \<Rightarrow>
     outage_request \<Rightarrow> decision_cache \<Rightarrow> bool \<times> decision_cache" where
  "sentinel_step sha256_hex parse cfg client (net, now, c) cache =
     (let (r, cache') = SentinelMiddleware sha256_hex parse cfg client net now c cache
      in (is_next r, cache'))"

fun charged_to :: "(string \<Rightarrow> string) \<Rightarrow> sentinel_config \<Rightarrow> string \<Rightarrow> outage_request \<Rightarrow> bool" where
  "charged_to sha256_hex cfg key (net, now, c) =
     (case charged_token cfg c of
        None \<Rightarrow> False
      | Some token \<Rightarrow> quotaCacheKey sha256_hex token (sm_ServiceID cfg) (sm_Metric cfg) = key)"

text \<open>The quota check of every request charged to \<open>key\<close> fails, before the cached decision expires.\<close>

fun unanswered ::
    "(string \<Rightarrow> string) \<Rightarrow> sentinel_config \<Rightarrow> sentinel_client option \<Rightarrow> string \<Rightarrow> go_time \<Rightarrow>
     outage_request \<Rightarrow> bool" where
  "unanswered sha256_hex cfg client key expires (net, now, c) =
     (case charged_token cfg c of
        None \<Rightarrow> True
      | Some token \<Rightarrow>
          quotaCacheKey sha256_hex token (sm_ServiceID cfg) (sm_Metric cfg) = key \<longrightarrow>
          now \<le> expires \<and>
          snd (CheckTenantQuota net client token (sm_ServiceID cfg) (sm_Metric cfg) 1) \<noteq> None)"

definition remembers :: "string \<Rightarrow> go_time \<Rightarrow> decision_cache \<Rightarrow> bool" where
  "remembers key expires cache =
     (0 < dc_ttl cache \<and> TrimSpace key \<noteq> [] \<and>
      (case dc_set cache key of
         None \<Rightarrow> False
       | Some entry \<Rightarrow>
           cd_expiresAt entry = expires \<and>
           (cr_Allowed (cd_result entry) \<longrightarrow>
              (case cr_Remaining (cd_result entry) of None \<Rightarrow> False | Some r \<Rightarrow> int64_range r))))"

definition cached_left :: "string \<Rightarrow> decision_cache \<Rightarrow> nat" where
  "cached_left key cache =
     (case dc_set cache key of
        None \<Rightarrow> 0
      | Some entry \<Rightarrow>
          if cr_Allowed (cd_result entry)
          then (case cr_Remaining (cd_result entry) of None \<Rightarrow> 0 | Some r \<Rightarrow> nat r) else 0)"

lemma clone_simps [simp]:
  "cr_Allowed (cloneCheckResponse r) = cr_Allowed r"
  "cr_Remaining (cloneCheckResponse r) = cr_Remaining r"
  "cr_StatusCode (cloneCheckResponse r) = cr_StatusCode r"
  by (simp_all add: cloneCheckResponse_def)

lemma set_result_simps [simp]:
  "dc_ttl (set_result c key entry r) = dc_ttl c"
  "dc_set (set_result c key entry r) = (dc_set c)(key \<mapsto> entry\<lparr>cd_result := cloneCheckResponse r\<rparr>)"
  by (simp_all add: set_result_def)

lemma cache_other_key:
  "key' \<noteq> key \<Longrightarrow> dc_set (snd (cache_fallback now key' n c)) key = dc_set c key"
  "key' \<noteq> key \<Longrightarrow> dc_set (cache_store parse now key' r c) key = dc_set c key"
  "dc_ttl (snd (cache_fallback now key' n c)) = dc_ttl c"
  "dc_ttl (cache_store parse now key' r c) = dc_ttl c"
  by (simp_all add: cache_fallback_def cache_store_def Let_def split: option.splits)

lemma fallback_spends:
  assumes "remembers key expires c" and "now \<le> expires"
  shows "\<exists>r. fst (cache_fallback now key 1 c) = Some r \<and> (cr_Allowed r \<longleftrightarrow> 0 < cached_left key c)"
    and "remembers key expires (snd (cache_fallback now key 1 c))"
    and "cached_left key (snd (cache_fallback now key 1 c)) = cached_left key c - 1"
proof -
  from assms(1) obtain entry where e: "0 < dc_ttl c" "TrimSpace key \<noteq> []" "dc_set c key = Some entry"
    "cd_expiresAt entry = expires"
    and r: "cr_Allowed (cd_result entry) \<Longrightarrow> \<exists>r. cr_Remaining (cd_result entry) = Some r \<and> int64_range r"
    by (auto simp: remembers_def split: option.splits)
  have "int64_range (n - 1)" if "int64_range n" "\<not> n < 1" for n
    using that by (simp add: int64_range_def)
  with e r assms(2)
  show "\<exists>r. fst (cache_fallback now key 1 c) = Some r \<and> (cr_Allowed r \<longleftrightarrow> 0 < cached_left key c)"
    "remembers key expires (snd (cache_fallback now key 1 c))"
    "cached_left key (snd (cache_fallback now key 1 c)) = cached_left key c - 1"
    by (auto simp: cache_fallback_def cached_left_def remembers_def Let_def split: option.splits)
qed

lemma sentinel_own:
  assumes "remembers key expires cache" and "unanswered sha cfg client key expires (net, now, c)"
    and "charged_to sha cfg key (net, now, c)"
  shows "is_next (fst (SentinelMiddleware sha parse cfg client net now c cache)) \<longleftrightarrow> 0 < cached_left key cache"
    and "remembers key expires (snd (SentinelMiddleware sha parse cfg client net now c cache))"
    and "cached_left key (snd (SentinelMiddleware sha parse cfg client net now c cache)) =
      cached_left key cache - 1"
proof -
  from assms(3) obtain token where t: "charged_token cfg c = Some token"
    "quotaCacheKey sha token (sm_ServiceID cfg) (sm_Metric cfg) = key"
    by (auto split: option.splits)
  with assms(2) obtain res err where chk:
    "CheckTenantQuota net client token (sm_ServiceID cfg) (sm_Metric cfg) 1 = (res, Some err)"
    and now: "now \<le> expires"
    by (cases "CheckTenantQuota net client token (sm_ServiceID cfg) (sm_Metric cfg) 1") auto
  obtain r cache' where fb: "cache_fallback now key 1 cache = (Some r, cache')"
    "cr_Allowed r \<longleftrightarrow> 0 < cached_left key cache" "remembers key expires cache'"
    "cached_left key cache' = cached_left key cache - 1"
    using fallback_spends [OF assms(1) now] by (metis prod.collapse)
  show "is_next (fst (SentinelMiddleware sha parse cfg client net now c cache)) \<longleftrightarrow> 0 < cached_left key cache"
    "remembers key expires (snd (SentinelMiddleware sha parse cfg client net now c cache))"
    "cached_left key (snd (SentinelMiddleware sha parse cfg client net now c cache)) =
      cached_left key cache - 1"
    using t chk fb by (simp_all add: SentinelMiddleware_def abort_denied_def Let_def)
qed

lemma sentinel_cache:
  "snd (SentinelMiddleware sha parse cfg client net now c cache) =
     (case charged_token cfg c of
        None \<Rightarrow> cache
      | Some token \<Rightarrow>
          let key = quotaCacheKey sha token (sm_ServiceID cfg) (sm_Metric cfg);
              (result, err) = CheckTenantQuota net client token (sm_ServiceID cfg) (sm_Metric cfg) 1
          in if err = None then cache_store parse now key result cache
             else snd (cache_fallback now key 1 cache))"
  by (auto simp: SentinelMiddleware_def Let_def split: option.splits prod.splits)

lemma sentinel_other:
  assumes "\<not> charged_to sha cfg key (net, now, c)"
  shows "dc_set (snd (SentinelMiddleware sha parse cfg client net now c cache)) key = dc_set cache key"
    and "dc_ttl (snd (SentinelMiddleware sha parse cfg client net now c cache)) = dc_ttl cache"
  using assms
  by (simp_all add: sentinel_cache cache_other_key Let_def split: option.splits prod.splits)

interpretation outage_budget: budget "sentinel_step sha parse cfg client" "charged_to sha cfg key"
  "unanswered sha cfg client key expires" "remembers key expires" "cached_left key"
  for sha parse cfg client key expires
proof
  fix s :: decision_cache and e :: outage_request
  assume inv: "remembers key expires s" and valid: "unanswered sha cfg client key expires e"
  obtain net now c where e: "e = (net, now, c)" by (cases e)
  note own = sentinel_own [OF inv, of sha cfg client net now c parse]
    and other = sentinel_other [of sha cfg key net now c parse client s]
  show "remembers key expires (snd (sentinel_step sha parse cfg client e s))"
    using inv valid own other by (cases "charged_to sha cfg key e") (simp_all add: e split_beta remembers_def)
  show "charged_to sha cfg key e \<Longrightarrow> fst (sentinel_step sha parse cfg client e s) \<longleftrightarrow> 0 < cached_left key s"
    "charged_to sha cfg key e \<Longrightarrow>
      cached_left key (snd (sentinel_step sha parse cfg client e s)) = cached_left key s - 1"
    using valid own by (simp_all add: e split_beta)
  show "\<not> charged_to sha cfg key e \<Longrightarrow>
      cached_left key (snd (sentinel_step sha parse cfg client e s)) = cached_left key s"
    using other by (simp add: e split_beta cached_left_def)
qed

lemma stopped_cleanup:
  "enforcer_Stop cl = Some cl' \<Longrightarrow> cleanupLoop now cl' = cl' \<and> enforcer_Stop cl' = None"
  by (auto simp: enforcer_Stop_def cleanupLoop_def split: if_splits)

section \<open>Properties\<close>

lemma tenant_setters_keys [simp]:
  "gc_keys (SetTenantID c t) = gc_keys c" "gc_keys (SetUserID c u) = gc_keys c"
  by (simp_all add: SetTenantID_def SetUserID_def Let_def)

lemma resolve_scope_keys:
  "ResolveTenantUserScope c et eu cfg = Inr (t, u, c') \<Longrightarrow> gc_keys c' = gc_keys c"
  by (auto simp: ResolveTenantUserScope_def resolve_user_token_scope_def Let_def
      split: option.splits sum.splits if_splits)

lemma access_keys: "TenantAccessMiddleware cfg c = Next c' \<Longrightarrow> gc_keys c' = gc_keys c"
  by (auto simp: TenantAccessMiddleware_def dest: resolve_scope_keys
      split: option.splits sum.splits prod.splits if_splits)

text \<open>
  C34. The daily quota is exact: among any requests, of this tenant and of others, that arrive on one
  day with no cleanup between them, the enforcer accepts of the tenant's requests the first
  \<open>\<lceil>limit\<rceil>\<close> and no more, whatever the others do.
\<close>

theorem quota_daily_limit:
  assumes "qc_Enabled (en_cfg e)" and "t \<noteq> []" and "l \<le> 2 ^ 53"
    and "\<forall>r\<in>set rs. limited_request (en_cfg e) t d l r"
    and "\<forall>b. en_buckets e t = Some b \<longrightarrow> bk_day b \<noteq> d"
  shows "accepted enforcer_step (request_of t) rs e = min (length (filter (request_of t) rs)) (nat \<lceil>l\<rceil>)"
proof -
  have "enforcing (en_cfg e) t l e" using assms by (simp add: enforcing_def)
  moreover have "quota_left t d l e = nat \<lceil>l\<rceil>"
    using assms(5) by (simp add: quota_left_def getOrCreateBucket_def counter_value_def split: option.splits)
  ultimately show ?thesis using enforcer_budget.accepted_eq_min assms(4) by metis
qed

definition quota_ctx :: "string \<Rightarrow> gin_ctx" where
  "quota_ctx t = demo_request\<lparr>gc_keys := [''tenant_id'' \<mapsto> AString t]\<rparr>"

definition small_quota :: quota_config where
  "small_quota = quota_DefaultConfig\<lparr>qc_DefaultLimits := [(''api_calls_per_day'', 1)]\<rparr>"

theorem quota_daily_limit_witness:
  "accepted enforcer_step (request_of ''t1'')
     [(0, 0, quota_ctx ''t1''), (1, 1, quota_ctx ''t2''), (2, 2, quota_ctx ''t1'')] (quota_New small_quota) = 1"
proof -
  let ?rs = "[(0, 0, quota_ctx ''t1''), (1, 1, quota_ctx ''t2''), (2, 2, quota_ctx ''t1'')]"
  have cfg: "en_cfg (quota_New small_quota) = small_quota"
    by (simp add: quota_New_def small_quota_def quota_DefaultConfig_def duration_defs)
  have "\<forall>r\<in>set ?rs. limited_request (en_cfg (quota_New small_quota)) ''t1'' 0 1 r"
    unfolding cfg by (simp add: small_quota_def quota_DefaultConfig_def resolveLimits_def
        DefaultMetricAPICallsPerDay_def day_of_def duration_defs)
  moreover have "qc_Enabled (en_cfg (quota_New small_quota))"
    unfolding cfg by (simp add: small_quota_def quota_DefaultConfig_def)
  ultimately show ?thesis
    using quota_daily_limit [of "quota_New small_quota" "''t1''" 1 ?rs 0]
    by (simp add: quota_New_def extractTenantID_def quota_ctx_def demo_request_def)
qed

text \<open>
  The enforcer does not see the tenant that the other middlewares resolve: it reads the gin keys
  \<open>tenant_id\<close> and \<open>claims_raw\<close>, while \<open>TenantAccessMiddleware\<close> stores the tenant under another key and
  nothing stores those two. Unless the application sets one of them itself, every request that passed
  the access check is let through uncounted.
\<close>

lemma quota_blind_to_resolved_tenant:
  assumes "TenantAccessMiddleware cfg c = Next c'"
    and "gc_keys c ''tenant_id'' = None" and "gc_keys c ''claims_raw'' = None"
  shows "Enforcer_Middleware now seen c' e = (Next c', e)"
  using access_keys [OF assms(1)] assms(2,3) by (simp add: Enforcer_Middleware_def extractTenantID_def)

lemma quota_blind_to_resolved_tenant_witness:
  "\<exists>c'. TenantAccessMiddleware (DefaultTenantAccessConfig\<lparr>ta_EnforceTenantStatus := False\<rparr>) demo_request = Next c' \<and>
     GetTenantID c' = Some ''t1'' \<and>
     Enforcer_Middleware 0 0 c' (quota_New quota_DefaultConfig) = (Next c', quota_New quota_DefaultConfig)"
proof -
  let ?cfg = "DefaultTenantAccessConfig\<lparr>ta_EnforceTenantStatus := False\<rparr>"
  have "\<exists>c'. TenantAccessMiddleware ?cfg demo_request = Next c' \<and> GetTenantID c' = Some ''t1''"
    by (simp add: TenantAccessMiddleware_def ResolveTenantUserScope_def GetClaims_def demo_request_def
        DefaultTenantAccessConfig_def mergeRequestedScope_def ptrString_def requestedScopeValue_def
        resolve_user_token_scope_def demo_claims_simps isBlockedTenantAccessStatus_def strPtr_def
        SetTenantID_def SetUserID_def GetTenantID_def plain_char_code Let_def)
  then obtain c' where c': "TenantAccessMiddleware ?cfg demo_request = Next c'" "GetTenantID c' = Some ''t1''"
    by blast
  then show ?thesis
    using quota_blind_to_resolved_tenant [OF c'(1)] by (simp add: demo_request_def)
qed

text \<open>
  The cleanup forgets more than idle tenants: a tick deletes the bucket of a tenant that was not
  seen for twice the cleanup interval even if the bucket counts the current day, and the tenant
  starts the same day again with the full limit.
\<close>

lemma quota_cleanup_resets_day:
  assumes "en_buckets e t = Some b" and "bk_day b = d"
    and "0 < qc_CleanupInterval (en_cfg e)" and "qc_CleanupInterval (en_cfg e) \<le> 2 ^ 62"
    and "bk_lastSeen b < now - 2 * qc_CleanupInterval (en_cfg e)"
  shows "quota_left t d l (cleanup_tick now e) = nat \<lceil>l\<rceil>"
proof -
  have "wrap64 (- 2 * qc_CleanupInterval (en_cfg e)) = - 2 * qc_CleanupInterval (en_cfg e)"
    by (rule wrap64_id) (use assms(3,4) in \<open>simp add: int64_range_def\<close>)
  then have "en_buckets (cleanup_tick now e) t = None"
    using assms(1,5) by (simp add: cleanup_tick_def Let_def)
  then show ?thesis by (simp add: quota_left_def getOrCreateBucket_def counter_value_def)
qed

text \<open>With the default settings a tenant that used up its quota has it back 21 minutes later.\<close>

lemma quota_cleanup_resets_day_witness:
  "let b = \<lparr>bk_counters = [''api_calls_per_day'' \<mapsto> 10000], bk_day = 0, bk_lastSeen = 0\<rparr>;
       e = (quota_New quota_DefaultConfig)\<lparr>en_buckets := [''t1'' \<mapsto> b]\<rparr>
   in quota_left ''t1'' 0 10000 e = 0 \<and> quota_left ''t1'' 0 10000 (cleanup_tick (21 * Minute) e) = 10000"
proof -
  let ?b = "\<lparr>bk_counters = [''api_calls_per_day'' \<mapsto> 10000], bk_day = 0, bk_lastSeen = 0\<rparr>"
  let ?e = "(quota_New quota_DefaultConfig)\<lparr>en_buckets := [''t1'' \<mapsto> ?b]\<rparr>"
  have "quota_left ''t1'' 0 10000 (cleanup_tick (21 * Minute) ?e) = nat \<lceil>10000 :: rat\<rceil>"
    by (rule quota_cleanup_resets_day [of _ _ ?b])
       (simp_all add: quota_New_def quota_DefaultConfig_def duration_defs)
  then show ?thesis
    by (simp add: quota_left_def getOrCreateBucket_def counter_value_def DefaultMetricAPICallsPerDay_def)
qed

text \<open>The decision the cache can still answer with.\<close>

definition live_decision :: "go_time \<Rightarrow> string \<Rightarrow> decision_cache \<Rightarrow> check_response option" where
  "live_decision now key cache =
     (if dc_ttl cache \<le> 0 \<or> TrimSpace key = [] then None
      else case dc_set cache key of
             None \<Rightarrow> None
           | Some entry \<Rightarrow> if now \<le> cd_expiresAt entry then Some (cd_result entry) else None)"

definition has_budget :: "check_response \<Rightarrow> bool" where
  "has_budget r = (cr_Allowed r \<and> (case cr_Remaining r of None \<Rightarrow> True | Some n \<Rightarrow> 1 \<le> n))"

lemma fallback_allows:
  "case cache_fallback now key 1 cache of
     (None, c') \<Rightarrow> live_decision now key cache = None
   | (Some r, c') \<Rightarrow> (\<exists>d. live_decision now key cache = Some d \<and> (cr_Allowed r \<longleftrightarrow> has_budget d))"
  by (simp add: cache_fallback_def live_decision_def has_budget_def Let_def split: option.splits)

text \<open>
  The quota gate: a request that is charged to a tenant's token passes exactly when the control
  plane allows it; if the control plane gives no answer, exactly when a cached decision that has not
  expired allows it and has budget left, and without one only if failing open is configured.
\<close>

lemma sentinel_decision:
  "is_next (fst (SentinelMiddleware sha parse cfg client net now c cache)) \<longleftrightarrow>
     (case charged_token cfg c of
        None \<Rightarrow> True
      | Some token \<Rightarrow>
          (case CheckTenantQuota net client token (sm_ServiceID cfg) (sm_Metric cfg) 1 of
             (result, None) \<Rightarrow> cr_Allowed result
           | (_, Some err) \<Rightarrow>
               (case live_decision now (quotaCacheKey sha token (sm_ServiceID cfg) (sm_Metric cfg)) cache of
                  None \<Rightarrow> sm_FailOpen cfg
                | Some d \<Rightarrow> has_budget d)))"
proof (cases "charged_token cfg c")
  case None
  then show ?thesis by (simp add: SentinelMiddleware_def)
next
  case (Some token)
  let ?key = "quotaCacheKey sha token (sm_ServiceID cfg) (sm_Metric cfg)"
  from Some fallback_allows [of now ?key cache] show ?thesis
    by (auto simp: SentinelMiddleware_def abort_denied_def Let_def split: option.splits prod.splits)
qed


definition demo_sentinel :: sentinel_config where
  "demo_sentinel = \<lparr>sm_Enabled = True, sm_ServiceID = ''svc'', sm_Metric = ''m'', sm_FailOpen = False,
     sm_CacheTTL = 60 * Second\<rparr>"

definition bearer_request :: gin_ctx where
  "bearer_request = demo_request\<lparr>gc_Authorization := ''Bearer tok''\<rparr>"

definition demo_cache :: decision_cache where
  "demo_cache = cache_store (\<lambda>_. None) 0 ''tok|svc|m'' (zero_response\<lparr>cr_Allowed := True, cr_Remaining := Some 1\<rparr>)
     (newDecisionCache (60 * Second))"

lemma demo_sentinel_sel: "sm_ServiceID demo_sentinel = ''svc''" "sm_Metric demo_sentinel = ''m''"
  by (simp_all add: demo_sentinel_def)

lemma demo_charged: "charged_token demo_sentinel bearer_request = Some ''tok''"
proof -
  have "ExtractBearerToken ''Bearer tok'' = Inr ''tok''"
    by (simp add: ExtractBearerToken_def bearer_prefix_def EqualFold_def ToLower_def to_lower_char_def
        plain_char_code Let_def)
  then show ?thesis
    by (simp add: charged_token_def demo_sentinel_def bearer_request_def demo_request_def GetClaims_def
        demo_claims_simps plain_char_code)
       (simp add: demo_claims_def EqualFold_def ToLower_def to_lower_char_def plain_char_code)
qed


text \<open>
  A denial that the control plane reports with status 200 is answered to the caller with status
  200: the decision status is always the status of the control plane's response, so the mapping of
  reasons to 429 and 403 is never used for it.
\<close>

lemma sentinel_denial_keeps_status:
  assumes "charged_token cfg c = Some token" and "TrimSpace (sc_baseURL cl) \<noteq> []"
    and "sc_initErr cl = None" and "sc_hasClient cl"
    and "\<forall>rq. \<exists>body. qn_encode net rq = Inr body" and "\<forall>u b. qn_newRequest net u b = None"
    and "\<forall>u b. qn_do net u b = Inr (200, text)" and "qn_decode net text = Decoded r" and "\<not> cr_Allowed r"
  shows "\<exists>reason c'. fst (SentinelMiddleware sha parse cfg (Some cl) net now c cache) = Abort 200 reason c'"
proof -
  have "CheckTenantQuota net (Some cl) token (sm_ServiceID cfg) (sm_Metric cfg) 1 =
      (r\<lparr>cr_StatusCode := 200\<rparr>, None)"
  proof -
    obtain body where "qn_encode net \<lparr>cq_Token = TrimSpace token, cq_ServiceID = TrimSpace (sm_ServiceID cfg),
        cq_Metric = TrimSpace (sm_Metric cfg), cq_Delta = 1\<rparr> = Inr body"
      using assms(5) by blast
    with assms show ?thesis by (simp add: CheckTenantQuota_def Let_def)
  qed
  with assms(1,9) show ?thesis
    by (simp add: SentinelMiddleware_def abort_denied_def HTTPDecisionStatus_def Let_def)
qed

lemma sentinel_denial_keeps_status_witness:
  "\<exists>net reason c'. fst (SentinelMiddleware id (\<lambda>_. None) demo_sentinel
      (Some \<lparr>sc_baseURL = ''http://cp'', sc_initErr = None, sc_hasClient = True\<rparr>) net 0 bearer_request
      (newDecisionCache 0)) = Abort 200 reason c'"
proof -
  define net :: quota_net where
    "net = \<lparr>qn_encode = \<lambda>_. Inr [], qn_newRequest = \<lambda>_ _. None, qn_do = \<lambda>_ _. Inr (200, ''{}''),
       qn_decode = \<lambda>_. Decoded (zero_response\<lparr>cr_Reason := ''quota_exceeded''\<rparr>)\<rparr>"
  let ?cl = "\<lparr>sc_baseURL = ''http://cp'', sc_initErr = None, sc_hasClient = True\<rparr>"
  have "TrimSpace ''http://cp'' \<noteq> []" by (simp add: plain_char_code)
  then have "\<exists>reason c'. fst (SentinelMiddleware id (\<lambda>_. None) demo_sentinel (Some ?cl) net 0 bearer_request
      (newDecisionCache 0)) = Abort 200 reason c'"
    by (intro sentinel_denial_keeps_status [OF demo_charged, of ?cl net "''{}''"
          "zero_response\<lparr>cr_Reason := ''quota_exceeded''\<rparr>"])
       (simp_all add: net_def zero_response_def)
  then show ?thesis by blast
qed

end
