(* ===== verification/Permissions.thy ===== *)
theory Permissions
  imports Auth_Jwt
begin

text \<open>
  The permission catalogue and store of \<open>pkg/permissions\<close>: codes and catalogues (\<open>catalog.go\<close>,
  \<open>converter.go\<close>), the store that maps codes to bits (\<open>store.go\<close>), and the synchronisation with the
  control plane at start-up (\<open>bootstrap.go\<close>, \<open>loader.go\<close>, \<open>models.go\<close>). The HTTP client is a record of
  functions on the state \<open>'w\<close> of the outside world. Maps that are iterated are association lists in
  the order of iteration.
\<close>

section \<open>catalog.go, converter.go\<close>

record reference =
  rf_Service :: string
  rf_Category :: string
  rf_Action :: string

record perm_definition =
  pd_Reference :: reference
  pd_Name :: string
  pd_Description :: string

record catalog =
  ct_definitions :: "perm_definition list"
  ct_byName :: "string \<rightharpoonup> perm_definition"
  ct_byCode :: "string \<rightharpoonup> perm_definition"

definition perm_normalize :: "string \<Rightarrow> string" where
  "perm_normalize s = ToLower (filter (\<lambda>c. c \<noteq> CHR '' '') (TrimSpace s))"

definition GenerateCode :: "string \<Rightarrow> string \<Rightarrow> string \<Rightarrow> string" where
  "GenerateCode service category action =
     perm_normalize service @ ''-'' @ perm_normalize category @ ''-'' @ perm_normalize action"

definition ref_Code :: "reference \<Rightarrow> string" where
  "ref_Code r = GenerateCode (rf_Service r) (rf_Category r) (rf_Action r)"

text \<open>The loop writes both indexes; a later definition replaces an earlier one of the same name or code.\<close>

definition NewCatalog :: "perm_definition list \<Rightarrow> catalog" where
  "NewCatalog definitions =
     fold (\<lambda>def c. c\<lparr>ct_byName := (ct_byName c)(pd_Name def \<mapsto> def),
                     ct_byCode := (ct_byCode c)(ref_Code (pd_Reference def) \<mapsto> def)\<rparr>)
       definitions \<lparr>ct_definitions = definitions, ct_byName = Map.empty, ct_byCode = Map.empty\<rparr>"

definition ByName :: "catalog \<Rightarrow> string \<Rightarrow> perm_definition option" where
  "ByName c name = ct_byName c name"

definition ByCode :: "catalog \<Rightarrow> string \<Rightarrow> perm_definition option" where
  "ByCode c code = ct_byCode c code"

definition catalog_Codes :: "catalog \<Rightarrow> string list" where
  "catalog_Codes c = map (\<lambda>def. ref_Code (pd_Reference def)) (ct_definitions c)"

text \<open>A \<open>PermissionSource\<close> is what its five getters return.\<close>

record perm_source =
  ps_GetName :: string
  ps_GetDescription :: string
  ps_GetService :: string
  ps_GetCategory :: string
  ps_GetAction :: string

definition source_definition :: "perm_source \<Rightarrow> perm_definition" where
  "source_definition s =
     \<lparr>pd_Reference = \<lparr>rf_Service = ps_GetService s, rf_Category = ps_GetCategory s, rf_Action = ps_GetAction s\<rparr>,
      pd_Name = ps_GetName s, pd_Description = ps_GetDescription s\<rparr>"

definition FromSlice :: "perm_source list \<Rightarrow> catalog" where
  "FromSlice sources = NewCatalog (map source_definition sources)"

definition FromSource :: "(string \<times> perm_source) list \<Rightarrow> catalog" where
  "FromSource sources = NewCatalog (map (\<lambda>(k, s). source_definition s) sources)"

section \<open>store.go\<close>

type_synonym perm_map = "(string \<times> perm_metadata) list"

record 'w perm_store =
  pt_byCode :: perm_map
  pt_loader :: "('w \<Rightarrow> (go_error + perm_map) \<times> 'w) option"

definition perm_NewStore :: "('w \<Rightarrow> (go_error + perm_map) \<times> 'w) option \<Rightarrow> 'w perm_store" where
  "perm_NewStore loader = \<lparr>pt_byCode = [], pt_loader = loader\<rparr>"

definition SetLoader :: "('w \<Rightarrow> (go_error + perm_map) \<times> 'w) option \<Rightarrow> 'w perm_store \<Rightarrow> 'w perm_store" where
  "SetLoader loader s = s\<lparr>pt_loader := loader\<rparr>"

fun replace_loop :: "perm_map \<Rightarrow> perm_map \<Rightarrow> perm_map" where
  "replace_loop [] updated = updated"
| "replace_loop ((code, md) # perms) updated =
     (let trimmed = TrimSpace code
      in replace_loop perms (if trimmed = [] then updated else AList.update trimmed md updated))"

definition perm_Replace :: "perm_map \<Rightarrow> 'w perm_store \<Rightarrow> 'w perm_store" where
  "perm_Replace perms s =
     (if length perms = 0 then s\<lparr>pt_byCode := []\<rparr> else s\<lparr>pt_byCode := replace_loop perms []\<rparr>)"

definition perm_Lookup :: "'w perm_store \<Rightarrow> string \<Rightarrow> perm_metadata option" where
  "perm_Lookup s code =
     (let trimmed = TrimSpace code in if trimmed = [] then None else map_of (pt_byCode s) trimmed)"

definition ListByService :: "'w perm_store \<Rightarrow> string \<Rightarrow> perm_metadata list" where
  "ListByService s service =
     (let normalized = TrimSpace service
      in if normalized = [] then []
         else filter (\<lambda>md. EqualFold (pm_Service md) normalized) (map snd (pt_byCode s)))"

definition perm_Snapshot :: "'w perm_store \<Rightarrow> perm_map" where
  "perm_Snapshot s = pt_byCode s"

definition perm_Count :: "'w perm_store \<Rightarrow> int" where
  "perm_Count s = int (length (pt_byCode s))"

definition perm_Load :: "'w \<Rightarrow> 'w perm_store \<Rightarrow> (go_error + perm_map) \<times> 'w \<times> 'w perm_store" where
  "perm_Load w s =
     (case pt_loader s of
        None \<Rightarrow> (Err (EPlain ''permission loader not configured''), w, s)
      | Some loader \<Rightarrow>
          (case loader w of
             (Inl err, w) \<Rightarrow> (Err err, w, s)
           | (Inr data, w) \<Rightarrow> let s = perm_Replace data s in (Ok (perm_Snapshot s), w, s)))"

section \<open>models.go, bootstrap.go, loader.go\<close>

record create_request =
  rc_Name :: string
  rc_Service :: string
  rc_Category :: string
  rc_Action :: string
  rc_FeatureFlags :: "string list"
  rc_Description :: string

record catalog_entry =
  ce_ID :: string
  ce_Name :: string
  ce_Description :: string
  ce_Category :: string
  ce_Action :: string
  ce_Code :: string
  ce_BitValue :: int
  ce_FeatureFlags :: "string list"

record group_entry =
  ge_ID :: string
  ge_Name :: string
  ge_Description :: string
  ge_Category :: string
  ge_Code :: string
  ge_CategoryCode :: string
  ge_Bitmask :: int
  ge_PermissionIDs :: "string list"

record service_catalog =
  sg_Permissions :: "(string \<times> catalog_entry) list"
  sg_Groups :: "(string \<times> group_entry) list"

record catalog_response =
  cg_Services :: "(string \<times> service_catalog) list"

record 'w perm_client =
  pc_PostJSON :: "'w \<Rightarrow> string \<Rightarrow> create_request list \<Rightarrow> go_error option \<times> 'w"
  pc_GetJSON :: "'w \<Rightarrow> string \<Rightarrow> (go_error + catalog_response) \<times> 'w"

definition api_Valid :: "string \<Rightarrow> bool" where
  "api_Valid baseURL = (TrimSpace baseURL \<noteq> [])"

definition PermissionBulkURL :: "string \<Rightarrow> string" where
  "PermissionBulkURL baseURL = baseURL @ ''/api/v1/permissions/bulk''"

definition PermissionCatalogURL :: "string \<Rightarrow> string" where
  "PermissionCatalogURL baseURL = baseURL @ ''/api/v1/permissions/bitmask''"

text \<open>The two nested loops that turn the response into \<open>metadata[code] = ...\<close>.\<close>

fun add_entries :: "string \<Rightarrow> (string \<times> catalog_entry) list \<Rightarrow> perm_map \<Rightarrow> perm_map" where
  "add_entries service [] metadata = metadata"
| "add_entries service ((code, perm) # ps) metadata =
     add_entries service ps
       (AList.update code \<lparr>pm_ID = ce_ID perm, pm_Service = service, pm_BitValue = ce_BitValue perm\<rparr> metadata)"

fun add_services :: "(string \<times> service_catalog) list \<Rightarrow> perm_map \<Rightarrow> perm_map" where
  "add_services [] metadata = metadata"
| "add_services ((service, sc) # scs) metadata =
     add_services scs (add_entries service (sg_Permissions sc) metadata)"

definition ensurePermissions ::
    "'w perm_client \<Rightarrow> catalog \<Rightarrow> string \<Rightarrow> 'w \<Rightarrow> go_error option \<times> 'w" where
  "ensurePermissions client ct baseURL w =
     (let requests = map (\<lambda>def. \<lparr>rc_Name = pd_Name def, rc_Service = rf_Service (pd_Reference def),
            rc_Category = rf_Category (pd_Reference def), rc_Action = rf_Action (pd_Reference def),
            rc_FeatureFlags = [], rc_Description = pd_Description def\<rparr>) (ct_definitions ct)
      in case pc_PostJSON client w (PermissionBulkURL baseURL) requests of
           (Some err, w) \<Rightarrow>
             (Some (EFmt (''failed to create permissions in sentinel service: '' @ Error err) err), w)
         | (None, w) \<Rightarrow> (None, w))"

definition loadPermissions ::
    "'w perm_client \<Rightarrow> string \<Rightarrow> 'w \<Rightarrow> 'v perm_store \<Rightarrow> go_error option \<times> 'w \<times> 'v perm_store" where
  "loadPermissions client baseURL w store =
     (case pc_GetJSON client w (PermissionCatalogURL baseURL) of
        (Inl err, w) \<Rightarrow> (Some (EFmt (''failed to fetch permission catalog: '' @ Error err) err), w, store)
      | (Inr resp, w) \<Rightarrow> (None, w, perm_Replace (add_services (cg_Services resp) []) store))"

text \<open>
  \<open>baseURL\<close> is what \<open>controlplane.APIFromConfig\<close> finds and \<open>newClient\<close> what \<open>NewClientWithServiceToken\<close>
  returns; configuration, logger and catalogue may be nil.
\<close>

definition Bootstrap ::
    "bool \<Rightarrow> bool \<Rightarrow> catalog option \<Rightarrow> string \<Rightarrow> (go_error + 'w perm_client) \<Rightarrow> 'w \<Rightarrow> 'v perm_store option \<Rightarrow>
     go_error option \<times> 'w \<times> 'v perm_store option" where
  "Bootstrap has_cfg has_log ct baseURL newClient w store =
     (if \<not> has_cfg then (Some (EPlain ''config not configured''), w, store)
      else if \<not> has_log then (Some (EPlain ''logger not configured''), w, store)
      else case ct of
        None \<Rightarrow> (Some (EPlain ''permission catalog not configured''), w, store)
      | Some cat \<Rightarrow>
          if \<not> api_Valid baseURL
          then (Some (EPlain ''PlatformControlPlaneEndpoint or SentinelServiceEndpoint not configured''), w, store)
          else case newClient of
            Inl err \<Rightarrow>
              (Some (EFmt (''failed to create HTTP client with token provider: '' @ Error err) err), w, store)
          | Inr client \<Rightarrow>
              (case ensurePermissions client cat baseURL w of
                 (Some err, w) \<Rightarrow> (Some (EFmt (''failed to ensure permissions: '' @ Error err) err), w, store)
               | (None, w) \<Rightarrow>
                   (case store of
                      None \<Rightarrow> (None, w, None)
                    | Some s \<Rightarrow>
                        (case loadPermissions client baseURL w s of
                           (Some err, w, s) \<Rightarrow>
                             (Some (EFmt (''failed to load permissions: '' @ Error err) err), w, Some s)
                         | (None, w, s) \<Rightarrow> (None, w, Some s)))))"

definition LoaderFromHTTP ::
    "bool \<Rightarrow> bool \<Rightarrow> string \<Rightarrow> (go_error + 'w perm_client) \<Rightarrow> 'w \<Rightarrow> (go_error + perm_map) \<times> 'w" where
  "LoaderFromHTTP has_cfg has_log baseURL newClient w =
     (if \<not> has_cfg then (Err (EPlain ''config not configured''), w)
      else if \<not> has_log then (Err (EPlain ''logger not configured''), w)
      else if \<not> api_Valid baseURL
      then (Err (EPlain ''PlatformControlPlaneEndpoint or SentinelServiceEndpoint not configured''), w)
      else case newClient of
        Inl err \<Rightarrow> (Err (EFmt (''failed to create HTTP client with token provider: '' @ Error err) err), w)
      | Inr client \<Rightarrow>
          (case pc_GetJSON client w (PermissionCatalogURL baseURL) of
             (Inl err, w) \<Rightarrow> (Err (EFmt (''failed to fetch permission catalog: '' @ Error err) err), w)
           | (Inr resp, w) \<Rightarrow> (Ok (add_services (cg_Services resp) []), w)))"

section \<open>Lemmas\<close>

text \<open>What a catalogue response assigns: every code with its service and bit, service by service.\<close>

definition entries_of :: "string \<Rightarrow> (string \<times> catalog_entry) list \<Rightarrow> perm_map" where
  "entries_of service = map (\<lambda>(code, perm).
     (code, \<lparr>pm_ID = ce_ID perm, pm_Service = service, pm_BitValue = ce_BitValue perm\<rparr>))"

definition assigned :: "(string \<times> service_catalog) list \<Rightarrow> perm_map" where
  "assigned services = concat (map (\<lambda>(service, sc). entries_of service (sg_Permissions sc)) services)"

definition trimmed_codes :: "perm_map \<Rightarrow> string list" where
  "trimmed_codes perms = map (\<lambda>(code, md). TrimSpace code) perms"

lemma update_fresh: "k \<notin> fst ` set al \<Longrightarrow> AList.update k v al = al @ [(k, v)]"
  by (induction al) auto

lemma entries_of_codes [simp]:
  "map fst (entries_of service ps) = map fst ps" "fst ` set (entries_of service ps) = fst ` set ps"
proof -
  show *: "map fst (entries_of service ps) = map fst ps"
    by (simp add: entries_of_def split_beta comp_def)
  show "fst ` set (entries_of service ps) = fst ` set ps"
    using arg_cong [OF *, of set] by simp
qed

lemma add_entries_append:
  "distinct (map fst ps) \<Longrightarrow> fst ` set ps \<inter> fst ` set metadata = {} \<Longrightarrow>
   add_entries service ps metadata = metadata @ entries_of service ps"
  by (induction service ps metadata rule: add_entries.induct) (auto simp: update_fresh entries_of_def)

lemma assigned_Cons: "assigned ((service, sc) # scs) = entries_of service (sg_Permissions sc) @ assigned scs"
  by (simp add: assigned_def)

lemma add_services_append:
  "distinct (map fst (metadata @ assigned scs)) \<Longrightarrow> add_services scs metadata = metadata @ assigned scs"
proof (induction scs metadata rule: add_services.induct)
  case (1 metadata)
  then show ?case by (simp add: assigned_def)
next
  case (2 service sc scs metadata)
  have "add_entries service (sg_Permissions sc) metadata = metadata @ entries_of service (sg_Permissions sc)"
    using "2.prems" by (intro add_entries_append) (auto simp: assigned_Cons)
  with 2 show ?case by (simp add: assigned_Cons)
qed

lemma replace_loop_append:
  "distinct (map fst updated @ trimmed_codes perms) \<Longrightarrow>
   replace_loop perms updated =
     updated @ map (\<lambda>(code, md). (TrimSpace code, md)) (filter (\<lambda>(code, md). TrimSpace code \<noteq> []) perms)"
  by (induction perms updated rule: replace_loop.induct) (auto simp: trimmed_codes_def update_fresh Let_def)

lemma perm_Lookup_Replace:
  assumes "distinct (trimmed_codes perms)"
  shows "perm_Lookup (perm_Replace perms s) code = Some md \<longleftrightarrow>
    TrimSpace code \<noteq> [] \<and> (\<exists>code'. (code', md) \<in> set perms \<and> TrimSpace code' = TrimSpace code)"
proof -
  let ?kept = "map (\<lambda>(code, md). (TrimSpace code, md)) (filter (\<lambda>(code, md). TrimSpace code \<noteq> []) perms)"
  have store: "pt_byCode (perm_Replace perms s) = ?kept"
    using replace_loop_append [of "[]" perms] assms by (auto simp: perm_Replace_def)
  have "distinct (map fst ?kept)"
    using assms by (auto simp: trimmed_codes_def distinct_map inj_on_def)
  then have "map_of ?kept (TrimSpace code) = Some md \<longleftrightarrow> (TrimSpace code, md) \<in> set ?kept"
    by (rule map_of_eq_Some_iff)
  also have "\<dots> \<longleftrightarrow> TrimSpace code \<noteq> [] \<and> (\<exists>code'. (code', md) \<in> set perms \<and> TrimSpace code' = TrimSpace code)"
    by force
  finally show ?thesis unfolding perm_Lookup_def store Let_def by simp
qed

lemma distinct_codes: "distinct (trimmed_codes perms) \<Longrightarrow> distinct (map fst perms)"
proof -
  assume "distinct (trimmed_codes perms)"
  moreover have "trimmed_codes perms = map TrimSpace (map fst perms)"
    by (simp add: trimmed_codes_def split_beta comp_def)
  ultimately show "distinct (map fst perms)" by (metis distinct_map)
qed

section \<open>Properties\<close>

text \<open>
  C10. What the permission gate grants after start-up: once \<open>Bootstrap\<close> succeeded, the bit-mask check of
  a permission code passes exactly for tokens that hold the bit the control plane's catalogue assigns
  to that code, in the service it assigns it to, provided no two codes of the catalogue agree up to
  surrounding white space.
\<close>

theorem bootstrapped_permission_check:
  assumes "Bootstrap True True (Some cat) baseURL (Inr client) w (Some s) = (None, w', Some s')"
    and "\<forall>w. fst (pc_GetJSON client w (PermissionCatalogURL baseURL)) = Inr resp"
    and "distinct (trimmed_codes (assigned (cg_Services resp)))"
    and "gc_service c = LookupService (perm_Lookup s')"
  shows "check_bitmask c cl code = Next c \<longleftrightarrow>
    TrimSpace code \<noteq> [] \<and>
    (\<exists>(code', md) \<in> set (assigned (cg_Services resp)).
       TrimSpace code' = TrimSpace code \<and> HasPermission cl (pm_Service md) (pm_BitValue md))"
proof -
  obtain w1 w2 where get: "pc_GetJSON client w1 (PermissionCatalogURL baseURL) = (Inr resp, w2)"
    and s': "s' = perm_Replace (add_services (cg_Services resp) []) s"
    using assms(1) spec [OF assms(2)]
    by (auto simp: Bootstrap_def loadPermissions_def split: if_splits prod.splits option.splits sum.splits)
       (metis fst_conv sum.inject(2) sum.distinct(1))+
  have "add_services (cg_Services resp) [] = assigned (cg_Services resp)"
    using add_services_append [of "[]"] distinct_codes [OF assms(3)] by simp
  then have "perm_Lookup s' code = Some md \<longleftrightarrow> TrimSpace code \<noteq> [] \<and>
      (\<exists>code'. (code', md) \<in> set (assigned (cg_Services resp)) \<and> TrimSpace code' = TrimSpace code)" for md
    using perm_Lookup_Replace [OF assms(3), of s code md] s' by simp
  moreover have "check_bitmask c cl code = Next c \<longleftrightarrow>
      (\<exists>md. perm_Lookup s' code = Some md \<and> HasPermission cl (pm_Service md) (pm_BitValue md))"
    by (simp add: check_bitmask_def assms(4) split: option.splits)
  ultimately show ?thesis by auto
qed

definition demo_entry :: catalog_entry where
  "demo_entry = \<lparr>ce_ID = ''p1'', ce_Name = ''read'', ce_Description = [], ce_Category = [], ce_Action = [],
     ce_Code = ''svc-doc-read'', ce_BitValue = 64, ce_FeatureFlags = []\<rparr>"

definition demo_response :: catalog_response where
  "demo_response = \<lparr>cg_Services = [(''svc'', \<lparr>sg_Permissions = [(''svc-doc-read'', demo_entry)], sg_Groups = []\<rparr>)]\<rparr>"

definition demo_client :: "unit perm_client" where
  "demo_client = \<lparr>pc_PostJSON = \<lambda>w url reqs. (None, w), pc_GetJSON = \<lambda>w url. (Inr demo_response, w)\<rparr>"

theorem bootstrapped_permission_check_witness:
  "\<exists>s' :: unit perm_store.
     Bootstrap True True (Some (NewCatalog [])) ''http://cp'' (Inr demo_client) () (Some (perm_NewStore None)) =
       (None, (), Some s') \<and>
     check_bitmask (demo_request\<lparr>gc_service := LookupService (perm_Lookup s')\<rparr>)
       (demo_claims\<lparr>ServicePermissions := [''svc'' \<mapsto> [0, 2]]\<rparr>) ''svc-doc-read'' =
       Next (demo_request\<lparr>gc_service := LookupService (perm_Lookup s')\<rparr>)"
proof -
  let ?boot = "Bootstrap True True (Some (NewCatalog [])) ''http://cp'' (Inr demo_client) ()
    (Some (perm_NewStore None :: unit perm_store))"
  let ?cl = "demo_claims\<lparr>ServicePermissions := [''svc'' \<mapsto> [0, 2]]\<rparr>"
  obtain s' where s': "?boot = (None, (), Some s')"
    by (simp add: Bootstrap_def ensurePermissions_def loadPermissions_def demo_client_def api_Valid_def
        plain_char_code)
  let ?c = "demo_request\<lparr>gc_service := LookupService (perm_Lookup s')\<rparr>"
  have trim: "TrimSpace ''svc-doc-read'' \<noteq> []" by (simp add: plain_char_code)
  have assigned: "assigned (cg_Services demo_response) =
      [(''svc-doc-read'', \<lparr>pm_ID = ''p1'', pm_Service = ''svc'', pm_BitValue = 64\<rparr>)]"
    by (simp add: demo_response_def assigned_def entries_of_def demo_entry_def)
  have "HasPermission ?cl ''svc'' 64"
    by (simp add: HasPermission_def ToLower_def to_lower_char_def plain_char_code Let_def)
  moreover have "check_bitmask ?c ?cl ''svc-doc-read'' = Next ?c \<longleftrightarrow>
      TrimSpace ''svc-doc-read'' \<noteq> [] \<and>
      (\<exists>(code', md) \<in> set (assigned (cg_Services demo_response)).
         TrimSpace code' = TrimSpace ''svc-doc-read'' \<and> HasPermission ?cl (pm_Service md) (pm_BitValue md))"
    by (rule bootstrapped_permission_check [OF s'])
       (simp_all add: demo_client_def assigned trimmed_codes_def)
  ultimately have "check_bitmask ?c ?cl ''svc-doc-read'' = Next ?c"
    using trim by (simp add: assigned)
  with s' show ?thesis by blast
qed

end
