(* ===== verification/Permission_Decision.thy ===== *)
theory Permission_Decision
  imports Permissions Controlplane
begin

text \<open>
  \<open>pkg/auth/permission_decision.go\<close>: how \<open>RequirePermission\<close> asks the control plane for a decision. The
  transport and the JSON library are the record \<open>decide_net\<close>; the text \<open>strconv.FormatFloat\<close> gives a
  number is the parameter \<open>fmt_number\<close>. A body is an object with its members in the order in which one
  run of Go's map iteration visits them. The copy of the body that \<open>requestBodyBytes\<close> keeps under its
  own key is read back when it is there; storing it changes nothing else and is left out.
\<close>

section \<open>Requests\<close>

definition permissionDecisionRequestBodyKey :: string where
  "permissionDecisionRequestBodyKey = ''auth_permission_decision_body''"

record permission_decision_request =
  pr_SubjectUserID :: string
  pr_TenantID :: string
  pr_Service :: string
  pr_Category :: string
  pr_Action :: string
  pr_ResourceType :: string
  pr_ResourceID :: string
  pr_Context :: "string \<rightharpoonup> string"

record permission_decision_response =
  po_Allowed :: bool
  po_Reasons :: "string list"

definition parsePermissionCode :: "string \<Rightarrow> (string \<times> string \<times> string) option" where
  "parsePermissionCode code =
     (case SplitN 3 (ToLower (TrimSpace code)) CHR ''-'' of
        [s, c, a] \<Rightarrow>
          let service = TrimSpace s; category = TrimSpace c; action = TrimSpace a
          in if service = [] \<or> category = [] \<or> action = [] then None else Some (service, category, action)
      | _ \<Rightarrow> None)"

definition normalizeContextEntry :: "string \<Rightarrow> string \<Rightarrow> (string \<times> string) option" where
  "normalizeContextEntry key v =
     (let key = TrimSpace key; v = TrimSpace v
      in if key = [] \<or> v = [] then None else Some (key, v))"

definition put_entry :: "string \<times> string \<Rightarrow> (string \<rightharpoonup> string) \<Rightarrow> (string \<rightharpoonup> string)" where
  "put_entry e m = (case normalizeContextEntry (fst e) (snd e) of None \<Rightarrow> m | Some (k, v) \<Rightarrow> m(k \<mapsto> v))"

definition stringifyPermissionDecisionValue :: "(any \<Rightarrow> string) \<Rightarrow> any \<Rightarrow> string option" where
  "stringifyPermissionDecisionValue fmt_number v =
     (case v of
        ANil \<Rightarrow> None
      | AString s \<Rightarrow> let trimmed = TrimSpace s in if trimmed \<noteq> [] then Some trimmed else None
      | ABool b \<Rightarrow> Some (FormatBool b)
      | AFloat m e \<Rightarrow> Some (fmt_number v)
      | _ \<Rightarrow> None)"

fun flattenJSONContext ::
    "(any \<Rightarrow> string) \<Rightarrow> string \<Rightarrow> (string \<times> any) list \<Rightarrow> (string \<rightharpoonup> string) \<Rightarrow> (string \<rightharpoonup> string)" where
  "flattenJSONContext fmt_number pre [] out = out"
| "flattenJSONContext fmt_number pre ((k, v) # input) out =
     (let key = TrimSpace k
      in if key = [] then flattenJSONContext fmt_number pre input out
         else
           let fullKey = (if pre \<noteq> [] then pre @ ''.'' @ key else key)
           in case v of
                AMap typed \<Rightarrow>
                  flattenJSONContext fmt_number pre input (flattenJSONContext fmt_number fullKey typed out)
              | _ \<Rightarrow>
                  (case stringifyPermissionDecisionValue fmt_number v of
                     Some s \<Rightarrow> flattenJSONContext fmt_number pre input (out(fullKey \<mapsto> s))
                   | None \<Rightarrow> flattenJSONContext fmt_number pre input out))"

definition requestBodyBytes :: "gin_ctx \<Rightarrow> string" where
  "requestBodyBytes c =
     (case gc_keys c permissionDecisionRequestBodyKey of
        Some (AString payload) \<Rightarrow> payload
      | _ \<Rightarrow> gc_body c)"

text \<open>\<open>unmarshal\<close> is \<open>json.Unmarshal\<close> into a \<open>map[string]any\<close>, \<open>None\<close> for an error.\<close>

definition requestJSONContext ::
    "(any \<Rightarrow> string) \<Rightarrow> (string \<Rightarrow> (string \<times> any) list option) \<Rightarrow> gin_ctx \<Rightarrow> (string \<rightharpoonup> string)" where
  "requestJSONContext fmt_number unmarshal c =
     (let trimmed = TrimSpace (requestBodyBytes c)
      in if length trimmed = 0 \<or> hd trimmed \<noteq> CHR ''{'' then Map.empty
         else case unmarshal trimmed of
                None \<Rightarrow> Map.empty
              | Some payload \<Rightarrow> flattenJSONContext fmt_number [] payload Map.empty)"

definition query_entries :: "(string \<times> string list) list \<Rightarrow> (string \<times> string) list" where
  "query_entries q = concat (map (\<lambda>(k, vs). case vs of [] \<Rightarrow> [] | v # _ \<Rightarrow> [(k, v)]) q)"

definition collectPermissionDecisionContext ::
    "(any \<Rightarrow> string) \<Rightarrow> (string \<Rightarrow> (string \<times> any) list option) \<Rightarrow> gin_ctx \<Rightarrow> (string \<rightharpoonup> string)" where
  "collectPermissionDecisionContext fmt_number unmarshal c =
     (let vals = fold put_entry (gc_Params c) Map.empty;
          vals = fold put_entry (query_entries (gc_Query c)) vals
      in vals ++ requestJSONContext fmt_number unmarshal c)"

definition resolvePermissionDecisionTenantID ::
    "(any \<Rightarrow> string) \<Rightarrow> (string \<Rightarrow> (string \<times> any) list option) \<Rightarrow> gin_ctx \<Rightarrow> claims \<Rightarrow> string" where
  "resolvePermissionDecisionTenantID fmt_number unmarshal c cl =
     (case TenantIDFromContext (gc_req c) of
        Some tenantID \<Rightarrow> tenantID
      | None \<Rightarrow>
        (case GetTenantID c of
           Some tenantID \<Rightarrow> tenantID
         | None \<Rightarrow>
             let tenantID = TrimSpace (Param c ''tenant_id'')
             in if tenantID \<noteq> [] then tenantID
                else let tenantID = TrimSpace (Query c ''tenant_id'')
                in if tenantID \<noteq> [] then tenantID
                else let tenantID = TrimSpace (index_str (collectPermissionDecisionContext fmt_number unmarshal c) ''tenant_id'')
                in if tenantID \<noteq> [] then tenantID
                else TrimSpace (TenantID cl)))"

definition primary_key :: "string \<Rightarrow> string" where
  "primary_key category =
     (if category = ''tenants'' then ''tenant_id''
      else if category = ''users'' \<or> category = ''account_users'' \<or> category = ''system_users'' then ''user_id''
      else [])"

fun other_id :: "(string \<times> string) list \<Rightarrow> string option" where
  "other_id [] = None"
| "other_id ((k, v) # params) =
     (let key = TrimSpace k; v = TrimSpace v
      in if v = [] \<or> \<not> HasSuffix key ''_id'' then other_id params
         else if key = ''tenant_id'' \<or> key = ''user_id'' then other_id params
         else Some v)"

fun any_id :: "(string \<times> string) list \<Rightarrow> string" where
  "any_id [] = []"
| "any_id ((k, v) # params) =
     (let v = TrimSpace v
      in if v = [] then any_id params
         else if HasSuffix (TrimSpace k) ''_id'' then v
         else any_id params)"

definition resolvePermissionDecisionResourceID :: "gin_ctx \<Rightarrow> string \<Rightarrow> string" where
  "resolvePermissionDecisionResourceID c category =
     (let params = gc_Params c
      in if length params = 0 then []
         else
           let key = primary_key (TrimSpace category);
               v = TrimSpace (Param c key)
           in if key \<noteq> [] \<and> v \<noteq> [] then v
              else case other_id params of Some v \<Rightarrow> v | None \<Rightarrow> any_id params)"

definition singularizeResourceType :: "string \<Rightarrow> string" where
  "singularizeResourceType category =
     (if HasSuffix category ''ies'' \<and> length category > 3 then take (length category - 3) category @ ''y''
      else if HasSuffix category ''sses'' \<and> length category > 4 then take (length category - 2) category
      else if HasSuffix category ''ses'' \<and> length category > 3 then take (length category - 2) category
      else if HasSuffix category ''s'' \<and> length category > 1 \<and> \<not> HasSuffix category ''ss''
      then take (length category - 1) category
      else category)"

definition inferPermissionDecisionResourceType :: "string \<Rightarrow> string \<Rightarrow> string \<Rightarrow> string" where
  "inferPermissionDecisionResourceType category action resourceID =
     (let category = TrimSpace category; action = TrimSpace action
      in if category = [] then []
         else if action = ''authentication'' then ''user_session''
         else if action = ''registration'' then ''user_registration''
         else if action = ''switch-tenant'' then ''tenant_membership''
         else if action = ''list'' \<or> action = ''create'' \<or> action = ''tenant-list'' then category @ ''_collection''
         else if TrimSpace resourceID = [] then category @ ''_collection''
         else singularizeResourceType category)"

definition buildPermissionDecisionRequest ::
    "(any \<Rightarrow> string) \<Rightarrow> (string \<Rightarrow> (string \<times> any) list option) \<Rightarrow> gin_ctx \<Rightarrow> claims \<Rightarrow> string \<Rightarrow>
     string + permission_decision_request" where
  "buildPermissionDecisionRequest fmt_number unmarshal c cl code =
     (case parsePermissionCode code of
        None \<Rightarrow> Err (''invalid permission code: '' @ code)
      | Some (service, category, action) \<Rightarrow>
          let subjectUserID = TrimSpace (UserID cl)
          in if subjectUserID = [] then Err ''subject_user_id is required''
             else
               let tenantID = resolvePermissionDecisionTenantID fmt_number unmarshal c cl;
                   resourceID = resolvePermissionDecisionResourceID c category;
                   resourceType = inferPermissionDecisionResourceType category action resourceID;
                   contextMap = collectPermissionDecisionContext fmt_number unmarshal c
               in Ok \<lparr>pr_SubjectUserID = subjectUserID, pr_TenantID = tenantID, pr_Service = service,
                      pr_Category = category, pr_Action = action, pr_ResourceType = resourceType,
                      pr_ResourceID = resourceID, pr_Context = contextMap\<rparr>)"

section \<open>The client\<close>

datatype 'a json_reply = JEOF | JError go_error | JValue 'a

record ('q, 'a) decide_net =
  dn_encode :: "'q \<Rightarrow> go_error + string"
  dn_newRequest :: "string \<Rightarrow> string \<Rightarrow> go_error option"
  dn_do :: "string \<Rightarrow> string \<Rightarrow> go_error + (int \<times> string)"
  dn_decode :: "string \<Rightarrow> 'a json_reply"

text \<open>A client: its base URL, whether it has an HTTP client, and the error of making one.\<close>

record http_decision_client =
  hd_baseURL :: string
  hd_initErr :: "go_error option"
  hd_hasClient :: bool

text \<open>
  \<open>newClient\<close> is \<open>NewInternalControlPlaneClientForAudience\<close>: an error, or a client. A configuration that is
  not a \<open>*config.Config\<close> is \<open>None\<close>, as a nil one.
\<close>

definition newPermissionDecisionClient ::
    "(cfg_getter \<Rightarrow> string list \<Rightarrow> go_error option) \<Rightarrow> cfg_getter option \<Rightarrow> http_decision_client option" where
  "newPermissionDecisionClient newClient cfg =
     (case cfg of
        None \<Rightarrow> None
      | Some g \<Rightarrow>
          let baseURL = ResolveBaseURL cfg
          in if TrimSpace baseURL = [] then None
             else
               let err = newClient g (ResolveAuthorizationAudience cfg)
               in Some \<lparr>hd_baseURL = baseURL, hd_initErr = err, hd_hasClient = (err = None)\<rparr>)"

definition zero_decision :: permission_decision_response where
  "zero_decision = \<lparr>po_Allowed = False, po_Reasons = []\<rparr>"

definition two_xx :: "int \<Rightarrow> bool" where
  "two_xx status = (\<not> (status < StatusOK \<or> status \<ge> StatusMultipleChoices))"

definition permission_Decide ::
    "(permission_decision_request, permission_decision_response) decide_net \<Rightarrow> http_decision_client option \<Rightarrow>
     permission_decision_request \<Rightarrow> permission_decision_response \<times> go_error option" where
  "permission_Decide net client input =
     (case client of
        None \<Rightarrow> (zero_decision, Some (EPlain ''permission decision client is nil''))
      | Some cl \<Rightarrow>
          if TrimSpace (hd_baseURL cl) = []
          then (zero_decision, Some (EPlain (or_key KeyBaseURL LegacyKeyBaseURL @ '' not configured'')))
          else case hd_initErr cl of
            Some err \<Rightarrow>
              (zero_decision,
               Some (EFmt (''authorization control-plane client initialization failed: '' @ Error err) err))
          | None \<Rightarrow>
              if \<not> hd_hasClient cl
              then (zero_decision, Some (EPlain ''authorization control-plane client is not configured''))
              else if TrimSpace (pr_SubjectUserID input) = []
              then (zero_decision, Some (EPlain ''subject_user_id is required''))
              else if TrimSpace (pr_Service input) = [] \<or> TrimSpace (pr_Category input) = [] \<or>
                      TrimSpace (pr_Action input) = []
              then (zero_decision, Some (EPlain ''service, category, and action are required''))
              else case dn_encode net input of
                Inl err \<Rightarrow> (zero_decision, Some (EFmt (''encode permission decision request: '' @ Error err) err))
              | Inr body \<Rightarrow>
                (case dn_newRequest net (AuthorizationDecisionURL (hd_baseURL cl)) body of
                   Some err \<Rightarrow> (zero_decision, Some (EFmt (''create permission decision request: '' @ Error err) err))
                 | None \<Rightarrow>
                   (case dn_do net (AuthorizationDecisionURL (hd_baseURL cl)) body of
                      Inl err \<Rightarrow> (zero_decision, Some err)
                    | Inr (status, text) \<Rightarrow>
                      (case dn_decode net text of
                         JError err \<Rightarrow>
                           (zero_decision, Some (EFmt (''decode permission decision response: '' @ Error err) err))
                       | reply \<Rightarrow>
                           let out = (case reply of JValue v \<Rightarrow> v | _ \<Rightarrow> zero_decision)
                           in if \<not> two_xx status
                              then (out, Some (EPlain (''permission decision endpoint returned status '' @ FormatInt status)))
                              else (out, None)))))"

text \<open>The decision as \<open>RequirePermission\<close> uses it.\<close>

definition decided :: "permission_decision_response \<times> go_error option \<Rightarrow> go_error + bool" where
  "decided r = (case r of (_, Some err) \<Rightarrow> Err err | (d, None) \<Rightarrow> Ok (po_Allowed d))"

section \<open>Lemmas\<close>

text \<open>An allowing decision was given by the endpoint, with a status of success.\<close>

lemma permission_Decide_allowed:
  assumes "decided (permission_Decide net client input) = Inr True"
  shows "\<exists>cl body status answer d. client = Some cl \<and> dn_encode net input = Inr body \<and>
    dn_do net (AuthorizationDecisionURL (hd_baseURL cl)) body = Inr (status, answer) \<and> two_xx status \<and>
    dn_decode net answer = JValue d \<and> po_Allowed d"
proof -
  have allowed: "\<exists>d. permission_Decide net client input = (d, None) \<and> po_Allowed d"
    using assms by (auto simp: decided_def split: prod.splits option.splits)
  then obtain cl where cl: "client = Some cl" by (auto simp: permission_Decide_def split: option.splits)
  let ?url = "AuthorizationDecisionURL (hd_baseURL cl)"
  obtain body where body: "dn_encode net input = Inr body"
    using allowed cl by (auto simp: permission_Decide_def split: option.splits if_splits sum.splits)
  obtain status answer where reply: "dn_do net ?url body = Inr (status, answer)"
    using allowed cl body
    by (auto simp: permission_Decide_def split: option.splits if_splits sum.splits)
  show ?thesis
    using allowed cl body reply
    by (auto simp: permission_Decide_def zero_decision_def Let_def
        split: option.splits if_splits sum.splits json_reply.splits)
qed

lemma build_request:
  assumes "buildPermissionDecisionRequest fmt um c cl code = Inr req"
  shows "pr_SubjectUserID req = UserID cl" "UserID cl \<noteq> []"
    "pr_TenantID req = resolvePermissionDecisionTenantID fmt um c cl"
    "parsePermissionCode code = Some (pr_Service req, pr_Category req, pr_Action req)"
    "pr_Context req = collectPermissionDecisionContext fmt um c"
  using assms by (auto simp: buildPermissionDecisionRequest_def Let_def split: option.splits if_splits)

lemma SetTenantID_claims [simp]: "gc_claims (SetTenantID c t) = gc_claims c"
  by (simp add: SetTenantID_def Let_def)

lemma SetUserID_claims [simp]: "gc_claims (SetUserID c u) = gc_claims c"
  by (simp add: SetUserID_def Let_def)

lemma TenantAccess_own_tenant:
  assumes "GetClaims c = Some cl" "\<not> IsServiceToken cl" "TenantID cl \<noteq> []"
    and "TenantAccessMiddleware cfg c = Next c'"
  shows "GetClaims c' = Some cl \<and> TenantIDFromContext (gc_req c') = Some (TenantID cl) \<and> gc_tenant c' = Some (TenantID cl)"
proof -
  obtain t u where "ResolveTenantUserScope c None None cfg = Inr (t, u, c')"
    using assms(4) by (auto simp: TenantAccessMiddleware_def split: sum.splits)
  from ResolveTenantUserScope_Ok [OF this] obtain rt ru where
    r: "resolve_user_token_scope c cl rt ru cfg = Inr (t, u, c')"
    using assms(1,2) by (metis option.case(2) option.inject)
  moreover have "gc_claims c' = gc_claims c \<and> gc_tenant c' = Some (TenantID cl)"
    using r assms(3) by (auto simp: resolve_user_token_scope_def Let_def SetTenantID_def SetUserID_def split: if_splits)
  ultimately show ?thesis
    using user_token_context_tenant [OF r assms(3)] assms(1) by (simp add: GetClaims_def)
qed

lemma TenantAccess_request_context:
  assumes "GetClaims c = Some cl" "\<not> IsServiceToken cl" "TenantID cl \<noteq> []" "TenantAccessMiddleware cfg c = Next c'"
  shows "\<exists>rc. RequestContextFromContext (gc_req c') = Some rc \<and> rc_TenantID rc = TenantID cl"
    "ClaimsFromContext (gc_req c') = ClaimsFromContext (gc_req c)"
proof -
  obtain t u where "ResolveTenantUserScope c None None cfg = Inr (t, u, c')"
    using assms(4) by (auto simp: TenantAccessMiddleware_def split: sum.splits)
  from ResolveTenantUserScope_Ok [OF this] obtain rt ru where
    r: "resolve_user_token_scope c cl rt ru cfg = Inr (t, u, c')"
    using assms(1,2) by (metis option.case(2) option.inject)
  show "\<exists>rc. RequestContextFromContext (gc_req c') = Some rc \<and> rc_TenantID rc = TenantID cl"
    by (rule user_token_request_context [OF r assms(3)])
  from r show "ClaimsFromContext (gc_req c') = ClaimsFromContext (gc_req c)"
    by (auto simp: resolve_user_token_scope_def ClaimsFromContext_def context_claims_kept Let_def split: if_splits)
qed

section \<open>Properties\<close>

text \<open>
  C6. Tenant scope and permission decision together: when a user token with a tenant passes the tenant
  middleware and then a permission check that is decided remotely, the decision endpoint has answered
  with success and \<open>allowed\<close> to a question about exactly this user in exactly this tenant, whatever
  path, query and body of the request say.
\<close>

theorem permission_decided_for_own_tenant:
  assumes "GetClaims c = Some cl" and "\<not> IsServiceToken cl" and "TenantID cl \<noteq> []"
    and "TenantAccessMiddleware cfg c = Next c1"
    and "RequirePermission (buildPermissionDecisionRequest fmt um)
      \<lparr>az_bypass = bypass, az_decide = Some (\<lambda>q. decided (permission_Decide net client q))\<rparr> env v code c1 = (Next c2, v')"
  shows "\<exists>req cl' body status answer d. buildPermissionDecisionRequest fmt um c1 cl code = Inr req \<and>
    pr_TenantID req = TenantID cl \<and> pr_SubjectUserID req = UserID cl \<and> client = Some cl' \<and>
    dn_encode net req = Inr body \<and>
    dn_do net (AuthorizationDecisionURL (hd_baseURL cl')) body = Inr (status, answer) \<and> two_xx status \<and>
    dn_decode net answer = JValue d \<and> po_Allowed d"
proof -
  have c1: "GetClaims c1 = Some cl" "TenantIDFromContext (gc_req c1) = Some (TenantID cl)"
    using TenantAccess_own_tenant [OF assms(1-4)] by simp_all
  obtain req where req: "buildPermissionDecisionRequest fmt um c1 cl code = Inr req"
    "decided (permission_Decide net client req) = Inr True"
    using assms(5) c1 assms(2)
    by (auto simp: RequirePermission_def ensure_claims_def split: sum.splits if_splits)
  have "pr_TenantID req = TenantID cl"
    using build_request(3) [OF req(1)] c1(2) by (simp add: resolvePermissionDecisionTenantID_def)
  with permission_Decide_allowed [OF req(2)] build_request(1) [OF req(1)] req(1) show ?thesis by blast
qed

definition yes_net :: "(permission_decision_request, permission_decision_response) decide_net" where
  "yes_net = \<lparr>dn_encode = (\<lambda>q. Ok ''{}''), dn_newRequest = (\<lambda>_ _. None), dn_do = (\<lambda>_ _. Ok (200, ''yes'')),
     dn_decode = (\<lambda>_. JValue \<lparr>po_Allowed = True, po_Reasons = []\<rparr>)\<rparr>"

definition demo_decider :: http_decision_client where
  "demo_decider = \<lparr>hd_baseURL = ''http://cp'', hd_initErr = None, hd_hasClient = True\<rparr>"

lemma demo_code: "parsePermissionCode ''iam-users-read'' = Some (''iam'', ''users'', ''read'')"
  by code_simp

lemma demo_decides:
  assumes "pr_SubjectUserID req = ''u1''" "pr_Service req = ''iam''" "pr_Category req = ''users''" "pr_Action req = ''read''"
  shows "decided (permission_Decide yes_net (Some demo_decider) req) = Inr True"
  using assms
  by (simp add: decided_def permission_Decide_def yes_net_def demo_decider_def two_xx_def plain_char_code)

theorem permission_decided_for_own_tenant_witness:
  "\<exists>c1 c2. TenantAccessMiddleware (DefaultTenantAccessConfig\<lparr>ta_EnforceTenantStatus := False\<rparr>) demo_request = Next c1 \<and>
     RequirePermission (buildPermissionDecisionRequest (\<lambda>_. []) (\<lambda>_. None))
       \<lparr>az_bypass = False, az_decide = Some (\<lambda>q. decided (permission_Decide yes_net (Some demo_decider) q))\<rparr>
       demo_env demo_verifier ''iam-users-read'' c1 = (Next c2, demo_verifier) \<and>
     (\<exists>req. buildPermissionDecisionRequest (\<lambda>_. []) (\<lambda>_. None) c1 demo_claims ''iam-users-read'' = Inr req \<and>
        pr_TenantID req = ''t1'' \<and> pr_SubjectUserID req = ''u1'')"
proof -
  let ?cfg = "DefaultTenantAccessConfig\<lparr>ta_EnforceTenantStatus := False\<rparr>"
  let ?build = "buildPermissionDecisionRequest (\<lambda>_. []) (\<lambda>_. None)"
  let ?a = "\<lparr>az_bypass = False, az_decide = Some (\<lambda>q. decided (permission_Decide yes_net (Some demo_decider) q))\<rparr>"
  obtain c1 where c1: "TenantAccessMiddleware ?cfg demo_request = Next c1"
    using demo_scope_ok by (auto simp: TenantAccessMiddleware_def)
  have cl: "GetClaims demo_request = Some demo_claims" by (simp add: GetClaims_def demo_request_def)
  have ten: "TenantID demo_claims \<noteq> []" by (simp add: demo_claims_simps)
  have c1': "GetClaims c1 = Some demo_claims"
    using TenantAccess_own_tenant [OF cl demo_claims_simps(5) ten c1] by simp
  obtain req where req: "?build c1 demo_claims ''iam-users-read'' = Inr req"
    by (simp add: buildPermissionDecisionRequest_def demo_code demo_claims_simps plain_char_code Let_def)
  have "decided (permission_Decide yes_net (Some demo_decider) req) = Inr True"
    by (rule demo_decides) (use build_request(1,4) [OF req] in \<open>simp_all add: demo_code demo_claims_simps\<close>)
  then have r: "RequirePermission ?build ?a demo_env demo_verifier ''iam-users-read'' c1 = (Next c1, demo_verifier)"
    using c1' req demo_claims_simps(5) by (simp add: RequirePermission_def ensure_claims_def)
  from permission_decided_for_own_tenant [OF cl demo_claims_simps(5) ten c1 r] c1 r show ?thesis
    by (auto simp: demo_claims_simps)
qed

text \<open>The body has the last word on the context of a decision, also on the parameters of the path.\<close>

lemma body_overrides_context:
  assumes "buildPermissionDecisionRequest fmt um c cl code = Inr req"
    and "requestJSONContext fmt um c k = Some v"
  shows "pr_Context req k = Some v"
  using build_request(5) [OF assms(1)] assms(2) by (simp add: collectPermissionDecisionContext_def)

subsection \<open>Permission codes\<close>

lemma SplitN_append_sep:
  "sep \<notin> set p \<Longrightarrow> SplitN (Suc (Suc n)) (p @ sep # s) sep = p # SplitN (Suc n) s sep"
  by (induction p) auto

lemma to_lower_char_minus: "to_lower_char c = CHR ''-'' \<longleftrightarrow> c = CHR ''-''"
proof (cases "CHR ''A'' \<le> c \<and> c \<le> CHR ''Z''")
  case True
  then have n: "65 \<le> (of_char c :: nat)" "(of_char c :: nat) \<le> 90" by (simp_all add: less_eq_char_def)
  then have "(of_char (to_lower_char c) :: nat) = of_char c + 32" using True by (simp add: to_lower_char_def)
  with n show ?thesis by auto
qed (auto simp: to_lower_char_def)

lemma plain_lower: "plain_char c \<Longrightarrow> plain_char (to_lower_char c)"
  by (auto simp: plain_char_code to_lower_char_def less_eq_char_def)

lemma TrimSpace_plain_all: "\<forall>x\<in>set s. plain_char x \<Longrightarrow> TrimSpace s = s"
  by (cases "s = []") (simp_all add: TrimSpace_plain)

lemma perm_normalize_plain: "\<forall>x\<in>set s. plain_char x \<Longrightarrow> perm_normalize s = ToLower s"
proof -
  assume p: "\<forall>x\<in>set s. plain_char x"
  then have "filter (\<lambda>c. c \<noteq> CHR '' '') s = s" by (auto simp: filter_id_conv plain_char_code)
  with TrimSpace_plain_all [OF p] show ?thesis by (simp add: perm_normalize_def)
qed

text \<open>
  A permission code names its permission: \<open>parsePermissionCode\<close>, which the decision client uses,
  reads back from a code of \<open>GenerateCode\<close>, which the catalogue uses, the service, the category and the
  action in lower case, also for an action with hyphens, as long as service and category have none.
\<close>

lemma permission_code_round_trip:
  assumes "\<forall>x\<in>set (service @ category @ action). plain_char x"
    and "service \<noteq> []" "category \<noteq> []" "action \<noteq> []"
    and "CHR ''-'' \<notin> set (service @ category)"
  shows "parsePermissionCode (GenerateCode service category action) =
    Some (ToLower service, ToLower category, ToLower action)"
proof -
  let ?s = "ToLower service" and ?c = "ToLower category" and ?a = "ToLower action"
  have plain: "\<forall>x\<in>set ?s. plain_char x" "\<forall>x\<in>set ?c. plain_char x" "\<forall>x\<in>set ?a. plain_char x"
    using assms(1) plain_lower by (auto simp: ToLower_def)
  have code: "GenerateCode service category action = ?s @ CHR ''-'' # ?c @ CHR ''-'' # ?a"
    using assms(1) by (simp add: GenerateCode_def perm_normalize_plain)
  have "\<forall>x\<in>set (?s @ CHR ''-'' # ?c @ CHR ''-'' # ?a). plain_char x"
    using plain by (auto simp: plain_char_code)
  then have trim: "TrimSpace (?s @ CHR ''-'' # ?c @ CHR ''-'' # ?a) = ?s @ CHR ''-'' # ?c @ CHR ''-'' # ?a"
    by (rule TrimSpace_plain_all)
  have low: "ToLower (?s @ CHR ''-'' # ?c @ CHR ''-'' # ?a) = ?s @ CHR ''-'' # ?c @ CHR ''-'' # ?a"
    by (simp add: ToLower_def) (simp add: to_lower_char_def less_eq_char_def)
  have nm: "CHR ''-'' \<notin> set ?s" "CHR ''-'' \<notin> set ?c"
    using assms(5) by (auto simp: ToLower_def dest!: sym [THEN to_lower_char_minus [THEN iffD1]])
  have "SplitN 3 (?s @ CHR ''-'' # ?c @ CHR ''-'' # ?a) CHR ''-'' = [?s, ?c, ?a]"
    unfolding numeral_3_eq_3 SplitN_append_sep [OF nm(1)] SplitN_append_sep [OF nm(2)] SplitN.simps(2) ..
  then show ?thesis
    unfolding parsePermissionCode_def code trim low Let_def
    using assms(2-4) by (simp add: TrimSpace_plain_all [OF plain(1)] TrimSpace_plain_all [OF plain(2)]
        TrimSpace_plain_all [OF plain(3)])
qed

lemma permission_code_round_trip_witness:
  "parsePermissionCode (GenerateCode ''IAM'' ''tenants'' ''switch-tenant'') = Some (''iam'', ''tenants'', ''switch-tenant'')"
proof -
  have "ToLower ''IAM'' = ''iam''" "ToLower ''tenants'' = ''tenants''" "ToLower ''switch-tenant'' = ''switch-tenant''"
    by code_simp+
  with permission_code_round_trip [of "''IAM''" "''tenants''" "''switch-tenant''"] show ?thesis
    by (simp add: plain_char_code)
qed

end
