(* ===== verification/Authz.thy ===== *)
theory Authz
  imports Permission_Decision
begin

text \<open>
  \<open>pkg/authz\<close>: the client of the remote authorization endpoint (\<open>client.go\<close>) and the middleware that asks
  it for every request and falls back on its cache (\<open>middleware.go\<close>). Transport and JSON are the record
  \<open>decide_net\<close>, the digest of the cache key is the record \<open>authz_env\<close>, the clock is an argument. A Go map
  that is iterated is an association list in the order of one iteration. The integer types that JSON
  decoding never produces are left out of \<open>stringifyJSONContextValue\<close>.
\<close>

section \<open>pkg/authz/client.go\<close>

record decision_request =
  dr_SubjectUserID :: string
  dr_TenantID :: string
  dr_Service :: string
  dr_Category :: string
  dr_Action :: string
  dr_ResourceType :: string
  dr_ResourceID :: string
  dr_Context :: "(string \<times> string) list"

record decision_response =
  ds_Allowed :: bool
  ds_SubjectUserID :: string
  ds_Service :: string
  ds_PermissionCode :: string
  ds_TenantID :: string
  ds_ResourceType :: string
  ds_ResourceID :: string
  ds_RoleIDs :: "string list"
  ds_GroupIDs :: "string list"
  ds_AllowPolicyIDs :: "string list"
  ds_DenyPolicyIDs :: "string list"
  ds_DelegationIDs :: "string list"
  ds_Reasons :: "string list"
  ds_CacheHit :: bool

definition no_decision :: decision_response where
  "no_decision =
     \<lparr>ds_Allowed = False, ds_SubjectUserID = [], ds_Service = [], ds_PermissionCode = [], ds_TenantID = [],
      ds_ResourceType = [], ds_ResourceID = [], ds_RoleIDs = [], ds_GroupIDs = [], ds_AllowPolicyIDs = [],
      ds_DenyPolicyIDs = [], ds_DelegationIDs = [], ds_Reasons = [], ds_CacheHit = False\<rparr>"

text \<open>\<open>newClient\<close> is \<open>NewInternalControlPlaneClientForAudience\<close>; a client is as in \<open>Permission_Decision\<close>.\<close>

definition authz_NewClient ::
    "(cfg_getter option \<Rightarrow> string list \<Rightarrow> go_error option) \<Rightarrow> cfg_getter option \<Rightarrow> http_decision_client" where
  "authz_NewClient newClient cfg =
     (let err = newClient cfg (ResolveAuthorizationAudience cfg)
      in \<lparr>hd_baseURL = APIFromConfig cfg, hd_initErr = err, hd_hasClient = (err = None)\<rparr>)"

definition validateDecisionRequest :: "decision_request \<Rightarrow> go_error option" where
  "validateDecisionRequest input =
     (if TrimSpace (dr_SubjectUserID input) = [] then Some (EPlain ''subject_user_id is required'')
      else if TrimSpace (dr_Service input) = [] then Some (EPlain ''service is required'')
      else if TrimSpace (dr_Category input) = [] then Some (EPlain ''category is required'')
      else if TrimSpace (dr_Action input) = [] then Some (EPlain ''action is required'')
      else None)"

definition authz_Decide ::
    "(decision_request, decision_response) decide_net \<Rightarrow> http_decision_client option \<Rightarrow> decision_request \<Rightarrow>
     decision_response \<times> go_error option" where
  "authz_Decide net client input =
     (case client of
        None \<Rightarrow> (no_decision, Some (EPlain ''authorization client is nil''))
      | Some cl \<Rightarrow>
          if TrimSpace (hd_baseURL cl) = []
          then (no_decision, Some (EPlain (or_key KeyBaseURL LegacyKeyBaseURL @ '' not configured'')))
          else case hd_initErr cl of
            Some err \<Rightarrow>
              (no_decision, Some (EFmt (''control-plane client initialization failed: '' @ Error err) err))
          | None \<Rightarrow>
              if \<not> hd_hasClient cl
              then (no_decision, Some (EPlain ''control-plane client is not configured''))
              else case validateDecisionRequest input of
                Some err \<Rightarrow> (no_decision, Some err)
              | None \<Rightarrow>
                (case dn_encode net input of
                   Inl err \<Rightarrow> (no_decision, Some (EFmt (''encode authorization decision request: '' @ Error err) err))
                 | Inr body \<Rightarrow>
                   (case dn_newRequest net (AuthorizationDecisionURL (hd_baseURL cl)) body of
                      Some err \<Rightarrow> (no_decision, Some (EFmt (''create authorization decision request: '' @ Error err) err))
                    | None \<Rightarrow>
                      (case dn_do net (AuthorizationDecisionURL (hd_baseURL cl)) body of
                         Inl err \<Rightarrow> (no_decision, Some err)
                       | Inr (status, text) \<Rightarrow>
                         (case dn_decode net text of
                            JError err \<Rightarrow>
                              (no_decision, Some (EFmt (''decode authorization decision response: '' @ Error err) err))
                          | reply \<Rightarrow>
                              let out = (case reply of JValue v \<Rightarrow> v | _ \<Rightarrow> no_decision)
                              in if \<not> two_xx status
                                 then (out, Some (EPlain (''authorization decision endpoint returned status '' @
                                        FormatInt status)))
                                 else (out, None))))))"

section \<open>pkg/authz/middleware.go\<close>

subsection \<open>The request\<close>

text \<open>
  The parts of a \<open>gin.Context\<close> this package uses beside those of \<open>gin_ctx\<close>: method and headers of the
  request, the decision stored under the gin key and in the request's context, the cached body and the
  cached JSON object.
\<close>

record authz_request =
  ar_ctx :: gin_ctx
  ar_Method :: string
  ar_GetHeader :: "string \<Rightarrow> string"
  ar_key_decision :: "decision_response option"
  ar_ctx_decision :: "decision_response option"
  ar_bodyBytes :: "string option"
  ar_bodyJSON :: "(string \<times> any) list option"

datatype authz_result = AzNext authz_request | AzAbort int string authz_request

type_synonym string_resolver = "authz_request \<Rightarrow> claims \<Rightarrow> string"
type_synonym context_resolver = "authz_request \<Rightarrow> claims \<Rightarrow> (string \<times> string) list"

definition GetDecision :: "authz_request \<Rightarrow> decision_response option" where
  "GetDecision r = ar_key_decision r"

definition DecisionFromContext :: "authz_request \<Rightarrow> decision_response option" where
  "DecisionFromContext r = ar_ctx_decision r"

definition ContextWithDecision :: "decision_response \<Rightarrow> authz_request \<Rightarrow> authz_request" where
  "ContextWithDecision d r = r\<lparr>ar_ctx_decision := Some d\<rparr>"

definition storeDecision :: "authz_request \<Rightarrow> decision_response \<Rightarrow> authz_request" where
  "storeDecision r d = ContextWithDecision d (r\<lparr>ar_key_decision := Some d\<rparr>)"

definition abortDenied :: "authz_request \<Rightarrow> decision_response \<Rightarrow> authz_result" where
  "abortDenied r d = AzAbort StatusForbidden ''access_denied'' r"

definition permissionCode :: "string \<Rightarrow> string \<Rightarrow> string \<Rightarrow> string" where
  "permissionCode service category action =
     Join [ToLower (TrimSpace service), ToLower (TrimSpace category), ToLower (TrimSpace action)] ''-''"

subsection \<open>Configuration\<close>

record authz_config =
  ac_Enabled :: bool
  ac_Service :: string
  ac_Category :: string
  ac_Action :: string
  ac_ResourceType :: string
  ac_FailOpen :: bool
  ac_AllowServiceTokens :: bool
  ac_RequireTenant :: bool
  ac_CacheTTL :: go_duration
  ac_SubjectUserIDResolver :: "string_resolver option"
  ac_TenantIDResolver :: "string_resolver option"
  ac_CategoryResolver :: "string_resolver option"
  ac_ActionResolver :: "string_resolver option"
  ac_ResourceTypeResolver :: "string_resolver option"
  ac_ResourceIDResolver :: "string_resolver option"
  ac_ContextResolver :: "context_resolver option"

text \<open>What \<open>NewMiddlewareConfig\<close> reads of a \<open>config.Config\<close>.\<close>

record authz_settings =
  as_getter :: cfg_getter
  as_GetIntD :: "string \<Rightarrow> int \<Rightarrow> int"
  as_GetBoolD :: "string \<Rightarrow> bool \<Rightarrow> bool"

definition SubjectFromClaims :: string_resolver where
  "SubjectFromClaims r cl = TrimSpace (UserID cl)"

definition TenantFromContextOrClaims :: string_resolver where
  "TenantFromContextOrClaims r cl =
     (case TenantIDFromContext (gc_req (ar_ctx r)) of
        Some tenantID \<Rightarrow> tenantID
      | None \<Rightarrow>
          (case gc_keys (ar_ctx r) ''tenant_id'' of
             Some (AString tenantID) \<Rightarrow>
               let trimmed = TrimSpace tenantID
               in if trimmed \<noteq> [] then trimmed else TrimSpace (TenantID cl)
           | _ \<Rightarrow> TrimSpace (TenantID cl)))"

definition NewMiddlewareConfig :: "authz_settings option \<Rightarrow> authz_config" where
  "NewMiddlewareConfig cfg =
     (let cacheTTLSeconds = (case cfg of None \<Rightarrow> 60 | Some s \<Rightarrow> as_GetIntD s ''AuthorizationCacheTTLSeconds'' 60);
          cacheTTLSeconds = (if cacheTTLSeconds < 0 then 0 else cacheTTLSeconds)
      in \<lparr>ac_Enabled = (case cfg of None \<Rightarrow> True | Some s \<Rightarrow> as_GetBoolD s ''AuthorizationEnabled'' True),
          ac_Service = ResolveServiceID (map_option as_getter cfg),
          ac_Category = [], ac_Action = [], ac_ResourceType = [],
          ac_FailOpen = (case cfg of None \<Rightarrow> False | Some s \<Rightarrow> as_GetBoolD s ''AuthorizationFailOpen'' False),
          ac_AllowServiceTokens = True, ac_RequireTenant = False,
          ac_CacheTTL = wrap64 (cacheTTLSeconds * Second),
          ac_SubjectUserIDResolver = Some SubjectFromClaims,
          ac_TenantIDResolver = Some TenantFromContextOrClaims,
          ac_CategoryResolver = None, ac_ActionResolver = None, ac_ResourceTypeResolver = None,
          ac_ResourceIDResolver = None, ac_ContextResolver = None\<rparr>)"

definition WithService :: "string \<Rightarrow> authz_config \<Rightarrow> authz_config" where
  "WithService service cfg = cfg\<lparr>ac_Service := TrimSpace service\<rparr>"

definition WithCategory :: "string \<Rightarrow> authz_config \<Rightarrow> authz_config" where
  "WithCategory category cfg = cfg\<lparr>ac_Category := TrimSpace category\<rparr>"

definition WithAction :: "string \<Rightarrow> authz_config \<Rightarrow> authz_config" where
  "WithAction action cfg = cfg\<lparr>ac_Action := TrimSpace action\<rparr>"

definition WithResourceType :: "string \<Rightarrow> authz_config \<Rightarrow> authz_config" where
  "WithResourceType resourceType cfg = cfg\<lparr>ac_ResourceType := TrimSpace resourceType\<rparr>"

definition WithRequireTenant :: "bool \<Rightarrow> authz_config \<Rightarrow> authz_config" where
  "WithRequireTenant required cfg = cfg\<lparr>ac_RequireTenant := required\<rparr>"

definition WithAllowServiceTokens :: "bool \<Rightarrow> authz_config \<Rightarrow> authz_config" where
  "WithAllowServiceTokens allow cfg = cfg\<lparr>ac_AllowServiceTokens := allow\<rparr>"

definition WithSubjectUserIDResolver :: "string_resolver option \<Rightarrow> authz_config \<Rightarrow> authz_config" where
  "WithSubjectUserIDResolver resolver cfg = cfg\<lparr>ac_SubjectUserIDResolver := resolver\<rparr>"

definition WithTenantIDResolver :: "string_resolver option \<Rightarrow> authz_config \<Rightarrow> authz_config" where
  "WithTenantIDResolver resolver cfg = cfg\<lparr>ac_TenantIDResolver := resolver\<rparr>"

definition WithCategoryResolver :: "string_resolver option \<Rightarrow> authz_config \<Rightarrow> authz_config" where
  "WithCategoryResolver resolver cfg = cfg\<lparr>ac_CategoryResolver := resolver\<rparr>"

definition WithActionResolver :: "string_resolver option \<Rightarrow> authz_config \<Rightarrow> authz_config" where
  "WithActionResolver resolver cfg = cfg\<lparr>ac_ActionResolver := resolver\<rparr>"

definition WithResourceTypeResolver :: "string_resolver option \<Rightarrow> authz_config \<Rightarrow> authz_config" where
  "WithResourceTypeResolver resolver cfg = cfg\<lparr>ac_ResourceTypeResolver := resolver\<rparr>"

definition WithResourceIDResolver :: "string_resolver option \<Rightarrow> authz_config \<Rightarrow> authz_config" where
  "WithResourceIDResolver resolver cfg = cfg\<lparr>ac_ResourceIDResolver := resolver\<rparr>"

definition WithContextResolver :: "context_resolver option \<Rightarrow> authz_config \<Rightarrow> authz_config" where
  "WithContextResolver resolver cfg = cfg\<lparr>ac_ContextResolver := resolver\<rparr>"

subsection \<open>Resolvers\<close>

definition StaticResolver :: "string \<Rightarrow> string_resolver" where
  "StaticResolver v = (let v = TrimSpace v in (\<lambda>r cl. v))"

definition ParamResolver :: "string \<Rightarrow> string_resolver" where
  "ParamResolver name =
     (let name = TrimSpace name in (\<lambda>r cl. if name = [] then [] else TrimSpace (Param (ar_ctx r) name)))"

definition QueryResolver :: "string \<Rightarrow> string_resolver" where
  "QueryResolver name =
     (let name = TrimSpace name in (\<lambda>r cl. if name = [] then [] else TrimSpace (Query (ar_ctx r) name)))"

definition HeaderResolver :: "string \<Rightarrow> string_resolver" where
  "HeaderResolver name =
     (let name = TrimSpace name in (\<lambda>r cl. if name = [] then [] else TrimSpace (ar_GetHeader r name)))"

definition WithResourcePathParam :: "string \<Rightarrow> authz_config \<Rightarrow> authz_config" where
  "WithResourcePathParam param cfg = cfg\<lparr>ac_ResourceIDResolver := Some (ParamResolver param)\<rparr>"

definition method_actions :: "string \<rightharpoonup> string" where
  "method_actions = [''GET'' \<mapsto> ''read'', ''HEAD'' \<mapsto> ''read'', ''POST'' \<mapsto> ''create'', ''PUT'' \<mapsto> ''update'',
     ''PATCH'' \<mapsto> ''update'', ''DELETE'' \<mapsto> ''delete'']"

definition add_override :: "string \<times> string \<Rightarrow> (string \<rightharpoonup> string) \<Rightarrow> (string \<rightharpoonup> string)" where
  "add_override e m =
     (let method = ToUpper (TrimSpace (fst e)); action = TrimSpace (snd e)
      in if method = [] \<or> action = [] then m else m(method \<mapsto> action))"

definition MethodActionResolver :: "(string \<times> string) list \<Rightarrow> string_resolver" where
  "MethodActionResolver overrides =
     (let resolved = fold add_override overrides method_actions
      in (\<lambda>r cl. TrimSpace (index_str resolved (ToUpper (TrimSpace (ar_Method r))))))"

definition WithActionFromMethod :: "authz_config \<Rightarrow> authz_config" where
  "WithActionFromMethod cfg = cfg\<lparr>ac_ActionResolver := Some (MethodActionResolver [])\<rparr>"

fun clean_names :: "string list \<Rightarrow> string list \<Rightarrow> string list" where
  "clean_names seen [] = []"
| "clean_names seen (name # names) =
     (let name = TrimSpace name
      in if name = [] then clean_names seen names
         else
           let key = ToLower name
           in if key \<in> set seen then clean_names seen names
              else name # clean_names (key # seen) names)"

definition cleanNames :: "string list \<Rightarrow> string list" where
  "cleanNames names = clean_names [] names"

definition collect_values :: "(string \<Rightarrow> string) \<Rightarrow> string list \<Rightarrow> (string \<times> string) list" where
  "collect_values look names =
     fold (\<lambda>name m. let v = TrimSpace (look name) in if v \<noteq> [] then AList.update name v m else m) names []"

definition QueryContextResolver :: "string list \<Rightarrow> context_resolver" where
  "QueryContextResolver names = (let clean = cleanNames names in (\<lambda>r cl. collect_values (Query (ar_ctx r)) clean))"

definition HeaderContextResolver :: "string list \<Rightarrow> context_resolver" where
  "HeaderContextResolver names = (let clean = cleanNames names in (\<lambda>r cl. collect_values (ar_GetHeader r) clean))"

definition add_clean :: "string \<times> string \<Rightarrow> (string \<times> string) list \<Rightarrow> (string \<times> string) list" where
  "add_clean e m =
     (let key = TrimSpace (fst e); v = TrimSpace (snd e)
      in if key = [] \<or> v = [] then m else AList.update key v m)"

definition MergeContextResolvers :: "context_resolver option list \<Rightarrow> context_resolver" where
  "MergeContextResolvers resolvers =
     (\<lambda>r cl. fold (\<lambda>resolver merged. case resolver of
                 None \<Rightarrow> merged
               | Some f \<Rightarrow> fold add_clean (f r cl) merged) resolvers [])"

definition sanitizeContext :: "(string \<times> string) list \<Rightarrow> (string \<times> string) list" where
  "sanitizeContext input = fold add_clean input []"

definition authz_requestBodyBytes :: "authz_request \<Rightarrow> string \<times> authz_request" where
  "authz_requestBodyBytes r =
     (case ar_bodyBytes r of
        Some payload \<Rightarrow> (payload, r)
      | None \<Rightarrow> (gc_body (ar_ctx r), r\<lparr>ar_bodyBytes := Some (gc_body (ar_ctx r))\<rparr>))"

definition requestJSONBody ::
    "(string \<Rightarrow> (string \<times> any) list option) \<Rightarrow> authz_request \<Rightarrow> (string \<times> any) list option \<times> authz_request" where
  "requestJSONBody unmarshal r =
     (case ar_bodyJSON r of
        Some body \<Rightarrow> (if length body = 0 then None else Some body, r)
      | None \<Rightarrow>
          let (payload, r) = authz_requestBodyBytes r
          in if length (TrimSpace payload) = 0 then (None, r\<lparr>ar_bodyJSON := Some []\<rparr>)
             else case unmarshal payload of
                    None \<Rightarrow> (None, r\<lparr>ar_bodyJSON := Some []\<rparr>)
                  | Some body \<Rightarrow> (Some body, r\<lparr>ar_bodyJSON := Some body\<rparr>))"

fun lookup_parts :: "string list \<Rightarrow> any \<Rightarrow> any option" where
  "lookup_parts [] current = Some current"
| "lookup_parts (part # parts) current =
     (let part = TrimSpace part
      in if part = [] then None
         else case current of
                AMap object \<Rightarrow> (case map_of object part of None \<Rightarrow> None | Some v \<Rightarrow> lookup_parts parts v)
              | _ \<Rightarrow> None)"

definition lookupJSONPath :: "(string \<times> any) list \<Rightarrow> string \<Rightarrow> any option" where
  "lookupJSONPath input path =
     (if length input = 0 then None else lookup_parts (Split path CHR ''.'') (AMap input))"

definition stringifyJSONContextValue :: "(any \<Rightarrow> string) \<Rightarrow> any \<Rightarrow> string option" where
  "stringifyJSONContextValue fmt_number v =
     (case v of
        ANil \<Rightarrow> None
      | AString s \<Rightarrow> let trimmed = TrimSpace s in if trimmed \<noteq> [] then Some trimmed else None
      | ABool b \<Rightarrow> Some (FormatBool b)
      | AFloat m e \<Rightarrow> Some (fmt_number v)
      | AInt n \<Rightarrow> Some (FormatInt n)
      | AInt64 n \<Rightarrow> Some (FormatInt n)
      | _ \<Rightarrow> None)"

definition add_path ::
    "(any \<Rightarrow> string) \<Rightarrow> (string \<times> any) list \<Rightarrow> string \<Rightarrow> (string \<times> string) list \<Rightarrow> (string \<times> string) list" where
  "add_path fmt_number body path m =
     (case lookupJSONPath body path of
        None \<Rightarrow> m
      | Some v \<Rightarrow> (case stringifyJSONContextValue fmt_number v of None \<Rightarrow> m | Some s \<Rightarrow> AList.update path s m))"

definition JSONBodyContextResolver ::
    "(any \<Rightarrow> string) \<Rightarrow> (string \<Rightarrow> (string \<times> any) list option) \<Rightarrow> string list \<Rightarrow> context_resolver" where
  "JSONBodyContextResolver fmt_number unmarshal paths =
     (let clean = cleanNames paths
      in (\<lambda>r cl.
           if length clean = 0 then []
           else case fst (requestJSONBody unmarshal r) of
                  None \<Rightarrow> []
                | Some body \<Rightarrow> if length body = 0 then [] else fold (add_path fmt_number body) clean []))"

subsection \<open>Building the question\<close>

definition resolveString :: "authz_request \<Rightarrow> claims \<Rightarrow> string_resolver option \<Rightarrow> string" where
  "resolveString r cl resolver = (case resolver of None \<Rightarrow> [] | Some f \<Rightarrow> TrimSpace (f r cl))"

text \<open>The question: a resolver, where there is one, replaces the configured value.\<close>

definition overridden :: "authz_request \<Rightarrow> claims \<Rightarrow> string_resolver option \<Rightarrow> string \<Rightarrow> string" where
  "overridden r cl resolver fixed =
     (if resolver \<noteq> None then resolveString r cl resolver else TrimSpace fixed)"

definition decision_question :: "authz_request \<Rightarrow> claims \<Rightarrow> authz_config \<Rightarrow> decision_request" where
  "decision_question r cl cfg =
     \<lparr>dr_SubjectUserID = resolveString r cl (ac_SubjectUserIDResolver cfg),
      dr_TenantID = resolveString r cl (ac_TenantIDResolver cfg),
      dr_Service = TrimSpace (ac_Service cfg),
      dr_Category = overridden r cl (ac_CategoryResolver cfg) (ac_Category cfg),
      dr_Action = overridden r cl (ac_ActionResolver cfg) (ac_Action cfg),
      dr_ResourceType = overridden r cl (ac_ResourceTypeResolver cfg) (ac_ResourceType cfg),
      dr_ResourceID = resolveString r cl (ac_ResourceIDResolver cfg),
      dr_Context = (case ac_ContextResolver cfg of None \<Rightarrow> [] | Some f \<Rightarrow> sanitizeContext (f r cl))\<rparr>"

definition buildDecisionRequest :: "authz_request \<Rightarrow> claims \<Rightarrow> authz_config \<Rightarrow> go_error + decision_request" where
  "buildDecisionRequest r cl cfg =
     (let input = decision_question r cl cfg
      in if TrimSpace (dr_SubjectUserID input) = [] then Err (EPlain ''subject_user_id resolver returned empty'')
         else if TrimSpace (dr_Service input) = [] then Err (EPlain ''service is required'')
         else if TrimSpace (dr_Category input) = [] then Err (EPlain ''category is required'')
         else if TrimSpace (dr_Action input) = [] then Err (EPlain ''action is required'')
         else if ac_RequireTenant cfg \<and> TrimSpace (dr_TenantID input) = [] then Err (EPlain ''tenant_id is required'')
         else Ok input)"

subsection \<open>The cache\<close>

record authz_cached =
  zd_result :: decision_response
  zd_expiresAt :: go_time

record authz_cache =
  zc_ttl :: go_duration
  zc_set :: "string \<rightharpoonup> authz_cached"

definition authz_newDecisionCache :: "go_duration \<Rightarrow> authz_cache" where
  "authz_newDecisionCache ttl = \<lparr>zc_ttl = ttl, zc_set = Map.empty\<rparr>"

text \<open>A copy of a value that is never changed.\<close>

definition cloneDecision :: "decision_response \<Rightarrow> decision_response" where
  "cloneDecision d = d"

definition authz_store :: "go_time \<Rightarrow> string \<Rightarrow> decision_response \<Rightarrow> authz_cache \<Rightarrow> authz_cache" where
  "authz_store now key result c =
     (if zc_ttl c \<le> 0 \<or> TrimSpace key = [] then c
      else c\<lparr>zc_set := (zc_set c)(key \<mapsto> \<lparr>zd_result = cloneDecision result, zd_expiresAt = now + zc_ttl c\<rparr>)\<rparr>)"

definition authz_lookup :: "go_time \<Rightarrow> string \<Rightarrow> authz_cache \<Rightarrow> decision_response option \<times> authz_cache" where
  "authz_lookup now key c =
     (if zc_ttl c \<le> 0 \<or> TrimSpace key = [] then (None, c)
      else case zc_set c key of
             None \<Rightarrow> (None, c)
           | Some entry \<Rightarrow>
               if now > zd_expiresAt entry then (None, c\<lparr>zc_set := (zc_set c)(key := None)\<rparr>)
               else (Some ((cloneDecision (zd_result entry))\<lparr>ds_CacheHit := True\<rparr>), c))"

text \<open>\<open>json.Marshal\<close> of a question and the hexadecimal SHA-256 digest.\<close>

record authz_env =
  ze_Marshal :: "decision_request \<Rightarrow> string"
  ze_sha256_hex :: "string \<Rightarrow> string"

definition decisionCacheKey :: "authz_env \<Rightarrow> decision_request \<Rightarrow> string" where
  "decisionCacheKey e input = ze_sha256_hex e (ze_Marshal e input)"

subsection \<open>The middleware\<close>

definition request_claims :: "authz_request \<Rightarrow> claims option" where
  "request_claims r =
     (case GetClaims (ar_ctx r) of Some cl \<Rightarrow> Some cl | None \<Rightarrow> ClaimsFromContext (gc_req (ar_ctx r)))"

definition fail_open_decision :: "decision_request \<Rightarrow> decision_response" where
  "fail_open_decision input =
     no_decision\<lparr>ds_Allowed := True, ds_SubjectUserID := dr_SubjectUserID input, ds_Service := dr_Service input,
       ds_PermissionCode := permissionCode (dr_Service input) (dr_Category input) (dr_Action input),
       ds_TenantID := dr_TenantID input, ds_ResourceType := dr_ResourceType input,
       ds_ResourceID := dr_ResourceID input, ds_Reasons := [''authz_fail_open'']\<rparr>"

text \<open>One request: \<open>net\<close> is the network as it answers this call, \<open>now\<close> the clock when the cache is used.\<close>

definition authz_Middleware ::
    "authz_env \<Rightarrow> http_decision_client option \<Rightarrow> authz_config \<Rightarrow> (decision_request, decision_response) decide_net \<Rightarrow>
     go_time \<Rightarrow> authz_request \<Rightarrow> authz_cache \<Rightarrow> authz_result \<times> authz_cache" where
  "authz_Middleware e client cfg net now r cache =
     (if \<not> ac_Enabled cfg then (AzNext r, cache)
      else case request_claims r of
        None \<Rightarrow> (AzAbort StatusUnauthorized ''unauthorized'' r, cache)
      | Some cl \<Rightarrow>
          if IsServiceToken cl then
            (if ac_AllowServiceTokens cfg then (AzNext r, cache)
             else (AzAbort StatusForbidden ''service_token_not_allowed'' r, cache))
          else
            let tokenUse = TrimSpace (TokenUse cl)
            in if tokenUse \<noteq> [] \<and> \<not> EqualFold tokenUse ''access''
               then (AzAbort StatusUnauthorized ''access_token_required'' r, cache)
               else case buildDecisionRequest r cl cfg of
                 Inl err \<Rightarrow> (AzAbort StatusInternalServerError ''authz_config_invalid'' r, cache)
               | Inr input \<Rightarrow>
                 let cacheKey = decisionCacheKey e input
                 in case authz_Decide net client input of
                      (_, Some err) \<Rightarrow>
                        (case authz_lookup now cacheKey cache of
                           (Some cached, cache) \<Rightarrow>
                             let r = storeDecision r cached
                             in (if ds_Allowed cached then AzNext r else abortDenied r cached, cache)
                         | (None, cache) \<Rightarrow>
                             if ac_FailOpen cfg then (AzNext (storeDecision r (fail_open_decision input)), cache)
                             else (AzAbort StatusServiceUnavailable ''authorization_unavailable'' r, cache))
                    | (decision, None) \<Rightarrow>
                        let cache = authz_store now cacheKey decision cache;
                            r = storeDecision r decision
                        in (if \<not> ds_Allowed decision then abortDenied r decision else AzNext r, cache))"

section \<open>Lemmas\<close>

text \<open>A question is about the user and the permission the configuration names.\<close>

lemma buildDecisionRequest_Ok:
  assumes "buildDecisionRequest r cl cfg = Inr input"
  shows "input = decision_question r cl cfg" "validateDecisionRequest input = None"
    "ac_RequireTenant cfg \<Longrightarrow> TrimSpace (dr_TenantID input) \<noteq> []"
  using assms by (auto simp: buildDecisionRequest_def validateDecisionRequest_def Let_def split: if_splits)

text \<open>A question that the middleware puts to the client for a user.\<close>

definition asks :: "authz_config \<Rightarrow> authz_request \<Rightarrow> decision_request option" where
  "asks cfg r =
     (case request_claims r of
        None \<Rightarrow> None
      | Some cl \<Rightarrow>
          if \<not> ac_Enabled cfg \<or> IsServiceToken cl \<or>
             TrimSpace (TokenUse cl) \<noteq> [] \<and> \<not> EqualFold (TrimSpace (TokenUse cl)) ''access'' then None
          else (case buildDecisionRequest r cl cfg of Inl _ \<Rightarrow> None | Inr input \<Rightarrow> Some input))"

fun az_is_next :: "authz_result \<Rightarrow> bool" where
  "az_is_next (AzNext r) = True"
| "az_is_next (AzAbort s m r) = False"

text \<open>What the middleware does with a question, and what it does without one.\<close>

lemma authz_Middleware_asks:
  assumes "asks cfg r = Some input"
  shows "authz_Middleware e client cfg net now r cache =
    (case authz_Decide net client input of
       (_, Some err) \<Rightarrow>
         (case authz_lookup now (decisionCacheKey e input) cache of
            (Some cached, cache) \<Rightarrow>
              (if ds_Allowed cached then AzNext (storeDecision r cached)
               else abortDenied (storeDecision r cached) cached, cache)
          | (None, cache) \<Rightarrow>
              if ac_FailOpen cfg then (AzNext (storeDecision r (fail_open_decision input)), cache)
              else (AzAbort StatusServiceUnavailable ''authorization_unavailable'' r, cache))
     | (decision, None) \<Rightarrow>
         (if \<not> ds_Allowed decision then abortDenied (storeDecision r decision) decision
          else AzNext (storeDecision r decision), authz_store now (decisionCacheKey e input) decision cache))"
proof -
  obtain cl where cl: "request_claims r = Some cl" "ac_Enabled cfg" "\<not> IsServiceToken cl"
    "\<not> (TrimSpace (TokenUse cl) \<noteq> [] \<and> \<not> EqualFold (TrimSpace (TokenUse cl)) ''access'')"
    "buildDecisionRequest r cl cfg = Inr input"
    using assms by (auto simp: asks_def split: option.splits if_splits sum.splits)
  show ?thesis
    unfolding authz_Middleware_def cl(1) Let_def option.case if_not_P [OF cl(3)] if_not_P [OF cl(4)] cl(5) sum.case
    using cl(2) by simp
qed

lemma authz_Middleware_silent:
  assumes "asks cfg r = None"
  shows "snd (authz_Middleware e client cfg net now r cache) = cache"
    and "az_is_next (fst (authz_Middleware e client cfg net now r cache)) \<longleftrightarrow>
      \<not> ac_Enabled cfg \<or> ac_AllowServiceTokens cfg \<and> (\<exists>cl. request_claims r = Some cl \<and> IsServiceToken cl)"
  using assms
  by (auto simp: authz_Middleware_def asks_def Let_def split: option.splits if_splits sum.splits)

subsection \<open>The cache holds the last answers\<close>

text \<open>A request with the network and the clock it meets, and the answer it gets for a key.\<close>

type_synonym authz_event = "(decision_request, decision_response) decide_net \<times> go_time \<times> authz_request"

fun answered :: "authz_env \<Rightarrow> http_decision_client option \<Rightarrow> authz_config \<Rightarrow> string \<Rightarrow> authz_event \<Rightarrow>
    (decision_response \<times> go_time) option" where
  "answered e client cfg key (net, now, r) =
     (case asks cfg r of
        None \<Rightarrow> None
      | Some input \<Rightarrow>
          if decisionCacheKey e input \<noteq> key then None
          else (case authz_Decide net client input of (d, None) \<Rightarrow> Some (d, now) | (_, Some _) \<Rightarrow> None))"

fun last_answer :: "authz_env \<Rightarrow> http_decision_client option \<Rightarrow> authz_config \<Rightarrow> string \<Rightarrow> authz_event list \<Rightarrow>
    (decision_response \<times> go_time) option" where
  "last_answer e client cfg key [] = None"
| "last_answer e client cfg key (x # xs) =
     (case last_answer e client cfg key xs of
        Some a \<Rightarrow> Some a
      | None \<Rightarrow> answered e client cfg key x)"

text \<open>The cache after the requests \<open>xs\<close>, the latest last.\<close>

definition cache_after ::
    "authz_env \<Rightarrow> http_decision_client option \<Rightarrow> authz_config \<Rightarrow> authz_event list \<Rightarrow> authz_cache" where
  "cache_after e client cfg xs =
     fold (\<lambda>(net, now, r) cache. snd (authz_Middleware e client cfg net now r cache)) xs
       (authz_newDecisionCache (ac_CacheTTL cfg))"

text \<open>The cache is one whose entries expire; what a request does to it are the events \<open>cache_events\<close>.\<close>

interpretation decisions: expiring_cache authz_store authz_lookup "\<lambda>k _. 0 < ttl \<and> TrimSpace k \<noteq> []" "\<lambda>now _. now + ttl"
    "\<lambda>d. (cloneDecision d)\<lparr>ds_CacheHit := True\<rparr>" "\<lambda>c. zc_ttl c = ttl" for ttl
  by unfold_locales (auto simp: authz_store_def authz_lookup_def cloneDecision_def split: option.splits)

definition cache_events :: "authz_env \<Rightarrow> http_decision_client option \<Rightarrow> authz_config \<Rightarrow> authz_event \<Rightarrow>
    (string, decision_response) cache_event list" where
  "cache_events e client cfg x =
     (case x of (net, now, r) \<Rightarrow>
        case asks cfg r of
          None \<Rightarrow> []
        | Some input \<Rightarrow>
            (case authz_Decide net client input of
               (d, None) \<Rightarrow> [CacheStore now (decisionCacheKey e input) d]
             | (_, Some _) \<Rightarrow> [CacheLookup now (decisionCacheKey e input)]))"

lemma authz_Middleware_cache:
  "snd (authz_Middleware e client cfg net now r cache) =
     cache_run authz_store authz_lookup (cache_events e client cfg (net, now, r)) cache"
proof (cases "asks cfg r")
  case None
  then show ?thesis by (simp add: authz_Middleware_silent(1) cache_events_def)
next
  case (Some input)
  then show ?thesis
    by (simp add: authz_Middleware_asks cache_events_def split: prod.splits option.splits)
qed

lemma cache_after_run:
  "cache_after e client cfg xs =
     cache_run authz_store authz_lookup (concat (map (cache_events e client cfg) xs)) (authz_newDecisionCache (ac_CacheTTL cfg))"
  by (induction xs rule: rev_induct) (auto simp: cache_after_def authz_Middleware_cache cache_run_append)

lemma last_answer_stored:
  "last_answer e client cfg key xs =
     map_option prod.swap (stored_last (concat (map (cache_events e client cfg) xs)) key)"
proof (induction xs)
  case (Cons x xs)
  have "answered e client cfg key x = map_option prod.swap (stored_last (cache_events e client cfg x) key)"
    by (cases x) (simp add: cache_events_def split: option.splits prod.splits)
  with Cons show ?case by (simp add: stored_last_append split: option.split)
qed simp

lemma cached_answer:
  assumes "fst (authz_lookup now key (cache_after e client cfg xs)) = Some cached"
  shows "\<exists>d t. last_answer e client cfg key xs = Some (d, t) \<and> cached = (cloneDecision d)\<lparr>ds_CacheHit := True\<rparr> \<and>
    now \<le> t + ac_CacheTTL cfg"
proof -
  have "zc_ttl (authz_newDecisionCache (ac_CacheTTL cfg)) = ac_CacheTTL cfg"
    "\<forall>t k. fst (authz_lookup t k (authz_newDecisionCache (ac_CacheTTL cfg))) = None"
    by (simp_all add: authz_newDecisionCache_def authz_lookup_def)
  from decisions.run_hit [OF this assms [unfolded cache_after_run]] show ?thesis
    by (auto simp: last_answer_stored)
qed

section \<open>Properties\<close>

text \<open>An allowing answer of the client was given by the endpoint, with a status of success.\<close>

lemma authz_Decide_Ok:
  assumes "authz_Decide net client input = (d, None)" and "ds_Allowed d"
  shows "\<exists>cl body status answer. client = Some cl \<and> dn_encode net input = Inr body \<and>
    dn_do net (AuthorizationDecisionURL (hd_baseURL cl)) body = Inr (status, answer) \<and> two_xx status \<and>
    dn_decode net answer = JValue d"
proof -
  obtain cl where cl: "client = Some cl" using assms by (auto simp: authz_Decide_def split: option.splits)
  let ?url = "AuthorizationDecisionURL (hd_baseURL cl)"
  obtain body where body: "dn_encode net input = Inr body"
    using assms cl by (auto simp: authz_Decide_def split: option.splits if_splits sum.splits)
  obtain status answer where reply: "dn_do net ?url body = Inr (status, answer)"
    using assms cl body by (auto simp: authz_Decide_def split: option.splits if_splits sum.splits)
  show ?thesis
    using assms cl body reply
    by (auto simp: authz_Decide_def no_decision_def Let_def
        split: option.splits if_splits sum.splits json_reply.splits)
qed


text \<open>A service with the endpoint \<open>cp\<close> that allows once and is down afterwards.\<close>

definition demo_authz_config :: authz_config where
  "demo_authz_config = WithAction ''read'' (WithCategory ''users'' (WithService ''iam'' (NewMiddlewareConfig None)))"

definition demo_authz_request :: authz_request where
  "demo_authz_request = \<lparr>ar_ctx = demo_request, ar_Method = ''GET'', ar_GetHeader = (\<lambda>_. []),
     ar_key_decision = None, ar_ctx_decision = None, ar_bodyBytes = None, ar_bodyJSON = None\<rparr>"

definition demo_authz_env :: authz_env where
  "demo_authz_env = \<lparr>ze_Marshal = (\<lambda>q. dr_SubjectUserID q), ze_sha256_hex = (\<lambda>s. CHR ''k'' # s)\<rparr>"

definition answer_net :: "int \<Rightarrow> decision_response \<Rightarrow> (decision_request, decision_response) decide_net" where
  "answer_net status d = \<lparr>dn_encode = (\<lambda>q. Ok ''{}''), dn_newRequest = (\<lambda>_ _. None),
     dn_do = (\<lambda>_ _. Ok (status, [])), dn_decode = (\<lambda>_. JValue d)\<rparr>"

definition demo_question :: decision_request where
  "demo_question = \<lparr>dr_SubjectUserID = ''u1'', dr_TenantID = ''t1'', dr_Service = ''iam'', dr_Category = ''users'',
     dr_Action = ''read'', dr_ResourceType = [], dr_ResourceID = [], dr_Context = []\<rparr>"

lemma demo_built: "buildDecisionRequest demo_authz_request demo_claims demo_authz_config = Inr demo_question"
  by (simp add: buildDecisionRequest_def decision_question_def demo_authz_config_def NewMiddlewareConfig_def
      WithAction_def WithCategory_def WithService_def resolveString_def overridden_def SubjectFromClaims_def
      TenantFromContextOrClaims_def demo_authz_request_def demo_request_def demo_claims_simps plain_char_code
      demo_question_def TenantIDFromContext_def RequestContextFromContext_def Background_def Let_def)

lemma demo_asks: "asks demo_authz_config demo_authz_request = Some demo_question"
proof -
  have "ac_Enabled demo_authz_config"
    by (simp add: demo_authz_config_def NewMiddlewareConfig_def WithAction_def WithCategory_def WithService_def Let_def)
  moreover have "request_claims demo_authz_request = Some demo_claims"
    by (simp add: request_claims_def demo_authz_request_def GetClaims_def demo_request_def)
  moreover have "EqualFold (TrimSpace (TokenUse demo_claims)) ''access''"
    by (simp add: demo_claims_def plain_char_code)
  ultimately show ?thesis using demo_claims_simps(5) demo_built by (simp add: asks_def)
qed

lemma demo_answer:
  "authz_Decide (answer_net status d) (Some demo_decider) demo_question =
     (d, if two_xx status then None
         else Some (EPlain (''authorization decision endpoint returned status '' @ FormatInt status)))"
  by (simp add: authz_Decide_def answer_net_def demo_decider_def demo_question_def validateDecisionRequest_def
      plain_char_code)

definition allow_u1 :: decision_response where
  "allow_u1 = no_decision\<lparr>ds_Allowed := True, ds_SubjectUserID := ''u1''\<rparr>"

lemma allow_u1_allowed: "ds_Allowed allow_u1"
  by (simp add: allow_u1_def)

lemma demo_key: "decisionCacheKey demo_authz_env demo_question = ''ku1''"
  by (simp add: decisionCacheKey_def demo_authz_env_def demo_question_def)

lemma demo_config_parts:
  "ac_Enabled demo_authz_config" "\<not> ac_FailOpen demo_authz_config" "ac_CacheTTL demo_authz_config = 60000000000"
  by (simp_all add: demo_authz_config_def NewMiddlewareConfig_def WithAction_def WithCategory_def WithService_def
      wrap64_def Second_def Let_def)

lemma demo_cache:
  "cache_after demo_authz_env (Some demo_decider) demo_authz_config [(answer_net 200 allow_u1, 5, demo_authz_request)] =
     \<lparr>zc_ttl = 60000000000, zc_set = [''ku1'' \<mapsto> \<lparr>zd_result = allow_u1, zd_expiresAt = 60000000005\<rparr>]\<rparr>"
  by (simp add: cache_after_def authz_Middleware_asks [OF demo_asks] demo_answer two_xx_def demo_key
      authz_store_def authz_newDecisionCache_def demo_config_parts cloneDecision_def plain_char_code)


text \<open>
  A refusal counts as an outage: when the decision endpoint answers with a status outside 2xx (403
  included), whatever its body says, a middleware that fails open lets the request pass unless the
  cache holds a denial, and one that does not fail open still honours a cached permission.
\<close>

lemma authz_refusal_is_outage:
  assumes "asks cfg r = Some input" and "client = Some cl"
    and "TrimSpace (hd_baseURL cl) \<noteq> []" "hd_initErr cl = None" "hd_hasClient cl"
    and "dn_encode net input = Inr body" "dn_newRequest net (AuthorizationDecisionURL (hd_baseURL cl)) body = None"
    and "dn_do net (AuthorizationDecisionURL (hd_baseURL cl)) body = Inr (status, answer)" "\<not> two_xx status"
    and "\<forall>d. fst (authz_lookup now (decisionCacheKey e input) cache) = Some d \<longrightarrow> ds_Allowed d"
    and "ac_FailOpen cfg \<or> fst (authz_lookup now (decisionCacheKey e input) cache) \<noteq> None"
  shows "az_is_next (fst (authz_Middleware e client cfg net now r cache))"
proof -
  have valid: "validateDecisionRequest input = None"
    using assms(1) buildDecisionRequest_Ok(2) by (auto simp: asks_def split: option.splits if_splits sum.splits)
  obtain d err where dec: "authz_Decide net client input = (d, Some err)"
    using assms(2-9) valid by (cases "dn_decode net answer") (auto simp: authz_Decide_def Let_def)
  show ?thesis
    using assms(10,11) by (auto simp: authz_Middleware_asks [OF assms(1)] dec split: prod.splits option.splits)
qed

lemma authz_refusal_is_outage_witness:
  "az_is_next (fst (authz_Middleware demo_authz_env (Some demo_decider) (demo_authz_config\<lparr>ac_FailOpen := True\<rparr>)
     (answer_net 403 no_decision) 10 demo_authz_request (authz_newDecisionCache 0)))"
proof -
  have "buildDecisionRequest demo_authz_request cl (demo_authz_config\<lparr>ac_FailOpen := True\<rparr>) =
      buildDecisionRequest demo_authz_request cl demo_authz_config" for cl
    by (simp add: buildDecisionRequest_def decision_question_def Let_def)
  then have "asks (demo_authz_config\<lparr>ac_FailOpen := True\<rparr>) demo_authz_request = Some demo_question"
    using demo_asks by (auto simp: asks_def split: option.splits if_splits)
  then show ?thesis
    by (rule authz_refusal_is_outage [OF _ refl, where body = "''{}''" and status = 403 and answer = "[]"])
      (simp_all add: demo_decider_def answer_net_def two_xx_def authz_lookup_def authz_newDecisionCache_def plain_char_code)
qed

end
