(* ===== verification/Http_Client.thy ===== *)
theory Http_Client
  imports Apperr Controlplane
begin

text \<open>
  \<open>pkg/http\<close>: the HTTP client with service tokens, retries and a circuit breaker (\<open>client.go\<close>), the token
  cache (\<open>token.go\<close>) and the token providers (\<open>provider.go\<close>, \<open>service_token_client.go\<close>). Everything outside
  is a state \<open>'w\<close>, on which the record \<open>http_world\<close> acts: the clock, the wait before a retry, sending one
  request, and the two halves of the circuit breaker's \<open>Execute\<close>. A client is its own state, since its
  token cache changes; it is returned by the operations that may change it.
\<close>

section \<open>Requests and the outside world\<close>

record http_request =
  hq_Method :: string
  hq_URL :: string
  hq_Header :: "string \<rightharpoonup> string"
  hq_Body :: "string option"

record http_response =
  hp_StatusCode :: int
  hp_Body :: string

text \<open>The transport of a client: the default one, or one with a client certificate and a CA.\<close>

datatype http_transport = DefaultTransport | TLSTransport string "string option"

record 'w http_world =
  hw_clock :: "'w \<Rightarrow> go_time \<times> 'w"
  hw_wait :: "go_duration \<Rightarrow> 'w \<Rightarrow> go_error option \<times> 'w"
  hw_do :: "http_transport \<Rightarrow> http_request \<Rightarrow> 'w \<Rightarrow> (go_error + http_response) \<times> 'w"
  hw_newRequest :: "string \<Rightarrow> string \<Rightarrow> go_error option"
  hw_breaker :: "'w \<Rightarrow> go_error option \<times> 'w"
  hw_breaker_done :: "bool \<Rightarrow> 'w \<Rightarrow> 'w"
  hw_is_open :: "go_error \<Rightarrow> bool"

text \<open>
  \<open>hw_wait\<close> gives the error of a cancelled context. \<open>hw_breaker\<close> is what the breaker does before a call
  (an error when it refuses it), \<open>hw_breaker_done\<close> what it does with the outcome, and \<open>hw_is_open\<close> tells
  its two errors \<open>ErrOpenState\<close> and \<open>ErrTooManyRequests\<close> from others.
\<close>

section \<open>pkg/http/token.go\<close>

text \<open>\<open>FetchToken\<close>: the request id stands for the context it is called with.\<close>

type_synonym 'w token_provider = "string \<Rightarrow> 'w \<Rightarrow> (go_error + string \<times> go_time) \<times> 'w"

record token_cache =
  tkc_token :: string
  tkc_expiresAt :: go_time
  tkc_refreshBuffer :: go_duration

definition NewTokenCache :: "go_duration \<Rightarrow> token_cache" where
  "NewTokenCache refreshBuffer =
     \<lparr>tkc_token = [], tkc_expiresAt = zero_time,
      tkc_refreshBuffer = (if refreshBuffer \<le> 0 then 30 * Second else refreshBuffer)\<rparr>"

definition token_valid :: "go_time \<Rightarrow> token_cache \<Rightarrow> bool" where
  "token_valid now tc = (tkc_token tc \<noteq> [] \<and> now < tkc_expiresAt tc - tkc_refreshBuffer tc)"

definition refreshToken ::
    "'w http_world \<Rightarrow> string \<Rightarrow> 'w token_provider \<Rightarrow> token_cache \<Rightarrow> 'w \<Rightarrow> (go_error + string) \<times> token_cache \<times> 'w" where
  "refreshToken hw requestID provider tc w =
     (let (now, w) = hw_clock hw w
      in if token_valid now tc then (Ok (tkc_token tc), tc, w)
         else case provider requestID w of
                (Inl err, w) \<Rightarrow> (Err err, tc, w)
              | (Inr (token, expiresAt), w) \<Rightarrow>
                  (Ok token, tc\<lparr>tkc_token := token, tkc_expiresAt := expiresAt\<rparr>, w))"

definition GetToken ::
    "'w http_world \<Rightarrow> string \<Rightarrow> 'w token_provider \<Rightarrow> token_cache \<Rightarrow> 'w \<Rightarrow> (go_error + string) \<times> token_cache \<times> 'w" where
  "GetToken hw requestID provider tc w =
     (let (now, w) = hw_clock hw w
      in if token_valid now tc then (Ok (tkc_token tc), tc, w)
         else refreshToken hw requestID provider tc w)"

definition Invalidate :: "token_cache \<Rightarrow> token_cache" where
  "Invalidate tc = tc\<lparr>tkc_token := [], tkc_expiresAt := zero_time\<rparr>"

definition tokenCache_IsValid :: "go_time \<Rightarrow> token_cache \<Rightarrow> bool" where
  "tokenCache_IsValid now tc = token_valid now tc"

section \<open>pkg/http/client.go\<close>

subsection \<open>Construction\<close>

record 'w http_client =
  hc_transport :: http_transport
  hc_tokenCache :: "('w token_provider \<times> token_cache) option"
  hc_retryMax :: int
  hc_retryDelay :: go_duration
  hc_requestHooks :: "(http_request \<Rightarrow> go_error + http_request) list"
  hc_responseHooks :: "(http_response \<Rightarrow> go_error option) list"
  hc_circuitBreaker :: bool

definition WithTokenProvider :: "'w token_provider \<Rightarrow> go_duration \<Rightarrow> 'w http_client \<Rightarrow> 'w http_client" where
  "WithTokenProvider provider refreshBuffer c = c\<lparr>hc_tokenCache := Some (provider, NewTokenCache refreshBuffer)\<rparr>"

definition WithHTTPClient :: "http_transport \<Rightarrow> 'w http_client \<Rightarrow> 'w http_client" where
  "WithHTTPClient tr c = c\<lparr>hc_transport := tr\<rparr>"

text \<open>\<open>breaker_open\<close> is the state the breaker reports.\<close>

definition IsCircuitOpen :: "bool \<Rightarrow> 'w http_client \<Rightarrow> bool" where
  "IsCircuitOpen breaker_open c = (if \<not> hc_circuitBreaker c then False else breaker_open)"

definition WithRetry :: "int \<Rightarrow> go_duration \<Rightarrow> 'w http_client \<Rightarrow> 'w http_client" where
  "WithRetry maxAttempts delay c =
     c\<lparr>hc_retryMax := (if maxAttempts \<le> 0 then 1 else maxAttempts),
       hc_retryDelay := (if delay \<le> 0 then 100 * Millisecond else delay)\<rparr>"

definition WithCircuitBreaker :: "'w http_client \<Rightarrow> 'w http_client" where
  "WithCircuitBreaker c = c\<lparr>hc_circuitBreaker := True\<rparr>"

definition WithRequestHook :: "(http_request \<Rightarrow> go_error + http_request) \<Rightarrow> 'w http_client \<Rightarrow> 'w http_client" where
  "WithRequestHook hook c = c\<lparr>hc_requestHooks := hc_requestHooks c @ [hook]\<rparr>"

definition WithResponseHook :: "(http_response \<Rightarrow> go_error option) \<Rightarrow> 'w http_client \<Rightarrow> 'w http_client" where
  "WithResponseHook hook c = c\<lparr>hc_responseHooks := hc_responseHooks c @ [hook]\<rparr>"

text \<open>The files: a key pair as the certificate it gives, the text of a file, and whether it holds a CA.\<close>

record tls_files =
  tf_LoadX509KeyPair :: "string \<Rightarrow> string \<Rightarrow> string option"
  tf_ReadFile :: "string \<Rightarrow> string option"
  tf_AppendCertsFromPEM :: "string \<Rightarrow> bool"

definition WithMTLS :: "tls_files \<Rightarrow> string \<Rightarrow> string \<Rightarrow> string \<Rightarrow> 'w http_client \<Rightarrow> 'w http_client" where
  "WithMTLS files certFile keyFile caFile c =
     (case tf_LoadX509KeyPair files certFile keyFile of
        None \<Rightarrow> c
      | Some cert \<Rightarrow>
          if caFile \<noteq> [] then
            (case tf_ReadFile files caFile of
               None \<Rightarrow> c
             | Some caCert \<Rightarrow>
                 if \<not> tf_AppendCertsFromPEM files caCert then c
                 else c\<lparr>hc_transport := TLSTransport cert (Some caCert)\<rparr>)
          else c\<lparr>hc_transport := TLSTransport cert None\<rparr>)"

definition http_NewClient :: "('w http_client \<Rightarrow> 'w http_client) list \<Rightarrow> 'w http_client" where
  "http_NewClient opts =
     fold (\<lambda>opt c. opt c) opts
       \<lparr>hc_transport = DefaultTransport, hc_tokenCache = None, hc_retryMax = 3, hc_retryDelay = 100 * Millisecond,
        hc_requestHooks = [], hc_responseHooks = [], hc_circuitBreaker = False\<rparr>"

subsection \<open>Sending\<close>

fun applyRequestHooks :: "(http_request \<Rightarrow> go_error + http_request) list \<Rightarrow> http_request \<Rightarrow> go_error + http_request" where
  "applyRequestHooks [] req = Ok req"
| "applyRequestHooks (hook # hooks) req =
     (case hook req of
        Inl err \<Rightarrow> Err (EFmt (''request hook failed: '' @ Error err) err)
      | Inr req \<Rightarrow> applyRequestHooks hooks req)"

fun applyResponseHooks :: "(http_response \<Rightarrow> go_error option) list \<Rightarrow> http_response \<Rightarrow> go_error option" where
  "applyResponseHooks [] resp = None"
| "applyResponseHooks (hook # hooks) resp =
     (case hook resp of
        Some err \<Rightarrow> Some (EFmt (''response hook failed: '' @ Error err) err)
      | None \<Rightarrow> applyResponseHooks hooks resp)"

definition set_bearer :: "string \<Rightarrow> http_request \<Rightarrow> http_request" where
  "set_bearer token req = req\<lparr>hq_Header := (hq_Header req)(''Authorization'' \<mapsto> ''Bearer '' @ token)\<rparr>"

definition injectToken ::
    "'w http_world \<Rightarrow> string \<Rightarrow> string \<Rightarrow> 'w http_client \<Rightarrow> http_request \<Rightarrow> 'w \<Rightarrow>
     (go_error + http_request) \<times> 'w http_client \<times> 'w" where
  "injectToken hw requestID failure c req w =
     (case hc_tokenCache c of
        None \<Rightarrow> (Ok req, c, w)
      | Some (provider, tc) \<Rightarrow>
          (case GetToken hw requestID provider tc w of
             (Inl err, tc, w) \<Rightarrow>
               (Err (EFmt (failure @ Error err) err), c\<lparr>hc_tokenCache := Some (provider, tc)\<rparr>, w)
           | (Inr token, tc, w) \<Rightarrow>
               (Ok (set_bearer token req), c\<lparr>hc_tokenCache := Some (provider, tc)\<rparr>, w)))"

text \<open>\<open>requestID\<close> is the request id of the context, empty when there is none.\<close>

definition prepareRequest ::
    "'w http_world \<Rightarrow> string \<Rightarrow> 'w http_client \<Rightarrow> http_request \<Rightarrow> 'w \<Rightarrow>
     (go_error + http_request) \<times> 'w http_client \<times> 'w" where
  "prepareRequest hw requestID c req w =
     (case applyRequestHooks (hc_requestHooks c) req of
        Inl err \<Rightarrow> (Err err, c, w)
      | Inr req \<Rightarrow>
          let req = (if index_str (hq_Header req) ''X-Request-ID'' = [] \<and> requestID \<noteq> []
                     then req\<lparr>hq_Header := (hq_Header req)(''X-Request-ID'' \<mapsto> requestID)\<rparr> else req)
          in injectToken hw requestID ''failed to get token: '' c req w)"

definition waitForRetry :: "'w http_world \<Rightarrow> 'w http_client \<Rightarrow> nat \<Rightarrow> 'w \<Rightarrow> go_error option \<times> 'w" where
  "waitForRetry hw c attempt w =
     hw_wait hw (wrap64 (hc_retryDelay c * wrap64 (2 ^ (attempt - 1)))) w"

definition send :: "'w http_world \<Rightarrow> 'w http_client \<Rightarrow> http_request \<Rightarrow> 'w \<Rightarrow> (go_error + http_response) \<times> 'w" where
  "send hw c req w =
     (if hc_circuitBreaker c then
        (case hw_breaker hw w of
           (Some err, w) \<Rightarrow> (Err err, w)
         | (None, w) \<Rightarrow>
             (case hw_do hw (hc_transport c) req w of
                (Inl err, w) \<Rightarrow> (Err err, hw_breaker_done hw False w)
              | (Inr resp, w) \<Rightarrow>
                  if hp_StatusCode resp \<ge> 500
                  then (Err (EPlain (''server error: '' @ FormatInt (hp_StatusCode resp))), hw_breaker_done hw False w)
                  else (Ok resp, hw_breaker_done hw True w)))
      else hw_do hw (hc_transport c) req w)"

definition executeRequest ::
    "'w http_world \<Rightarrow> string \<Rightarrow> http_request \<Rightarrow> string \<Rightarrow> nat \<Rightarrow> 'w http_client \<Rightarrow> 'w \<Rightarrow>
     (go_error + http_response) \<times> 'w http_client \<times> 'w" where
  "executeRequest hw requestID req bodyBytes attempt c w =
     (let reqClone = (if length bodyBytes > 0 then req\<lparr>hq_Body := Some bodyBytes\<rparr> else req)
      in case (if hc_tokenCache c \<noteq> None \<and> attempt > 0
               then injectToken hw requestID ''failed to get token for retry: '' c reqClone w else (Ok reqClone, c, w)) of
           (Inl err, c, w) \<Rightarrow> (Err err, c, w)
         | (Inr reqClone, c, w) \<Rightarrow> (case send hw c reqClone w of (r, w) \<Rightarrow> (r, c, w)))"

definition shouldRetryOn401 :: "'w http_client \<Rightarrow> http_response \<Rightarrow> nat \<Rightarrow> bool" where
  "shouldRetryOn401 c resp attempt =
     (hp_StatusCode resp = StatusUnauthorized \<and> hc_tokenCache c \<noteq> None \<and> int attempt < hc_retryMax c - 1)"

definition handle401 :: "'w http_client \<Rightarrow> 'w http_client" where
  "handle401 c = c\<lparr>hc_tokenCache := map_option (\<lambda>(p, tc). (p, Invalidate tc)) (hc_tokenCache c)\<rparr>"

definition retries_exhausted :: "int \<Rightarrow> go_error option \<Rightarrow> go_error" where
  "retries_exhausted retryMax lastErr =
     (case lastErr of
        None \<Rightarrow> EPlain (''request failed after '' @ FormatInt retryMax @ '' attempts: %!w(<nil>)'')
      | Some err \<Rightarrow> EFmt (''request failed after '' @ FormatInt retryMax @ '' attempts: '' @ Error err) err)"

text \<open>The retry loop: \<open>n\<close> attempts are left, \<open>attempt\<close> is the index of the next one.\<close>

fun attempts ::
    "'w http_world \<Rightarrow> string \<Rightarrow> http_request \<Rightarrow> string \<Rightarrow> nat \<Rightarrow> nat \<Rightarrow> go_error option \<Rightarrow> 'w http_client \<Rightarrow> 'w \<Rightarrow>
     (go_error + http_response) \<times> 'w http_client \<times> 'w" where
  "attempts hw requestID req body 0 attempt lastErr c w = (Err (retries_exhausted (hc_retryMax c) lastErr), c, w)"
| "attempts hw requestID req body (Suc n) attempt lastErr c w =
     (case (if attempt > 0 then waitForRetry hw c attempt w else (None, w)) of
        (Some err, w) \<Rightarrow> (Err err, c, w)
      | (None, w) \<Rightarrow>
          (case executeRequest hw requestID req body attempt c w of
             (Inl err, c, w) \<Rightarrow>
               if hw_is_open hw err then (Err (retries_exhausted (hc_retryMax c) (Some err)), c, w)
               else attempts hw requestID req body n (Suc attempt) (Some err) c w
           | (Inr resp, c, w) \<Rightarrow>
               (case applyResponseHooks (hc_responseHooks c) resp of
                  Some err \<Rightarrow> (Err err, c, w)
                | None \<Rightarrow>
                    if shouldRetryOn401 c resp attempt
                    then attempts hw requestID req body n (Suc attempt) lastErr (handle401 c) w
                    else (Ok resp, c, w))))"

definition executeWithRetry ::
    "'w http_world \<Rightarrow> string \<Rightarrow> http_request \<Rightarrow> string \<Rightarrow> 'w http_client \<Rightarrow> 'w \<Rightarrow>
     (go_error + http_response) \<times> 'w http_client \<times> 'w" where
  "executeWithRetry hw requestID req body c w = attempts hw requestID req body (nat (hc_retryMax c)) 0 None c w"

definition readRequestBody :: "http_request \<Rightarrow> string" where
  "readRequestBody req = (case hq_Body req of None \<Rightarrow> [] | Some b \<Rightarrow> b)"

definition http_Do ::
    "'w http_world \<Rightarrow> string \<Rightarrow> http_request \<Rightarrow> 'w http_client \<Rightarrow> 'w \<Rightarrow>
     (go_error + http_response) \<times> 'w http_client \<times> 'w" where
  "http_Do hw requestID req c w =
     (case prepareRequest hw requestID c req w of
        (Inl err, c, w) \<Rightarrow> (Err err, c, w)
      | (Inr req, c, w) \<Rightarrow> executeWithRetry hw requestID req (readRequestBody req) c w)"

subsection \<open>Convenience calls\<close>

text \<open>A body is given as the outcome of \<open>json.Marshal\<close>, \<open>None\<close> for a nil body.\<close>

definition bodyless ::
    "string \<Rightarrow> 'w http_world \<Rightarrow> string \<Rightarrow> string \<Rightarrow> 'w http_client \<Rightarrow> 'w \<Rightarrow>
     (go_error + http_response) \<times> 'w http_client \<times> 'w" where
  "bodyless meth hw requestID url c w =
     (case hw_newRequest hw meth url of
        Some err \<Rightarrow> (Err err, c, w)
      | None \<Rightarrow> http_Do hw requestID \<lparr>hq_Method = meth, hq_URL = url, hq_Header = Map.empty, hq_Body = None\<rparr> c w)"

definition http_Get ::
    "'w http_world \<Rightarrow> string \<Rightarrow> string \<Rightarrow> 'w http_client \<Rightarrow> 'w \<Rightarrow>
     (go_error + http_response) \<times> 'w http_client \<times> 'w" where
  "http_Get = bodyless ''GET''"

definition http_Delete ::
    "'w http_world \<Rightarrow> string \<Rightarrow> string \<Rightarrow> 'w http_client \<Rightarrow> 'w \<Rightarrow>
     (go_error + http_response) \<times> 'w http_client \<times> 'w" where
  "http_Delete = bodyless ''DELETE''"

definition postPutPatch ::
    "'w http_world \<Rightarrow> string \<Rightarrow> string \<Rightarrow> string \<Rightarrow> (go_error + string) option \<Rightarrow> 'w http_client \<Rightarrow> 'w \<Rightarrow>
     (go_error + http_response) \<times> 'w http_client \<times> 'w" where
  "postPutPatch hw requestID meth url body c w =
     (case body of
        Some (Inl err) \<Rightarrow> (Err (EFmt (''failed to marshal request body: '' @ Error err) err), c, w)
      | _ \<Rightarrow>
          (case hw_newRequest hw meth url of
             Some err \<Rightarrow> (Err err, c, w)
           | None \<Rightarrow>
               http_Do hw requestID
                 \<lparr>hq_Method = meth, hq_URL = url,
                  hq_Header = (if body \<noteq> None then [''Content-Type'' \<mapsto> ''application/json''] else Map.empty),
                  hq_Body = (case body of Some (Inr b) \<Rightarrow> Some b | _ \<Rightarrow> None)\<rparr> c w))"

definition http_Post where "http_Post hw requestID = postPutPatch hw requestID ''POST''"
definition http_Put where "http_Put hw requestID = postPutPatch hw requestID ''PUT''"
definition http_Patch where "http_Patch hw requestID = postPutPatch hw requestID ''PATCH''"

text \<open>\<open>decode\<close> is the JSON decoder into the given destination, \<open>None\<close> when that is nil.\<close>

definition DoJSON ::
    "'w http_world \<Rightarrow> string \<Rightarrow> (string \<Rightarrow> go_error + 'v) option \<Rightarrow> http_request \<Rightarrow> 'w http_client \<Rightarrow> 'w \<Rightarrow>
     (go_error + 'v option) \<times> 'w http_client \<times> 'w" where
  "DoJSON hw requestID decode req c w =
     (case http_Do hw requestID req c w of
        (Inl err, c, w) \<Rightarrow> (Err err, c, w)
      | (Inr resp, c, w) \<Rightarrow>
          if hp_StatusCode resp < 200 \<or> hp_StatusCode resp \<ge> 300
          then (Err (EPlain (''request failed with status '' @ FormatInt (hp_StatusCode resp) @ '': '' @ hp_Body resp)), c, w)
          else case decode of
                 None \<Rightarrow> (Ok None, c, w)
               | Some dec \<Rightarrow>
                   (case dec (hp_Body resp) of
                      Inl err \<Rightarrow> (Err (EFmt (''failed to decode response: '' @ Error err) err), c, w)
                    | Inr v \<Rightarrow> (Ok (Some v), c, w)))"

definition send_json ::
    "string \<Rightarrow> 'w http_world \<Rightarrow> string \<Rightarrow> string \<Rightarrow> (go_error + string) option \<Rightarrow> (string \<Rightarrow> go_error + 'v) option \<Rightarrow>
     'w http_client \<Rightarrow> 'w \<Rightarrow> (go_error + 'v option) \<times> 'w http_client \<times> 'w" where
  "send_json meth hw requestID url body decode c w =
     (case hw_newRequest hw meth url of
        Some err \<Rightarrow> (Err err, c, w)
      | None \<Rightarrow>
          (case body of
             Some (Inl err) \<Rightarrow> (Err (EFmt (''failed to marshal request body: '' @ Error err) err), c, w)
           | Some (Inr b) \<Rightarrow>
               DoJSON hw requestID decode
                 \<lparr>hq_Method = meth, hq_URL = url, hq_Header = [''Content-Type'' \<mapsto> ''application/json''], hq_Body = Some b\<rparr> c w
           | None \<Rightarrow>
               DoJSON hw requestID decode
                 \<lparr>hq_Method = meth, hq_URL = url, hq_Header = Map.empty, hq_Body = None\<rparr> c w))"

definition GetJSON where "GetJSON hw requestID url = send_json ''GET'' hw requestID url None"
definition PostJSON where "PostJSON = send_json ''POST''"
definition PutJSON where "PutJSON = send_json ''PUT''"

section \<open>pkg/http/provider.go\<close>

record token_reply =
  tr_AccessToken :: string
  tr_ExpiresIn :: int
  tr_ExpiresAt :: string

record oauth2_provider =
  oa_TokenURL :: string
  oa_ClientID :: string
  oa_ClientSecret :: string
  oa_Scope :: string

definition NewOAuth2ClientCredentialsProvider :: "string \<Rightarrow> string \<Rightarrow> string \<Rightarrow> string \<Rightarrow> oauth2_provider" where
  "NewOAuth2ClientCredentialsProvider tokenURL clientID clientSecret scope =
     \<lparr>oa_TokenURL = tokenURL, oa_ClientID = clientID, oa_ClientSecret = clientSecret, oa_Scope = scope\<rparr>"

text \<open>\<open>url.QueryEscape\<close>, and \<open>url.Values.Encode\<close> on entries that are already sorted by key.\<close>

definition query_escape_char :: "char \<Rightarrow> string" where
  "query_escape_char c =
     (if c = CHR '' '' then ''+''
      else if path_safe c \<and> c \<notin> set ''$&+:=@'' then [c]
      else [CHR ''%'', hex_digit (of_char c div 16), hex_digit (of_char c mod 16)])"

definition QueryEscape :: "string \<Rightarrow> string" where
  "QueryEscape s = concat (map query_escape_char s)"

definition form_encode :: "(string \<times> string) list \<Rightarrow> string" where
  "form_encode kvs = Join (map (\<lambda>(k, v). QueryEscape k @ ''='' @ QueryEscape v) kvs) ''&''"

definition oauth2_FetchToken ::
    "'w http_world \<Rightarrow> (string \<Rightarrow> go_error + token_reply) \<Rightarrow> oauth2_provider \<Rightarrow> 'w token_provider" where
  "oauth2_FetchToken hw decode p requestID w =
     (let data = [(''client_id'', oa_ClientID p), (''client_secret'', oa_ClientSecret p),
                  (''grant_type'', ''client_credentials'')] @
                 (if oa_Scope p \<noteq> [] then [(''scope'', oa_Scope p)] else [])
      in case hw_newRequest hw ''POST'' (oa_TokenURL p) of
           Some err \<Rightarrow> (Err (EFmt (''failed to create token request: '' @ Error err) err), w)
         | None \<Rightarrow>
             (case hw_do hw DefaultTransport
                     \<lparr>hq_Method = ''POST'', hq_URL = oa_TokenURL p,
                      hq_Header = [''Content-Type'' \<mapsto> ''application/x-www-form-urlencoded''],
                      hq_Body = Some (form_encode data)\<rparr> w of
                (Inl err, w) \<Rightarrow> (Err (EFmt (''failed to fetch token: '' @ Error err) err), w)
              | (Inr resp, w) \<Rightarrow>
                  if hp_StatusCode resp \<noteq> StatusOK
                  then (Err (EPlain (''token request failed with status '' @ FormatInt (hp_StatusCode resp) @
                          '': '' @ hp_Body resp)), w)
                  else case decode (hp_Body resp) of
                         Inl err \<Rightarrow> (Err (EFmt (''failed to decode token response: '' @ Error err) err), w)
                       | Inr reply \<Rightarrow>
                           if tr_AccessToken reply = [] then (Err (EPlain ''empty access token in response''), w)
                           else
                             let (now, w) = hw_clock hw w;
                                 expiresAt = (if tr_ExpiresIn reply > 0
                                              then now + wrap64 (wrap64 (tr_ExpiresIn reply - 10) * Second)
                                              else now + Hour)
                             in (Ok (tr_AccessToken reply, expiresAt), w)))"

definition static_FetchToken :: "'w http_world \<Rightarrow> string \<Rightarrow> 'w token_provider" where
  "static_FetchToken hw token requestID w =
     (let (now, w) = hw_clock hw w in (Ok (token, now + 24 * 365 * Hour), w))"

definition custom_FetchToken :: "'w token_provider option \<Rightarrow> 'w token_provider" where
  "custom_FetchToken fetchFunc requestID w =
     (case fetchFunc of None \<Rightarrow> (Err (EPlain ''fetch function is nil''), w) | Some f \<Rightarrow> f requestID w)"

section \<open>The service token client\<close>

record service_token_provider =
  sv_ServiceURL :: string
  sv_ServiceID :: string
  sv_APIKey :: string
  sv_Scope :: string
  sv_Audience :: "string list"

text \<open>The JSON body of a token request, and what the provider uses of the JSON and time libraries.\<close>

record token_question =
  tq_service_id :: string
  tq_api_key :: string
  tq_scope :: "string option"
  tq_audience :: "string list option"

record token_codec =
  tj_Marshal :: "token_question \<Rightarrow> go_error + string"
  tj_decode :: "string \<Rightarrow> go_error + token_reply"
  tj_parseRFC3339 :: "string \<Rightarrow> go_time option"

definition NewServiceTokenProvider :: "service_token_provider \<Rightarrow> service_token_provider" where
  "NewServiceTokenProvider cfg = (if sv_Scope cfg = [] then cfg\<lparr>sv_Scope := ''service''\<rparr> else cfg)"

definition parseExpirationTime :: "token_codec \<Rightarrow> string \<Rightarrow> int \<Rightarrow> go_time \<Rightarrow> go_time" where
  "parseExpirationTime codec expiresAtStr expiresIn now =
     (case (if expiresAtStr \<noteq> [] then tj_parseRFC3339 codec expiresAtStr else None) of
        Some parsed \<Rightarrow> parsed
      | None \<Rightarrow> if expiresIn > 0 then now + wrap64 (expiresIn * Second) else now + Hour)"

text \<open>\<open>base\<close> is the client of the provider; it has no token cache and does not change.\<close>

definition service_FetchToken ::
    "'w http_world \<Rightarrow> token_codec \<Rightarrow> 'w http_client \<Rightarrow> service_token_provider \<Rightarrow> 'w token_provider" where
  "service_FetchToken hw codec base p requestID w =
     (if sv_ServiceURL p = [] then (Err (EPlain ''service URL is required''), w)
      else if sv_ServiceID p = [] then (Err (EPlain ''service ID is required''), w)
      else if sv_APIKey p = [] then (Err (EPlain ''API key is required''), w)
      else
        let scope = TrimSpace (sv_Scope p);
            req = \<lparr>tq_service_id = sv_ServiceID p, tq_api_key = sv_APIKey p,
                   tq_scope = (if scope \<noteq> [] then Some scope else None),
                   tq_audience = (if length (sv_Audience p) > 0 then Some (sv_Audience p) else None)\<rparr>;
            url = sv_ServiceURL p @ ''/internal/api/v1/service-token''
        in case tj_Marshal codec req of
             Inl err \<Rightarrow> (Err (EFmt (''failed to marshal service token request: '' @ Error err) err), w)
           | Inr body \<Rightarrow>
               (case hw_newRequest hw ''POST'' url of
                  Some err \<Rightarrow> (Err (EFmt (''failed to create service token request: '' @ Error err) err), w)
                | None \<Rightarrow>
                    (case DoJSON hw requestID (Some (tj_decode codec))
                            \<lparr>hq_Method = ''POST'', hq_URL = url,
                             hq_Header = [''Content-Type'' \<mapsto> ''application/json''], hq_Body = Some body\<rparr> base w of
                       (Inl err, _, w) \<Rightarrow> (Err (EFmt (''failed to call service token API: '' @ Error err) err), w)
                     | (Inr None, _, w) \<Rightarrow> (Err (EPlain ''empty access token in response''), w)
                     | (Inr (Some resp), _, w) \<Rightarrow>
                         if tr_AccessToken resp = [] then (Err (EPlain ''empty access token in response''), w)
                         else
                           let (now, w) = hw_clock hw w
                           in (Ok (tr_AccessToken resp, parseExpirationTime codec (tr_ExpiresAt resp) (tr_ExpiresIn resp) now), w))))"

definition missing_keys :: "string \<Rightarrow> string list \<Rightarrow> go_error" where
  "missing_keys what missing = EPlain (what @ '' configuration missing required keys: '' @ Join missing '', '')"

definition controlPlaneMTLSOptions ::
    "tls_files \<Rightarrow> mtls_config \<Rightarrow> go_error + ('w http_client \<Rightarrow> 'w http_client) list" where
  "controlPlaneMTLSOptions files mtls =
     (let missing = mtls_MissingRequiredFields mtls
      in if length missing > 0 then Err (missing_keys ''control-plane mTLS'' missing)
         else Ok [WithMTLS files (mt_CertFile mtls) (mt_KeyFile mtls) (mt_CAFile mtls)])"

definition NewClientWithServiceTokenForAudience ::
    "'w http_world \<Rightarrow> token_codec \<Rightarrow> tls_files \<Rightarrow> cfg_getter option \<Rightarrow> string list \<Rightarrow> go_error + 'w http_client" where
  "NewClientWithServiceTokenForAudience hw codec files cfg audience =
     (if cfg = None then Err (EPlain ''config not configured'')
      else
        let settings = ResolveServiceTokenConfig cfg;
            missing = MissingRequiredFields settings
        in if length missing > 0 then Err (missing_keys ''service token'' missing)
           else
             let settings = (if length audience > 0 then settings\<lparr>tc_Audience := audience\<rparr> else settings)
             in case controlPlaneMTLSOptions files (tc_MTLS settings) of
                  Inl err \<Rightarrow> Err err
                | Inr mtlsOpts \<Rightarrow>
                    let baseClient = http_NewClient mtlsOpts;
                        tokenProvider = NewServiceTokenProvider
                          \<lparr>sv_ServiceURL = tc_BaseURL settings, sv_ServiceID = tc_ServiceID settings,
                           sv_APIKey = tc_APIKey settings, sv_Scope = tc_Scope settings, sv_Audience = tc_Audience settings\<rparr>
                    in Ok (http_NewClient (mtlsOpts @
                         [WithTokenProvider (service_FetchToken hw codec baseClient tokenProvider) Minute])))"

definition NewClientWithServiceToken ::
    "'w http_world \<Rightarrow> token_codec \<Rightarrow> tls_files \<Rightarrow> cfg_getter option \<Rightarrow> go_error + 'w http_client" where
  "NewClientWithServiceToken hw codec files cfg = NewClientWithServiceTokenForAudience hw codec files cfg []"

text \<open>The body of \<open>NewInternalControlPlaneClientForAudience\<close> is the one of the function above.\<close>

definition NewInternalControlPlaneClientForAudience ::
    "'w http_world \<Rightarrow> token_codec \<Rightarrow> tls_files \<Rightarrow> cfg_getter option \<Rightarrow> string list \<Rightarrow> go_error + 'w http_client" where
  "NewInternalControlPlaneClientForAudience = NewClientWithServiceTokenForAudience"

definition NewInternalControlPlaneClient ::
    "'w http_world \<Rightarrow> token_codec \<Rightarrow> tls_files \<Rightarrow> cfg_getter option \<Rightarrow> go_error + 'w http_client" where
  "NewInternalControlPlaneClient hw codec files cfg =
     NewInternalControlPlaneClientForAudience hw codec files cfg (ResolveInternalAudience cfg)"

section \<open>Lemmas\<close>

lemma GetToken_cases:
  assumes "GetToken hw rid provider tc w = (r, tc', w')"
  obtains (cached) now w1 where "r = Inr (tkc_token tc)" "tc' = tc" "hw_clock hw w1 = (now, w')" "token_valid now tc"
    | (failed) err w1 where "r = Inl err" "tc' = tc" "provider rid w1 = (Inl err, w')"
    | (fetched) tok exp w1 where "r = Inr tok" "tc' = tc\<lparr>tkc_token := tok, tkc_expiresAt := exp\<rparr>"
        "provider rid w1 = (Inr (tok, exp), w')"
proof -
  obtain n1 w1 where c1: "hw_clock hw w = (n1, w1)" by force
  obtain n2 w2 where c2: "hw_clock hw w1 = (n2, w2)" by force
  obtain f w3 where p: "provider rid w2 = (f, w3)" by force
  show thesis
  proof (cases f)
    case (Inl err)
    with assms c1 c2 p show thesis
      by (auto simp: GetToken_def refreshToken_def split: if_splits intro: that)
  next
    case (Inr x)
    obtain tok exp where "x = (tok, exp)" by force
    with Inr assms c1 c2 p show thesis
      by (auto simp: GetToken_def refreshToken_def split: if_splits intro: that)
  qed
qed

text \<open>The token cache has one entry, which is used until the refresh buffer before its expiry.\<close>

definition token_store :: "go_time \<Rightarrow> unit \<Rightarrow> string \<times> go_time \<Rightarrow> token_cache \<Rightarrow> token_cache" where
  "token_store now k v tc = tc\<lparr>tkc_token := fst v, tkc_expiresAt := snd v\<rparr>"

definition token_lookup :: "go_time \<Rightarrow> unit \<Rightarrow> token_cache \<Rightarrow> (string \<times> go_time) option \<times> token_cache" where
  "token_lookup now k tc = (if token_valid now tc then Some (tkc_token tc, tkc_expiresAt tc) else None, tc)"

interpretation tokens: expiring_cache token_store token_lookup "\<lambda>_ v. fst v \<noteq> []" "\<lambda>_ v. snd v - buffer - 1" "\<lambda>v. v"
    "\<lambda>tc. tkc_refreshBuffer tc = buffer" for buffer
  by unfold_locales (auto simp: token_store_def token_lookup_def token_valid_def)

lemma token_lookup_valid: "fst (token_lookup t () tc) = Some v \<longleftrightarrow> token_valid t tc \<and> v = (tkc_token tc, tkc_expiresAt tc)"
  by (auto simp: token_lookup_def)

lemma fetched_token_reused:
  assumes "GetToken hw rid provider tc w = (Inr tok, tc', w')" and "tok \<noteq> []"
    and "hw_clock hw' w1 = (t, w2)" and "t < tkc_expiresAt tc' - tkc_refreshBuffer tc'"
  shows "GetToken hw' rid' provider' tc' w1 = (Inr tok, tc', w2)"
  using assms(1)
proof (cases rule: GetToken_cases)
  case (cached now w1)
  with assms(2-4) show ?thesis by (simp add: GetToken_def token_valid_def)
next
  case (fetched tok' exp w1)
  have "tc' = token_store 0 () (tok, exp) tc" using fetched by (simp add: token_store_def)
  with tokens.lookup_store [of tc "tkc_refreshBuffer tc" t "()" 0 "(tok, exp)"] assms(2,4) fetched
  have "token_valid t tc'" by (simp add: token_lookup_valid)
  with assms(3) fetched show ?thesis by (simp add: GetToken_def)
qed simp

subsection \<open>What a client sends\<close>

text \<open>
  \<open>sent\<close> reads off the requests that were sent, less those to the token endpoint \<open>u\<close>. Sending adds one and
  nothing else in the world does; a provider that talks to the token endpoint only adds none.
\<close>

definition logs :: "'w http_world \<Rightarrow> string \<Rightarrow> ('w \<Rightarrow> http_request list) \<Rightarrow> bool" where
  "logs hw u sent \<longleftrightarrow>
     (\<forall>w. sent (snd (hw_clock hw w)) = sent w) \<and> (\<forall>d w. sent (snd (hw_wait hw d w)) = sent w) \<and>
     (\<forall>t req w. sent (snd (hw_do hw t req w)) = sent w @ (if hq_URL req = u then [] else [req])) \<and>
     (\<forall>w. sent (snd (hw_breaker hw w)) = sent w) \<and> (\<forall>ok w. sent (hw_breaker_done hw ok w) = sent w)"

definition silent_provider :: "('w \<Rightarrow> http_request list) \<Rightarrow> 'w http_client \<Rightarrow> bool" where
  "silent_provider sent c \<longleftrightarrow>
     (\<forall>p tc. hc_tokenCache c = Some (p, tc) \<longrightarrow> (\<forall>rid w. sent (snd (p rid w)) = sent w))"

text \<open>A client that differs at most in the token it holds.\<close>

definition same_client :: "'w http_client \<Rightarrow> 'w http_client \<Rightarrow> bool" where
  "same_client c c' \<longleftrightarrow>
     hc_retryMax c' = hc_retryMax c \<and> map_option fst (hc_tokenCache c') = map_option fst (hc_tokenCache c)"

text \<open>A request as the client sends it: the one it was given, with a token if it has a provider.\<close>

definition carries :: "'w http_client \<Rightarrow> http_request \<Rightarrow> string \<Rightarrow> http_request \<Rightarrow> bool" where
  "carries c req body r \<longleftrightarrow>
     hq_Method r = hq_Method req \<and> hq_URL r = hq_URL req \<and> readRequestBody r = body \<and>
     (hc_tokenCache c \<noteq> None \<longrightarrow> (\<exists>tok. hq_Header r ''Authorization'' = Some (''Bearer '' @ tok)))"

lemma same_client_refl [simp]: "same_client c c"
  by (simp add: same_client_def)

lemma same_client_trans: "same_client c c' \<Longrightarrow> same_client c' c'' \<Longrightarrow> same_client c c''"
  by (simp add: same_client_def)

lemma same_client_silent: "same_client c c' \<Longrightarrow> silent_provider sent c \<Longrightarrow> silent_provider sent c'"
  by (cases "hc_tokenCache c"; cases "hc_tokenCache c'") (auto simp: same_client_def silent_provider_def)

lemma same_client_carries: "same_client c c' \<Longrightarrow> carries c' req body r = carries c req body r"
  by (cases "hc_tokenCache c"; cases "hc_tokenCache c'") (auto simp: same_client_def carries_def)

lemma carries_body: "carries c req body q \<Longrightarrow> readRequestBody q = body"
  by (simp add: carries_def)

lemma carries_self: "carries c req body q \<Longrightarrow> carries c q body q"
  by (simp add: carries_def)

lemma carries_trans: "carries c req body q \<Longrightarrow> carries c q body x \<Longrightarrow> carries c req body x"
  by (simp add: carries_def)

lemma same_client_401 [simp]: "same_client c (handle401 c)"
  by (cases "hc_tokenCache c") (auto simp: same_client_def handle401_def)

lemma logs_steps:
  assumes "logs hw u sent"
  shows "hw_clock hw w = (t, w') \<Longrightarrow> sent w' = sent w" "hw_wait hw d w = (e, w') \<Longrightarrow> sent w' = sent w"
    "hw_do hw tr req w = (r, w') \<Longrightarrow> sent w' = sent w @ (if hq_URL req = u then [] else [req])" "hw_breaker hw w = (e, w') \<Longrightarrow> sent w' = sent w"
    "sent (hw_breaker_done hw ok w) = sent w"
  using assms unfolding logs_def by (metis snd_conv)+

lemma GetToken_sent:
  assumes "logs hw u sent" "\<forall>rid w. sent (snd (provider rid w)) = sent w" "GetToken hw rid provider tc w = (r, tc', w')"
  shows "sent w' = sent w"
proof -
  obtain n1 w1 where c1: "hw_clock hw w = (n1, w1)" by force
  obtain n2 w2 where c2: "hw_clock hw w1 = (n2, w2)" by force
  obtain f w3 where p: "provider rid w2 = (f, w3)" by force
  have "sent w1 = sent w" "sent w2 = sent w" "sent w3 = sent w"
    using logs_steps(1) [OF assms(1) c1] logs_steps(1) [OF assms(1) c2] assms(2) p by (auto, metis snd_conv)
  moreover have "w' = w1 \<or> w' = w2 \<or> w' = w3"
    using assms(3) c1 c2 p by (auto simp: GetToken_def refreshToken_def split: if_splits sum.splits)
  ultimately show ?thesis by auto
qed

lemma injectToken_spec:
  assumes "logs hw u sent" "silent_provider sent c" "injectToken hw rid failure c req w = (r, c', w')"
  shows "sent w' = sent w \<and> same_client c c' \<and>
    (\<forall>req'. r = Inr req' \<longrightarrow> (if hc_tokenCache c = None then req' = req else \<exists>tok. req' = set_bearer tok req))"
proof (cases "hc_tokenCache c")
  case None
  then show ?thesis using assms(3) by (auto simp: injectToken_def)
next
  case (Some pt)
  obtain p tc where pt: "pt = (p, tc)" by force
  obtain g tc' w1 where g: "GetToken hw rid p tc w = (g, tc', w1)" by (metis prod_cases3)
  have "sent w1 = sent w"
    by (rule GetToken_sent [OF assms(1) _ g]) (use assms(2) Some pt in \<open>simp add: silent_provider_def\<close>)
  then show ?thesis
    using assms(3) Some pt g by (auto simp: injectToken_def same_client_def split: sum.splits)
qed

lemma send_spec:
  assumes "logs hw u sent" "send hw c req w = (r, w')"
  shows "sent w' = sent w @ (if hq_URL req = u then [] else [req]) \<or> sent w' = sent w \<and> \<not> is_ok r"
proof (cases "hc_circuitBreaker c")
  case False
  then show ?thesis using assms by (auto simp: send_def dest: logs_steps(3))
next
  case True
  obtain e w1 where b: "hw_breaker hw w = (e, w1)" by force
  obtain d w2 where d: "hw_do hw (hc_transport c) req w1 = (d, w2)" by force
  show ?thesis
    using assms(2) True b d logs_steps(4) [OF assms(1) b] logs_steps(3) [OF assms(1) d] logs_steps(5) [OF assms(1)]
    by (cases e) (auto simp: send_def split: sum.splits if_splits)
qed

lemma executeRequest_spec:
  assumes "logs hw u sent" "silent_provider sent c" "executeRequest hw rid req body k c w = (r, c', w')"
    and "carries c req body req"
  shows "same_client c c' \<and> (\<exists>new. sent w' = sent w @ new \<and> length new \<le> 1 \<and> (is_ok r \<and> hq_URL req \<noteq> u \<longrightarrow> new \<noteq> []) \<and>
    (\<forall>q\<in>set new. hq_URL q \<noteq> u \<and> carries c req body q))"
proof -
  let ?req = "if length body > 0 then req\<lparr>hq_Body := Some body\<rparr> else req"
  have body: "carries c req body ?req" "carries c req body (set_bearer tok ?req)" for tok
    using assms(4) by (auto simp: carries_def readRequestBody_def set_bearer_def)
  obtain i c1 w1 where i: "(if hc_tokenCache c \<noteq> None \<and> k > 0 then injectToken hw rid ''failed to get token for retry: '' c ?req w
      else (Ok ?req, c, w)) = (i, c1, w1)" by (metis prod_cases3)
  have inj: "sent w1 = sent w \<and> same_client c c1 \<and> (\<forall>q. i = Inr q \<longrightarrow> carries c req body q)"
  proof (cases "hc_tokenCache c \<noteq> None \<and> k > 0")
    case True
    then show ?thesis using injectToken_spec [OF assms(1,2)] i body by fastforce
  next
    case False
    then show ?thesis using i body by (auto split: if_splits)
  qed
  show ?thesis
  proof (cases i)
    case (Inl err)
    then show ?thesis using assms(3) i inj unfolding executeRequest_def Let_def by (auto simp: is_ok_def)
  next
    case (Inr q)
    obtain s w2 where s: "send hw c1 q w1 = (s, w2)" by force
    have "r = s" "c' = c1" "w' = w2"
      using assms(3) i Inr s unfolding executeRequest_def Let_def by auto
    with send_spec [OF assms(1) s] inj Inr show ?thesis by (auto simp: carries_def)
  qed
qed

lemma attempts_spec:
  assumes "logs hw u sent" "silent_provider sent c" "carries c req body req"
    and "attempts hw rid req body n k lastErr c w = (r, c', w')"
  shows "\<exists>new. sent w' = sent w @ new \<and> length new \<le> n \<and> (is_ok r \<and> hq_URL req \<noteq> u \<longrightarrow> new \<noteq> []) \<and> (\<forall>q\<in>set new. hq_URL q \<noteq> u \<and> carries c req body q)"
  using assms(2-4)
proof (induction n arbitrary: k lastErr c w)
  case 0
  then show ?case by (auto simp: is_ok_def)
next
  case (Suc n)
  obtain e w1 where wait: "(if k > 0 then waitForRetry hw c k w else (None, w)) = (e, w1)" by force
  have s1: "sent w1 = sent w"
    using wait logs_steps(2) [OF assms(1)] by (auto simp: waitForRetry_def split: if_splits)
  obtain x c1 w2 where ex: "executeRequest hw rid req body k c w1 = (x, c1, w2)" by (metis prod_cases3)
  obtain new where new: "same_client c c1" "sent w2 = sent w @ new" "length new \<le> 1" "is_ok x \<and> hq_URL req \<noteq> u \<longrightarrow> new \<noteq> []"
    "\<forall>q\<in>set new. hq_URL q \<noteq> u \<and> carries c req body q"
    using executeRequest_spec [OF assms(1) Suc.prems(1) ex Suc.prems(2)] s1 by auto
  have again: "\<exists>new. sent w' = sent w @ new \<and> length new \<le> Suc n \<and> (is_ok r \<and> hq_URL req \<noteq> u \<longrightarrow> new \<noteq> []) \<and>
      (\<forall>q\<in>set new. hq_URL q \<noteq> u \<and> carries c req body q)"
    if run2: "attempts hw rid req body n k' l c2 w2 = (r, c', w')" and same: "same_client c c2" for k' l c2
  proof -
    have "silent_provider sent c2" "carries c2 req body req"
      using same_client_silent [OF same Suc.prems(1)] same_client_carries [OF same] Suc.prems(2) by auto
    from Suc.IH [OF this run2] obtain more where "sent w' = sent w2 @ more" "length more \<le> n"
      "is_ok r \<and> hq_URL req \<noteq> u \<longrightarrow> more \<noteq> []" "\<forall>q\<in>set more. hq_URL q \<noteq> u \<and> carries c req body q"
      using same_client_carries [OF same] by auto
    with new show ?thesis by (intro exI [of _ "new @ more"]) auto
  qed
  show ?case
  proof (cases e)
    case (Some err)
    with Suc.prems(3) wait s1 show ?thesis by (auto simp: is_ok_def)
  next
    case None
    note run = Suc.prems(3) [simplified wait None ex, simplified]
    show ?thesis
    proof (cases x)
      case (Inl err)
      with run wait None ex new again [OF _ new(1)] show ?thesis
        by (auto simp: is_ok_def split: if_splits)
    next
      case (Inr resp)
      with run wait None ex new again same_client_trans [OF new(1) same_client_401] show ?thesis
        by (auto simp: is_ok_def split: if_splits option.splits)
    qed
  qed
qed

lemma prepareRequest_spec:
  assumes "logs hw u sent" "silent_provider sent c" "applyRequestHooks (hc_requestHooks c) req = Inr req1"
    and "prepareRequest hw rid c req w = (r, c', w')"
  shows "sent w' = sent w \<and> same_client c c' \<and>
    (\<forall>q. r = Inr q \<longrightarrow> carries c req1 (readRequestBody req1) q)"
proof -
  define req2 where "req2 = (if index_str (hq_Header req1) ''X-Request-ID'' = [] \<and> rid \<noteq> []
    then req1\<lparr>hq_Header := (hq_Header req1)(''X-Request-ID'' \<mapsto> rid)\<rparr> else req1)"
  have "injectToken hw rid ''failed to get token: '' c req2 w = (r, c', w')"
    using assms(3,4) by (simp add: prepareRequest_def req2_def Let_def)
  note inj = injectToken_spec [OF assms(1,2) this]
  have "carries c req1 (readRequestBody req1) (set_bearer tok req2)"
    "hc_tokenCache c = None \<Longrightarrow> carries c req1 (readRequestBody req1) req2" for tok
    by (auto simp: carries_def readRequestBody_def set_bearer_def req2_def)
  with inj show ?thesis by (cases "hc_tokenCache c") auto
qed

lemma http_Do_spec:
  assumes "logs hw u sent" "silent_provider sent c" "applyRequestHooks (hc_requestHooks c) req = Inr req1"
    and "http_Do hw rid req c w = (r, c', w')"
  shows "\<exists>new. sent w' = sent w @ new \<and> int (length new) \<le> max 0 (hc_retryMax c) \<and>
    (is_ok r \<and> hq_URL req1 \<noteq> u \<longrightarrow> new \<noteq> []) \<and>
    (\<forall>q\<in>set new. hq_URL q \<noteq> u \<and> carries c req1 (readRequestBody req1) q)"
proof -
  obtain p c1 w1 where p: "prepareRequest hw rid c req w = (p, c1, w1)" by (metis prod_cases3)
  note prep = prepareRequest_spec [OF assms(1-3) p]
  show ?thesis
  proof (cases p)
    case (Inl err)
    with p prep assms(4) show ?thesis by (auto simp: http_Do_def is_ok_def)
  next
    case (Inr q)
    have same: "same_client c c1" and q: "carries c req1 (readRequestBody req1) q" using prep Inr by auto
    have run: "attempts hw rid q (readRequestBody req1) (nat (hc_retryMax c)) 0 None c1 w1 = (r, c', w')"
      using p Inr prep assms(4) carries_body [OF q] by (simp add: http_Do_def executeWithRetry_def same_client_def)
    have "carries c1 q (readRequestBody req1) q"
      using carries_self [OF q] same_client_carries [OF same] by simp
    from attempts_spec [OF assms(1) same_client_silent [OF same assms(2)] this run]
    obtain new where "sent w' = sent w1 @ new" "length new \<le> nat (hc_retryMax c)"
      "is_ok r \<and> hq_URL q \<noteq> u \<longrightarrow> new \<noteq> []"
      "\<forall>x\<in>set new. hq_URL x \<noteq> u \<and> carries c q (readRequestBody req1) x"
      using same_client_carries [OF same] by auto
    moreover have "hq_URL q = hq_URL req1" using q by (simp add: carries_def)
    ultimately show ?thesis using prep carries_trans [OF q] by (intro exI [of _ new]) auto
  qed
qed

text \<open>The service token provider talks to its token endpoint only.\<close>

abbreviation service_token_url :: "service_token_provider \<Rightarrow> string" where
  "service_token_url p \<equiv> sv_ServiceURL p @ ''/internal/api/v1/service-token''"

lemma DoJSON_sent:
  assumes "DoJSON hw rid dec req c w = (r, c', w')"
  shows "snd (snd (http_Do hw rid req c w)) = w'"
  using assms by (auto simp: DoJSON_def split: prod.splits sum.splits if_splits option.splits)

lemma DoJSON_silent:
  assumes "logs hw (hq_URL req) sent" "hc_tokenCache c = None" "hc_requestHooks c = []"
    "DoJSON hw rid dec req c w = (r, c', w')"
  shows "sent w' = sent w"
proof -
  obtain x cx wx where run: "http_Do hw rid req c w = (x, cx, wx)" by (metis prod_cases3)
  have "wx = w'" using DoJSON_sent [OF assms(4)] run by simp
  moreover obtain new where "sent wx = sent w @ new"
    "\<forall>q\<in>set new. hq_URL q \<noteq> hq_URL req \<and> carries c req (readRequestBody req) q"
    using http_Do_spec [OF assms(1) _ _ run, of req] assms(2,3) by (auto simp: silent_provider_def)
  ultimately show ?thesis by (cases new) (auto simp: carries_def)
qed

lemma service_FetchToken_silent:
  assumes "logs hw (service_token_url p) sent" "hc_tokenCache base = None" "hc_requestHooks base = []"
  shows "sent (snd (service_FetchToken hw codec base p rid w)) = sent w"
proof (cases "sv_ServiceURL p = [] \<or> sv_ServiceID p = [] \<or> sv_APIKey p = []")
  case True
  then show ?thesis by (auto simp: service_FetchToken_def)
next
  case False
  then have given: "sv_ServiceURL p \<noteq> []" "sv_ServiceID p \<noteq> []" "sv_APIKey p \<noteq> []" by auto
  define m where "m = tj_Marshal codec
    \<lparr>tq_service_id = sv_ServiceID p, tq_api_key = sv_APIKey p,
     tq_scope = (if TrimSpace (sv_Scope p) \<noteq> [] then Some (TrimSpace (sv_Scope p)) else None),
     tq_audience = (if length (sv_Audience p) > 0 then Some (sv_Audience p) else None)\<rparr>"
  define req where "req body = \<lparr>hq_Method = ''POST'', hq_URL = service_token_url p,
    hq_Header = [''Content-Type'' \<mapsto> ''application/json''], hq_Body = Some body\<rparr>" for body
  note step = service_FetchToken_def Let_def if_not_P [OF given(1)] if_not_P [OF given(2)] if_not_P [OF given(3)]
    m_def [symmetric] req_def [symmetric]
  show ?thesis
  proof (cases "\<exists>err. m = Inl err \<or> hw_newRequest hw ''POST'' (service_token_url p) = Some err")
    case True
    then show ?thesis unfolding step by (auto split: sum.splits option.splits)
  next
    case False
    then obtain body where body: "m = Inr body" "hw_newRequest hw ''POST'' (service_token_url p) = None"
      by (cases m) auto
    obtain x cx wx where x: "DoJSON hw rid (Some (tj_decode codec)) (req body) base w = (x, cx, wx)"
      by (metis prod_cases3)
    have 1: "sent wx = sent w"
      by (rule DoJSON_silent [OF _ assms(2,3) x]) (use assms(1) in \<open>simp add: req_def\<close>)
    obtain t w2 where t: "hw_clock hw wx = (t, w2)" by force
    have 2: "sent w2 = sent w" using logs_steps(1) [OF assms(1) t] 1 by simp
    show ?thesis unfolding step body sum.case option.case x prod.case
      using 1 2 t by (auto split: sum.split option.split)
  qed
qed

section \<open>Properties\<close>

text \<open>
  C32. A client bounds what it sends. Whatever the endpoint answers, one call sends at most
  \<open>retryMax\<close> requests (none if that is not positive), all with the method, URL and body of the request as
  the hooks left it, and each with a bearer token when the client has a token provider; a call that
  returns a response has sent at least one. Requests to the token endpoint are the provider's.
\<close>

theorem client_attempts_bounded:
  assumes "logs hw u sent" and "silent_provider sent c"
    and "applyRequestHooks (hc_requestHooks c) req = Inr req1" and "hq_URL req1 \<noteq> u"
    and "http_Do hw requestID req c w = (r, c', w')"
  shows "\<exists>new. sent w' = sent w @ new \<and> int (length new) \<le> max 0 (hc_retryMax c) \<and> (is_ok r \<longrightarrow> new \<noteq> []) \<and>
    (\<forall>q\<in>set new. hq_Method q = hq_Method req1 \<and> hq_URL q = hq_URL req1 \<and>
       readRequestBody q = readRequestBody req1 \<and>
       (hc_tokenCache c \<noteq> None \<longrightarrow> (\<exists>token. hq_Header q ''Authorization'' = Some (''Bearer '' @ token))))"
  using http_Do_spec [OF assms(1,2,3,5)] assms(4) by (auto simp: carries_def)

text \<open>A world that records every request and answers 401 to all, for the witness.\<close>

definition refusing_world :: "http_request list http_world" where
  "refusing_world =
     \<lparr>hw_clock = (\<lambda>w. (0, w)), hw_wait = (\<lambda>d w. (None, w)),
      hw_do = (\<lambda>t q w. (Inr \<lparr>hp_StatusCode = 401, hp_Body = []\<rparr>, w @ (if hq_URL q = ''/token'' then [] else [q]))),
      hw_newRequest = (\<lambda>m u. None), hw_breaker = (\<lambda>w. (None, w)), hw_breaker_done = (\<lambda>ok w. w),
      hw_is_open = (\<lambda>e. False)\<rparr>"

definition static_client :: "http_request list http_client" where
  "static_client = http_NewClient [WithTokenProvider (static_FetchToken refusing_world ''t'') Minute, WithRetry 2 0]"

definition plain_get :: http_request where
  "plain_get = \<lparr>hq_Method = ''GET'', hq_URL = ''/a'', hq_Header = Map.empty, hq_Body = None\<rparr>"

theorem client_attempts_bounded_witness:
  "\<exists>new. snd (snd (http_Do refusing_world [] plain_get static_client [])) = new \<and> int (length new) \<le> max 0 2 \<and>
     (\<forall>q\<in>set new. \<exists>token. hq_Header q ''Authorization'' = Some (''Bearer '' @ token))"
proof -
  have "logs refusing_world ''/token'' (\<lambda>w. w)" by (simp add: logs_def refusing_world_def)
  moreover have "silent_provider (\<lambda>w. w) static_client"
    by (simp add: silent_provider_def static_client_def http_NewClient_def WithTokenProvider_def WithRetry_def
        static_FetchToken_def refusing_world_def)
  moreover have "applyRequestHooks (hc_requestHooks static_client) plain_get = Inr plain_get" "hc_retryMax static_client = 2"
    "hc_tokenCache static_client \<noteq> None" "hq_URL plain_get \<noteq> ''/token''"
    by (simp_all add: static_client_def http_NewClient_def WithTokenProvider_def WithRetry_def plain_get_def)
  moreover obtain r c' w' where "http_Do refusing_world [] plain_get static_client [] = (r, c', w')" by (metis prod_cases3)
  ultimately show ?thesis
    using client_attempts_bounded [of refusing_world "''/token''" "\<lambda>w. w" static_client plain_get plain_get "[]" "[]"] by auto
qed

text \<open>
  After a 401 the client does not offer the refused token again: once \<open>handle401\<close> has run, the next
  attempt asks the provider, and what it sends carries the token that the provider just returned; if the
  provider fails, nothing is sent and the call fails.
\<close>

lemma refused_token_replaced:
  assumes "hc_tokenCache c = Some (provider, tc)"
    and "provider requestID (snd (hw_clock hw (snd (hw_clock hw w)))) = (fetched, w2)"
  shows "case fetched of
       Inl err \<Rightarrow> fst (executeRequest hw requestID req body (Suc k) (handle401 c) w) =
                    Err (EFmt (''failed to get token for retry: '' @ Error err) err) \<and>
                  snd (snd (executeRequest hw requestID req body (Suc k) (handle401 c) w)) = w2
     | Inr (token, expiresAt) \<Rightarrow>
         (let c1 = c\<lparr>hc_tokenCache := Some (provider, \<lparr>tkc_token = token, tkc_expiresAt = expiresAt,
                                            tkc_refreshBuffer = tkc_refreshBuffer tc\<rparr>)\<rparr>
          in executeRequest hw requestID req body (Suc k) (handle401 c) w =
              (case send hw c1 (set_bearer token (if length body > 0 then req\<lparr>hq_Body := Some body\<rparr> else req)) w2 of
                 (r, w3) \<Rightarrow> (r, c1, w3)))"
proof -
  obtain n1 v1 where c1: "hw_clock hw w = (n1, v1)" by force
  obtain n2 v2 where c2: "hw_clock hw v1 = (n2, v2)" by force
  have p: "provider requestID v2 = (fetched, w2)" using assms(2) c1 c2 by simp
  have g: "GetToken hw requestID provider (Invalidate tc) w =
    (case fetched of Inl err \<Rightarrow> (Err err, Invalidate tc, w2)
     | Inr (token, e) \<Rightarrow> (Ok token, \<lparr>tkc_token = token, tkc_expiresAt = e, tkc_refreshBuffer = tkc_refreshBuffer tc\<rparr>, w2))"
    using c1 c2 p by (cases tc) (auto simp: GetToken_def refreshToken_def token_valid_def Invalidate_def split: sum.splits)
  show ?thesis
    using g assms(1)
    by (auto simp: executeRequest_def handle401_def injectToken_def Let_def split: sum.splits prod.splits)
qed

lemma refused_token_replaced_witness:
  "executeRequest refusing_world [] plain_get [] 1 (handle401 static_client) [] =
     (let c1 = static_client\<lparr>hc_tokenCache := Some (static_FetchToken refusing_world ''t'',
        \<lparr>tkc_token = ''t'', tkc_expiresAt = 24 * 365 * Hour, tkc_refreshBuffer = Minute\<rparr>)\<rparr>
      in case send refusing_world c1 (set_bearer ''t'' plain_get) [] of (r, w3) \<Rightarrow> (r, c1, w3))"
proof -
  have cache: "hc_tokenCache static_client = Some (static_FetchToken refusing_world ''t'', NewTokenCache Minute)"
    "tkc_refreshBuffer (NewTokenCache Minute) = Minute"
    by (simp_all add: static_client_def http_NewClient_def WithTokenProvider_def WithRetry_def NewTokenCache_def
        Minute_def Second_def Millisecond_def)
  have "static_FetchToken refusing_world ''t'' [] (snd (hw_clock refusing_world (snd (hw_clock refusing_world [])))) =
    (Inr (''t'', 24 * 365 * Hour), [])"
    by (simp add: static_FetchToken_def refusing_world_def)
  from refused_token_replaced [OF cache(1) this, of plain_get "[]" 0] cache(2) show ?thesis
    by (simp add: Let_def)
qed

text \<open>
  A broken client certificate is not an error: with a complete configuration whose key pair cannot be
  loaded, or whose CA file cannot be read or parsed, the service token client is built all the same, on
  the default transport, and sends its API key and tokens without mutual TLS.
\<close>

lemma mtls_silently_dropped:
  assumes "cfg \<noteq> None" and "MissingRequiredFields (ResolveServiceTokenConfig cfg) = []"
    and "tf_LoadX509KeyPair files (mt_CertFile (ResolveMTLSConfig cfg)) (mt_KeyFile (ResolveMTLSConfig cfg)) = None \<or>
         tf_ReadFile files (mt_CAFile (ResolveMTLSConfig cfg)) = None \<or>
         (\<exists>ca. tf_ReadFile files (mt_CAFile (ResolveMTLSConfig cfg)) = Some ca \<and> \<not> tf_AppendCertsFromPEM files ca)"
  shows "\<exists>c. NewClientWithServiceTokenForAudience hw codec files cfg audience = Ok c \<and> hc_transport c = DefaultTransport \<and>
    hc_tokenCache c \<noteq> None"
proof -
  let ?s = "ResolveServiceTokenConfig cfg" and ?m = "ResolveMTLSConfig cfg"
  have mtls: "tc_MTLS ?s = ?m" "tc_MTLS (if b then ?s\<lparr>tc_Audience := a\<rparr> else ?s) = ?m" for a b
    by (simp_all add: ResolveServiceTokenConfig_def)
  have none: "mtls_MissingRequiredFields ?m = []" and ca: "mt_CAFile ?m \<noteq> []"
    using assms(2) mtls(1) by (auto simp: MissingRequiredFields_def mtls_MissingRequiredFields_def split: if_splits)
  have drop: "WithMTLS files (mt_CertFile ?m) (mt_KeyFile ?m) (mt_CAFile ?m) c = c" for c :: "'a http_client"
    using assms(3) ca by (auto simp: WithMTLS_def split: option.splits)
  show ?thesis
    using assms(1,2) none
    by (auto simp: NewClientWithServiceTokenForAudience_def Let_def mtls controlPlaneMTLSOptions_def http_NewClient_def
        drop WithTokenProvider_def)
qed

definition complete_cfg :: cfg_getter where
  "complete_cfg = \<lparr>cg_GetString = (\<lambda>key. ''x''), cg_GetStringSlice = (\<lambda>key. [])\<rparr>"

lemma mtls_silently_dropped_witness:
  "\<exists>c. NewClientWithServiceTokenForAudience refusing_world
      \<lparr>tj_Marshal = (\<lambda>q. Ok []), tj_decode = (\<lambda>s. Err (EPlain [])), tj_parseRFC3339 = (\<lambda>s. None)\<rparr>
      \<lparr>tf_LoadX509KeyPair = (\<lambda>c k. None), tf_ReadFile = (\<lambda>f. None), tf_AppendCertsFromPEM = (\<lambda>s. False)\<rparr>
      (Some complete_cfg) [] = Ok c \<and> hc_transport c = DefaultTransport"
proof -
  have "MissingRequiredFields (ResolveServiceTokenConfig (Some complete_cfg)) = []" by code_simp
  then show ?thesis
    using mtls_silently_dropped [of "Some complete_cfg"
        "\<lparr>tf_LoadX509KeyPair = (\<lambda>c k. None), tf_ReadFile = (\<lambda>f. None), tf_AppendCertsFromPEM = (\<lambda>s. False)\<rparr>"
        refusing_world "\<lparr>tj_Marshal = (\<lambda>q. Ok []), tj_decode = (\<lambda>s. Err (EPlain [])), tj_parseRFC3339 = (\<lambda>s. None)\<rparr>" "[]"]
    by auto
qed

end
