(* ===== verification/Tenant_Sql.thy ===== *)
theory Tenant_Sql
  imports Permission_Decision
begin

text \<open>
  \<open>pkg/postgres\<close>: the SQL text that scopes database work to a tenant (\<open>tenant_sql.go\<close>, \<open>tenant_context.go\<close>) and
  the masking of connection strings (\<open>postgres.go\<close>). The database is a parameter: a record of the calls the
  code makes on a state \<open>'w\<close>. What PostgreSQL reads as a string literal and as leading white space and
  comments is stated by \<open>sql_literal\<close> and \<open>sql_trivia\<close>, which the theorems compare the texts with.
\<close>

section \<open>pkg/postgres/tenant_sql.go\<close>

subsection \<open>Literals and statements\<close>

abbreviation quote :: char where "quote \<equiv> CHR 0x27"

text \<open>\<open>strings.ReplaceAll\<close> of a quote by two.\<close>

fun double_quotes :: "string \<Rightarrow> string" where
  "double_quotes [] = []"
| "double_quotes (c # cs) = (if c = quote then [quote, quote] else [c]) @ double_quotes cs"

definition escapeSQLLiteral :: "string \<Rightarrow> string" where
  "escapeSQLLiteral val = double_quotes (TrimSpace val)"

definition tenantScopeStatement :: "string \<Rightarrow> string" where
  "tenantScopeStatement tenantID =
     ''SELECT set_config('' @ [quote] @ ''app.current_tenant_id'' @ [quote] @ '', '' @ [quote] @
     escapeSQLLiteral tenantID @ [quote] @ '', true)''"

definition tenantScopeCTE :: "string \<Rightarrow> string" where
  "tenantScopeCTE tenantID = ''_tenant_scope AS ('' @ tenantScopeStatement tenantID @ '')''"

subsection \<open>Where the clause goes\<close>

definition isSQLWhitespace :: "char \<Rightarrow> bool" where
  "isSQLWhitespace b \<longleftrightarrow> b \<in> {CHR '' '', CHR 0x09, CHR 0x0A, CHR 0x0D, CHR 0x0C}"

definition isSQLIdentifierChar :: "char \<Rightarrow> bool" where
  "isSQLIdentifierChar b \<longleftrightarrow>
     (b \<ge> CHR ''a'' \<and> b \<le> CHR ''z'') \<or> (b \<ge> CHR ''A'' \<and> b \<le> CHR ''Z'') \<or>
     (b \<ge> CHR ''0'' \<and> b \<le> CHR ''9'') \<or> b = CHR ''_''"

text \<open>The inner loops of \<open>skipLeadingTrivia\<close>: to the end of the line, and past the end of a comment.\<close>

function line_end :: "string \<Rightarrow> nat \<Rightarrow> nat" where
  "line_end q i = (if i < length q \<and> q ! i \<noteq> CHR 0x0A then line_end q (Suc i) else i)"
  by auto
termination by (relation "measure (\<lambda>(q, i). length q - i)") auto

function comment_end :: "string \<Rightarrow> nat \<Rightarrow> nat" where
  "comment_end q i =
     (if i + 1 < length q then
        if take 2 (drop i q) \<noteq> ''*/'' then comment_end q (Suc i) else i + 2
      else i)"
  by auto
termination by (relation "measure (\<lambda>(q, i). length q - i)") auto

declare line_end.simps [simp del] comment_end.simps [simp del]

lemma line_end_ge: "i \<le> line_end q i"
  by (induction q i rule: line_end.induct) (subst line_end.simps, auto)

lemma comment_end_ge: "i \<le> comment_end q i"
  by (induction q i rule: comment_end.induct) (subst comment_end.simps, auto)

function skipLeadingTrivia :: "string \<Rightarrow> nat \<Rightarrow> nat" where
  "skipLeadingTrivia query index =
     (if index < length query then
        if isSQLWhitespace (query ! index) then skipLeadingTrivia query (Suc index)
        else if HasPrefix (drop index query) ''--'' then skipLeadingTrivia query (line_end query (index + 2))
        else if HasPrefix (drop index query) ''/*'' then skipLeadingTrivia query (comment_end query (index + 2))
        else index
      else index)"
  by auto
termination
proof (relation "measure (\<lambda>(q, i). length q - i)")
  fix q :: string and i :: nat
  assume "i < length q"
  moreover have "i < line_end q (i + 2)" using line_end_ge [of "i + 2" q] by linarith
  moreover have "i < comment_end q (i + 2)" using comment_end_ge [of "i + 2" q] by linarith
  ultimately show "((q, line_end q (i + 2)), (q, i)) \<in> measure (\<lambda>(q, i). length q - i)"
    "((q, comment_end q (i + 2)), (q, i)) \<in> measure (\<lambda>(q, i). length q - i)" by auto
qed auto

declare skipLeadingTrivia.simps [simp del]

definition matchKeyword :: "string \<Rightarrow> nat \<Rightarrow> string \<Rightarrow> bool" where
  "matchKeyword query start keyword =
     (if start + length keyword > length query then False
      else if \<not> EqualFold (take (length keyword) (drop start query)) keyword then False
      else let e = start + length keyword
           in if e < length query \<and> isSQLIdentifierChar (query ! e) then False else True)"

text \<open>\<open>None\<close> stands for the index -1.\<close>

definition leadingWithClauseInsertIndex :: "string \<Rightarrow> nat option" where
  "leadingWithClauseInsertIndex query =
     (let index = skipLeadingTrivia query 0
      in if \<not> matchKeyword query index ''WITH'' then None
         else let index = index + length ''WITH'';
                  next = skipLeadingTrivia query index
              in if matchKeyword query next ''RECURSIVE'' then Some (next + length ''RECURSIVE'') else Some index)"

definition injectTenantScope :: "string \<Rightarrow> string \<Rightarrow> string" where
  "injectTenantScope query tenantID =
     (let cte = tenantScopeCTE tenantID
      in case leadingWithClauseInsertIndex query of
           None \<Rightarrow> ''WITH '' @ cte @ '' '' @ query
         | Some insertAt \<Rightarrow> take insertAt query @ '' '' @ cte @ '','' @ drop insertAt query)"

subsection \<open>The tenant of a context\<close>

text \<open>
  A context is a plain one or a \<open>gin.Context\<close>. The latter finds string keys among its own keys only, and no
  others, since the engine is not configured to fall back to the context of the request.
\<close>

datatype db_context = StdContext go_context | GinContext gin_ctx

definition gin_string_key :: "gin_ctx \<Rightarrow> string \<Rightarrow> string option" where
  "gin_string_key c key = (case gc_keys c key of Some (AString s) \<Rightarrow> Some s | _ \<Rightarrow> None)"

definition db_TenantIDFromContext :: "db_context \<Rightarrow> string option" where
  "db_TenantIDFromContext ctx =
     (case ctx of
        StdContext g \<Rightarrow> TenantIDFromContext g
      | GinContext c \<Rightarrow> first_string_value [gc_tenant c, gin_string_key c ''tenant_id''])"

definition db_claims :: "db_context \<Rightarrow> claims option" where
  "db_claims ctx = (case ctx of StdContext g \<Rightarrow> ClaimsFromContext g | GinContext c \<Rightarrow> gc_claims c)"

definition tenantIDFromContext :: "db_context \<Rightarrow> string" where
  "tenantIDFromContext ctx =
     (case db_TenantIDFromContext ctx of
        Some tenantID \<Rightarrow> TrimSpace tenantID
      | None \<Rightarrow>
          (case (case db_claims ctx of
                   Some cl \<Rightarrow> if \<not> IsServiceToken cl \<and> TrimSpace (TenantID cl) \<noteq> [] then Some (TrimSpace (TenantID cl)) else None
                 | None \<Rightarrow> None) of
             Some tenantID \<Rightarrow> tenantID
           | None \<Rightarrow>
               (case ctx of
                  StdContext g \<Rightarrow> []
                | GinContext c \<Rightarrow>
                    (case GetTenantID c of
                       Some tenantID \<Rightarrow> TrimSpace tenantID
                     | None \<Rightarrow>
                         (case GetClaims c of
                            Some cl \<Rightarrow> if \<not> IsServiceToken cl then TrimSpace (TenantID cl) else []
                          | None \<Rightarrow> [])))))"

subsection \<open>The database\<close>

record ('w, 'r) sql_db =
  sq_Query :: "string \<Rightarrow> any list \<Rightarrow> 'w \<Rightarrow> 'r \<times> 'w"
  sq_QueryRow :: "string \<Rightarrow> any list \<Rightarrow> 'w \<Rightarrow> 'r \<times> 'w"
  sq_Exec :: "string \<Rightarrow> any list \<Rightarrow> 'w \<Rightarrow> 'r \<times> 'w"
  sq_Begin :: "'w \<Rightarrow> go_error option \<times> 'w"
  sq_tx_Exec :: "string \<Rightarrow> 'w \<Rightarrow> go_error option \<times> 'w"
  sq_tx_Rollback :: "'w \<Rightarrow> 'w"
  sq_Conn :: "'w \<Rightarrow> 'r \<times> 'w"

definition db_QueryContext :: "('w, 'r) sql_db \<Rightarrow> db_context \<Rightarrow> string \<Rightarrow> any list \<Rightarrow> 'w \<Rightarrow> 'r \<times> 'w" where
  "db_QueryContext db ctx query args = sq_Query db (injectTenantScope query (tenantIDFromContext ctx)) args"

definition db_QueryRowContext :: "('w, 'r) sql_db \<Rightarrow> db_context \<Rightarrow> string \<Rightarrow> any list \<Rightarrow> 'w \<Rightarrow> 'r \<times> 'w" where
  "db_QueryRowContext db ctx query args = sq_QueryRow db (injectTenantScope query (tenantIDFromContext ctx)) args"

definition db_ExecContext :: "('w, 'r) sql_db \<Rightarrow> db_context \<Rightarrow> string \<Rightarrow> any list \<Rightarrow> 'w \<Rightarrow> 'r \<times> 'w" where
  "db_ExecContext db ctx query args = sq_Exec db (injectTenantScope query (tenantIDFromContext ctx)) args"

definition db_BeginTx :: "('w, 'r) sql_db \<Rightarrow> db_context \<Rightarrow> 'w \<Rightarrow> (go_error + unit) \<times> 'w" where
  "db_BeginTx db ctx w =
     (case sq_Begin db w of
        (Some err, w) \<Rightarrow> (Err err, w)
      | (None, w) \<Rightarrow>
          (case sq_tx_Exec db (tenantScopeStatement (tenantIDFromContext ctx)) w of
             (Some err, w) \<Rightarrow> (Err err, sq_tx_Rollback db w)
           | (None, w) \<Rightarrow> (Ok (), w)))"

definition db_Conn :: "('w, 'r) sql_db \<Rightarrow> 'w \<Rightarrow> 'r \<times> 'w" where
  "db_Conn db = sq_Conn db"

section \<open>pkg/postgres/tenant_context.go\<close>

text \<open>The statement that \<open>SetTenantContext\<close> hands to \<open>db.Exec\<close>.\<close>

definition set_local :: "string \<Rightarrow> string" where
  "set_local tenantID = ''SET LOCAL app.current_tenant_id = '' @ [quote] @ tenantID @ [quote]"

definition SetTenantContext :: "('w, 'r) sql_db \<Rightarrow> string \<Rightarrow> 'w \<Rightarrow> go_error option \<times> 'w" where
  "SetTenantContext db tenantID w =
     (if tenantID = [] then sq_tx_Exec db (set_local []) w else sq_tx_Exec db (set_local tenantID) w)"

text \<open>The transaction is returned with the error of \<open>Begin\<close>; an error of the statement stays in it unread.\<close>

definition WithTenantScope :: "('w, 'r) sql_db \<Rightarrow> string \<Rightarrow> 'w \<Rightarrow> go_error option \<times> 'w" where
  "WithTenantScope db tenantID w =
     (case sq_Begin db w of
        (Some err, w) \<Rightarrow> (Some err, w)
      | (None, w) \<Rightarrow> (None, snd (SetTenantContext db tenantID w)))"

section \<open>pkg/postgres/postgres.go\<close>

text \<open>\<open>strings.Index\<close>.\<close>

fun Index :: "string \<Rightarrow> string \<Rightarrow> nat option" where
  "Index [] sub = (if sub = [] then Some 0 else None)"
| "Index (c # cs) sub = (if HasPrefix (c # cs) sub then Some 0 else map_option Suc (Index cs sub))"

text \<open>A parsed URL: its user with an optional password, and how it prints with another one.\<close>

record parsed_url =
  pu_User :: "(string \<times> string option) option"
  pu_String :: "(string \<times> string option) option \<Rightarrow> string"

definition maskDSN :: "(string \<Rightarrow> parsed_url option) \<Rightarrow> string \<Rightarrow> string" where
  "maskDSN url_Parse dsn =
     (if dsn = [] then dsn
      else case url_Parse dsn of
             Some u \<Rightarrow>
               pu_String u (map_option (\<lambda>(user, password). (user, map_option (\<lambda>_. ''********'') password)) (pu_User u))
           | None \<Rightarrow>
               (case Index dsn ''://'' of
                  None \<Rightarrow> dsn
                | Some i \<Rightarrow>
                    let rest = drop (i + 3) dsn
                    in case Index rest ''@'' of
                         None \<Rightarrow> dsn
                       | Some at \<Rightarrow>
                           let cred = take at rest
                           in case Index cred '':'' of
                                None \<Rightarrow> dsn
                              | Some colon \<Rightarrow>
                                  let maskedCred = take (colon + 1) cred @ ''********''
                                  in take (i + 3) dsn @ maskedCred @ drop at rest))"

section \<open>What PostgreSQL reads\<close>

text \<open>
  A string literal after its opening quote (with \<open>standard_conforming_strings\<close>, the default): the value and
  the text behind the closing quote; a doubled quote stands for one.
\<close>

fun sql_literal :: "string \<Rightarrow> (string \<times> string) option" where
  "sql_literal [] = None"
| "sql_literal [c] = (if c = quote then Some ([], []) else None)"
| "sql_literal (c # d # cs) =
     (if c = quote then
        if d = quote then map_option (apfst (Cons quote)) (sql_literal cs) else Some ([], d # cs)
      else map_option (apfst (Cons c)) (sql_literal (d # cs)))"

text \<open>White space and complete comments.\<close>

inductive sql_trivia :: "string \<Rightarrow> bool" where
  nothing: "sql_trivia []"
| space: "isSQLWhitespace c \<Longrightarrow> sql_trivia s \<Longrightarrow> sql_trivia (c # s)"
| line: "CHR 0x0A \<notin> set l \<Longrightarrow> sql_trivia (CHR 0x0A # s) \<Longrightarrow> sql_trivia (''--'' @ l @ CHR 0x0A # s)"
| block: "\<not> (\<exists>a b. body @ ''*'' = a @ ''*/'' @ b) \<Longrightarrow> sql_trivia s \<Longrightarrow> sql_trivia (''/*'' @ body @ ''*/'' @ s)"

section \<open>Lemmas\<close>

lemma sql_literal_escaped:
  assumes "rest = [] \<or> hd rest \<noteq> quote"
  shows "sql_literal (double_quotes v @ quote # rest) = Some (v, rest)"
proof (induction v)
  case Nil
  with assms show ?case by (cases rest) auto
next
  case (Cons c v)
  obtain d ds where "double_quotes v @ quote # rest = d # ds" by (cases "double_quotes v") auto
  with Cons show ?case by auto
qed

lemma sql_literal_plain:
  assumes "quote \<notin> set a" "rest = [] \<or> hd rest \<noteq> quote"
  shows "sql_literal (a @ quote # rest) = Some (a, rest)"
proof -
  have "double_quotes a = a" using assms(1) by (induction a) auto
  with sql_literal_escaped [OF assms(2), of a] show ?thesis by simp
qed

lemma line_end_spec:
  "CHR 0x0A \<notin> set l \<Longrightarrow> line_end (p @ l @ CHR 0x0A # s) (length p) = length p + length l"
proof (induction l arbitrary: p)
  case Nil
  show ?case by (subst line_end.simps) (simp add: nth_append)
next
  case (Cons c l)
  from Cons.prems have "c \<noteq> CHR 0x0A" "CHR 0x0A \<notin> set l" by auto
  with Cons.IH [of "p @ [c]"] show ?case by (subst line_end.simps) (simp add: nth_append)
qed

lemma comment_end_spec:
  "\<not> (\<exists>a b. body @ ''*'' = a @ ''*/'' @ b) \<Longrightarrow> comment_end (p @ body @ ''*/'' @ s) (length p) = length p + length body + 2"
proof (induction body arbitrary: p)
  case Nil
  show ?case by (subst comment_end.simps) simp
next
  case (Cons c body)
  have "take 2 (c # body @ ''*/'' @ s) \<noteq> ''*/''"
  proof
    assume h: "take 2 (c # body @ ''*/'' @ s) = ''*/''"
    then have "\<exists>b. c # body @ ''*'' = ''*/'' @ b" by (cases body) (auto simp: numeral_2_eq_2)
    then have "\<exists>a b. (c # body) @ ''*'' = a @ ''*/'' @ b" by (metis append_Cons append_Nil)
    with Cons.prems show False by blast
  qed
  moreover have "\<not> (\<exists>a b. body @ ''*'' = a @ ''*/'' @ b)"
    using Cons.prems by (metis append_Cons)
  ultimately show ?case
    using Cons.IH [of "p @ [c]"] by (subst comment_end.simps) simp
qed

lemma skip_trivia:
  assumes "sql_trivia l"
  shows "skipLeadingTrivia (p @ l @ s) (length p) = skipLeadingTrivia (p @ l @ s) (length p + length l)"
  using assms
proof (induction arbitrary: p)
  case nothing
  then show ?case by simp
next
  case (space c l)
  from space.IH [of "p @ [c]"] space.hyps show ?case
    by (subst skipLeadingTrivia.simps) (simp add: nth_append)
next
  case (line l s')
  have "\<not> isSQLWhitespace CHR ''-''" by (simp add: isSQLWhitespace_def)
  then show ?case
    using line.IH [of "p @ ''--'' @ l"] line_end_spec [OF line.hyps(1), of "p @ ''--''"]
    by (subst skipLeadingTrivia.simps) (simp add: nth_append add.assoc)
next
  case (block body s')
  have "\<not> isSQLWhitespace CHR ''/''" by (simp add: isSQLWhitespace_def)
  then show ?case
    using block.IH [of "p @ ''/*'' @ body @ ''*/''"] comment_end_spec [OF block.hyps(1), of "p @ ''/*''"]
    by (subst skipLeadingTrivia.simps) (simp add: nth_append add.assoc)
qed

text \<open>The inner loops, read backwards: where they stop, the comment is complete or the text is at its end.\<close>

lemma line_end_found:
  "line_end q i < length q \<Longrightarrow>
   q ! line_end q i = CHR 0x0A \<and> (\<exists>l. drop i q = l @ drop (line_end q i) q \<and> CHR 0x0A \<notin> set l)"
proof (induction q i rule: line_end.induct)
  case (1 q i)
  show ?case
  proof (cases "i < length q \<and> q ! i \<noteq> CHR 0x0A")
    case True
    then have e: "line_end q i = line_end q (Suc i)" by (subst line_end.simps) simp
    obtain l where l: "drop (Suc i) q = l @ drop (line_end q i) q" "CHR 0x0A \<notin> set l" "q ! line_end q i = CHR 0x0A"
      using "1.IH" True "1.prems" e by auto
    have "drop i q = (q ! i # l) @ drop (line_end q i) q"
      using True l(1) by (simp flip: Cons_nth_drop_Suc)
    with l(2,3) True show ?thesis by (intro conjI exI [of _ "q ! i # l"]) auto
  next
    case False
    then have "line_end q i = i" by (subst line_end.simps) auto
    with "1.prems" False show ?thesis by (auto intro: exI [of _ "[]"])
  qed
qed

lemma no_end_Cons:
  assumes "\<not> (\<exists>a b. body @ ''*'' = a @ ''*/'' @ b)" and "take 2 (c # body @ ''*/'' @ rest) \<noteq> ''*/''"
  shows "\<not> (\<exists>a b. (c # body) @ ''*'' = a @ ''*/'' @ b)"
proof
  assume "\<exists>a b. (c # body) @ ''*'' = a @ ''*/'' @ b"
  then obtain a b where ab: "c # body @ ''*'' = a @ ''*/'' @ b" by auto
  show False
  proof (cases a)
    case Nil
    with ab have "take 2 (c # body @ ''*/'' @ rest) = ''*/''" by (cases body) (auto simp: numeral_2_eq_2)
    with assms(2) show False by simp
  next
    case (Cons x a')
    with ab have "body @ ''*'' = a' @ ''*/'' @ b" by simp
    with assms(1) show False by blast
  qed
qed

lemma comment_end_found:
  "comment_end q i + 1 < length q \<Longrightarrow>
   \<exists>body. drop i q = body @ ''*/'' @ drop (comment_end q i) q \<and> \<not> (\<exists>a b. body @ ''*'' = a @ ''*/'' @ b)"
proof (induction q i rule: comment_end.induct)
  case (1 q i)
  show ?case
  proof (cases "i + 1 < length q")
    case False
    then have "comment_end q i = i" by (subst comment_end.simps) simp
    with "1.prems" False show ?thesis by auto
  next
    case lt: True
    have d: "drop i q = q ! i # q ! Suc i # drop (i + 2) q"
      using lt by (metis Cons_nth_drop_Suc Suc_lessD Suc_eq_plus1 add_2_eq_Suc')
    show ?thesis
    proof (cases "take 2 (drop i q) = ''*/''")
      case True
      then have e: "comment_end q i = i + 2" using lt by (subst comment_end.simps) simp
      from True d have "drop i q = [] @ ''*/'' @ drop (comment_end q i) q" by (simp add: e)
      moreover have "\<not> (\<exists>a b. [] @ ''*'' = a @ ''*/'' @ b)" by (auto simp: append_eq_Cons_conv Cons_eq_append_conv)
      ultimately show ?thesis by blast
    next
      case False
      then have e: "comment_end q i = comment_end q (Suc i)" using lt by (subst comment_end.simps) simp
      obtain body where body: "drop (Suc i) q = body @ ''*/'' @ drop (comment_end q i) q"
        "\<not> (\<exists>a b. body @ ''*'' = a @ ''*/'' @ b)"
        using "1.IH" "1.prems" lt False e by auto
      have "drop i q = (q ! i # body) @ ''*/'' @ drop (comment_end q i) q"
        using body(1) lt by (metis Cons_nth_drop_Suc Suc_lessD Suc_eq_plus1 append_Cons)
      moreover have "\<not> (\<exists>a b. (q ! i # body) @ ''*'' = a @ ''*/'' @ b)"
        by (rule no_end_Cons [OF body(2)]) (use False calculation in simp)
      ultimately show ?thesis by blast
    qed
  qed
qed

lemma skip_ge: "i \<le> skipLeadingTrivia q i"
proof (induction q i rule: skipLeadingTrivia.induct)
  case (1 q i)
  have "i + 2 \<le> line_end q (i + 2)" "i + 2 \<le> comment_end q (i + 2)" by (rule line_end_ge, rule comment_end_ge)
  with "1.IH" show ?case
    by (subst skipLeadingTrivia.simps) (auto simp del: add_2_eq_Suc')
qed

lemma drop_after_prefix: "HasPrefix (drop i q) p \<Longrightarrow> drop i q = p @ drop (i + length p) q"
  by (metis add.commute append_eq_conv_conj drop_drop prefix_def)

lemma skip_over_line:
  assumes "HasPrefix (drop i q) ''--''" and k: "line_end q (i + 2) < length q" and n: "Suc (line_end q (i + 2)) \<le> n"
    and t: "drop (line_end q (i + 2)) q = t @ drop n q" "sql_trivia t"
  shows "\<exists>l. drop i q = l @ drop n q \<and> sql_trivia l"
proof -
  let ?k = "line_end q (i + 2)"
  obtain l where nl: "q ! ?k = CHR 0x0A" and l: "drop (i + 2) q = l @ drop ?k q" "CHR 0x0A \<notin> set l"
    using line_end_found [OF k] by blast
  have "t \<noteq> []" using t(1) k n by (auto dest: arg_cong [where f = length])
  then obtain t' where t': "t = CHR 0x0A # t'"
    using t(1) nl k by (metis Cons_nth_drop_Suc append_Cons list.exhaust list.inject)
  have "drop i q = (''--'' @ l @ CHR 0x0A # t') @ drop n q"
    using drop_after_prefix [OF assms(1)] l(1) t(1) t' by simp
  moreover have "sql_trivia (''--'' @ l @ CHR 0x0A # t')" using sql_trivia.line [OF l(2)] t(2) t' by simp
  ultimately show ?thesis by blast
qed

lemma skip_over_block:
  assumes "HasPrefix (drop i q) ''/*''" and k: "comment_end q (i + 2) + 1 < length q"
    and t: "drop (comment_end q (i + 2)) q = t @ drop n q" "sql_trivia t"
  shows "\<exists>l. drop i q = l @ drop n q \<and> sql_trivia l"
proof -
  obtain body where body: "drop (i + 2) q = body @ ''*/'' @ drop (comment_end q (i + 2)) q" "\<not> (\<exists>a b. body @ ''*'' = a @ ''*/'' @ b)"
    using comment_end_found k by blast
  have "drop i q = (''/*'' @ body @ ''*/'' @ t) @ drop n q"
    using drop_after_prefix [OF assms(1)] body(1) t(1) by simp
  with sql_trivia.block [OF body(2) t(2)] show ?thesis by blast
qed

lemma skip_result:
  "skipLeadingTrivia q i + 1 < length q \<Longrightarrow> i \<le> length q \<Longrightarrow>
   \<exists>l. drop i q = l @ drop (skipLeadingTrivia q i) q \<and> sql_trivia l"
proof (induction q i rule: skipLeadingTrivia.induct)
  case (1 q i)
  show ?case
  proof (cases "i < length q")
    case False
    then show ?thesis using "1.prems" by (subst (asm) skipLeadingTrivia.simps) auto
  next
    case lt: True
    consider (ws) "isSQLWhitespace (q ! i)"
      | (line) "\<not> isSQLWhitespace (q ! i)" "HasPrefix (drop i q) ''--''"
      | (block) "\<not> isSQLWhitespace (q ! i)" "\<not> HasPrefix (drop i q) ''--''" "HasPrefix (drop i q) ''/*''"
      | (stop) "\<not> isSQLWhitespace (q ! i)" "\<not> HasPrefix (drop i q) ''--''" "\<not> HasPrefix (drop i q) ''/*''"
      by blast
    then show ?thesis
    proof cases
      case ws
      then have e: "skipLeadingTrivia q i = skipLeadingTrivia q (Suc i)" using lt by (subst skipLeadingTrivia.simps) simp
      obtain l where "drop (Suc i) q = l @ drop (skipLeadingTrivia q i) q" "sql_trivia l"
        using "1.IH"(1) lt ws e "1.prems" by auto
      moreover have "drop i q = q ! i # drop (Suc i) q" using lt by (simp add: Cons_nth_drop_Suc)
      ultimately show ?thesis using ws by (intro exI [of _ "q ! i # l"]) (auto intro: sql_trivia.space)
    next
      case stop
      then have "skipLeadingTrivia q i = i" using lt by (subst skipLeadingTrivia.simps) simp
      then show ?thesis by (intro exI [of _ "[]"]) (simp add: sql_trivia.nothing)
    next
      case line
      let ?k = "line_end q (i + 2)"
      have e: "skipLeadingTrivia q i = skipLeadingTrivia q ?k" using lt line by (subst skipLeadingTrivia.simps) simp
      then have k: "?k < length q" using skip_ge [of ?k q] "1.prems"(1) by linarith
      then have "q ! ?k = CHR 0x0A" using line_end_found by blast
      then have "skipLeadingTrivia q i = skipLeadingTrivia q (Suc ?k)"
        unfolding e using k by (subst skipLeadingTrivia.simps) (simp add: isSQLWhitespace_def)
      then have "Suc ?k \<le> skipLeadingTrivia q i" using skip_ge [of "Suc ?k" q] by simp
      with "1.IH"(2) lt line e k "1.prems" skip_over_line [OF line(2) k] show ?thesis by auto
    next
      case block
      let ?k = "comment_end q (i + 2)"
      have e: "skipLeadingTrivia q i = skipLeadingTrivia q ?k" using lt block by (subst skipLeadingTrivia.simps) simp
      then have k: "?k + 1 < length q" using skip_ge [of ?k q] "1.prems"(1) by linarith
      with "1.IH"(3) lt block e "1.prems" skip_over_block [OF block(3)] show ?thesis by auto
    qed
  qed
qed

text \<open>A keyword at the start of a text: letters in any case, not continued by an identifier character.\<close>

definition word_ends :: "string \<Rightarrow> bool" where
  "word_ends rest \<longleftrightarrow> (case rest of [] \<Rightarrow> True | c # _ \<Rightarrow> \<not> isSQLIdentifierChar c)"

definition starts_word :: "string \<Rightarrow> string \<Rightarrow> bool" where
  "starts_word keyword s \<longleftrightarrow> (\<exists>lead kw rest. s = lead @ kw @ rest \<and> sql_trivia lead \<and> EqualFold kw keyword \<and> word_ends rest)"

lemma EqualFold_length: "EqualFold s t \<Longrightarrow> length s = length t"
  by (metis EqualFold_def ToLower_def length_map)

lemma matchKeyword_iff:
  "matchKeyword (p @ s) (length p) keyword \<longleftrightarrow> (\<exists>kw rest. s = kw @ rest \<and> EqualFold kw keyword \<and> word_ends rest)"
  (is "?L \<longleftrightarrow> ?R")
proof
  assume L: ?L
  let ?n = "length keyword"
  have "s = take ?n s @ drop ?n s" "EqualFold (take ?n s) keyword" using L by (auto simp: matchKeyword_def split: if_splits)
  moreover have "word_ends (drop ?n s)"
    using L by (cases "drop ?n s") (auto simp: matchKeyword_def word_ends_def Let_def nth_append split: if_splits
      dest: arg_cong [where f = length] nth_via_drop)
  ultimately show ?R by blast
next
  assume ?R
  then obtain kw rest where s: "s = kw @ rest" "EqualFold kw keyword" "word_ends rest" by blast
  then show ?L using EqualFold_length [OF s(2)]
    by (cases rest) (auto simp: matchKeyword_def word_ends_def Let_def nth_append)
qed

definition plain_start :: "string \<Rightarrow> bool" where
  "plain_start keyword \<longleftrightarrow> 2 \<le> length keyword \<and>
     (\<forall>c. to_lower_char c = to_lower_char (hd keyword) \<longrightarrow> \<not> isSQLWhitespace c \<and> c \<noteq> CHR ''-'' \<and> c \<noteq> CHR ''/'')"

lemma plain_start_keywords: "plain_start ''WITH''" "plain_start ''RECURSIVE''"
proof -
  have "\<forall>c\<in>set [CHR '' '', CHR 0x09, CHR 0x0A, CHR 0x0D, CHR 0x0C, CHR ''-'', CHR ''/''].
      to_lower_char c \<noteq> to_lower_char CHR ''W'' \<and> to_lower_char c \<noteq> to_lower_char CHR ''R''"
    by code_simp
  then show "plain_start ''WITH''" "plain_start ''RECURSIVE''"
    by (auto simp: plain_start_def isSQLWhitespace_def)
qed

lemma skip_stop:
  "\<not> isSQLWhitespace c \<Longrightarrow> c \<noteq> CHR ''-'' \<Longrightarrow> c \<noteq> CHR ''/'' \<Longrightarrow> skipLeadingTrivia (p @ c # s) (length p) = length p"
  by (subst skipLeadingTrivia.simps) (simp add: nth_append)

lemma starts_word_at:
  assumes "i \<le> length q" "plain_start keyword" "matchKeyword q (skipLeadingTrivia q i) keyword"
  obtains lead kw rest where "drop i q = lead @ kw @ rest" "sql_trivia lead" "EqualFold kw keyword" "word_ends rest"
    "skipLeadingTrivia q i = i + length lead" "length kw = length keyword"
proof -
  let ?j = "skipLeadingTrivia q i"
  have j: "?j + length keyword \<le> length q" using assms(3) by (auto simp: matchKeyword_def split: if_splits)
  then obtain l where l: "drop i q = l @ drop ?j q" "sql_trivia l"
    using skip_result [of q i] assms(1,2) by (auto simp: plain_start_def)
  obtain kw rest where "drop ?j q = kw @ rest" "EqualFold kw keyword" "word_ends rest"
    using assms(3) j matchKeyword_iff [of "take ?j q" "drop ?j q" keyword] by auto
  moreover have "?j = i + length l"
    using arg_cong [OF l(1), of length] j assms(1) skip_ge [of i q] by simp
  ultimately show thesis using that l EqualFold_length by metis
qed

lemma starts_word_iff:
  assumes "i \<le> length q" "plain_start keyword"
  shows "matchKeyword q (skipLeadingTrivia q i) keyword \<longleftrightarrow> starts_word keyword (drop i q)"
proof
  assume "matchKeyword q (skipLeadingTrivia q i) keyword"
  from starts_word_at [OF assms this] show "starts_word keyword (drop i q)"
    unfolding starts_word_def by metis
next
  assume "starts_word keyword (drop i q)"
  then obtain lead kw rest where d: "drop i q = lead @ kw @ rest" "sql_trivia lead" "EqualFold kw keyword" "word_ends rest"
    by (auto simp: starts_word_def)
  define p where "p = take i q"
  have q: "q = p @ lead @ kw @ rest" and p: "length p = i"
    using d(1) assms(1) append_take_drop_id [of i q] by (simp_all add: p_def)
  obtain c kw' where kw: "kw = c # kw'" "to_lower_char c = to_lower_char (hd keyword)"
    using d(3) assms(2) by (cases kw; cases keyword) (auto simp: EqualFold_def ToLower_def plain_start_def)
  have "skipLeadingTrivia q i = length (p @ lead)"
    using skip_trivia [OF d(2), of p "kw @ rest"] skip_stop [of c "p @ lead" "kw' @ rest"] kw assms(2) q p
    by (simp add: plain_start_def)
  moreover have "matchKeyword ((p @ lead) @ kw @ rest) (length (p @ lead)) keyword"
    unfolding matchKeyword_iff using d(3,4) by blast
  ultimately show "matchKeyword q (skipLeadingTrivia q i) keyword" using q by simp
qed

subsection \<open>The tenant of a request\<close>

lemma tenant_of_context:
  assumes "GetClaims c = Some cl" "\<not> IsServiceToken cl" "TenantID cl \<noteq> []" "TenantAccessMiddleware cfg c = Next c1"
  shows "tenantIDFromContext (StdContext (gc_req c1)) = TenantID cl" "tenantIDFromContext (GinContext c1) = TenantID cl"
  using TenantAccess_own_tenant [OF assms] assms(3)
  by (auto simp: tenantIDFromContext_def db_TenantIDFromContext_def)

section \<open>Properties\<close>

text \<open>The text of the statement up to the literal with the tenant.\<close>

definition set_config_call :: string where
  "set_config_call = ''SELECT set_config('' @ [quote] @ ''app.current_tenant_id'' @ [quote] @ '', '' @ [quote]"

lemma tenantScopeStatement_reads:
  "\<exists>literal. tenantScopeStatement tenantID = set_config_call @ literal \<and>
     sql_literal literal = Some (TrimSpace tenantID, '', true)'')"
  using sql_literal_escaped [of "'', true)''" "TrimSpace tenantID"]
  by (auto simp: tenantScopeStatement_def set_config_call_def escapeSQLLiteral_def)

text \<open>
  C8. A transaction of a request is scoped to the tenant of its token. When a user token with a tenant
  has passed the tenant middleware and \<open>BeginTx\<close>, called with the context of the request or with the gin
  context itself, returns a transaction, then the first statement executed in it was a call of
  \<open>set_config\<close> whose string literal PostgreSQL reads as exactly this tenant, whatever characters it has,
  and when that statement fails the transaction is rolled back and not returned.
\<close>

theorem transaction_scoped_to_token:
  assumes "GetClaims c = Some cl" and "\<not> IsServiceToken cl" and "TenantID cl \<noteq> []"
    and "TenantAccessMiddleware cfg c = Next c1"
    and "ctx = StdContext (gc_req c1) \<or> ctx = GinContext c1"
    and "db_BeginTx db ctx w = (r, w')"
  shows "case sq_Begin db w of
      (Some err, w1) \<Rightarrow> r = Err err \<and> w' = w1
    | (None, w1) \<Rightarrow>
        \<exists>literal. sql_literal literal = Some (TenantID cl, '', true)'') \<and>
          (case sq_tx_Exec db (set_config_call @ literal) w1 of
             (None, w2) \<Rightarrow> r = Ok () \<and> w' = w2
           | (Some err, w2) \<Rightarrow> r = Err err \<and> w' = sq_tx_Rollback db w2)"
proof -
  have id: "tenantIDFromContext ctx = TenantID cl"
    using assms(5) tenant_of_context [OF assms(1-4)] by auto
  obtain literal where "tenantScopeStatement (TenantID cl) = set_config_call @ literal"
    "sql_literal literal = Some (TenantID cl, '', true)'')"
    using tenantScopeStatement_reads [of "TenantID cl"] by auto
  then show ?thesis
    using assms(6) by (auto simp: db_BeginTx_def id split: prod.splits option.splits)
qed

definition recording_db :: "(string list, unit) sql_db" where
  "recording_db = \<lparr>sq_Query = (\<lambda>q a w. ((), w @ [q])), sq_QueryRow = (\<lambda>q a w. ((), w @ [q])), sq_Exec = (\<lambda>q a w. ((), w @ [q])),
     sq_Begin = (\<lambda>w. (None, w @ [''BEGIN''])), sq_tx_Exec = (\<lambda>q w. (None, w @ [q])), sq_tx_Rollback = (\<lambda>w. w @ [''ROLLBACK'']),
     sq_Conn = (\<lambda>w. ((), w))\<rparr>"

theorem transaction_scoped_to_token_witness:
  "\<exists>c1 literal. TenantAccessMiddleware (DefaultTenantAccessConfig\<lparr>ta_EnforceTenantStatus := False\<rparr>) demo_request = Next c1 \<and>
     db_BeginTx recording_db (StdContext (gc_req c1)) [] = (Ok (), [''BEGIN'', set_config_call @ literal]) \<and>
     sql_literal literal = Some (''t1'', '', true)'')"
proof -
  have cl: "GetClaims demo_request = Some demo_claims" by (simp add: GetClaims_def demo_request_def)
  have ten: "TenantID demo_claims \<noteq> []" by (simp add: demo_claims_simps)
  obtain c1 where c1: "TenantAccessMiddleware (DefaultTenantAccessConfig\<lparr>ta_EnforceTenantStatus := False\<rparr>) demo_request = Next c1"
    using demo_scope_ok by (auto simp: TenantAccessMiddleware_def)
  obtain r w' where run: "db_BeginTx recording_db (StdContext (gc_req c1)) [] = (r, w')" by force
  with transaction_scoped_to_token [OF cl demo_claims_simps(5) ten c1 _ run] c1 show ?thesis
    by (auto simp: recording_db_def demo_claims_simps)
qed

lemma inject_after:
  assumes "query = lead @ rest" and "leadingWithClauseInsertIndex query = Some (length lead)"
  shows "injectTenantScope query tenantID = lead @ '' '' @ tenantScopeCTE tenantID @ '','' @ rest"
  using assms by (simp add: injectTenantScope_def)

text \<open>
  The scoping clause goes in front of the query's own first clause and leaves the query as it is. If
  the query begins, behind white space and comments, with \<open>WITH\<close> or \<open>WITH RECURSIVE\<close> in any case, the clause
  is put behind these words and separated by a comma; otherwise the query is prefixed with it. Only
  these words make the difference, and nothing of the query is lost or moved.
\<close>

lemma inject_scope_shape:
  "if starts_word ''WITH'' query
   then \<exists>lead kw rest. query = lead @ kw @ rest \<and> sql_trivia lead \<and> word_ends rest \<and>
          injectTenantScope query tenantID = lead @ kw @ '' '' @ tenantScopeCTE tenantID @ '','' @ rest \<and>
          (EqualFold kw ''WITH'' \<and> \<not> starts_word ''RECURSIVE'' rest \<or>
           (\<exists>w t r. kw = w @ t @ r \<and> EqualFold w ''WITH'' \<and> sql_trivia t \<and> EqualFold r ''RECURSIVE''))
   else injectTenantScope query tenantID = ''WITH '' @ tenantScopeCTE tenantID @ '' '' @ query"
proof (cases "matchKeyword query (skipLeadingTrivia query 0) ''WITH''")
  case False
  then show ?thesis
    using starts_word_iff [of 0 query "''WITH''"] plain_start_keywords
    by (simp add: injectTenantScope_def leadingWithClauseInsertIndex_def)
next
  case True
  obtain lead kw rest where "drop 0 query = lead @ kw @ rest" and lead: "sql_trivia lead" "EqualFold kw ''WITH''" "word_ends rest"
    and "skipLeadingTrivia query 0 = 0 + length lead" and kw: "length kw = length ''WITH''"
    by (rule starts_word_at [OF le0 plain_start_keywords(1) True])
  then have q: "query = lead @ kw @ rest" and at: "skipLeadingTrivia query 0 = length lead" by simp_all
  define n where "n = length (lead @ kw)"
  have n: "n \<le> length query" "drop n query = rest" using q by (simp_all add: n_def)
  have idx: "leadingWithClauseInsertIndex query =
      (if matchKeyword query (skipLeadingTrivia query n) ''RECURSIVE''
       then Some (skipLeadingTrivia query n + length ''RECURSIVE'') else Some n)"
    using True at kw unfolding leadingWithClauseInsertIndex_def n_def Let_def by simp
  have sw: "starts_word ''WITH'' query" using q lead by (auto simp: starts_word_def)
  show ?thesis
  proof (cases "matchKeyword query (skipLeadingTrivia query n) ''RECURSIVE''")
    case False
    have "injectTenantScope query tenantID = (lead @ kw) @ '' '' @ tenantScopeCTE tenantID @ '','' @ rest"
    proof (rule inject_after)
      show "query = (lead @ kw) @ rest" by (simp add: q)
      show "leadingWithClauseInsertIndex query = Some (length (lead @ kw))" using False idx by (simp add: n_def)
    qed
    moreover have "\<not> starts_word ''RECURSIVE'' rest"
      using False starts_word_iff [OF n(1) plain_start_keywords(2)] n(2) by simp
    ultimately show ?thesis using sw q lead by auto
  next
    case rec: True
    obtain t r rest' where "drop n query = t @ r @ rest'" and r: "sql_trivia t" "EqualFold r ''RECURSIVE''" "word_ends rest'"
      and at2: "skipLeadingTrivia query n = n + length t" "length r = length ''RECURSIVE''"
      by (rule starts_word_at [OF n(1) plain_start_keywords(2) rec])
    then have q2: "query = lead @ (kw @ t @ r) @ rest'" using q n(2) by simp
    have inj: "injectTenantScope query tenantID = (lead @ kw @ t @ r) @ '' '' @ tenantScopeCTE tenantID @ '','' @ rest'"
    proof (rule inject_after)
      show "query = (lead @ kw @ t @ r) @ rest'" by (simp add: q2)
      show "leadingWithClauseInsertIndex query = Some (length (lead @ kw @ t @ r))" using rec at2 idx by (simp add: n_def)
    qed
    have rec_kw: "\<exists>w t' r'. kw @ t @ r = w @ t' @ r' \<and> EqualFold w ''WITH'' \<and> sql_trivia t' \<and> EqualFold r' ''RECURSIVE''"
      using lead(2) r(1,2) by blast
    show ?thesis unfolding if_P [OF sw]
      by (rule exI [of _ lead], rule exI [of _ "kw @ t @ r"], rule exI [of _ rest'])
        (intro conjI disjI2 rec_kw lead(1) r(3), simp add: q2, simp add: inj)
  qed
qed

lemma inject_scope_shape_witness:
  "injectTenantScope ''select 1'' ''t1'' = ''WITH '' @ tenantScopeCTE ''t1'' @ '' select 1''"
proof -
  have "\<not> matchKeyword ''select 1'' (skipLeadingTrivia ''select 1'' 0) ''WITH''" by code_simp
  then have "\<not> starts_word ''WITH'' ''select 1''"
    using starts_word_iff [of 0 "''select 1''" "''WITH''"] plain_start_keywords by simp
  with inject_scope_shape [of "''select 1''" "''t1''"] show ?thesis by simp
qed

text \<open>
  \<open>SetTenantContext\<close> does not escape the tenant: behind a quote in the tenant id, unless doubled, the rest
  of the id is no longer read as part of the literal but as SQL text.
\<close>

lemma set_tenant_context_injectable:
  assumes "quote \<notin> set name" and "code \<noteq> []" and "hd code \<noteq> quote"
  shows "\<exists>literal. SetTenantContext db (name @ quote # code) w =
      sq_tx_Exec db (''SET LOCAL app.current_tenant_id = '' @ [quote] @ literal) w \<and>
    sql_literal literal = Some (name, code @ [quote])"
proof -
  have "sql_literal (name @ quote # (code @ [quote])) = Some (name, code @ [quote])"
    using assms by (intro sql_literal_plain) auto
  then show ?thesis by (auto simp: SetTenantContext_def set_local_def)
qed

lemma set_tenant_context_injectable_witness:
  "\<exists>literal. SetTenantContext recording_db (''t'' @ quote # ''; RESET ALL; --'') [] =
      (None, [''SET LOCAL app.current_tenant_id = '' @ [quote] @ literal]) \<and>
    sql_literal literal = Some (''t'', ''; RESET ALL; --'' @ [quote])"
  using set_tenant_context_injectable [of "''t''" "''; RESET ALL; --''" recording_db "[]"]
  by (simp add: recording_db_def)

end
