(* ===== verification/Server_Middleware.thy ===== *)
theory Server_Middleware
  imports Tenant_Access Apperr
begin

text \<open>
  \<open>pkg/server/middleware\<close>: request ids, security headers, CORS, rate limiting, access log and metrics, error
  handling and recovery, and the values kept in a gin context. A middleware is a function of the rest of
  the chain, which it runs with \<open>c.Next()\<close>; a handler ends or panics, and a panic unwinds through the
  middlewares that are still running. An \<open>exchange\<close> is a request with its response; \<open>'l server_state\<close> is what
  the middlewares keep between requests.
\<close>

section \<open>Exchanges and handlers\<close>

record exchange =
  ex_c :: gin_ctx
  ex_Method :: string
  ex_Path :: string
  ex_FullPath :: string
  ex_RemoteHost :: "string option"
  ex_ClientIP :: string
  ex_Header :: "string \<rightharpoonup> string"
  ex_Status :: int
  ex_Written :: bool
  ex_Body :: "string list"
  ex_Errors :: "go_error option list"

text \<open>
  \<open>ex_RemoteHost\<close> is what \<open>net.SplitHostPort\<close> reads from the remote address. \<open>ex_Header\<close> and
  \<open>ex_Status\<close> are the headers and the status of the response; once it is written, the status stays.
  \<open>ex_Body\<close> lists the error codes of the JSON documents written to the body, \<open>ex_Errors\<close> is \<open>c.Errors\<close>.
\<close>

datatype 'w flow = Served exchange 'w | Panicked exchange 'w

type_synonym 'w rest_of_chain = "exchange \<Rightarrow> 'w \<Rightarrow> 'w flow"
type_synonym 'w handler = "'w rest_of_chain \<Rightarrow> 'w rest_of_chain"

text \<open>Go on with the rest of the chain, and with what is left to do when it has returned normally.\<close>

fun and_then :: "'w flow \<Rightarrow> (exchange \<Rightarrow> 'w \<Rightarrow> 'w flow) \<Rightarrow> 'w flow" where
  "and_then (Served ex w) f = f ex w"
| "and_then (Panicked ex w) f = Panicked ex w"

definition SetHeader_ex :: "string \<Rightarrow> string \<Rightarrow> exchange \<Rightarrow> exchange" where
  "SetHeader_ex key val ex = ex\<lparr>ex_Header := (ex_Header ex)(key \<mapsto> val)\<rparr>"

text \<open>Writing a status, and a status with a JSON document: \<open>AbortWithStatus\<close>, \<open>AbortWithStatusJSON\<close>, \<open>JSON\<close>.\<close>

definition write_status :: "int \<Rightarrow> exchange \<Rightarrow> exchange" where
  "write_status status ex = (if ex_Written ex then ex else ex\<lparr>ex_Status := status, ex_Written := True\<rparr>)"

definition write_json :: "int \<Rightarrow> string \<Rightarrow> exchange \<Rightarrow> exchange" where
  "write_json status err ex = (let ex = write_status status ex in ex\<lparr>ex_Body := ex_Body ex @ [err]\<rparr>)"

definition RequestHeader :: "exchange \<Rightarrow> string \<Rightarrow> string" where
  "RequestHeader ex key = index_str (gc_Header (ex_c ex)) key"

section \<open>requestid.go\<close>

definition HeaderRequestID :: string where "HeaderRequestID = ''X-Request-ID''"
definition RequestIDKey :: string where "RequestIDKey = ''requestID''"

record request_id_config =
  ri_HeaderName :: string
  ri_AllowIncoming :: bool

definition defaultRequestIDConfig :: request_id_config where
  "defaultRequestIDConfig = \<lparr>ri_HeaderName = HeaderRequestID, ri_AllowIncoming = True\<rparr>"

text \<open>\<open>uuid\<close> is the identifier that is generated when one is needed.\<close>

definition RequestIDMiddleware :: "request_id_config \<Rightarrow> string \<Rightarrow> 'w handler" where
  "RequestIDMiddleware cfg uuid k ex w =
     (let reqID = (if ri_AllowIncoming cfg then RequestHeader ex (ri_HeaderName cfg) else []);
          reqID = (if reqID = [] then uuid else reqID);
          c = ex_c ex;
          c = c\<lparr>gc_keys := (gc_keys c)(RequestIDKey \<mapsto> AString reqID), gc_req := (gc_req c)\<lparr>cx_request_id := Some reqID\<rparr>\<rparr>
      in k (SetHeader_ex (ri_HeaderName cfg) reqID (ex\<lparr>ex_c := c\<rparr>)) w)"

section \<open>securityheaders.go\<close>

record security_headers_config =
  sh_Enabled :: bool
  sh_ContentTypeNosniff :: bool
  sh_FrameOptions :: string
  sh_XSSProtection :: string
  sh_ReferrerPolicy :: string
  sh_HSTS :: string
  sh_ContentSecurityPolicy :: string
  sh_PermissionsPolicy :: string

definition DefaultSecurityHeadersConfig :: security_headers_config where
  "DefaultSecurityHeadersConfig =
     \<lparr>sh_Enabled = True, sh_ContentTypeNosniff = True, sh_FrameOptions = ''DENY'', sh_XSSProtection = ''1; mode=block'',
      sh_ReferrerPolicy = ''strict-origin-when-cross-origin'', sh_HSTS = ''max-age=31536000; includeSubDomains'',
      sh_ContentSecurityPolicy = [], sh_PermissionsPolicy = ''camera=(), microphone=(), geolocation=()''\<rparr>"

definition set_unless_empty :: "string \<Rightarrow> string \<Rightarrow> exchange \<Rightarrow> exchange" where
  "set_unless_empty key val ex = (if val \<noteq> [] then SetHeader_ex key val ex else ex)"

definition security_headers :: "security_headers_config \<Rightarrow> exchange \<Rightarrow> exchange" where
  "security_headers cfg ex =
     (let ex = (if sh_ContentTypeNosniff cfg then SetHeader_ex ''X-Content-Type-Options'' ''nosniff'' ex else ex);
          ex = set_unless_empty ''X-Frame-Options'' (sh_FrameOptions cfg) ex;
          ex = set_unless_empty ''X-XSS-Protection'' (sh_XSSProtection cfg) ex;
          ex = set_unless_empty ''Referrer-Policy'' (sh_ReferrerPolicy cfg) ex;
          ex = set_unless_empty ''Strict-Transport-Security'' (sh_HSTS cfg) ex;
          ex = set_unless_empty ''Content-Security-Policy'' (sh_ContentSecurityPolicy cfg) ex;
          ex = set_unless_empty ''Permissions-Policy'' (sh_PermissionsPolicy cfg) ex
      in ex)"

definition SecurityHeadersMiddleware :: "security_headers_config \<Rightarrow> 'w handler" where
  "SecurityHeadersMiddleware cfg k ex w =
     (if \<not> sh_Enabled cfg then k ex w else k (security_headers cfg ex) w)"

section \<open>cors.go\<close>

record cors_config =
  co_Enabled :: bool
  co_AllowOrigins :: "string list"
  co_AllowMethods :: "string list"
  co_AllowHeaders :: "string list"
  co_ExposeHeaders :: "string list"
  co_AllowCredentials :: bool
  co_MaxAge :: go_duration

definition DefaultCorsConfig :: cors_config where
  "DefaultCorsConfig =
     \<lparr>co_Enabled = True, co_AllowOrigins = [''*''],
      co_AllowMethods = [''GET'', ''POST'', ''PUT'', ''PATCH'', ''DELETE'', ''OPTIONS''],
      co_AllowHeaders = [''Origin'', ''Content-Type'', ''Accept'', ''Authorization''], co_ExposeHeaders = [],
      co_AllowCredentials = False, co_MaxAge = 12 * Hour\<rparr>"

definition originSet :: "string list \<Rightarrow> string set" where
  "originSet origins = {TrimSpace o' | o'. o' \<in> set origins} - {[]}"

lemma originSet_code [code]: "originSet origins = set (filter (\<lambda>o'. o' \<noteq> []) (map TrimSpace origins))"
  by (auto simp: originSet_def)

definition TrimRight :: "char \<Rightarrow> string \<Rightarrow> string" where
  "TrimRight c s = rev (dropWhile (\<lambda>x. x = c) (rev s))"

text \<open>\<open>fmt_seconds\<close> is \<open>strconv.FormatFloat\<close> of the seconds of a duration in its shortest decimal form.\<close>

definition max_age_text :: "(go_duration \<Rightarrow> string) \<Rightarrow> cors_config \<Rightarrow> string" where
  "max_age_text fmt_seconds cfg = TrimRight CHR ''.'' (TrimRight CHR ''0'' (fmt_seconds (co_MaxAge cfg)))"

definition allow_origin :: "cors_config \<Rightarrow> exchange \<Rightarrow> exchange" where
  "allow_origin cfg ex =
     (let allowAll = (case co_AllowOrigins cfg of [o'] \<Rightarrow> TrimSpace o' = ''*'' | _ \<Rightarrow> False);
          allowed = originSet (co_AllowOrigins cfg);
          origin = RequestHeader ex ''Origin''
      in if allowAll then SetHeader_ex ''Access-Control-Allow-Origin'' ''*'' ex
         else if origin \<noteq> [] \<and> origin \<in> allowed then SetHeader_ex ''Access-Control-Allow-Origin'' origin ex
         else ex)"

definition cors_headers :: "(go_duration \<Rightarrow> string) \<Rightarrow> cors_config \<Rightarrow> exchange \<Rightarrow> exchange" where
  "cors_headers fmt_seconds cfg ex =
     (let exposeHeaders = Join (co_ExposeHeaders cfg) '', '';
          ex = allow_origin cfg ex;
          ex = SetHeader_ex ''Access-Control-Allow-Methods'' (Join (co_AllowMethods cfg) '', '') ex;
          ex = SetHeader_ex ''Access-Control-Allow-Headers'' (Join (co_AllowHeaders cfg) '', '') ex;
          ex = (if exposeHeaders \<noteq> [] then SetHeader_ex ''Access-Control-Expose-Headers'' exposeHeaders ex else ex);
          ex = (if co_AllowCredentials cfg then SetHeader_ex ''Access-Control-Allow-Credentials'' ''true'' ex else ex)
      in SetHeader_ex ''Access-Control-Max-Age'' (max_age_text fmt_seconds cfg) ex)"

definition CORSMiddleware :: "(go_duration \<Rightarrow> string) \<Rightarrow> cors_config \<Rightarrow> 'w handler" where
  "CORSMiddleware fmt_seconds cfg k ex w =
     (if \<not> co_Enabled cfg then k ex w
      else
        let ex = cors_headers fmt_seconds cfg ex
        in if ex_Method ex = ''OPTIONS'' then Served (write_status 204 ex) w else k ex w)"

section \<open>ratelimiter.go\<close>

text \<open>The limiter of \<open>golang.org/x/time/rate\<close>: making one, and asking it at a point in time.\<close>

record ('f, 'l) rate_lib =
  rb_NewLimiter :: "'f \<Rightarrow> int \<Rightarrow> 'l"
  rb_Allow :: "go_time \<Rightarrow> 'l \<Rightarrow> bool \<times> 'l"

record 'l rate_entry =
  re_limiter :: 'l
  re_lastSeen :: go_time

record 'f rate_config =
  rl_Enabled :: bool
  rl_RPS :: 'f
  rl_Burst :: int
  rl_CleanupInterval :: go_duration

type_synonym 'l rate_clients = "string \<rightharpoonup> 'l rate_entry"

definition NewRateLimitConfig :: "bool \<Rightarrow> 'f \<Rightarrow> int \<Rightarrow> go_duration \<Rightarrow> 'f rate_config" where
  "NewRateLimitConfig enabled rps burst cleanupInterval =
     \<lparr>rl_Enabled = enabled, rl_RPS = rps, rl_Burst = burst, rl_CleanupInterval = cleanupInterval\<rparr>"

text \<open>The entry of an address as it is after the lookup, new or seen again.\<close>

definition getLimiter :: "('f, 'l) rate_lib \<Rightarrow> 'f rate_config \<Rightarrow> go_time \<Rightarrow> string \<Rightarrow> 'l rate_clients \<Rightarrow> 'l rate_entry \<times> 'l rate_clients" where
  "getLimiter lib rl now ip clients =
     (let entry = (case clients ip of
                     Some entry \<Rightarrow> entry\<lparr>re_lastSeen := now\<rparr>
                   | None \<Rightarrow> \<lparr>re_limiter = rb_NewLimiter lib (rl_RPS rl) (rl_Burst rl), re_lastSeen = now\<rparr>)
      in (entry, clients(ip \<mapsto> entry)))"

text \<open>The limiter is a pointer: what \<open>Allow\<close> changes is seen by the entry in the map.\<close>

definition rate_allow :: "('f, 'l) rate_lib \<Rightarrow> 'f rate_config \<Rightarrow> go_time \<Rightarrow> string \<Rightarrow> 'l rate_clients \<Rightarrow> bool \<times> 'l rate_clients" where
  "rate_allow lib rl now ip clients =
     (let (entry, clients) = getLimiter lib rl now ip clients;
          (ok, lim) = rb_Allow lib now (re_limiter entry)
      in (ok, clients(ip \<mapsto> entry\<lparr>re_limiter := lim\<rparr>)))"

definition rate_cleanup :: "'f rate_config \<Rightarrow> go_time \<Rightarrow> 'l rate_clients \<Rightarrow> 'l rate_clients" where
  "rate_cleanup rl now clients =
     (let expiry = now + wrap64 (- 2 * rl_CleanupInterval rl)
      in (\<lambda>ip. case clients ip of Some entry \<Rightarrow> if re_lastSeen entry < expiry then None else Some entry | None \<Rightarrow> None))"

definition getRemoteIP :: "exchange \<Rightarrow> string" where
  "getRemoteIP ex =
     (let xff = RequestHeader ex ''X-Forwarded-For'';
          ip = TrimSpace (hd (Split xff CHR '',''))
      in if xff \<noteq> [] \<and> ip \<noteq> [] then ip
         else case ex_RemoteHost ex of Some host \<Rightarrow> host | None \<Rightarrow> ex_ClientIP ex)"

section \<open>What the middlewares keep\<close>

datatype log_level = LogInfo | LogWarn | LogError

record 'l server_state =
  ss_clients :: "'l rate_clients"
  ss_inFlight :: int
  ss_reqCount :: "string \<times> string \<times> string \<Rightarrow> nat"
  ss_accessLog :: "(log_level \<times> string \<times> int \<times> string) list"

definition RateLimit_Middleware :: "('f, 'l) rate_lib \<Rightarrow> 'f rate_config \<Rightarrow> go_time \<Rightarrow> 'l server_state handler" where
  "RateLimit_Middleware lib rl now k ex w =
     (if \<not> rl_Enabled rl then k ex w
      else
        let ip = getRemoteIP ex;
            (ok, clients) = rate_allow lib rl now ip (ss_clients w);
            w = w\<lparr>ss_clients := clients\<rparr>
        in if \<not> ok then Served (write_json 429 ''rate limit exceeded'' ex) w else k ex w)"

text \<open>
  The middleware of one route is the same with a state of its own, here the same state seen through
  another field by the caller; the text of its answer has a message besides.
\<close>

definition EndpointRateLimiter :: "('f, 'l) rate_lib \<Rightarrow> 'f \<Rightarrow> int \<Rightarrow> go_time \<Rightarrow> 'l server_state handler" where
  "EndpointRateLimiter lib rps burst now k ex w =
     RateLimit_Middleware lib (NewRateLimitConfig True rps burst (10 * Minute)) now k ex w"

section \<open>logger.go and prometheus.go\<close>

definition shouldSkipAccessLog :: "string \<Rightarrow> bool" where
  "shouldSkipAccessLog path = (path = ''/metrics'')"

definition statusClass :: "int \<Rightarrow> string" where
  "statusClass status =
     (if status \<ge> 100 \<and> status \<le> 599 then FormatInt (status div 100) @ ''xx'' else ''unknown'')"

definition mw_requestIDFromContext :: "exchange \<Rightarrow> string" where
  "mw_requestIDFromContext ex =
     (let rid = (case gc_keys (ex_c ex) RequestIDKey of Some (AString s) \<Rightarrow> s | _ \<Rightarrow> [])
      in if rid \<noteq> [] then rid
         else let rid = index_str (ex_Header ex) HeaderRequestID
              in if rid \<noteq> [] then rid else RequestHeader ex HeaderRequestID)"

text \<open>Of a line of the access log: its level, request id, status and status class.\<close>

definition AccessLoggerMiddleware :: "'l server_state handler" where
  "AccessLoggerMiddleware k ex w =
     and_then (k ex w) (\<lambda>ex w.
       if shouldSkipAccessLog (ex_Path ex) then Served ex w
       else
         let status = ex_Status ex;
             level = (if status \<ge> 500 then LogError else if status \<ge> 400 then LogWarn else LogInfo)
         in Served ex (w\<lparr>ss_accessLog := ss_accessLog w @ [(level, mw_requestIDFromContext ex, status, statusClass status)]\<rparr>))"

definition PrometheusMiddleware :: "'l server_state handler" where
  "PrometheusMiddleware k ex w =
     and_then (k ex (w\<lparr>ss_inFlight := ss_inFlight w + 1\<rparr>)) (\<lambda>ex w.
       let path = (if ex_FullPath ex = [] then ex_Path ex else ex_FullPath ex);
           key = (ex_Method ex, path, FormatInt (ex_Status ex))
       in Served ex (w\<lparr>ss_inFlight := ss_inFlight w - 1, ss_reqCount := (ss_reqCount w)(key := ss_reqCount w key + 1)\<rparr>))"

section \<open>errorhandler.go and recovery.go\<close>

definition ErrorHandlerMiddleware :: "'w handler" where
  "ErrorHandlerMiddleware k ex w =
     and_then (k ex w) (\<lambda>ex w.
       if length (ex_Errors ex) > 0 then
         (case last (ex_Errors ex) of
            None \<Rightarrow> Served ex w
          | Some err \<Rightarrow>
              (case (HandleError (Some err) :: (int \<times> unit api_response) option) of
                 None \<Rightarrow> Served ex w
               | Some (status, env) \<Rightarrow> Served (write_json status (ar_Code env) ex) w))
       else Served ex w)"

definition RecoveryMiddleware :: "'w handler" where
  "RecoveryMiddleware k ex w =
     (case k ex w of
        Served ex w \<Rightarrow> Served ex w
      | Panicked ex w \<Rightarrow> Served (write_json 500 ''internal server error'' ex) w)"

section \<open>contextvalue.go, validator.go and tenantstatus.go\<close>

definition SetContextValue :: "string \<Rightarrow> any \<Rightarrow> 'w handler" where
  "SetContextValue key val k ex w = k (ex\<lparr>ex_c := (ex_c ex)\<lparr>gc_keys := (gc_keys (ex_c ex))(key \<mapsto> val)\<rparr>\<rparr>) w"

text \<open>\<open>MustGet\<close> panics on a missing key and the conversion on a value of another type; both are \<open>None\<close>.\<close>

definition GetContextValue :: "(any \<Rightarrow> 'v option) \<Rightarrow> exchange \<Rightarrow> string \<Rightarrow> 'v option" where
  "GetContextValue as ex key = (case gc_keys (ex_c ex) key of None \<Rightarrow> None | Some v \<Rightarrow> as v)"

definition TenantStatus_handler :: "tenant_status_config \<Rightarrow> 'w handler" where
  "TenantStatus_handler cfg k ex w =
     (case TenantStatusMiddleware cfg (ex_c ex) of
        Next c \<Rightarrow> k (ex\<lparr>ex_c := c\<rparr>) w
      | Abort status err c \<Rightarrow> Served (write_json status err (ex\<lparr>ex_c := c\<rparr>)) w)"

section \<open>Lemmas\<close>

subsection \<open>Rate limits\<close>

text \<open>What happens to the limiters: requests of addresses, and ticks of the cleanup.\<close>

datatype rate_event = RateRequest go_time string | RateCleanup go_time

fun run_rate :: "('f, 'l) rate_lib \<Rightarrow> 'f rate_config \<Rightarrow> rate_event list \<Rightarrow> 'l rate_clients \<Rightarrow> (string \<times> bool) list" where
  "run_rate lib rl [] clients = []"
| "run_rate lib rl (RateRequest t ip # es) clients =
     (case rate_allow lib rl t ip clients of (ok, clients) \<Rightarrow> (ip, ok) # run_rate lib rl es clients)"
| "run_rate lib rl (RateCleanup t # es) clients = run_rate lib rl es (rate_cleanup rl t clients)"

text \<open>A limiter of one's own, asked at given times.\<close>

fun run_limiter :: "('f, 'l) rate_lib \<Rightarrow> go_time list \<Rightarrow> 'l \<Rightarrow> bool list" where
  "run_limiter lib [] l = []"
| "run_limiter lib (t # ts) l = (case rb_Allow lib t l of (ok, l) \<Rightarrow> ok # run_limiter lib ts l)"

fun request_times :: "string \<Rightarrow> rate_event list \<Rightarrow> go_time list" where
  "request_times ip [] = []"
| "request_times ip (RateRequest t i # es) = (if i = ip then t # request_times ip es else request_times ip es)"
| "request_times ip (RateCleanup t # es) = request_times ip es"

text \<open>No tick comes when the last request of the address, at \<open>seen\<close>, is older than two intervals.\<close>

fun kept :: "'f rate_config \<Rightarrow> string \<Rightarrow> go_time option \<Rightarrow> rate_event list \<Rightarrow> bool" where
  "kept rl ip seen [] = True"
| "kept rl ip seen (RateRequest t i # es) = kept rl ip (if i = ip then Some t else seen) es"
| "kept rl ip seen (RateCleanup t # es) =
     ((case seen of None \<Rightarrow> True | Some s \<Rightarrow> t + wrap64 (- 2 * rl_CleanupInterval rl) \<le> s) \<and> kept rl ip seen es)"

definition limiter_of :: "('f, 'l) rate_lib \<Rightarrow> 'f rate_config \<Rightarrow> 'l rate_entry option \<Rightarrow> 'l" where
  "limiter_of lib rl e = (case e of None \<Rightarrow> rb_NewLimiter lib (rl_RPS rl) (rl_Burst rl) | Some x \<Rightarrow> re_limiter x)"

lemma rate_allow_own:
  assumes "rb_Allow lib t (limiter_of lib rl (clients ip)) = (ok, l)"
  shows "\<exists>clients'. rate_allow lib rl t ip clients = (ok, clients') \<and>
    clients' ip = Some \<lparr>re_limiter = l, re_lastSeen = t\<rparr> \<and> (\<forall>i. i \<noteq> ip \<longrightarrow> clients' i = clients i)"
  using assms by (auto simp: rate_allow_def getLimiter_def limiter_of_def Let_def split: option.splits)

lemma rate_allow_other: "i \<noteq> ip \<Longrightarrow> snd (rate_allow lib rl t i clients) ip = clients ip"
  by (simp add: rate_allow_def getLimiter_def Let_def split_beta split: option.splits)

lemma run_rate_isolated:
  "kept rl ip (map_option re_lastSeen (clients ip)) es \<Longrightarrow>
   map snd (filter (\<lambda>x. fst x = ip) (run_rate lib rl es clients)) =
   run_limiter lib (request_times ip es) (limiter_of lib rl (clients ip))"
proof (induction es arbitrary: clients)
  case Nil
  then show ?case by simp
next
  case (Cons e es)
  show ?case
  proof (cases e)
    case (RateCleanup t)
    have "rate_cleanup rl t clients ip = clients ip"
      using Cons.prems RateCleanup by (auto simp: rate_cleanup_def Let_def split: option.splits)
    with Cons.IH [of "rate_cleanup rl t clients"] Cons.prems RateCleanup show ?thesis by simp
  next
    case (RateRequest t i)
    show ?thesis
    proof (cases "i = ip")
      case True
      obtain ok l where a: "rb_Allow lib t (limiter_of lib rl (clients ip)) = (ok, l)" by force
      then obtain clients' where c: "rate_allow lib rl t ip clients = (ok, clients')"
        "clients' ip = Some \<lparr>re_limiter = l, re_lastSeen = t\<rparr>" using rate_allow_own by metis
      with Cons.IH [of clients'] Cons.prems RateRequest True a show ?thesis by (simp add: limiter_of_def)
    next
      case False
      obtain ok clients' where c: "rate_allow lib rl t i clients = (ok, clients')" by force
      then have "clients' ip = clients ip" using rate_allow_other [OF False, of lib rl t clients] by simp
      with Cons.IH [of clients'] Cons.prems RateRequest False c show ?thesis by simp
    qed
  qed
qed

text \<open>The caller names the address that is charged: the first entry of its own header wins.\<close>

lemma forwarded_for_chosen:
  assumes "RequestHeader ex ''X-Forwarded-For'' = ip @ rest" "TrimSpace ip = ip" "ip \<noteq> []" "CHR '','' \<notin> set ip"
    "rest = [] \<or> hd rest = CHR '',''"
  shows "getRemoteIP ex = ip"
proof -
  have "hd (Split (ip @ rest) CHR '','') = ip"
    using assms(4,5) Split_append_sep [OF assms(4)] Split_single [OF assms(4)] by (cases rest) auto
  with assms(1-3) show ?thesis by (simp add: getRemoteIP_def Let_def)
qed

subsection \<open>The age of a preflight answer\<close>

lemma FormatNat_last: "\<exists>s. FormatNat n = s @ [char_of (48 + n mod 10)]"
  by (subst FormatNat.simps) (cases "n < 10"; auto)

lemma TrimRight_zeros:
  "0 < n \<Longrightarrow> \<exists>m k. n = m * 10 ^ k \<and> \<not> 10 dvd m \<and> TrimRight CHR ''0'' (FormatNat n) = FormatNat m"
proof (induction n rule: less_induct)
  case (less n)
  show ?case
  proof (cases "10 dvd n")
    case False
    obtain s where s: "FormatNat n = s @ [char_of (48 + n mod 10)]" using FormatNat_last by blast
    have "0 < n mod 10" using False by (simp add: dvd_eq_mod_eq_0)
    then have "of_char (char_of (48 + n mod 10) :: char) \<noteq> (of_char CHR ''0'' :: nat)"
      using digit_char(1) [of "n mod 10"] by simp
    then have "(char_of (48 + n mod 10) :: char) \<noteq> CHR ''0''" by metis
    then have "TrimRight CHR ''0'' (FormatNat n) = FormatNat n" by (simp add: TrimRight_def s)
    with False show ?thesis by (intro exI [of _ n] exI [of _ 0]) simp
  next
    case True
    then obtain n' where n': "n = 10 * n'" by (auto elim: dvdE)
    with less.prems have "0 < n'" "n' < n" by auto
    then obtain m k where m: "n' = m * 10 ^ k" "\<not> 10 dvd m" "TrimRight CHR ''0'' (FormatNat n') = FormatNat m"
      using less.IH by blast
    have zero: "(char_of (48 :: nat) :: char) = CHR ''0''" by code_simp
    have "FormatNat n = FormatNat n' @ ''0''"
      using n' \<open>0 < n'\<close> zero by (subst FormatNat.simps) simp
    then have "TrimRight CHR ''0'' (FormatNat n) = FormatNat m" using m(3) by (simp add: TrimRight_def)
    with m(1,2) n' show ?thesis by (intro exI [of _ m] exI [of _ "Suc k"]) simp
  qed
qed

section \<open>Properties\<close>


text \<open>A limiter that admits as many requests as it was made for, for the witness.\<close>

definition bucket_lib :: "(unit, int) rate_lib" where
  "bucket_lib = \<lparr>rb_NewLimiter = (\<lambda>f b. b), rb_Allow = (\<lambda>t l. (l > 0, l - 1))\<rparr>"


text \<open>
  \<open>Access-Control-Max-Age\<close> loses the zeros at the end of its number: for a whole number of seconds the
  header is the number with all factors of ten removed, so browsers cache a preflight answer of 12 hours
  (43200 seconds) for 432 seconds. \<open>fmt_seconds\<close> writes whole seconds as integers.
\<close>

lemma cors_max_age_cut:
  assumes "\<forall>n>0. fmt_seconds (int n * Second) = FormatNat n" and "co_MaxAge cfg = int n * Second" and "0 < n"
  shows "\<exists>m k. n = m * 10 ^ k \<and> \<not> 10 dvd m \<and> max_age_text fmt_seconds cfg = FormatNat m"
proof -
  obtain m k where m: "n = m * 10 ^ k" "\<not> 10 dvd m" "TrimRight CHR ''0'' (FormatNat n) = FormatNat m"
    using TrimRight_zeros [OF assms(3)] by blast
  obtain s where s: "FormatNat m = s @ [char_of (48 + m mod 10)]" using FormatNat_last by blast
  have "of_char (char_of (48 + m mod 10) :: char) \<noteq> (of_char CHR ''.'' :: nat)"
    using digit_char(1) [of "m mod 10"] by simp
  then have "(char_of (48 + m mod 10) :: char) \<noteq> CHR ''.''" by metis
  then have "TrimRight CHR ''.'' (FormatNat m) = FormatNat m" by (simp add: TrimRight_def s)
  moreover have "fmt_seconds (co_MaxAge cfg) = FormatNat n" using assms by simp
  ultimately have "max_age_text fmt_seconds cfg = FormatNat m" using m(3) by (simp add: max_age_text_def)
  with m(1,2) show ?thesis by blast
qed

lemma cors_max_age_cut_witness:
  "\<exists>m k. 43200 = m * 10 ^ k \<and> \<not> 10 dvd m \<and> max_age_text (\<lambda>d. FormatNat (nat (d div Second))) DefaultCorsConfig = FormatNat m"
  using cors_max_age_cut [of "\<lambda>d. FormatNat (nat (d div Second))" DefaultCorsConfig 43200]
  by (simp add: DefaultCorsConfig_def duration_defs)

end
