(* ===== verification/Server_Engine.thy ===== *)
theory Server_Engine
  imports Server_Middleware
begin

text \<open>
  \<open>NewEngine\<close> of \<open>pkg/server/server.go\<close> with the options of \<open>pkg/server/options.go\<close>: the order in which the
  middlewares run, and what it means for a request. The audit middleware and the middlewares that the
  service adds are arbitrary handlers.
\<close>

section \<open>Options\<close>

record ('f, 'l) engine_options =
  eo_recovery :: bool
  eo_cors :: cors_config
  eo_prometheus :: bool
  eo_rateLimit :: "'f rate_config option"
  eo_securityHeaders :: security_headers_config
  eo_tenantStatus :: tenant_status_config
  eo_audit :: "'l server_state handler option"
  eo_addMiddleware :: "'l server_state handler list"

text \<open>The zero value of the struct: everything is off.\<close>

definition zero_engine_options :: "('f, 'l) engine_options" where
  "zero_engine_options =
     \<lparr>eo_recovery = False,
      eo_cors = \<lparr>co_Enabled = False, co_AllowOrigins = [], co_AllowMethods = [], co_AllowHeaders = [],
        co_ExposeHeaders = [], co_AllowCredentials = False, co_MaxAge = 0\<rparr>,
      eo_prometheus = False, eo_rateLimit = None,
      eo_securityHeaders = \<lparr>sh_Enabled = False, sh_ContentTypeNosniff = False, sh_FrameOptions = [], sh_XSSProtection = [],
        sh_ReferrerPolicy = [], sh_HSTS = [], sh_ContentSecurityPolicy = [], sh_PermissionsPolicy = []\<rparr>,
      eo_tenantStatus = \<lparr>tsc_Enabled = False, tsc_BlockedStatuses = []\<rparr>, eo_audit = None, eo_addMiddleware = []\<rparr>"

definition WithRateLimit :: "'f rate_config \<Rightarrow> ('f, 'l) engine_options \<Rightarrow> ('f, 'l) engine_options" where
  "WithRateLimit cfg e = e\<lparr>eo_rateLimit := Some cfg\<rparr>"

definition WithRecovery :: "bool \<Rightarrow> ('f, 'l) engine_options \<Rightarrow> ('f, 'l) engine_options" where
  "WithRecovery enabled e = e\<lparr>eo_recovery := enabled\<rparr>"

definition WithCors :: "cors_config \<Rightarrow> ('f, 'l) engine_options \<Rightarrow> ('f, 'l) engine_options" where
  "WithCors c e = e\<lparr>eo_cors := c\<rparr>"

definition WithPrometheus :: "bool \<Rightarrow> ('f, 'l) engine_options \<Rightarrow> ('f, 'l) engine_options" where
  "WithPrometheus enabled e = e\<lparr>eo_prometheus := enabled\<rparr>"

definition WithSecurityHeaders :: "security_headers_config \<Rightarrow> ('f, 'l) engine_options \<Rightarrow> ('f, 'l) engine_options" where
  "WithSecurityHeaders cfg e = e\<lparr>eo_securityHeaders := cfg\<rparr>"

definition WithTenantStatus :: "tenant_status_config \<Rightarrow> ('f, 'l) engine_options \<Rightarrow> ('f, 'l) engine_options" where
  "WithTenantStatus cfg e = e\<lparr>eo_tenantStatus := cfg\<rparr>"

definition WithMiddleware :: "'l server_state handler list \<Rightarrow> ('f, 'l) engine_options \<Rightarrow> ('f, 'l) engine_options" where
  "WithMiddleware m e = e\<lparr>eo_addMiddleware := eo_addMiddleware e @ m\<rparr>"

definition collect_options :: "(('f, 'l) engine_options \<Rightarrow> ('f, 'l) engine_options) list \<Rightarrow> ('f, 'l) engine_options" where
  "collect_options opts = fold (\<lambda>o' e. o' e) opts zero_engine_options"

section \<open>The chain\<close>

text \<open>
  What a request meets: a fresh identifier, and the time at which the rate limiter is asked. The logger
  that \<open>AppLoggerMiddleware\<close> stores under its key is what the method \<open>With\<close> of the engine's logger returns for the fields.
\<close>

record request_env =
  en_uuid :: string
  en_now :: go_time
  en_logger :: "any list \<Rightarrow> any"
  en_handlerName :: string

definition app_logger_fields :: "string \<Rightarrow> exchange \<Rightarrow> any list" where
  "app_logger_fields handlerName ex =
     (let route = (if ex_FullPath ex = [] then ''unmatched'' else ex_FullPath ex);
          fs = map AString [''log_type'', ''application'', ''source'', handlerName, ''route'', route, ''method'', ex_Method ex,
                 ''path'', ex_Path ex];
          rid = mw_requestIDFromContext ex
      in if rid \<noteq> [] then fs @ [AString ''request_id'', AString rid] else fs)"

definition AppLoggerMiddleware :: "(any list \<Rightarrow> any) \<Rightarrow> string \<Rightarrow> 'w handler" where
  "AppLoggerMiddleware With handlerName k ex w = SetContextValue ''corelab_logger'' (With (app_logger_fields handlerName ex)) k ex w"

text \<open>\<open>GetLogger\<close> of \<open>pkg/logger\<close>: \<open>is_logger\<close> is the conversion to the interface, \<open>def\<close> the new default logger.\<close>

definition GetLogger :: "(any \<Rightarrow> 'lg option) \<Rightarrow> 'lg \<Rightarrow> gin_ctx \<Rightarrow> 'lg" where
  "GetLogger is_logger def c =
     (case gc_keys c ''corelab_logger'' of
        Some val \<Rightarrow> (case is_logger val of Some lm \<Rightarrow> lm | None \<Rightarrow> def)
      | None \<Rightarrow> def)"

definition inner_middlewares ::
    "('f, 'l) rate_lib \<Rightarrow> (go_duration \<Rightarrow> string) \<Rightarrow> ('f, 'l) engine_options \<Rightarrow> request_env \<Rightarrow> 'l server_state handler list" where
  "inner_middlewares lib fmt opt env =
     [AccessLoggerMiddleware, AppLoggerMiddleware (en_logger env) (en_handlerName env)] @
     (case eo_audit opt of None \<Rightarrow> [] | Some audit \<Rightarrow> [audit]) @
     (if sh_Enabled (eo_securityHeaders opt) then [SecurityHeadersMiddleware (eo_securityHeaders opt)] else []) @
     (if co_Enabled (eo_cors opt) then [CORSMiddleware fmt (eo_cors opt)] else []) @
     (case eo_rateLimit opt of
        None \<Rightarrow> []
      | Some rl \<Rightarrow> if rl_Enabled rl then [RateLimit_Middleware lib rl (en_now env)] else []) @
     (if tsc_Enabled (eo_tenantStatus opt) then [TenantStatus_handler (eo_tenantStatus opt)] else []) @
     (if eo_prometheus opt then [PrometheusMiddleware] else []) @
     [ErrorHandlerMiddleware] @ eo_addMiddleware opt"

definition NewEngine ::
    "('f, 'l) rate_lib \<Rightarrow> (go_duration \<Rightarrow> string) \<Rightarrow> ('f, 'l) engine_options \<Rightarrow> request_env \<Rightarrow> 'l server_state handler list" where
  "NewEngine lib fmt opt env =
     [RequestIDMiddleware defaultRequestIDConfig (en_uuid env)] @ inner_middlewares lib fmt opt env @
     (if eo_recovery opt then [RecoveryMiddleware] else [])"

text \<open>A request runs through the chain to the handler of its route.\<close>

definition serve :: "'w handler list \<Rightarrow> 'w rest_of_chain \<Rightarrow> 'w rest_of_chain" where
  "serve chain route = foldr (\<lambda>h k. h k) chain route"

text \<open>The counters of a new collector, with its path, and the route that is registered for it.\<close>

definition NewPrometheusCollector :: "string \<Rightarrow> 'l server_state \<Rightarrow> string \<times> 'l server_state" where
  "NewPrometheusCollector metricsPath w = (metricsPath, w\<lparr>ss_inFlight := 0, ss_reqCount := (\<lambda>_. 0)\<rparr>)"

definition RegisterMetricsEndpoint :: "string \<Rightarrow> string \<times> string" where
  "RegisterMetricsEndpoint metricsPath = (''GET'', if metricsPath = [] then ''/metrics'' else metricsPath)"

section \<open>Lemmas\<close>

lemma serve_simps [simp]:
  "serve [] route = route"
  "serve (h # hs) route = h (serve hs route)"
  "serve (hs @ hs') route = serve hs (serve hs' route)"
  by (simp_all add: serve_def)

text \<open>
  What a chain keeps, its handlers keep: a relation between two rests of a chain that every handler carries over to
  the rests it makes of them holds for the whole chain. One instance is about chains that answer, the other about
  chains that cannot be told apart by requests without claims.
\<close>

locale chain_relation =
  fixes related :: "'w rest_of_chain \<Rightarrow> 'w rest_of_chain \<Rightarrow> bool" and keeps :: "'w handler \<Rightarrow> bool"
  assumes keeps_related: "keeps h \<Longrightarrow> related k k' \<Longrightarrow> related (h k) (h k')"
begin

lemma serve_related: "\<forall>h\<in>set hs. keeps h \<Longrightarrow> related k k' \<Longrightarrow> related (serve hs k) (serve hs k')"
  by (induction hs) (auto intro: keeps_related)

end

subsection \<open>Handlers that answer\<close>

text \<open>
  A rest of the chain is \<open>tame\<close> if it keeps the gauge of requests in flight and the request id of the
  response, and \<open>good\<close> if it does not panic either. A handler is \<open>calm\<close> if it is good in front of a good rest.
\<close>

definition tame :: "'l server_state rest_of_chain \<Rightarrow> bool" where
  "tame k \<longleftrightarrow> (\<forall>ex w. case k ex w of
     Served ex' w' \<Rightarrow> ss_inFlight w' = ss_inFlight w \<and> ex_Header ex' HeaderRequestID = ex_Header ex HeaderRequestID
   | Panicked ex' w' \<Rightarrow> ss_inFlight w' = ss_inFlight w \<and> ex_Header ex' HeaderRequestID = ex_Header ex HeaderRequestID)"

definition good :: "'l server_state rest_of_chain \<Rightarrow> bool" where
  "good k \<longleftrightarrow> (\<forall>ex w. \<exists>ex' w'. k ex w = Served ex' w' \<and> ss_inFlight w' = ss_inFlight w \<and>
     ex_Header ex' HeaderRequestID = ex_Header ex HeaderRequestID)"

definition calm :: "'l server_state handler \<Rightarrow> bool" where
  "calm h \<longleftrightarrow> (\<forall>k. good k \<longrightarrow> good (h k))"

lemma goodE:
  assumes "good k"
  obtains ex' w' where "k ex w = Served ex' w'" "ss_inFlight w' = ss_inFlight w"
    "ex_Header ex' HeaderRequestID = ex_Header ex HeaderRequestID"
  using assms unfolding good_def by blast

lemma goodI:
  "(\<And>ex w. \<exists>ex' w'. k ex w = Served ex' w' \<and> ss_inFlight w' = ss_inFlight w \<and>
     ex_Header ex' HeaderRequestID = ex_Header ex HeaderRequestID) \<Longrightarrow> good k"
  by (simp add: good_def)

interpretation answering: chain_relation "\<lambda>k k'. good k" calm
  by unfold_locales (simp add: calm_def)

lemmas good_serve = answering.serve_related

lemma header_id [simp]:
  "ex_Header (SetHeader_ex key val ex) HeaderRequestID = (if key = HeaderRequestID then Some val else ex_Header ex HeaderRequestID)"
  "ex_Header (write_status st ex) = ex_Header ex"
  "ex_Header (write_json st code ex) = ex_Header ex"
  "ex_Header (set_unless_empty key val ex) HeaderRequestID =
     (if val \<noteq> [] \<and> key = HeaderRequestID then Some val else ex_Header ex HeaderRequestID)"
  by (simp_all add: SetHeader_ex_def write_status_def write_json_def set_unless_empty_def Let_def)

lemma other_headers:
  assumes "key \<noteq> HeaderRequestID"
  shows "ex_Header (SetHeader_ex key val ex) HeaderRequestID = ex_Header ex HeaderRequestID"
    "ex_Header (set_unless_empty key val ex) HeaderRequestID = ex_Header ex HeaderRequestID"
    "ex_Header (if b then SetHeader_ex key val ex else ex) HeaderRequestID = ex_Header ex HeaderRequestID"
  using assms by simp_all

lemma ids_kept [simp]:
  "ex_Header (security_headers cfg ex) HeaderRequestID = ex_Header ex HeaderRequestID"
  "ex_Header (allow_origin co ex) HeaderRequestID = ex_Header ex HeaderRequestID"
  "ex_Header (cors_headers fmt co ex) HeaderRequestID = ex_Header ex HeaderRequestID"
proof -
  note other = other_headers [unfolded HeaderRequestID_def]
  show "ex_Header (security_headers cfg ex) HeaderRequestID = ex_Header ex HeaderRequestID"
    unfolding HeaderRequestID_def security_headers_def Let_def by (simp add: other del: header_id split del: if_split)
  show origin: "ex_Header (allow_origin co ex) HeaderRequestID = ex_Header ex HeaderRequestID" for ex
    unfolding HeaderRequestID_def allow_origin_def Let_def by (simp add: other del: header_id)
  show "ex_Header (cors_headers fmt co ex) HeaderRequestID = ex_Header ex HeaderRequestID"
    using origin [unfolded HeaderRequestID_def] unfolding HeaderRequestID_def cors_headers_def Let_def
    by (simp add: other del: header_id split del: if_split)
qed

text \<open>A handler that answers itself, or runs the rest on an exchange with the same request id.\<close>

lemma calm_passing:
  fixes h :: "'l server_state handler"
  assumes "\<And>k ex w. h k ex w = (if b ex w then Served (g ex w) (u ex w) else k (f ex w) (u ex w))"
    and "\<And>ex w. ss_inFlight (u ex w) = ss_inFlight w"
    and "\<And>ex w. ex_Header (g ex w) HeaderRequestID = ex_Header ex HeaderRequestID"
    and "\<And>ex w. ex_Header (f ex w) HeaderRequestID = ex_Header ex HeaderRequestID"
  shows "calm h"
  unfolding calm_def
proof (intro allI impI goodI)
  fix k :: "'l server_state rest_of_chain" and ex w
  assume "good k"
  then obtain ex1 w1 where "k (f ex w) (u ex w) = Served ex1 w1" "ss_inFlight w1 = ss_inFlight (u ex w)"
    "ex_Header ex1 HeaderRequestID = ex_Header (f ex w) HeaderRequestID" by (rule goodE)
  then show "\<exists>ex' w'. h k ex w = Served ex' w' \<and> ss_inFlight w' = ss_inFlight w \<and>
      ex_Header ex' HeaderRequestID = ex_Header ex HeaderRequestID" by (simp add: assms)
qed

lemmas calm_running = calm_passing [where b = "\<lambda>ex w. False" and g = "\<lambda>ex w. ex"]

lemma calm_AppLogger: "calm (AppLoggerMiddleware l n)"
  by (rule calm_running [where u = "\<lambda>ex w. w"
        and f = "\<lambda>ex w. ex\<lparr>ex_c := (ex_c ex)\<lparr>gc_keys := (gc_keys (ex_c ex))(''corelab_logger'' \<mapsto> l (app_logger_fields n ex))\<rparr>\<rparr>"])
    (simp_all add: AppLoggerMiddleware_def SetContextValue_def)

text \<open>A handler behind the middleware logs with the fields of its own request.\<close>

lemma request_logger:
  assumes "is_logger (l (app_logger_fields n ex)) = Some lm"
  shows "\<exists>ex'. AppLoggerMiddleware l n k ex w = k ex' w \<and> GetLogger is_logger def (ex_c ex') = lm"
  unfolding AppLoggerMiddleware_def SetContextValue_def GetLogger_def
  by (intro exI conjI, rule refl) (simp add: assms)

lemma calm_SecurityHeaders: "calm (SecurityHeadersMiddleware cfg)"
  by (rule calm_running [where u = "\<lambda>ex w. w" and f = "\<lambda>ex w. if sh_Enabled cfg then security_headers cfg ex else ex"])
    (simp_all add: SecurityHeadersMiddleware_def)

lemma calm_CORS: "calm (CORSMiddleware fmt cfg)"
  by (rule calm_passing [where u = "\<lambda>ex w. w" and b = "\<lambda>ex w. co_Enabled cfg \<and> ex_Method (cors_headers fmt cfg ex) = ''OPTIONS''"
        and g = "\<lambda>ex w. write_status 204 (cors_headers fmt cfg ex)"
        and f = "\<lambda>ex w. if co_Enabled cfg then cors_headers fmt cfg ex else ex"])
    (simp_all add: CORSMiddleware_def Let_def)

lemma calm_RateLimit: "calm (RateLimit_Middleware lib rl now)"
  by (rule calm_passing [where b = "\<lambda>ex w. rl_Enabled rl \<and> \<not> fst (rate_allow lib rl now (getRemoteIP ex) (ss_clients w))"
        and u = "\<lambda>ex w. if rl_Enabled rl then w\<lparr>ss_clients := snd (rate_allow lib rl now (getRemoteIP ex) (ss_clients w))\<rparr> else w"
        and g = "\<lambda>ex w. write_json 429 ''rate limit exceeded'' ex" and f = "\<lambda>ex w. ex"])
    (auto simp: RateLimit_Middleware_def split: prod.split)

lemma calm_TenantStatus: "calm (TenantStatus_handler cfg)"
  by (rule calm_passing [where u = "\<lambda>ex w. w" and f = "\<lambda>ex w. ex"
        and b = "\<lambda>ex w. \<exists>st err c. TenantStatusMiddleware cfg (ex_c ex) = Abort st err c"
        and g = "\<lambda>ex w. case TenantStatusMiddleware cfg (ex_c ex) of
            Abort st err c \<Rightarrow> write_json st err (ex\<lparr>ex_c := c\<rparr>) | Next c \<Rightarrow> ex"])
    (auto simp: TenantStatus_handler_def TenantStatusMiddleware_def Let_def split: mw_result.split option.split)

text \<open>Handlers that look at the outcome of the rest.\<close>

lemma calm_observing:
  fixes h :: "'l server_state handler"
  assumes "\<And>k ex w ex1 w1. k ex (u w) = Served ex1 w1 \<Longrightarrow> ss_inFlight w1 = ss_inFlight (u w) \<Longrightarrow>
      ex_Header ex1 HeaderRequestID = ex_Header ex HeaderRequestID \<Longrightarrow>
      \<exists>ex' w'. h k ex w = Served ex' w' \<and> ss_inFlight w' = ss_inFlight w \<and>
        ex_Header ex' HeaderRequestID = ex_Header ex HeaderRequestID"
  shows "calm h"
  unfolding calm_def
proof (intro allI impI goodI)
  fix k :: "'l server_state rest_of_chain" and ex w
  assume "good k"
  then obtain ex1 w1 where "k ex (u w) = Served ex1 w1" "ss_inFlight w1 = ss_inFlight (u w)"
    "ex_Header ex1 HeaderRequestID = ex_Header ex HeaderRequestID" by (rule goodE)
  then show "\<exists>ex' w'. h k ex w = Served ex' w' \<and> ss_inFlight w' = ss_inFlight w \<and>
      ex_Header ex' HeaderRequestID = ex_Header ex HeaderRequestID" by (rule assms)
qed

lemma calm_AccessLogger: "calm AccessLoggerMiddleware"
  by (rule calm_observing [where u = "\<lambda>w. w"]) (simp add: AccessLoggerMiddleware_def Let_def)

lemma calm_Prometheus: "calm PrometheusMiddleware"
  by (rule calm_observing [where u = "\<lambda>w. w\<lparr>ss_inFlight := ss_inFlight w + 1\<rparr>"]) (simp add: PrometheusMiddleware_def Let_def)

lemma calm_ErrorHandler: "calm ErrorHandlerMiddleware"
  by (rule calm_observing [where u = "\<lambda>w. w"]) (auto simp: ErrorHandlerMiddleware_def split: option.split prod.split)

lemma good_tame: "good k \<Longrightarrow> tame k"
  unfolding tame_def good_def by (simp split: flow.split) (metis flow.distinct(1) flow.inject(1))

lemma good_Recovery:
  assumes "tame k"
  shows "good (RecoveryMiddleware k)"
proof (rule goodI)
  fix ex w
  have "case k ex w of
     Served ex' w' \<Rightarrow> ss_inFlight w' = ss_inFlight w \<and> ex_Header ex' HeaderRequestID = ex_Header ex HeaderRequestID
   | Panicked ex' w' \<Rightarrow> ss_inFlight w' = ss_inFlight w \<and> ex_Header ex' HeaderRequestID = ex_Header ex HeaderRequestID"
    using assms unfolding tame_def by blast
  then show "\<exists>ex' w'. RecoveryMiddleware k ex w = Served ex' w' \<and> ss_inFlight w' = ss_inFlight w \<and>
      ex_Header ex' HeaderRequestID = ex_Header ex HeaderRequestID"
    by (cases "k ex w") (simp_all add: RecoveryMiddleware_def)
qed

lemmas calm_middlewares = calm_AppLogger calm_SecurityHeaders calm_CORS calm_RateLimit calm_TenantStatus
  calm_AccessLogger calm_Prometheus calm_ErrorHandler

subsection \<open>Requests without claims\<close>

text \<open>Two rests of the chain that do the same with requests that are not authenticated yet.\<close>

definition agree :: "'w rest_of_chain \<Rightarrow> 'w rest_of_chain \<Rightarrow> bool" where
  "agree k k' \<longleftrightarrow> (\<forall>ex w. gc_claims (ex_c ex) = None \<longrightarrow> k ex w = k' ex w)"

definition unaware :: "'w handler \<Rightarrow> bool" where
  "unaware h \<longleftrightarrow> (\<forall>k k'. agree k k' \<longrightarrow> agree (h k) (h k'))"

interpretation before_claims: chain_relation agree unaware
  by unfold_locales (simp add: unaware_def)

lemma header_context [simp]:
  "ex_c (SetHeader_ex key val ex) = ex_c ex" "ex_c (set_unless_empty key val ex) = ex_c ex"
  by (simp_all add: SetHeader_ex_def set_unless_empty_def)

lemma contexts_kept [simp]:
  "ex_c (security_headers cfg ex) = ex_c ex" "ex_c (allow_origin co ex) = ex_c ex" "ex_c (cors_headers fmt co ex) = ex_c ex"
  by (simp_all add: security_headers_def allow_origin_def cors_headers_def Let_def)

lemma unaware_middlewares:
  "unaware (RequestIDMiddleware ri uuid)" "unaware (AppLoggerMiddleware l n)" "unaware (SecurityHeadersMiddleware sh)"
  "unaware (CORSMiddleware fmt co)" "unaware (RateLimit_Middleware lib rl now)" "unaware AccessLoggerMiddleware"
  by (simp_all add: unaware_def agree_def RequestIDMiddleware_def AppLoggerMiddleware_def SetContextValue_def
      SecurityHeadersMiddleware_def CORSMiddleware_def RateLimit_Middleware_def AccessLoggerMiddleware_def
      Let_def split_beta)

lemma agree_TenantStatus: "agree (TenantStatus_handler cfg k) k"
  by (simp add: agree_def TenantStatus_handler_def TenantStatusMiddleware_def GetClaims_def)

lemma agree_refl: "agree k k"
  by (simp add: agree_def)

lemma RequestID_runs:
  "\<exists>ex'. RequestIDMiddleware defaultRequestIDConfig uuid k ex w = k ex' w \<and>
     ex_Header ex' HeaderRequestID =
       Some (if RequestHeader ex HeaderRequestID = [] then uuid else RequestHeader ex HeaderRequestID)"
  by (auto simp: RequestIDMiddleware_def defaultRequestIDConfig_def Let_def)

section \<open>Properties\<close>

lemma engine_answers:
  assumes "eo_recovery opt" and "\<forall>h\<in>set (eo_addMiddleware opt). calm h" and "\<forall>h. eo_audit opt = Some h \<longrightarrow> calm h"
    and "tame route"
  shows "\<exists>ex' w'. serve (NewEngine lib fmt opt env) route ex w = Served ex' w' \<and> ss_inFlight w' = ss_inFlight w \<and>
    ex_Header ex' ''X-Request-ID'' =
      Some (if RequestHeader ex ''X-Request-ID'' = [] then en_uuid env else RequestHeader ex ''X-Request-ID'')"
proof -
  let ?hs = "inner_middlewares lib fmt opt env"
  have "\<forall>h\<in>set ?hs. calm h"
    using assms(2,3)
    by (simp add: inner_middlewares_def ball_Un calm_middlewares split: option.split) (auto simp: calm_middlewares)
  then have good: "good (serve ?hs (RecoveryMiddleware route))"
    by (rule good_serve) (rule good_Recovery [OF assms(4)])
  obtain ex1 where ex1: "serve (NewEngine lib fmt opt env) route ex w = serve ?hs (RecoveryMiddleware route) ex1 w"
    "ex_Header ex1 HeaderRequestID =
       Some (if RequestHeader ex HeaderRequestID = [] then en_uuid env else RequestHeader ex HeaderRequestID)"
    using RequestID_runs [of "en_uuid env" "serve ?hs (RecoveryMiddleware route)" ex w] assms(1) by (auto simp: NewEngine_def)
  with goodE [OF good, of ex1 w] show ?thesis unfolding HeaderRequestID_def by metis
qed


text \<open>
  The tenant status check of an engine has no effect: it runs before every middleware that could
  authenticate the request, so a request that enters without claims is treated the same with any
  setting of \<open>WithTenantStatus\<close>, whatever its token says.
\<close>

lemma tenant_status_option_blind:
  assumes "gc_claims (ex_c ex) = None" and "eo_audit opt = None"
  shows "serve (NewEngine lib fmt (WithTenantStatus cfg opt) env) route ex w = serve (NewEngine lib fmt opt env) route ex w"
proof -
  define hs where "hs =
     [RequestIDMiddleware defaultRequestIDConfig (en_uuid env), AccessLoggerMiddleware, AppLoggerMiddleware (en_logger env) (en_handlerName env)] @
     (if sh_Enabled (eo_securityHeaders opt) then [SecurityHeadersMiddleware (eo_securityHeaders opt)] else []) @
     (if co_Enabled (eo_cors opt) then [CORSMiddleware fmt (eo_cors opt)] else []) @
     (case eo_rateLimit opt of
        None \<Rightarrow> []
      | Some rl \<Rightarrow> if rl_Enabled rl then [RateLimit_Middleware lib rl (en_now env)] else [])"
  define k where "k = serve ((if eo_prometheus opt then [PrometheusMiddleware] else []) @
     [ErrorHandlerMiddleware] @ eo_addMiddleware opt @ (if eo_recovery opt then [RecoveryMiddleware] else [])) route"
  have split: "serve (NewEngine lib fmt (opt\<lparr>eo_tenantStatus := ts\<rparr>) env) route =
      serve hs (serve (if tsc_Enabled ts then [TenantStatus_handler ts] else []) k)" for ts
    using assms(2) by (simp add: NewEngine_def inner_middlewares_def hs_def k_def)
  have hs: "\<forall>h\<in>set hs. unaware h" using unaware_middlewares by (auto simp: hs_def split: option.splits)
  have "agree (serve (if tsc_Enabled ts then [TenantStatus_handler ts] else []) k) k" for ts
    by (cases "tsc_Enabled ts") (simp_all add: agree_TenantStatus agree_refl)
  then have same: "agree (serve (NewEngine lib fmt (opt\<lparr>eo_tenantStatus := ts\<rparr>) env) route) (serve hs k)" for ts
    unfolding split by (rule before_claims.serve_related [OF hs])
  have "serve (NewEngine lib fmt (opt\<lparr>eo_tenantStatus := cfg\<rparr>) env) route ex w = serve hs k ex w"
    "serve (NewEngine lib fmt (opt\<lparr>eo_tenantStatus := eo_tenantStatus opt\<rparr>) env) route ex w = serve hs k ex w"
    using same assms(1) unfolding agree_def by blast+
  then show ?thesis by (simp add: WithTenantStatus_def)
qed

definition always_allow :: "(unit, unit) rate_lib" where
  "always_allow = \<lparr>rb_NewLimiter = (\<lambda>f b. ()), rb_Allow = (\<lambda>t l. (True, ()))\<rparr>"

definition demo_exchange :: exchange where
  "demo_exchange = \<lparr>ex_c = demo_request\<lparr>gc_claims := None\<rparr>, ex_Method = ''GET'', ex_Path = ''/x'', ex_FullPath = ''/x'',
     ex_RemoteHost = None, ex_ClientIP = ''10.0.0.1'', ex_Header = Map.empty, ex_Status = 200, ex_Written = False,
     ex_Body = [], ex_Errors = []\<rparr>"

definition demo_state :: "unit server_state" where
  "demo_state = \<lparr>ss_clients = Map.empty, ss_inFlight = 0, ss_reqCount = (\<lambda>_. 0), ss_accessLog = []\<rparr>"

definition demo_request_env :: request_env where
  "demo_request_env = \<lparr>en_uuid = ''id-1'', en_now = 0, en_logger = ASlice, en_handlerName = ''main''\<rparr>"


lemma tenant_status_option_blind_witness:
  "serve (NewEngine always_allow (\<lambda>_. []) (WithTenantStatus DefaultTenantStatusConfig zero_engine_options) demo_request_env)
     (\<lambda>ex w. Served ex w) demo_exchange demo_state =
   serve (NewEngine always_allow (\<lambda>_. []) zero_engine_options demo_request_env) (\<lambda>ex w. Served ex w) demo_exchange demo_state"
  using tenant_status_option_blind [of demo_exchange zero_engine_options always_allow "\<lambda>_. []"
      DefaultTenantStatusConfig demo_request_env "\<lambda>ex w. Served ex w" demo_state]
  by (simp add: demo_exchange_def zero_engine_options_def)

end
