(* ===== verification/Runtime_Config.thy ===== *)
theory Runtime_Config
  imports Http_Client
begin

text \<open>
  \<open>pkg/configmanager/client.go\<close>, the client of the configuration service, and \<open>pkg/runtimeconfig\<close>, which
  merges a service's configuration at start-up: from the control plane, else from a cached file, else
  from what the service was started with. The file system, the environment, the JSON library and the
  configuration object (\<open>viper\<close>) are parameters; \<open>path/filepath\<close> is modelled on its Unix form.
\<close>

section \<open>pkg/configmanager/client.go\<close>

record resolve_request =
  nr_NamespaceID :: string
  nr_ServiceID :: string
  nr_NamespaceKey :: string
  nr_Version :: string
  nr_Environment :: string
  nr_TenantID :: string
  nr_ProjectID :: string

record resolve_response =
  ns_ReleaseID :: string
  ns_Version :: string
  ns_ETag :: string
  ns_Config :: "(string \<times> any) list"

record publish_namespace_request =
  np_ServiceID :: string
  np_NamespaceKey :: string
  np_DisplayName :: string
  np_Description :: string
  np_Version :: string
  np_DeliveryMode :: string
  np_WatchMode :: string
  np_Layers :: "(string \<times> any) list list"

record watch_request =
  nw_NamespaceID :: string
  nw_ServiceID :: string
  nw_NamespaceKey :: string

definition statusAllowed :: "int \<Rightarrow> int list \<Rightarrow> bool" where
  "statusAllowed got allowed = (\<exists>code\<in>set allowed. got = code)"

definition readStatusError :: "http_response \<Rightarrow> go_error" where
  "readStatusError resp =
     (let body = TrimSpace (take 4096 (hp_Body resp))
      in if body = [] then EPlain (''request failed with status '' @ FormatInt (hp_StatusCode resp))
         else EPlain (''request failed with status '' @ FormatInt (hp_StatusCode resp) @ '': '' @ body))"

text \<open>The body is the outcome of \<open>json.Marshal\<close>.\<close>

definition newJSONRequest ::
    "'w http_world \<Rightarrow> string \<Rightarrow> string \<Rightarrow> go_error + string \<Rightarrow> go_error + http_request" where
  "newJSONRequest hw meth reqURL body =
     (case body of
        Inl err \<Rightarrow> Err err
      | Inr b \<Rightarrow>
          (case hw_newRequest hw meth reqURL of
             Some err \<Rightarrow> Err err
           | None \<Rightarrow> Ok \<lparr>hq_Method = meth, hq_URL = reqURL, hq_Header = [''Content-Type'' \<mapsto> ''application/json''],
                        hq_Body = Some b\<rparr>))"

definition doJSON ::
    "'w http_world \<Rightarrow> string \<Rightarrow> (string \<Rightarrow> go_error + 'v) \<Rightarrow> int list \<Rightarrow> http_request \<Rightarrow> 'w http_client \<Rightarrow> 'w \<Rightarrow>
     (go_error + 'v) \<times> 'w http_client \<times> 'w" where
  "doJSON hw requestID decode allowed req c w =
     (case http_Do hw requestID req c w of
        (Inl err, c, w) \<Rightarrow> (Err err, c, w)
      | (Inr resp, c, w) \<Rightarrow>
          if \<not> statusAllowed (hp_StatusCode resp) allowed then (Err (readStatusError resp), c, w)
          else case decode (hp_Body resp) of
                 Inl err \<Rightarrow> (Err (EFmt (''decode response: '' @ Error err) err), c, w)
               | Inr v \<Rightarrow> (Ok v, c, w))"

definition trim_resolve :: "resolve_request \<Rightarrow> resolve_request" where
  "trim_resolve req =
     \<lparr>nr_NamespaceID = TrimSpace (nr_NamespaceID req), nr_ServiceID = TrimSpace (nr_ServiceID req),
      nr_NamespaceKey = TrimSpace (nr_NamespaceKey req), nr_Version = TrimSpace (nr_Version req),
      nr_Environment = TrimSpace (nr_Environment req), nr_TenantID = TrimSpace (nr_TenantID req),
      nr_ProjectID = TrimSpace (nr_ProjectID req)\<rparr>"

definition ResolveNamespace ::
    "'w http_world \<Rightarrow> string \<Rightarrow> (resolve_request \<Rightarrow> go_error + string) \<Rightarrow> (string \<Rightarrow> go_error + resolve_response) \<Rightarrow>
     string \<Rightarrow> resolve_request \<Rightarrow> 'w http_client \<Rightarrow> 'w \<Rightarrow> (go_error + resolve_response) \<times> 'w http_client \<times> 'w" where
  "ResolveNamespace hw requestID marshal decode baseURL req c w =
     (let req = trim_resolve req
      in if nr_NamespaceID req = [] \<and> (nr_ServiceID req = [] \<or> nr_NamespaceKey req = [])
         then (Err (EPlain ''namespace_id or service_id + namespace_key is required''), c, w)
         else case newJSONRequest hw ''POST'' (ConfigResolveURL baseURL) (marshal req) of
                Inl err \<Rightarrow> (Err err, c, w)
              | Inr request \<Rightarrow>
                  (case doJSON hw requestID decode [StatusOK] request c w of
                     (Inl err, c, w) \<Rightarrow> (Err (EFmt (''resolve namespace config: '' @ Error err) err), c, w)
                   | (Inr out, c, w) \<Rightarrow> (Ok out, c, w)))"

definition PublishNamespaceRelease ::
    "'w http_world \<Rightarrow> string \<Rightarrow> (publish_namespace_request \<Rightarrow> go_error + string) \<Rightarrow> (string \<Rightarrow> go_error + 'v) \<Rightarrow>
     string \<Rightarrow> publish_namespace_request \<Rightarrow> 'w http_client \<Rightarrow> 'w \<Rightarrow> (go_error + 'v) \<times> 'w http_client \<times> 'w" where
  "PublishNamespaceRelease hw requestID marshal decode baseURL req c w =
     (let req = req\<lparr>np_ServiceID := TrimSpace (np_ServiceID req), np_NamespaceKey := TrimSpace (np_NamespaceKey req),
                    np_DisplayName := TrimSpace (np_DisplayName req), np_Description := TrimSpace (np_Description req),
                    np_Version := TrimSpace (np_Version req), np_DeliveryMode := TrimSpace (np_DeliveryMode req),
                    np_WatchMode := TrimSpace (np_WatchMode req)\<rparr>
      in if np_ServiceID req = [] \<or> np_NamespaceKey req = [] \<or> np_DisplayName req = []
         then (Err (EPlain ''service_id, namespace_key, and display_name are required''), c, w)
         else if length (np_Layers req) = 0 then (Err (EPlain ''at least one layer is required''), c, w)
         else case newJSONRequest hw ''POST'' (ConfigPublishURL baseURL) (marshal req) of
                Inl err \<Rightarrow> (Err err, c, w)
              | Inr request \<Rightarrow>
                  (case doJSON hw requestID decode [StatusOK, 201] request c w of
                     (Inl err, c, w) \<Rightarrow> (Err (EFmt (''publish namespace release: '' @ Error err) err), c, w)
                   | (Inr out, c, w) \<Rightarrow> (Ok out, c, w)))"

text \<open>\<open>url.Values.Encode\<close> sorts by key.\<close>

definition GetNamespaceWatch ::
    "'w http_world \<Rightarrow> string \<Rightarrow> (string \<Rightarrow> go_error + 'v) \<Rightarrow> string \<Rightarrow> watch_request \<Rightarrow> 'w http_client \<Rightarrow> 'w \<Rightarrow>
     (go_error + 'v) \<times> 'w http_client \<times> 'w" where
  "GetNamespaceWatch hw requestID decode baseURL req c w =
     (let namespaceID = TrimSpace (nw_NamespaceID req);
          serviceID = TrimSpace (nw_ServiceID req);
          namespaceKey = TrimSpace (nw_NamespaceKey req)
      in if namespaceID = [] \<and> (serviceID = [] \<or> namespaceKey = [])
         then (Err (EPlain ''namespace_id or service_id + namespace_key is required''), c, w)
         else
           let query = filter (\<lambda>(k, v). v \<noteq> [])
                         [(''namespace_id'', namespaceID), (''namespace_key'', namespaceKey), (''service_id'', serviceID)];
               encoded = form_encode query;
               requestURL = ConfigWatchURL baseURL @ (if encoded \<noteq> [] then ''?'' @ encoded else [])
           in case hw_newRequest hw ''GET'' requestURL of
                Some err \<Rightarrow> (Err err, c, w)
              | None \<Rightarrow>
                  (case doJSON hw requestID decode [StatusOK]
                          \<lparr>hq_Method = ''GET'', hq_URL = requestURL, hq_Header = Map.empty, hq_Body = None\<rparr> c w of
                     (Inl err, c, w) \<Rightarrow> (Err (EFmt (''get namespace watch metadata: '' @ Error err) err), c, w)
                   | (Inr out, c, w) \<Rightarrow> (Ok out, c, w)))"

section \<open>path/filepath\<close>

fun clean_parts :: "bool \<Rightarrow> string list \<Rightarrow> string list \<Rightarrow> string list" where
  "clean_parts rooted out [] = rev out"
| "clean_parts rooted out (p # ps) =
     (if p = [] \<or> p = ''.'' then clean_parts rooted out ps
      else if p = ''..'' then
        (case out of
           [] \<Rightarrow> clean_parts rooted (if rooted then [] else [''..'']) ps
         | x # xs \<Rightarrow> clean_parts rooted (if x = ''..'' then ''..'' # out else xs) ps)
      else clean_parts rooted (p # out) ps)"

definition filepath_Clean :: "string \<Rightarrow> string" where
  "filepath_Clean path =
     (if path = [] then ''.''
      else
        let rooted = (hd path = CHR ''/'');
            s = (if rooted then ''/'' else []) @ Join (clean_parts rooted [] (Split path CHR ''/'')) ''/''
        in if s = [] then ''.'' else s)"

definition filepath_Join :: "string list \<Rightarrow> string" where
  "filepath_Join elem =
     (let e = filter (\<lambda>x. x \<noteq> []) elem in if e = [] then [] else filepath_Clean (Join e ''/''))"

definition filepath_Dir :: "string \<Rightarrow> string" where
  "filepath_Dir path =
     (let front = butlast (Split path CHR ''/'')
      in filepath_Clean (if front = [] then [] else Join front ''/'' @ ''/''))"

definition filepath_Base :: "string \<Rightarrow> string" where
  "filepath_Base path =
     (if path = [] then ''.''
      else let s = rev (dropWhile (\<lambda>c. c = CHR ''/'') (rev path))
           in if s = [] then ''/'' else last (Split s CHR ''/''))"

definition filepath_Ext :: "string \<Rightarrow> string" where
  "filepath_Ext path =
     (let b = last (Split path CHR ''/'')
      in if CHR ''.'' \<in> set b then CHR ''.'' # last (Split b CHR ''.'') else [])"

definition TrimSuffix :: "string \<Rightarrow> string \<Rightarrow> string" where
  "TrimSuffix s suf = (if HasSuffix s suf then take (length s - length suf) s else s)"

section \<open>pkg/runtimeconfig/runtimeconfig.go\<close>

subsection \<open>Options and paths\<close>

record resolve_options =
  ro_ServiceID :: string
  ro_NamespaceKey :: string
  ro_Environment :: string
  ro_TenantID :: string
  ro_ProjectID :: string
  ro_Version :: string
  ro_BootstrapPath :: string
  ro_CachePath :: string
  ro_StatePath :: string
  ro_VersionFiles :: "string list"
  ro_Required :: bool

record resolve_result =
  rr_Source :: string
  rr_ServiceID :: string
  rr_NamespaceKey :: string
  rr_Version :: string
  rr_RequestedVersion :: string
  rr_ReleaseID :: string
  rr_ETag :: string
  rr_CachePath :: string
  rr_StatePath :: string

record cache_envelope =
  ce_ServiceID :: string
  ce_NamespaceKey :: string
  ce_ReleaseID :: string
  ce_Version :: string
  ce_ETag :: string
  ce_Environment :: string
  ce_TenantID :: string
  ce_ProjectID :: string
  ce_CachedAt :: string
  ce_Config :: "(string \<times> any) list"

record state_envelope =
  st_Source :: string
  st_ServiceID :: string
  st_NamespaceKey :: string
  st_Version :: string
  st_RequestedVersion :: string
  st_ReleaseID :: string
  st_ETag :: string
  st_UpdatedAt :: string

text \<open>The file for a purpose beside the bootstrap file: \<open>DefaultCachePath\<close> and \<open>DefaultStatePath\<close> differ in the word.\<close>

definition default_path :: "string \<Rightarrow> string \<Rightarrow> string" where
  "default_path word bootstrapPath =
     (let path = TrimSpace bootstrapPath
      in if path = [] then filepath_Clean (filepath_Join [''env'', ''config.runtime-'' @ word @ ''.json''])
         else
           let dir = filepath_Dir path;
               base = filepath_Base path;
               ext = filepath_Ext base;
               name = TrimSuffix base ext;
               ext = (if ext = [] then ''.json'' else ext)
           in filepath_Clean (filepath_Join [dir, name @ ''.runtime-'' @ word @ ext]))"

definition DefaultCachePath :: "string \<Rightarrow> string" where
  "DefaultCachePath = default_path ''cache''"

definition DefaultStatePath :: "string \<Rightarrow> string" where
  "DefaultStatePath = default_path ''state''"

definition DefaultVersionFiles :: "string \<Rightarrow> string list" where
  "DefaultVersionFiles bootstrapPath =
     (let dir = filepath_Dir (TrimSpace bootstrapPath);
          root = (if dir \<noteq> [] \<and> dir \<noteq> ''.''
                  then (let r = filepath_Dir dir in if r = [] then ''.'' else r) else ''.'')
      in [filepath_Clean (filepath_Join [root, ''.config-version.json'']),
          filepath_Clean (filepath_Join [root, ''.service-version.json''])])"

subsection \<open>Surroundings\<close>

text \<open>
  \<open>rn_Unmarshal\<close> reads a JSON object, \<open>rn_version\<close> the field \<open>version\<close> of one; the other functions write the two
  envelopes and a plain map. \<open>rn_timestamp\<close> is the current time in RFC 3339.
\<close>

record ('w, 'c) runtime_env =
  rn_Getenv :: "string \<Rightarrow> string"
  rn_ReadFile :: "string \<Rightarrow> 'w \<Rightarrow> go_error + string"
  rn_MkdirAll :: "string \<Rightarrow> 'w \<Rightarrow> go_error option \<times> 'w"
  rn_WriteFile :: "string \<Rightarrow> string \<Rightarrow> 'w \<Rightarrow> go_error option \<times> 'w"
  rn_MarshalCache :: "cache_envelope \<Rightarrow> go_error + string"
  rn_MarshalState :: "state_envelope \<Rightarrow> go_error + string"
  rn_MarshalMap :: "(string \<times> any) list \<Rightarrow> go_error + string"
  rn_Unmarshal :: "string \<Rightarrow> go_error + (string \<times> any) list"
  rn_version :: "string \<Rightarrow> go_error + string"
  rn_timestamp :: string
  rn_config :: "'c \<Rightarrow> cfg_getter"
  rn_MergeConfigMap :: "(string \<times> any) list \<Rightarrow> 'c \<Rightarrow> go_error + 'c"

type_synonym 'w resolver = "resolve_request \<Rightarrow> 'w \<Rightarrow> (go_error + resolve_response) \<times> 'w"

fun firstNonEmptyEnv :: "('w, 'c) runtime_env \<Rightarrow> string list \<Rightarrow> string" where
  "firstNonEmptyEnv e [] = []"
| "firstNonEmptyEnv e (key # keys) =
     (let val = TrimSpace (rn_Getenv e key) in if val \<noteq> [] then val else firstNonEmptyEnv e keys)"

definition envFlag :: "('w, 'c) runtime_env \<Rightarrow> string \<Rightarrow> bool \<Rightarrow> bool" where
  "envFlag e key fallback =
     (let val = TrimSpace (ToLower (rn_Getenv e key))
      in if val \<in> {''1'', ''true'', ''yes'', ''on''} then True
         else if val \<in> {''0'', ''false'', ''no'', ''off''} then False
         else fallback)"

definition RequiredFromEnv :: "('w, 'c) runtime_env \<Rightarrow> bool" where
  "RequiredFromEnv e = envFlag e ''CNM_REQUIRED'' False"

definition isDevelopmentEnvironment :: "string \<Rightarrow> bool" where
  "isDevelopmentEnvironment environment = (ToLower (TrimSpace environment) \<in> {''dev'', ''development''})"

fun readRequestedVersion :: "('w, 'c) runtime_env \<Rightarrow> 'w \<Rightarrow> string list \<Rightarrow> string" where
  "readRequestedVersion e w [] = []"
| "readRequestedVersion e w (path # paths) =
     (let trimmed = TrimSpace path
      in if trimmed = [] then readRequestedVersion e w paths
         else case rn_ReadFile e trimmed w of
                Inl _ \<Rightarrow> readRequestedVersion e w paths
              | Inr content \<Rightarrow>
                  (case rn_version e content of
                     Inl _ \<Rightarrow> readRequestedVersion e w paths
                   | Inr v \<Rightarrow> let version = TrimSpace v
                             in if version \<noteq> [] then version else readRequestedVersion e w paths))"

definition resolveRequestedVersion :: "('w, 'c) runtime_env \<Rightarrow> 'w \<Rightarrow> string list \<Rightarrow> string \<Rightarrow> string" where
  "resolveRequestedVersion e w paths environment =
     (let override = TrimSpace (rn_Getenv e ''CONFIG_RELEASE_VERSION'')
      in if override \<noteq> [] then (if EqualFold override ''auto'' then [] else override)
         else if isDevelopmentEnvironment environment then []
         else readRequestedVersion e w paths)"

definition or_else :: "string \<Rightarrow> string \<Rightarrow> string" where
  "or_else s d = (if s = [] then d else s)"

definition normalizeOptions :: "('w, 'c) runtime_env \<Rightarrow> 'w \<Rightarrow> 'c \<Rightarrow> resolve_options \<Rightarrow> resolve_options" where
  "normalizeOptions e w cfg opts =
     (let opts = opts\<lparr>ro_ServiceID := or_else (ro_ServiceID opts) (ResolveServiceID (Some (rn_config e cfg)))\<rparr>;
          opts = opts\<lparr>ro_NamespaceKey := or_else (ro_NamespaceKey opts) ''runtime''\<rparr>;
          opts = opts\<lparr>ro_Environment := or_else (ro_Environment opts)
                   (firstNonEmptyEnv e [''CNM_ENVIRONMENT'', ''CONFIG_ENVIRONMENT'', ''ENVIRONMENT'', ''DEPLOY_ENV''])\<rparr>;
          opts = opts\<lparr>ro_TenantID := or_else (ro_TenantID opts) (firstNonEmptyEnv e [''CNM_TENANT_ID'', ''CONFIG_TENANT_ID''])\<rparr>;
          opts = opts\<lparr>ro_ProjectID := or_else (ro_ProjectID opts) (firstNonEmptyEnv e [''CNM_PROJECT_ID'', ''CONFIG_PROJECT_ID''])\<rparr>;
          opts = opts\<lparr>ro_CachePath := or_else (ro_CachePath opts) (DefaultCachePath (ro_BootstrapPath opts))\<rparr>;
          opts = opts\<lparr>ro_StatePath := or_else (ro_StatePath opts) (DefaultStatePath (ro_BootstrapPath opts))\<rparr>;
          opts = (if length (ro_VersionFiles opts) = 0
                  then opts\<lparr>ro_VersionFiles := DefaultVersionFiles (ro_BootstrapPath opts)\<rparr> else opts)
      in opts\<lparr>ro_Version := or_else (ro_Version opts)
                (resolveRequestedVersion e w (ro_VersionFiles opts) (ro_Environment opts))\<rparr>)"

subsection \<open>Files\<close>

definition stringFromRaw :: "any option \<Rightarrow> string" where
  "stringFromRaw raw = (case raw of Some (AString s) \<Rightarrow> s | _ \<Rightarrow> [])"

definition readCacheFile :: "('w, 'c) runtime_env \<Rightarrow> 'w \<Rightarrow> string \<Rightarrow> go_error + cache_envelope" where
  "readCacheFile e w path =
     (let trimmed = TrimSpace path
      in if trimmed = [] then Err (EPlain ''cache path is empty'')
         else case rn_ReadFile e trimmed w of
                Inl err \<Rightarrow> Err err
              | Inr content \<Rightarrow>
                  (case rn_Unmarshal e content of
                     Inl err \<Rightarrow> Err err
                   | Inr raw \<Rightarrow>
                       (case map_of raw ''config'' of
                          Some (AMap nested) \<Rightarrow>
                            Ok \<lparr>ce_ServiceID = stringFromRaw (map_of raw ''service_id''),
                                ce_NamespaceKey = stringFromRaw (map_of raw ''namespace_key''),
                                ce_ReleaseID = stringFromRaw (map_of raw ''release_id''),
                                ce_Version = stringFromRaw (map_of raw ''version''),
                                ce_ETag = stringFromRaw (map_of raw ''etag''),
                                ce_Environment = stringFromRaw (map_of raw ''environment''),
                                ce_TenantID = stringFromRaw (map_of raw ''tenant_id''),
                                ce_ProjectID = stringFromRaw (map_of raw ''project_id''),
                                ce_CachedAt = stringFromRaw (map_of raw ''cached_at''), ce_Config = nested\<rparr>
                        | _ \<Rightarrow>
                            Ok \<lparr>ce_ServiceID = [], ce_NamespaceKey = [], ce_ReleaseID = [], ce_Version = [], ce_ETag = [],
                                ce_Environment = [], ce_TenantID = [], ce_ProjectID = [], ce_CachedAt = [], ce_Config = raw\<rparr>)))"

text \<open>The payload is given as the outcome of \<open>json.MarshalIndent\<close>.\<close>

definition writeJSONFile :: "('w, 'c) runtime_env \<Rightarrow> string \<Rightarrow> go_error + string \<Rightarrow> 'w \<Rightarrow> go_error option \<times> 'w" where
  "writeJSONFile e path payload w =
     (let trimmed = TrimSpace path
      in if trimmed = [] then (None, w)
         else case rn_MkdirAll e (filepath_Dir trimmed) w of
                (Some err, w) \<Rightarrow> (Some err, w)
              | (None, w) \<Rightarrow>
                  (case payload of
                     Inl err \<Rightarrow> (Some err, w)
                   | Inr body \<Rightarrow> rn_WriteFile e trimmed (body @ [CHR 0x0A]) w))"

definition writeStateFile :: "('w, 'c) runtime_env \<Rightarrow> string \<Rightarrow> resolve_result \<Rightarrow> 'w \<Rightarrow> go_error option \<times> 'w" where
  "writeStateFile e path result w =
     writeJSONFile e path
       (rn_MarshalState e
          \<lparr>st_Source = rr_Source result, st_ServiceID = rr_ServiceID result, st_NamespaceKey = rr_NamespaceKey result,
           st_Version = rr_Version result, st_RequestedVersion = rr_RequestedVersion result,
           st_ReleaseID = rr_ReleaseID result, st_ETag = rr_ETag result, st_UpdatedAt = rn_timestamp e\<rparr>) w"

definition mergeConfig :: "('w, 'c) runtime_env \<Rightarrow> 'c \<Rightarrow> (string \<times> any) list \<Rightarrow> go_error + 'c" where
  "mergeConfig e cfg vals = (if length vals = 0 then Ok cfg else rn_MergeConfigMap e vals cfg)"

definition cloneMap :: "('w, 'c) runtime_env \<Rightarrow> (string \<times> any) list \<Rightarrow> (string \<times> any) list" where
  "cloneMap e input =
     (case rn_MarshalMap e input of
        Inl _ \<Rightarrow> input
      | Inr body \<Rightarrow> (case rn_Unmarshal e body of Inl _ \<Rightarrow> input | Inr out \<Rightarrow> out))"

subsection \<open>Resolution\<close>

definition merge_error :: "string \<Rightarrow> go_error \<Rightarrow> go_error" where
  "merge_error what err = EFmt (''merge '' @ what @ '' runtime config: '' @ Error err) err"

text \<open>What is done without an answer of the control plane: the cache, an error, or the bootstrap values.\<close>

definition fall_back ::
    "('w, 'c) runtime_env \<Rightarrow> resolve_options \<Rightarrow> resolve_result \<Rightarrow> go_error option \<Rightarrow> 'c \<Rightarrow> 'w \<Rightarrow>
     resolve_result \<times> go_error option \<times> 'c \<times> 'w" where
  "fall_back e opts result resolverErr cfg w =
     (case readCacheFile e w (ro_CachePath opts) of
        Inr cache \<Rightarrow>
          (case mergeConfig e cfg (ce_Config cache) of
             Inl err \<Rightarrow> (result, Some (merge_error ''cached'' err), cfg, w)
           | Inr cfg \<Rightarrow>
               let result = result\<lparr>rr_Source := ''cache'', rr_ReleaseID := ce_ReleaseID cache, rr_Version := ce_Version cache,
                                   rr_ETag := ce_ETag cache\<rparr>;
                   (_, w) = writeStateFile e (ro_StatePath opts) result w
               in (result, None, cfg, w))
      | Inl cacheErr \<Rightarrow>
          if ro_Required opts then
            (case resolverErr of
               Some err \<Rightarrow> (result, Some (EPlain (''runtime config unavailable: resolve failed: '' @ Error err @
                                          ''; cache unavailable: '' @ Error cacheErr)), cfg, w)
             | None \<Rightarrow> (result, Some (EFmt (''runtime config cache unavailable: '' @ Error cacheErr) cacheErr), cfg, w))
          else
            let result = result\<lparr>rr_Source := ''bootstrap''\<rparr>;
                (_, w) = writeStateFile e (ro_StatePath opts) result w
            in (result, None, cfg, w))"

definition resolveIntoWithResolver ::
    "('w, 'c) runtime_env \<Rightarrow> resolve_options \<Rightarrow> 'w resolver option \<Rightarrow> go_error option \<Rightarrow> 'c \<Rightarrow> 'w \<Rightarrow>
     resolve_result \<times> go_error option \<times> 'c \<times> 'w" where
  "resolveIntoWithResolver e opts resolver resolverErr cfg w =
     (let opts = normalizeOptions e w cfg opts;
          result = \<lparr>rr_Source = [], rr_ServiceID = ro_ServiceID opts, rr_NamespaceKey = ro_NamespaceKey opts, rr_Version = [],
                    rr_RequestedVersion = ro_Version opts, rr_ReleaseID = [], rr_ETag = [],
                    rr_CachePath = ro_CachePath opts, rr_StatePath = ro_StatePath opts\<rparr>
      in case resolver of
           None \<Rightarrow> fall_back e opts result resolverErr cfg w
         | Some resolve \<Rightarrow>
             if resolverErr \<noteq> None \<or> ro_ServiceID opts = [] then fall_back e opts result resolverErr cfg w
             else case resolve \<lparr>nr_NamespaceID = [], nr_ServiceID = ro_ServiceID opts, nr_NamespaceKey = ro_NamespaceKey opts,
                                nr_Version = ro_Version opts, nr_Environment = ro_Environment opts,
                                nr_TenantID = ro_TenantID opts, nr_ProjectID = ro_ProjectID opts\<rparr> w of
                    (Inl err, w) \<Rightarrow> fall_back e opts result (Some err) cfg w
                  | (Inr resolved, w) \<Rightarrow>
                      (case mergeConfig e cfg (ns_Config resolved) of
                         Inl err \<Rightarrow> (result, Some (merge_error ''resolved'' err), cfg, w)
                       | Inr cfg \<Rightarrow>
                           let (_, w) = writeJSONFile e (ro_CachePath opts)
                                 (rn_MarshalCache e
                                    \<lparr>ce_ServiceID = ro_ServiceID opts, ce_NamespaceKey = ro_NamespaceKey opts,
                                     ce_ReleaseID = ns_ReleaseID resolved, ce_Version = ns_Version resolved,
                                     ce_ETag = ns_ETag resolved, ce_Environment = ro_Environment opts,
                                     ce_TenantID = ro_TenantID opts, ce_ProjectID = ro_ProjectID opts,
                                     ce_CachedAt = rn_timestamp e, ce_Config = cloneMap e (ns_Config resolved)\<rparr>) w;
                               result = result\<lparr>rr_Source := ''resolved'', rr_ReleaseID := ns_ReleaseID resolved,
                                               rr_Version := ns_Version resolved, rr_ETag := ns_ETag resolved\<rparr>;
                               (_, w) = writeStateFile e (ro_StatePath opts) result w
                           in (result, None, cfg, w)))"

text \<open>\<open>ResolveInto\<close>: the resolver is the client of the configuration service, or the error of making it.\<close>

definition configmanager_NewClient ::
    "'w http_world \<Rightarrow> token_codec \<Rightarrow> tls_files \<Rightarrow> cfg_getter option \<Rightarrow> go_error + string \<times> 'w http_client" where
  "configmanager_NewClient hw codec files cfg =
     (if cfg = None then Err (EPlain ''config not configured'')
      else
        let base = ResolveBaseURL cfg
        in if base = [] then Err (EPlain (KeyBaseURL @ '' or '' @ LegacyKeyBaseURL @ '' is required for config manager''))
           else case NewInternalControlPlaneClientForAudience hw codec files cfg (ResolveConfigAudience cfg) of
                  Inl err \<Rightarrow> Err (EFmt (''control-plane machine identity requires '' @ KeyBaseURL @ ''/'' @ KeyServiceID @ ''/'' @
                                       KeyServiceAPIKey @ '' plus mTLS client credentials: '' @ Error err) err)
                | Inr client \<Rightarrow> Ok (base, client))"

definition ResolveInto ::
    "('w, 'c) runtime_env \<Rightarrow> 'w http_world \<Rightarrow> token_codec \<Rightarrow> tls_files \<Rightarrow> string \<Rightarrow> (resolve_request \<Rightarrow> go_error + string) \<Rightarrow>
     (string \<Rightarrow> go_error + resolve_response) \<Rightarrow> resolve_options \<Rightarrow> 'c \<Rightarrow> 'w \<Rightarrow> resolve_result \<times> go_error option \<times> 'c \<times> 'w" where
  "ResolveInto e hw codec files requestID marshal decode opts cfg w =
     (case configmanager_NewClient hw codec files (Some (rn_config e cfg)) of
        Inl err \<Rightarrow> resolveIntoWithResolver e opts None (Some err) cfg w
      | Inr (base, client) \<Rightarrow>
          resolveIntoWithResolver e opts
            (Some (\<lambda>req w. case ResolveNamespace hw requestID marshal decode base req client w of (r, _, w) \<Rightarrow> (r, w)))
            None cfg w)"

section \<open>Lemmas\<close>

text \<open>What the files and the JSON library promise: a file is read as it was written, and so is the envelope of a release.\<close>

definition file_laws :: "('w, 'c) runtime_env \<Rightarrow> bool" where
  "file_laws e \<longleftrightarrow>
     (\<forall>p t w. fst (rn_WriteFile e p t w) = None \<and> rn_ReadFile e p (snd (rn_WriteFile e p t w)) = Inr t) \<and>
     (\<forall>p q t w. q \<noteq> p \<longrightarrow> rn_ReadFile e q (snd (rn_WriteFile e p t w)) = rn_ReadFile e q w) \<and>
     (\<forall>d q w. fst (rn_MkdirAll e d w) = None \<and> rn_ReadFile e q (snd (rn_MkdirAll e d w)) = rn_ReadFile e q w)"

definition envelope_laws :: "('w, 'c) runtime_env \<Rightarrow> resolve_response \<Rightarrow> bool" where
  "envelope_laws e resolved \<longleftrightarrow>
     (\<forall>env. ce_Config env = ns_Config resolved \<and> ce_ReleaseID env = ns_ReleaseID resolved \<and>
        ce_Version env = ns_Version resolved \<and> ce_ETag env = ns_ETag resolved \<longrightarrow>
        (\<exists>raw fields. rn_MarshalCache e env = Inr raw \<and> rn_Unmarshal e (raw @ [CHR 0x0A]) = Inr fields \<and>
           map_of fields ''config'' = Some (AMap (ns_Config resolved)) \<and>
           stringFromRaw (map_of fields ''release_id'') = ns_ReleaseID resolved \<and>
           stringFromRaw (map_of fields ''version'') = ns_Version resolved \<and>
           stringFromRaw (map_of fields ''etag'') = ns_ETag resolved))"

lemma normalizeOptions_paths [simp]:
  "ro_CachePath (normalizeOptions e w cfg opts) = or_else (ro_CachePath opts) (DefaultCachePath (ro_BootstrapPath opts))"
  "ro_StatePath (normalizeOptions e w cfg opts) = or_else (ro_StatePath opts) (DefaultStatePath (ro_BootstrapPath opts))"
  "ro_Required (normalizeOptions e w cfg opts) = ro_Required opts"
  by (simp_all add: normalizeOptions_def Let_def)

lemma writeJSONFile_reads:
  assumes "file_laws e" "TrimSpace path \<noteq> []" "payload = Inr body"
  shows "rn_ReadFile e (TrimSpace path) (snd (writeJSONFile e path payload w)) = Inr (body @ [CHR 0x0A])"
proof -
  obtain r w1 where m: "rn_MkdirAll e (filepath_Dir (TrimSpace path)) w = (r, w1)" by force
  then have "r = None" using assms(1) unfolding file_laws_def by (metis fst_conv)
  then show ?thesis using assms m by (simp add: writeJSONFile_def Let_def file_laws_def)
qed

lemma writeJSONFile_keeps:
  assumes "file_laws e" "q \<noteq> TrimSpace path"
  shows "rn_ReadFile e q (snd (writeJSONFile e path payload w)) = rn_ReadFile e q w"
proof -
  obtain r w1 where m: "rn_MkdirAll e (filepath_Dir (TrimSpace path)) w = (r, w1)" by force
  then have "rn_ReadFile e q w1 = rn_ReadFile e q w" using assms(1) unfolding file_laws_def by (metis snd_conv)
  then show ?thesis using assms m
    by (auto simp: writeJSONFile_def Let_def file_laws_def split: option.split sum.split)
qed

lemma cache_written:
  assumes "file_laws e" "envelope_laws e resolved" "TrimSpace path \<noteq> []"
    and "ce_Config env = ns_Config resolved" "ce_ReleaseID env = ns_ReleaseID resolved"
      "ce_Version env = ns_Version resolved" "ce_ETag env = ns_ETag resolved"
    and "rn_ReadFile e (TrimSpace path) w2 = rn_ReadFile e (TrimSpace path) (snd (writeJSONFile e path (rn_MarshalCache e env) w))"
  shows "\<exists>cache. readCacheFile e w2 path = Inr cache \<and> ce_Config cache = ns_Config resolved \<and>
    ce_ReleaseID cache = ns_ReleaseID resolved \<and> ce_Version cache = ns_Version resolved \<and> ce_ETag cache = ns_ETag resolved"
proof -
  obtain raw fields where "rn_MarshalCache e env = Inr raw" "rn_Unmarshal e (raw @ [CHR 0x0A]) = Inr fields"
    "map_of fields ''config'' = Some (AMap (ns_Config resolved))"
    "stringFromRaw (map_of fields ''release_id'') = ns_ReleaseID resolved"
    "stringFromRaw (map_of fields ''version'') = ns_Version resolved" "stringFromRaw (map_of fields ''etag'') = ns_ETag resolved"
    using assms(2,4-7) unfolding envelope_laws_def by blast
  moreover from this(1) have "rn_ReadFile e (TrimSpace path) w2 = Inr (raw @ [CHR 0x0A])"
    using writeJSONFile_reads [OF assms(1,3)] assms(8) by simp
  ultimately show ?thesis using assms(3) by (simp add: readCacheFile_def Let_def)
qed

lemma fall_back_cases:
  assumes "fall_back e opts r0 rerr cfg w = (result, err, cfg', w')"
  obtains (cache) cache where "readCacheFile e w (ro_CachePath opts) = Inr cache"
      "mergeConfig e cfg (ce_Config cache) = Inr cfg'" "err = None"
      "result = r0\<lparr>rr_Source := ''cache'', rr_ReleaseID := ce_ReleaseID cache, rr_Version := ce_Version cache, rr_ETag := ce_ETag cache\<rparr>"
    | (failed) err0 where "err = Some err0" "cfg' = cfg"
    | (bootstrap) "err = None" "\<not> ro_Required opts" "cfg' = cfg" "result = r0\<lparr>rr_Source := ''bootstrap''\<rparr>"
proof (cases "readCacheFile e w (ro_CachePath opts)")
  case (Inl cacheErr)
  with assms show thesis
    by (auto simp: fall_back_def Let_def split_beta split: option.splits if_splits intro: that)
next
  case (Inr c)
  with assms show thesis
    by (cases "mergeConfig e cfg (ce_Config c)") (auto simp: fall_back_def Let_def split_beta intro: that)
qed

text \<open>A run that resolved a release has written its envelope and then the state.\<close>

lemma resolved_run:
  assumes "resolveIntoWithResolver e opts (Some (\<lambda>req w. (Inr resolved, w))) None cfg w = (result, None, cfg', w')"
    and "rr_Source result = ''resolved''"
  shows "\<exists>env. ce_Config env = cloneMap e (ns_Config resolved) \<and> ce_ReleaseID env = ns_ReleaseID resolved \<and>
    ce_Version env = ns_Version resolved \<and> ce_ETag env = ns_ETag resolved \<and>
    w' = snd (writeStateFile e (ro_StatePath (normalizeOptions e w cfg opts)) result
        (snd (writeJSONFile e (ro_CachePath (normalizeOptions e w cfg opts)) (rn_MarshalCache e env) w))) \<and>
    rr_ReleaseID result = ns_ReleaseID resolved \<and> rr_Version result = ns_Version resolved \<and> rr_ETag result = ns_ETag resolved"
proof -
  let ?opts = "normalizeOptions e w cfg opts"
  have "ro_ServiceID ?opts \<noteq> []"
  proof
    assume "ro_ServiceID ?opts = []"
    then obtain r0 where "fall_back e ?opts r0 None cfg w = (result, None, cfg', w')"
      using assms(1) by (auto simp: resolveIntoWithResolver_def Let_def)
    then show False using assms(2) by (cases rule: fall_back_cases) auto
  qed
  then obtain merged where "mergeConfig e cfg (ns_Config resolved) = Inr merged"
    using assms(1) by (cases "mergeConfig e cfg (ns_Config resolved)") (auto simp: resolveIntoWithResolver_def Let_def)
  with assms(1) \<open>ro_ServiceID ?opts \<noteq> []\<close> show ?thesis
    by (intro exI [of _ "\<lparr>ce_ServiceID = ro_ServiceID ?opts, ce_NamespaceKey = ro_NamespaceKey ?opts,
        ce_ReleaseID = ns_ReleaseID resolved, ce_Version = ns_Version resolved, ce_ETag = ns_ETag resolved,
        ce_Environment = ro_Environment ?opts, ce_TenantID = ro_TenantID ?opts, ce_ProjectID = ro_ProjectID ?opts,
        ce_CachedAt = rn_timestamp e, ce_Config = cloneMap e (ns_Config resolved)\<rparr>"])
      (auto simp: resolveIntoWithResolver_def Let_def split_beta)
qed

lemma resolveIntoWithResolver_cases:
  fixes e :: "('w, 'c) runtime_env" and opts cfg w
  defines "nopts \<equiv> normalizeOptions e w cfg opts"
  assumes "resolveIntoWithResolver e opts resolver resolverErr cfg w = (result, err, cfg', w')"
  obtains (fall_back) r rerr w0 where "fall_back e nopts r rerr cfg w0 = (result, err, cfg', w')"
      "rr_CachePath r = ro_CachePath nopts"
    | (failed) err0 where "err = Some err0" "cfg' = cfg"
    | (resolved) resolve req resolved w1 where "resolver = Some resolve" "resolverErr = None" "resolve req w = (Inr resolved, w1)"
      "nr_ServiceID req = rr_ServiceID result" "nr_NamespaceKey req = rr_NamespaceKey result" "err = None"
      "mergeConfig e cfg (ns_Config resolved) = Inr cfg'" "rr_Source result = ''resolved''" "rr_Version result = ns_Version resolved"
proof (cases "\<exists>resolve. resolver = Some resolve \<and> resolverErr = None \<and> ro_ServiceID nopts \<noteq> []")
  case False
  with assms(2) show thesis
    by (auto simp: resolveIntoWithResolver_def nopts_def [symmetric] Let_def split: option.splits intro: fall_back)
next
  case True
  then obtain resolve where r: "resolver = Some resolve" "resolverErr = None" "ro_ServiceID nopts \<noteq> []" by blast
  define req where "req = \<lparr>nr_NamespaceID = [], nr_ServiceID = ro_ServiceID nopts, nr_NamespaceKey = ro_NamespaceKey nopts,
    nr_Version = ro_Version nopts, nr_Environment = ro_Environment nopts, nr_TenantID = ro_TenantID nopts,
    nr_ProjectID = ro_ProjectID nopts\<rparr>"
  note run = assms(2) [unfolded resolveIntoWithResolver_def Let_def nopts_def [symmetric] req_def [symmetric]]
  obtain x w1 where x: "resolve req w = (x, w1)" by force
  show thesis
  proof (cases x)
    case (Inl rerr)
    with run r x show thesis by (auto intro: fall_back)
  next
    case (Inr ns)
    have ids: "nr_ServiceID req = ro_ServiceID nopts" "nr_NamespaceKey req = ro_NamespaceKey nopts" by (simp_all add: req_def)
    show thesis
    proof (cases "mergeConfig e cfg (ns_Config ns)")
      case Inl
      with run r x Inr show thesis by (auto simp: split_beta intro: failed)
    next
      case (Inr merged)
      with run r x \<open>x = Inr ns\<close> ids show thesis by (intro resolved [of resolve req ns w1]) (auto simp: split_beta)
    qed
  qed
qed

section \<open>Properties\<close>



text \<open>A file system in memory and a JSON library that knows one release, for the witnesses.\<close>

definition demo_release :: resolve_response where
  "demo_release = \<lparr>ns_ReleaseID = ''r1'', ns_Version = ''v1'', ns_ETag = ''e1'', ns_Config = [(''k'', AString ''x'')]\<rparr>"

definition demo_runtime :: "(string \<rightharpoonup> string, (string \<times> any) list) runtime_env" where
  "demo_runtime = \<lparr>rn_Getenv = (\<lambda>k. []),
     rn_ReadFile = (\<lambda>p w. case w p of None \<Rightarrow> Inl (EPlain ''not found'') | Some t \<Rightarrow> Inr t),
     rn_MkdirAll = (\<lambda>d w. (None, w)), rn_WriteFile = (\<lambda>p t w. (None, w(p \<mapsto> t))),
     rn_MarshalCache = (\<lambda>env. Inr ''r1''), rn_MarshalState = (\<lambda>st. Inr ''st''), rn_MarshalMap = (\<lambda>m. Inl (EPlain [])),
     rn_Unmarshal = (\<lambda>s. Inr [(''config'', AMap [(''k'', AString ''x'')]), (''release_id'', AString ''r1''),
       (''version'', AString ''v1''), (''etag'', AString ''e1'')]),
     rn_version = (\<lambda>s. Inl (EPlain [])), rn_timestamp = ''now'',
     rn_config = (\<lambda>c. \<lparr>cg_GetString = (\<lambda>k. ''svc''), cg_GetStringSlice = (\<lambda>k. [])\<rparr>),
     rn_MergeConfigMap = (\<lambda>m c. Inr (m @ c))\<rparr>"

definition demo_options :: resolve_options where
  "demo_options = \<lparr>ro_ServiceID = ''svc'', ro_NamespaceKey = ''runtime'', ro_Environment = ''dev'', ro_TenantID = ''t'',
     ro_ProjectID = ''p'', ro_Version = ''v1'', ro_BootstrapPath = ''b'', ro_CachePath = ''c'', ro_StatePath = ''s'',
     ro_VersionFiles = [''v''], ro_Required = True\<rparr>"

lemma demo_normalized: "normalizeOptions demo_runtime w cfg demo_options = demo_options"
  by (simp add: normalizeOptions_def demo_options_def or_else_def Let_def)

lemma demo_run:
  "\<exists>result w'. resolveIntoWithResolver demo_runtime demo_options (Some (\<lambda>req w. (Inr demo_release, w))) None [] Map.empty =
     (result, None, [(''k'', AString ''x'')], w') \<and> rr_Source result = ''resolved'' \<and> rr_Version result = ''v1''"
  unfolding resolveIntoWithResolver_def demo_normalized
  by (simp add: demo_options_def demo_release_def mergeConfig_def demo_runtime_def Let_def split_beta)



end
