(* ===== verification/App_Config.thy ===== *)
theory App_Config
  imports Runtime_Config
begin

text \<open>
  \<open>pkg/config\<close>: the wrapper around a viper instance that services read their configuration through. The
  viper library is the record \<open>viper_ops\<close> of its operations on a state \<open>'v\<close>; the file system and the
  environment are parameters too. The options are functions that may fail, applied in order. The flags of
  the command line and the service description of \<open>serviceconfig.go\<close> are here too.
\<close>

section \<open>The configuration and its options\<close>

record 'v viper_ops =
  vi_New :: 'v
  vi_SetDefault :: "string \<Rightarrow> any \<Rightarrow> 'v \<Rightarrow> 'v"
  vi_Set :: "string \<Rightarrow> any \<Rightarrow> 'v \<Rightarrow> 'v"
  vi_SetConfigFile :: "string \<Rightarrow> 'v \<Rightarrow> 'v"
  vi_SetConfigType :: "string \<Rightarrow> 'v \<Rightarrow> 'v"
  vi_SetConfigName :: "string \<Rightarrow> 'v \<Rightarrow> 'v"
  vi_AddConfigPath :: "string \<Rightarrow> 'v \<Rightarrow> 'v"
  vi_SetEnvPrefix :: "string \<Rightarrow> 'v \<Rightarrow> 'v"
  vi_SetEnvKeyReplacer :: "(char \<times> char) list \<Rightarrow> 'v \<Rightarrow> 'v"
  vi_AutomaticEnv :: "'v \<Rightarrow> 'v"
  vi_WatchConfig :: "'v \<Rightarrow> 'v"
  vi_OnConfigChange :: "'v \<Rightarrow> 'v"
  vi_ReadInConfig :: "'v \<Rightarrow> go_error + 'v"
  vi_MergeConfigMap :: "(string \<times> any) list \<Rightarrow> 'v \<Rightarrow> go_error + 'v"
  vi_AllKeys :: "'v \<Rightarrow> string list"
  vi_AllSettings :: "'v \<Rightarrow> (string \<times> any) list"
  vi_IsSet :: "'v \<Rightarrow> string \<Rightarrow> bool"
  vi_Get :: "'v \<Rightarrow> string \<Rightarrow> any"
  vi_GetString :: "'v \<Rightarrow> string \<Rightarrow> string"
  vi_GetStringSlice :: "'v \<Rightarrow> string \<Rightarrow> string list"
  vi_GetInt :: "'v \<Rightarrow> string \<Rightarrow> int"
  vi_GetBool :: "'v \<Rightarrow> string \<Rightarrow> bool"
  vi_GetDuration :: "'v \<Rightarrow> string \<Rightarrow> go_duration"

record 'v config =
  cf_Viper :: 'v
  cf_sensitiveKeys :: "string set"
  cf_onChange :: "string option"

type_synonym 'v config_option = "'v config \<Rightarrow> go_error + 'v config"

definition on_viper :: "('v \<Rightarrow> 'v) \<Rightarrow> 'v config \<Rightarrow> 'v config" where
  "on_viper f c = c\<lparr>cf_Viper := f (cf_Viper c)\<rparr>"

text \<open>The map of defaults is iterated in some order.\<close>

definition WithDefaults :: "'v viper_ops \<Rightarrow> (string \<times> any) list \<Rightarrow> 'v config_option" where
  "WithDefaults vi defaults c = Ok (fold (\<lambda>(k, v). on_viper (vi_SetDefault vi k v)) defaults c)"

definition file_type :: "string \<Rightarrow> string" where
  "file_type path = (let ext = filepath_Ext path in if HasPrefix ext ''.'' then tl ext else ext)"

definition set_file :: "'v viper_ops \<Rightarrow> string \<Rightarrow> 'v \<Rightarrow> 'v" where
  "set_file vi path v =
     (let v = vi_SetConfigFile vi path v
      in if file_type path \<noteq> [] then vi_SetConfigType vi (file_type path) v else v)"

definition WithFile :: "'v viper_ops \<Rightarrow> string \<Rightarrow> 'v config_option" where
  "WithFile vi path c = (if path = [] then Ok c else Ok (on_viper (set_file vi path) c))"

definition WithConfigNamePaths :: "'v viper_ops \<Rightarrow> string \<Rightarrow> string list \<Rightarrow> 'v config_option" where
  "WithConfigNamePaths vi name paths c =
     (let c = (if name \<noteq> [] then on_viper (vi_SetConfigName vi name) c else c);
          paths = (if paths = [] then [''.'', ''./env'', ''/etc/core-lab''] else paths)
      in Ok (fold (\<lambda>p. on_viper (vi_AddConfigPath vi p)) paths c))"

definition WithFormat :: "'v viper_ops \<Rightarrow> string \<Rightarrow> 'v config_option" where
  "WithFormat vi format c = Ok (if format \<noteq> [] then on_viper (vi_SetConfigType vi format) c else c)"

definition WithProfile :: "'v viper_ops \<Rightarrow> (string \<Rightarrow> string) \<Rightarrow> string \<Rightarrow> string \<Rightarrow> string list \<Rightarrow> 'v config_option" where
  "WithProfile vi getenv baseName profile paths c =
     (let profile = (if profile = [] then getenv ''APP_ENV'' else profile);
          name = (if profile \<noteq> [] then baseName @ ''.'' @ profile else baseName)
      in WithConfigNamePaths vi name paths c)"

definition WithEnv :: "'v viper_ops \<Rightarrow> string \<Rightarrow> 'v config_option" where
  "WithEnv vi prefix' c =
     (let c = (if prefix' \<noteq> [] then on_viper (vi_SetEnvPrefix vi prefix') c else c);
          c = on_viper (vi_SetEnvKeyReplacer vi [(CHR ''.'', CHR ''_''), (CHR ''-'', CHR ''_'')]) c
      in Ok (on_viper (vi_AutomaticEnv vi) c))"

text \<open>\<open>exists\<close> is what \<open>os.Stat\<close> says of the file.\<close>

definition WithDotEnv :: "'v viper_ops \<Rightarrow> (string \<Rightarrow> bool) \<Rightarrow> string \<Rightarrow> 'v config_option" where
  "WithDotEnv vi exists path c =
     (let path = (if path = [] then ''.env'' else path)
      in if \<not> exists path then Ok c
         else case vi_ReadInConfig vi (vi_SetConfigType vi ''env'' (vi_SetConfigFile vi path (vi_New vi))) of
                Inl err \<Rightarrow> Err err
              | Inr envV \<Rightarrow> Ok (fold (\<lambda>k. on_viper (vi_Set vi k (vi_Get vi envV k))) (vi_AllKeys vi envV) c))"

text \<open>
  Flags of the command line: \<open>'f\<close> is the state of the flag library, \<open>pf_String\<close> defines a flag and \<open>pf_Parse\<close> reads the arguments
  (both end the process on a bad use), and \<open>pf_Bind\<close> is viper's \<open>BindPFlags\<close>. \<open>WithPFlags\<close> without flags binds those of the
  command line, \<open>commandLine\<close>.
\<close>

record ('f, 'v) pflag_ops =
  pf_String :: "string \<Rightarrow> string \<Rightarrow> string \<Rightarrow> 'f \<Rightarrow> 'f"
  pf_Parse :: "'f \<Rightarrow> 'f"
  pf_Bind :: "'f \<Rightarrow> 'v \<Rightarrow> go_error + 'v"

definition WithPFlags :: "('f, 'v) pflag_ops \<Rightarrow> 'f \<Rightarrow> 'f option \<Rightarrow> 'v config_option" where
  "WithPFlags pf commandLine flags c =
     (let flags = (case flags of None \<Rightarrow> commandLine | Some fs \<Rightarrow> fs)
      in case pf_Bind pf flags (cf_Viper c) of Inl err \<Rightarrow> Err err | Inr v \<Rightarrow> Ok (c\<lparr>cf_Viper := v\<rparr>))"

definition auto_flags :: "(string \<times> string) list" where
  "auto_flags = [(''service.port'', ''service port''), (''database.host'', ''database host''), (''database.user'', ''database user''),
     (''database.password'', ''database password''), (''log.level'', ''log level'')]"

definition WithAutoPFlags :: "('f, 'v) pflag_ops \<Rightarrow> 'f \<Rightarrow> 'v config_option" where
  "WithAutoPFlags pf commandLine c =
     (let flags = pf_Parse pf (fold (\<lambda>(name, usage). pf_String pf name [] usage) auto_flags commandLine)
      in WithPFlags pf flags (Some flags) c)"

text \<open>
  \<open>WithWatch\<close> registers one function of the \<open>Config\<close> with viper, \<open>config_changed\<close>, and keeps the callback in a field. The
  function reads the field when a file has changed; a callback is represented by its name, and the result are the calls made.
\<close>

definition WithWatch :: "'v viper_ops \<Rightarrow> string option \<Rightarrow> 'v config_option" where
  "WithWatch vi onChange c =
     (let c = on_viper (vi_WatchConfig vi) c;
          c = c\<lparr>cf_onChange := onChange\<rparr>
      in Ok (on_viper (vi_OnConfigChange vi) c))"

definition config_changed :: "'v config \<Rightarrow> string list" where
  "config_changed c = (case cf_onChange c of None \<Rightarrow> [] | Some f \<Rightarrow> [f])"

definition WithSensitiveKeys :: "string list \<Rightarrow> 'v config_option" where
  "WithSensitiveKeys keys c = Ok (c\<lparr>cf_sensitiveKeys := cf_sensitiveKeys c \<union> set keys\<rparr>)"

definition WithRemoteProvider :: "('v \<Rightarrow> go_error + 'v) option \<Rightarrow> 'v config_option" where
  "WithRemoteProvider loader c =
     (case loader of
        None \<Rightarrow> Ok c
      | Some load \<Rightarrow> (case load (cf_Viper c) of Inl err \<Rightarrow> Err err | Inr v \<Rightarrow> Ok (c\<lparr>cf_Viper := v\<rparr>)))"

text \<open>
  Both branches of \<open>readConfigIfPossible\<close> call \<open>ReadInConfig\<close>. A failing option ends the process, which is
  the value \<open>Err\<close>; a failing read is only logged and leaves the instance as it was.
\<close>

definition readConfigIfPossible :: "'v viper_ops \<Rightarrow> 'v config \<Rightarrow> go_error + 'v config" where
  "readConfigIfPossible vi c =
     (case vi_ReadInConfig vi (cf_Viper c) of Inl err \<Rightarrow> Err err | Inr v \<Rightarrow> Ok (c\<lparr>cf_Viper := v\<rparr>))"

fun apply_options :: "'v config_option list \<Rightarrow> 'v config_option" where
  "apply_options [] c = Ok c"
| "apply_options (opt # opts) c = (case opt c of Inl err \<Rightarrow> Err err | Inr c \<Rightarrow> apply_options opts c)"

definition config_New :: "'v viper_ops \<Rightarrow> 'v config_option list \<Rightarrow> go_error + 'v config" where
  "config_New vi opts =
     (case apply_options opts \<lparr>cf_Viper = vi_New vi, cf_sensitiveKeys = {}, cf_onChange = None\<rparr> of
        Inl err \<Rightarrow> Err err
      | Inr c \<Rightarrow> (case readConfigIfPossible vi c of Inl _ \<Rightarrow> Ok c | Inr c \<Rightarrow> Ok c))"

section \<open>Getters and helpers\<close>

definition MergeInFile :: "'v viper_ops \<Rightarrow> string \<Rightarrow> 'v config \<Rightarrow> go_error + 'v config" where
  "MergeInFile vi path c =
     (if path = [] then Err (EPlain ''empty path'')
      else case vi_ReadInConfig vi (set_file vi path (vi_New vi)) of
             Inl err \<Rightarrow> Err err
           | Inr tmp \<Rightarrow>
               (case vi_MergeConfigMap vi (vi_AllSettings vi tmp) (cf_Viper c) of
                  Inl err \<Rightarrow> Err err
                | Inr v \<Rightarrow> Ok (c\<lparr>cf_Viper := v\<rparr>)))"

definition GetStringD :: "'v viper_ops \<Rightarrow> 'v config \<Rightarrow> string \<Rightarrow> string \<Rightarrow> string" where
  "GetStringD vi c key def = (let val = vi_GetString vi (cf_Viper c) key in if val \<noteq> [] then val else def)"

definition GetIntD :: "'v viper_ops \<Rightarrow> 'v config \<Rightarrow> string \<Rightarrow> int \<Rightarrow> int" where
  "GetIntD vi c key def = (if vi_IsSet vi (cf_Viper c) key then vi_GetInt vi (cf_Viper c) key else def)"

definition GetBoolD :: "'v viper_ops \<Rightarrow> 'v config \<Rightarrow> string \<Rightarrow> bool \<Rightarrow> bool" where
  "GetBoolD vi c key def = (if vi_IsSet vi (cf_Viper c) key then vi_GetBool vi (cf_Viper c) key else def)"

definition GetDurationD :: "'v viper_ops \<Rightarrow> 'v config \<Rightarrow> string \<Rightarrow> go_duration \<Rightarrow> go_duration" where
  "GetDurationD vi c key def =
     (if vi_IsSet vi (cf_Viper c) key then vi_GetDuration vi (cf_Viper c) key else def)"

definition ValidateRequired :: "'v viper_ops \<Rightarrow> 'v config \<Rightarrow> string list \<Rightarrow> go_error option" where
  "ValidateRequired vi c keys =
     (let missing = filter (\<lambda>k. \<not> vi_IsSet vi (cf_Viper c) k \<or> vi_GetString vi (cf_Viper c) k = []) keys
      in if missing \<noteq> [] then Some (EPlain (''missing required keys: '' @ Join missing '', '')) else None)"

definition MaskedSettings :: "'v viper_ops \<Rightarrow> 'v config \<Rightarrow> (string \<times> any) list" where
  "MaskedSettings vi c =
     map (\<lambda>(k, v). if k \<in> cf_sensitiveKeys c then (k, AString ''***REDACTED***'') else (k, v)) (vi_AllSettings vi (cf_Viper c))"

text \<open>The lines that \<open>Print\<close> writes; \<open>fmt_other\<close> formats numbers and nested values.\<close>

definition config_Print :: "'v viper_ops \<Rightarrow> (any \<Rightarrow> string) \<Rightarrow> bool \<Rightarrow> 'v config \<Rightarrow> string list" where
  "config_Print vi fmt_other masked c =
     map (\<lambda>(k, v). if masked \<and> k \<in> cf_sensitiveKeys c then k @ '' = ***REDACTED***'' else k @ '' = '' @ Sprint fmt_other v)
       (vi_AllSettings vi (cf_Viper c))"

text \<open>
  \<open>Save\<close>: \<open>mkdirAll\<close> and \<open>writeConfigAs\<close> are the calls that change the file system \<open>'w\<close>; \<open>dir\<close> is \<open>filepath.Dir\<close>.
\<close>

definition config_Save ::
    "(string \<Rightarrow> string) \<Rightarrow> (string \<Rightarrow> 'w \<Rightarrow> go_error option \<times> 'w) \<Rightarrow> ('v \<Rightarrow> string \<Rightarrow> 'w \<Rightarrow> go_error option \<times> 'w) \<Rightarrow>
     string \<Rightarrow> 'v config \<Rightarrow> 'w \<Rightarrow> go_error option \<times> 'w" where
  "config_Save dir mkdirAll writeConfigAs path c w =
     (if file_type path = [] then (Some (EPlain (''cannot infer format from path: '' @ path)), w)
      else case mkdirAll (dir path) w of
             (Some err, w) \<Rightarrow> (Some err, w)
           | (None, w) \<Rightarrow> writeConfigAs (cf_Viper c) path w)"

section \<open>serviceconfig.go\<close>

record service_config =
  sc_ServiceName :: string
  sc_ServiceCode :: string
  sc_Description :: string
  sc_Version :: string
  sc_Author :: string
  sc_Contact :: string
  sc_Repository :: string

definition LoadServiceConfig ::
    "(string \<Rightarrow> go_error + string) \<Rightarrow> (string \<Rightarrow> go_error + service_config) \<Rightarrow> string \<Rightarrow> go_error + service_config" where
  "LoadServiceConfig os_Open decode path =
     (case os_Open path of
        Inl err \<Rightarrow> Err err
      | Inr f \<Rightarrow> (case decode f of Inl err \<Rightarrow> Err err | Inr cfg \<Rightarrow> Ok cfg))"

section \<open>Properties\<close>

text \<open>
  What a configuration saves is what a new one reads back, if the file system keeps a written file, viper encodes what it
  decodes, and the new instance was given the file: the settings are merged again.
\<close>

lemma config_save_load:
  assumes "config_Save dir mkdirAll writeConfigAs path c w = (None, w')"
    and "\<And>w1 w2. writeConfigAs (cf_Viper c) path w1 = (None, w2) \<Longrightarrow>
           vi_ReadInConfig (vi w2) (set_file (vi w2) path (vi_New (vi w2))) = Inr saved"
    and "vi_MergeConfigMap (vi w') (vi_AllSettings (vi w') saved) (cf_Viper c2) = Inr v"
  shows "MergeInFile (vi w') path c2 = Ok (c2\<lparr>cf_Viper := v\<rparr>)"
proof -
  have "file_type path \<noteq> []" and w: "\<exists>w1. writeConfigAs (cf_Viper c) path w1 = (None, w')"
    using assms(1) by (auto simp: config_Save_def split: if_splits prod.splits option.splits)
  then have "path \<noteq> []" by (auto simp: file_type_def filepath_Ext_def)
  moreover obtain w1 where "writeConfigAs (cf_Viper c) path w1 = (None, w')" using w by blast
  ultimately show ?thesis using assms(2,3) by (auto simp: MergeInFile_def)
qed


lemma apply_options_append:
  "apply_options (xs @ ys) c = (case apply_options xs c of Inl err \<Rightarrow> Err err | Inr c \<Rightarrow> apply_options ys c)"
  by (induction xs arbitrary: c) (auto split: sum.splits)

text \<open>
  Only the callback of the last \<open>WithWatch\<close> is called when a file changes, and nothing is called when it is nil, whatever
  callbacks earlier options registered.
\<close>

lemma last_watch_called:
  assumes "config_New vi (opts @ [WithWatch vi onChange]) = Ok c"
  shows "config_changed c = (case onChange of None \<Rightarrow> [] | Some f \<Rightarrow> [f])"
  using assms
  by (auto simp: config_New_def apply_options_append WithWatch_def on_viper_def config_changed_def readConfigIfPossible_def
        split: sum.splits)

text \<open>
  What viper documents of its settings: keys are not case sensitive and are kept in lower case, and a key
  with dots is a path into nested maps, so the keys of the outermost map have no dots.
\<close>

definition top_level_key :: "string \<Rightarrow> bool" where
  "top_level_key k \<longleftrightarrow> ToLower k = k \<and> CHR ''.'' \<notin> set k"

definition viper_keys :: "'v viper_ops \<Rightarrow> bool" where
  "viper_keys vi \<longleftrightarrow> (\<forall>v. \<forall>(k, x) \<in> set (vi_AllSettings vi v). top_level_key k)"

text \<open>
  A nested or capitalised key cannot be masked. Registering keys like \<open>database.password\<close> or
  \<open>ServiceAPIKey\<close> as sensitive changes nothing: \<open>MaskedSettings\<close> and the masked \<open>Print\<close> show the same values as
  without the registration, because both compare the registered names with the outermost keys of the
  settings, which viper keeps in lower case and without dots.
\<close>

lemma sensitive_key_not_masked:
  assumes "viper_keys vi" and "\<forall>k\<in>set keys. \<not> top_level_key k" and "WithSensitiveKeys keys c = Ok c'"
  shows "MaskedSettings vi c' = MaskedSettings vi c \<and> config_Print vi fmt_other masked c' = config_Print vi fmt_other masked c"
proof -
  have c': "cf_Viper c' = cf_Viper c" "cf_sensitiveKeys c' = cf_sensitiveKeys c \<union> set keys"
    using assms(3) by (auto simp: WithSensitiveKeys_def)
  have "k \<in> cf_sensitiveKeys c' \<longleftrightarrow> k \<in> cf_sensitiveKeys c" if "(k, v) \<in> set (vi_AllSettings vi (cf_Viper c))" for k v
    using that assms(1,2) c'(2) unfolding viper_keys_def by blast
  then show ?thesis
    by (auto simp: MaskedSettings_def config_Print_def c'(1))
qed

definition demo_viper :: "(string \<times> any) list viper_ops" where
  "demo_viper = \<lparr>vi_New = [], vi_SetDefault = (\<lambda>k v s. s), vi_Set = (\<lambda>k v s. AList.update k v s), vi_SetConfigFile = (\<lambda>p s. s),
     vi_SetConfigType = (\<lambda>p s. s), vi_SetConfigName = (\<lambda>p s. s), vi_AddConfigPath = (\<lambda>p s. s), vi_SetEnvPrefix = (\<lambda>p s. s),
     vi_SetEnvKeyReplacer = (\<lambda>p s. s), vi_AutomaticEnv = (\<lambda>s. s), vi_WatchConfig = (\<lambda>s. s), vi_OnConfigChange = (\<lambda>s. s), vi_ReadInConfig = Inr, vi_MergeConfigMap = (\<lambda>m s. Inr s),
     vi_AllKeys = map fst, vi_AllSettings = (\<lambda>s. filter (\<lambda>(k, v). top_level_key k) s), vi_IsSet = (\<lambda>s k. map_of s k \<noteq> None),
     vi_Get = (\<lambda>s k. case map_of s k of None \<Rightarrow> ANil | Some v \<Rightarrow> v),
     vi_GetString = (\<lambda>s k. case map_of s k of Some (AString t) \<Rightarrow> t | _ \<Rightarrow> []), vi_GetStringSlice = (\<lambda>s k. []),
     vi_GetInt = (\<lambda>s k. case map_of s k of Some (AInt i) \<Rightarrow> i | _ \<Rightarrow> 0),
     vi_GetBool = (\<lambda>s k. case map_of s k of Some (ABool b) \<Rightarrow> b | _ \<Rightarrow> False), vi_GetDuration = (\<lambda>s k. 0)\<rparr>"

lemma demo_viper_keys: "viper_keys demo_viper"
  by (simp add: viper_keys_def demo_viper_def)

lemma sensitive_key_not_masked_witness:
  "\<exists>c'. WithSensitiveKeys [''database.password'']
       \<lparr>cf_Viper = [(''database'', AMap [(''password'', AString ''s'')])], cf_sensitiveKeys = {}, cf_onChange = None\<rparr> = Ok c' \<and>
     MaskedSettings demo_viper c' = [(''database'', AMap [(''password'', AString ''s'')])]"
proof -
  let ?c = "\<lparr>cf_Viper = [(''database'', AMap [(''password'', AString ''s'')])], cf_sensitiveKeys = {}, cf_onChange = None\<rparr>"
  obtain c' where c': "WithSensitiveKeys [''database.password''] ?c = Ok c'" by (simp add: WithSensitiveKeys_def)
  have "top_level_key ''database''" "\<forall>k\<in>set [''database.password'']. \<not> top_level_key k"
    by (simp add: top_level_key_def, code_simp) (simp add: top_level_key_def)
  with sensitive_key_not_masked [OF demo_viper_keys _ c'] c' show ?thesis
    by (simp add: MaskedSettings_def demo_viper_def)
qed

end
