(* ===== verification/Audit_Trail.thy ===== *)
theory Audit_Trail
  imports Server_Engine App_Config Permission_Decision
begin

text \<open>
  \<open>pkg/audit\<close>: the audit events of a service and their way to the store. \<open>context.go\<close> lets a handler describe
  the event of its request, \<open>gin_helper.go\<close> and \<open>middleware.go\<close> build and publish it, \<open>kafka.go\<close> queues it for the
  writer, and \<open>consumer.go\<close> moves messages from the topic into the store. Kafka and JSON are parameters.
\<close>

section \<open>audit.go and context.go\<close>

record audit_event =
  ae_EventID :: string
  ae_Timestamp :: go_time
  ae_Service :: string
  ae_TenantID :: string
  ae_UserID :: string
  ae_Action :: string
  ae_Resource :: string
  ae_ResourceID :: string
  ae_RequestID :: string
  ae_IPAddress :: string
  ae_Status :: string
  ae_Metadata :: "string \<rightharpoonup> any"

text \<open>The interface \<open>Publisher\<close>, and the one that discards everything.\<close>

record 'w audit_publisher =
  ap_Publish :: "audit_event \<Rightarrow> 'w \<Rightarrow> go_error option \<times> 'w"
  ap_Close :: "'w \<Rightarrow> go_error option \<times> 'w"

definition NoopPublisher :: "'w audit_publisher" where
  "NoopPublisher = \<lparr>ap_Publish = (\<lambda>_ w. (None, w)), ap_Close = (\<lambda>w. (None, w))\<rparr>"

definition audit_DefaultTopic :: string where "audit_DefaultTopic = ''platform.audit.events''"

definition ctxAuditActionKey :: string where "ctxAuditActionKey = ''corelab_audit_action''"
definition ctxAuditResourceKey :: string where "ctxAuditResourceKey = ''corelab_audit_resource''"
definition ctxAuditResourceIDKey :: string where "ctxAuditResourceIDKey = ''corelab_audit_resource_id''"
definition ctxAuditStatusKey :: string where "ctxAuditStatusKey = ''corelab_audit_status''"
definition ctxAuditMetadataKey :: string where "ctxAuditMetadataKey = ''corelab_audit_metadata''"
definition ctxAuditForceKey :: string where "ctxAuditForceKey = ''corelab_audit_force''"
definition ctxAuditSkipKey :: string where "ctxAuditSkipKey = ''corelab_audit_skip''"

definition gin_Set :: "gin_ctx \<Rightarrow> string \<Rightarrow> any \<Rightarrow> gin_ctx" where
  "gin_Set c key v = c\<lparr>gc_keys := (gc_keys c)(key \<mapsto> v)\<rparr>"

definition setTrimmedString :: "gin_ctx \<Rightarrow> string \<Rightarrow> string \<Rightarrow> gin_ctx" where
  "setTrimmedString c key val = (let val = TrimSpace val in if val = [] then c else gin_Set c key (AString val))"

definition SetAction :: "gin_ctx \<Rightarrow> string \<Rightarrow> gin_ctx" where
  "SetAction c action = setTrimmedString c ctxAuditActionKey action"

definition SetResource :: "gin_ctx \<Rightarrow> string \<Rightarrow> gin_ctx" where
  "SetResource c resource = setTrimmedString c ctxAuditResourceKey resource"

definition SetResourceID :: "gin_ctx \<Rightarrow> string \<Rightarrow> gin_ctx" where
  "SetResourceID c resourceID = setTrimmedString c ctxAuditResourceIDKey resourceID"

definition audit_SetStatus :: "gin_ctx \<Rightarrow> string \<Rightarrow> gin_ctx" where
  "audit_SetStatus c status = setTrimmedString c ctxAuditStatusKey status"

definition SetMetadata :: "gin_ctx \<Rightarrow> (string \<times> any) list \<Rightarrow> gin_ctx" where
  "SetMetadata c metadata = gin_Set c ctxAuditMetadataKey (AMap metadata)"

definition getMetadata :: "gin_ctx \<Rightarrow> (string \<times> any) list" where
  "getMetadata c = (case gc_keys c ctxAuditMetadataKey of Some (AMap m) \<Rightarrow> m | _ \<Rightarrow> [])"

definition AddMetadata :: "gin_ctx \<Rightarrow> string \<Rightarrow> any \<Rightarrow> gin_ctx" where
  "AddMetadata c key val =
     (let key = TrimSpace key
      in if key = [] then c else gin_Set c ctxAuditMetadataKey (AMap (AList.update key val (getMetadata c))))"

definition ForceRequest :: "gin_ctx \<Rightarrow> gin_ctx" where
  "ForceRequest c = gin_Set c ctxAuditForceKey (ABool True)"

definition SkipRequest :: "gin_ctx \<Rightarrow> gin_ctx" where
  "SkipRequest c = gin_Set c ctxAuditSkipKey (ABool True)"

text \<open>A conversion \<open>v.(string)\<close> whose failure gives the empty string.\<close>

definition as_string :: "any \<Rightarrow> string" where
  "as_string v = (case v of AString s \<Rightarrow> s | _ \<Rightarrow> [])"

definition getStringValue :: "gin_ctx \<Rightarrow> string \<Rightarrow> string" where
  "getStringValue c key = (case gc_keys c key of None \<Rightarrow> [] | Some v \<Rightarrow> TrimSpace (as_string v))"

definition getBoolValue :: "gin_ctx \<Rightarrow> string \<Rightarrow> bool" where
  "getBoolValue c key = (case gc_keys c key of Some (ABool b) \<Rightarrow> b | _ \<Rightarrow> False)"

definition getAction :: "gin_ctx \<Rightarrow> string" where "getAction c = getStringValue c ctxAuditActionKey"
definition getResource :: "gin_ctx \<Rightarrow> string" where "getResource c = getStringValue c ctxAuditResourceKey"
definition getResourceID :: "gin_ctx \<Rightarrow> string" where "getResourceID c = getStringValue c ctxAuditResourceIDKey"
definition getStatus :: "gin_ctx \<Rightarrow> string" where "getStatus c = getStringValue c ctxAuditStatusKey"
definition isForced :: "gin_ctx \<Rightarrow> bool" where "isForced c = getBoolValue c ctxAuditForceKey"
definition isSkipped :: "gin_ctx \<Rightarrow> bool" where "isSkipped c = getBoolValue c ctxAuditSkipKey"

section \<open>gin_helper.go\<close>

text \<open>
  What the outside gives: a fresh identifier, the times at which the request began and ended, and whether
  the engine has \<open>ContextWithFallback\<close>. Without it, which is the default of \<open>gin.New()\<close>, \<open>c.Value\<close> finds no key
  that is not a plain string, such as \<open>logger.RequestIDKey\<close>; with it, \<open>c.Value\<close> asks the context of the request.
\<close>

record audit_env =
  av_uuid :: string
  av_started :: go_time
  av_now :: go_time
  av_fallback :: bool

definition value_RequestIDKey :: "audit_env \<Rightarrow> gin_ctx \<Rightarrow> string option" where
  "value_RequestIDKey env c = (if av_fallback env then cx_request_id (gc_req c) else None)"

definition context_identity :: "gin_ctx \<Rightarrow> audit_event \<Rightarrow> audit_event" where
  "context_identity c ev =
     (case RequestContextFromContext (gc_req c) of
        None \<Rightarrow> ev
      | Some rc \<Rightarrow>
          let ev = ev\<lparr>ae_TenantID := rc_TenantID rc, ae_UserID := rc_ActorUserID rc\<rparr>
          in if ae_RequestID ev = [] then ev\<lparr>ae_RequestID := rc_CorrelationID rc\<rparr> else ev)"

definition claims_identity :: "gin_ctx \<Rightarrow> audit_event \<Rightarrow> audit_event" where
  "claims_identity c ev =
     (case GetClaims c of
        None \<Rightarrow> ev
      | Some cl \<Rightarrow>
          let ev = (if ae_TenantID ev = [] then ev\<lparr>ae_TenantID := TenantID cl\<rparr> else ev)
          in if \<not> IsServiceToken cl \<and> ae_UserID ev = []
             then ev\<lparr>ae_UserID := (if IdentityID cl \<noteq> [] then IdentityID cl else Subject cl)\<rparr>
             else ev)"

definition NewEvent :: "audit_env \<Rightarrow> exchange \<Rightarrow> string \<Rightarrow> string \<Rightarrow> string \<Rightarrow> string \<Rightarrow> string \<Rightarrow> audit_event" where
  "NewEvent env ex service action resource resourceID status =
     (let c = ex_c ex;
          ev = \<lparr>ae_EventID = av_uuid env, ae_Timestamp = av_now env, ae_Service = service, ae_TenantID = [], ae_UserID = [],
                ae_Action = action, ae_Resource = resource, ae_ResourceID = resourceID, ae_RequestID = [],
                ae_IPAddress = ex_ClientIP ex, ae_Status = status, ae_Metadata = Map.empty\<rparr>;
          ev = context_identity c ev;
          ev = (case gc_keys c ''tenant_id'' of None \<Rightarrow> ev | Some tid \<Rightarrow> ev\<lparr>ae_TenantID := as_string tid\<rparr>);
          ev = (case gc_keys c ''user_id'' of None \<Rightarrow> ev | Some uid \<Rightarrow> ev\<lparr>ae_UserID := as_string uid\<rparr>);
          ev = claims_identity c ev;
          ev = (case value_RequestIDKey env c of None \<Rightarrow> ev | Some rid \<Rightarrow> ev\<lparr>ae_RequestID := rid\<rparr>)
      in if ae_RequestID ev = [] then ev\<lparr>ae_RequestID := RequestHeader ex ''X-Request-ID''\<rparr> else ev)"

section \<open>middleware.go\<close>

definition defaultAuditedMethods :: "string list" where
  "defaultAuditedMethods = [''POST'', ''PUT'', ''PATCH'', ''DELETE'']"

definition defaultSkipPathSuffixes :: "string list" where
  "defaultSkipPathSuffixes = [''/quota/check'']"

record 'w audit_config =
  am_Enabled :: bool
  am_Service :: string
  am_Publisher :: "'w audit_publisher option"
  am_Methods :: "string list"
  am_SkipPathPrefixes :: "string list"
  am_SkipPathSuffixes :: "string list"
  am_ShouldAudit :: "(exchange \<Rightarrow> bool) option"

definition splitCSV :: "string \<Rightarrow> string list" where
  "splitCSV raw =
     (if TrimSpace raw = [] then []
      else filter (\<lambda>part. part \<noteq> []) (map TrimSpace (Split raw CHR '','')))"

definition audit_NewMiddlewareConfig ::
    "'v viper_ops \<Rightarrow> 'v config option \<Rightarrow> string \<Rightarrow> 'w audit_publisher option \<Rightarrow> 'w audit_config" where
  "audit_NewMiddlewareConfig vi cfg defaultService publisher =
     (let get = (\<lambda>key. case cfg of None \<Rightarrow> [] | Some c \<Rightarrow> vi_GetString vi (cf_Viper c) key);
          configured = TrimSpace (get ''service_name'');
          methods = splitCSV (get ''AuditMethods'')
      in \<lparr>am_Enabled = (case cfg of None \<Rightarrow> True | Some c \<Rightarrow> GetBoolD vi c ''AuditEnabled'' True),
          am_Service = (if configured \<noteq> [] then configured else TrimSpace defaultService),
          am_Publisher = publisher,
          am_Methods = (if methods \<noteq> [] then methods else defaultAuditedMethods),
          am_SkipPathPrefixes = splitCSV (get ''AuditSkipPathPrefixes''),
          am_SkipPathSuffixes = defaultSkipPathSuffixes @ splitCSV (get ''AuditSkipPathSuffixes''),
          am_ShouldAudit = None\<rparr>)"

definition allowed_methods :: "string list \<Rightarrow> string set" where
  "allowed_methods methods = set (filter (\<lambda>meth. meth \<noteq> []) (map (\<lambda>meth. ToUpper (TrimSpace meth)) methods))"

definition skipped_path :: "(string \<Rightarrow> string \<Rightarrow> bool) \<Rightarrow> string list \<Rightarrow> string \<Rightarrow> bool" where
  "skipped_path matches patterns path =
     list_ex (\<lambda>p. let p = TrimSpace p in p \<noteq> [] \<and> matches path p) patterns"

definition shouldAudit :: "'w audit_config \<Rightarrow> string set \<Rightarrow> exchange \<Rightarrow> bool" where
  "shouldAudit cfg allowedMethods ex =
     (if isSkipped (ex_c ex) then False
      else if isForced (ex_c ex) then True
      else if (case am_ShouldAudit cfg of None \<Rightarrow> False | Some f \<Rightarrow> \<not> f ex) then False
      else if ToUpper (TrimSpace (ex_Method ex)) \<notin> allowedMethods then False
      else
        let route = TrimSpace (ex_FullPath ex);
            path = (if route = [] then TrimSpace (ex_Path ex) else route)
        in if path = [] then False
           else if skipped_path HasPrefix (am_SkipPathPrefixes cfg) path then False
           else if skipped_path HasSuffix (am_SkipPathSuffixes cfg) path then False
           else route \<noteq> [])"

definition Milliseconds :: "go_duration \<Rightarrow> int" where
  "Milliseconds d = (if d \<ge> 0 then d div Millisecond else - ((- d) div Millisecond))"

definition put_unless_empty :: "string \<Rightarrow> string \<Rightarrow> (string \<rightharpoonup> any) \<Rightarrow> (string \<rightharpoonup> any)" where
  "put_unless_empty key val m = (if val \<noteq> [] then m(key \<mapsto> AString val) else m)"

definition rawClaimString :: "(string \<rightharpoonup> any) \<Rightarrow> string \<Rightarrow> string" where
  "rawClaimString raw key = (case raw key of None \<Rightarrow> [] | Some v \<Rightarrow> TrimSpace (as_string v))"

definition claims_metadata :: "claims \<Rightarrow> (string \<rightharpoonup> any) \<Rightarrow> (string \<rightharpoonup> any)" where
  "claims_metadata cl m =
     (let m = put_unless_empty ''token_use'' (TrimSpace (TokenUse cl)) m;
          m = (if IsServiceToken cl then m(''actor_type'' \<mapsto> AString ''service'')
               else if Subject cl \<noteq> [] then m(''actor_type'' \<mapsto> AString ''user'') else m);
          m = put_unless_empty ''tenant_status'' (TrimSpace (TenantStatus cl)) m
      in put_unless_empty ''tenant_membership_status'' (rawClaimString (Raw cl) ''tenant_membership_status'') m)"

definition context_metadata :: "request_context \<Rightarrow> (string \<rightharpoonup> any) \<Rightarrow> (string \<rightharpoonup> any)" where
  "context_metadata rc m =
     (let m = put_unless_empty MetadataTenantID (rc_TenantID rc) m;
          m = put_unless_empty MetadataActorUserID (rc_ActorUserID rc) m;
          m = put_unless_empty MetadataServiceID (rc_ServiceID rc) m;
          m = put_unless_empty MetadataCorrelationID (rc_CorrelationID rc) m
      in if rc_IsSuperAdmin rc then m(MetadataIsSuperAdmin \<mapsto> ABool True) else m)"

definition buildMetadata :: "audit_env \<Rightarrow> exchange \<Rightarrow> (string \<rightharpoonup> any)" where
  "buildMetadata env ex =
     (let m = [''http_method'' \<mapsto> AString (ex_Method ex), ''http_path'' \<mapsto> AString (ex_Path ex),
               ''http_route'' \<mapsto> AString (ex_FullPath ex), ''http_status_code'' \<mapsto> AInt (ex_Status ex),
               ''duration_ms'' \<mapsto> AInt64 (Milliseconds (av_now env - av_started env))];
          m = (case GetClaims (ex_c ex) of None \<Rightarrow> m | Some cl \<Rightarrow> claims_metadata cl m);
          m = (case RequestContextFromContext (gc_req (ex_c ex)) of None \<Rightarrow> m | Some rc \<Rightarrow> context_metadata rc m)
      in if length (ex_Errors ex) > 0 then m(''error_count'' \<mapsto> AInt (int (length (ex_Errors ex)))) else m)"

definition resolveOutcomeStatus :: "int \<Rightarrow> string" where
  "resolveOutcomeStatus httpStatus =
     (if httpStatus \<ge> StatusOK \<and> httpStatus < StatusBadRequest then ''success''
      else if httpStatus = StatusUnauthorized \<or> httpStatus = StatusForbidden then ''denied''
      else ''failure'')"

definition resolveAction :: "string \<Rightarrow> string \<Rightarrow> string" where
  "resolveAction meth resource =
     (let meth = ToUpper (TrimSpace meth);
          verb = (if meth = ''POST'' then ''create''
                  else if meth = ''PUT'' \<or> meth = ''PATCH'' then ''update''
                  else if meth = ''DELETE'' then ''delete''
                  else if meth = ''GET'' then ''read'' else ''change'');
          resource = TrimSpace resource
      in (if resource = [] then ''request'' else resource) @ ''.'' @ verb)"

definition Trim_char :: "char \<Rightarrow> string \<Rightarrow> string" where
  "Trim_char c s = TrimRight c (dropWhile (\<lambda>x. x = c) s)"

definition normalizeSegment :: "string \<Rightarrow> string" where
  "normalizeSegment part =
     (let part = TrimSpace (Trim_char CHR ''/'' part)
      in if part = [] then []
         else map (\<lambda>c. if c \<in> set ''-. :'' then CHR ''_'' else c) (ToLower part))"

definition resolveResource :: "exchange \<Rightarrow> string" where
  "resolveResource ex =
     (let path = TrimSpace (ex_FullPath ex);
          path = (if path = [] then TrimSpace (ex_Path ex) else path)
      in if path = [] then ''request''
         else case find (\<lambda>part. part \<noteq> [] \<and> \<not> HasPrefix part '':'') (rev (map TrimSpace (Split path CHR ''/''))) of
                Some part \<Rightarrow> normalizeSegment part
              | None \<Rightarrow> ''request'')"

definition resolveResourceID :: "exchange \<Rightarrow> string" where
  "resolveResourceID ex =
     (case find (\<lambda>(key, val). let key = TrimSpace key in key \<noteq> [] \<and> (key = ''id'' \<or> HasSuffix key ''_id''))
         (rev (gc_Params (ex_c ex))) of
        Some (key, val) \<Rightarrow> TrimSpace val
      | None \<Rightarrow> [])"

definition or_resolved :: "string \<Rightarrow> string \<Rightarrow> string" where
  "or_resolved given resolved = (if given = [] then resolved else given)"

definition request_event :: "'w audit_config \<Rightarrow> audit_env \<Rightarrow> exchange \<Rightarrow> audit_event" where
  "request_event cfg env ex =
     (let c = ex_c ex;
          status = or_resolved (getStatus c) (resolveOutcomeStatus (ex_Status ex));
          resource = or_resolved (getResource c) (resolveResource ex);
          action = or_resolved (getAction c) (resolveAction (ex_Method ex) resource);
          resourceID = or_resolved (getResourceID c) (resolveResourceID ex);
          ev = NewEvent env ex (am_Service cfg) action resource resourceID status
      in ev\<lparr>ae_Metadata := buildMetadata env ex ++ map_of (getMetadata c)\<rparr>)"

definition audit_Middleware :: "'w audit_config \<Rightarrow> audit_env \<Rightarrow> 'w handler" where
  "audit_Middleware cfg env k ex w =
     (case am_Publisher cfg of
        None \<Rightarrow> k ex w
      | Some pub \<Rightarrow>
          if \<not> am_Enabled cfg then k ex w
          else
            let methods = (if am_Methods cfg = [] then defaultAuditedMethods else am_Methods cfg);
                cfg = cfg\<lparr>am_SkipPathSuffixes := defaultSkipPathSuffixes @ am_SkipPathSuffixes cfg\<rparr>
            in and_then (k ex w) (\<lambda>ex w.
                 if \<not> shouldAudit cfg (allowed_methods methods) ex then Served ex w
                 else let (err, w) = ap_Publish pub (request_event cfg env ex) w in Served ex w))"

definition WithAudit :: "'l server_state audit_config \<Rightarrow> audit_env \<Rightarrow> ('f, 'l) engine_options \<Rightarrow> ('f, 'l) engine_options" where
  "WithAudit cfg env e = e\<lparr>eo_audit := (if am_Enabled cfg then Some (audit_Middleware cfg env) else None)\<rparr>"

section \<open>kafka.go\<close>

record kafka_publisher_config =
  kc_Enabled :: bool
  kc_Topic :: string
  kc_QueueSize :: int
  kc_WriteTimeout :: go_duration

definition defaultAuditQueueSize :: int where "defaultAuditQueueSize = 256"
definition defaultAuditWriteTimeout :: go_duration where "defaultAuditWriteTimeout = 2 * Second"

fun dedupe_brokers :: "string set \<Rightarrow> string list \<Rightarrow> string list" where
  "dedupe_brokers seen [] = []"
| "dedupe_brokers seen (v # vs) =
     (let broker = TrimSpace v
      in if broker = [] \<or> broker \<in> seen then dedupe_brokers seen vs
         else broker # dedupe_brokers (insert broker seen) vs)"

definition normalizeBrokerList :: "string list \<Rightarrow> string list" where
  "normalizeBrokerList vals = dedupe_brokers {} vals"

text \<open>
  A value of type \<open>[]any\<close> keeps its strings; a value of any other type, a \<open>[]string\<close> included, is read with
  \<open>GetStringSlice\<close>, which returns a \<open>[]string\<close> as it is.
\<close>

definition auditBrokerList :: "'v viper_ops \<Rightarrow> 'v config option \<Rightarrow> string list" where
  "auditBrokerList vi cfg =
     (case cfg of
        None \<Rightarrow> []
      | Some c \<Rightarrow>
          (case vi_Get vi (cf_Viper c) ''KafkaBrokers'' of
             ASlice items \<Rightarrow> normalizeBrokerList (concat (map (\<lambda>x. case x of AString s \<Rightarrow> [s] | _ \<Rightarrow> []) items))
           | AString s \<Rightarrow> normalizeBrokerList (Split s CHR '','')
           | _ \<Rightarrow> normalizeBrokerList (vi_GetStringSlice vi (cf_Viper c) ''KafkaBrokers'')))"

text \<open>
  The publisher: its buffered channel, whether it was closed, and the messages (key and value) that were
  handed to the writer, with \<open>kp_current\<close> the event that the goroutine has taken from the channel.
\<close>

record kafka_publisher =
  kp_brokers :: "string list"
  kp_topic :: string
  kp_capacity :: int
  kp_writeTimeout :: go_duration
  kp_queue :: "audit_event list"
  kp_closed :: bool
  kp_current :: "audit_event option"
  kp_written :: "(string \<times> string) list"

definition NewKafkaPublisher :: "string list \<Rightarrow> kafka_publisher_config \<Rightarrow> kafka_publisher option" where
  "NewKafkaPublisher brokers cfg =
     (if \<not> kc_Enabled cfg then None
      else if normalizeBrokerList brokers = [] then None
      else Some \<lparr>kp_brokers = normalizeBrokerList brokers,
                 kp_topic = (if TrimSpace (kc_Topic cfg) = [] then audit_DefaultTopic else kc_Topic cfg),
                 kp_capacity = (if kc_QueueSize cfg \<le> 0 then defaultAuditQueueSize else kc_QueueSize cfg),
                 kp_writeTimeout = (if kc_WriteTimeout cfg \<le> 0 then defaultAuditWriteTimeout else kc_WriteTimeout cfg),
                 kp_queue = [], kp_closed = False, kp_current = None, kp_written = []\<rparr>)"

definition NewKafkaPublisherFromConfig :: "'v viper_ops \<Rightarrow> 'v config option \<Rightarrow> kafka_publisher option" where
  "NewKafkaPublisherFromConfig vi cfg =
     (case cfg of
        None \<Rightarrow> None
      | Some c \<Rightarrow>
          NewKafkaPublisher (auditBrokerList vi cfg)
            \<lparr>kc_Enabled = GetBoolD vi c ''AuditEnabled'' True,
             kc_Topic = TrimSpace (GetStringD vi c ''AuditTopic'' audit_DefaultTopic),
             kc_QueueSize = GetIntD vi c ''AuditQueueSize'' defaultAuditQueueSize,
             kc_WriteTimeout = GetDurationD vi c ''AuditWriteTimeout'' defaultAuditWriteTimeout\<rparr>)"

text \<open>A send in a \<open>select\<close> panics on a closed channel and takes the default branch on a full one.\<close>

datatype publish_outcome = Enqueued kafka_publisher | QueueFull go_error | SendOnClosed

definition kafka_Publish :: "audit_event \<Rightarrow> kafka_publisher \<Rightarrow> publish_outcome" where
  "kafka_Publish event p =
     (if kp_closed p then SendOnClosed
      else if int (length (kp_queue p)) < kp_capacity p then Enqueued (p\<lparr>kp_queue := kp_queue p @ [event]\<rparr>)
      else QueueFull (EPlain ''audit queue is full''))"

text \<open>
  The body of the loop over the channel, in two steps: an event is received, then it is encoded and handed
  to the writer. What the writer answers is only logged.
\<close>

definition publisher_receive :: "kafka_publisher \<Rightarrow> kafka_publisher option" where
  "publisher_receive p =
     (case (kp_current p, kp_queue p) of
        (None, event # rest) \<Rightarrow> Some (p\<lparr>kp_queue := rest, kp_current := Some event\<rparr>)
      | _ \<Rightarrow> None)"

definition publisher_write :: "(audit_event \<Rightarrow> go_error + string) \<Rightarrow> kafka_publisher \<Rightarrow> kafka_publisher option" where
  "publisher_write marshal p =
     (case kp_current p of
        None \<Rightarrow> None
      | Some event \<Rightarrow>
          (case marshal event of
             Inl _ \<Rightarrow> Some (p\<lparr>kp_current := None\<rparr>)
           | Inr payload \<Rightarrow>
               Some (p\<lparr>kp_current := None, kp_written := kp_written p @ [(TrimSpace (ae_TenantID event), payload)]\<rparr>)))"

definition publisher_close :: "kafka_publisher \<Rightarrow> kafka_publisher" where
  "publisher_close p = p\<lparr>kp_closed := True\<rparr>"

text \<open>Requests and the goroutine interleave; the trace of a run is the list of the events it accepted.\<close>

inductive publisher_run :: "(audit_event \<Rightarrow> go_error + string) \<Rightarrow> kafka_publisher \<Rightarrow> audit_event list \<Rightarrow> kafka_publisher \<Rightarrow> bool"
  for marshal where
  run_start: "publisher_run marshal p [] p"
| run_publish: "publisher_run marshal p evs p' \<Longrightarrow> kafka_Publish ev p' = Enqueued p'' \<Longrightarrow> publisher_run marshal p (evs @ [ev]) p''"
| run_full: "publisher_run marshal p evs p' \<Longrightarrow> kafka_Publish ev p' = QueueFull err \<Longrightarrow> publisher_run marshal p evs p'"
| run_receive: "publisher_run marshal p evs p' \<Longrightarrow> publisher_receive p' = Some p'' \<Longrightarrow> publisher_run marshal p evs p''"
| run_write: "publisher_run marshal p evs p' \<Longrightarrow> publisher_write marshal p' = Some p'' \<Longrightarrow> publisher_run marshal p evs p''"
| run_close: "publisher_run marshal p evs p' \<Longrightarrow> publisher_run marshal p evs (publisher_close p')"

section \<open>consumer.go\<close>

record kafka_consumer_config =
  kn_Enabled :: bool
  kn_Topic :: string
  kn_GroupID :: string
  kn_RetryBackoff :: go_duration

definition defaultAuditConsumerGroupID :: string where "defaultAuditConsumerGroupID = ''platform-audit-sink''"
definition defaultAuditRetryBackoff :: go_duration where "defaultAuditRetryBackoff = 2 * Second"

text \<open>The configuration with which a consumer runs, or none (\<open>NoopConsumer\<close>); \<open>has_store\<close> says whether there is a store.\<close>

definition NewKafkaConsumer :: "string list \<Rightarrow> bool \<Rightarrow> kafka_consumer_config \<Rightarrow> (string list \<times> kafka_consumer_config) option" where
  "NewKafkaConsumer brokers has_store cfg =
     (if \<not> kn_Enabled cfg \<or> \<not> has_store then None
      else if normalizeBrokerList brokers = [] then None
      else
        let cfg = (if TrimSpace (kn_Topic cfg) = [] then cfg\<lparr>kn_Topic := audit_DefaultTopic\<rparr> else cfg);
            cfg = (if TrimSpace (kn_GroupID cfg) = [] then cfg\<lparr>kn_GroupID := defaultAuditConsumerGroupID\<rparr> else cfg);
            cfg = (if kn_RetryBackoff cfg \<le> 0 then cfg\<lparr>kn_RetryBackoff := defaultAuditRetryBackoff\<rparr> else cfg)
        in Some (normalizeBrokerList brokers, cfg))"

definition NewKafkaConsumerFromConfig :: "'v viper_ops \<Rightarrow> 'v config option \<Rightarrow> bool \<Rightarrow> (string list \<times> kafka_consumer_config) option" where
  "NewKafkaConsumerFromConfig vi cfg has_store =
     (case cfg of
        None \<Rightarrow> None
      | Some c \<Rightarrow>
          NewKafkaConsumer (auditBrokerList vi cfg) has_store
            \<lparr>kn_Enabled = GetBoolD vi c ''AuditConsumerEnabled'' True,
             kn_Topic = TrimSpace (GetStringD vi c ''AuditConsumerTopic'' (GetStringD vi c ''AuditTopic'' audit_DefaultTopic)),
             kn_GroupID = TrimSpace (GetStringD vi c ''AuditConsumerGroupID'' defaultAuditConsumerGroupID),
             kn_RetryBackoff = GetDurationD vi c ''AuditConsumerRetryBackoff'' defaultAuditRetryBackoff\<rparr>)"

text \<open>
  A consumer on one partition: the position of its reader, the offset of the message it tries to store, the
  offset committed for its group, and the events that the store has.
\<close>

record audit_consumer =
  ac_next :: nat
  ac_held :: "nat option"
  ac_committed :: nat
  ac_stored :: "audit_event list"
  ac_running :: bool

text \<open>
  The steps of the loop in \<open>run\<close>. A message that cannot be decoded is skipped. A message is stored as often as
  \<open>Append\<close> fails, which may have stored the event all the same, and committed after it was stored. A commit
  may fail, which is only logged. When the context is cancelled the loop ends; \<open>Restart\<close> is a new consumer of
  the group, after a shutdown or a crash, which reads from the committed offset.
\<close>

inductive consumer_step :: "string list \<Rightarrow> (string \<Rightarrow> audit_event option) \<Rightarrow> audit_consumer \<Rightarrow> audit_consumer \<Rightarrow> bool"
  for messages decode where
  Fetch: "ac_running s \<Longrightarrow> ac_held s = None \<Longrightarrow> ac_next s < length messages \<Longrightarrow> decode (messages ! ac_next s) = Some ev \<Longrightarrow>
    consumer_step messages decode s (s\<lparr>ac_held := Some (ac_next s), ac_next := ac_next s + 1\<rparr>)"
| FetchError: "ac_running s \<Longrightarrow> ac_held s = None \<Longrightarrow> consumer_step messages decode s s"
| Undecodable: "ac_running s \<Longrightarrow> ac_held s = None \<Longrightarrow> ac_next s < length messages \<Longrightarrow> decode (messages ! ac_next s) = None \<Longrightarrow>
    committed \<in> {ac_committed s, ac_next s + 1} \<Longrightarrow>
    consumer_step messages decode s (s\<lparr>ac_next := ac_next s + 1, ac_committed := committed\<rparr>)"
| AppendError: "ac_running s \<Longrightarrow> ac_held s = Some i \<Longrightarrow> decode (messages ! i) = Some ev \<Longrightarrow>
    stored \<in> {ac_stored s, ac_stored s @ [ev]} \<Longrightarrow> consumer_step messages decode s (s\<lparr>ac_stored := stored\<rparr>)"
| Append: "ac_running s \<Longrightarrow> ac_held s = Some i \<Longrightarrow> decode (messages ! i) = Some ev \<Longrightarrow>
    committed \<in> {ac_committed s, i + 1} \<Longrightarrow>
    consumer_step messages decode s
      (s\<lparr>ac_stored := ac_stored s @ [ev], ac_held := None, ac_committed := committed\<rparr>)"
| Cancelled: "ac_running s \<Longrightarrow> consumer_step messages decode s (s\<lparr>ac_running := False\<rparr>)"
| Restart: "consumer_step messages decode s (s\<lparr>ac_next := ac_committed s, ac_held := None, ac_running := True\<rparr>)"

definition first_consumer :: audit_consumer where
  "first_consumer = \<lparr>ac_next = 0, ac_held = None, ac_committed = 0, ac_stored = [], ac_running = True\<rparr>"

text \<open>
  \<open>Close\<close> of the consumer: \<open>closed\<close> is its \<open>sync.Once\<close>. The first call cancels the loop, waits for it and closes the reader, whose
  error it returns; later calls do nothing.
\<close>

definition consumer_Close :: "go_error option \<Rightarrow> bool \<times> audit_consumer \<Rightarrow> go_error option \<times> bool \<times> audit_consumer" where
  "consumer_Close reader_err st =
     (case st of (closed, s) \<Rightarrow> if closed then (None, True, s) else (reader_err, True, s\<lparr>ac_running := False\<rparr>))"

inductive_cases consumer_stepE: "consumer_step messages decode s s'"

section \<open>Lemmas\<close>

subsection \<open>Events\<close>

text \<open>A middleware on gin contexts as a handler: it goes on with the rest, or answers with its status and error.\<close>

definition gin_handler :: "(gin_ctx \<Rightarrow> mw_result) \<Rightarrow> 'w handler" where
  "gin_handler mw k ex w =
     (case mw (ex_c ex) of
        Next c \<Rightarrow> k (ex\<lparr>ex_c := c\<rparr>) w
      | Abort status err c \<Rightarrow> Served (write_json status err (ex\<lparr>ex_c := c\<rparr>)) w)"

lemma gin_handler_TenantStatus: "TenantStatus_handler cfg = gin_handler (TenantStatusMiddleware cfg)"
  by (intro ext) (simp add: TenantStatus_handler_def gin_handler_def)

text \<open>The methods and suffixes that the middleware uses after its defaults.\<close>

definition audited :: "'w audit_config \<Rightarrow> exchange \<Rightarrow> bool" where
  "audited cfg ex =
     shouldAudit (cfg\<lparr>am_SkipPathSuffixes := defaultSkipPathSuffixes @ am_SkipPathSuffixes cfg\<rparr>)
       (allowed_methods (if am_Methods cfg = [] then defaultAuditedMethods else am_Methods cfg)) ex"

lemma request_event_suffixes [simp]:
  "request_event (cfg\<lparr>am_SkipPathSuffixes := xs\<rparr>) env ex = request_event cfg env ex"
  by (simp add: request_event_def)

lemma audit_Middleware_served:
  assumes "k ex w = Served ex' w'"
  shows "audit_Middleware cfg env k ex w =
    (case am_Publisher cfg of
       None \<Rightarrow> Served ex' w'
     | Some pub \<Rightarrow>
         if am_Enabled cfg \<and> audited cfg ex' then Served ex' (snd (ap_Publish pub (request_event cfg env ex') w'))
         else Served ex' w')"
proof (cases "am_Publisher cfg")
  case (Some pub)
  obtain err w'' where "ap_Publish pub (request_event cfg env ex') w' = (err, w'')" by force
  then show ?thesis unfolding audit_Middleware_def audited_def using Some assms by (simp add: Let_def)
qed (simp add: audit_Middleware_def assms)

lemma audit_Middleware_publishes:
  assumes "am_Publisher cfg = Some pub" "am_Enabled cfg" "k ex w = Served ex' w'" "audited cfg ex'"
  shows "audit_Middleware cfg env k ex w = Served ex' (snd (ap_Publish pub (request_event cfg env ex') w'))"
  using assms by (simp add: audit_Middleware_served)

text \<open>An engine with the audit middleware answers every request if its publisher leaves the gauge alone.\<close>

lemma calm_audit:
  assumes "\<And>pub ev w. am_Publisher cfg = Some pub \<Longrightarrow> ss_inFlight (snd (ap_Publish pub ev w)) = ss_inFlight w"
  shows "calm (audit_Middleware cfg env)"
  unfolding calm_def
proof (intro allI impI)
  fix k :: "'a server_state rest_of_chain"
  assume good: "good k"
  show "good (audit_Middleware cfg env k)"
    unfolding good_def
  proof (intro allI)
    fix ex w
    obtain ex' w' where "k ex w = Served ex' w'" "ss_inFlight w' = ss_inFlight w"
      "ex_Header ex' HeaderRequestID = ex_Header ex HeaderRequestID" using goodE [OF good] by blast
    then show "\<exists>ex' w'. audit_Middleware cfg env k ex w = Served ex' w' \<and> ss_inFlight w' = ss_inFlight w \<and>
        ex_Header ex' HeaderRequestID = ex_Header ex HeaderRequestID"
      by (simp add: audit_Middleware_served assms split: option.split)
  qed
qed

lemma identity_fields [simp]:
  "ae_TenantID (ev\<lparr>ae_Metadata := m\<rparr>) = ae_TenantID ev"
  "ae_Status (context_identity c ev) = ae_Status ev" "ae_Status (claims_identity c ev) = ae_Status ev"
  "ae_Action (context_identity c ev) = ae_Action ev" "ae_Action (claims_identity c ev) = ae_Action ev"
  "ae_Resource (context_identity c ev) = ae_Resource ev" "ae_Resource (claims_identity c ev) = ae_Resource ev"
  "ae_RequestID (claims_identity c ev) = ae_RequestID ev"
  by (auto simp: context_identity_def claims_identity_def Let_def split: option.splits)

lemma TenantAccess_keys:
  assumes "TenantAccessMiddleware cfg c = Next c'"
  shows "gc_keys c' = gc_keys c"
proof -
  have set: "gc_keys (SetTenantID c t) = gc_keys c" "gc_keys (SetUserID c t) = gc_keys c" for c t
    by (simp_all add: SetTenantID_def SetUserID_def Let_def)
  obtain t u where "ResolveTenantUserScope c None None cfg = Inr (t, u, c')"
    using assms by (auto simp: TenantAccessMiddleware_def split: sum.splits)
  then show ?thesis
    by (auto simp: ResolveTenantUserScope_def resolve_user_token_scope_def Let_def set split: if_splits option.splits sum.splits)
qed

lemma NewEvent_fields [simp]:
  "ae_Status (NewEvent env ex service action resource resourceID status) = status"
  "ae_Action (NewEvent env ex service action resource resourceID status) = action"
  "ae_Resource (NewEvent env ex service action resource resourceID status) = resource"
  by (auto simp: NewEvent_def Let_def split: option.splits)

text \<open>The tenant of an event is the one of the context of the request, or else the one of the token.\<close>

lemma identity_tenants:
  "ae_TenantID (context_identity c ev) =
     (case RequestContextFromContext (gc_req c) of None \<Rightarrow> ae_TenantID ev | Some rc \<Rightarrow> rc_TenantID rc)"
  "GetClaims c = Some cl \<Longrightarrow>
     ae_TenantID (claims_identity c ev) = (if ae_TenantID ev = [] then TenantID cl else ae_TenantID ev)"
  by (simp_all add: context_identity_def claims_identity_def Let_def split: option.split)

lemma NewEvent_tenant:
  assumes "gc_keys (ex_c ex) ''tenant_id'' = None" "GetClaims (ex_c ex) = Some cl"
    and "TenantIDFromContext (gc_req (ex_c ex)) = Some (TenantID cl)"
  shows "ae_TenantID (NewEvent env ex service action resource resourceID status) = TenantID cl"
proof -
  let ?rc = "RequestContextFromContext (gc_req (ex_c ex))"
  have "rc_TenantID rc = [] \<or> rc_TenantID rc = TenantID cl" if "?rc = Some rc" for rc
  proof -
    have "TrimSpace (rc_TenantID rc) = rc_TenantID rc"
      using that by (auto simp: RequestContextFromContext_def Let_def Normalize_def split: option.splits if_splits)
    then show ?thesis using that assms(3) by (simp add: TenantIDFromContext_def split: if_splits)
  qed
  then show ?thesis using assms(1)
    by (auto simp: NewEvent_def Let_def identity_tenants(2) [OF assms(2)] identity_tenants(1) split: option.split)
qed

subsection \<open>The queue of the publisher\<close>

text \<open>What of a list of events reaches the writer.\<close>

definition messages_of :: "(audit_event \<Rightarrow> go_error + string) \<Rightarrow> audit_event list \<Rightarrow> (string \<times> string) list" where
  "messages_of marshal evs =
     concat (map (\<lambda>ev. case marshal ev of Inl _ \<Rightarrow> [] | Inr payload \<Rightarrow> [(TrimSpace (ae_TenantID ev), payload)]) evs)"

lemma messages_of_snoc:
  "messages_of marshal (evs @ [ev]) =
     messages_of marshal evs @ (case marshal ev of Inl _ \<Rightarrow> [] | Inr payload \<Rightarrow> [(TrimSpace (ae_TenantID ev), payload)])"
  by (simp add: messages_of_def)

text \<open>Accepted events are, in order: finished ones, the current one, and the queue.\<close>

definition publisher_inv :: "(audit_event \<Rightarrow> go_error + string) \<Rightarrow> audit_event list \<Rightarrow> kafka_publisher \<Rightarrow> bool" where
  "publisher_inv marshal evs p \<longleftrightarrow>
     (\<exists>finished. evs = finished @ (case kp_current p of None \<Rightarrow> [] | Some ev \<Rightarrow> [ev]) @ kp_queue p \<and>
        kp_written p = messages_of marshal finished) \<and>
     int (length (kp_queue p)) \<le> kp_capacity p"

lemma publisher_inv_steps:
  assumes "publisher_inv marshal evs p"
  shows "kafka_Publish ev p = Enqueued p' \<Longrightarrow> publisher_inv marshal (evs @ [ev]) p'"
    and "publisher_receive p = Some p' \<Longrightarrow> publisher_inv marshal evs p'"
    and "publisher_write marshal p = Some p' \<Longrightarrow> publisher_inv marshal evs p'"
    and "publisher_inv marshal evs (publisher_close p)"
proof -
  show "publisher_inv marshal (evs @ [ev]) p'" if "kafka_Publish ev p = Enqueued p'"
    using that assms by (auto simp: publisher_inv_def kafka_Publish_def split: if_splits)
  show "publisher_inv marshal evs p'" if "publisher_receive p = Some p'"
    using that assms by (auto simp: publisher_inv_def publisher_receive_def split: list.splits option.splits)
  show "publisher_inv marshal evs p'" if w: "publisher_write marshal p = Some p'"
  proof -
    obtain ev where ev: "kp_current p = Some ev" using w by (auto simp: publisher_write_def split: option.splits)
    obtain finished where "evs = (finished @ [ev]) @ kp_queue p" "kp_written p = messages_of marshal finished"
      using assms ev by (auto simp: publisher_inv_def)
    then have "evs = (finished @ [ev]) @ kp_queue p'" "kp_written p' = messages_of marshal (finished @ [ev])"
      "kp_current p' = None" "kp_capacity p' = kp_capacity p" "kp_queue p' = kp_queue p"
      using w ev by (auto simp: publisher_write_def messages_of_snoc split: sum.splits)
    then show ?thesis using assms unfolding publisher_inv_def by (metis append_Nil option.case(1))
  qed
  show "publisher_inv marshal evs (publisher_close p)"
    using assms by (simp add: publisher_inv_def publisher_close_def)
qed

lemma NewKafkaPublisher_inv:
  assumes "NewKafkaPublisher brokers cfg = Some p"
  shows "publisher_inv marshal [] p" "\<not> kp_closed p" "0 < kp_capacity p"
  using assms
  by (auto simp: NewKafkaPublisher_def publisher_inv_def messages_of_def defaultAuditQueueSize_def split: if_splits)

lemma publisher_run_inv:
  assumes "publisher_run marshal p evs p'" "publisher_inv marshal [] p"
  shows "publisher_inv marshal evs p'"
  using assms by (induction rule: publisher_run.induct) (auto intro: publisher_inv_steps)

subsection \<open>The consumer\<close>

text \<open>Every decodable message before an offset is in the store.\<close>

definition stored_before :: "string list \<Rightarrow> (string \<Rightarrow> audit_event option) \<Rightarrow> nat \<Rightarrow> audit_event list \<Rightarrow> bool" where
  "stored_before messages decode n stored \<longleftrightarrow>
     (\<forall>i<n. \<forall>ev. decode (messages ! i) = Some ev \<longrightarrow> ev \<in> set stored)"

text \<open>The message that is handled next, or again: all before it are stored, and none from it on is committed.\<close>

definition ac_open :: "audit_consumer \<Rightarrow> nat" where
  "ac_open s = (case ac_held s of None \<Rightarrow> ac_next s | Some i \<Rightarrow> i)"

definition consumer_inv :: "string list \<Rightarrow> (string \<Rightarrow> audit_event option) \<Rightarrow> audit_consumer \<Rightarrow> bool" where
  "consumer_inv messages decode s \<longleftrightarrow>
     stored_before messages decode (ac_open s) (ac_stored s) \<and> ac_committed s \<le> ac_open s \<and>
     (\<forall>i. ac_held s = Some i \<longrightarrow> ac_next s = i + 1) \<and> ac_next s \<le> length messages"

lemma stored_before_mono:
  "stored_before messages decode n stored \<Longrightarrow> m \<le> n \<Longrightarrow> set stored \<subseteq> set stored' \<Longrightarrow> stored_before messages decode m stored'"
  unfolding stored_before_def by (meson order_less_le_trans subsetD)

lemma stored_before_Suc:
  "stored_before messages decode (Suc n) stored \<longleftrightarrow>
     stored_before messages decode n stored \<and> (\<forall>ev. decode (messages ! n) = Some ev \<longrightarrow> ev \<in> set stored)"
  by (auto simp: stored_before_def less_Suc_eq)

lemma consumer_step_inv:
  assumes "consumer_step messages decode s s'" "consumer_inv messages decode s"
  shows "consumer_inv messages decode s'"
  using assms
proof (cases rule: consumer_step.cases)
  case (AppendError i ev stored)
  then show ?thesis
    using assms(2) stored_before_mono [of messages decode "ac_open s" "ac_stored s" "ac_open s" stored]
    by (fastforce simp: consumer_inv_def ac_open_def)
next
  case (Append i ev committed)
  have "stored_before messages decode (Suc i) (ac_stored s @ [ev])"
    using assms(2) Append stored_before_mono [of messages decode i "ac_stored s" i "ac_stored s @ [ev]"]
    by (auto simp: consumer_inv_def ac_open_def stored_before_Suc)
  then show ?thesis using assms(2) Append by (auto simp: consumer_inv_def ac_open_def)
next
  case Restart
  then show ?thesis
    using assms(2) stored_before_mono [of messages decode "ac_open s" "ac_stored s" "ac_committed s" "ac_stored s"]
    by (auto simp: consumer_inv_def ac_open_def split: option.splits)
next
  case Cancelled
  then show ?thesis using assms(2) by (simp add: consumer_inv_def ac_open_def cong: option.case_cong)
qed (auto simp: consumer_inv_def ac_open_def stored_before_Suc)

interpretation consumer: step_system "consumer_step messages decode" "consumer_inv messages decode" for messages decode
  by unfold_locales (rule consumer_step_inv)

text \<open>Closing a consumer, once or twice, keeps what was stored and committed in step.\<close>

lemma consumer_Close_inv:
  assumes "consumer_inv messages decode s" and "consumer_Close err (closed, s) = (r, closed', s')"
  shows "consumer_inv messages decode s' \<and> consumer_Close err' (closed', s') = (None, True, s')"
  using assms by (auto simp: consumer_Close_def consumer_inv_def ac_open_def split: if_splits option.splits)

lemma first_consumer_inv: "consumer_inv messages decode first_consumer"
  by (simp add: consumer_inv_def ac_open_def first_consumer_def stored_before_def)

lemma consumer_reach_inv:
  assumes "(consumer_step messages decode)\<^sup>*\<^sup>* first_consumer s"
  shows "consumer_inv messages decode s"
  by (rule consumer.reachable_inv [OF assms first_consumer_inv])

section \<open>Properties\<close>

text \<open>
  C9. Audit events are attributed to the tenant of the token. When a user token with a tenant passes the
  tenant middleware and the request is audited, exactly one event is published, and its tenant is the
  tenant of the token, whatever path, query or handler say, provided the handler keeps the context of the
  request and does not set the gin key \<open>tenant_id\<close> itself.
\<close>

theorem audit_event_attributed:
  assumes "GetClaims (ex_c ex) = Some cl" and "\<not> IsServiceToken cl" and "TenantID cl \<noteq> []"
    and "TenantAccessMiddleware tcfg (ex_c ex) = Next c1"
    and "k (ex\<lparr>ex_c := c1\<rparr>) w = Served ex' w'" and "gc_req (ex_c ex') = gc_req c1"
    and "gc_claims (ex_c ex') = gc_claims c1" and "gc_keys (ex_c ex') ''tenant_id'' = None"
    and "am_Publisher cfg = Some pub" and "am_Enabled cfg" and "audited cfg ex'"
  shows "\<exists>ev. audit_Middleware cfg env (gin_handler (TenantAccessMiddleware tcfg) k) ex w =
      Served ex' (snd (ap_Publish pub ev w')) \<and> ae_TenantID ev = TenantID cl"
proof -
  have "gin_handler (TenantAccessMiddleware tcfg) k ex w = Served ex' w'"
    using assms(4,5) by (simp add: gin_handler_def)
  note pub = audit_Middleware_publishes [of cfg pub "gin_handler (TenantAccessMiddleware tcfg) k" ex w, OF assms(9,10) this assms(11)]
  have "GetClaims (ex_c ex') = Some cl" "TenantIDFromContext (gc_req (ex_c ex')) = Some (TenantID cl)"
    using TenantAccess_own_tenant [OF assms(1-4)] assms(6,7) by (simp_all add: GetClaims_def)
  from NewEvent_tenant [OF assms(8) this] have "ae_TenantID (request_event cfg env ex') = TenantID cl"
    by (simp add: request_event_def Let_def)
  with pub show ?thesis by blast
qed

definition recorder :: "audit_event list audit_publisher" where
  "recorder = \<lparr>ap_Publish = (\<lambda>ev w. (None, w @ [ev])), ap_Close = (\<lambda>w. (None, w))\<rparr>"

definition demo_audit :: "audit_event list audit_config" where
  "demo_audit = \<lparr>am_Enabled = True, am_Service = ''shop'', am_Publisher = Some recorder, am_Methods = [],
     am_SkipPathPrefixes = [], am_SkipPathSuffixes = [], am_ShouldAudit = None\<rparr>"

definition demo_audit_env :: audit_env where
  "demo_audit_env = \<lparr>av_uuid = ''e1'', av_started = 0, av_now = 5000000, av_fallback = False\<rparr>"

definition demo_post :: exchange where
  "demo_post = \<lparr>ex_c = demo_request, ex_Method = ''POST'', ex_Path = ''/items'', ex_FullPath = ''/items'',
     ex_RemoteHost = None, ex_ClientIP = ''10.0.0.1'', ex_Header = Map.empty, ex_Status = 200, ex_Written = False,
     ex_Body = [], ex_Errors = []\<rparr>"

text \<open>Requests of this shape are audited: nothing in their keys says otherwise.\<close>

lemma audited_plain:
  assumes "gc_keys (ex_c ex) ctxAuditSkipKey = None" "am_ShouldAudit cfg = None" "am_Methods cfg = []"
    and "ToUpper (TrimSpace (ex_Method ex)) \<in> set defaultAuditedMethods" "TrimSpace (ex_FullPath ex) \<noteq> []"
    and "am_SkipPathPrefixes cfg = []" "am_SkipPathSuffixes cfg = []" "\<not> HasSuffix (TrimSpace (ex_FullPath ex)) ''/quota/check''"
  shows "audited cfg ex"
proof -
  have "allowed_methods defaultAuditedMethods = set defaultAuditedMethods" by code_simp
  moreover have "TrimSpace ''/quota/check'' = ''/quota/check''" by code_simp
  ultimately show ?thesis
    using assms
    by (simp add: audited_def shouldAudit_def skipped_path_def isSkipped_def getBoolValue_def defaultSkipPathSuffixes_def)
qed

lemma demo_post_audited:
  assumes "gc_keys c ctxAuditSkipKey = None"
  shows "audited demo_audit (write_status status (demo_post\<lparr>ex_c := c\<rparr>))" "audited demo_audit (demo_post\<lparr>ex_c := c\<rparr>)"
proof -
  have t: "ToUpper (TrimSpace ''POST'') \<in> set defaultAuditedMethods" "TrimSpace ''/items'' = ''/items''"
    "\<not> suffix ''/quota/check'' ''/items''" by code_simp+
  show "audited demo_audit (write_status status (demo_post\<lparr>ex_c := c\<rparr>))" "audited demo_audit (demo_post\<lparr>ex_c := c\<rparr>)"
    by (rule audited_plain; simp add: assms demo_audit_def demo_post_def write_status_def t)+
qed

theorem audit_event_attributed_witness:
  "\<exists>c1 ev. audit_Middleware demo_audit demo_audit_env
       (gin_handler (TenantAccessMiddleware (DefaultTenantAccessConfig\<lparr>ta_EnforceTenantStatus := False\<rparr>)) Served) demo_post [] =
     Served (demo_post\<lparr>ex_c := c1\<rparr>) [ev] \<and> ae_TenantID ev = ''t1''"
proof -
  let ?t = "DefaultTenantAccessConfig\<lparr>ta_EnforceTenantStatus := False\<rparr>"
  have cl: "GetClaims (ex_c demo_post) = Some demo_claims" by (simp add: GetClaims_def demo_request_def demo_post_def)
  have ten: "TenantID demo_claims \<noteq> []" by (simp add: demo_claims_simps)
  obtain c1 where c1: "TenantAccessMiddleware ?t (ex_c demo_post) = Next c1"
    using demo_scope_ok by (auto simp: TenantAccessMiddleware_def demo_post_def)
  have "gc_keys c1 = gc_keys demo_request" using TenantAccess_keys [OF c1] by (simp add: demo_post_def)
  then have keys: "gc_keys c1 key = None" for key by (simp add: demo_request_def)
  from audit_event_attributed [OF cl demo_claims_simps(5) ten c1, where k = Served and w = "[]" and ex' = "demo_post\<lparr>ex_c := c1\<rparr>"
      and w' = "[]" and cfg = demo_audit and pub = recorder and env = demo_audit_env] keys demo_post_audited(2) [of c1]
  show ?thesis by (auto simp: demo_audit_def recorder_def demo_claims_simps)
qed

text \<open>
  Refusals leave a trace. When a middleware behind the audit middleware refuses a changing request on a
  known route with 401 or 403, the response has that status and exactly one event is published, with the
  status \<open>denied\<close>, unless the path is excluded or the handler asked to skip the request.
\<close>

lemma refused_change_audited:
  assumes "mw (ex_c ex) = Abort status err c" and "status = 401 \<or> status = 403" and "\<not> ex_Written ex"
    and "am_Publisher cfg = Some pub" and "am_Enabled cfg" and "am_ShouldAudit cfg = None" and "am_Methods cfg = []"
    and "ToUpper (TrimSpace (ex_Method ex)) \<in> {''POST'', ''PUT'', ''PATCH'', ''DELETE''}"
    and "TrimSpace (ex_FullPath ex) \<noteq> []" and "am_SkipPathPrefixes cfg = []" and "am_SkipPathSuffixes cfg = []"
    and "\<not> HasSuffix (TrimSpace (ex_FullPath ex)) ''/quota/check''"
    and "gc_keys c ''corelab_audit_skip'' = None" and "gc_keys c ''corelab_audit_status'' = None"
  shows "\<exists>ex' ev. audit_Middleware cfg env (gin_handler mw k) ex w = Served ex' (snd (ap_Publish pub ev w)) \<and>
    ex_Status ex' = status \<and> ae_Status ev = ''denied''"
proof -
  define ex' where "ex' = write_json status err (ex\<lparr>ex_c := c\<rparr>)"
  have run: "gin_handler mw k ex w = Served ex' w" using assms(1) by (simp add: gin_handler_def ex'_def)
  have ex': "ex_c ex' = c" "ex_Status ex' = status" "ex_Method ex' = ex_Method ex" "ex_FullPath ex' = ex_FullPath ex"
    using assms(3) by (simp_all add: ex'_def write_json_def write_status_def Let_def)
  have "audited cfg ex'"
    by (rule audited_plain) (use assms ex' in \<open>simp_all add: ctxAuditSkipKey_def defaultAuditedMethods_def\<close>)
  note pub = audit_Middleware_publishes [of cfg pub "gin_handler mw k" ex w, OF assms(4,5) run this]
  have "ae_Status (request_event cfg env ex') = ''denied''"
    using assms(2,14) ex'
    by (auto simp: request_event_def Let_def or_resolved_def getStatus_def getStringValue_def ctxAuditStatusKey_def
        resolveOutcomeStatus_def)
  with pub ex'(2) show ?thesis by blast
qed

lemma refused_change_audited_witness:
  "\<exists>ex' ev. audit_Middleware demo_audit demo_audit_env (gin_handler (\<lambda>c. Abort 403 ''forbidden'' c) Served) demo_post [] =
     Served ex' [ev] \<and> ex_Status ex' = 403 \<and> ae_Status ev = ''denied''"
proof -
  have t: "ToUpper (TrimSpace ''POST'') = ''POST''" "TrimSpace ''/items'' = ''/items''"
    "\<not> suffix ''/quota/check'' ''/items''" by code_simp+
  have "\<exists>ex' ev. audit_Middleware demo_audit demo_audit_env (gin_handler (\<lambda>c. Abort 403 ''forbidden'' c) Served) demo_post [] =
      Served ex' (snd (ap_Publish recorder ev [])) \<and> ex_Status ex' = 403 \<and> ae_Status ev = ''denied''"
    by (rule refused_change_audited [where err = "''forbidden''" and c = demo_request])
      (simp_all add: demo_audit_def demo_post_def demo_request_def t)
  then show ?thesis by (simp add: recorder_def)
qed

text \<open>
  C21. The consumer stores every audit message at least once. In every state that its loop reaches, through
  failing fetches, appends and commits, cancellation, crashes and restarts of the group, every decodable
  message below the committed offset is in the store, so no restart can lose one; and the reader never
  runs ahead of the messages.
\<close>

theorem audit_stored_before_commit:
  assumes "(consumer_step messages decode)\<^sup>*\<^sup>* first_consumer s"
  shows "(\<forall>i<ac_committed s. \<forall>ev. decode (messages ! i) = Some ev \<longrightarrow> ev \<in> set (ac_stored s)) \<and>
    ac_committed s \<le> ac_next s \<and> ac_next s \<le> length messages"
proof -
  have inv: "stored_before messages decode (ac_open s) (ac_stored s)" "ac_committed s \<le> ac_open s"
    "ac_open s \<le> ac_next s" "ac_next s \<le> length messages"
    using consumer_reach_inv [OF assms] by (auto simp: consumer_inv_def ac_open_def split: option.splits)
  from stored_before_mono [OF inv(1,2) order_refl] inv show ?thesis unfolding stored_before_def by (meson order_trans)
qed

definition demo_event :: audit_event where
  "demo_event = \<lparr>ae_EventID = ''e1'', ae_Timestamp = 0, ae_Service = [], ae_TenantID = ''t1'', ae_UserID = [], ae_Action = [],
     ae_Resource = [], ae_ResourceID = [], ae_RequestID = [], ae_IPAddress = [], ae_Status = [], ae_Metadata = Map.empty\<rparr>"

theorem audit_stored_before_commit_witness:
  "\<exists>s. (consumer_step [''m'', ''?''] [''m'' \<mapsto> demo_event])\<^sup>*\<^sup>* first_consumer s \<and> ac_committed s = 2 \<and> demo_event \<in> set (ac_stored s)"
proof -
  let ?step = "consumer_step [''m'', ''?''] [''m'' \<mapsto> demo_event]"
  let ?s1 = "first_consumer\<lparr>ac_held := Some 0, ac_next := 1\<rparr>"
  let ?s2 = "?s1\<lparr>ac_stored := [demo_event], ac_held := None, ac_committed := 1\<rparr>"
  let ?s3 = "?s2\<lparr>ac_next := 2, ac_committed := 2\<rparr>"
  have "?step first_consumer ?s1"
    using Fetch [of first_consumer "[''m'', ''?'']" "[''m'' \<mapsto> demo_event]" demo_event] by (simp add: first_consumer_def)
  moreover have "?step ?s1 ?s2"
    using Append [of ?s1 0 "[''m'' \<mapsto> demo_event]" "[''m'', ''?'']" demo_event 1] by (simp add: first_consumer_def)
  moreover have "?step ?s2 ?s3"
    using Undecodable [of ?s2 "[''m'', ''?'']" "[''m'' \<mapsto> demo_event]" 2] by (simp add: first_consumer_def numeral_2_eq_2)
  ultimately have r: "?step\<^sup>*\<^sup>* first_consumer ?s3" by (meson converse_rtranclp_into_rtranclp rtranclp.rtrancl_refl)
  from audit_stored_before_commit [OF r] have "demo_event \<in> set (ac_stored ?s3)" by simp
  with r show ?thesis by (intro exI [of _ ?s3]) simp
qed

text \<open>
  C22. The publisher loses no accepted event and keeps their order. However requests and the writing
  goroutine interleave, the messages handed to Kafka are those of the first accepted events, one for each
  that can be encoded, the rest is waiting in order, the queue never exceeds its capacity, and a request
  is only refused when the queue is full or the publisher is closed.
\<close>

theorem audit_queue_order:
  assumes "NewKafkaPublisher brokers cfg = Some p" and "publisher_run marshal p evs p'"
  shows "(\<exists>n. kp_written p' = messages_of marshal (take n evs) \<and>
      drop n evs = (case kp_current p' of None \<Rightarrow> [] | Some ev \<Rightarrow> [ev]) @ kp_queue p') \<and>
    int (length (kp_queue p')) \<le> kp_capacity p' \<and>
    (\<forall>ev. (\<exists>p''. kafka_Publish ev p' = Enqueued p'') \<or> kp_closed p' \<or> int (length (kp_queue p')) = kp_capacity p')"
proof -
  have inv: "publisher_inv marshal evs p'"
    by (rule publisher_run_inv [OF assms(2) NewKafkaPublisher_inv(1) [OF assms(1)]])
  then obtain finished where "evs = finished @ (case kp_current p' of None \<Rightarrow> [] | Some ev \<Rightarrow> [ev]) @ kp_queue p'"
    "kp_written p' = messages_of marshal finished" by (auto simp: publisher_inv_def)
  then have "kp_written p' = messages_of marshal (take (length finished) evs) \<and>
      drop (length finished) evs = (case kp_current p' of None \<Rightarrow> [] | Some ev \<Rightarrow> [ev]) @ kp_queue p'" by simp
  moreover have "int (length (kp_queue p')) \<le> kp_capacity p'" using inv by (simp add: publisher_inv_def)
  ultimately show ?thesis by (auto simp: kafka_Publish_def)
qed

theorem audit_queue_order_witness:
  "\<exists>p p'. NewKafkaPublisher [''k1''] \<lparr>kc_Enabled = True, kc_Topic = [], kc_QueueSize = 0, kc_WriteTimeout = 0\<rparr> = Some p \<and>
     publisher_run (\<lambda>ev. Ok (ae_EventID ev)) p [demo_event] p' \<and> int (length (kp_queue p')) \<le> 256"
proof -
  let ?cfg = "\<lparr>kc_Enabled = True, kc_Topic = [], kc_QueueSize = 0, kc_WriteTimeout = 0\<rparr>"
  have "normalizeBrokerList [''k1''] = [''k1'']" by code_simp
  then obtain p where p: "NewKafkaPublisher [''k1''] ?cfg = Some p" "kp_capacity p = 256" "kp_queue p = []" "\<not> kp_closed p"
    by (simp add: NewKafkaPublisher_def defaultAuditQueueSize_def)
  then have "publisher_run (\<lambda>ev. Ok (ae_EventID ev)) p [demo_event] (p\<lparr>kp_queue := [demo_event]\<rparr>)"
    using run_publish [OF run_start, of demo_event p] by (simp add: kafka_Publish_def)
  from audit_queue_order [OF p(1) this] p this show ?thesis by fastforce
qed

text \<open>
  The identifier that \<open>RequestIDMiddleware\<close> generates does not reach the audit event: without
  \<open>ContextWithFallback\<close> the typed key is not found, and the fallback reads the header of the request, which a
  client that sends no identifier does not have.
\<close>

lemma audit_request_id_lost:
  assumes "\<not> av_fallback env" "RequestHeader ex ''X-Request-ID'' = []" "RequestContextFromContext (gc_req (ex_c ex)) = None"
  shows "ae_RequestID (NewEvent env ex service action resource resourceID status) = []"
  using assms by (auto simp: NewEvent_def Let_def value_RequestIDKey_def context_identity_def claims_identity_def split: option.splits)

end
