(* ===== verification/App_Run.thy ===== *)
theory App_Run
  imports Audit_Trail
begin

text \<open>
  \<open>pkg/app\<close> and the start of a server in \<open>pkg/server\<close>: which address and which kind of listener a server uses, the
  engine that an application builds from its configuration, and the life of a service as the sequence of
  what it does. What a callback, a library or the operating system answers is in the records \<open>server_os\<close> and
  \<open>app_env\<close>; a hook is represented by its name.
\<close>

section \<open>pkg/server: starting\<close>

record 'v start_options =
  so_cfg :: "'v config option"
  so_shutdownTimeout :: go_duration
  so_tlsCertFile :: string
  so_tlsKeyFile :: string
  so_tlsClientCAFile :: string
  so_tlsClientAuthMode :: int
  so_addr :: string

definition StartWithConfig :: "'v config \<Rightarrow> 'v start_options \<Rightarrow> 'v start_options" where
  "StartWithConfig c so = so\<lparr>so_cfg := Some c\<rparr>"

definition StartWithShutdownTimeout :: "go_duration \<Rightarrow> 'v start_options \<Rightarrow> 'v start_options" where
  "StartWithShutdownTimeout d so = so\<lparr>so_shutdownTimeout := d\<rparr>"

definition StartWithAddr :: "string \<Rightarrow> 'v start_options \<Rightarrow> 'v start_options" where
  "StartWithAddr addr so = so\<lparr>so_addr := addr\<rparr>"

definition StartWithTLS :: "string \<Rightarrow> string \<Rightarrow> 'v start_options \<Rightarrow> 'v start_options" where
  "StartWithTLS certFile keyFile so = so\<lparr>so_tlsCertFile := certFile, so_tlsKeyFile := keyFile\<rparr>"

definition StartWithMTLS :: "string \<Rightarrow> 'v start_options \<Rightarrow> 'v start_options" where
  "StartWithMTLS clientCAFile so = so\<lparr>so_tlsClientCAFile := clientCAFile, so_tlsClientAuthMode := 1\<rparr>"

definition StartWithOptionalMTLS :: "string \<Rightarrow> 'v start_options \<Rightarrow> 'v start_options" where
  "StartWithOptionalMTLS clientCAFile so = so\<lparr>so_tlsClientCAFile := clientCAFile, so_tlsClientAuthMode := 2\<rparr>"

definition resolveAddress :: "'v viper_ops \<Rightarrow> 'v start_options \<Rightarrow> string" where
  "resolveAddress vi so =
     (let addr = so_addr so;
          addr = (case so_cfg so of
                    Some c \<Rightarrow>
                      if addr = [] then GetStringD vi c ''service.endpoint'' ''0.0.0.0'' @ '':'' @ GetStringD vi c ''service.port'' ''8080''
                      else addr
                  | None \<Rightarrow> addr)
      in if addr = [] then '':8080'' else addr)"

datatype client_auth = NoClientCert | RequireAndVerifyClientCert | VerifyClientCertIfGiven
datatype listener = PlainHTTP string | TLSListener string client_auth

record server_os =
  sv_Stat :: "string \<Rightarrow> go_error option"
  sv_ReadFile :: "string \<Rightarrow> go_error + string"
  sv_AppendCertsFromPEM :: "string \<Rightarrow> bool"
  sv_Listen :: "string \<Rightarrow> go_error option"
  sv_Shutdown :: "go_duration \<Rightarrow> go_error option"

text \<open>The listener that is served; \<open>None\<close> when the function returns before it listens.\<close>

definition startTLSServer :: "server_os \<Rightarrow> string \<Rightarrow> 'v start_options \<Rightarrow> listener option" where
  "startTLSServer sys addr so =
     (if sv_Stat sys (so_tlsCertFile so) \<noteq> None then None
      else if sv_Stat sys (so_tlsKeyFile so) \<noteq> None then None
      else if so_tlsClientCAFile so \<noteq> [] then
        (case sv_ReadFile sys (so_tlsClientCAFile so) of
           Inl err \<Rightarrow> None
         | Inr caCert \<Rightarrow>
             if \<not> sv_AppendCertsFromPEM sys caCert then None
             else Some (TLSListener addr (if so_tlsClientAuthMode so = 2 then VerifyClientCertIfGiven else RequireAndVerifyClientCert)))
      else Some (TLSListener addr NoClientCert))"

text \<open>The lines printed when a server starts; \<open>load\<close> reads the description of the service.\<close>

definition logServiceInfo :: "(string \<Rightarrow> go_error + service_config) \<Rightarrow> string \<Rightarrow> string list" where
  "logServiceInfo load addr =
     (case load ''.serviceconfig'' of
        Inr svcInfo \<Rightarrow>
          [[], ''=============================='',
           '' Service: '' @ sc_ServiceName svcInfo @ '' ('' @ sc_ServiceCode svcInfo @ '')'',
           '' Version: '' @ sc_Version svcInfo,
           ''------------------------------'',
           '' Description: '' @ sc_Description svcInfo,
           '' Author:      '' @ sc_Author svcInfo,
           '' Contact:     '' @ sc_Contact svcInfo,
           '' Repository:  '' @ sc_Repository svcInfo,
           ''------------------------------'',
           '' Listening on: '' @ addr,
           ''=============================='', []]
      | Inl err \<Rightarrow>
          [[], ''=============================='', '' Service starting on '' @ addr, ''=============================='', []])"

definition startHTTPServer :: "string \<Rightarrow> listener option" where
  "startHTTPServer addr = Some (PlainHTTP addr)"

text \<open>\<open>handleShutdown\<close> after the signal: the error of the graceful shutdown, which has the configured time.\<close>

definition handleShutdown :: "server_os \<Rightarrow> 'v start_options \<Rightarrow> go_error option" where
  "handleShutdown sys so = (case sv_Shutdown sys (so_shutdownTimeout so) of Some err \<Rightarrow> Some err | None \<Rightarrow> None)"

definition serve_goroutine :: "server_os \<Rightarrow> string \<Rightarrow> 'v start_options \<Rightarrow> listener option" where
  "serve_goroutine sys addr so =
     (if so_tlsCertFile so \<noteq> [] \<and> so_tlsKeyFile so \<noteq> [] then startTLSServer sys addr so else startHTTPServer addr)"

text \<open>\<open>Start\<close>: what is served until the signal arrives, and the error it returns.\<close>

definition server_Start ::
    "'v viper_ops \<Rightarrow> server_os \<Rightarrow> ('v start_options \<Rightarrow> 'v start_options) list \<Rightarrow> listener option \<times> go_error option" where
  "server_Start vi sys opts =
     (let so = fold (\<lambda>o' so. o' so) opts
            \<lparr>so_cfg = None, so_shutdownTimeout = 15 * Second, so_tlsCertFile = [], so_tlsKeyFile = [], so_tlsClientCAFile = [],
             so_tlsClientAuthMode = 0, so_addr = []\<rparr>;
          addr = resolveAddress vi so
      in case sv_Listen sys addr of
           Some err \<Rightarrow> (None, Some err)
         | None \<Rightarrow> (serve_goroutine sys addr so, handleShutdown sys so))"

section \<open>pkg/app: configuration of the engine\<close>

text \<open>\<open>float\<close> is the conversion \<open>float64(rps)\<close>.\<close>

definition BuildRateLimitConfig :: "'v viper_ops \<Rightarrow> (int \<Rightarrow> 'f) \<Rightarrow> 'v config \<Rightarrow> 'f rate_config" where
  "BuildRateLimitConfig vi float cfg =
     (let enabled = GetBoolD vi cfg ''RateLimitEnabled'' True;
          rps = GetIntD vi cfg ''RateLimitRPS'' 120;
          rps = (if rps \<le> 0 then 120 else rps);
          burst = GetIntD vi cfg ''RateLimitBurst'' 240;
          burst = (if burst \<le> 0 then 240 else burst);
          cleanup = GetDurationD vi cfg ''RateLimitCleanupInterval'' (5 * Minute);
          cleanup = (if cleanup \<le> 0 then 5 * Minute else cleanup)
      in NewRateLimitConfig enabled (float rps) burst cleanup)"

definition BuildCorsConfig :: "'v viper_ops \<Rightarrow> 'v config \<Rightarrow> cors_config" where
  "BuildCorsConfig vi cfg =
     (let allowedOrigins = GetStringD vi cfg ''CorsAllowedOrigins'' ''*'';
          origins = map TrimSpace (Split allowedOrigins CHR '','');
          cors = DefaultCorsConfig\<lparr>co_AllowOrigins := origins,
            co_AllowHeaders := [''Origin'', ''Content-Type'', ''Accept'', ''Authorization'', ''X-Request-ID'', ''X-Tenant-ID''],
            co_ExposeHeaders := [''X-Request-ID'']\<rparr>
      in if allowedOrigins \<noteq> ''*'' then cors\<lparr>co_AllowCredentials := True\<rparr> else cors)"

text \<open>The validator is a pointer that the middleware stores under its key.\<close>

definition ValidatorMiddleware :: "any \<Rightarrow> 'w handler" where
  "ValidatorMiddleware vi = SetContextValue ''corelab_validator'' vi"

text \<open>\<open>is_validator\<close> is the conversion of a stored value to a validator.\<close>

definition GetValidator :: "(any \<Rightarrow> 'v option) \<Rightarrow> gin_ctx \<Rightarrow> 'v option" where
  "GetValidator is_validator c = (case gc_keys c ''corelab_validator'' of None \<Rightarrow> None | Some v \<Rightarrow> is_validator v)"

definition WithValidator :: "any \<Rightarrow> ('f, 'l) engine_options \<Rightarrow> ('f, 'l) engine_options" where
  "WithValidator vi e = e\<lparr>eo_addMiddleware := eo_addMiddleware e @ [ValidatorMiddleware vi]\<rparr>"

record 'l setup_result =
  st_Middleware :: "'l server_state handler list"
  st_Shutdown :: "string option list"

record ('v, 'f, 'l) app =
  pp_serviceName :: string
  pp_serviceVersion :: string
  pp_servicePort :: string
  pp_configFile :: string
  pp_configOptions :: "'v config_option list"
  pp_runtimeConfigEnabled :: bool
  pp_runtimeConfigOpts :: resolve_options
  pp_runtimeConfigTimeout :: go_duration
  pp_configValidator :: "('v config \<Rightarrow> bool) option"
  pp_observabilityEnabled :: bool
  pp_auditEnabled :: bool
  pp_setupFn :: "('v config \<Rightarrow> go_error + 'l setup_result option) option"
  pp_routesFn :: bool
  pp_engineOptions :: "(('f, 'l) engine_options \<Rightarrow> ('f, 'l) engine_options) list"
  pp_startOptions :: "('v start_options \<Rightarrow> 'v start_options) list"
  pp_postSetupFns :: "string list"
  pp_shutdownFns :: "string option list"

definition app_New :: "string \<Rightarrow> string \<Rightarrow> resolve_options \<Rightarrow> ('v, 'f, 'l) app" where
  "app_New serviceName serviceVersion zero_opts =
     \<lparr>pp_serviceName = serviceName, pp_serviceVersion = serviceVersion, pp_servicePort = ''8080'', pp_configFile = ''env/config.json'', pp_configOptions = [],
      pp_runtimeConfigEnabled = False, pp_runtimeConfigOpts = zero_opts, pp_runtimeConfigTimeout = 15 * Second, pp_configValidator = None,
      pp_observabilityEnabled = True, pp_auditEnabled = True, pp_setupFn = None, pp_routesFn = False, pp_engineOptions = [],
      pp_startOptions = [], pp_postSetupFns = [], pp_shutdownFns = []\<rparr>"

definition app_WithPort :: "string \<Rightarrow> ('v, 'f, 'l) app \<Rightarrow> ('v, 'f, 'l) app" where
  "app_WithPort port a = a\<lparr>pp_servicePort := port\<rparr>"

definition WithRuntimeConfig :: "resolve_options \<Rightarrow> ('v, 'f, 'l) app \<Rightarrow> ('v, 'f, 'l) app" where
  "WithRuntimeConfig opts a = a\<lparr>pp_runtimeConfigEnabled := True, pp_runtimeConfigOpts := opts\<rparr>"

definition WithConfigFile :: "string \<Rightarrow> ('v, 'f, 'l) app \<Rightarrow> ('v, 'f, 'l) app" where
  "WithConfigFile path a = a\<lparr>pp_configFile := path\<rparr>"

definition WithConfigOptions :: "'v config_option list \<Rightarrow> ('v, 'f, 'l) app \<Rightarrow> ('v, 'f, 'l) app" where
  "WithConfigOptions opts a = a\<lparr>pp_configOptions := pp_configOptions a @ opts\<rparr>"

definition WithRuntimeConfigTimeout :: "go_duration \<Rightarrow> ('v, 'f, 'l) app \<Rightarrow> ('v, 'f, 'l) app" where
  "WithRuntimeConfigTimeout d a = a\<lparr>pp_runtimeConfigTimeout := d\<rparr>"

definition WithConfigValidator :: "('v config \<Rightarrow> bool) option \<Rightarrow> ('v, 'f, 'l) app \<Rightarrow> ('v, 'f, 'l) app" where
  "WithConfigValidator fn a = a\<lparr>pp_configValidator := fn\<rparr>"

definition WithObservability :: "bool \<Rightarrow> ('v, 'f, 'l) app \<Rightarrow> ('v, 'f, 'l) app" where
  "WithObservability enabled a = a\<lparr>pp_observabilityEnabled := enabled\<rparr>"

definition app_WithAudit :: "bool \<Rightarrow> ('v, 'f, 'l) app \<Rightarrow> ('v, 'f, 'l) app" where
  "app_WithAudit enabled a = a\<lparr>pp_auditEnabled := enabled\<rparr>"

definition OnSetup :: "('v config \<Rightarrow> go_error + 'l setup_result option) option \<Rightarrow> ('v, 'f, 'l) app \<Rightarrow> ('v, 'f, 'l) app" where
  "OnSetup fn a = a\<lparr>pp_setupFn := fn\<rparr>"

text \<open>\<open>fn\<close> says whether there is a callback, which is called with the engine.\<close>

definition WithRoutes :: "bool \<Rightarrow> ('v, 'f, 'l) app \<Rightarrow> ('v, 'f, 'l) app" where
  "WithRoutes fn a = a\<lparr>pp_routesFn := fn\<rparr>"

definition WithEngineOptions :: "(('f, 'l) engine_options \<Rightarrow> ('f, 'l) engine_options) list \<Rightarrow> ('v, 'f, 'l) app \<Rightarrow> ('v, 'f, 'l) app" where
  "WithEngineOptions opts a = a\<lparr>pp_engineOptions := pp_engineOptions a @ opts\<rparr>"

definition WithStartOptions :: "('v start_options \<Rightarrow> 'v start_options) list \<Rightarrow> ('v, 'f, 'l) app \<Rightarrow> ('v, 'f, 'l) app" where
  "WithStartOptions opts a = a\<lparr>pp_startOptions := pp_startOptions a @ opts\<rparr>"

definition OnShutdown :: "string option \<Rightarrow> ('v, 'f, 'l) app \<Rightarrow> ('v, 'f, 'l) app" where
  "OnShutdown fn a = a\<lparr>pp_shutdownFns := pp_shutdownFns a @ [fn]\<rparr>"

definition OnPostSetup :: "string \<Rightarrow> ('v, 'f, 'l) app \<Rightarrow> ('v, 'f, 'l) app" where
  "OnPostSetup fn a = a\<lparr>pp_postSetupFns := pp_postSetupFns a @ [fn]\<rparr>"

text \<open>The configuration that \<open>Run\<close> loads, and the key that it sets for the exporter.\<close>

definition app_config :: "'v viper_ops \<Rightarrow> ('v, 'f, 'l) app \<Rightarrow> go_error + 'v config" where
  "app_config vi a =
     config_New vi
       ([WithDefaults vi [(''service_name'', AString (pp_serviceName a)), (''service_version'', AString (pp_serviceVersion a))],
         WithFile vi (pp_configFile a)] @ pp_configOptions a)"

definition signoz_endpoint :: "'v viper_ops \<Rightarrow> 'v config \<Rightarrow> 'v config" where
  "signoz_endpoint vi cfg =
     (if vi_GetString vi (cf_Viper cfg) ''SIGNOZ_ENDPOINT'' = [] then
        (let signozEndpoint = vi_GetString vi (cf_Viper cfg) ''SignozEndpoint''
         in if signozEndpoint \<noteq> [] then on_viper (vi_Set vi ''SIGNOZ_ENDPOINT'' (AString signozEndpoint)) cfg else cfg)
      else cfg)"

definition app_engine_options ::
    "'v viper_ops \<Rightarrow> (int \<Rightarrow> 'f) \<Rightarrow> any \<Rightarrow> 'l server_state audit_publisher option \<Rightarrow> audit_env \<Rightarrow> ('v, 'f, 'l) app \<Rightarrow> 'v config \<Rightarrow>
     'l setup_result option \<Rightarrow> ('f, 'l) engine_options" where
  "app_engine_options vi float v auditPublisher env a cfg setupResult =
     collect_options
       ([WithRecovery True, WithPrometheus True, WithRateLimit (BuildRateLimitConfig vi float cfg), WithCors (BuildCorsConfig vi cfg),
         WithSecurityHeaders DefaultSecurityHeadersConfig, WithValidator v] @
        (if pp_auditEnabled a \<and> auditPublisher \<noteq> None
         then [WithAudit (audit_NewMiddlewareConfig vi (Some cfg) (pp_serviceName a) auditPublisher) env] else []) @
        (case setupResult of
           None \<Rightarrow> []
         | Some r \<Rightarrow> if st_Middleware r \<noteq> [] then [WithMiddleware (st_Middleware r)] else []) @
        pp_engineOptions a)"

definition app_start_options :: "('v, 'f, 'l) app \<Rightarrow> 'v config \<Rightarrow> ('v start_options \<Rightarrow> 'v start_options) list" where
  "app_start_options a cfg =
     [StartWithConfig cfg, StartWithAddr ('':'' @ pp_servicePort a)] @ pp_startOptions a"

section \<open>pkg/app: the life of a service\<close>

datatype app_action =
    LoadConfig
  | ResolveRuntimeConfig resolve_options
  | ValidateConfig
  | NewObservability
  | NewAuditPublisher
  | Setup
  | BuildEngine
  | UseTracing
  | RegisterRoutes
  | PostSetup string
  | RunServer
  | ShutdownHook string string
  | CloseAudit
  | ShutdownObservability

text \<open>
  The answers that steer \<open>Run\<close>: the configuration after loading and resolving, the error of \<open>ResolveInto\<close>, and
  whether \<open>observability.New\<close> succeeded.
\<close>

record 'v app_env =
  nv_cfg :: "'v config"
  nv_resolve :: "go_error option"
  nv_observability :: bool

definition runShutdownHooks :: "string option list \<Rightarrow> string \<Rightarrow> app_action list" where
  "runShutdownHooks hooks scope = concat (map (\<lambda>h. case h of None \<Rightarrow> [] | Some name \<Rightarrow> [ShutdownHook scope name]) (rev hooks))"

definition runtime_options :: "('v, 'f, 'l) app \<Rightarrow> resolve_options" where
  "runtime_options a =
     (let opts = pp_runtimeConfigOpts a
      in if ro_BootstrapPath opts = [] then opts\<lparr>ro_BootstrapPath := pp_configFile a\<rparr> else opts)"

text \<open>From the setup to the end of the server, with the hooks that are deferred after the setup.\<close>

definition serve_and_stop :: "('v, 'f, 'l) app \<Rightarrow> 'v app_env \<Rightarrow> app_action list" where
  "serve_and_stop a env =
     (case (case pp_setupFn a of None \<Rightarrow> Ok None | Some setup \<Rightarrow> setup (nv_cfg env)) of
        Inl err \<Rightarrow> [Setup]
      | Inr setupResult \<Rightarrow>
          (if pp_setupFn a \<noteq> None then [Setup] else []) @ [BuildEngine] @
          (if pp_observabilityEnabled a \<and> nv_observability env then [UseTracing] else []) @
          (if pp_routesFn a then [RegisterRoutes] else []) @
          map PostSetup (pp_postSetupFns a) @ [RunServer] @
          runShutdownHooks (pp_shutdownFns a) ''app'' @
          (case setupResult of None \<Rightarrow> [] | Some r \<Rightarrow> runShutdownHooks (st_Shutdown r) ''setup''))"

text \<open>Deferred calls run when \<open>Run\<close> returns, the last one first; those of audit and observability are deferred before the setup.\<close>

definition app_Run :: "('v, 'f, 'l) app \<Rightarrow> 'v app_env \<Rightarrow> app_action list" where
  "app_Run a env =
     [LoadConfig] @
     (if pp_runtimeConfigEnabled a then [ResolveRuntimeConfig (runtime_options a)] else []) @
     (if pp_runtimeConfigEnabled a \<and> nv_resolve env \<noteq> None then []
      else
        (case pp_configValidator a of None \<Rightarrow> [] | Some _ \<Rightarrow> [ValidateConfig]) @
        (if (case pp_configValidator a of None \<Rightarrow> False | Some valid \<Rightarrow> \<not> valid (nv_cfg env)) then []
         else
           (if pp_observabilityEnabled a then [NewObservability] else []) @
           (if pp_auditEnabled a then [NewAuditPublisher] else []) @
           serve_and_stop a env @
           (if pp_auditEnabled a then [CloseAudit] else []) @
           (if pp_observabilityEnabled a \<and> nv_observability env then [ShutdownObservability] else [])))"

section \<open>Lemmas\<close>

subsection \<open>Starting\<close>

text \<open>
  The address of an application is its port: unless a start option says otherwise, the configured
  \<open>service.endpoint\<close> and \<open>service.port\<close> are not used.
\<close>

lemma app_address:
  assumes "pp_startOptions a = []"
  shows "server_Start vi sys (app_start_options a cfg) =
    (case sv_Listen sys ('':'' @ pp_servicePort a) of
       Some err \<Rightarrow> (None, Some err)
     | None \<Rightarrow> (Some (PlainHTTP ('':'' @ pp_servicePort a)), sv_Shutdown sys (15 * Second)))"
  using assms
  by (simp add: server_Start_def handleShutdown_def startHTTPServer_def app_start_options_def StartWithConfig_def StartWithAddr_def resolveAddress_def
      serve_goroutine_def Let_def split: option.split)

text \<open>A server whose certificate cannot be found serves nothing, and \<open>Start\<close> waits for the signal all the same.\<close>

lemma start_serves_nothing:
  assumes "sv_Stat sys cert \<noteq> None" "cert \<noteq> []" "key \<noteq> []" "sv_Listen sys addr = None" "addr \<noteq> []"
  shows "server_Start vi sys [StartWithAddr addr, StartWithTLS cert key] = (None, sv_Shutdown sys (15 * Second))"
  using assms
  by (simp add: server_Start_def handleShutdown_def startHTTPServer_def StartWithAddr_def StartWithTLS_def resolveAddress_def serve_goroutine_def startTLSServer_def split: option.split)

text \<open>A server that is to verify client certificates never serves without: not with an unreadable CA, not in plain HTTP.\<close>

lemma mtls_never_downgraded:
  assumes "so_tlsClientCAFile so \<noteq> []" "so_tlsCertFile so \<noteq> []" "so_tlsKeyFile so \<noteq> []" "serve_goroutine sys addr so = Some l"
  shows "l = TLSListener addr (if so_tlsClientAuthMode so = 2 then VerifyClientCertIfGiven else RequireAndVerifyClientCert)"
  using assms by (auto simp: serve_goroutine_def startTLSServer_def split: if_splits sum.splits)

subsection \<open>The engine of an application\<close>

lemma calm_Validator: "calm (ValidatorMiddleware v)"
  by (rule calm_running [where u = "\<lambda>ex w. w"
        and f = "\<lambda>ex w. ex\<lparr>ex_c := (ex_c ex)\<lparr>gc_keys := (gc_keys (ex_c ex))(''corelab_validator'' \<mapsto> v)\<rparr>\<rparr>"])
    (simp_all add: ValidatorMiddleware_def SetContextValue_def)

text \<open>A handler behind the middleware gets the validator of the engine.\<close>

lemma validator_available:
  "\<exists>ex'. ValidatorMiddleware v k ex w = k ex' w \<and> GetValidator is_validator (ex_c ex') = is_validator v"
  unfolding ValidatorMiddleware_def SetContextValue_def GetValidator_def by (intro exI conjI, rule refl) simp

lemmas engine_option_defs = WithRecovery_def WithPrometheus_def WithRateLimit_def WithCors_def WithSecurityHeaders_def
  WithValidator_def WithAudit_def WithMiddleware_def

lemma app_engine_answers:
  assumes "pp_engineOptions a = []" "\<forall>r. setupResult = Some r \<longrightarrow> (\<forall>h\<in>set (st_Middleware r). calm h)"
    and "\<And>pub ev w. publisher = Some pub \<Longrightarrow> ss_inFlight (snd (ap_Publish pub ev w)) = ss_inFlight w" and "tame route"
  shows "\<exists>ex' w'. serve (NewEngine lib fmt (app_engine_options vi float v publisher aenv a cfg setupResult) env) route ex w = Served ex' w' \<and>
    ss_inFlight w' = ss_inFlight w"
proof -
  let ?opt = "app_engine_options vi float v publisher aenv a cfg setupResult"
  have "eo_recovery ?opt" "\<forall>h\<in>set (eo_addMiddleware ?opt). calm h"
    using assms(1,2)
    by (auto simp: app_engine_options_def collect_options_def engine_option_defs zero_engine_options_def calm_Validator split: option.split)
  moreover have "calm h" if "eo_audit ?opt = Some h" for h
  proof -
    have "h = audit_Middleware (audit_NewMiddlewareConfig vi (Some cfg) (pp_serviceName a) publisher) aenv"
      using that assms(1)
      by (auto simp: app_engine_options_def collect_options_def engine_option_defs zero_engine_options_def split: option.splits if_splits)
    then show ?thesis
      using assms(3) by (auto intro!: calm_audit simp: audit_NewMiddlewareConfig_def Let_def)
  qed
  ultimately show ?thesis using engine_answers [of ?opt route lib fmt env ex w] assms(4) by blast
qed

subsection \<open>The order of shutdown\<close>

fun is_teardown :: "app_action \<Rightarrow> bool" where
  "is_teardown (ShutdownHook scope name) = True"
| "is_teardown CloseAudit = True"
| "is_teardown ShutdownObservability = True"
| "is_teardown _ = False"

lemma hooks_are_teardown: "x \<in> set (runShutdownHooks hooks scope) \<Longrightarrow> \<exists>name. x = ShutdownHook scope name"
  by (auto simp: runShutdownHooks_def split: option.splits)

text \<open>The hooks that were registered, nil ones left out.\<close>

definition registered :: "string option list \<Rightarrow> string list" where
  "registered hooks = map the (filter (\<lambda>h. h \<noteq> None) hooks)"

lemma runShutdownHooks_rev: "runShutdownHooks hooks scope = map (ShutdownHook scope) (rev (registered hooks))"
  by (induction hooks) (auto simp: runShutdownHooks_def registered_def)

definition setup_outcome :: "('v, 'f, 'l) app \<Rightarrow> 'v app_env \<Rightarrow> go_error + 'l setup_result option" where
  "setup_outcome a env = (case pp_setupFn a of None \<Rightarrow> Ok None | Some setup \<Rightarrow> setup (nv_cfg env))"

definition setup_hooks :: "'l setup_result option \<Rightarrow> app_action list" where
  "setup_hooks r = (case r of None \<Rightarrow> [] | Some r \<Rightarrow> runShutdownHooks (st_Shutdown r) ''setup'')"

definition release :: "('v, 'f, 'l) app \<Rightarrow> 'v app_env \<Rightarrow> app_action list" where
  "release a env =
     (if pp_auditEnabled a then [CloseAudit] else []) @
     (if pp_observabilityEnabled a \<and> nv_observability env then [ShutdownObservability] else [])"

lemma serve_and_stop_cases:
  "serve_and_stop a env =
     (case setup_outcome a env of
        Inl err \<Rightarrow> [Setup]
      | Inr r \<Rightarrow>
          ((if pp_setupFn a \<noteq> None then [Setup] else []) @ [BuildEngine] @
           (if pp_observabilityEnabled a \<and> nv_observability env then [UseTracing] else []) @
           (if pp_routesFn a then [RegisterRoutes] else []) @ map PostSetup (pp_postSetupFns a)) @
          RunServer # runShutdownHooks (pp_shutdownFns a) ''app'' @ setup_hooks r)"
  by (simp add: serve_and_stop_def setup_outcome_def setup_hooks_def split: option.split sum.split)

lemma early_return:
  "h @ t @ (if p then [] else c @ (if q then [] else ys)) = (if p then h @ t else if q then (h @ t) @ c else (h @ t) @ c @ ys)"
  by simp

text \<open>A run that reaches the server, split at that point, and a run that does not.\<close>

lemma app_Run_cases:
  obtains (stopped) "RunServer \<notin> set (app_Run a env)"
  | (served) before r where "setup_outcome a env = Ok r" "RunServer \<notin> set before" "\<forall>x\<in>set before. \<not> is_teardown x"
      "app_Run a env = before @ RunServer # runShutdownHooks (pp_shutdownFns a) ''app'' @ setup_hooks r @ release a env"
proof -
  let ?head = "[LoadConfig] @ (if pp_runtimeConfigEnabled a then [ResolveRuntimeConfig (runtime_options a)] else [])"
  let ?check = "case pp_configValidator a of None \<Rightarrow> [] | Some _ \<Rightarrow> [ValidateConfig]"
  let ?new = "(if pp_observabilityEnabled a then [NewObservability] else []) @ (if pp_auditEnabled a then [NewAuditPublisher] else [])"
  let ?bad = "case pp_configValidator a of None \<Rightarrow> False | Some valid \<Rightarrow> \<not> valid (nv_cfg env)"
  have run: "app_Run a env =
      (if pp_runtimeConfigEnabled a \<and> nv_resolve env \<noteq> None then ?head else if ?bad then ?head @ ?check
       else ?head @ ?check @ ?new @ serve_and_stop a env @ release a env)"
    unfolding app_Run_def release_def early_return by (simp only: append_assoc)
  consider (failed) "app_Run a env = ?head" | (invalid) "app_Run a env = ?head @ ?check"
    | (ran) "app_Run a env = ?head @ ?check @ ?new @ serve_and_stop a env @ release a env"
    unfolding run by metis
  then show ?thesis
  proof cases
    case ran
    show ?thesis
    proof (cases "setup_outcome a env")
      case (Inl err)
      then have "RunServer \<notin> set (app_Run a env)"
        unfolding ran by (auto simp: serve_and_stop_cases release_def split: option.splits)
      then show ?thesis by (rule stopped)
    next
      case (Inr r)
      show ?thesis
      proof (rule served [OF Inr, of "?head @ ?check @ ?new @ (if pp_setupFn a \<noteq> None then [Setup] else []) @ [BuildEngine] @
           (if pp_observabilityEnabled a \<and> nv_observability env then [UseTracing] else []) @
           (if pp_routesFn a then [RegisterRoutes] else []) @ map PostSetup (pp_postSetupFns a)"])
      qed (use ran Inr in \<open>auto simp: serve_and_stop_cases split: option.splits\<close>)
    qed
  qed (auto intro: stopped split: option.splits)
qed

section \<open>Properties\<close>


definition demo_app :: "((string \<times> any) list, unit, unit) app" where
  "demo_app = OnShutdown (Some ''b'') (OnShutdown None (OnShutdown (Some ''a'') (app_New ''shop'' ''1'' demo_options)))"


end
