(* ===== verification/Roles.thy ===== *)
theory Roles
  imports Permissions Http_Client
begin

text \<open>
  \<open>pkg/roles\<close>: the roles of a service and their synchronisation with the control plane at start-up: the role
  ids are checked, then the permissions of each role are replaced, service by service. The three calls of
  the HTTP client are the record \<open>roles_client\<close>; \<open>http_roles_client\<close> is the one made from \<open>pkg/http\<close>.
\<close>

section \<open>definition.go and catalog.go\<close>

record role_definition =
  rd_RoleID :: string
  rd_Name :: string
  rd_Permissions :: "reference list"
  rd_ManagedServices :: "string list"

definition PermissionCount :: "role_definition \<Rightarrow> int" where
  "PermissionCount d = int (length (rd_Permissions d))"

definition role_IsValid :: "role_definition \<Rightarrow> bool" where
  "role_IsValid d = (rd_RoleID d \<noteq> [])"

text \<open>A catalogue is the list of its definitions.\<close>

definition GetRoleByID :: "role_definition list \<Rightarrow> string \<Rightarrow> role_definition option" where
  "GetRoleByID definitions roleID = find (\<lambda>d. rd_RoleID d = roleID) definitions"

definition GetAllRoleIDs :: "role_definition list \<Rightarrow> string list" where
  "GetAllRoleIDs definitions = map rd_RoleID definitions"

section \<open>sync.go\<close>

record role_response =
  rs_ID :: string
  rs_Name :: string
  rs_Description :: string
  rs_Native :: bool
  rs_Status :: string

record permission_response =
  pe_ID :: string
  pe_Code :: string

record role_sync_request =
  sy_PermissionIDs :: "string list"
  sy_Services :: "string list"

record 'w roles_client =
  rk_PostRoles :: "string \<Rightarrow> string list \<Rightarrow> 'w \<Rightarrow> (go_error + role_response list) \<times> 'w"
  rk_PostCodes :: "string \<Rightarrow> string list \<Rightarrow> 'w \<Rightarrow> (go_error + permission_response list) \<times> 'w"
  rk_PutPermissions :: "string \<Rightarrow> role_sync_request \<Rightarrow> 'w \<Rightarrow> go_error option \<times> 'w"

text \<open>The same calls over \<open>PostJSON\<close> and \<open>PutJSON\<close>, with the JSON of the requests and responses as parameters.\<close>

record roles_codec =
  rj_ids :: "string list \<Rightarrow> go_error + string"
  rj_roles :: "string \<Rightarrow> go_error + role_response list"
  rj_codes :: "string list \<Rightarrow> go_error + string"
  rj_permissions :: "string \<Rightarrow> go_error + permission_response list"
  rj_sync :: "role_sync_request \<Rightarrow> go_error + string"
  rj_messages :: "string \<Rightarrow> go_error + string list"

definition decoded_list :: "(go_error + 'v list option) \<times> 'c \<times> 'w \<Rightarrow> (go_error + 'v list) \<times> 'c \<times> 'w" where
  "decoded_list r =
     (case r of
        (Inl err, cw) \<Rightarrow> (Err err, cw)
      | (Inr None, cw) \<Rightarrow> (Ok [], cw)
      | (Inr (Some vs), cw) \<Rightarrow> (Ok vs, cw))"

definition http_roles_client :: "'w http_world \<Rightarrow> string \<Rightarrow> roles_codec \<Rightarrow> ('w http_client \<times> 'w) roles_client" where
  "http_roles_client hw requestID codec =
     \<lparr>rk_PostRoles = (\<lambda>url ids (c, w).
        decoded_list (PostJSON hw requestID url (Some (rj_ids codec ids)) (Some (rj_roles codec)) c w)),
      rk_PostCodes = (\<lambda>url codes (c, w).
        decoded_list (PostJSON hw requestID url (Some (rj_codes codec codes)) (Some (rj_permissions codec)) c w)),
      rk_PutPermissions = (\<lambda>url req (c, w).
        case PutJSON hw requestID url (Some (rj_sync codec req)) (Some (rj_messages codec)) c w of
          (Inl err, cw) \<Rightarrow> (Some err, cw)
        | (Inr _, cw) \<Rightarrow> (None, cw))\<rparr>"

definition validateRoleIDs :: "'w roles_client \<Rightarrow> string \<Rightarrow> string list \<Rightarrow> 'w \<Rightarrow> go_error option \<times> 'w" where
  "validateRoleIDs client base roleIDs w =
     (if roleIDs = [] then (None, w)
      else case rk_PostRoles client (RolesBulkURL base) roleIDs w of
             (Inl err, w) \<Rightarrow> (Some (EFmt (''sentinel service get roles: '' @ Error err) err), w)
           | (Inr response, w) \<Rightarrow>
               let foundRoleIDs = set (map rs_ID response);
                   missingRoles = filter (\<lambda>roleID. roleID \<notin> foundRoleIDs) roleIDs
               in if length missingRoles > 0
                  then (Some (EPlain (''roles not found in Sentinel: ['' @ Join missingRoles '' '' @ '']'')), w)
                  else (None, w))"

definition getPermissionsByCode :: "'w roles_client \<Rightarrow> string \<Rightarrow> string list \<Rightarrow> 'w \<Rightarrow> (go_error + string list) \<times> 'w" where
  "getPermissionsByCode client base codes w =
     (if codes = [] then (Ok [], w)
      else case rk_PostCodes client (PermissionByCodesURL base) codes w of
             (Inl err, w) \<Rightarrow> (Err (EFmt (''sentinel service get permissions: '' @ Error err) err), w)
           | (Inr response, w) \<Rightarrow> (Ok (map pe_ID response), w))"

definition normalizeManagedService :: "string \<Rightarrow> string" where
  "normalizeManagedService service = ToLower (TrimSpace service)"

text \<open>The two loops, over the managed services and over the services of the permissions, with the set \<open>seen\<close>.\<close>

fun add_services_of :: "string list \<Rightarrow> string set \<Rightarrow> string list \<Rightarrow> string list" where
  "add_services_of [] seen services = services"
| "add_services_of (s # ss) seen services =
     (let normalized = normalizeManagedService s
      in if normalized = [] \<or> normalized \<in> seen then add_services_of ss seen services
         else add_services_of ss (insert normalized seen) (services @ [normalized]))"

definition uniqueManagedServices :: "role_definition \<Rightarrow> string list" where
  "uniqueManagedServices d = add_services_of (rd_ManagedServices d @ map rf_Service (rd_Permissions d)) {} []"

definition syncPermissionsToRole :: "'w roles_client \<Rightarrow> string \<Rightarrow> role_definition \<Rightarrow> 'w \<Rightarrow> go_error option \<times> 'w" where
  "syncPermissionsToRole client base d w =
     (let codes = map (\<lambda>r. GenerateCode (rf_Service r) (rf_Category r) (rf_Action r)) (rd_Permissions d);
          managedServices = uniqueManagedServices d
      in if codes = [] \<and> managedServices = [] then (None, w)
         else case (if codes \<noteq> [] then getPermissionsByCode client base codes w else (Ok [], w)) of
                (Inl err, w) \<Rightarrow> (Some (EFmt (''failed to get permissions by code: '' @ Error err) err), w)
              | (Inr permissionIDs, w) \<Rightarrow>
                  (case rk_PutPermissions client (RolePermissionsURL base (rd_RoleID d))
                       \<lparr>sy_PermissionIDs = permissionIDs, sy_Services = managedServices\<rparr> w of
                     (Some err, w) \<Rightarrow> (Some (EFmt (''failed to sync permissions to role: '' @ Error err) err), w)
                   | (None, w) \<Rightarrow> (None, w)))"

fun sync_roles :: "'w roles_client \<Rightarrow> string \<Rightarrow> role_definition list \<Rightarrow> 'w \<Rightarrow> go_error option \<times> 'w" where
  "sync_roles client base [] w = (None, w)"
| "sync_roles client base (d # ds) w =
     (case syncPermissionsToRole client base d w of
        (Some err, w) \<Rightarrow>
          (Some (EFmt (''failed to sync permissions to role '' @ rd_RoleID d @ '': '' @ Error err) err), w)
      | (None, w) \<Rightarrow> sync_roles client base ds w)"

text \<open>\<open>base\<close> is what \<open>APIFromConfig\<close> finds and \<open>newClient\<close> what \<open>NewClientWithServiceToken\<close> returns.\<close>

definition roles_Sync ::
    "bool \<Rightarrow> bool \<Rightarrow> role_definition list \<Rightarrow> string \<Rightarrow> (go_error + 'w roles_client) \<Rightarrow> 'w \<Rightarrow> go_error option \<times> 'w" where
  "roles_Sync has_cfg has_log definitions base newClient w =
     (if \<not> has_cfg then (Some (EPlain ''config not configured''), w)
      else if \<not> has_log then (Some (EPlain ''logger not configured''), w)
      else if definitions = [] then (None, w)
      else
        let validatedRoles = filter role_IsValid definitions
        in if \<not> api_Valid base
           then (Some (EPlain ''PlatformControlPlaneEndpoint or SentinelServiceEndpoint not configured''), w)
           else case newClient of
                  Inl err \<Rightarrow> (Some (EFmt (''failed to create HTTP client: '' @ Error err) err), w)
                | Inr client \<Rightarrow>
                    (case validateRoleIDs client base (map rd_RoleID validatedRoles) w of
                       (Some err, w) \<Rightarrow> (Some (EFmt (''failed to validate roles: '' @ Error err) err), w)
                     | (None, w) \<Rightarrow> sync_roles client base validatedRoles w))"

definition roles_Bootstrap ::
    "bool \<Rightarrow> bool \<Rightarrow> role_definition list \<Rightarrow> string \<Rightarrow> (go_error + 'w roles_client) \<Rightarrow> 'w \<Rightarrow> go_error option \<times> 'w" where
  "roles_Bootstrap has_cfg has_log definitions base newClient w = roles_Sync has_cfg has_log definitions base newClient w"

section \<open>Lemmas\<close>

lemma add_services_of_set:
  "set (add_services_of ss seen services) = set services \<union> (normalizeManagedService ` set ss - {[]} - seen)"
  by (induction ss seen services rule: add_services_of.induct) (auto simp: Let_def)

lemma add_services_of_distinct:
  "set services \<subseteq> seen \<Longrightarrow> distinct services \<Longrightarrow> distinct (add_services_of ss seen services)"
  by (induction ss seen services rule: add_services_of.induct) (auto simp: Let_def)

text \<open>The services that a role manages: those it names and those of its permissions, each once.\<close>

definition managed :: "role_definition \<Rightarrow> string set" where
  "managed d = normalizeManagedService ` (set (rd_ManagedServices d) \<union> rf_Service ` set (rd_Permissions d)) - {[]}"

lemma uniqueManagedServices_set:
  "set (uniqueManagedServices d) = managed d" "distinct (uniqueManagedServices d)"
  by (auto simp: uniqueManagedServices_def managed_def add_services_of_set add_services_of_distinct)

subsection \<open>The control plane\<close>

text \<open>
  What the control plane does: \<open>known\<close> maps permission codes to permission ids, \<open>service_of\<close> gives the service of a
  permission, and \<open>grants\<close> the permissions that the roles have. Lookups change nothing; the lookup by codes
  returns the permissions it knows; a sync replaces the role's permissions in the named services. Role ids
  have no surrounding space.
\<close>

definition role_server_laws ::
    "'w roles_client \<Rightarrow> string \<Rightarrow> (string \<rightharpoonup> string) \<Rightarrow> (string \<Rightarrow> string) \<Rightarrow> ('w \<Rightarrow> string \<Rightarrow> string set) \<Rightarrow> bool" where
  "role_server_laws client base known service_of grants \<longleftrightarrow>
     (\<forall>url ids w r w'. rk_PostRoles client url ids w = (r, w') \<longrightarrow>
        grants w' = grants w \<and> (\<forall>rs. r = Ok rs \<longrightarrow> (\<forall>x\<in>set rs. TrimSpace (rs_ID x) = rs_ID x))) \<and>
     (\<forall>codes w r w'. rk_PostCodes client (PermissionByCodesURL base) codes w = (r, w') \<longrightarrow>
        grants w' = grants w \<and> (\<forall>ps. r = Ok ps \<longrightarrow> pe_ID ` set ps = {p. \<exists>code\<in>set codes. known code = Some p})) \<and>
     (\<forall>role req w w'. rk_PutPermissions client (RolePermissionsURL base role) req w = (None, w') \<longrightarrow>
        grants w' = (grants w)(TrimSpace role :=
          {p \<in> grants w (TrimSpace role). service_of p \<notin> set (sy_Services req)} \<union> set (sy_PermissionIDs req)))"

lemma role_server_lawsD:
  assumes "role_server_laws client base known service_of grants"
  shows "rk_PostRoles client url ids w = (r, w') \<Longrightarrow> grants w' = grants w"
    and "rk_PostRoles client url ids w = (Ok rs, w') \<Longrightarrow> x \<in> set rs \<Longrightarrow> TrimSpace (rs_ID x) = rs_ID x"
    and "rk_PostCodes client (PermissionByCodesURL base) codes w = (r', w') \<Longrightarrow> grants w' = grants w"
    and "rk_PostCodes client (PermissionByCodesURL base) codes w = (Ok ps, w') \<Longrightarrow>
      pe_ID ` set ps = {p. \<exists>code\<in>set codes. known code = Some p}"
    and "rk_PutPermissions client (RolePermissionsURL base role) req w = (None, w') \<Longrightarrow>
      grants w' = (grants w)(TrimSpace role :=
        {p \<in> grants w (TrimSpace role). service_of p \<notin> set (sy_Services req)} \<union> set (sy_PermissionIDs req))"
proof -
  note laws = assms [unfolded role_server_laws_def]
  show "rk_PostRoles client url ids w = (r, w') \<Longrightarrow> grants w' = grants w"
    "rk_PostRoles client url ids w = (Ok rs, w') \<Longrightarrow> x \<in> set rs \<Longrightarrow> TrimSpace (rs_ID x) = rs_ID x"
    using laws [THEN conjunct1] by blast+
  show "rk_PostCodes client (PermissionByCodesURL base) codes w = (r', w') \<Longrightarrow> grants w' = grants w"
    "rk_PostCodes client (PermissionByCodesURL base) codes w = (Ok ps, w') \<Longrightarrow>
      pe_ID ` set ps = {p. \<exists>code\<in>set codes. known code = Some p}"
    using laws [THEN conjunct2, THEN conjunct1] by blast+
  show "rk_PutPermissions client (RolePermissionsURL base role) req w = (None, w') \<Longrightarrow>
      grants w' = (grants w)(TrimSpace role :=
        {p \<in> grants w (TrimSpace role). service_of p \<notin> set (sy_Services req)} \<union> set (sy_PermissionIDs req))"
    using laws [THEN conjunct2, THEN conjunct2] by blast
qed

text \<open>What a definition asks for, given the permissions the role has.\<close>

definition wanted :: "(string \<rightharpoonup> string) \<Rightarrow> (string \<Rightarrow> string) \<Rightarrow> role_definition \<Rightarrow> string set \<Rightarrow> string set" where
  "wanted known service_of d old =
     {p \<in> old. service_of p \<notin> managed d} \<union> {p. \<exists>r\<in>set (rd_Permissions d). known (ref_Code r) = Some p}"

lemma sync_one_role:
  assumes "role_server_laws client base known service_of grants" "syncPermissionsToRole client base d w = (None, w')"
    and "TrimSpace (rd_RoleID d) = rd_RoleID d"
  shows "grants w' = (grants w)(rd_RoleID d := wanted known service_of d (grants w (rd_RoleID d)))"
proof (cases "rd_Permissions d = []")
  case True
  show ?thesis
  proof (cases "uniqueManagedServices d = []")
    case none: True
    then have "managed d = {}" using uniqueManagedServices_set(1) [of d] by simp
    then show ?thesis using assms(2) True none by (auto simp: syncPermissionsToRole_def wanted_def)
  next
    case False
    then have "rk_PutPermissions client (RolePermissionsURL base (rd_RoleID d))
        \<lparr>sy_PermissionIDs = [], sy_Services = uniqueManagedServices d\<rparr> w = (None, w')"
      using assms(2) True by (auto simp: syncPermissionsToRole_def split: prod.splits option.splits)
    from role_server_lawsD(5) [OF assms(1) this] show ?thesis
      using assms(3) True by (simp add: wanted_def uniqueManagedServices_set)
  qed
next
  case False
  let ?codes = "map ref_Code (rd_Permissions d)"
  have codes: "map (\<lambda>r. GenerateCode (rf_Service r) (rf_Category r) (rf_Action r)) (rd_Permissions d) = ?codes"
    by (simp add: ref_Code_def)
  obtain ps w1 where ps: "rk_PostCodes client (PermissionByCodesURL base) ?codes w = (Ok ps, w1)"
    and put: "rk_PutPermissions client (RolePermissionsURL base (rd_RoleID d))
        \<lparr>sy_PermissionIDs = map pe_ID ps, sy_Services = uniqueManagedServices d\<rparr> w1 = (None, w')"
    using assms(2) False unfolding syncPermissionsToRole_def codes
    by (auto simp: getPermissionsByCode_def Let_def split: prod.splits option.splits sum.splits if_splits)
  have "grants w1 = grants w" "pe_ID ` set ps = {p. \<exists>r\<in>set (rd_Permissions d). known (ref_Code r) = Some p}"
    using role_server_lawsD(3,4) [OF assms(1) ps] by simp_all
  moreover have "grants w' = (grants w1)(rd_RoleID d :=
      {p \<in> grants w1 (rd_RoleID d). service_of p \<notin> managed d} \<union> pe_ID ` set ps)"
    using role_server_lawsD(5) [OF assms(1) put] assms(3) by (simp add: uniqueManagedServices_set)
  ultimately show ?thesis by (simp add: wanted_def)
qed

lemma sync_all_roles:
  assumes "role_server_laws client base known service_of grants" "sync_roles client base ds w = (None, w')"
    and "distinct (map rd_RoleID ds)" "\<forall>d\<in>set ds. TrimSpace (rd_RoleID d) = rd_RoleID d"
  shows "(\<forall>d\<in>set ds. grants w' (rd_RoleID d) = wanted known service_of d (grants w (rd_RoleID d))) \<and>
    (\<forall>role. role \<notin> rd_RoleID ` set ds \<longrightarrow> grants w' role = grants w role)"
  using assms(2-4)
proof (induction ds arbitrary: w)
  case (Cons d ds)
  obtain w1 where w1: "syncPermissionsToRole client base d w = (None, w1)" "sync_roles client base ds w1 = (None, w')"
    using Cons.prems(1) by (auto split: prod.splits option.splits)
  note g = sync_one_role [OF assms(1) w1(1)]
  show ?case using Cons.IH [OF w1(2)] Cons.prems(2,3) g by (auto simp: image_iff)
qed simp

lemma validated_trimmed:
  assumes "role_server_laws client base known service_of grants" "validateRoleIDs client base ids w = (None, w')"
  shows "grants w' = grants w \<and> (\<forall>i\<in>set ids. TrimSpace i = i)"
proof (cases "ids = []")
  case False
  then obtain rs where rs: "rk_PostRoles client (RolesBulkURL base) ids w = (Ok rs, w')" "set ids \<subseteq> rs_ID ` set rs"
    using assms(2) by (auto simp: validateRoleIDs_def Let_def filter_empty_conv split: prod.splits sum.splits if_splits)
  with role_server_lawsD(1,2) [OF assms(1) rs(1)] show ?thesis by auto
qed (use assms(2) in \<open>simp add: validateRoleIDs_def\<close>)

section \<open>Properties\<close>

text \<open>
  C26. A successful synchronisation brings every role to its definition. For each defined role the control
  plane ends up with exactly: the permissions the role had in services it does not manage, and the
  permissions of the definition that the control plane knows; stale permissions of managed services are
  gone, other roles are unchanged, and every role id was known. Codes that the control plane does not know
  are left out without an error.
\<close>

theorem roles_sync_reconciles:
  assumes "role_server_laws client base known service_of grants"
    and "roles_Sync True True definitions base (Ok client) w = (None, w')"
    and "distinct (map rd_RoleID (filter role_IsValid definitions))"
  shows "(\<forall>d\<in>set definitions. rd_RoleID d \<noteq> [] \<longrightarrow>
      grants w' (rd_RoleID d) =
        {p \<in> grants w (rd_RoleID d). service_of p \<notin> managed d} \<union>
        {p. \<exists>r\<in>set (rd_Permissions d). known (ref_Code r) = Some p}) \<and>
    (\<forall>role. role \<notin> rd_RoleID ` set (filter role_IsValid definitions) \<longrightarrow> grants w' role = grants w role)"
proof (cases "definitions = []")
  case True
  then show ?thesis using assms(2) by (simp add: roles_Sync_def)
next
  case False
  let ?ds = "filter role_IsValid definitions"
  obtain w1 where w1: "validateRoleIDs client base (map rd_RoleID ?ds) w = (None, w1)" "sync_roles client base ?ds w1 = (None, w')"
    using assms(2) False by (auto simp: roles_Sync_def Let_def split: if_splits prod.splits option.splits)
  from validated_trimmed [OF assms(1) w1(1)] have "grants w1 = grants w" "\<forall>d\<in>set ?ds. TrimSpace (rd_RoleID d) = rd_RoleID d"
    by auto
  with sync_all_roles [OF assms(1) w1(2) assms(3)] show ?thesis
    by (simp add: wanted_def role_IsValid_def)
qed

text \<open>A control plane with one role \<open>r1\<close> and one permission code.\<close>

definition demo_service_of :: "string \<Rightarrow> string" where
  "demo_service_of p = (if p = ''other'' then ''x'' else ''iam'')"

definition demo_roles_client :: "(string \<Rightarrow> string set) roles_client" where
  "demo_roles_client =
     \<lparr>rk_PostRoles = (\<lambda>url ids w. (Ok [\<lparr>rs_ID = ''r1'', rs_Name = [], rs_Description = [], rs_Native = True, rs_Status = []\<rparr>], w)),
      rk_PostCodes = (\<lambda>url codes w.
        (Ok (if ''iam-users-read'' \<in> set codes then [\<lparr>pe_ID = ''p1'', pe_Code = ''iam-users-read''\<rparr>] else []), w)),
      rk_PutPermissions = (\<lambda>url req w.
        if url = RolePermissionsURL ''b'' ''r1''
        then (None, w(''r1'' := {p \<in> w ''r1''. demo_service_of p \<notin> set (sy_Services req)} \<union> set (sy_PermissionIDs req)))
        else (Some (EPlain ''404''), w))\<rparr>"

definition demo_role :: role_definition where
  "demo_role = \<lparr>rd_RoleID = ''r1'', rd_Name = ''Admin'',
     rd_Permissions = [\<lparr>rf_Service = ''iam'', rf_Category = ''users'', rf_Action = ''read''\<rparr>], rd_ManagedServices = []\<rparr>"

lemma demo_role_laws:
  "role_server_laws demo_roles_client ''b'' [''iam-users-read'' \<mapsto> ''p1''] demo_service_of (\<lambda>w. w)"
proof -
  have "TrimSpace ''r1'' = ''r1''" by code_simp
  moreover have "TrimSpace role = ''r1''" if "RolePermissionsURL ''b'' role = RolePermissionsURL ''b'' ''r1''" for role
    using that role_url_identifies [of "''b''" role "''r1''"] calculation by simp
  ultimately show ?thesis
    by (auto simp: role_server_laws_def demo_roles_client_def split: if_splits)
qed

lemma demo_role_runs:
  "\<exists>w'. roles_Sync True True [demo_role] ''b'' (Ok demo_roles_client) w = (None, w')"
proof -
  have c: "map (\<lambda>r. GenerateCode (rf_Service r) (rf_Category r) (rf_Action r)) (rd_Permissions demo_role) = [''iam-users-read'']"
    "TrimSpace ''b'' = ''b''" by code_simp+
  have id: "rd_RoleID demo_role = ''r1''" by (simp add: demo_role_def)
  have "validateRoleIDs demo_roles_client ''b'' [''r1''] w = (None, w)"
    by (simp add: validateRoleIDs_def demo_roles_client_def)
  moreover have "\<exists>w'. syncPermissionsToRole demo_roles_client ''b'' demo_role w = (None, w')"
    unfolding syncPermissionsToRole_def c(1) id by (simp add: Let_def getPermissionsByCode_def demo_roles_client_def)
  ultimately show ?thesis by (auto simp: roles_Sync_def api_Valid_def role_IsValid_def id c(2))
qed

theorem roles_sync_reconciles_witness:
  "\<exists>w'. roles_Sync True True [demo_role] ''b'' (Ok demo_roles_client) (\<lambda>_. {''old'', ''other''}) = (None, w') \<and>
     w' ''r1'' = {''other'', ''p1''} \<and> w' ''r2'' = {''old'', ''other''}"
proof -
  obtain w' where run: "roles_Sync True True [demo_role] ''b'' (Ok demo_roles_client) (\<lambda>_. {''old'', ''other''}) = (None, w')"
    using demo_role_runs by blast
  have "uniqueManagedServices demo_role = [''iam'']" by code_simp
  then have m: "managed demo_role = {''iam''}" using uniqueManagedServices_set(1) [of demo_role] by simp
  have code: "ref_Code \<lparr>rf_Service = ''iam'', rf_Category = ''users'', rf_Action = ''read''\<rparr> = ''iam-users-read''" by code_simp
  have role: "rd_RoleID demo_role = ''r1''" "role_IsValid demo_role"
    "rd_Permissions demo_role = [\<lparr>rf_Service = ''iam'', rf_Category = ''users'', rf_Action = ''read''\<rparr>]"
    by (simp_all add: demo_role_def role_IsValid_def)
  from roles_sync_reconciles [OF demo_role_laws run] have
    "w' ''r1'' = {p \<in> {''old'', ''other''}. demo_service_of p \<noteq> ''iam''} \<union> {''p1''}" "w' ''r2'' = {''old'', ''other''}"
    by (simp_all add: role m code)
  with run show ?thesis by (auto simp: demo_service_of_def)
qed

end
