(* ===== verification/Feature_Flags.thy ===== *)
theory Feature_Flags
  imports Tenant_Access
begin

text \<open>
  \<open>pkg/featureflags\<close>: the flags of a tenant, read from the raw claims in the gin context, and the middleware
  that closes a route to tenants without a flag. The named map type \<open>Flags\<close> is a map like any other in the
  model; only \<open>Set\<close> writes its key.
\<close>

section \<open>Definitions\<close>

definition flags_contextKey :: string where "flags_contextKey = ''tenant_feature_flags''"

definition flags_Set :: "gin_ctx \<Rightarrow> (string \<times> any) list \<Rightarrow> gin_ctx" where
  "flags_Set c f = c\<lparr>gc_keys := (gc_keys c)(flags_contextKey \<mapsto> AMap f)\<rparr>"

definition flags_Get :: "gin_ctx \<Rightarrow> (string \<times> any) list option" where
  "flags_Get c = (case gc_keys c flags_contextKey of Some (AMap f) \<Rightarrow> Some f | _ \<Rightarrow> None)"

fun isTruthy :: "any \<Rightarrow> bool" where
  "isTruthy ANil = False"
| "isTruthy (ABool b) = b"
| "isTruthy (AString s) = (s \<noteq> [])"
| "isTruthy (AFloat m e) = (m \<noteq> 0)"
| "isTruthy (AInt i) = (i \<noteq> 0)"
| "isTruthy (AInt64 i) = (i \<noteq> 0)"
| "isTruthy v = True"

definition Enabled :: "gin_ctx \<Rightarrow> string \<Rightarrow> bool" where
  "Enabled c flag = (case flags_Get c of None \<Rightarrow> False | Some f \<Rightarrow> isTruthy (index_any (map_of f) flag))"

definition flags_Value :: "gin_ctx \<Rightarrow> string \<Rightarrow> any option" where
  "flags_Value c flag = (case flags_Get c of None \<Rightarrow> None | Some f \<Rightarrow> map_of f flag)"

definition flags_Middleware :: "gin_ctx \<Rightarrow> mw_result" where
  "flags_Middleware c =
     (case gc_keys c ''claims_raw'' of
        Some (AMap rawMap) \<Rightarrow>
          (case map_of rawMap ''feature_flags'' of
             Some (AMap ffMap) \<Rightarrow> Next (flags_Set c ffMap)
           | _ \<Rightarrow> Next c)
      | _ \<Rightarrow> Next c)"

definition RequireFeature :: "string \<Rightarrow> gin_ctx \<Rightarrow> mw_result" where
  "RequireFeature flag c =
     (if \<not> Enabled c flag then Abort StatusForbidden ''feature_disabled'' c else Next c)"

section \<open>Properties\<close>

text \<open>A request behind both middlewares.\<close>

definition flag_gate :: "string \<Rightarrow> gin_ctx \<Rightarrow> mw_result" where
  "flag_gate flag c =
     (case flags_Middleware c of Next c \<Rightarrow> RequireFeature flag c | Abort status err c \<Rightarrow> Abort status err c)"

lemma flag_gate_cases:
  assumes "gc_keys c flags_contextKey = None"
  shows "flag_gate flag c =
    (case gc_keys c ''claims_raw'' of
       Some (AMap raw) \<Rightarrow>
         (case map_of raw ''feature_flags'' of
            Some (AMap ff) \<Rightarrow>
              (if isTruthy (index_any (map_of ff) flag) then Next (flags_Set c ff)
               else Abort StatusForbidden ''feature_disabled'' (flags_Set c ff))
          | _ \<Rightarrow> Abort StatusForbidden ''feature_disabled'' c)
     | _ \<Rightarrow> Abort StatusForbidden ''feature_disabled'' c)"
proof -
  have off: "RequireFeature flag c = Abort StatusForbidden ''feature_disabled'' c"
    using assms by (simp add: RequireFeature_def Enabled_def flags_Get_def)
  have on: "RequireFeature flag (flags_Set c ff) =
      (if isTruthy (index_any (map_of ff) flag) then Next (flags_Set c ff)
       else Abort StatusForbidden ''feature_disabled'' (flags_Set c ff))" for ff
    by (simp add: RequireFeature_def Enabled_def flags_Get_def flags_Set_def)
  show ?thesis unfolding flag_gate_def flags_Middleware_def by (simp add: off on split: option.split any.split)
qed

lemma truthy_iff:
  "isTruthy (index_any m k) \<longleftrightarrow>
     (\<exists>v. m k = Some v \<and> v \<notin> {ANil, ABool False, AString []} \<and> (\<forall>e. v \<noteq> AFloat 0 e) \<and> v \<noteq> AInt 0 \<and> v \<noteq> AInt64 0)"
proof (cases "m k")
  case (Some v)
  then show ?thesis by (cases v) (auto simp: index_any_def)
qed (simp add: index_any_def)

text \<open>
  A route behind \<open>RequireFeature\<close> is open exactly to requests whose raw claims carry the flag with a value
  that is not nil, false, empty or zero; every other request is refused with 403. Because no code of the
  repository stores the raw claims under \<open>claims_raw\<close>, requests that were authenticated by this library are
  always refused.
\<close>

lemma feature_gate_exact:
  assumes "gc_keys c ''tenant_feature_flags'' = None"
  shows "(if \<exists>raw ff v. gc_keys c ''claims_raw'' = Some (AMap raw) \<and> map_of raw ''feature_flags'' = Some (AMap ff) \<and>
        map_of ff flag = Some v \<and> v \<notin> {ANil, ABool False, AString []} \<and> (\<forall>e. v \<noteq> AFloat 0 e) \<and> v \<noteq> AInt 0 \<and> v \<noteq> AInt64 0
     then \<exists>c'. flag_gate flag c = Next c'
     else \<exists>c'. flag_gate flag c = Abort 403 ''feature_disabled'' c')"
proof -
  note gate = flag_gate_cases [of c flag, unfolded flags_contextKey_def, OF assms]
  show ?thesis unfolding gate by (auto simp: truthy_iff split: option.splits any.splits)
qed

lemma feature_gate_exact_witness:
  "(\<exists>c'. flag_gate ''beta'' (demo_request\<lparr>gc_keys := [''claims_raw'' \<mapsto>
      AMap [(''feature_flags'', AMap [(''beta'', ABool True)])]]\<rparr>) = Next c') \<and>
   (\<exists>c'. flag_gate ''beta'' demo_request = Abort 403 ''feature_disabled'' c')"
proof
  let ?c = "demo_request\<lparr>gc_keys := [''claims_raw'' \<mapsto> AMap [(''feature_flags'', AMap [(''beta'', ABool True)])]]\<rparr>"
  show "\<exists>c'. flag_gate ''beta'' ?c = Next c'"
    using feature_gate_exact [of ?c "''beta''"] by simp
  show "\<exists>c'. flag_gate ''beta'' demo_request = Abort 403 ''feature_disabled'' c'"
    using feature_gate_exact [of demo_request "''beta''"] by (simp add: demo_request_def)
qed

text \<open>Text is truthy: a flag with the value \<open>false\<close> as text is enabled.\<close>

lemma text_false_enables: "isTruthy (AString ''false'')"
  by simp

end
