(* ===== verification/Translator.thy ===== *)
theory Translator
  imports Tenant_Access Apperr
begin

text \<open>
  \<open>pkg/i18n\<close>: a catalogue of messages by domain, locale and key, with fallback locales, plural forms and
  placeholders, and the detection of the locale of a request. The catalogue is iterated, so domains and
  locales are association lists; the messages of a locale are only looked up.
\<close>

section \<open>The catalogue\<close>

type_synonym messages = "string \<rightharpoonup> string"

record translator =
  tl_defaultLocale :: string
  tl_fallbacks :: "string list"
  tl_store :: "(string \<times> (string \<times> messages) list) list"

definition WithDefaultLocale :: "string \<Rightarrow> translator \<Rightarrow> translator" where
  "WithDefaultLocale locale t = (if TrimSpace locale \<noteq> [] then t\<lparr>tl_defaultLocale := locale\<rparr> else t)"

definition WithFallbackLocales :: "string list \<Rightarrow> translator \<Rightarrow> translator" where
  "WithFallbackLocales locales t = t\<lparr>tl_fallbacks := locales\<rparr>"

text \<open>The error of an option is ignored, so an option is a function of the translator.\<close>

definition i18n_New :: "(translator \<Rightarrow> translator) list \<Rightarrow> translator" where
  "i18n_New opts = fold (\<lambda>opt t. opt t) opts \<lparr>tl_defaultLocale = ''en'', tl_fallbacks = [], tl_store = []\<rparr>"

definition stored_locales :: "translator \<Rightarrow> string \<Rightarrow> (string \<times> messages) list" where
  "stored_locales t domain = (case map_of (tl_store t) domain of None \<Rightarrow> [] | Some locs \<Rightarrow> locs)"

definition stored_bundle :: "translator \<Rightarrow> string \<Rightarrow> string \<Rightarrow> messages option" where
  "stored_bundle t domain locale = map_of (stored_locales t domain) locale"

definition AddBundle :: "string \<Rightarrow> string \<Rightarrow> (string \<times> string) list \<Rightarrow> translator \<Rightarrow> translator" where
  "AddBundle domain locale new t =
     (let domain = (if domain = [] then ''default'' else domain);
          old = (case stored_bundle t domain locale of None \<Rightarrow> Map.empty | Some b \<Rightarrow> b)
      in t\<lparr>tl_store := AList.update domain (AList.update locale (old ++ map_of new) (stored_locales t domain)) (tl_store t)\<rparr>)"

definition Add :: "string \<Rightarrow> string \<Rightarrow> string \<Rightarrow> string \<Rightarrow> translator \<Rightarrow> translator" where
  "Add domain locale key message t = AddBundle domain locale [(key, message)] t"

text \<open>\<open>read\<close> is \<open>os.ReadFile\<close> followed by \<open>json.Unmarshal\<close>.\<close>

definition LoadJSONFile ::
    "(string \<Rightarrow> go_error + (string \<times> string) list) \<Rightarrow> string \<Rightarrow> string \<Rightarrow> string \<Rightarrow> translator \<Rightarrow> go_error option \<times> translator" where
  "LoadJSONFile read domain locale path t =
     (case read path of Inl err \<Rightarrow> (Some err, t) | Inr m \<Rightarrow> (None, AddBundle domain locale m t))"

text \<open>The entries of the directory are names with a flag for directories; the first error ends the loop.\<close>

fun load_entries ::
    "(string \<Rightarrow> go_error + (string \<times> string) list) \<Rightarrow> string \<Rightarrow> (string \<Rightarrow> string) \<Rightarrow> (string \<times> bool) list \<Rightarrow> translator \<Rightarrow> translator" where
  "load_entries read domain path_of [] t = t"
| "load_entries read domain path_of ((name, is_dir) # es) t =
     (if is_dir \<or> \<not> HasSuffix name ''.json'' then load_entries read domain path_of es t
      else
        case LoadJSONFile read domain (take (length name - 5) name) (path_of name) t of
          (Some err, t) \<Rightarrow> t
        | (None, t) \<Rightarrow> load_entries read domain path_of es t)"

definition WithJSONDir ::
    "(string \<Rightarrow> go_error + (string \<times> string) list) \<Rightarrow> (string \<Rightarrow> (string \<times> bool) list option) \<Rightarrow> (string \<Rightarrow> string \<Rightarrow> string) \<Rightarrow>
     string \<Rightarrow> string \<Rightarrow> translator \<Rightarrow> translator" where
  "WithJSONDir read readDir join domain dir t =
     (case readDir dir of None \<Rightarrow> t | Some entries \<Rightarrow> load_entries read domain (join dir) entries t)"

definition Domains :: "translator \<Rightarrow> string list" where
  "Domains t = sort (map fst (tl_store t))"

definition Locales :: "translator \<Rightarrow> string \<Rightarrow> string list" where
  "Locales t domain = sort (map fst (stored_locales t domain))"

definition splitDomain :: "string \<Rightarrow> string \<times> string" where
  "splitDomain key =
     (let domain = takeWhile (\<lambda>c. c \<noteq> CHR '':'') key
      in if domain \<noteq> key \<and> domain \<noteq> [] then (domain, drop (length domain + 1) key) else (''default'', key))"

definition i18n_Lookup :: "translator \<Rightarrow> string \<Rightarrow> string \<Rightarrow> go_error + string" where
  "i18n_Lookup t locale key =
     (let (domain, k) = splitDomain key
      in case stored_bundle t domain locale of
           None \<Rightarrow> Err (EPlain ''i18n: key not found'')
         | Some b \<Rightarrow> (case b k of None \<Rightarrow> Err (EPlain ''i18n: key not found'') | Some v \<Rightarrow> Ok v))"

section \<open>Placeholders\<close>

text \<open>
  The expression \<open>{{\s*([a-zA-Z0-9_.]+)\s*}}\<close>. White space, key characters and braces are disjoint, so a match at a
  position is found without backtracking.
\<close>

definition re_space :: "char \<Rightarrow> bool" where
  "re_space c \<longleftrightarrow> c \<in> {CHR '' '', CHR 0x09, CHR 0x0A, CHR 0x0C, CHR 0x0D}"

definition re_key :: "char \<Rightarrow> bool" where
  "re_key c \<longleftrightarrow>
     (let n = of_char c :: nat in (97 \<le> n \<and> n \<le> 122) \<or> (65 \<le> n \<and> n \<le> 90) \<or> (48 \<le> n \<and> n \<le> 57)) \<or> c = CHR ''_'' \<or> c = CHR ''.''"

definition match_placeholder :: "string \<Rightarrow> (string \<times> string) option" where
  "match_placeholder s =
     (if \<not> HasPrefix s ''{{'' then None
      else
        let r = dropWhile re_space (drop 2 s);
            key = takeWhile re_key r;
            r = dropWhile re_space (dropWhile re_key r)
        in if key \<noteq> [] \<and> HasPrefix r ''}}'' then Some (key, drop 2 r) else None)"

lemma match_placeholder_shorter:
  assumes "match_placeholder s = Some (key, rest)"
  shows "length rest < length s"
proof -
  let ?r = "dropWhile re_space (dropWhile re_key (dropWhile re_space (drop 2 s)))"
  have "length ?r \<le> length (drop 2 s)"
    by (rule order_trans [OF length_dropWhile_le order_trans [OF length_dropWhile_le length_dropWhile_le]])
  moreover have "rest = drop 2 ?r" "prefix ''{{'' s"
    using assms by (auto simp: match_placeholder_def Let_def split: if_splits)
  moreover have "2 \<le> length s" using calculation(3) prefix_length_le by fastforce
  ultimately show ?thesis by simp
qed

fun dig_parts :: "string list \<Rightarrow> any \<Rightarrow> any option" where
  "dig_parts [] cur = Some cur"
| "dig_parts (p # ps) cur =
     (case cur of
        AMap mm \<Rightarrow> (case map_of mm p of None \<Rightarrow> None | Some v \<Rightarrow> dig_parts ps v)
      | _ \<Rightarrow> None)"

definition dig :: "(string \<times> any) list \<Rightarrow> string \<Rightarrow> any option" where
  "dig m path = dig_parts (Split path CHR ''.'') (AMap m)"

function interpolate :: "(any \<Rightarrow> string) \<Rightarrow> (string \<times> any) list \<Rightarrow> string \<Rightarrow> string" where
  "interpolate fmt data s =
     (case s of
        [] \<Rightarrow> []
      | c # s' \<Rightarrow>
          (case match_placeholder s of
             None \<Rightarrow> c # interpolate fmt data s'
           | Some (key, rest) \<Rightarrow>
               (case dig data key of
                  None \<Rightarrow> take (length s - length rest) s
                | Some cur \<Rightarrow> Sprint fmt cur) @ interpolate fmt data rest))"
  by pat_completeness auto
termination
  by (relation "measure (\<lambda>(fmt, data, s). length s)") (auto dest: match_placeholder_shorter)

declare interpolate.simps [simp del]

section \<open>Translation\<close>

text \<open>\<open>int(v)\<close> of a \<open>float64\<close> with mantissa and exponent: the fraction is cut off.\<close>

definition float_trunc :: "int \<Rightarrow> int \<Rightarrow> int" where
  "float_trunc m e = (if e \<ge> 0 then m * 2 ^ nat e else sgn m * (\<bar>m\<bar> div 2 ^ nat (- e)))"

definition plural_count :: "(string \<times> any) list \<Rightarrow> int option \<Rightarrow> int" where
  "plural_count data n =
     (case n of
        Some cnt \<Rightarrow> cnt
      | None \<Rightarrow>
          (case map_of data ''count'' of
             Some (AInt v) \<Rightarrow> v
           | Some (AInt64 v) \<Rightarrow> v
           | Some (AFloat m e) \<Rightarrow> float_trunc m e
           | Some (AString s) \<Rightarrow> (case Atoi s of Some i \<Rightarrow> i | None \<Rightarrow> -1)
           | _ \<Rightarrow> -1))"

definition key_variants :: "string \<Rightarrow> int \<Rightarrow> string list" where
  "key_variants k cnt =
     (if cnt \<ge> 0 then [if cnt = 1 then k @ ''.one'' else k @ ''.other'', k] else [k])"

fun first_of :: "messages \<Rightarrow> string list \<Rightarrow> string option" where
  "first_of b [] = None"
| "first_of b (k # ks) = (case b k of Some v \<Rightarrow> Some v | None \<Rightarrow> first_of b ks)"

fun find_message :: "translator \<Rightarrow> string \<Rightarrow> string list \<Rightarrow> string list \<Rightarrow> string option" where
  "find_message t domain keys [] = None"
| "find_message t domain keys (loc # locs) =
     (case stored_bundle t domain loc of
        None \<Rightarrow> find_message t domain keys locs
      | Some b \<Rightarrow> (case first_of b keys of Some v \<Rightarrow> Some v | None \<Rightarrow> find_message t domain keys locs))"

definition search_locales :: "translator \<Rightarrow> string \<Rightarrow> string list" where
  "search_locales t locale =
     (let locale = (if locale = [] then tl_defaultLocale t else locale)
      in [locale] @ tl_fallbacks t @ (if tl_defaultLocale t \<noteq> [] then [tl_defaultLocale t] else []))"

definition i18n_T :: "(any \<Rightarrow> string) \<Rightarrow> translator \<Rightarrow> string \<Rightarrow> string \<Rightarrow> (string \<times> any) list \<Rightarrow> int option \<Rightarrow> string" where
  "i18n_T fmt t locale key data n =
     (let (domain, k) = splitDomain key;
          keys = key_variants k (plural_count data n);
          msg = (case find_message t domain keys (search_locales t locale) of None \<Rightarrow> k | Some v \<Rightarrow> v)
      in if data = [] then msg else interpolate fmt data msg)"

section \<open>Detection of the locale\<close>

definition available_locales :: "translator \<Rightarrow> string list" where
  "available_locales t = concat (map (\<lambda>(d, locs). map fst locs) (tl_store t))"

text \<open>The available locales are iterated in the order of the catalogue.\<close>

fun match_languages :: "string list \<Rightarrow> string list \<Rightarrow> string option" where
  "match_languages available [] = None"
| "match_languages available (part # parts) =
     (let lang = TrimSpace (hd (Split part CHR '';''));
          base = hd (SplitN 2 lang CHR ''-'')
      in if lang = [] then match_languages available parts
         else if lang \<in> set available then Some lang
         else case find (\<lambda>avail. EqualFold avail base \<or> HasPrefix (ToLower avail) (ToLower (base @ ''-''))) available of
                Some avail \<Rightarrow> Some avail
              | None \<Rightarrow> match_languages available parts)"

definition BestMatch :: "translator \<Rightarrow> string \<Rightarrow> string" where
  "BestMatch t acceptLang =
     (if TrimSpace acceptLang = [] then tl_defaultLocale t
      else case match_languages (available_locales t) (Split acceptLang CHR '','') of
             Some loc \<Rightarrow> loc
           | None \<Rightarrow> tl_defaultLocale t)"

text \<open>The locale in a context, here the values stored under the keys of this package.\<close>

definition ContextWithLocale :: "(string \<rightharpoonup> any) \<Rightarrow> string \<Rightarrow> (string \<rightharpoonup> any)" where
  "ContextWithLocale ctx locale = ctx(''i18n_locale'' \<mapsto> AString locale)"

definition LocaleFromContext :: "(string \<rightharpoonup> any) \<Rightarrow> string" where
  "LocaleFromContext ctx = (case ctx ''i18n_locale'' of Some (AString s) \<Rightarrow> s | _ \<Rightarrow> [])"

record detect_options =
  dt_QueryParam :: string
  dt_HeaderName :: string
  dt_CookieName :: string

definition defaultGinDetectOptions :: detect_options where
  "defaultGinDetectOptions = \<lparr>dt_QueryParam = ''lang'', dt_HeaderName = ''Accept-Language'', dt_CookieName = ''lang''\<rparr>"

text \<open>\<open>cookie\<close> is \<open>c.Cookie\<close>; the locale is stored in the gin context, as it is in the context of the request.\<close>

definition detect_locale :: "translator \<Rightarrow> detect_options \<Rightarrow> (string \<Rightarrow> string option) \<Rightarrow> gin_ctx \<Rightarrow> string" where
  "detect_locale t o' cookie c =
     (let loc = TrimSpace (Query c (dt_QueryParam o'));
          loc = (if loc = [] then BestMatch t (index_str (gc_Header c) (dt_HeaderName o')) else loc);
          loc = (if loc = [] then (case cookie (dt_CookieName o') of Some v \<Rightarrow> v | None \<Rightarrow> loc) else loc)
      in if loc = [] then tl_defaultLocale t else loc)"

definition i18n_GinMiddleware :: "translator \<Rightarrow> detect_options \<Rightarrow> (string \<Rightarrow> string option) \<Rightarrow> gin_ctx \<Rightarrow> mw_result" where
  "i18n_GinMiddleware t o' cookie c =
     Next (c\<lparr>gc_keys := (gc_keys c)(''i18n_locale'' \<mapsto> AString (detect_locale t o' cookie c))\<rparr>)"

section \<open>Lemmas\<close>

lemma key_not_space: "re_key c \<Longrightarrow> \<not> re_space c"
  by (auto simp: re_key_def re_space_def Let_def)

lemma brace_facts: "\<not> re_space CHR ''}''" "\<not> re_key CHR ''}''"
  by (simp_all add: re_key_def re_space_def)

lemma match_hole:
  assumes "\<forall>c\<in>set a. re_space c" "\<forall>c\<in>set b. re_space c" "key \<noteq> []" "\<forall>c\<in>set key. re_key c"
  shows "match_placeholder (''{{'' @ a @ key @ b @ ''}}'' @ r) = Some (key, r)"
proof -
  obtain k key' where key: "key = k # key'" using assms(3) by (cases key) auto
  have k: "\<not> re_space k" using assms(4) key key_not_space by simp
  have 1: "dropWhile re_space (a @ key @ b @ ''}}'' @ r) = key @ b @ ''}}'' @ r"
    using assms(1) k key by (simp add: dropWhile_append2)
  have stop: "\<not> re_key c" if "b @ ''}}'' @ r = c # z" for c z
    using that assms(2) key_not_space brace_facts by (cases b) auto
  have 2: "takeWhile re_key (key @ b @ ''}}'' @ r) = key" "dropWhile re_key (key @ b @ ''}}'' @ r) = b @ ''}}'' @ r"
    using assms(4) stop by (cases "b @ ''}}'' @ r"; simp add: takeWhile_append2 dropWhile_append2)+
  have 3: "dropWhile re_space (b @ ''}}'' @ r) = ''}}'' @ r"
    using assms(2) brace_facts by (simp add: dropWhile_append2)
  have d: "drop 2 (''{{'' @ a @ key @ b @ ''}}'' @ r) = a @ key @ b @ ''}}'' @ r" by simp
  show ?thesis unfolding match_placeholder_def Let_def d 1 2 3 using assms(3) by simp
qed

lemma interpolate_literal:
  "CHR ''{'' \<notin> set s \<Longrightarrow> interpolate fmt data (s @ r) = s @ interpolate fmt data r"
proof (induction s)
  case (Cons c s)
  then have "match_placeholder (c # s @ r) = None" by (auto simp: match_placeholder_def)
  then show ?case using Cons by (simp add: interpolate.simps [of fmt data "c # s @ r"])
qed simp

lemma interpolate_match:
  assumes "match_placeholder (p @ r) = Some (key, r)"
  shows "interpolate fmt data (p @ r) = (case dig data key of None \<Rightarrow> p | Some cur \<Rightarrow> Sprint fmt cur) @ interpolate fmt data r"
proof -
  obtain c s' where s: "p @ r = c # s'" using assms by (cases "p @ r") (auto simp: match_placeholder_def)
  have "take (length (p @ r) - length r) (p @ r) = p" by simp
  with assms show ?thesis unfolding s by (subst interpolate.simps) (simp split: option.split)
qed

text \<open>The message at a place of the catalogue, and what an addition does to it.\<close>

definition message_at :: "translator \<Rightarrow> string \<Rightarrow> string \<Rightarrow> string \<Rightarrow> string option" where
  "message_at t domain locale key = (case stored_bundle t domain locale of None \<Rightarrow> None | Some b \<Rightarrow> b key)"

lemma message_at_Add:
  assumes "domain \<noteq> []"
  shows "message_at (Add domain locale key msg t) d l k =
    (if d = domain \<and> l = locale \<and> k = key then Some msg else message_at t d l k)"
  using assms
  by (auto simp: message_at_def Add_def AddBundle_def Let_def stored_bundle_def stored_locales_def update_conv' map_add_def
      split: option.splits if_splits)

lemma first_of_head: "b k = Some v \<Longrightarrow> first_of b (k # ks) = Some v"
  by simp

lemma splitDomain_joined:
  assumes "domain \<noteq> []" "CHR '':'' \<notin> set domain"
  shows "splitDomain (domain @ '':'' @ key) = (domain, key)"
proof -
  have "takeWhile (\<lambda>c. c \<noteq> CHR '':'') (domain @ '':'' @ key) = domain"
    using assms(2) by (subst takeWhile_append2) auto
  then show ?thesis using assms(1) by (simp add: splitDomain_def)
qed

section \<open>Properties\<close>

text \<open>A template as pieces of text and placeholders with the space around their key.\<close>

datatype segment = Lit string | Hole string string string

fun segment_ok :: "segment \<Rightarrow> bool" where
  "segment_ok (Lit s) \<longleftrightarrow> CHR ''{'' \<notin> set s"
| "segment_ok (Hole a key b) \<longleftrightarrow> list_all re_space a \<and> list_all re_space b \<and> key \<noteq> [] \<and> list_all re_key key"

fun segment_text :: "segment \<Rightarrow> string" where
  "segment_text (Lit s) = s"
| "segment_text (Hole a key b) = ''{{'' @ a @ key @ b @ ''}}''"

fun segment_value :: "(any \<Rightarrow> string) \<Rightarrow> (string \<times> any) list \<Rightarrow> segment \<Rightarrow> string" where
  "segment_value fmt data (Lit s) = s"
| "segment_value fmt data (Hole a key b) =
     (case dig data key of None \<Rightarrow> ''{{'' @ a @ key @ b @ ''}}'' | Some v \<Rightarrow> Sprint fmt v)"

text \<open>
  C27. Interpolation replaces exactly the placeholders. In a template of texts and placeholders every
  placeholder whose key has a value becomes that value, every other one stays as it is, and the texts are
  not changed. Values are inserted as they are: a value that looks like a placeholder is not expanded.
\<close>

theorem interpolation_exact:
  assumes "list_all segment_ok segments"
  shows "interpolate fmt data (concat (map segment_text segments)) = concat (map (segment_value fmt data) segments)"
  using assms
proof (induction segments)
  case Nil
  then show ?case by (simp add: interpolate.simps)
next
  case (Cons seg segs)
  show ?case
  proof (cases seg)
    case (Lit s)
    then show ?thesis using Cons by (simp add: interpolate_literal)
  next
    case (Hole a key b)
    let ?r = "concat (map segment_text segs)"
    have "match_placeholder (''{{'' @ a @ key @ b @ ''}}'' @ ?r) = Some (key, ?r)"
      by (rule match_hole) (use Cons.prems Hole in \<open>auto simp: list_all_iff\<close>)
    then have "match_placeholder (segment_text seg @ ?r) = Some (key, ?r)" using Hole by simp
    from interpolate_match [OF this, of fmt data] show ?thesis using Cons Hole by (simp split: option.split)
  qed
qed

theorem interpolation_exact_witness:
  "interpolate (\<lambda>_. []) [(''user'', AMap [(''name'', AString ''{{x}}'')])] ''Hi {{ user.name }}, {{y}}!'' = ''Hi {{x}}, {{y}}!''"
proof -
  let ?segs = "[Lit ''Hi '', Hole '' '' ''user.name'' '' '', Lit '', '', Hole [] ''y'' [], Lit ''!'']"
  have ok: "list_all segment_ok ?segs" by code_simp
  have v: "dig [(''user'', AMap [(''name'', AString ''{{x}}'')])] ''user.name'' = Some (AString ''{{x}}'')"
    "dig [(''user'', AMap [(''name'', AString ''{{x}}'')])] ''y'' = None" by code_simp+
  from interpolation_exact [OF ok, of "\<lambda>_. []" "[(''user'', AMap [(''name'', AString ''{{x}}'')])]"] show ?thesis
    by (simp add: v)
qed

text \<open>
  C28. An added message is what the translation finds. After \<open>Add\<close> the key \<open>domain:key\<close> translates to the message
  in its locale, whatever was stored before and whatever the fallbacks are, and every other message of the
  catalogue is the same.
\<close>

theorem translation_round_trip:
  assumes "domain \<noteq> []" and "CHR '':'' \<notin> set domain" and "locale \<noteq> []"
  shows "i18n_T fmt (Add domain locale key msg t) locale (domain @ '':'' @ key) [] None = msg \<and>
    i18n_Lookup (Add domain locale key msg t) locale (domain @ '':'' @ key) = Ok msg \<and>
    (\<forall>d l k. (d, l, k) \<noteq> (domain, locale, key) \<longrightarrow>
       message_at (Add domain locale key msg t) d l k = message_at t d l k)"
proof -
  let ?t = "Add domain locale key msg t"
  obtain b where b: "stored_bundle ?t domain locale = Some b" "b key = Some msg"
    using message_at_Add [OF assms(1), of "locale" key msg t domain "locale" key] by (auto simp: message_at_def split: option.splits)
  have "find_message ?t domain [key] (search_locales ?t locale) = Some msg"
    using assms(3) b by (simp add: search_locales_def)
  then have "i18n_T fmt ?t locale (domain @ '':'' @ key) [] None = msg"
    by (simp add: i18n_T_def splitDomain_joined [OF assms(1,2), simplified] plural_count_def key_variants_def)
  moreover have "i18n_Lookup ?t locale (domain @ '':'' @ key) = Ok msg"
    using b by (simp add: i18n_Lookup_def splitDomain_joined [OF assms(1,2), simplified])
  ultimately show ?thesis using message_at_Add [OF assms(1)] by auto
qed

theorem translation_round_trip_witness:
  "i18n_T (\<lambda>_. []) (Add ''auth'' ''de'' ''hello'' ''Hallo'' (i18n_New [WithFallbackLocales [''fr'']])) ''de'' ''auth:hello'' [] None = ''Hallo''"
  using translation_round_trip [of "''auth''" "''de''" "\<lambda>_. []" "''hello''" "''Hallo''" "i18n_New [WithFallbackLocales [''fr'']]"] by simp

text \<open>
  The cookie is never read: without a usable header \<open>BestMatch\<close> gives the default locale, which is not empty, so
  the branch for the cookie is not reached, although the comment names it before the default.
\<close>

lemma match_languages_known:
  "match_languages available parts = Some lang \<Longrightarrow> lang \<in> set available"
  by (induction parts) (auto simp: Let_def find_Some_iff split: if_splits option.splits)

lemma locale_cookie_ignored:
  assumes "tl_defaultLocale t \<noteq> []" "[] \<notin> set (available_locales t)"
  shows "detect_locale t o' cookie c = detect_locale t o' (\<lambda>_. None) c"
proof -
  have "BestMatch t header \<noteq> []" for header
    using assms match_languages_known [of "available_locales t" "Split header CHR '',''"]
    by (auto simp: BestMatch_def split: option.splits)
  then show ?thesis by (simp add: detect_locale_def Let_def)
qed

end
