(* ===== verification/Utils.thy ===== *)
theory Utils
  imports Core_Prelude
begin

text \<open>
  \<open>pkg/utils\<close>: the string, time and slice helpers, and \<open>pkg/version\<close>. Strings are bytes, so the helpers that count or copy runes come with
  the decoding of UTF-8 that a \<open>range\<close> over a string performs. As everywhere, \<open>ToLower\<close> changes ASCII letters only.
\<close>

section \<open>UTF-8\<close>

text \<open>How many bytes a rune takes by its first byte (0: no rune starts so), and which second bytes may follow.\<close>

definition rune_width :: "nat \<Rightarrow> nat" where
  "rune_width b =
     (if b < 0x80 then 1
      else if 0xC2 \<le> b \<and> b \<le> 0xDF then 2
      else if 0xE0 \<le> b \<and> b \<le> 0xEF then 3
      else if 0xF0 \<le> b \<and> b \<le> 0xF4 then 4 else 0)"

definition second_ok :: "nat \<Rightarrow> nat \<Rightarrow> bool" where
  "second_ok b0 b1 \<longleftrightarrow>
     (if b0 = 0xE0 then 0xA0 \<le> b1 else if b0 = 0xF0 then 0x90 \<le> b1 else 0x80 \<le> b1) \<and>
     (if b0 = 0xED then b1 \<le> 0x9F else if b0 = 0xF4 then b1 \<le> 0x8F else b1 \<le> 0xBF)"

definition continuation :: "char \<Rightarrow> bool" where
  "continuation c \<longleftrightarrow> 0x80 \<le> (of_char c :: nat) \<and> (of_char c :: nat) \<le> 0xBF"

text \<open>The length of the encoding in front of a string, 0 when there is no valid one.\<close>

definition rune_len :: "string \<Rightarrow> nat" where
  "rune_len s =
     (if s = [] then 0
      else
        let n = rune_width (of_char (hd s))
        in if n \<le> 1 then n
           else if n \<le> length s \<and> second_ok (of_char (hd s)) (of_char (s ! 1)) \<and> list_all continuation (take (n - 2) (drop 2 s))
           then n else 0)"

definition RuneError :: string where "RuneError = [CHR 0xEF, CHR 0xBF, CHR 0xBD]"

text \<open>The runes a \<open>range\<close> over a string visits, each as the bytes that writing it gives.\<close>

function runes :: "string \<Rightarrow> string list" where
  "runes [] = []"
| "runes (c # cs) =
     (let n = rune_len (c # cs)
      in if n = 0 then RuneError # runes cs else take n (c # cs) # runes (drop (n - 1) cs))"
  by pat_completeness auto
termination by (relation "measure length") auto

text \<open>\<open>strings.Split\<close> by an empty separator: the same runes, with their own bytes.\<close>

function explode :: "string \<Rightarrow> string list" where
  "explode [] = []"
| "explode (c # cs) = (let n = max 1 (rune_len (c # cs)) in take n (c # cs) # explode (drop (n - 1) cs))"
  by pat_completeness auto
termination by (relation "measure length") auto

section \<open>stringutil.go\<close>

text \<open>\<open>strings.Trim\<close> with a cutset, on valid UTF-8.\<close>

definition Trim :: "string \<Rightarrow> string \<Rightarrow> string" where
  "Trim s cutset = rev (strip_front (map rev (runes cutset)) (rev (strip_front (runes cutset) s)))"

fun Coalesce :: "string list \<Rightarrow> string" where
  "Coalesce [] = []"
| "Coalesce (v # values) = (if TrimSpace v \<noteq> [] then v else Coalesce values)"

definition DefaultIfEmpty :: "string \<Rightarrow> string \<Rightarrow> string" where
  "DefaultIfEmpty s def = (if TrimSpace s = [] then def else s)"

definition slug_char :: "char \<Rightarrow> bool" where
  "slug_char c \<longleftrightarrow> CHR ''a'' \<le> c \<and> c \<le> CHR ''z'' \<or> CHR ''0'' \<le> c \<and> c \<le> CHR ''9'' \<or> c = CHR ''-''"

text \<open>\<open>ReplaceAllString\<close> of \<open>-+\<close> by one hyphen.\<close>

fun collapse_hyphens :: "string \<Rightarrow> string" where
  "collapse_hyphens (c # d # cs) =
     (if c = CHR ''-'' \<and> d = CHR ''-'' then collapse_hyphens (d # cs) else c # collapse_hyphens (d # cs))"
| "collapse_hyphens s = s"

definition Slugify :: "string \<Rightarrow> string" where
  "Slugify s =
     (let s = ToLower (TrimSpace s);
          s = map (\<lambda>c. if c = CHR '' '' then CHR ''-'' else c) s;
          s = collapse_hyphens s;
          s = filter slug_char s
      in Trim s ''-'')"

definition ellipsis :: string where "ellipsis = [CHR 0xE2, CHR 0x80, CHR 0xA6]"

definition Truncate :: "string \<Rightarrow> int \<Rightarrow> bool \<Rightarrow> string" where
  "Truncate s maxRunes addEllipsis =
     (if maxRunes \<le> 0 \<or> int (length (runes s)) \<le> maxRunes then s
      else
        let out = concat (take (nat maxRunes) (runes s))
        in if addEllipsis \<and> \<not> HasSuffix out ellipsis then out @ ellipsis else out)"

text \<open>\<open>strings.Split\<close> by a separator of any length; \<open>cur\<close> is the part read so far, reversed.\<close>

function split_by :: "string \<Rightarrow> string \<Rightarrow> string \<Rightarrow> string list" where
  "split_by sep cur [] = [rev cur]"
| "split_by sep cur (c # cs) =
     (if HasPrefix (c # cs) sep then rev cur # split_by sep [] (drop (length sep - 1) cs) else split_by sep (c # cur) cs)"
  by pat_completeness auto
termination by (relation "measure (\<lambda>(sep, cur, s). length s)") auto

definition strings_Split :: "string \<Rightarrow> string \<Rightarrow> string list" where
  "strings_Split s sep = (if sep = [] then explode s else split_by sep [] s)"

definition SplitAndTrim :: "string \<Rightarrow> string \<Rightarrow> bool \<Rightarrow> string list" where
  "SplitAndTrim s sep dropEmpty = filter (\<lambda>p. \<not> (dropEmpty \<and> p = [])) (map TrimSpace (strings_Split s sep))"

definition JoinNonEmpty :: "string \<Rightarrow> string list \<Rightarrow> string" where
  "JoinNonEmpty sep parts = Join (filter (\<lambda>p. p \<noteq> []) (map TrimSpace parts)) sep"

definition ContainsIgnoreCase :: "string \<Rightarrow> string \<Rightarrow> bool" where
  "ContainsIgnoreCase s substr \<longleftrightarrow> list_ex (\<lambda>t. HasPrefix t (ToLower substr)) (suffixes (ToLower s))"

definition IsASCII :: "string \<Rightarrow> bool" where
  "IsASCII s \<longleftrightarrow> list_all (\<lambda>r. length r = 1 \<and> (of_char (hd r) :: nat) \<le> 0x7F) (runes s)"

section \<open>timeutil.go and validation.go\<close>

text \<open>\<open>ParseDuration\<close> is \<open>time.ParseDuration\<close>, \<open>ParseAddress\<close> says whether \<open>mail.ParseAddress\<close> fails, \<open>zero\<close> is the zero value of the type.\<close>

definition MustParseDuration :: "(string \<Rightarrow> 'e + go_duration) \<Rightarrow> string \<Rightarrow> go_duration \<Rightarrow> go_duration" where
  "MustParseDuration ParseDuration s def = (case ParseDuration s of Inr d \<Rightarrow> d | Inl _ \<Rightarrow> def)"

definition ClampDuration :: "go_duration \<Rightarrow> go_duration \<Rightarrow> go_duration \<Rightarrow> go_duration" where
  "ClampDuration d mn mx = (if d < mn then mn else if d > mx then mx else d)"

definition IsValidEmail :: "(string \<Rightarrow> 'e option) \<Rightarrow> string \<Rightarrow> bool" where
  "IsValidEmail ParseAddress email = (if email = [] then False else ParseAddress email = None)"

fun CoalesceVal :: "'a \<Rightarrow> 'a list \<Rightarrow> 'a" where
  "CoalesceVal zero [] = zero"
| "CoalesceVal zero (v # values) = (if v \<noteq> zero then v else CoalesceVal zero values)"

text \<open>The loops over slices; \<open>Map\<close> writes into a slice made with the length of its input.\<close>

definition IsZero :: "'a \<Rightarrow> 'a \<Rightarrow> bool" where
  "IsZero zero v = (v = zero)"

definition RequireNonZero :: "'a \<Rightarrow> 'a \<Rightarrow> 'a \<times> bool" where
  "RequireNonZero zero v = (if IsZero zero v then (zero, False) else (v, True))"

fun map_loop :: "('a \<Rightarrow> 'b) \<Rightarrow> 'a list \<Rightarrow> nat \<Rightarrow> 'b list \<Rightarrow> 'b list" where
  "map_loop f [] i out = out"
| "map_loop f (v # vs) i out = map_loop f vs (i + 1) (out[i := f v])"

definition utils_Map :: "'b \<Rightarrow> 'a list \<Rightarrow> ('a \<Rightarrow> 'b) \<Rightarrow> 'b list" where
  "utils_Map zero xs f = map_loop f xs 0 (replicate (length xs) zero)"

fun filter_loop :: "('a \<Rightarrow> bool) \<Rightarrow> 'a list \<Rightarrow> 'a list \<Rightarrow> 'a list" where
  "filter_loop f [] out = out"
| "filter_loop f (v # vs) out = filter_loop f vs (if f v then out @ [v] else out)"

definition utils_Filter :: "'a list \<Rightarrow> ('a \<Rightarrow> bool) \<Rightarrow> 'a list" where
  "utils_Filter xs f = filter_loop f xs []"

fun Reduce :: "'a list \<Rightarrow> 'r \<Rightarrow> ('r \<Rightarrow> 'a \<Rightarrow> 'r) \<Rightarrow> 'r" where
  "Reduce [] acc f = acc"
| "Reduce (v # vs) acc f = Reduce vs (f acc v) f"

fun utils_Contains :: "'a list \<Rightarrow> 'a \<Rightarrow> bool" where
  "utils_Contains [] target = False"
| "utils_Contains (v # vs) target = (if v = target then True else utils_Contains vs target)"

fun unique_loop :: "'a list \<Rightarrow> 'a set \<Rightarrow> 'a list \<Rightarrow> 'a list" where
  "unique_loop [] seen out = out"
| "unique_loop (v # vs) seen out = (if v \<in> seen then unique_loop vs seen out else unique_loop vs (insert v seen) (out @ [v]))"

definition Unique :: "'a list \<Rightarrow> 'a list" where
  "Unique xs = unique_loop xs {} []"

definition MergeMaps :: "('k \<times> 'v) list \<Rightarrow> ('k \<times> 'v) list \<Rightarrow> ('k \<times> 'v) list" where
  "MergeMaps a b = fold (\<lambda>(k, v). AList.update k v) b (fold (\<lambda>(k, v). AList.update k v) a [])"

section \<open>version.go\<close>

record build_info =
  bi_Version :: string
  bi_Commit :: string
  bi_Date :: string
  bi_Go :: string

definition local_build :: "string \<Rightarrow> build_info" where
  "local_build go = \<lparr>bi_Version = ''dev'', bi_Commit = [], bi_Date = [], bi_Go = go\<rparr>"

definition version_Info :: "build_info \<Rightarrow> string \<rightharpoonup> string" where
  "version_Info b = [''version'' \<mapsto> bi_Version b, ''commit'' \<mapsto> bi_Commit b, ''date'' \<mapsto> bi_Date b, ''go'' \<mapsto> bi_Go b]"

section \<open>Runes\<close>

lemma rune_len_le: "rune_len s \<le> length s"
  by (auto simp: rune_len_def Let_def rune_width_def Suc_le_eq)

lemma rune_len_prefix:
  assumes "rune_len s = n" "0 < n"
  shows "rune_len (take n s @ t) = n"
proof -
  have s: "s \<noteq> []" "n \<le> length s" using assms rune_len_le [of s] by (auto simp: rune_len_def)
  then have "hd (take n s @ t) = hd s" "take n s @ t \<noteq> []" using assms(2) by (cases s; cases n; simp)+
  moreover have "(take n s @ t) ! 1 = s ! 1" if "2 \<le> n" using that s(2) by (simp add: nth_append)
  moreover have "take (n - 2) (drop 2 (take n s @ t)) = take (n - 2) (drop 2 s)" if "2 \<le> n"
    using that s(2) by (simp add: drop_take)
  ultimately show ?thesis using assms s
    by (auto simp: rune_len_def Let_def split: if_splits)
qed

lemma runes_valid_chunk:
  assumes "rune_len s = n" "0 < n"
  shows "runes (take n s @ t) = take n s # runes t"
proof -
  have n: "n \<le> length s" using assms rune_len_le by metis
  obtain c cs where cs: "take n s @ t = c # cs" "take n s = c # drop 1 (take n s)" using assms n by (cases s; cases n) auto
  have r: "rune_len (c # cs) = n" using rune_len_prefix [OF assms, of t] cs by simp
  have "take n (c # cs) = take n s" "drop n (c # cs) = t" using n by (simp_all flip: cs(1))
  moreover have "drop (n - 1) cs = drop n (c # cs)" using assms(2) by (cases n) simp_all
  ultimately show ?thesis using r assms(2) cs(1) by simp
qed

lemma runes_RuneError [simp]: "runes (RuneError @ t) = RuneError # runes t"
proof -
  have "rune_len RuneError = 3" by code_simp
  from runes_valid_chunk [OF this, of t] show ?thesis by (simp add: RuneError_def)
qed

lemma runes_first:
  obtains ch rest where "runes (c # cs) = ch # runes rest" "length rest \<le> length cs" "\<And>u. runes (ch @ u) = ch # runes u"
proof (cases "rune_len (c # cs) = 0")
  case True
  then show ?thesis using that [of RuneError cs] by simp
next
  case False
  then show ?thesis using that [of "take (rune_len (c # cs)) (c # cs)" "drop (rune_len (c # cs) - 1) cs"] runes_valid_chunk [of "c # cs"]
    by (simp add: Let_def)
qed

text \<open>What was read of a string, written again, reads as the same runes.\<close>

lemma runes_take: "runes (concat (take k (runes s)) @ t) = take k (runes s) @ runes t"
proof (induction "length s" arbitrary: s k rule: less_induct)
  case less
  show ?case
  proof (cases s)
    case (Cons c cs)
    obtain ch rest where ch: "runes s = ch # runes rest" "length rest < length s" "\<And>u. runes (ch @ u) = ch # runes u"
      unfolding Cons by (rule runes_first [of c cs]) auto
    show ?thesis using less [OF ch(2), of "k - 1"] ch(1,3) by (cases k) simp_all
  qed simp
qed

text \<open>
  What \<open>Truncate\<close> returns for a positive limit has at most \<open>maxRunes\<close> runes, one more with an ellipsis, and starts with the
  runes of the string up to the limit, whatever bytes it holds (an invalid byte counts as one rune).
\<close>

lemma truncate_bounded:
  assumes "0 < maxRunes"
  shows "int (length (runes (Truncate s maxRunes addEllipsis))) \<le> maxRunes + (if addEllipsis then 1 else 0) \<and>
    take (nat maxRunes) (runes (Truncate s maxRunes addEllipsis)) = take (nat maxRunes) (runes s)"
proof -
  have "runes ellipsis = [ellipsis]" by code_simp
  then show ?thesis
    using assms runes_take [of "nat maxRunes" s "[]"] runes_take [of "nat maxRunes" s ellipsis]
    by (simp add: Truncate_def Let_def)
qed

lemma truncate_bounded_witness:
  "Truncate ''hello'' 3 True = ''hel'' @ ellipsis \<and>
   int (length (runes (Truncate ''hello'' 3 True))) \<le> 3 + 1 \<and>
   take (nat 3) (runes (Truncate ''hello'' 3 True)) = take (nat 3) (runes ''hello'')"
proof -
  have "Truncate ''hello'' 3 True = ''hel'' @ ellipsis" by code_simp
  then show ?thesis using truncate_bounded [of 3 "''hello''" True] by simp
qed

text \<open>The limit itself is exceeded: a truncated ASCII string with an ellipsis has one rune more than \<open>maxRunes\<close>.\<close>

lemma ellipsis_exceeds_limit: "length (runes (Truncate ''hello'' 3 True)) = 4"
  by code_simp

lemma runes_ascii: "list_all (\<lambda>c. (of_char c :: nat) < 0x80) s \<Longrightarrow> runes s = map (\<lambda>c. [c]) s"
  by (induction s) (simp_all add: rune_len_def rune_width_def)

text \<open>\<open>IsASCII\<close> is the test of every byte.\<close>

lemma IsASCII_iff: "IsASCII s \<longleftrightarrow> list_all (\<lambda>c. (of_char c :: nat) < 0x80) s"
proof (induction s rule: runes.induct)
  case (2 c cs)
  show ?case
  proof (cases "(of_char c :: nat) < 0x80")
    case True
    then have "rune_len (c # cs) = 1" by (simp add: rune_len_def rune_width_def)
    then show ?thesis using 2 True by (simp add: IsASCII_def Let_def)
  next
    case False
    then have "rune_len (c # cs) \<noteq> 1" by (auto simp: rune_len_def rune_width_def Let_def)
    then have "\<not> IsASCII (c # cs)"
      using False rune_len_le [of "c # cs"] by (auto simp: IsASCII_def Let_def RuneError_def)
    then show ?thesis using False by simp
  qed
qed (simp add: IsASCII_def)

section \<open>Slugs\<close>

declare runes.simps(2) [simp del]

lemma Trim_ends:
  assumes "Trim s cutset = t"
  shows "\<not> starts_with_any (runes cutset) t" "\<not> starts_with_any (map rev (runes cutset)) (rev t)" "set t \<subseteq> set s"
proof -
  let ?f = "strip_front (runes cutset) s"
  have t: "rev t = strip_front (map rev (runes cutset)) (rev ?f)" using assms by (auto simp: Trim_def)
  show "\<not> starts_with_any (map rev (runes cutset)) (rev t)" unfolding t by (rule strip_front_clean)
  have sub: "suffix (rev t) (rev ?f)" unfolding t by (rule strip_front_suffix)
  then show "\<not> starts_with_any (runes cutset) t"
    using starts_with_any_prefix strip_front_clean by (metis suffix_to_prefix rev_rev_ident)
  show "set t \<subseteq> set s"
    using sub strip_front_suffix [of "runes cutset" s] by (metis set_mono_suffix set_rev subset_trans)
qed

lemma Trim_id:
  "\<not> starts_with_any (runes cutset) t \<Longrightarrow> \<not> starts_with_any (map rev (runes cutset)) (rev t) \<Longrightarrow> Trim t cutset = t"
  by (simp add: Trim_def strip_front_id)

lemma starts_with_hyphen: "starts_with_any [''-''] s \<longleftrightarrow> s \<noteq> [] \<and> hd s = CHR ''-''"
  by (cases s) (auto simp: starts_with_any_def)

lemma runes_hyphen: "runes ''-'' = [''-'']"
  by code_simp

text \<open>A slug: letters, digits and hyphens, with no hyphen at either end.\<close>

definition is_slug :: "string \<Rightarrow> bool" where
  "is_slug s \<longleftrightarrow> list_all slug_char s \<and> (s \<noteq> [] \<longrightarrow> hd s \<noteq> CHR ''-'' \<and> last s \<noteq> CHR ''-'')"

lemma Trim_hyphen_slug: "list_all slug_char s \<Longrightarrow> is_slug (Trim s ''-'')"
  using Trim_ends [of s "''-''", OF refl]
  by (auto simp: is_slug_def runes_hyphen starts_with_hyphen hd_rev list_all_iff)

lemma slug_char_plain: "slug_char c \<Longrightarrow> plain_char c \<and> to_lower_char c = c \<and> c \<noteq> CHR '' ''"
  by (auto simp: slug_char_def plain_char_code less_eq_char_def to_lower_char_def)

lemma collapse_id: "\<not> sublist ''--'' s \<Longrightarrow> collapse_hyphens s = s"
  by (induction s rule: collapse_hyphens.induct) (auto simp: sublist_Cons_right)

lemma Slugify_is_slug: "is_slug (Slugify s)"
  unfolding Slugify_def Let_def by (rule Trim_hyphen_slug) (simp add: list_all_iff)



text \<open>Hyphens are collapsed before other characters are removed, so a slug may still have two in a row and \<open>Slugify\<close> is not idempotent.\<close>

lemma slugify_not_idempotent: "Slugify ''a-!-b'' = ''a--b'' \<and> Slugify (Slugify ''a-!-b'') = ''a-b''"
  by code_simp

section \<open>Splitting, slices and durations\<close>

text \<open>The generic loops compute the functions of the library.\<close>

lemma map_loop_eq:
  "length out = i + length xs \<Longrightarrow> map_loop f xs i out = take i out @ map f xs"
proof (induction xs arbitrary: i out)
  case (Cons x xs)
  from Cons.prems have "map_loop f xs (i + 1) (out[i := f x]) = take (i + 1) (out[i := f x]) @ map f xs"
    by (intro Cons.IH) simp
  moreover have "take (i + 1) (out[i := f x]) = take i out @ [f x]"
    using Cons.prems by (simp add: take_Suc_conv_app_nth)
  ultimately show ?case by simp
qed simp

lemma filter_loop_eq: "filter_loop f xs out = out @ filter f xs"
  by (induction xs arbitrary: out) simp_all

lemma slice_loops:
  "utils_Map zero xs f = map f xs" "utils_Filter xs p = filter p xs" "Reduce xs acc g = foldl g acc xs"
  "utils_Contains xs t \<longleftrightarrow> t \<in> set xs"
proof -
  show "Reduce xs acc g = foldl g acc xs" by (induction xs arbitrary: acc) simp_all
  show "utils_Contains xs t \<longleftrightarrow> t \<in> set xs" by (induction xs) auto
qed (simp_all add: utils_Map_def utils_Filter_def map_loop_eq filter_loop_eq)

lemma split_by_char: "split_by [sep] cur s = (case Split s sep of p # ps \<Rightarrow> (rev cur @ p) # ps)"
proof (induction s arbitrary: cur)
  case (Cons c cs)
  then show ?case by (cases "Split cs sep") auto
qed simp

lemma strings_Split_char: "strings_Split s [sep] = Split s sep"
  by (simp add: strings_Split_def split_by_char split: list.split)

text \<open>\<open>SplitAndTrim\<close> reads back what \<open>JoinNonEmpty\<close> wrote, for parts without the separator: the trimmed parts that are not empty.\<close>

lemma split_join_round_trip:
  assumes "\<forall>p\<in>set parts. sep \<notin> set (TrimSpace p)"
  shows "SplitAndTrim (JoinNonEmpty [sep] parts) [sep] True = filter (\<lambda>p. p \<noteq> []) (map TrimSpace parts)"
proof -
  let ?ps = "filter (\<lambda>p. p \<noteq> []) (map TrimSpace parts)"
  have id: "map TrimSpace ?ps = ?ps" by (rule map_idI) auto
  show ?thesis
  proof (cases "?ps = []")
    case True
    then show ?thesis unfolding SplitAndTrim_def JoinNonEmpty_def True by (simp add: strings_Split_char)
  next
    case False
    have "Split (Join ?ps [sep]) sep = ?ps" by (rule Split_Join [OF False]) (use assms in auto)
    then show ?thesis unfolding SplitAndTrim_def JoinNonEmpty_def strings_Split_char by (simp only: id simp_thms filter_filter)
  qed
qed

lemma remdups_snoc: "rev (remdups (rs @ [x])) = x # filter (\<lambda>y. y \<noteq> x) (rev (remdups rs))"
  by (induction rs) auto

lemma unique_loop_spec:
  "unique_loop xs (set out) out = out @ filter (\<lambda>x. x \<notin> set out) (rev (remdups (rev xs)))"
proof (induction xs arbitrary: out)
  case (Cons x xs)
  show ?case
  proof (cases "x \<in> set out")
    case True
    then show ?thesis using Cons [of out] by (auto simp: remdups_snoc intro!: filter_cong)
  next
    case False
    then show ?thesis using Cons [of "out @ [x]"] by (auto simp: remdups_snoc intro!: filter_cong)
  qed
qed simp

lemma Unique_eq: "Unique xs = rev (remdups (rev xs))"
  using unique_loop_spec [of xs "[]"] by (simp add: Unique_def)

lemma ClampDuration_between: "mn \<le> mx \<Longrightarrow> mn \<le> ClampDuration d mn mx \<and> ClampDuration d mn mx \<le> mx"
  by (simp add: ClampDuration_def)

end
