(* ===== verification/Validator.thy ===== *)
theory Validator
  imports Apperr
begin

text \<open>
  \<open>pkg/validator\<close>: names of fields, messages of failed validations, the conversion of binding errors to application errors,
  and the binding helpers. What \<open>ShouldBindJSON\<close> and its siblings of gin decode from a request is a parameter; their errors
  are told apart by type, as \<open>ParseError\<close> does.
\<close>

section \<open>validator.go\<close>

record field_failure =
  fe_Field :: string
  fe_Tag :: string
  fe_Param :: string

datatype binding_error =
    ValidationErrors "field_failure list"
  | UnmarshalTypeError (ut_Field: string) (ut_Type: string)
  | SyntaxError
  | TimeParseError
  | OtherError string

record tag_error_builder =
  tb_Code :: "error_code option"
  tb_Builder :: "(field_failure \<Rightarrow> string) option"

record validator =
  vd_tagErrorBuilders :: "string \<rightharpoonup> tag_error_builder"

definition validator_New :: validator where
  "validator_New = \<lparr>vd_tagErrorBuilders = Map.empty\<rparr>"

text \<open>A struct field: its name and its tags (\<open>[]\<close> for an absent one).\<close>

record struct_field =
  sf_Name :: string
  sf_Tag :: "string \<Rightarrow> string"

definition getTagName :: "struct_field \<Rightarrow> string \<Rightarrow> string" where
  "getTagName f tagName =
     (let tagValue = sf_Tag f tagName in if tagValue = ''-'' then [] else hd (SplitN 2 tagValue CHR '',''))"

definition fieldNameFn :: "struct_field \<Rightarrow> string" where
  "fieldNameFn f =
     (if getTagName f ''json'' \<noteq> [] then getTagName f ''json''
      else if getTagName f ''form'' \<noteq> [] then getTagName f ''form''
      else if getTagName f ''uri'' \<noteq> [] then getTagName f ''uri''
      else sf_Name f)"

text \<open>
  The engine of the validation library: gin's own if it has one, else a new one that reads gin's tag; either names fields with
  \<open>fieldNameFn\<close>. \<open>RegisterValidation\<close> goes to this engine.
\<close>

record ('g, 'fn) validate_ops =
  gv_New :: 'g
  gv_SetTagName :: "string \<Rightarrow> 'g \<Rightarrow> 'g"
  gv_RegisterTagNameFunc :: "(struct_field \<Rightarrow> string) \<Rightarrow> 'g \<Rightarrow> 'g"
  gv_RegisterValidation :: "string \<Rightarrow> 'fn \<Rightarrow> 'g \<Rightarrow> go_error option \<times> 'g"

definition validatorEngine :: "('g, 'fn) validate_ops \<Rightarrow> 'g option \<Rightarrow> (struct_field \<Rightarrow> string) \<Rightarrow> 'g" where
  "validatorEngine gv engine nameFn =
     (case engine of
        Some be \<Rightarrow> gv_RegisterTagNameFunc gv nameFn be
      | None \<Rightarrow> gv_RegisterTagNameFunc gv nameFn (gv_SetTagName gv ''binding'' (gv_New gv)))"

definition RegisterValidation :: "('g, 'fn) validate_ops \<Rightarrow> string \<Rightarrow> 'fn \<Rightarrow> 'g \<Rightarrow> go_error option \<times> 'g" where
  "RegisterValidation gv tag fn v = gv_RegisterValidation gv tag fn v"

definition RegisterTagError :: "string \<Rightarrow> error_code option \<Rightarrow> (field_failure \<Rightarrow> string) option \<Rightarrow> validator \<Rightarrow> validator" where
  "RegisterTagError tag code builder vi =
     vi\<lparr>vd_tagErrorBuilders := (vd_tagErrorBuilders vi)(tag \<mapsto> \<lparr>tb_Code = code, tb_Builder = builder\<rparr>)\<rparr>"

definition default_message :: "field_failure \<Rightarrow> string" where
  "default_message fe =
     (if fe_Param fe \<noteq> []
      then ''field '' @ fe_Field fe @ '' failed on '' @ [CHR 0x27] @ fe_Tag fe @ [CHR 0x27] @ '' validation (param='' @ fe_Param fe @ '')''
      else ''field '' @ fe_Field fe @ '' failed on '' @ [CHR 0x27] @ fe_Tag fe @ [CHR 0x27] @ '' validation'')"

definition buildMessageForField :: "validator \<Rightarrow> field_failure \<Rightarrow> string" where
  "buildMessageForField vi fe =
     (case vd_tagErrorBuilders vi (fe_Tag fe) of
        Some b \<Rightarrow> (case tb_Builder b of Some builder \<Rightarrow> builder fe | None \<Rightarrow> default_message fe)
      | None \<Rightarrow> default_message fe)"

definition ParseError :: "validator \<Rightarrow> binding_error option \<Rightarrow> app_error option" where
  "ParseError vi err =
     (case err of
        None \<Rightarrow> None
      | Some (ValidationErrors fes) \<Rightarrow>
          Some (fold (\<lambda>fe appErr. AddSuggestion (fe_Field fe) (buildMessageForField vi fe) (Some appErr)) fes
                 (apperr_New (Some ErrorCodeValidationFail)))
      | Some (UnmarshalTypeError f typ) \<Rightarrow>
          (let appErr = apperr_New (Some ErrorCodeInvalidRequest)
           in if f = [] then Some (apperr_WithMessage ''Invalid request body'' (Some appErr))
              else Some (AddSuggestion f (''Invalid type for field '' @ f @ '': expected '' @ typ) (Some appErr)))
      | Some SyntaxError \<Rightarrow> Some (apperr_WithMessage ''Invalid JSON payload'' (Some (apperr_New (Some ErrorCodeInvalidRequest))))
      | Some TimeParseError \<Rightarrow> Some (apperr_WithMessage ''Invalid datetime format'' (Some (apperr_New (Some ErrorCodeInvalidInput))))
      | Some (OtherError msg) \<Rightarrow>
          Some (apperr_WithMessage (''Invalid input: '' @ msg) (Some (apperr_New (Some ErrorCodeInvalidInput)))))"

section \<open>Binding helpers\<close>

text \<open>
  \<open>bind\<close> is the method of gin's context that a helper calls; the pointer returned is \<open>None\<close> on an error. \<open>BindJSON\<close>,
  \<open>BindQuery\<close>, \<open>BindURI\<close> and \<open>BindHeader\<close> have the same body over their own method, and so have the helpers that bind two parts.
\<close>

definition Bind :: "('c \<Rightarrow> binding_error + 'a) \<Rightarrow> validator \<Rightarrow> 'c \<Rightarrow> 'a option \<times> app_error option" where
  "Bind bind vi ctx = (case bind ctx of Inl err \<Rightarrow> (None, ParseError vi (Some err)) | Inr req \<Rightarrow> (Some req, None))"

record ('c, 'a, 'q, 'u, 'h) gin_binding =
  gb_JSON :: "'c \<Rightarrow> binding_error + 'a"
  gb_Query :: "'c \<Rightarrow> binding_error + 'q"
  gb_Uri :: "'c \<Rightarrow> binding_error + 'u"
  gb_Header :: "'c \<Rightarrow> binding_error + 'h"

definition BindJSON :: "('c, 'a, 'q, 'u, 'h) gin_binding \<Rightarrow> validator \<Rightarrow> 'c \<Rightarrow> 'a option \<times> app_error option" where
  "BindJSON g = Bind (gb_JSON g)"

definition BindQuery :: "('c, 'a, 'q, 'u, 'h) gin_binding \<Rightarrow> validator \<Rightarrow> 'c \<Rightarrow> 'q option \<times> app_error option" where
  "BindQuery g = Bind (gb_Query g)"

definition BindURI :: "('c, 'a, 'q, 'u, 'h) gin_binding \<Rightarrow> validator \<Rightarrow> 'c \<Rightarrow> 'u option \<times> app_error option" where
  "BindURI g = Bind (gb_Uri g)"

definition BindHeader :: "('c, 'a, 'q, 'u, 'h) gin_binding \<Rightarrow> validator \<Rightarrow> 'c \<Rightarrow> 'h option \<times> app_error option" where
  "BindHeader g = Bind (gb_Header g)"

text \<open>Two parts: \<open>zero\<close> is the zero value \<open>new\<close> allocates for the part that is not read.\<close>

definition bind_two ::
    "(validator \<Rightarrow> 'c \<Rightarrow> 'a option \<times> app_error option) \<Rightarrow> (validator \<Rightarrow> 'c \<Rightarrow> 'b option \<times> app_error option) \<Rightarrow> 'b \<Rightarrow>
     validator \<Rightarrow> 'c \<Rightarrow> 'a option \<times> 'b option \<times> app_error option" where
  "bind_two first second zero vi ctx =
     (case first vi ctx of
        (a, Some ae) \<Rightarrow> (a, Some zero, Some ae)
      | (a, None) \<Rightarrow> (case second vi ctx of (b, Some be) \<Rightarrow> (a, b, Some be) | (b, None) \<Rightarrow> (a, b, None)))"

definition BindJSONAndURI where "BindJSONAndURI g = bind_two (BindJSON g) (BindURI g)"
definition BindQueryAndURI where "BindQueryAndURI g = bind_two (BindQuery g) (BindURI g)"
definition BindJSONAndQuery where "BindJSONAndQuery g = bind_two (BindJSON g) (BindQuery g)"
definition BindJSONAndHeader where "BindJSONAndHeader g = bind_two (BindJSON g) (BindHeader g)"
definition BindQueryAndHeader where "BindQueryAndHeader g = bind_two (BindQuery g) (BindHeader g)"

definition BindAll ::
    "('c, 'a, 'q, 'u, 'h) gin_binding \<Rightarrow> 'q \<Rightarrow> 'u \<Rightarrow> validator \<Rightarrow> 'c \<Rightarrow> 'a option \<times> 'q option \<times> 'u option \<times> app_error option" where
  "BindAll g zero_q zero_u vi ctx =
     (case BindJSON g vi ctx of
        (body, Some be) \<Rightarrow> (body, Some zero_q, Some zero_u, Some be)
      | (body, None) \<Rightarrow>
          (case BindQuery g vi ctx of
             (query, Some qe) \<Rightarrow> (body, query, Some zero_u, Some qe)
           | (query, None) \<Rightarrow>
               (case BindURI g vi ctx of (uri, Some ue) \<Rightarrow> (body, query, uri, Some ue) | (uri, None) \<Rightarrow> (body, query, uri, None))))"

section \<open>Lemmas\<close>

lemma AddSuggestion_Suggestions [simp]:
  "ae_Suggestions (AddSuggestion f m (Some a)) = ae_Suggestions a @ [\<lparr>sg_Field = f, sg_Message = m\<rparr>]"
  by (cases a) (simp add: AddSuggestion_def)

lemma apperr_WithMessage_Suggestions [simp]: "ae_Suggestions (apperr_WithMessage m (Some a)) = ae_Suggestions a"
  by (cases a) (simp add: apperr_WithMessage_def)

lemma add_suggestions:
  "fold (\<lambda>fe appErr. AddSuggestion (f fe) (m fe) (Some appErr)) fes a =
   AppError (ae_Code a) (ae_Message a) (ae_Suggestions a @ map (\<lambda>fe. \<lparr>sg_Field = f fe, sg_Message = m fe\<rparr>) fes)
     (ae_HTTPStatus a) (ae_cause a) (ae_ec a)"
proof (induction fes arbitrary: a)
  case (Cons fe fes)
  then show ?case by (cases a) (simp add: AddSuggestion_def)
qed (cases a; simp)

text \<open>What a registered code does to the reply: nothing.\<close>

lemma registered_code_ignored:
  "ParseError (RegisterTagError tag code builder vi) = ParseError (RegisterTagError tag code' builder vi)"
  by (auto simp: fun_eq_iff ParseError_def RegisterTagError_def buildMessageForField_def split: option.split binding_error.split
      intro!: fold_cong arg_cong3 [of _ _ _ _ _ _ AddSuggestion])

lemma ParseError_client_error:
  assumes "ParseError vi (Some err) = Some appErr"
  shows "ae_HTTPStatus appErr \<in> {400, 422}"
  using assms
  by (auto simp: ParseError_def add_suggestions error_code_defs Let_def split: binding_error.splits if_splits)

lemma ParseError_Some: "\<exists>appErr. ParseError vi (Some err) = Some appErr"
  by (auto simp: ParseError_def Let_def split: binding_error.split)

lemma ParseError_not_None [simp]: "ParseError vi (Some err) \<noteq> None"
  using ParseError_Some [of vi err] by auto

text \<open>The errors of the parts a helper reads, in its order.\<close>

definition first_failure :: "(unit + binding_error) list \<Rightarrow> binding_error option" where
  "first_failure rs = (case filter (\<lambda>r. \<not> isl r) rs of [] \<Rightarrow> None | r # _ \<Rightarrow> Some (projr r))"

definition failure_of :: "(binding_error + 'a) \<Rightarrow> unit + binding_error" where
  "failure_of r = (case r of Inl e \<Rightarrow> Inr e | Inr _ \<Rightarrow> Inl ())"

lemma BindAll_error:
  "snd (snd (snd (BindAll g zq zu vi ctx))) =
   ParseError vi (first_failure [failure_of (gb_JSON g ctx), failure_of (gb_Query g ctx), failure_of (gb_Uri g ctx)])"
proof -
  obtain ae where "ParseError vi (Some x) = Some (ae x)" for x using ParseError_Some by metis
  moreover have "ParseError vi None = None" by (simp add: ParseError_def)
  ultimately show ?thesis
    by (auto simp: BindAll_def BindJSON_def BindQuery_def BindURI_def Bind_def first_failure_def failure_of_def split: sum.split)
qed

lemma BindAll_cases:
  assumes "BindAll g zq zu vi ctx = (body, query, uri, None)"
  shows "body \<noteq> None \<and> query \<noteq> None \<and> uri \<noteq> None \<and>
    gb_JSON g ctx = Inr (the body) \<and> gb_Query g ctx = Inr (the query) \<and> gb_Uri g ctx = Inr (the uri)"
  using assms
  by (auto simp: BindAll_def BindJSON_def BindQuery_def BindURI_def Bind_def split: sum.splits option.splits)

text \<open>The field errors a client is told: one for each failed validation, or the field of a wrong type.\<close>

definition reported_fields :: "validator \<Rightarrow> binding_error \<Rightarrow> suggestion list" where
  "reported_fields vi err =
     (case err of
        ValidationErrors fes \<Rightarrow> map (\<lambda>fe. \<lparr>sg_Field = fe_Field fe, sg_Message = buildMessageForField vi fe\<rparr>) fes
      | UnmarshalTypeError f typ \<Rightarrow>
          if f = [] then [] else [\<lparr>sg_Field = f, sg_Message = ''Invalid type for field '' @ f @ '': expected '' @ typ\<rparr>]
      | _ \<Rightarrow> [])"

lemma ParseError_Suggestions:
  "ParseError vi (Some err) = Some appErr \<Longrightarrow> ae_Suggestions appErr = reported_fields vi err"
  by (auto simp: ParseError_def reported_fields_def add_suggestions Let_def split: binding_error.splits if_splits)

text \<open>
  C39. \<open>BindAll\<close> returns no error exactly with all three parts as the request has them; otherwise its error is that of the first
  part that does not bind, in the order body, query, path, and answering with it gives an unsuccessful envelope with
  status 400 or 422 that lists one error per failed validation, in order, or the field of a wrong type.
\<close>

theorem bind_all_reports:
  "case BindAll g zq zu vi ctx of
     (body, query, uri, None) \<Rightarrow>
       body \<noteq> None \<and> query \<noteq> None \<and> uri \<noteq> None \<and>
       gb_JSON g ctx = Inr (the body) \<and> gb_Query g ctx = Inr (the query) \<and> gb_Uri g ctx = Inr (the uri)
   | (body, query, uri, Some appErr) \<Rightarrow>
       \<exists>err status env.
         first_failure [failure_of (gb_JSON g ctx), failure_of (gb_Query g ctx), failure_of (gb_Uri g ctx)] = Some err \<and>
         HandleError (Some (EApp appErr)) = Some (status, env) \<and>
         status \<in> {400, 422} \<and> \<not> ar_Success env \<and> ar_Errors env = reported_fields vi err"
proof -
  obtain body query uri e where b: "BindAll g zq zu vi ctx = (body, query, uri, e)" by (metis prod_cases4)
  show ?thesis
  proof (cases e)
    case None
    with b BindAll_cases [of g zq zu vi ctx body query uri] show ?thesis by simp
  next
    case (Some appErr)
    then have p: "ParseError vi (first_failure [failure_of (gb_JSON g ctx), failure_of (gb_Query g ctx), failure_of (gb_Uri g ctx)]) =
        Some appErr" (is "ParseError vi ?f = _") using BindAll_error [of g zq zu vi ctx] b by simp
    then obtain err where f: "?f = Some err" by (cases ?f) (simp_all add: ParseError_def)
    have "ae_HTTPStatus appErr \<in> {400, 422}" using ParseError_client_error p f by simp
    moreover have "ae_Suggestions appErr = reported_fields vi err" using ParseError_Suggestions p f by simp
    ultimately show ?thesis using f b Some by (auto simp: HandleError_def JSONError_def Let_def)
  qed
qed

end
