(* ===== verification/Log_Export.thy ===== *)
theory Log_Export
  imports App_Config
begin

text \<open>
  \<open>pkg/observability\<close>: where logs and traces are sent (\<open>endpoint.go\<close>), and the exporter that buffers log entries and
  sends them in batches, with the logger that feeds it (\<open>logs.go\<close>). The OpenTelemetry SDK, HTTP and JSON are
  parameters; a batch is represented by its entries, and a flush says which batch it sent.
\<close>

section \<open>endpoint.go\<close>

definition defaultSignozEndpoint :: string where "defaultSignozEndpoint = ''http://localhost:4318''"

definition resolveSignozEndpoint :: "'v viper_ops \<Rightarrow> 'v config option \<Rightarrow> string" where
  "resolveSignozEndpoint vi cfg =
     (case cfg of
        None \<Rightarrow> defaultSignozEndpoint
      | Some c \<Rightarrow>
          let e1 = TrimSpace (vi_GetString vi (cf_Viper c) ''SignozEndpoint'');
              e2 = TrimSpace (vi_GetString vi (cf_Viper c) ''SIGNOZ_ENDPOINT'')
          in if e1 \<noteq> [] then e1 else if e2 \<noteq> [] then e2 else defaultSignozEndpoint)"

definition hasHTTPScheme :: "string \<Rightarrow> bool" where
  "hasHTTPScheme endpoint = HasPrefix (ToLower endpoint) ''http://''"

definition hasHTTPSScheme :: "string \<Rightarrow> bool" where
  "hasHTTPSScheme endpoint = HasPrefix (ToLower endpoint) ''https://''"

datatype otlp_option = WithEndpointURL string | WithEndpoint string | WithInsecure

definition otlpTraceExporterOptions :: "string \<Rightarrow> otlp_option list" where
  "otlpTraceExporterOptions endpoint =
     (let endpoint = TrimSpace endpoint;
          endpoint = (if endpoint = [] then defaultSignozEndpoint else endpoint)
      in if hasHTTPSScheme endpoint then [WithEndpointURL endpoint]
         else if hasHTTPScheme endpoint then [WithEndpointURL endpoint, WithInsecure]
         else [WithEndpoint endpoint, WithInsecure])"

definition normalizeLogsPath :: "string \<Rightarrow> string" where
  "normalizeLogsPath path =
     (let trimmed = TrimSuffix (TrimSpace path) ''/''
      in if trimmed = [] then ''/v1/logs''
         else if HasSuffix trimmed ''/v1/logs'' then trimmed
         else if HasSuffix trimmed ''/v1/traces'' then TrimSuffix trimmed ''/v1/traces'' @ ''/v1/logs''
         else trimmed @ ''/v1/logs'')"

text \<open>A parsed URL: its host, its path, and its text with another path and without query and fragment.\<close>

record logs_url =
  lu_Host :: string
  lu_Path :: string
  lu_StringWithPath :: "string \<Rightarrow> string"

definition buildSignozLogsURL :: "(string \<Rightarrow> logs_url option) \<Rightarrow> string \<Rightarrow> string" where
  "buildSignozLogsURL url_Parse endpoint =
     (let endpoint = TrimSpace endpoint;
          endpoint = (if endpoint = [] then defaultSignozEndpoint else endpoint);
          endpoint = (if \<not> hasHTTPScheme endpoint \<and> \<not> hasHTTPSScheme endpoint then ''http://'' @ endpoint else endpoint)
      in case url_Parse endpoint of
           None \<Rightarrow> defaultSignozEndpoint @ ''/v1/logs''
         | Some u \<Rightarrow>
             if lu_Host u = [] then defaultSignozEndpoint @ ''/v1/logs''
             else lu_StringWithPath u (normalizeLogsPath (lu_Path u)))"

section \<open>logs.go: the exporter\<close>

record log_entry =
  lg_Timestamp :: go_time
  lg_Level :: string
  lg_Message :: string
  lg_Service :: string
  lg_Version :: string
  lg_TraceID :: string
  lg_SpanID :: string
  lg_Attributes :: "(string \<times> any) list"
  lg_Caller :: string
  lg_Stacktrace :: string

record log_exporter =
  lx_signozLogsURL :: string
  lx_serviceName :: string
  lx_serviceVersion :: string
  lx_buffer :: "log_entry list"
  lx_bufferSize :: int
  lx_stopped :: bool

definition NewLogExporter :: "'v viper_ops \<Rightarrow> (string \<Rightarrow> logs_url option) \<Rightarrow> 'v config \<Rightarrow> log_exporter" where
  "NewLogExporter vi url_Parse cfg =
     (let serviceName = vi_GetString vi (cf_Viper cfg) ''service_name'';
          serviceVersion = vi_GetString vi (cf_Viper cfg) ''service_version''
      in \<lparr>lx_signozLogsURL = buildSignozLogsURL url_Parse (resolveSignozEndpoint vi (Some cfg)),
          lx_serviceName = (if serviceName = [] then ''unknown-service'' else serviceName),
          lx_serviceVersion = (if serviceVersion = [] then ''1.0.0'' else serviceVersion),
          lx_buffer = [], lx_bufferSize = 100, lx_stopped = False\<rparr>)"

definition mapLogLevelToSeverity :: "string \<Rightarrow> int" where
  "mapLogLevelToSeverity lvl =
     (if lvl \<in> {''DEBUG'', ''debug''} then 5
      else if lvl \<in> {''INFO'', ''info''} then 9
      else if lvl \<in> {''WARN'', ''warn'', ''WARNING'', ''warning''} then 13
      else if lvl \<in> {''ERROR'', ''error''} then 17
      else 9)"

record otlp_record =
  ot_timeUnixNano :: int
  ot_observedTimeUnixNano :: int
  ot_severityNumber :: int
  ot_severityText :: string
  ot_body :: string
  ot_attributes :: "(string \<times> string) list"

definition otlp_of :: "(any \<Rightarrow> string) \<Rightarrow> go_time \<Rightarrow> log_entry \<Rightarrow> otlp_record" where
  "otlp_of fmt now entry =
     \<lparr>ot_timeUnixNano = lg_Timestamp entry, ot_observedTimeUnixNano = now,
      ot_severityNumber = mapLogLevelToSeverity (lg_Level entry), ot_severityText = lg_Level entry, ot_body = lg_Message entry,
      ot_attributes =
        [(''message'', lg_Message entry)] @
        (if lg_TraceID entry \<noteq> [] then [(''trace_id'', lg_TraceID entry)] else []) @
        (if lg_SpanID entry \<noteq> [] then [(''span_id'', lg_SpanID entry)] else []) @
        map (\<lambda>(k, v). (k, Sprint fmt v)) (lg_Attributes entry)\<rparr>"

text \<open>\<open>clock i\<close> is the time the \<open>i\<close>-th iteration of the loop reads.\<close>

definition convertToOTLPFormat :: "(any \<Rightarrow> string) \<Rightarrow> (nat \<Rightarrow> go_time) \<Rightarrow> log_entry list \<Rightarrow> otlp_record list" where
  "convertToOTLPFormat fmt clock entries = map (\<lambda>(i, entry). otlp_of fmt (clock i) entry) (enumerate 0 entries)"

text \<open>The payload of a request, and what marshalling, building the request and sending it give.\<close>

record logs_payload =
  ly_serviceName :: string
  ly_serviceVersion :: string
  ly_logRecords :: "otlp_record list"

record logs_net =
  ln_Marshal :: "logs_payload \<Rightarrow> go_error + string"
  ln_NewRequest :: "string \<Rightarrow> go_error option"
  ln_Do :: "string \<Rightarrow> string \<Rightarrow> go_error + int"

definition send_logs :: "logs_net \<Rightarrow> log_exporter \<Rightarrow> logs_payload \<Rightarrow> go_error option" where
  "send_logs net le payload =
     (case ln_Marshal net payload of
        Inl err \<Rightarrow> Some (EFmt (''failed to marshal logs: '' @ Error err) err)
      | Inr json \<Rightarrow>
          (case ln_NewRequest net (lx_signozLogsURL le) of
             Some err \<Rightarrow> Some (EFmt (''failed to create request: '' @ Error err) err)
           | None \<Rightarrow>
               (case ln_Do net (lx_signozLogsURL le) json of
                  Inl err \<Rightarrow> Some (EFmt (''failed to send logs: '' @ Error err) err)
                | Inr status \<Rightarrow>
                    if status < 200 \<or> status \<ge> 300 then Some (EPlain (''unexpected status code: '' @ FormatInt status)) else None)))"

text \<open>What \<open>Flush\<close> does under the mutex: it takes the buffered entries.\<close>

definition take_batch :: "log_exporter \<Rightarrow> log_exporter \<times> log_entry list" where
  "take_batch le = (le\<lparr>lx_buffer := []\<rparr>, lx_buffer le)"

text \<open>\<open>Flush\<close>: its error, the exporter, and the payload it tried to send.\<close>

definition Flush ::
    "logs_net \<Rightarrow> (any \<Rightarrow> string) \<Rightarrow> (nat \<Rightarrow> go_time) \<Rightarrow> log_exporter \<Rightarrow> go_error option \<times> log_exporter \<times> logs_payload option" where
  "Flush net fmt clock le =
     (if lx_buffer le = [] then (None, le, None)
      else
        let (le, entries) = take_batch le;
            payload = \<lparr>ly_serviceName = lx_serviceName le, ly_serviceVersion = lx_serviceVersion le,
                       ly_logRecords = convertToOTLPFormat fmt clock entries\<rparr>
        in (send_logs net le payload, le, Some payload))"

text \<open>
  A log call of the context \<open>trace\<close> (trace and span identifier, empty without a valid span). \<open>append_log\<close> is what
  \<open>EmitLog\<close> does under the mutex; its second result is \<open>shouldFlush\<close>.
\<close>

record log_call =
  lc_now :: go_time
  lc_trace :: "string \<times> string"
  lc_level :: string
  lc_message :: string
  lc_fields :: "(string \<times> any) list"

definition new_entry :: "log_exporter \<Rightarrow> log_call \<Rightarrow> log_entry" where
  "new_entry le c =
     \<lparr>lg_Timestamp = lc_now c, lg_Level = lc_level c, lg_Message = lc_message c, lg_Service = lx_serviceName le,
      lg_Version = lx_serviceVersion le, lg_TraceID = fst (lc_trace c), lg_SpanID = snd (lc_trace c), lg_Attributes = lc_fields c,
      lg_Caller = [], lg_Stacktrace = []\<rparr>"

definition append_log :: "log_call \<Rightarrow> log_exporter \<Rightarrow> log_exporter \<times> bool" where
  "append_log c le =
     (let le = le\<lparr>lx_buffer := lx_buffer le @ [new_entry le c]\<rparr>
      in (le, int (length (lx_buffer le)) \<ge> lx_bufferSize le))"

text \<open>\<open>EmitLog\<close> drops the error of its flush.\<close>

definition EmitLog ::
    "logs_net \<Rightarrow> (any \<Rightarrow> string) \<Rightarrow> (nat \<Rightarrow> go_time) \<Rightarrow> log_call \<Rightarrow> log_exporter \<Rightarrow> log_exporter \<times> logs_payload option" where
  "EmitLog net fmt clock c le =
     (let (le, shouldFlush) = append_log c le
      in if shouldFlush then (let (err, le, sent) = Flush net fmt clock le in (le, sent)) else (le, None))"

text \<open>\<open>Shutdown\<close> closes the channel that stops the ticker; closing it twice panics, here \<open>None\<close>.\<close>

definition exporter_Shutdown ::
    "logs_net \<Rightarrow> (any \<Rightarrow> string) \<Rightarrow> (nat \<Rightarrow> go_time) \<Rightarrow> log_exporter \<Rightarrow>
     (go_error option \<times> log_exporter \<times> logs_payload option) option" where
  "exporter_Shutdown net fmt clock le =
     (if lx_stopped le then None else Some (Flush net fmt clock (le\<lparr>lx_stopped := True\<rparr>)))"

section \<open>logs.go: the hook and the logger\<close>

text \<open>A zap entry: its time of writing, its level, its message, and its caller and stack where it has them.\<close>

record zap_entry =
  ze_Level :: string
  ze_Message :: string
  ze_Caller :: "string option"
  ze_Stack :: string

definition zap_Fire ::
    "logs_net \<Rightarrow> (any \<Rightarrow> string) \<Rightarrow> (nat \<Rightarrow> go_time) \<Rightarrow> go_time \<Rightarrow> zap_entry \<Rightarrow> log_exporter \<Rightarrow> log_exporter \<times> logs_payload option" where
  "zap_Fire net fmt clock now entry le =
     EmitLog net fmt clock
       \<lparr>lc_now = now, lc_trace = ([], []), lc_level = ze_Level entry, lc_message = ze_Message entry,
        lc_fields = (case ze_Caller entry of Some caller \<Rightarrow> [(''caller'', AString caller)] | None \<Rightarrow> []) @
          (if ze_Stack entry \<noteq> [] then [(''stacktrace'', AString (ze_Stack entry))] else [])\<rparr> le"

fun key_values :: "(any \<Rightarrow> string) \<Rightarrow> any list \<Rightarrow> (string \<times> any) list \<Rightarrow> (string \<times> any) list" where
  "key_values fmt [] fs = fs"
| "key_values fmt [k] fs =
     (let key = TrimSpace (Sprint fmt k) in if key = [] then fs else AList.update key ANil fs)"
| "key_values fmt (k # v # kvs) fs =
     (let key = TrimSpace (Sprint fmt k)
      in key_values fmt kvs (if key = [] then fs else AList.update key v fs))"

definition keyValuesToFields :: "(any \<Rightarrow> string) \<Rightarrow> any list \<Rightarrow> (string \<times> any) list" where
  "keyValuesToFields fmt keyValues = key_values fmt keyValues []"

text \<open>A nil map is an empty one, so \<open>cloneFields\<close> is the identity.\<close>

definition mergeFields :: "(string \<times> any) list \<Rightarrow> (string \<times> any) list \<Rightarrow> (string \<times> any) list" where
  "mergeFields base extra = fold (\<lambda>(k, v). AList.update k v) extra base"

definition normalizeLogMessage :: "(any \<Rightarrow> string) \<Rightarrow> string \<Rightarrow> (string \<times> any) list \<Rightarrow> string" where
  "normalizeLogMessage fmt message fs =
     (if TrimSpace message \<noteq> [] then message
      else case map_of fs ''log_type'' of
             Some logType \<Rightarrow> if logType \<noteq> ANil then Sprint fmt logType else ''log_entry''
           | None \<Rightarrow> ''log_entry'')"

text \<open>
  A \<open>LogManagerWrapper\<close>: its fields. The exporter is shared by a logger and those made of it by \<open>With\<close>, so it is passed
  along; the console logger it also writes to is not modelled.
\<close>

record log_wrapper =
  lw_fields :: "(string \<times> any) list"

datatype severity = DEBUG | INFO | WARN | ERROR

fun severity_text :: "severity \<Rightarrow> string" where
  "severity_text DEBUG = ''DEBUG''"
| "severity_text INFO = ''INFO''"
| "severity_text WARN = ''WARN''"
| "severity_text ERROR = ''ERROR''"

definition log_emit ::
    "logs_net \<Rightarrow> (any \<Rightarrow> string) \<Rightarrow> (nat \<Rightarrow> go_time) \<Rightarrow> go_time \<Rightarrow> string \<times> string \<Rightarrow> string \<Rightarrow> string \<Rightarrow> log_wrapper \<Rightarrow> log_exporter \<Rightarrow>
     log_exporter \<times> logs_payload option" where
  "log_emit net fmt clock now trace lvl message l le =
     EmitLog net fmt clock
       \<lparr>lc_now = now, lc_trace = trace, lc_level = lvl,
        lc_message = normalizeLogMessage fmt message (lw_fields l), lc_fields = lw_fields l\<rparr> le"

text \<open>\<open>Debug\<close>, \<open>Info\<close> and so on and their \<open>F\<close> variants log without a context, the \<open>FCtx\<close> variants with one.\<close>

definition log_plain ::
    "logs_net \<Rightarrow> (any \<Rightarrow> string) \<Rightarrow> (nat \<Rightarrow> go_time) \<Rightarrow> go_time \<Rightarrow> severity \<Rightarrow> string \<Rightarrow> log_wrapper \<Rightarrow> log_exporter \<Rightarrow>
     log_exporter \<times> logs_payload option" where
  "log_plain net fmt clock now sev message = log_emit net fmt clock now ([], []) (severity_text sev) message"

definition log_ctx ::
    "logs_net \<Rightarrow> (any \<Rightarrow> string) \<Rightarrow> (nat \<Rightarrow> go_time) \<Rightarrow> go_time \<Rightarrow> string \<times> string \<Rightarrow> severity \<Rightarrow> string \<Rightarrow> log_wrapper \<Rightarrow> log_exporter \<Rightarrow>
     log_exporter \<times> logs_payload option" where
  "log_ctx net fmt clock now trace sev message = log_emit net fmt clock now trace (severity_text sev) message"

definition log_With :: "(any \<Rightarrow> string) \<Rightarrow> any list \<Rightarrow> log_wrapper \<Rightarrow> log_wrapper" where
  "log_With fmt keyValues l = \<lparr>lw_fields = mergeFields (lw_fields l) (keyValuesToFields fmt keyValues)\<rparr>"

text \<open>\<open>Sync\<close>: the error of the export and that of the console logger, joined; and what was sent.\<close>

definition log_Sync ::
    "logs_net \<Rightarrow> (any \<Rightarrow> string) \<Rightarrow> (nat \<Rightarrow> go_time) \<Rightarrow> go_error option \<Rightarrow> log_exporter \<Rightarrow>
     go_error list \<times> log_exporter \<times> logs_payload option" where
  "log_Sync net fmt clock original_err le =
     (let (exportErr, le, sent) = Flush net fmt clock le
      in (map the (filter (\<lambda>e. e \<noteq> None) [exportErr, original_err]), le, sent))"

section \<open>Goroutines that share an exporter\<close>

text \<open>
  The mutex is held for the appending of an entry and for the taking of a batch, not in between: other goroutines may
  log while a flush is due. The state of the interleaving is the exporter, the number of goroutines that have decided to
  flush and not yet done so, the batches taken and the calls made so far.
\<close>

record export_run =
  er_exporter :: log_exporter
  er_due :: nat
  er_batches :: "log_entry list list"
  er_calls :: "log_call list"

inductive export_step :: "export_run \<Rightarrow> export_run \<Rightarrow> bool" where
  Append: "append_log c (er_exporter r) = (le, shouldFlush) \<Longrightarrow>
    export_step r (r\<lparr>er_exporter := le, er_due := er_due r + (if shouldFlush then 1 else 0), er_calls := er_calls r @ [c]\<rparr>)"
| Due: "0 < er_due r \<Longrightarrow> take_batch (er_exporter r) = (le, batch) \<Longrightarrow>
    export_step r (r\<lparr>er_exporter := le, er_due := er_due r - 1, er_batches := er_batches r @ [batch]\<rparr>)"
| Ticker: "take_batch (er_exporter r) = (le, batch) \<Longrightarrow>
    export_step r (r\<lparr>er_exporter := le, er_batches := er_batches r @ [batch]\<rparr>)"

definition export_start :: "log_exporter \<Rightarrow> export_run" where
  "export_start le = \<lparr>er_exporter = le, er_due = 0, er_batches = [], er_calls = []\<rparr>"

text \<open>
  Nothing is lost or reordered before it is sent, and the buffer outgrows its size by no more than the goroutines that
  have yet to flush.
\<close>

definition export_inv :: "log_exporter \<Rightarrow> export_run \<Rightarrow> bool" where
  "export_inv le0 r \<longleftrightarrow>
     concat (er_batches r) @ lx_buffer (er_exporter r) = map (new_entry le0) (er_calls r) \<and>
     int (length (lx_buffer (er_exporter r))) < lx_bufferSize le0 + int (er_due r) \<and>
     (er_exporter r)\<lparr>lx_buffer := []\<rparr> = le0\<lparr>lx_buffer := []\<rparr>"

lemma new_entry_buffer [simp]: "new_entry (le\<lparr>lx_buffer := b\<rparr>) c = new_entry le c"
  by (simp add: new_entry_def)

lemma export_inv_exporter:
  assumes "export_inv le0 r"
  shows "new_entry (er_exporter r) = new_entry le0" "lx_bufferSize (er_exporter r) = lx_bufferSize le0"
proof -
  have e: "(er_exporter r)\<lparr>lx_buffer := []\<rparr> = le0\<lparr>lx_buffer := []\<rparr>" using assms by (simp add: export_inv_def)
  show "new_entry (er_exporter r) = new_entry le0"
    using arg_cong [OF e, of new_entry] by (metis new_entry_buffer ext)
  show "lx_bufferSize (er_exporter r) = lx_bufferSize le0"
    using arg_cong [OF e, of lx_bufferSize] by simp
qed

lemma export_inv_step:
  assumes "export_step r r'" "export_inv le0 r" "0 < lx_bufferSize le0"
  shows "export_inv le0 r'"
  using assms export_inv_exporter [OF assms(2)]
proof (cases rule: export_step.cases)
  case (Append c le shouldFlush)
  with assms(2) export_inv_exporter [OF assms(2)] show ?thesis
    by (auto simp: export_inv_def append_log_def Let_def simp flip: append_assoc)
qed (auto simp: export_inv_def take_batch_def)

interpretation exporter: step_system export_step "\<lambda>r. 0 < lx_bufferSize le \<and> export_inv le r" for le
  by unfold_locales (use export_inv_step in blast)

lemma export_runs_inv:
  assumes "export_step\<^sup>*\<^sup>* (export_start le) r" "lx_buffer le = []" "0 < lx_bufferSize le"
  shows "export_inv le r"
  using exporter.reachable_inv [OF assms(1), of le] assms(2,3) by (simp add: export_start_def export_inv_def)

text \<open>A flush that fails has already emptied the buffer: the entries it took are in the buffer of no later state.\<close>

lemma failed_flush_drops:
  assumes "Flush net fmt clock le = (Some err, le', sent)"
  shows "lx_buffer le' = [] \<and> Flush net fmt clock' le' = (None, le', None)"
  using assms by (auto simp: Flush_def take_batch_def Let_def split: if_splits)

text \<open>Without other goroutines the exporter sends batches of exactly its size.\<close>

lemma EmitLog_alone:
  assumes "int (length (lx_buffer le)) < lx_bufferSize le" "EmitLog net fmt clock c le = (le', sent)"
  shows "case sent of
      None \<Rightarrow> int (length (lx_buffer le')) < lx_bufferSize le'
    | Some payload \<Rightarrow> lx_buffer le' = [] \<and> int (length (ly_logRecords payload)) = lx_bufferSize le"
  using assms by (auto simp: EmitLog_def append_log_def Flush_def take_batch_def Let_def convertToOTLPFormat_def
      split: if_splits option.splits)

text \<open>
  C29. However goroutines that log, goroutines with a flush due and the ticker interleave on the exporter that
  \<open>NewLogExporter\<close> makes, the batches taken so far followed by the buffer are the entries of the calls made, each once and in
  order, and the buffer holds at most 99 entries more than there are flushes due.
\<close>

theorem log_export_order:
  assumes "export_step\<^sup>*\<^sup>* (export_start (NewLogExporter vi url_Parse cfg)) r"
  shows "concat (er_batches r) @ lx_buffer (er_exporter r) =
      map (new_entry (NewLogExporter vi url_Parse cfg)) (er_calls r) \<and>
    int (length (lx_buffer (er_exporter r))) \<le> 99 + int (er_due r)"
proof -
  have "export_inv (NewLogExporter vi url_Parse cfg) r"
    by (rule export_runs_inv [OF assms]) (simp_all add: NewLogExporter_def Let_def)
  then show ?thesis by (simp add: export_inv_def) (simp add: NewLogExporter_def Let_def)
qed

definition demo_call :: log_call where
  "demo_call = \<lparr>lc_now = 0, lc_trace = ([], []), lc_level = ''INFO'', lc_message = ''m'', lc_fields = []\<rparr>"

definition demo_exporter :: log_exporter where
  "demo_exporter = NewLogExporter demo_viper (\<lambda>_. None) \<lparr>cf_Viper = [], cf_sensitiveKeys = {}, cf_onChange = None\<rparr>"

theorem log_export_order_witness:
  "\<exists>r. export_step\<^sup>*\<^sup>* (export_start demo_exporter) r \<and> er_calls r = [demo_call, demo_call] \<and> er_batches r \<noteq> [] \<and>
     concat (er_batches r) @ lx_buffer (er_exporter r) = map (new_entry demo_exporter) [demo_call, demo_call] \<and>
     int (length (lx_buffer (er_exporter r))) \<le> 99 + int (er_due r)"
proof -
  obtain le1 b1 where a1: "append_log demo_call demo_exporter = (le1, b1)" by force
  obtain le2 batch where t: "take_batch le1 = (le2, batch)" by force
  obtain le3 b3 where a3: "append_log demo_call le2 = (le3, b3)" by force
  let ?run = "export_step\<^sup>*\<^sup>* (export_start demo_exporter)"
  have "?run (export_start demo_exporter)" by simp
  from rtranclp.rtrancl_into_rtrancl [OF this Append, of demo_call] a1
  have "?run \<lparr>er_exporter = le1, er_due = if b1 then 1 else 0, er_batches = [], er_calls = [demo_call]\<rparr>"
    by (simp add: export_start_def)
  from rtranclp.rtrancl_into_rtrancl [OF this Ticker] t
  have "?run \<lparr>er_exporter = le2, er_due = if b1 then 1 else 0, er_batches = [batch], er_calls = [demo_call]\<rparr>"
    by simp
  from rtranclp.rtrancl_into_rtrancl [OF this Append, of demo_call] a3 obtain n where
    "?run \<lparr>er_exporter = le3, er_due = n, er_batches = [batch], er_calls = [demo_call, demo_call]\<rparr>"
    by simp
  with log_export_order [of demo_viper "\<lambda>_. None" "\<lparr>cf_Viper = [], cf_sensitiveKeys = {}, cf_onChange = None\<rparr>"]
  show ?thesis unfolding demo_exporter_def by fastforce
qed

end
