(* ===== verification/Logging.thy ===== *)
theory Logging
  imports Log_Export
begin

text \<open>
  \<open>pkg/logger\<close> and the tracing of \<open>pkg/observability\<close>: the registry of context keys, the configuration of the zap logger and
  what it writes, the life of the observability object, the spans of traced handlers, and metrics. zap and the OpenTelemetry SDK are
  parameters; a log line is its level, fields and text.
\<close>

section \<open>logger/context.go\<close>

type_synonym key_registry = "(any \<times> string) list"

definition RegisterContextKey :: "any \<Rightarrow> string \<Rightarrow> key_registry \<Rightarrow> key_registry" where
  "RegisterContextKey ctxKey logField reg = AList.update ctxKey logField reg"

definition UnregisterContextKey :: "any \<Rightarrow> key_registry \<Rightarrow> key_registry" where
  "UnregisterContextKey ctxKey reg = AList.delete ctxKey reg"

text \<open>\<open>value\<close> is the \<open>Value\<close> method of the context, with \<open>ANil\<close> for an absent key.\<close>

definition withContext :: "key_registry \<Rightarrow> (any \<Rightarrow> any) \<Rightarrow> any list" where
  "withContext reg value =
     concat (map (\<lambda>(key, fieldName). if value key \<noteq> ANil then [AString fieldName, value key] else []) reg)"

section \<open>logger/logger.go and logfunc.go\<close>

record logger_options =
  og_Level :: string
  og_Encoding :: string
  og_OutputPaths :: "string list"
  og_ErrorPaths :: "string list"
  og_EnableCaller :: bool
  og_EnableStack :: bool
  og_TimeFormat :: string

record zap_config =
  zc_Level :: int
  zc_Development :: bool
  zc_Encoding :: string
  zc_CallerKey :: string
  zc_TimeFormat :: string
  zc_OutputPaths :: "string list"
  zc_ErrorOutputPaths :: "string list"
  zc_StacktraceFrom :: severity

text \<open>
  \<open>parse_level\<close> is \<open>UnmarshalText\<close> of a level, a number of zap with 0 for info; \<open>RFC3339\<close> the layout used by default, \<open>zap_Build\<close> the error of building the logger.
\<close>

definition NewLogger ::
    "(string \<Rightarrow> int option) \<Rightarrow> string \<Rightarrow> (zap_config \<Rightarrow> go_error option) \<Rightarrow> logger_options \<Rightarrow> go_error + zap_config" where
  "NewLogger parse_level RFC3339 zap_Build opts =
     (let cfg = \<lparr>zc_Level = (case parse_level (og_Level opts) of Some l \<Rightarrow> l | None \<Rightarrow> 0),
                 zc_Development = (og_Level opts = ''debug''),
                 zc_Encoding = (if og_Encoding opts = [] then ''console'' else og_Encoding opts),
                 zc_CallerKey = (if og_EnableCaller opts then ''caller'' else []),
                 zc_TimeFormat = (if og_TimeFormat opts \<noteq> [] then og_TimeFormat opts else RFC3339),
                 zc_OutputPaths = (if og_OutputPaths opts = [] then [''stdout''] else og_OutputPaths opts),
                 zc_ErrorOutputPaths = (if og_ErrorPaths opts = [] then [''stderr''] else og_ErrorPaths opts),
                 zc_StacktraceFrom = ERROR\<rparr>
      in case zap_Build cfg of
           Some err \<Rightarrow> Err err
         | None \<Rightarrow> Ok (if og_EnableStack opts then cfg\<lparr>zc_StacktraceFrom := WARN\<rparr> else cfg))"

definition default_logger_options :: logger_options where
  "default_logger_options =
     \<lparr>og_Level = ''info'', og_Encoding = ''console'', og_OutputPaths = [], og_ErrorPaths = [], og_EnableCaller = True,
      og_EnableStack = False, og_TimeFormat = []\<rparr>"

fun severity_rank :: "severity \<Rightarrow> int" where
  "severity_rank DEBUG = - 1"
| "severity_rank INFO = 0"
| "severity_rank WARN = 1"
| "severity_rank ERROR = 2"

record log_line =
  ll_Level :: severity
  ll_Fields :: "any list"
  ll_Message :: string

text \<open>A logger: its fields. Its level is shared with the loggers made of it by \<open>With\<close>, so it is an argument of what zap writes.\<close>

record zap_logger =
  zl_fields :: "any list"

definition zap_write :: "int \<Rightarrow> severity \<Rightarrow> string \<Rightarrow> zap_logger \<Rightarrow> log_line list" where
  "zap_write lvl sev message l =
     (if lvl \<le> severity_rank sev then [\<lparr>ll_Level = sev, ll_Fields = zl_fields l, ll_Message = message\<rparr>] else [])"

definition logger_With :: "any list \<Rightarrow> zap_logger \<Rightarrow> zap_logger" where
  "logger_With keyValues l = \<lparr>zl_fields = zl_fields l @ keyValues\<rparr>"

definition logger_F :: "int \<Rightarrow> severity \<Rightarrow> string \<Rightarrow> zap_logger \<Rightarrow> log_line list" where
  "logger_F lvl sev message l = zap_write lvl sev message l"

definition logger_FCtx :: "int \<Rightarrow> key_registry \<Rightarrow> (any \<Rightarrow> any) \<Rightarrow> severity \<Rightarrow> string \<Rightarrow> zap_logger \<Rightarrow> log_line list" where
  "logger_FCtx lvl reg value sev message l = zap_write lvl sev message (logger_With (withContext reg value) l)"

definition SetLogLevel :: "(string \<Rightarrow> int option) \<Rightarrow> string \<Rightarrow> int \<Rightarrow> bool \<times> int" where
  "SetLogLevel parse_level text_level lvl = (case parse_level text_level of Some l \<Rightarrow> (True, l) | None \<Rightarrow> (False, lvl))"

text \<open>Levels are ordered by severity, as zap orders them.\<close>

instantiation severity :: linorder
begin

definition less_eq_severity :: "severity \<Rightarrow> severity \<Rightarrow> bool" where
  "less_eq_severity a b \<longleftrightarrow> severity_rank a \<le> severity_rank b"

definition less_severity :: "severity \<Rightarrow> severity \<Rightarrow> bool" where
  "less_severity a b \<longleftrightarrow> severity_rank a < severity_rank b"

instance
proof
  fix a b :: severity
  assume "a \<le> b" "b \<le> a"
  then show "a = b" by (cases a; cases b; simp add: less_eq_severity_def)
qed (auto simp: less_eq_severity_def less_severity_def)

end

text \<open>The logger that also exports: the console logger, and the exporter its wrapper writes to.\<close>

definition NewLoggerWithSigNoz ::
    "'v viper_ops \<Rightarrow> (string \<Rightarrow> logs_url option) \<Rightarrow> (string \<Rightarrow> int option) \<Rightarrow> string \<Rightarrow> (zap_config \<Rightarrow> go_error option) \<Rightarrow>
     'v config \<Rightarrow> logger_options \<Rightarrow> go_error + zap_config \<times> log_exporter \<times> log_wrapper" where
  "NewLoggerWithSigNoz vi url_Parse parse_level RFC3339 zap_Build cfg logOpts =
     (let exporter = NewLogExporter vi url_Parse cfg
      in case NewLogger parse_level RFC3339 zap_Build logOpts of
           Inl err \<Rightarrow> Err err
         | Inr originalLogger \<Rightarrow> Ok (originalLogger, exporter, \<lparr>lw_fields = []\<rparr>))"

section \<open>observability.go\<close>

record obs =
  ob_logExporter :: "log_exporter option"
  ob_serviceName :: string
  ob_serviceVersion :: string
  ob_exporterOptions :: "otlp_option list"

text \<open>\<open>resource_New\<close> and \<open>otlp_New\<close> say whether building the resource and the trace exporter fails.\<close>

definition observability_New ::
    "'v viper_ops \<Rightarrow> (string \<Rightarrow> logs_url option) \<Rightarrow> (string \<Rightarrow> string \<Rightarrow> go_error option) \<Rightarrow> (otlp_option list \<Rightarrow> go_error option) \<Rightarrow>
     'v config \<Rightarrow> go_error + obs" where
  "observability_New vi url_Parse resource_New otlp_New cfg =
     (let n = vi_GetString vi (cf_Viper cfg) ''service_name'';
          v = vi_GetString vi (cf_Viper cfg) ''service_version'';
          serviceName = (if n = [] then ''unknown-service'' else n);
          serviceVersion = (if v = [] then ''1.0.0'' else v);
          opts = otlpTraceExporterOptions (resolveSignozEndpoint vi (Some cfg))
      in case resource_New serviceName serviceVersion of
           Some err \<Rightarrow> Err (EFmt (''failed to create resource: '' @ Error err) err)
         | None \<Rightarrow>
             (case otlp_New opts of
                Some err \<Rightarrow> Err (EFmt (''failed to create OTLP exporter: '' @ Error err) err)
              | None \<Rightarrow>
                  Ok \<lparr>ob_logExporter = Some (NewLogExporter vi url_Parse cfg), ob_serviceName = serviceName,
                      ob_serviceVersion = serviceVersion, ob_exporterOptions = opts\<rparr>))"

text \<open>\<open>MustNew\<close>: a panic is \<open>None\<close>.\<close>

definition obs_MustNew :: "go_error + obs \<Rightarrow> obs option" where
  "obs_MustNew r = (case r of Inl err \<Rightarrow> None | Inr ob \<Rightarrow> Some ob)"

text \<open>
  \<open>Shutdown\<close>, with the error of the tracer provider: its error and the object, or \<open>None\<close> for the panic of a second shutdown
  of the exporter.
\<close>

definition obs_Shutdown ::
    "logs_net \<Rightarrow> (any \<Rightarrow> string) \<Rightarrow> (nat \<Rightarrow> go_time) \<Rightarrow> go_error option \<Rightarrow> obs \<Rightarrow> (go_error option \<times> obs \<times> logs_payload option) option" where
  "obs_Shutdown net fmt clock tracer_err ob =
     (case tracer_err of
        Some err \<Rightarrow> Some (Some err, ob, None)
      | None \<Rightarrow>
          (case ob_logExporter ob of
             None \<Rightarrow> Some (None, ob, None)
           | Some le \<Rightarrow>
               (case exporter_Shutdown net fmt clock le of
                  None \<Rightarrow> None
                | Some (err, le, sent) \<Rightarrow> Some (None, ob\<lparr>ob_logExporter := Some le\<rparr>, sent))))"

section \<open>middleware.go and helpers.go\<close>

datatype attr_value = VString string | VInt int

datatype span_code = CodeError | CodeOk

datatype span_event =
    SpanStart string "(string \<times> attr_value) list"
  | SpanAttributes "(string \<times> attr_value) list"
  | SpanEvent string "(string \<times> attr_value) list"
  | SpanRecordError string
  | SpanStatus span_code string
  | SpanEnd

text \<open>What a traced handler does: it answers with a status after some time, or panics.\<close>

text \<open>
  What the metrics hand to a meter, with values of type \<open>'f\<close>; \<open>failed\<close> says whether creating the instrument fails, which drops
  the measurement.
\<close>

datatype 'f measurement =
    CounterAdd string int "(string \<times> attr_value) list"
  | HistogramRecord string 'f "(string \<times> attr_value) list"
  | GaugeRecord string 'f "(string \<times> attr_value) list"

definition IncrementCounter :: "bool \<Rightarrow> string \<Rightarrow> (string \<times> attr_value) list \<Rightarrow> 'f measurement list" where
  "IncrementCounter failed name attrs = (if failed then [] else [CounterAdd name 1 attrs])"

text \<open>The gauge is created and then dropped together with its value.\<close>

definition RecordGauge :: "bool \<Rightarrow> string \<Rightarrow> 'f \<Rightarrow> (string \<times> attr_value) list \<Rightarrow> 'f measurement list" where
  "RecordGauge failed name val attrs = (if failed then [] else let (_, _) = (name, val) in [])"

definition RecordHistogram :: "bool \<Rightarrow> string \<Rightarrow> 'f \<Rightarrow> (string \<times> attr_value) list \<Rightarrow> 'f measurement list" where
  "RecordHistogram failed name val attrs = (if failed then [] else [HistogramRecord name val attrs])"

datatype traced = Answered int go_duration | Panics

text \<open>\<open>duration.Milliseconds\<close> truncates.\<close>

definition TraceHandler :: "string \<Rightarrow> string \<Rightarrow> string \<Rightarrow> string \<Rightarrow> traced \<Rightarrow> span_event list" where
  "TraceHandler handlerName meth route url outcome =
     [SpanStart handlerName [(''http.method'', VString meth), (''http.route'', VString route), (''http.url'', VString url)]] @
     (case outcome of
        Answered status duration \<Rightarrow>
          [SpanAttributes [(''http.status_code'', VInt status), (''http.duration_ms'', VInt (duration div Millisecond))],
           if status \<ge> 400 then SpanStatus CodeError ''HTTP error'' else SpanStatus CodeOk ''Success'']
      | Panics \<Rightarrow> []) @
     [SpanEnd]"

definition TraceDBOperation :: "string \<Rightarrow> string \<Rightarrow> span_event" where
  "TraceDBOperation operation query =
     SpanStart (''db.'' @ operation) [(''db.operation'', VString operation), (''db.statement'', VString query)]"

definition TraceExternalCall :: "string \<Rightarrow> string \<Rightarrow> string \<Rightarrow> span_event" where
  "TraceExternalCall serviceName meth url =
     SpanStart (''http.'' @ serviceName)
       [(''http.method'', VString meth), (''http.url'', VString url), (''peer.service'', VString serviceName)]"

text \<open>The helpers act on the span of a context, which records or not.\<close>

definition AddSpanAttributes :: "bool \<Rightarrow> (string \<times> attr_value) list \<Rightarrow> span_event list" where
  "AddSpanAttributes isRecording attrs = (if isRecording then [SpanAttributes attrs] else [])"

definition AddSpanEvent :: "bool \<Rightarrow> string \<Rightarrow> (string \<times> attr_value) list \<Rightarrow> span_event list" where
  "AddSpanEvent isRecording name attrs = (if isRecording then [SpanEvent name attrs] else [])"

definition RecordSpanError :: "bool \<Rightarrow> go_error option \<Rightarrow> span_event list" where
  "RecordSpanError isRecording err =
     (case err of
        Some e \<Rightarrow> if isRecording then [SpanRecordError (Error e), SpanStatus CodeError (Error e)] else []
      | None \<Rightarrow> [])"

section \<open>Lemmas\<close>

text \<open>Every registered key that the context has is written with its value, and no other.\<close>

lemma withContext_RegisterContextKey:
  assumes "value key \<noteq> ANil"
  shows "\<exists>pre post. withContext (RegisterContextKey key fieldName reg) value = pre @ [AString fieldName, value key] @ post"
proof -
  have "(key, fieldName) \<in> set (RegisterContextKey key fieldName reg)"
    by (simp add: RegisterContextKey_def update_conv' map_of_SomeD)
  then obtain pre post where "RegisterContextKey key fieldName reg = pre @ (key, fieldName) # post"
    by (meson split_list)
  then show ?thesis using assms by (auto simp: withContext_def)
qed

text \<open>A span is started once, first, and ended once, last, whether the handler answers or panics.\<close>

lemma TraceHandler_ends:
  "\<exists>attrs evs. TraceHandler handlerName meth route url outcome = SpanStart handlerName attrs # evs @ [SpanEnd] \<and>
     SpanEnd \<notin> set evs \<and> (\<forall>n a. SpanStart n a \<notin> set evs)"
  by (auto simp: TraceHandler_def split: traced.split)

text \<open>A tracer provider that fails to shut down leaves the exporter running, with its entries unsent.\<close>

lemma tracer_error_keeps_logs:
  "obs_Shutdown net fmt clock (Some err) ob = Some (Some err, ob, None)"
  by (simp add: obs_Shutdown_def)

text \<open>Otherwise the first shutdown sends what is buffered and reports success, also when the sending fails; the second panics.\<close>

lemma obs_Shutdown_flushes:
  assumes "ob_logExporter ob = Some le" "\<not> lx_stopped le" "lx_buffer le \<noteq> []"
  obtains ob' le' payload where "obs_Shutdown net fmt clock None ob = Some (None, ob', Some payload)"
    "ly_logRecords payload = convertToOTLPFormat fmt clock (lx_buffer le)"
    "ob_logExporter ob' = Some le'" "lx_buffer le' = []" "obs_Shutdown net fmt clock' None ob' = None"
  using assms that
  by (force simp: obs_Shutdown_def exporter_Shutdown_def Flush_def take_batch_def Let_def)

text \<open>A logger that writes a line writes every line of a higher severity.\<close>

lemma zap_write_severity:
  assumes "sev \<le> sev'" and "zap_write lvl sev message l \<noteq> []"
  shows "zap_write lvl sev' message' l = [\<lparr>ll_Level = sev', ll_Fields = zl_fields l, ll_Message = message'\<rparr>]"
  using assms by (auto simp: zap_write_def less_eq_severity_def split: if_splits)

text \<open>No value given to a gauge reaches the meter, while counters and histograms record theirs.\<close>

lemma gauge_records_nothing:
  "RecordGauge failed name val attrs = [] \<and> IncrementCounter False name attrs = [CounterAdd name 1 attrs] \<and>
   RecordHistogram False name val attrs = [HistogramRecord name val attrs]"
  by (simp add: RecordGauge_def IncrementCounter_def RecordHistogram_def)

end
