(* ===== verification/Auth_Setup.thy ===== *)
theory Auth_Setup
  imports Permission_Decision
begin

text \<open>
  How \<open>pkg/auth\<close> builds an authorizer from its configuration: the configured public key, the provider of remote keys, the
  verifier and the client of the permission decisions (the constructors of \<open>authorizer.go\<close> and \<open>jwks.go\<close>). \<open>encoding/pem\<close> and
  \<open>crypto/x509\<close> are parameters.
\<close>

section \<open>The public key of the configuration\<close>

text \<open>\<open>base64.StdEncoding\<close> and \<open>RawStdEncoding\<close>: the URL encodings with two other digits.\<close>

definition std_alphabet :: "string \<Rightarrow> string option" where
  "std_alphabet s =
     (if CHR ''-'' \<in> set s \<or> CHR ''_'' \<in> set s then None
      else Some (map (\<lambda>c. if c = CHR ''+'' then CHR ''-'' else if c = CHR ''/'' then CHR ''_'' else c) s))"

definition StdEncoding_Decode :: "string \<Rightarrow> nat list option" where
  "StdEncoding_Decode s = Option.bind (std_alphabet s) URLEncoding_Decode"

definition RawStdEncoding_Decode :: "string \<Rightarrow> nat list option" where
  "RawStdEncoding_Decode s = Option.bind (std_alphabet s) RawURLEncoding_Decode"

record pem_block =
  pb_Type :: string
  pb_Bytes :: string

record key_lib =
  kb_pem_Decode :: "string \<Rightarrow> pem_block option"
  kb_ParsePKIX :: "string \<Rightarrow> go_error + pub_key"
  kb_ParsePKCS1 :: "string \<Rightarrow> go_error + pub_key"

definition go_type :: "pub_key \<Rightarrow> string" where
  "go_type key = (case key of RSAKey _ _ _ \<Rightarrow> ''*rsa.PublicKey'' | ECDSAKey _ _ _ _ \<Rightarrow> ''*ecdsa.PublicKey'' | OtherKey _ \<Rightarrow> ''other'')"

definition decode_key_text :: "string \<Rightarrow> go_error + string" where
  "decode_key_text normalized =
     (if sublist ''-----BEGIN'' normalized then Ok normalized
      else case StdEncoding_Decode normalized of
             Some decoded \<Rightarrow> Ok (map char_of decoded)
           | None \<Rightarrow>
               (case RawStdEncoding_Decode normalized of
                  Some decodedURL \<Rightarrow> Ok (map char_of decodedURL)
                | None \<Rightarrow> Err (EFmt ''failed to decode public key: illegal base64 data'' (EPlain ''illegal base64 data''))))"

definition parse_key_block :: "key_lib \<Rightarrow> pem_block \<Rightarrow> go_error + pub_key" where
  "parse_key_block lib block =
     (if pb_Type block = ''PUBLIC KEY'' then
        (case kb_ParsePKIX lib (pb_Bytes block) of
           Inl err \<Rightarrow> Err (EFmt (''failed to parse PKIX public key: '' @ Error err) err)
         | Inr (OtherKey a) \<Rightarrow> Err (EPlain (''unsupported public key type in PKIX format: '' @ go_type (OtherKey a)))
         | Inr k \<Rightarrow> Ok k)
      else if pb_Type block = ''RSA PUBLIC KEY'' then kb_ParsePKCS1 lib (pb_Bytes block)
      else if pb_Type block = ''EC PUBLIC KEY'' then
        (case kb_ParsePKIX lib (pb_Bytes block) of
           Inl err \<Rightarrow> Err (EFmt (''failed to parse EC public key: '' @ Error err) err)
         | Inr (ECDSAKey a c x y) \<Rightarrow> Ok (ECDSAKey a c x y)
         | Inr k \<Rightarrow> Err (EPlain (''EC public key block does not contain ECDSA key (got '' @ go_type k @ '')'')))
      else Err (EPlain (''unsupported public key type: '' @ pb_Type block)))"

definition parsePublicKey :: "key_lib \<Rightarrow> string \<Rightarrow> go_error + pub_key" where
  "parsePublicKey lib pubKeyBase64 =
     (let normalized = TrimSpace pubKeyBase64
      in if normalized = [] then Err (EPlain ''empty public key data'')
         else case decode_key_text normalized of
                Inl err \<Rightarrow> Err err
              | Inr pem \<Rightarrow>
                  (case kb_pem_Decode lib pem of
                     None \<Rightarrow> Err (EPlain ''failed to decode PEM block'')
                   | Some block \<Rightarrow> parse_key_block lib block))"

section \<open>The provider of remote keys\<close>

definition defaultJWKSCacheTTL :: go_duration where "defaultJWKSCacheTTL = 5 * Minute"

definition newRemoteKeyProvider :: "cfg_getter option \<Rightarrow> key_provider option" where
  "newRemoteKeyProvider cfg =
     (if cfg = None then None
      else
        let explicitJWKSURL = ResolveJWKSURL cfg;
            discoveryURL = ResolveOIDCDiscoveryURL cfg;
            api = APIFromConfig cfg;
            (discoveryURL, fallbackJWKSURL) =
              (if discoveryURL = [] \<and> api \<noteq> [] then (OIDCDiscoveryURL api, JWKSURL api) else (discoveryURL, []))
        in if explicitJWKSURL = [] \<and> discoveryURL = [] \<and> fallbackJWKSURL = [] then None
           else
             let cacheTTL = ResolveJWKSCacheTTL cfg defaultJWKSCacheTTL;
                 cacheTTL = (if cacheTTL \<le> 0 then defaultJWKSCacheTTL else cacheTTL)
             in Some \<lparr>kp_discoveryURL = discoveryURL, kp_explicitJWKSURL = explicitJWKSURL, kp_fallbackJWKSURL = fallbackJWKSURL,
                      kp_cacheTTL = cacheTTL, kp_cachedJWKSURL = [], kp_cachedKeys = None\<rparr>)"

section \<open>The authorizer\<close>

definition newJWTVerifier :: "key_lib \<Rightarrow> cfg_getter \<Rightarrow> go_error + jwt_verifier" where
  "newJWTVerifier lib cfg =
     (let pubKey = TrimSpace (cg_GetString cfg ''RSAPublicKey'')
      in case (if pubKey = [] then Ok None else map_sum id Some (parsePublicKey lib pubKey)) of
           Inl err \<Rightarrow> Err (EFmt (''jwt authorizer: parse public key: '' @ Error err) err)
         | Inr staticKey \<Rightarrow>
             let remote = newRemoteKeyProvider (Some cfg)
             in if staticKey = None \<and> remote = None
                then Err (EPlain (''jwt authorizer: RSAPublicKey or '' @ KeyBaseURL @ ''/'' @ LegacyKeyBaseURL @ '' must be configured''))
                else Ok \<lparr>vf_staticKey = staticKey, vf_remote = remote, vf_issuer = ResolveTokenIssuer (Some cfg),
                         vf_audiences = ResolveTokenAudienceFromStringGetter (Some cfg)\<rparr>)"

text \<open>The built authorizer: its verifier, whether service tokens bypass permissions, and the decision client.\<close>

record built_authorizer =
  ba_verifier :: jwt_verifier
  ba_bypass :: bool
  ba_decisions :: "http_decision_client option"

definition NewAuthorizer ::
    "key_lib \<Rightarrow> (cfg_getter \<Rightarrow> string list \<Rightarrow> go_error option) \<Rightarrow> cfg_getter \<Rightarrow> go_error + built_authorizer" where
  "NewAuthorizer lib newClient cfg =
     (case newJWTVerifier lib cfg of
        Inl err \<Rightarrow> Err err
      | Inr verifier \<Rightarrow>
          (case parseBypassServiceTokenPermissions (cg_GetString cfg ''BypassServiceTokenPermissions'') of
             Inl msg \<Rightarrow> Err (EPlain msg)
           | Inr bypass \<Rightarrow>
               Ok \<lparr>ba_verifier = verifier, ba_bypass = bypass,
                   ba_decisions = newPermissionDecisionClient newClient (Some cfg)\<rparr>))"

section \<open>Lemmas\<close>

text \<open>\<open>ParsePKCS1PublicKey\<close> returns RSA keys.\<close>

definition pkcs1_rsa :: "key_lib \<Rightarrow> bool" where
  "pkcs1_rsa lib \<longleftrightarrow> (\<forall>s k. kb_ParsePKCS1 lib s = Inr k \<longrightarrow> (\<exists>a n x. k = RSAKey a n x))"

lemma parse_key_block_type:
  assumes "pkcs1_rsa lib" "parse_key_block lib block = Inr k"
  shows "\<nexists>a. k = OtherKey a"
proof (cases "pb_Type block = ''RSA PUBLIC KEY''")
  case True
  then have "kb_ParsePKCS1 lib (pb_Bytes block) = Inr k" using assms(2) by (simp add: parse_key_block_def)
  then show ?thesis using assms(1) unfolding pkcs1_rsa_def by blast
next
  case False
  then show ?thesis using assms(2) by (auto simp: parse_key_block_def split: if_splits sum.splits pub_key.splits)
qed

lemma parsePublicKey_type:
  assumes "pkcs1_rsa lib" "parsePublicKey lib s = Inr k"
  shows "\<nexists>a. k = OtherKey a"
proof -
  obtain block where "parse_key_block lib block = Inr k"
    using assms(2) by (auto simp: parsePublicKey_def Let_def split: if_splits sum.splits option.splits)
  then show ?thesis by (rule parse_key_block_type [OF assms(1)])
qed

lemma newRemoteKeyProvider_ttl: "newRemoteKeyProvider cfg = Some p \<Longrightarrow> 0 < kp_cacheTTL p \<and> kp_cachedKeys p = None"
  by (auto simp: newRemoteKeyProvider_def defaultJWKSCacheTTL_def Minute_def Second_def Let_def split: if_splits)

definition verifier_ready :: "cfg_getter \<Rightarrow> jwt_verifier \<Rightarrow> bool" where
  "verifier_ready cfg v \<longleftrightarrow>
     (vf_staticKey v \<noteq> None \<or> vf_remote v \<noteq> None) \<and> (\<forall>i. vf_staticKey v \<noteq> Some (OtherKey i)) \<and>
     (\<forall>p. vf_remote v = Some p \<longrightarrow> 0 < kp_cacheTTL p) \<and>
     vf_issuer v = ResolveTokenIssuer (Some cfg) \<and> vf_audiences v = ResolveTokenAudienceFromStringGetter (Some cfg) \<and>
     (vf_staticKey v = None \<longrightarrow> TrimSpace (cg_GetString cfg ''RSAPublicKey'') = [])"

lemma newJWTVerifier_ready:
  assumes "pkcs1_rsa lib" "newJWTVerifier lib cfg = Inr v"
  shows "verifier_ready cfg v"
proof (cases "TrimSpace (cg_GetString cfg ''RSAPublicKey'') = []")
  case True
  then show ?thesis using assms(2) newRemoteKeyProvider_ttl
    by (auto simp: newJWTVerifier_def verifier_ready_def Let_def split: if_splits)
next
  case False
  then obtain k where k: "parsePublicKey lib (TrimSpace (cg_GetString cfg ''RSAPublicKey'')) = Inr k"
    using assms(2) by (cases "parsePublicKey lib (TrimSpace (cg_GetString cfg ''RSAPublicKey''))")
      (auto simp: newJWTVerifier_def Let_def)
  then show ?thesis using assms(2) False newRemoteKeyProvider_ttl parsePublicKey_type [OF assms(1) k]
    by (auto simp: newJWTVerifier_def verifier_ready_def Let_def)
qed

text \<open>
  An authorizer that is built has a key to verify with or a provider to ask, its configured key is of a supported type, a
  remote key set is kept for a positive time, and it expects the configured issuer and audience. A configured key that cannot be
  read is an error, also when there is a provider.
\<close>

lemma NewAuthorizer_ready:
  "pkcs1_rsa lib \<Longrightarrow> NewAuthorizer lib newClient cfg = Inr a \<Longrightarrow> verifier_ready cfg (ba_verifier a)"
  using newJWTVerifier_ready by (auto simp: NewAuthorizer_def split: sum.splits)

text \<open>Keys in the URL-safe alphabet are not decoded, although the second attempt is meant for them.\<close>

lemma url_safe_key_refused:
  assumes "CHR ''_'' \<in> set (TrimSpace s)" "\<not> sublist ''-----BEGIN'' (TrimSpace s)"
  shows "\<exists>err. parsePublicKey lib s = Inl err"
proof -
  have "TrimSpace s \<noteq> []" using assms(1) by auto
  with assms show ?thesis
    by (simp add: parsePublicKey_def decode_key_text_def StdEncoding_Decode_def RawStdEncoding_Decode_def std_alphabet_def)
qed

end
