(* ===== verification/Example_Services.thy ===== *)
theory Example_Services
  imports App_Run Jobs_Liveness Jobs_Http Translator Utils Validator
begin

text \<open>
  The two programs of \<open>examples/\<close>: a server with translation, validation and one error format, and a server that runs background
  jobs. A route of gin is a method with a path; what a handler writes is its status with an envelope of \<open>pkg/response\<close> or an
  object of its own. Spans and log lines are left out. The programs show what the components promise when they are put
  together: every request is answered, and the enqueued job is delivered.
\<close>

section \<open>examples/auth\_example\<close>

record create_user =
  cu_Name :: string
  cu_Email :: string

definition example_config :: "'v viper_ops \<Rightarrow> ('f, 'v) pflag_ops \<Rightarrow> 'f \<Rightarrow> build_info \<Rightarrow> go_error + 'v config" where
  "example_config vi pf commandLine build =
     config_New vi
       [WithDefaults vi
          [(''service.endpoint'', AString ''0.0.0.0''), (''service.port'', AString ''8080''),
           (''service_name'', AString ''observability-example''), (''service_version'', AString (bi_Version build)),
           (''SignozEndpoint'', AString ''http://localhost:4318'')],
        WithEnv vi ''APP'', WithAutoPFlags pf commandLine]"

definition example_translator ::
    "(string \<Rightarrow> go_error + (string \<times> string) list) \<Rightarrow> (string \<Rightarrow> (string \<times> bool) list option) \<Rightarrow> (string \<Rightarrow> string \<Rightarrow> string) \<Rightarrow>
     translator" where
  "example_translator read readDir join =
     i18n_New [WithDefaultLocale ''fr'', WithFallbackLocales [''fr''],
       WithJSONDir read readDir join ''default'' ''./examples/auth_example/locales'']"

definition example_engine_options :: "(int \<Rightarrow> 'f) \<Rightarrow> ('f, 'l) engine_options" where
  "example_engine_options float =
     collect_options [WithRecovery True, WithCors DefaultCorsConfig,
       WithRateLimit (NewRateLimitConfig True (float 5) 10 Minute), WithPrometheus False]"

text \<open>\<open>engine.Use\<close> appends to the chain: the tracing middleware if there is one, then the detection of the locale.\<close>

definition example_chain ::
    "('f, 'l) rate_lib \<Rightarrow> (go_duration \<Rightarrow> string) \<Rightarrow> (int \<Rightarrow> 'f) \<Rightarrow> request_env \<Rightarrow> 'l server_state handler option \<Rightarrow>
     translator \<Rightarrow> (string \<Rightarrow> string option) \<Rightarrow> 'l server_state handler list" where
  "example_chain lib fmt float env tracing tr cookie =
     NewEngine lib fmt (example_engine_options float) env @
     (case tracing of None \<Rightarrow> [] | Some h \<Rightarrow> [h]) @
     [gin_handler (i18n_GinMiddleware tr defaultGinDetectOptions cookie)]"

datatype reply_body = Envelope "any api_response" | Object "(string \<times> any) list"

record ('q, 'u, 'h) example_env =
  xe_binding :: "(gin_ctx, create_user, 'q, 'u, 'h) gin_binding"
  xe_validator :: validator
  xe_translator :: translator
  xe_fmt :: "any \<Rightarrow> string"
  xe_build :: build_info
  xe_now :: go_time
  xe_rfc3339 :: "go_time \<Rightarrow> string"

definition gin_GetString :: "gin_ctx \<Rightarrow> string \<Rightarrow> string" where
  "gin_GetString c key = (case gc_keys c key of Some (AString s) \<Rightarrow> s | _ \<Rightarrow> [])"

definition in_envelope :: "int \<times> any api_response \<Rightarrow> int \<times> reply_body" where
  "in_envelope r = (fst r, Envelope (snd r))"

text \<open>\<open>response.HandleError\<close> writes nothing without an error, and gin then answers 200 with an empty body.\<close>

definition handled :: "go_error option \<Rightarrow> int \<times> reply_body" where
  "handled err = (case HandleError err of Some r \<Rightarrow> in_envelope r | None \<Rightarrow> (StatusOK, Object []))"

definition get_healthz :: "int \<times> reply_body" where
  "get_healthz = in_envelope (response_Success (Some (AMap [(''status'', AString ''ok'')])))"

definition get_version :: "build_info \<Rightarrow> int \<times> reply_body" where
  "get_version build =
     in_envelope (response_Success (Some (AMap
       (map (\<lambda>k. (k, AString (index_str (version_Info build) k))) [''commit'', ''date'', ''go'', ''version'']))))"

definition get_hello :: "(any \<Rightarrow> string) \<Rightarrow> translator \<Rightarrow> gin_ctx \<Rightarrow> int \<times> reply_body" where
  "get_hello fmt tr c =
     (let loc = gin_GetString c ''i18n_locale'';
          msg = i18n_T fmt tr loc ''greeting'' [(''name'', AString ''world'')] None
      in (StatusOK, Object [(''locale'', AString loc), (''message'', AString msg)]))"

definition post_users ::
    "(gin_ctx, create_user, 'q, 'u, 'h) gin_binding \<Rightarrow> validator \<Rightarrow> gin_ctx \<Rightarrow> int \<times> reply_body" where
  "post_users g vi c =
     (case BindJSON g vi c of
        (_, Some err) \<Rightarrow> handled (Some (EApp err))
      | (Some body, None) \<Rightarrow>
          let slug = Slugify (cu_Name body)
          in in_envelope (response_Success (Some (AMap [(''id'', AString (''user:'' @ slug)), (''email'', AString (cu_Email body))])))
      | (None, None) \<Rightarrow> handled None)"

definition get_fail :: "int \<times> reply_body" where
  "get_fail = handled (Some (EApp (apperr_WithMessage ''demo error'' (Some (apperr_New (Some ErrorCodeInternal))))))"

definition get_time :: "(go_time \<Rightarrow> string) \<Rightarrow> go_time \<Rightarrow> int \<times> reply_body" where
  "get_time rfc3339 now = (200, Object [(''rfc3339'', AString (rfc3339 now)), (''unix'', AInt64 (now div Second))])"

definition get_items :: "(any \<Rightarrow> string) \<Rightarrow> translator \<Rightarrow> gin_ctx \<Rightarrow> int \<times> reply_body" where
  "get_items fmt tr c =
     (let loc = gin_GetString c ''i18n_locale'';
          n = 3;
          msg = i18n_T fmt tr loc ''cart.items'' [(''count'', AInt n)] None
      in (200, Object [(''message'', AString msg), (''count'', AInt n)]))"

definition get_item :: "gin_ctx \<Rightarrow> int \<times> reply_body" where
  "get_item c = (200, Object [(''item'', AString (Param c ''id'')), (''status'', AString ''ok'')])"

text \<open>The routes; gin answers 404 for all others.\<close>

definition example_handler :: "('q, 'u, 'h) example_env \<Rightarrow> exchange \<Rightarrow> (int \<times> reply_body) option" where
  "example_handler xe ex =
     (let c = ex_c ex; route = (ex_Method ex, ex_FullPath ex)
      in if route = (''GET'', ''/healthz'') then Some get_healthz
         else if route = (''GET'', ''/version'') then Some (get_version (xe_build xe))
         else if route = (''GET'', ''/i18n/hello'') then Some (get_hello (xe_fmt xe) (xe_translator xe) c)
         else if route = (''POST'', ''/users'') then Some (post_users (xe_binding xe) (xe_validator xe) c)
         else if route = (''GET'', ''/fail'') then Some get_fail
         else if route = (''GET'', ''/time'') then Some (get_time (xe_rfc3339 xe) (xe_now xe))
         else if route = (''GET'', ''/i18n/items'') then Some (get_items (xe_fmt xe) (xe_translator xe) c)
         else if route = (''GET'', ''/items/:id'') then Some (get_item c)
         else None)"

text \<open>A reply as it is written: the code of an envelope, or the text \<open>Marshal\<close> gives for an object.\<close>

definition reply_text :: "(any \<Rightarrow> string) \<Rightarrow> reply_body \<Rightarrow> string" where
  "reply_text Marshal b = (case b of Envelope r \<Rightarrow> ar_Code r | Object kvs \<Rightarrow> Marshal (AMap kvs))"

definition example_route :: "(any \<Rightarrow> string) \<Rightarrow> ('q, 'u, 'h) example_env \<Rightarrow> 'w rest_of_chain" where
  "example_route Marshal xe ex w =
     (case example_handler xe ex of
        None \<Rightarrow> Served (write_json 404 ''404 page not found'' ex) w
      | Some (status, body) \<Rightarrow> Served (write_json status (reply_text Marshal body) ex) w)"

section \<open>examples/jobs\_example\<close>

record email_payload =
  em_To :: string
  em_Subject :: string

text \<open>The handler of the job; its pause of 250 milliseconds is left out. \<open>Unmarshal\<close> is that of the payload type.\<close>

definition email_send :: "(string \<Rightarrow> go_error + email_payload) \<Rightarrow> 'env handler_func" where
  "email_send Unmarshal env timeout job =
     (case Unmarshal (job_Payload job) of
        Inl err \<Rightarrow> Err err
      | Inr payload \<Rightarrow>
          Ok (AMap [(''delivered'', ABool True), (''to'', AString (em_To payload)), (''subject'', AString (em_Subject payload))]))"

definition jobs_example_config :: job_config where
  "jobs_example_config =
     \<lparr>jc_Name = ''jobs-example'', jc_DefaultQueue = [], jc_Workers = 2, jc_QueueBuffer = 32, jc_ClaimInterval = 0,
      jc_CleanupInterval = 0, jc_Retention = 0, jc_DefaultMaxAttempts = 0, jc_DefaultTimeout = 0, jc_RetryBaseDelay = 0,
      jc_RetryMaxDelay = 0, jc_AllowEnqueueWithoutHandler = False\<rparr>"

definition example_payload :: string where
  "example_payload =
     (let q = [CHR 0x22]
      in ''{'' @ q @ ''to'' @ q @ '':'' @ q @ ''demo@example.com'' @ q @ '','' @
         q @ ''subject'' @ q @ '':'' @ q @ ''Background jobs are live'' @ q @ ''}'')"

definition example_request :: enqueue_request where
  "example_request =
     \<lparr>rq_ID = [], rq_Type = ''email.send'', rq_Queue = [], rq_Payload = example_payload, rq_Metadata = Map.empty,
      rq_MaxAttempts = 0, rq_Timeout = 0, rq_RunAfter = None\<rparr>"

text \<open>\<open>main\<close> up to the server: an error of a step is a panic of the program, here \<open>Err\<close>.\<close>

definition jobs_example ::
    "(string \<Rightarrow> go_error + email_payload) \<Rightarrow> go_time \<Rightarrow> string \<Rightarrow> go_time \<Rightarrow> go_error + job \<times> (mem_store, 'env) runtime" where
  "jobs_example Unmarshal startedAt uuid now =
     (case NewManager jobs_example_config NewMemoryStore None of
        Inl err \<Rightarrow> Err err
      | Inr m \<Rightarrow>
          (case RegisterHandler m ''email.send'' (Some (email_send Unmarshal)) [WithHandlerDescription ''Simulate sending an email''] of
             Inl err \<Rightarrow> Err err
           | Inr m \<Rightarrow>
               let rt = Start startedAt (initial_runtime m)
               in (case Enqueue memory_ops uuid now Background example_request (rt_mgr rt) of
                    (Inl err, _) \<Rightarrow> Err err
                  | (Inr job, m) \<Rightarrow> Ok (job, rt\<lparr>rt_mgr := m\<rparr>))))"

section \<open>The administration server\<close>

text \<open>\<open>NewAdminEngine\<close> of \<open>pkg/jobs/http.go\<close>: the chain in front of the routes of \<open>RegisterAdminRoutes\<close>.\<close>

definition NewAdminEngine ::
    "('f, 'l) rate_lib \<Rightarrow> (go_duration \<Rightarrow> string) \<Rightarrow> (('f, 'l) engine_options \<Rightarrow> ('f, 'l) engine_options) list \<Rightarrow> request_env \<Rightarrow>
     'l server_state handler list" where
  "NewAdminEngine lib fmt opts env = NewEngine lib fmt (collect_options ([WithRecovery True, WithPrometheus True] @ opts)) env"

text \<open>The end of \<open>main\<close>: what the example serves until it is stopped.\<close>

definition jobs_example_server :: "'v viper_ops \<Rightarrow> server_os \<Rightarrow> listener option \<times> go_error option" where
  "jobs_example_server vi sys = server_Start vi sys [StartWithAddr '':8091'']"

definition auth_example_server :: "'v viper_ops \<Rightarrow> server_os \<Rightarrow> 'v config \<Rightarrow> listener option \<times> go_error option" where
  "auth_example_server vi sys cfg = server_Start vi sys [StartWithConfig cfg]"

section \<open>Lemmas\<close>

text \<open>The administration engine answers every request, whatever its routes do.\<close>

lemma admin_engine_answers:
  assumes "tame route"
  shows "\<exists>ex' w'. serve (NewAdminEngine lib fmt [] env) route ex w = Served ex' w' \<and> ss_inFlight w' = ss_inFlight w"
  using engine_answers [OF _ _ _ assms, of "collect_options [WithRecovery True, WithPrometheus True]" lib fmt env ex w]
  by (auto simp: NewAdminEngine_def collect_options_def engine_option_defs zero_engine_options_def)


lemma calm_i18n: "calm (gin_handler (i18n_GinMiddleware tr o' cookie))"
  by (rule calm_running [where u = "\<lambda>ex w. w"
        and f = "\<lambda>ex w. ex\<lparr>ex_c := (ex_c ex)\<lparr>gc_keys := (gc_keys (ex_c ex))(''i18n_locale'' \<mapsto> AString (detect_locale tr o' cookie (ex_c ex)))\<rparr>\<rparr>"])
    (simp_all add: gin_handler_def i18n_GinMiddleware_def)

lemma write_json_header [simp]: "ex_Header (write_json status err ex) = ex_Header ex"
  by (simp add: write_json_def write_status_def Let_def)

lemma good_example_route: "good (example_route Marshal xe)"
  unfolding good_def by (auto simp: example_route_def split: option.split)

lemma example_answers:
  fixes lib :: "('f, 'l) rate_lib"
  assumes "\<forall>h. tracing = Some h \<longrightarrow> calm h"
  shows "\<exists>ex' w'. serve (example_chain lib fmt float env tracing tr cookie) (example_route Marshal xe) ex w = Served ex' w' \<and>
    ss_inFlight w' = ss_inFlight w"
proof -
  let ?opt = "example_engine_options float :: ('f, 'l) engine_options"
  let ?rest = "(case tracing of None \<Rightarrow> [] | Some h \<Rightarrow> [h]) @ [gin_handler (i18n_GinMiddleware tr defaultGinDetectOptions cookie)]"
  have opt: "eo_recovery ?opt" "eo_addMiddleware ?opt = []" "eo_audit ?opt = None"
    by (simp_all add: example_engine_options_def collect_options_def engine_option_defs zero_engine_options_def)
  have t: "tame (serve ?rest (example_route Marshal xe))"
    using assms by (intro good_tame good_serve good_example_route) (auto simp: calm_i18n split: option.splits)
  have m: "\<forall>h\<in>set (eo_addMiddleware ?opt). calm h" "\<forall>h. eo_audit ?opt = Some h \<longrightarrow> calm h" using opt by simp_all
  from engine_answers [OF opt(1) m t, of lib fmt env ex w]
  have "\<exists>ex' w'. serve (NewEngine lib fmt ?opt env) (serve ?rest (example_route Marshal xe)) ex w = Served ex' w' \<and>
      ss_inFlight w' = ss_inFlight w" by blast
  then show ?thesis by (simp add: example_chain_def)
qed


text \<open>The reply to a new user: an id made of a slug, or the errors of the fields with a client error.\<close>

lemma post_users_reply:
  "post_users g vi c =
     (case gb_JSON g c of
        Inr user \<Rightarrow>
          (200, Envelope (snd (response_Success (Some (AMap
             [(''id'', AString (''user:'' @ Slugify (cu_Name user))), (''email'', AString (cu_Email user))])))))
      | Inl err \<Rightarrow> (case JSONError (ParseError vi (Some err)) of (status, body) \<Rightarrow> (status, Envelope body)))"
proof (cases "gb_JSON g c")
  case (Inl err)
  obtain ae where "ParseError vi (Some err) = Some ae" using ParseError_Some by blast
  with Inl show ?thesis
    by (simp add: post_users_def BindJSON_def Bind_def handled_def HandleError_def in_envelope_def split_beta)
next
  case (Inr user)
  then show ?thesis
    by (simp add: post_users_def BindJSON_def Bind_def in_envelope_def response_Success_def JSONSuccess_def)
qed

lemma post_users_status:
  assumes "post_users g vi c = (status, body)"
  shows "status = 200 \<and> (\<exists>user slug. gb_JSON g c = Inr user \<and> is_slug slug \<and>
      body = Envelope (snd (response_Success (Some (AMap [(''id'', AString (''user:'' @ slug)), (''email'', AString (cu_Email user))]))))) \<or>
    status \<in> {400, 422} \<and> (\<exists>err r. gb_JSON g c = Inl err \<and> body = Envelope r \<and> \<not> ar_Success r)"
proof (cases "gb_JSON g c")
  case (Inl err)
  obtain ae where "ParseError vi (Some err) = Some ae" using ParseError_Some by blast
  with Inl ParseError_client_error [OF this] assms show ?thesis
    by (auto simp: post_users_reply JSONError_def Let_def)
next
  case (Inr user)
  with assms Slugify_is_slug [of "cu_Name user"] show ?thesis by (auto simp: post_users_reply)
qed

text \<open>The manager of the jobs example, started, with its one handler.\<close>

definition email_registration :: "(string \<Rightarrow> go_error + email_payload) \<Rightarrow> 'env handler_registration" where
  "email_registration Unmarshal =
     \<lparr>hr_info = \<lparr>hi_Type = ''email.send'', hi_Description = ''Simulate sending an email'', hi_Queue = ''default'', hi_MaxAttempts = 3,
        hi_Timeout = 30 * Second\<rparr>, hr_handler = email_send Unmarshal\<rparr>"

definition email_job :: "string \<Rightarrow> go_time \<Rightarrow> job" where
  "email_job uuid now =
     \<lparr>job_ID = uuid, job_Type = ''email.send'', job_Queue = ''default'', job_Status = StatusQueued, job_Payload = example_payload,
      job_Result = [], job_Metadata = [''job_manager'' \<mapsto> ''jobs-example''], job_Attempt = 0, job_MaxAttempts = 3,
      job_Timeout = 30 * Second, job_LastError = [], job_CreatedAt = now, job_UpdatedAt = now, job_AvailableAt = now,
      job_StartedAt = None, job_CompletedAt = None\<rparr>"

definition example_manager :: "(string \<Rightarrow> go_error + email_payload) \<Rightarrow> go_time \<Rightarrow> (mem_store, 'env) manager" where
  "example_manager Unmarshal startedAt =
     \<lparr>mg_cfg = normalizeConfig jobs_example_config, mg_store = NewMemoryStore, mg_metrics = None,
      mg_handlers = [(''email.send'', email_registration Unmarshal)], mg_workCh = [], mg_startedAt = startedAt,
      mg_running = True, mg_activeWorkers = 0\<rparr>"

definition example_runtime ::
    "(string \<Rightarrow> go_error + email_payload) \<Rightarrow> go_time \<Rightarrow> string \<Rightarrow> go_time \<Rightarrow> (mem_store, 'env) runtime" where
  "example_runtime Unmarshal startedAt uuid now =
     \<lparr>rt_mgr = (example_manager Unmarshal startedAt)\<lparr>mg_store := \<lparr>ms_jobs = [(uuid, email_job uuid now)]\<rparr>\<rparr>,
      rt_pending = [], rt_busy = [], rt_live = True, rt_done = False\<rparr>"

lemma example_cfg:
  "normalizeConfig jobs_example_config = DefaultConfig\<lparr>jc_Name := ''jobs-example'', jc_Workers := 2, jc_QueueBuffer := 32\<rparr>"
  by (simp add: normalizeConfig_def jobs_example_config_def DefaultConfig_def or_default_def or_default_str_def duration_defs)

lemma jobs_example_accepted:
  assumes "uuid \<noteq> []"
  shows "jobs_example Unmarshal startedAt uuid now =
    Ok (email_job uuid now, example_runtime Unmarshal startedAt uuid now)"
  using assms
  by (simp add: jobs_example_def NewManager_def newMetrics_def RegisterHandler_def example_cfg DefaultConfig_def
        WithHandlerDescription_def Start_def initial_runtime_def Enqueue_def getHandler_def example_request_def new_job_def
        normalizeJobID_def enqueue_metadata_def enqueue_context_def Background_def ClaimsFromContext_def
        RequestContextFromContext_def memory_ops_def mem_Create_def mem_put_def NewMemoryStore_def example_manager_def
        email_registration_def email_job_def example_runtime_def count_enqueued_def syncStoredGauge_def Let_def)

lemma example_runtime_ok:
  assumes "uuid \<noteq> []"
  shows "runtime_ok mem_abs mem_inv [] (example_runtime Unmarshal startedAt uuid now)"
  using assms
  by (simp add: example_runtime_def runtime_ok_def manager_ok_def store_ok_def flight_ok_def in_flight_def jobs_ok_def job_ok_def mem_abs_def mem_inv_def
        example_manager_def example_cfg DefaultConfig_def email_registration_def email_job_def int64_range_def waiting_def)

section \<open>Properties\<close>

text \<open>
  C38. The jobs example delivers. \<open>main\<close> of \<open>examples/jobs\_example\<close> reaches its server without a panic, with one queued job; if the
  payload can be decoded and the result encoded, the goroutines of the runtime can execute this job at any later time: it is
  stored as succeeded, after one attempt, with the encoded result.
\<close>

theorem jobs_example_delivers:
  assumes "uuid \<noteq> []" and "now \<le> later" and "Unmarshal example_payload = Inr p"
    and "Marshal (AMap [(''delivered'', ABool True), (''to'', AString (em_To p)), (''subject'', AString (em_Subject p))]) = Inr raw"
  shows "\<exists>(rt :: (mem_store, 'env) runtime) rt' j. jobs_example Unmarshal startedAt uuid now = Ok (email_job uuid now, rt) \<and>
    (runtime_step memory_ops Marshal)\<^sup>*\<^sup>* rt rt' \<and> mem_abs (mg_store (rt_mgr rt')) uuid = Some j \<and>
    job_Status j = StatusSucceeded \<and> job_Result j = raw \<and> job_Attempt j = 1 \<and> job_CompletedAt j = Some later"
proof -
  let ?j = "email_job uuid now" and ?h = "email_registration Unmarshal"
  define rt where "rt = (example_runtime Unmarshal startedAt uuid now :: (mem_store, 'env) runtime)"
  have m: "rt_live rt" "rt_pending rt = []" "mg_workCh (rt_mgr rt) = []" "0 < jc_QueueBuffer (mg_cfg (rt_mgr rt))"
    "int (length (rt_busy rt)) < jc_Workers (mg_cfg (rt_mgr rt))" "mg_handlers (rt_mgr rt) \<noteq> []"
    by (simp_all add: rt_def example_runtime_def example_manager_def example_cfg)
  have ready: "ready_jobs (mg_store (rt_mgr rt)) later \<lparr>cf_Queues = [], cf_Types = handlerTypes (rt_mgr rt)\<rparr> = [?j]"
    using assms(2)
    by (simp add: ready_jobs_def rt_def example_runtime_def email_job_def waiting_def filter_allows_def handlerTypes_def example_manager_def email_registration_def)
  have h: "getHandler (rt_mgr rt) (job_Type ?j) = Some ?h"
    by (simp add: getHandler_def rt_def example_runtime_def example_manager_def email_job_def)
  have ok: "runtime_ok mem_abs mem_inv [] rt" unfolding rt_def by (rule example_runtime_ok [OF assms(1)])
  obtain rt' m3 where run: "(runtime_step memory_ops Marshal)\<^sup>*\<^sup>* rt rt'"
    and stored: "mem_abs (mg_store m3) (job_ID ?j) = Some (job_claimed later ?j)"
    and rt': "rt_mgr rt' = worker_end (snd (run_job memory_ops Marshal undefined later (Some ?h) (job_claimed later ?j) m3))"
    using ready_job_run [OF ok m ready, of Marshal undefined] h by auto
  have "mem_abs (mg_store (rt_mgr rt')) uuid = Some (job_succeeded raw later (job_claimed later ?j))"
    using run_job_succeeds [of m3 "job_claimed later ?j" ?h undefined _ Marshal raw later] stored assms(3,4)
    by (simp add: rt' job_claimed_def email_job_def email_registration_def email_send_def marshalResult_def)
  moreover have "job_Attempt (job_succeeded raw later (job_claimed later ?j)) = 1" "job_Result (job_succeeded raw later (job_claimed later ?j)) = raw"
    "job_Status (job_succeeded raw later (job_claimed later ?j)) = StatusSucceeded"
    "job_CompletedAt (job_succeeded raw later (job_claimed later ?j)) = Some later"
    by (simp_all add: job_succeeded_def job_claimed_def email_job_def wrap64_def)
  ultimately show ?thesis
    using jobs_example_accepted [OF assms(1), of Unmarshal startedAt now] run unfolding rt_def by blast
qed


theorem jobs_example_delivers_witness:
  "\<exists>(rt :: (mem_store, unit) runtime) rt' j. jobs_example (\<lambda>_. Inr \<lparr>em_To = ''a'', em_Subject = ''b''\<rparr>) 1 ''u-1'' 5 = Ok (email_job ''u-1'' 5, rt) \<and>
     (runtime_step memory_ops (\<lambda>_. Inr ''{}''))\<^sup>*\<^sup>* rt rt' \<and> mem_abs (mg_store (rt_mgr rt')) ''u-1'' = Some j \<and>
     job_Status j = StatusSucceeded \<and> job_Result j = ''{}''"
  using jobs_example_delivers [of "''u-1''" 5 9 "\<lambda>_. Inr \<lparr>em_To = ''a'', em_Subject = ''b''\<rparr>" "\<lparr>em_To = ''a'', em_Subject = ''b''\<rparr>"
      "\<lambda>_. Inr ''{}''" "''{}''" 1, where 'env = unit]
  by auto

text \<open>The bundles of the example, \<open>locales/en.json\<close> and \<open>locales/fr.json\<close>.\<close>

definition example_locale_dir :: "string \<Rightarrow> (string \<times> bool) list option" where
  "example_locale_dir dir = Some [(''en.json'', False), (''fr.json'', False)]"

definition example_bundles :: "string \<Rightarrow> go_error + (string \<times> string) list" where
  "example_bundles path =
     (if HasSuffix path ''en.json''
      then Ok [(''greeting'', ''Hello, {{name}}!''), (''cart.items.one'', ''You have {{count}} item''),
               (''cart.items.other'', ''You have {{count}} items'')]
      else Ok [(''greeting'', ''Bonjour, {{name}} !''), (''cart.items.one'', ''Vous avez {{count}} article''),
               (''cart.items.other'', ''Vous avez {{count}} articles'')])"

definition shipped_translator :: translator where
  "shipped_translator = example_translator example_bundles example_locale_dir (\<lambda>dir name. dir @ ''/'' @ name)"

lemma example_greetings:
  "i18n_T (\<lambda>_. []) shipped_translator ''en'' ''greeting'' [(''name'', AString ''world'')] None = ''Hello, world!''"
  "i18n_T (\<lambda>_. []) shipped_translator ''de'' ''greeting'' [(''name'', AString ''world'')] None = ''Bonjour, world !''"
  by code_simp+

end
