(* ===== verification/Spec2Isabelle.thy ===== *)
theory Spec2Isabelle
  imports Apperr Tenant_Context Auth_Claims Jobs_Memory Jobs_Manager Jobs_Liveness Jobs_Redis_Store
    Jobs_Http Tenant_Access Auth_Jwt Events_Outbox Quota Permissions Controlplane Permission_Decision
    Authz Http_Client Tenant_Sql Server_Engine Runtime_Config App_Config Audit_Trail App_Run Roles Feature_Flags
    Translator Utils Validator Postgres Log_Export Logging Auth_Setup Example_Services
begin

text \<open>
  \<^bold>\<open>core-lab: a shared library of Go services.\<close>

  The repository is a library that multi-tenant services are built from. A request enters through a
  gin engine (\<open>pkg/server\<close>), where middlewares authenticate it (\<open>pkg/auth\<close>), resolve the tenant it
  may act on, charge the tenant's quota (\<open>pkg/quota\<close>) and check permissions. Handlers enqueue
  background jobs (\<open>pkg/jobs\<close>), write business events to an outbox (\<open>pkg/events\<close>) and report failures
  in one error format (\<open>pkg/apperr\<close>, \<open>pkg/errors\<close>, \<open>pkg/response\<close>). Tenant, user, service and
  correlation id travel between these parts in the context of the request (\<open>pkg/tenant\<close>). Changing
  requests are reported as audit events (\<open>pkg/audit\<close>), and \<open>pkg/app\<close> assembles a service from all of this, from
  its configuration (\<open>pkg/config\<close>, \<open>pkg/runtimeconfig\<close>) to its shutdown.

  \<^bold>\<open>Theories and the code they model.\<close>

    \<^item> \<open>Core_Prelude\<close>: what the sources use of Go and its library (package \<open>strings\<close> on bytes,
      \<open>int64\<close> wrap-around, instants and durations, \<open>strconv\<close> on integers, values of type \<open>any\<close>,
      \<open>sort.Slice\<close>), the capped doubling loop of the retry delays, and the locales that several
      components instantiate: \<open>budget\<close>, the contract of a limiter; \<open>expiring_cache\<close>, the contract of a cache with a
      lifetime (keys, service tokens, decisions); \<open>step_system\<close>, invariants over the runs of a step relation (job
      runtime, audit consumer, log exporter).
    \<^item> \<open>Apperr\<close>: \<open>pkg/apperr\<close>, \<open>pkg/errors\<close>, \<open>pkg/response\<close>.
    \<^item> \<open>Tenant_Context\<close>: \<open>pkg/tenant\<close>.
    \<^item> \<open>Auth_Claims\<close>: \<open>pkg/auth/claims.go\<close>, \<open>pkg/auth/context.go\<close> and the pure helpers of
      \<open>pkg/auth/authorizer.go\<close>.
    \<^item> \<open>Tenant_Access\<close>: \<open>pkg/auth/tenant.go\<close>, \<open>pkg/auth/tenant_access.go\<close> and
      \<open>pkg/server/middleware/tenantstatus.go\<close>; the record \<open>gin_ctx\<close> of a request and the result
      \<open>mw_result\<close> of a middleware, which the later middlewares share.
    \<^item> \<open>Auth_Jwt\<close>: \<open>pkg/auth/jwks.go\<close>, the verifier and the authorizer of \<open>pkg/auth/authorizer.go\<close>.
    \<^item> \<open>Permissions\<close>: \<open>pkg/permissions\<close>, the source of the lookup that the authorizer consults.
    \<^item> \<open>Jobs_Store\<close>: \<open>pkg/jobs/types.go\<close> and the \<open>Store\<close> interface of \<open>pkg/jobs/store.go\<close>, as the record
      \<open>store_ops\<close> of its methods and the locale \<open>job_store\<close> of what they promise.
    \<^item> \<open>Jobs_Memory\<close>: the \<open>MemoryStore\<close> of \<open>pkg/jobs/store.go\<close>, an interpretation of \<open>job_store\<close>.
    \<^item> \<open>Jobs_Manager\<close>: \<open>pkg/jobs/manager.go\<close> and \<open>pkg/jobs/metrics.go\<close>. The goroutines (dispatcher,
      workers, janitor) and the calls from outside are the step relation \<open>runtime_step\<close>.
    \<^item> \<open>Jobs_Liveness\<close>: progress of that step relation: ready jobs are executed, shutdown completes.
    \<^item> \<open>Jobs_Redis\<close> and \<open>Jobs_Redis_Store\<close>: the \<open>RedisStore\<close> of \<open>pkg/jobs/redis_store.go\<close> with its two Lua
      scripts, over the documented commands of a server (\<open>redis_laws\<close>), and its guarantees.
    \<^item> \<open>Jobs_Http\<close>: \<open>pkg/jobs/http.go\<close>.
    \<^item> \<open>Events_Outbox\<close>: \<open>pkg/events/events.go\<close> and \<open>pkg/events/outbox/processor.go\<close>.
    \<^item> \<open>Quota\<close>: \<open>pkg/quota/quota.go\<close> and \<open>pkg/quota/sentinel.go\<close>.
    \<^item> \<open>Controlplane\<close>: \<open>pkg/controlplane/controlplane.go\<close>, the keys and URLs that the clients of the control
      plane are configured with.
    \<^item> \<open>Permission_Decision\<close>: \<open>pkg/auth/permission_decision.go\<close>, the question that a permission check asks
      the control plane, and its client.
    \<^item> \<open>Auth_Setup\<close>: the constructors of \<open>pkg/auth/authorizer.go\<close> and \<open>pkg/auth/jwks.go\<close>.
    \<^item> \<open>Authz\<close>: \<open>pkg/authz\<close>, the middleware that asks for a decision about every request, with its cache.
    \<^item> \<open>Http_Client\<close>: \<open>pkg/http\<close>, the client that all these calls go through: hooks, retries, circuit breaker,
      token cache and token providers.
    \<^item> \<open>Tenant_Sql\<close>: \<open>pkg/postgres\<close>, the SQL text that carries the tenant into a query or transaction.
    \<^item> \<open>Server_Middleware\<close> and \<open>Server_Engine\<close>: \<open>pkg/server/middleware\<close> as functions of the rest of the chain,
      and the chain that \<open>NewEngine\<close> of \<open>pkg/server\<close> builds from its options; the locale \<open>chain_relation\<close> carries what
      each handler keeps over to the chain.
    \<^item> \<open>Runtime_Config\<close>: \<open>pkg/configmanager\<close> and \<open>pkg/runtimeconfig\<close>, the configuration that a service fetches when it
      starts, and its cache file.
    \<^item> \<open>App_Config\<close>: \<open>pkg/config\<close> over the operations of viper, which are the record \<open>viper_ops\<close>.
    \<^item> \<open>Audit_Trail\<close>: \<open>pkg/audit\<close>. The middleware is a function of the rest of the chain; the publisher with its queue and
      the consumer with its offsets are the step relations \<open>publisher_run\<close> and \<open>consumer_step\<close>.
    \<^item> \<open>App_Run\<close>: \<open>pkg/app/app.go\<close>, and the start options, TLS modes and \<open>Start\<close> of \<open>pkg/server\<close>. A run of an application
      is the list of its actions.
    \<^item> \<open>Roles\<close> and \<open>Feature_Flags\<close>: \<open>pkg/roles\<close>, the reconciliation of roles with the control plane, and \<open>pkg/featureflags\<close>.
    \<^item> \<open>Translator\<close>: \<open>pkg/i18n/translator.go\<close>.
    \<^item> \<open>Utils\<close> and \<open>Validator\<close>: \<open>pkg/utils\<close>, with the decoding of UTF-8, \<open>pkg/version\<close>, and \<open>pkg/validator\<close>.
    \<^item> \<open>Postgres\<close>: the connections of \<open>pkg/postgres/postgres.go\<close> and the runs of \<open>pkg/postgres/migrations.go\<close>.
    \<^item> \<open>Log_Export\<close>: \<open>pkg/observability/endpoint.go\<close> and \<open>logs.go\<close>; goroutines that share an exporter are the step
      relation \<open>export_step\<close>, with one step for each section under its mutex.
    \<^item> \<open>Logging\<close>: \<open>pkg/logger\<close> and the rest of \<open>pkg/observability\<close>: configuration, context keys, shutdown, spans,
      metrics.
    \<^item> \<open>Example_Services\<close>: the two programs of \<open>examples/\<close>, which put the components together.

  This theory has the properties that span several components.

  \<^bold>\<open>How the code is represented.\<close> Definitions carry the names of the Go functions, with a prefix
  where two packages use the same name. A struct is a record, a nil pointer or error is \<open>None\<close>, a
  function returning a value and an error has a sum type, a Go \<open>error\<close> is a \<open>go_error\<close>. State is
  passed explicitly; what runs under a mutex is one step. A map that is only looked up is a HOL map,
  one that is iterated is an association list with distinct keys, so that the order of iteration is
  part of the state. The wall clock, random identifiers, the network and code of other modules are
  arguments; their behaviour is constrained only where a theorem names it as a hypothesis (the JWT
  library in \<open>verify_sound\<close>). A \<open>gin.Context\<close> is the record \<open>gin_ctx\<close>, and \<open>AbortWithStatusJSON\<close>
  keeps the status and the error code of the body. Functional options are functions.

  \<^bold>\<open>What is shown.\<close>

    \<^item> The whole request: the tenant of a verified user token is the tenant of the request's transactions, of the
      jobs it enqueues and of the events it writes.
    \<^item> Jobs: no job is executed twice at a time, attempts stay within their budget and the dispatcher
      never blocks, in every reachable state and over any store that meets \<open>job_store\<close>; what a worker
      does with a job on every branch; retry delays double up to their cap; the in-memory store claims
      the earliest ready jobs, prunes and counts exactly, independently of the iteration order; paging
      through the administration routes covers the listing, and a refused request changes nothing.
    \<^item> Access: a tenant's token never acts on another tenant, a required tenant is there, every
      accepted token was verified with a key of the provider and has the configured issuer and
      audience, the permission gate lets through only what the claims or the decision service
      grant, permission bit masks mean what the numbering says, and after start-up the gate uses the
      bits that the control plane assigned. A remote decision is asked about the user and the tenant of
      the token, and a cached one is used within its lifetime only.
    \<^item> Clients: one call sends a bounded number of equal requests, each with a token, and a refused token
      is replaced; role URLs and permission codes identify what they name. A service that starts without the
      control plane uses the configuration it was given last.
    \<^item> Server: an engine answers every request, one address cannot spend the rate limit of another, and a
      transaction is scoped to the tenant of the token whatever characters its id has. A service is torn
      down in order, after its server has stopped. Bad input is answered with a client error that names the fields.
    \<^item> Audit: an event carries the tenant and user of the token; accepted events are written in order; an offset
      is committed only after its event was stored, over all failures and restarts of the consumer.
    \<^item> Roles: a successful synchronisation leaves every role with exactly the permissions it should have in the
      services it manages.
    \<^item> Texts and logs: interpolation replaces exactly the placeholders, an added message is found again, a slug is a
      slug, truncation counts runes, and no log entry is lost or reordered before it is sent.
    \<^item> The Redis store implements the same contract as the one in memory (\<open>job_store\<close>), and stays atomic
      when several managers share the server; ready jobs are executed and shutdown completes; the job that the
      example program enqueues is delivered, and every request to the example programs is answered.
    \<^item> Quotas: a day's quota is exact and an outage spends the cached decision; both are instances of
      the one lemma proved in the locale \<open>budget\<close>.
    \<^item> Context, events and errors: round trips and precedence of the request context, the outbox marks
      what it published, backoffs are bounded, errors are reported without their cause.
    \<^item> Behaviour of the code that differs from its intent is stated as lemmas too, for example: the claims
      that become the text \<open><nil>\<close>, the shift of permissions after an unreadable range, the unreachable
      branch of the key lookup, the lost tenant of an enqueued job, abandoned jobs, the starved claims of
      the Redis store, the disagreement of the two tenant status guards, the enforcer that does not see
      the resolved tenant, the daily counter that cleanup resets, refusals of the decision endpoint that
      count as outages, the client certificate that is dropped silently, the tenant status check that runs
      before there are claims, the cut header of the CORS middleware, the unescaped tenant of \<open>SET LOCAL\<close>, the
      nested keys that are not masked, the server that waits with nothing served, the log entries that a failed
      flush loses, the error code of a tag that is never used, the password that is logged from its \<open>@\<close> on, the gauge that records
      nothing, and the second \<open>Stop\<close> of the quota enforcer, which panics.

  \<^bold>\<open>Bounds.\<close> Loops are structural recursions or have a termination proof. Only the paging loops of
  \<open>redis_List\<close> and \<open>redis_Stats\<close> take fuel, one unit per batch of 250 ids, and \<open>redis_list_terminates\<close> shows
  that any fuel with \<open>250 * fuel\<close> above the size of the index suffices. The
  delay theorems assume durations of at most \<open>2 ^ 62\<close> nanoseconds (146 years), where doubling cannot
  wrap; the quota theorem assumes limits of at most \<open>2 ^ 53\<close>, where counting in \<open>float64\<close> is exact.
  \<open>ToLower\<close> and \<open>EqualFold\<close> are modelled on ASCII letters.

  \<^bold>\<open>What is not modelled.\<close> The text of log lines, JSON encoding and decoding, sockets, the Kafka transport, and the
  inside of the libraries (OpenTelemetry, zap, viper, gin, the JWT library): the sources only call them, so they are
  parameters. Struct types that are only filled by JSON decoding and handed on to the caller (the responses of
  \<open>pkg/configmanager\<close>, the catalogue listings of \<open>pkg/permissions/models.go\<close>) have no behaviour here and no
  definition, and neither has the helper \<open>parseIntStringDefault\<close> of \<open>pkg/auth/jwks.go\<close>, which nothing calls.
\<close>

section \<open>One tenant from the token to the stored data\<close>

text \<open>
  C1. A request acts for one tenant, from its token to what it stores. When a request without claims passed
  authentication and then the tenant middleware, with a user token that carries a tenant, then that token was
  accepted by \<open>Verify\<close>, and this one tenant scopes the database transactions of the request, is stored with a
  job that the request enqueues and with an event that it writes (unless the handler names a tenant itself).
\<close>

theorem request_acts_for_one_tenant:
  assumes "gc_claims c0 = None" and "RequireAuthenticated env v c0 = (Next c, v')" and "GetClaims c = Some cl"
    and "\<not> IsServiceToken cl" and "TenantID cl \<noteq> []" and "TenantAccessMiddleware cfg c = Next c1"
    and "Enqueue memory_ops uuid now (gc_req c1) jreq m = (Inr j, m')" and "rq_Metadata jreq MetadataTenantID = None"
    and "NewEnvelope Marshal uuid' now' (gc_req c1) ereq = Inr ev" and "TrimSpace (publish_request.pr_TenantID ereq) = []"
  shows "(\<exists>token. ExtractBearerToken (gc_Authorization c0) = Inr token \<and> Verify env token v = (Inr cl, v')) \<and>
    tenantIDFromContext (StdContext (gc_req c1)) = TenantID cl \<and>
    job_Metadata j MetadataTenantID = Some (TenantID cl) \<and> ev_TenantID ev = TenantID cl"
proof -
  obtain token where token: "ExtractBearerToken (gc_Authorization c0) = Inr token" "Verify env token v = (Inr cl, v')"
    and ctx: "ClaimsFromContext (gc_req c) = Some cl"
    using authenticated_request [OF assms(1-3)] by blast
  note passed = TenantAccess_request_context [OF assms(3-6)]
  have "job_Metadata j MetadataTenantID = Some (TenantID cl)"
    using enqueue_tenant_of_claims [of "gc_req c1" cl "rq_Metadata jreq"] assms(5,8) Enqueue_metadata [OF assms(7)] passed(2) ctx by simp
  moreover have "ev_TenantID ev = TenantID cl"
    using envelope_tenant_precedence [OF assms(9)] passed(1) assms(10) by auto
  ultimately show ?thesis
    using token tenant_of_context(1) [OF assms(3-6)] by blast
qed

text \<open>A signed user token of the tenant \<open>t1\<close>, and a verifier that accepts it.\<close>

definition user_token :: jwt_token where
  "user_token = demo_token\<lparr>tk_Claims := [''sub'' \<mapsto> AString ''alice'', ''token_use'' \<mapsto> AString ''access'',
     ''tenant_id'' \<mapsto> AString ''t1'']\<rparr>"

definition user_env :: verify_env where
  "user_env = demo_env\<lparr>ve_lib := \<lparr>ParseUnverified = (\<lambda>_. Inr user_token),
     jwt_Parse = (\<lambda>s kf. if s = ''good'' then (case kf user_token of Inl e \<Rightarrow> Inl e | Inr _ \<Rightarrow> Inr user_token)
                        else Inl (EPlain ''bad signature''))\<rparr>\<rparr>"

definition user_claims :: claims where
  "user_claims = mapClaimsToAuthClaims (\<lambda>_. []) (tk_Claims user_token)"

lemma user_verify: "Verify user_env ''good'' demo_verifier = (Inr user_claims, demo_verifier)"
  by (simp add: Verify_def lookupVerificationKeys_def user_env_def demo_env_def demo_verifier_def dedupeVerificationKeys_def
        verifyWithKey_def validateTokenMethodWithKey_def user_token_def demo_token_def validateIssuerClaim_def
        validateAudienceClaim_def user_claims_def Let_def)

lemma user_claims_simps:
  "TenantID user_claims = ''t1''" "\<not> IsServiceToken user_claims" "TenantStatus user_claims = []"
  "TenantMembershipStatus user_claims = []"
  by (simp_all add: user_claims_def user_token_def demo_token_def mapClaimsToAuthClaims_def TenantID_def TenantStatus_def
        TenantMembershipStatus_def ClaimString_def IsServiceToken_def EqualFold_def ToLower_def to_lower_char_def
        less_eq_char_def index_any_def plain_char_code Let_def)

theorem request_acts_for_one_tenant_witness:
  "\<exists>c c1 j m' ev. RequireAuthenticated user_env demo_verifier
       (demo_request\<lparr>gc_claims := None, gc_Authorization := ''Bearer good''\<rparr>) = (Next c, demo_verifier) \<and>
     TenantAccessMiddleware DefaultTenantAccessConfig c = Next c1 \<and>
     Enqueue memory_ops ''u-1'' 5 (gc_req c1)
       \<lparr>rq_ID = [], rq_Type = ''mail'', rq_Queue = [], rq_Payload = [], rq_Metadata = Map.empty,
        rq_MaxAttempts = 0, rq_Timeout = 0, rq_RunAfter = Some 9\<rparr> demo_busy = (Inr j, m') \<and>
     NewEnvelope (\<lambda>_. Inr []) ''e1'' 5 (gc_req c1)
       \<lparr>publish_request.pr_ServiceID = ''svc'', pr_EventType = ''t'', pr_EventVersion = [], pr_TenantID = [],
        pr_ResourceType = [], pr_ResourceID = [], pr_Metadata = Map.empty, pr_Payload = NilPayload\<rparr> = Inr ev \<and>
     job_Metadata j MetadataTenantID = Some ''t1'' \<and> ev_TenantID ev = ''t1''"
proof -
  let ?start = "demo_request\<lparr>gc_claims := None, gc_Authorization := ''Bearer good''\<rparr>"
  let ?c = "?start\<lparr>gc_claims := Some user_claims, gc_req := ContextWithClaims (gc_req ?start) user_claims\<rparr>"
  let ?jreq = "\<lparr>rq_ID = [], rq_Type = ''mail'', rq_Queue = [], rq_Payload = [], rq_Metadata = Map.empty,
        rq_MaxAttempts = 0, rq_Timeout = 0, rq_RunAfter = Some 9\<rparr>"
  let ?ereq = "\<lparr>publish_request.pr_ServiceID = ''svc'', pr_EventType = ''t'', pr_EventVersion = [], pr_TenantID = [],
        pr_ResourceType = [], pr_ResourceID = [], pr_Metadata = Map.empty, pr_Payload = NilPayload\<rparr>"
  have token: "ExtractBearerToken ''Bearer good'' = Inr ''good''"
    by (simp add: ExtractBearerToken_def bearer_prefix_def plain_char_code Let_def)
  then have auth: "RequireAuthenticated user_env demo_verifier ?start = (Next ?c, demo_verifier)"
    by (simp add: RequireAuthenticated_def ensure_claims_def GetClaims_def authenticate_def user_verify)
  have cl: "GetClaims ?c = Some user_claims" by (simp add: GetClaims_def)
  have "\<exists>t u c1. ResolveTenantUserScope ?c None None DefaultTenantAccessConfig = Inr (t, u, c1)"
    by (simp add: ResolveTenantUserScope_def GetClaims_def demo_request_def DefaultTenantAccessConfig_def
        mergeRequestedScope_def ptrString_def requestedScopeValue_def resolve_user_token_scope_def
        user_claims_simps isBlockedTenantAccessStatus_def Let_def)
  then obtain c1 where c1: "TenantAccessMiddleware DefaultTenantAccessConfig ?c = Next c1"
    by (auto simp: TenantAccessMiddleware_def split: sum.splits)
  have "job_ID (new_job ''u-1'' 5 (mg_cfg demo_busy) h ?jreq) = ''u-1''" for h :: "unit handler_registration option"
    by (simp add: new_job_def normalizeJobID_def Let_def split_beta)
  then obtain j m' where job: "Enqueue memory_ops ''u-1'' 5 (gc_req c1) ?jreq demo_busy = (Inr j, m')"
    by (simp add: Enqueue_def memory_ops_def mem_Create_def getHandler_def demo_busy_def Let_def)
  obtain ev where ev: "NewEnvelope (\<lambda>_. Inr []) ''e1'' 5 (gc_req c1) ?ereq = Inr ev"
    by (cases "RequestContextFromContext (gc_req c1)")
       (simp_all add: NewEnvelope_def marshalPayload_def empty_rc_def first_nonblank_def plain_char_code Let_def)
  have "gc_claims ?start = None" "TenantID user_claims \<noteq> []" "rq_Metadata ?jreq MetadataTenantID = None"
    "TrimSpace (publish_request.pr_TenantID ?ereq) = []"
    by (simp_all add: user_claims_simps)
  note request_acts_for_one_tenant [OF this(1) auth cl user_claims_simps(2) this(2) c1 job this(3) ev this(4)]
  then have "job_Metadata j MetadataTenantID = Some ''t1'' \<and> ev_TenantID ev = ''t1''" by (simp add: user_claims_simps)
  with auth c1 job ev show ?thesis by blast
qed

end
